(* ===== verification/Prelude.thy ===== *)
theory Prelude
  imports Complex_Main "HOL-Library.AList" "HOL-Library.List_Lexorder" "HOL-Library.Sublist"
begin

text \<open>
  Shared vocabulary of the development. A Python \<open>str\<close> is a list of code points
  (\<open>str\<close>), ordered as Python orders strings (lexicographically by code point, the library's
  \<open>List_Lexorder\<close>); an ASCII literal is written \<open>lit ''abc''\<close>. A \<open>dict\<close> is an association
  list in insertion order: storing to a present key keeps its place, storing to a new key appends,
  as CPython does. Floats are read as the real numbers they denote (rounding error of IEEE
  arithmetic is not modelled); \<open>py_round\<close> is Python's \<open>round\<close> (half to even).
\<close>

section \<open>Strings\<close>

type_synonym str = "nat list"

abbreviation lit :: "string \<Rightarrow> str" where
  "lit s \<equiv> map of_char s"

text \<open>The decimal rendering of a natural number, \<open>str(n)\<close>.\<close>

fun dec :: "nat \<Rightarrow> str" where
  "dec n = (if n < 10 then [48 + n] else dec (n div 10) @ [48 + n mod 10])"

declare dec.simps [simp del]

lemma dec_small [simp]: "n < 10 \<Longrightarrow> dec n = [48 + n]"
  by (simp add: dec.simps)

lemma dec_nonempty [simp]: "dec n \<noteq> []"
  by (subst dec.simps) simp

lemma dec_inj: "dec m = dec n \<Longrightarrow> m = n"
proof (induction m arbitrary: n rule: less_induct)
  case (less m)
  show ?case
  proof (cases "m < 10 \<or> n < 10")
    case True
    with less.prems show ?thesis
      by (auto simp: dec.simps[of m] dec.simps[of n] append_eq_Cons_conv
        Cons_eq_append_conv split: if_splits)
  next
    case False
    with less.prems have "dec (m div 10) = dec (n div 10)" and "m mod 10 = n mod 10"
      by (auto simp: dec.simps[of m] dec.simps[of n])
    moreover from False have "m div 10 < m" by simp
    ultimately have "m div 10 = n div 10" using less.IH by blast
    with \<open>m mod 10 = n mod 10\<close> show ?thesis by (metis div_mult_mod_eq)
  qed
qed

lemma dec_eq_iff [simp]: "dec m = dec n \<longleftrightarrow> m = n"
  using dec_inj by blast

text \<open>\<open>str.startswith\<close>, \<open>str.endswith\<close>, \<open>in\<close>, \<open>sep.join\<close>, \<open>str.removeprefix\<close>.\<close>

fun starts_with :: "str \<Rightarrow> str \<Rightarrow> bool" where
  "starts_with s [] = True"
| "starts_with [] (p # ps) = False"
| "starts_with (c # s) (p # ps) = (c = p \<and> starts_with s ps)"

definition ends_with :: "str \<Rightarrow> str \<Rightarrow> bool" where
  "ends_with s p = starts_with (rev s) (rev p)"

fun contains :: "str \<Rightarrow> str \<Rightarrow> bool" where
  "contains [] p = (p = [])"
| "contains (c # s) p = (starts_with (c # s) p \<or> contains s p)"

fun join :: "str \<Rightarrow> str list \<Rightarrow> str" where
  "join sep [] = []"
| "join sep [x] = x"
| "join sep (x # y # xs) = x @ sep @ join sep (y # xs)"

definition removeprefix :: "str \<Rightarrow> str \<Rightarrow> str" where
  "removeprefix s p = (if starts_with s p then drop (length p) s else s)"

lemma starts_with_prefix: "starts_with s p \<longleftrightarrow> prefix p s"
  by (induction s p rule: starts_with.induct) auto

lemma ends_with_suffix: "ends_with s p \<longleftrightarrow> suffix p s"
  by (simp add: ends_with_def starts_with_prefix suffix_to_prefix)

lemma contains_sublist: "contains s p \<longleftrightarrow> sublist p s"
  by (induction s) (auto simp: starts_with_prefix sublist_Cons_right)

lemma starts_with_append [simp]: "starts_with (p @ s) p"
  by (simp add: starts_with_prefix)

section \<open>Insertion-ordered dictionaries\<close>

type_synonym ('k, 'v) dict = "('k \<times> 'v) list"

abbreviation dget :: "('k, 'v) dict \<Rightarrow> 'k \<Rightarrow> 'v option" where
  "dget d k \<equiv> map_of d k"

abbreviation dput :: "'k \<Rightarrow> 'v \<Rightarrow> ('k, 'v) dict \<Rightarrow> ('k, 'v) dict" where
  "dput k v d \<equiv> AList.update k v d"

abbreviation dkeys :: "('k, 'v) dict \<Rightarrow> 'k list" where
  "dkeys d \<equiv> map fst d"

abbreviation dvals :: "('k, 'v) dict \<Rightarrow> 'v list" where
  "dvals d \<equiv> map snd d"

definition dmem :: "'k \<Rightarrow> ('k, 'v) dict \<Rightarrow> bool" where
  "dmem k d = (map_of d k \<noteq> None)"

text \<open>\<open>d.get(k, default)\<close>.\<close>

definition dget_or :: "('k, 'v) dict \<Rightarrow> 'k \<Rightarrow> 'v \<Rightarrow> 'v" where
  "dget_or d k x = (case map_of d k of None \<Rightarrow> x | Some v \<Rightarrow> v)"

text \<open>Updating the value under a key that is present (mutating an object held by the dict).\<close>

definition dmap_at :: "'k \<Rightarrow> ('v \<Rightarrow> 'v) \<Rightarrow> ('k, 'v) dict \<Rightarrow> ('k, 'v) dict" where
  "dmap_at k f d = map (\<lambda>(k', v). if k' = k then (k', f v) else (k', v)) d"

definition dmap_vals :: "('v \<Rightarrow> 'w) \<Rightarrow> ('k, 'v) dict \<Rightarrow> ('k, 'w) dict" where
  "dmap_vals f d = map (\<lambda>(k, v). (k, f v)) d"

declare map_of_eq_Some_iff [simp del] Some_eq_map_of_iff [simp del]

lemma dget_dput [simp]: "dget (dput k v d) k' = (if k' = k then Some v else dget d k')"
  by (simp add: update_conv)

lemma dkeys_dput: "dkeys (dput k v d) = (if k \<in> set (dkeys d) then dkeys d else dkeys d @ [k])"
  by (induction d) auto

lemma distinct_dput [simp]: "distinct (dkeys d) \<Longrightarrow> distinct (dkeys (dput k v d))"
  by (simp add: distinct_update)

lemma set_dkeys_dput [simp]: "fst ` set (dput k v d) = insert k (fst ` set d)"
proof -
  have "set (dkeys (dput k v d)) = insert k (set (dkeys d))"
    by (auto simp: dkeys_dput)
  then show ?thesis by simp
qed

lemma dmem_iff [simp]: "dmem k d \<longleftrightarrow> k \<in> fst ` set d"
  by (auto simp: dmem_def map_of_eq_None_iff image_iff)

lemma dkeys_dmap_at [simp]: "dkeys (dmap_at k f d) = dkeys d"
  by (induction d) (auto simp: dmap_at_def)

lemma dget_dmap_at [simp]:
  "dget (dmap_at k f d) k' = (if k' = k then map_option f (dget d k') else dget d k')"
  by (induction d) (auto simp: dmap_at_def)

lemma dkeys_dmap_vals [simp]: "dkeys (dmap_vals f d) = dkeys d"
  by (induction d) (auto simp: dmap_vals_def)

lemma dget_dmap_vals [simp]: "dget (dmap_vals f d) k = map_option f (dget d k)"
  by (induction d) (auto simp: dmap_vals_def)

lemma dvals_dmap_vals [simp]: "dvals (dmap_vals f d) = map f (dvals d)"
  by (induction d) (auto simp: dmap_vals_def)

text \<open>\<open>list(dict.fromkeys(xs))\<close>: duplicates removed, first occurrences kept.\<close>

fun fromkeys :: "'a list \<Rightarrow> 'a list" where
  "fromkeys [] = []"
| "fromkeys (x # xs) = x # filter (\<lambda>y. y \<noteq> x) (fromkeys xs)"

lemma set_fromkeys [simp]: "set (fromkeys xs) = set xs"
  by (induction xs) auto

lemma distinct_fromkeys [simp]: "distinct (fromkeys xs)"
  by (induction xs) auto

lemma length_fromkeys [simp]: "length (fromkeys xs) = card (set xs)"
  using distinct_card[OF distinct_fromkeys, of xs] by simp

lemma fromkeys_id: "distinct xs \<Longrightarrow> fromkeys xs = xs"
proof (induction xs)
  case (Cons x xs)
  then have "filter (\<lambda>y. y \<noteq> x) xs = xs" by (auto intro: filter_True)
  with Cons show ?case by simp
qed simp

lemma fromkeys_Nil_iff [simp]: "fromkeys xs = [] \<longleftrightarrow> xs = []"
  by (cases xs) auto

section \<open>Numbers\<close>

text \<open>\<open>round(x, n)\<close>: to the nearest multiple of \<open>10 ^ -n\<close>, ties to the even one.\<close>

definition round_even :: "real \<Rightarrow> int" where
  "round_even x =
     (let f = \<lfloor>x\<rfloor>; d = x - of_int f
      in if d < 1/2 then f else if d > 1/2 then f + 1 else if even f then f else f + 1)"

definition py_round :: "real \<Rightarrow> nat \<Rightarrow> real" where
  "py_round x n = of_int (round_even (x * 10 ^ n)) / 10 ^ n"

lemma round_even_of_int [simp]: "round_even (of_int k) = k"
  by (simp add: round_even_def)

lemma round_even_cases: "round_even x = \<lfloor>x\<rfloor> \<or> round_even x = \<lfloor>x\<rfloor> + 1"
  by (simp add: round_even_def Let_def)

lemma round_even_close: "\<bar>of_int (round_even x) - x\<bar> \<le> 1/2"
  unfolding round_even_def Let_def by (auto simp: abs_if) linarith+

lemma round_even_mono_int: "of_int k \<le> x \<Longrightarrow> k \<le> round_even x"
  using round_even_cases[of x] by (auto simp: le_floor_iff[symmetric])

lemma round_even_le_int: "x \<le> of_int k \<Longrightarrow> round_even x \<le> k"
proof -
  assume x: "x \<le> of_int k"
  show ?thesis
  proof (cases "x = of_int k")
    case True then show ?thesis by simp
  next
    case False
    with x have "x < of_int k" by simp
    then have "\<lfloor>x\<rfloor> < k" by (simp add: floor_less_iff)
    then show ?thesis using round_even_cases[of x] by auto
  qed
qed

lemma py_round_bounds:
  assumes "of_int lo \<le> x" and "x \<le> of_int hi"
  shows "of_int lo \<le> py_round x n \<and> py_round x n \<le> of_int hi"
proof -
  from assms have "of_int (lo * 10 ^ n) \<le> x * 10 ^ n" and "x * 10 ^ n \<le> of_int (hi * 10 ^ n)"
    by simp_all
  then have "lo * 10 ^ n \<le> round_even (x * 10 ^ n)" and "round_even (x * 10 ^ n) \<le> hi * 10 ^ n"
    by (auto intro: round_even_mono_int round_even_le_int)
  then have "real_of_int (lo * 10 ^ n) \<le> of_int (round_even (x * 10 ^ n))"
    and "real_of_int (round_even (x * 10 ^ n)) \<le> of_int (hi * 10 ^ n)"
    using of_int_le_iff by blast+
  then show ?thesis
    by (simp add: py_round_def field_simps)
qed

lemma py_round_0_1: "0 \<le> x \<Longrightarrow> x \<le> 1 \<Longrightarrow> 0 \<le> py_round x n \<and> py_round x n \<le> 1"
  using py_round_bounds[of 0 x 1 n] by simp

text \<open>\<open>max(lo, min(hi, x))\<close>.\<close>

definition clamp :: "real \<Rightarrow> real \<Rightarrow> real \<Rightarrow> real" where
  "clamp lo hi x = max lo (min hi x)"

lemma clamp_bounds: "lo \<le> hi \<Longrightarrow> lo \<le> clamp lo hi x \<and> clamp lo hi x \<le> hi"
  by (auto simp: clamp_def)

section \<open>Results\<close>

text \<open>A computation that may raise: \<open>Inl\<close> the exception, \<open>Inr\<close> the value.\<close>

definition rbind :: "'e + 'a \<Rightarrow> ('a \<Rightarrow> 'e + 'b) \<Rightarrow> 'e + 'b" where
  "rbind m f = (case m of Inl e \<Rightarrow> Inl e | Inr x \<Rightarrow> f x)"

lemma rbind_simps [simp]: "rbind (Inl e) f = Inl e" "rbind (Inr x) f = f x"
  by (simp_all add: rbind_def)

lemma rbind_Inr_iff: "rbind m f = Inr y \<longleftrightarrow> (\<exists>x. m = Inr x \<and> f x = Inr y)"
  by (cases m) auto

text \<open>JSON values, as the code stores and redacts them.\<close>

datatype json =
  JNull | JBool bool | JNum real | JStr str | JList "json list" | JObj "(str \<times> json) list"

lemma rbind_Inl_iff: "rbind m f = Inl e \<longleftrightarrow> m = Inl e \<or> (\<exists>x. m = Inr x \<and> f x = Inl e)"
  by (cases m) auto

text \<open>A loop that stops at the first exception: \<open>[f(x) for x in xs]\<close>.\<close>

fun rmap :: "('a \<Rightarrow> 'e + 'b) \<Rightarrow> 'a list \<Rightarrow> 'e + 'b list" where
  "rmap f [] = Inr []"
| "rmap f (x # xs) = rbind (f x) (\<lambda>y. rbind (rmap f xs) (\<lambda>ys. Inr (y # ys)))"

lemma rmap_Inr_length: "rmap f xs = Inr ys \<Longrightarrow> length ys = length xs"
  by (induction xs arbitrary: ys) (auto simp: rbind_Inr_iff)

lemma rmap_Inr_iff: "rmap f xs = Inr ys \<longleftrightarrow> list_all2 (\<lambda>x y. f x = Inr y) xs ys"
  by (induction xs arbitrary: ys) (auto simp: rbind_Inr_iff list_all2_Cons1)

lemma rmap_total: "(\<And>x. x \<in> set xs \<Longrightarrow> \<exists>y. f x = Inr y) \<Longrightarrow> \<exists>ys. rmap f xs = Inr ys"
  by (induction xs) (auto simp: rbind_Inr_iff)

lemma in_set_map_filter: "y \<in> set (List.map_filter f xs) \<longleftrightarrow> (\<exists>x\<in>set xs. f x = Some y)"
  by (force simp: map_filter_def)

lemma find_SomeD: "find P xs = Some x \<Longrightarrow> x \<in> set xs \<and> P x"
  by (induction xs) (auto split: if_splits)

lemma find_SomeI: "x \<in> set xs \<Longrightarrow> P x \<Longrightarrow> \<exists>y. find P xs = Some y"
  by (induction xs) auto

lemma distinct_map_sort_key: "distinct (map f (sort_key g xs)) = distinct (map f xs)"
  by (simp add: distinct_map)

text \<open>\<open>t or ""\<close>, and appending an element that is not there yet.\<close>

definition given :: "str option \<Rightarrow> str" where
  "given t = (case t of None \<Rightarrow> [] | Some s \<Rightarrow> s)"

definition add_new :: "'a \<Rightarrow> 'a list \<Rightarrow> 'a list" where
  "add_new x xs = (if x \<in> set xs then xs else xs @ [x])"

end
