(* ===== verification/Text.thy ===== *)
theory Text
  imports Prelude
begin

text \<open>
  \<open>agent/text.py\<close>: folding, tokens, set overlaps, language detection. The character tables are those
  of CPython for code points below U+0180 (ASCII, Latin-1, Latin Extended-A, which hold English and
  Turkish); above, a code point is its own lower case and only the listed signs are word characters.
  On that range NFC normalisation is the identity: no code point below U+0300 composes.
\<close>

section \<open>Character tables\<close>

text \<open>Simple lower case of one code point.\<close>

definition lower1 :: "nat \<Rightarrow> nat" where
  "lower1 c =
     (if 65 \<le> c \<and> c \<le> 90 \<or> 192 \<le> c \<and> c \<le> 222 \<and> c \<noteq> 215 then c + 32
      else if 256 \<le> c \<and> c \<le> 311 \<and> c \<noteq> 304 \<and> c \<noteq> 305 then (if even c then c + 1 else c)
      else if c = 304 then 105
      else if 313 \<le> c \<and> c \<le> 328 \<or> 377 \<le> c \<and> c \<le> 382 then (if odd c then c + 1 else c)
      else if 330 \<le> c \<and> c \<le> 375 then (if even c then c + 1 else c)
      else if c = 376 then 255 else c)"

text \<open>\<open>str.lower()\<close>: only U+0130 becomes two code points (i and a combining dot).\<close>

definition str_lower :: "str \<Rightarrow> str" where
  "str_lower s = concat (map (\<lambda>c. if c = 304 then [105, 775] else [lower1 c]) s)"

definition is_digit :: "nat \<Rightarrow> bool" where
  "is_digit c = (48 \<le> c \<and> c \<le> 57)"

definition is_alpha :: "nat \<Rightarrow> bool" where
  "is_alpha c = (65 \<le> c \<and> c \<le> 90 \<or> 97 \<le> c \<and> c \<le> 122 \<or> c \<in> {170, 181, 186}
     \<or> 192 \<le> c \<and> c \<le> 383 \<and> c \<noteq> 215 \<and> c \<noteq> 247)"

text \<open>\<open>str.isalnum\<close> of one character; \<open>\<backslash>w\<close> also takes the underscore.\<close>

definition is_alnum :: "nat \<Rightarrow> bool" where
  "is_alnum c = (is_alpha c \<or> is_digit c \<or> c \<in> {178, 179, 185, 188, 189, 190})"

definition is_word :: "nat \<Rightarrow> bool" where
  "is_word c = (is_alnum c \<or> c = 95)"

definition is_space :: "nat \<Rightarrow> bool" where
  "is_space c = (9 \<le> c \<and> c \<le> 13 \<or> 28 \<le> c \<and> c \<le> 32 \<or> c \<in> {133, 160, 5760, 8232, 8233, 8239, 8287, 12288}
     \<or> 8192 \<le> c \<and> c \<le> 8202)"

text \<open>The maximal runs of characters that satisfy a predicate, left to right.\<close>

function runs :: "(nat \<Rightarrow> bool) \<Rightarrow> str \<Rightarrow> str list" where
  "runs P [] = []"
| "runs P (c # s) =
     (if P c then (c # takeWhile P s) # runs P (dropWhile P s) else runs P s)"
  by pat_completeness auto
termination
  by (relation "measure (\<lambda>(P, s). length s)") (auto simp: le_imp_less_Suc length_dropWhile_le)

text \<open>\<open>s.split()\<close>, \<open>s.strip()\<close>, \<open>s.rstrip(chars)\<close>.\<close>

definition split_ws :: "str \<Rightarrow> str list" where
  "split_ws s = runs (\<lambda>c. \<not> is_space c) s"

definition strip :: "str \<Rightarrow> str" where
  "strip s = rev (dropWhile is_space (rev (dropWhile is_space s)))"

definition rstrip_set :: "nat set \<Rightarrow> str \<Rightarrow> str" where
  "rstrip_set A s = rev (dropWhile (\<lambda>c. c \<in> A) (rev s))"

lemma runs_all: "w \<in> set (runs P s) \<Longrightarrow> c \<in> set w \<Longrightarrow> P c"
  by (induction P s rule: runs.induct) (auto dest: set_takeWhileD split: if_splits)

lemma runs_nonempty: "[] \<notin> set (runs P s)"
  by (induction P s rule: runs.induct) auto

section \<open>Stop words and language markers\<close>

definition STOPWORDS :: "str list" where
  "STOPWORDS = [
      lit ''a'', lit ''an'', lit ''and'', lit ''are'', lit ''as'', lit ''at'', lit ''be'',
      lit ''by'', lit ''for'', lit ''from'', lit ''has'', lit ''have'', lit ''how'',
      lit ''in'', lit ''into'', lit ''is'', lit ''it'', lit ''its'', lit ''of'', lit ''on'',
      lit ''or'', lit ''that'', lit ''the'', lit ''this'', lit ''to'', lit ''was'',
      lit ''were'', lit ''what'', lit ''when'', lit ''where'', lit ''which'', lit ''who'',
      lit ''why'', lit ''will'', lit ''with'', lit ''about'', lit ''do'', lit ''does'',
      lit ''did'', lit ''can'', lit ''should'', lit ''their'', lit ''there'', lit ''these'',
      lit ''those'', lit ''ve'', lit ''veya'', lit ''ile'', lit ''i'' @ [231] @ lit ''in'',
      lit ''bir'', lit ''bu'', [351] @ lit ''u'', lit ''o'', lit ''da'', lit ''de'',
      lit ''ki'', lit ''mi'', lit ''mu'', lit ''m'' @ [252], lit ''ne'', lit ''nedir'',
      lit ''nelerdir'', lit ''nasil'', lit ''neden'', lit ''hangi'', lit ''olan'',
      lit ''olarak'', lit ''gibi'', lit ''daha'', lit ''en'', [231] @ lit ''ok'', lit ''her'',
      lit ''ise'', lit ''ama'', lit ''fakat'', lit ''kadar'', lit ''sonra'',
      [246] @ lit ''nce'', [252] @ lit ''zere'', lit ''g'' @ [246] @ lit ''re'', lit ''yani'',
      lit ''hem'', lit ''ya'']"

definition TR_MARKERS :: "str list" where
  "TR_MARKERS = [
      lit ''ve'', lit ''i'' @ [231] @ lit ''in'', lit ''bir'', lit ''nedir'',
      lit ''nelerdir'', lit ''nasil'', lit ''hangi'', lit ''ile'', lit ''olan'',
      [351] @ lit ''irketleri'', lit ''plani'', lit ''yili'', lit ''hakkinda'',
      lit ''g'' @ [246] @ lit ''re'', lit ''mi'']"

definition EN_MARKERS :: "str list" where
  "EN_MARKERS = [
      lit ''the'', lit ''and'', lit ''what'', lit ''which'', lit ''how'', lit ''of'',
      lit ''for'', lit ''is'', lit ''are'', lit ''in'', lit ''changes'', lit ''size'']"

text \<open>The letters of \<open>_TR_CHARS\<close>.\<close>

definition TR_CHARS :: "nat list" where
  "TR_CHARS = [231, 287, 305, 246, 351, 252, 199, 286, 304, 214, 350, 220]"

section \<open>Folding and tokens\<close>

text \<open>
  \<open>fold\<close>: the three capital and dotless variants of i become i, then NFC (the identity here) and
  lower case.
\<close>

definition tr_fold :: "nat \<Rightarrow> nat" where
  "tr_fold c = (if c = 304 \<or> c = 73 \<or> c = 305 then 105 else c)"

definition fold_text :: "str \<Rightarrow> str" where
  "fold_text s = str_lower (map tr_fold s)"

definition normalise_space :: "str \<Rightarrow> str" where
  "normalise_space s = join (lit '' '') (split_ws s)"

text \<open>The characters of \<open>_WORD\<close>: word characters, percent, euro, dollar, lira.\<close>

definition token_char :: "nat \<Rightarrow> bool" where
  "token_char c = (is_word c \<or> c \<in> {37, 8364, 36, 8378})"

definition tokens_all :: "str \<Rightarrow> str list" where
  "tokens_all s = runs token_char (fold_text s)"

definition tokens :: "str \<Rightarrow> bool \<Rightarrow> str list" where
  "tokens s keep_stopwords =
     (if keep_stopwords then tokens_all s
      else filter (\<lambda>w. \<not> List.member STOPWORDS w) (tokens_all s))"

definition token_set :: "str \<Rightarrow> str set" where
  "token_set s = set (tokens s False)"

text \<open>The Jaccard overlap of two token sets, shared by the four places that compute it.\<close>

definition jaccard :: "'a set \<Rightarrow> 'a set \<Rightarrow> real" where
  "jaccard a b = real (card (a \<inter> b)) / real (card (a \<union> b))"

definition token_jaccard :: "str \<Rightarrow> str \<Rightarrow> real" where
  "token_jaccard left right =
     (let a = token_set left; b = token_set right
      in if a = {} \<and> b = {} then 1 else if a = {} \<or> b = {} then 0 else jaccard a b)"

definition overlap_ratio :: "str \<Rightarrow> str \<Rightarrow> real" where
  "overlap_ratio query s =
     (let wanted = token_set query
      in if wanted = {} then 0 else real (card (wanted \<inter> token_set s)) / real (card wanted))"

definition detect_language :: "str \<Rightarrow> str" where
  "detect_language s =
     (let words = set (tokens s True);
          tr_votes = card (words \<inter> set TR_MARKERS);
          en_votes = card (words \<inter> set EN_MARKERS)
      in if tr_votes \<noteq> en_votes then (if tr_votes > en_votes then lit ''tr'' else lit ''en'')
         else if list_ex (\<lambda>c. List.member TR_CHARS c) s then lit ''tr'' else lit ''en'')"

definition lacks_turkish_letters :: "str \<Rightarrow> nat \<Rightarrow> bool" where
  "lacks_turkish_letters s min_letters =
     (let letters = filter is_alpha s
      in if length letters < min_letters then False
         else real (length (filter (\<lambda>c. List.member TR_CHARS c) letters)) / real (length letters) < 0.005)"

text \<open>\<open>s.rfind(p)\<close>: the last index, or \<open>None\<close> for -1.\<close>

fun rfind_from :: "nat \<Rightarrow> str \<Rightarrow> str \<Rightarrow> nat option" where
  "rfind_from i [] p = (if p = [] then Some i else None)"
| "rfind_from i (c # s) p =
     (case rfind_from (Suc i) s p of
        Some j \<Rightarrow> Some j
      | None \<Rightarrow> if starts_with (c # s) p then Some i else None)"

definition rfind :: "str \<Rightarrow> str \<Rightarrow> nat option" where
  "rfind s p = rfind_from 0 s p"

definition truncate :: "str \<Rightarrow> nat \<Rightarrow> str" where
  "truncate s limit =
     (if length s \<le> limit then s
      else let cut = take limit s
           in (case rfind cut (lit ''. '') of
                 None \<Rightarrow> cut
               | Some boundary \<Rightarrow> if real boundary > real limit * 0.6 then take (boundary + 1) cut else cut)
              @ [32, 8230])"

section \<open>Facts\<close>

lemma finite_token_set [simp]: "finite (token_set s)"
  by (simp add: token_set_def)

lemma jaccard_commute: "jaccard a b = jaccard b a"
  by (simp add: jaccard_def Int_commute Un_commute)

lemma divide_le_1I: "(x::nat) \<le> y \<Longrightarrow> real x / real y \<le> 1"
  by (cases "y = 0") (simp_all add: divide_le_eq_1)

lemma jaccard_bounds: "finite a \<Longrightarrow> finite b \<Longrightarrow> 0 \<le> jaccard a b \<and> jaccard a b \<le> 1"
  using card_mono[of "a \<union> b" "a \<inter> b"] by (auto simp: jaccard_def intro!: divide_le_1I)

lemma jaccard_self: "finite a \<Longrightarrow> a \<noteq> {} \<Longrightarrow> jaccard a a = 1"
  by (simp add: jaccard_def)

lemma token_jaccard_commute: "token_jaccard x y = token_jaccard y x"
  by (auto simp: token_jaccard_def Let_def jaccard_commute)

lemma token_jaccard_bounds: "0 \<le> token_jaccard x y \<and> token_jaccard x y \<le> 1"
  by (auto simp: token_jaccard_def Let_def jaccard_bounds)

lemma token_jaccard_self [simp]: "token_jaccard x x = 1"
  by (auto simp: token_jaccard_def Let_def jaccard_self)

lemma token_jaccard_one_iff: "token_jaccard x y = 1 \<longleftrightarrow> token_set x = token_set y"
proof
  assume J: "token_jaccard x y = 1"
  let ?a = "token_set x" and ?b = "token_set y"
  show "?a = ?b"
  proof (cases "?a = {} \<or> ?b = {}")
    case True
    with J show ?thesis by (auto simp: token_jaccard_def Let_def split: if_splits)
  next
    case False
    with J have "card (?a \<inter> ?b) = card (?a \<union> ?b)"
      by (auto simp: token_jaccard_def Let_def jaccard_def split: if_splits)
    then have "?a \<inter> ?b = ?a \<union> ?b"
      by (intro card_subset_eq) auto
    then show ?thesis by blast
  qed
next
  assume E: "token_set x = token_set y"
  then show "token_jaccard x y = 1"
    using token_jaccard_self[of y] unfolding token_jaccard_def E by simp
qed

lemma overlap_ratio_bounds: "0 \<le> overlap_ratio q s \<and> overlap_ratio q s \<le> 1"
  by (auto simp: overlap_ratio_def Let_def intro!: divide_le_1I card_mono)

lemma detect_language_tr_en: "detect_language s \<in> {lit ''tr'', lit ''en''}"
  by (simp add: detect_language_def Let_def)

lemma length_truncate: "length (truncate s limit) \<le> max (length s) (limit + 2)"
  by (auto simp: truncate_def Let_def split: option.splits)

text \<open>Folding forgets case and the dots of i, and a folded text is its own fold.\<close>

lemma lower1_no_upper:
  "lower1 c \<noteq> 304" "lower1 c \<noteq> 73" "lower1 c = 305 \<Longrightarrow> c = 305"
  by (auto simp: lower1_def split: if_splits)

lemma lower1_ranges:
  "97 \<le> c \<Longrightarrow> c \<le> 122 \<Longrightarrow> lower1 c = c"
  "224 \<le> c \<Longrightarrow> c \<le> 255 \<Longrightarrow> lower1 c = c"
  "256 \<le> c \<Longrightarrow> c \<le> 311 \<Longrightarrow> odd c \<Longrightarrow> lower1 c = c"
  "312 \<le> c \<Longrightarrow> c \<le> 328 \<Longrightarrow> even c \<Longrightarrow> lower1 c = c"
  "377 \<le> c \<Longrightarrow> c \<le> 382 \<Longrightarrow> even c \<Longrightarrow> lower1 c = c"
  "329 \<le> c \<Longrightarrow> c \<le> 375 \<Longrightarrow> odd c \<Longrightarrow> lower1 c = c"
  "lower1 105 = 105" "lower1 255 = 255"
  by (auto simp: lower1_def)

lemma lower1_idem [simp]: "lower1 (lower1 c) = lower1 c"
proof -
  consider "65 \<le> c \<and> c \<le> 90" | "192 \<le> c \<and> c \<le> 222 \<and> c \<noteq> 215"
    | "256 \<le> c \<and> c \<le> 311 \<and> c \<noteq> 304 \<and> c \<noteq> 305 \<and> even c" | "c = 304"
    | "(313 \<le> c \<and> c \<le> 328 \<or> 377 \<le> c \<and> c \<le> 382) \<and> odd c"
    | "330 \<le> c \<and> c \<le> 375 \<and> even c" | "c = 376"
    | "lower1 c = c"
    by (cases "lower1 c = c") (auto simp: lower1_def split: if_splits)
  then show ?thesis
  proof cases
    case 1 then have "lower1 c = c + 32" by (simp add: lower1_def)
    with 1 show ?thesis by (simp add: lower1_ranges)
  next
    case 2 then have "lower1 c = c + 32" by (simp add: lower1_def)
    with 2 show ?thesis by (simp add: lower1_ranges)
  next
    case 3 then have e: "lower1 c = c + 1" by (simp add: lower1_def)
    from 3 have "c \<noteq> 311" by auto
    with 3 e show ?thesis by (simp add: lower1_ranges)
  next
    case 4 then show ?thesis by (simp add: lower1_def)
  next
    case 5 then have e: "lower1 c = c + 1" by (auto simp: lower1_def)
    from 5 have "c \<noteq> 328" "c \<noteq> 382" by auto
    with 5 e show ?thesis by (auto simp: lower1_ranges)
  next
    case 6 then have e: "lower1 c = c + 1" by (simp add: lower1_def)
    from 6 have "c \<noteq> 375" by auto
    with 6 e show ?thesis by (simp add: lower1_ranges)
  next
    case 7 then show ?thesis by (simp add: lower1_def)
  next
    case 8 then show ?thesis by simp
  qed
qed

lemma fold_text_eq_map: "fold_text s = map (\<lambda>c. lower1 (tr_fold c)) s"
  by (induction s) (auto simp: fold_text_def str_lower_def tr_fold_def)

lemma tr_fold_lower1_tr_fold: "tr_fold (lower1 (tr_fold c)) = lower1 (tr_fold c)"
proof -
  have "lower1 (tr_fold c) \<noteq> 305"
    using lower1_no_upper(3)[of "tr_fold c"] by (auto simp: tr_fold_def split: if_splits)
  with lower1_no_upper(1,2)[of "tr_fold c"] show ?thesis
    by (simp add: tr_fold_def)
qed

lemma fold_text_idem [simp]: "fold_text (fold_text s) = fold_text s"
  by (simp add: fold_text_eq_map tr_fold_lower1_tr_fold)

lemma length_fold_text [simp]: "length (fold_text s) = length s"
  by (simp add: fold_text_eq_map)

end
