(* ===== verification/Rx.thy ===== *)
theory Rx
  imports Text
begin

text \<open>
  The subset of Python's \<open>re\<close> that the modelled code uses, as a backtracking matcher in
  continuation-passing style: alternatives in order, greedy and lazy repetition, groups, word
  boundaries, anchors, look-ahead and one-character look-behind. The input is a zipper, the part
  already passed (reversed) and the rest, so positions and the character before are at hand.
  \<open>IGNORECASE\<close> is compiled into the character classes (\<open>ci\<close>): Python compares simple lower case
  and identifies dotless i with i and long s with s.
\<close>

section \<open>Syntax\<close>

datatype rx =
  Eps
| Chr "nat \<Rightarrow> bool"
| Seq rx rx
| Alt rx rx
| Star rx
| LazyStar rx
| Grp string rx
| Bos
| Eos
| WordB
| LookAhead rx
| NotAhead rx
| NotBehind "nat \<Rightarrow> bool"

type_synonym pos = "str \<times> str"
type_synonym caps = "(string \<times> str) list"

text \<open>Abbreviating constructors: literals, sequences, options, bounded repetition.\<close>

definition ci :: "nat \<Rightarrow> nat" where
  "ci c = (let l = lower1 c in if l = 305 then 105 else if l = 383 then 115 else l)"

definition ch :: "nat \<Rightarrow> rx" where
  "ch c = Chr (\<lambda>x. x = c)"

definition ich :: "nat \<Rightarrow> rx" where
  "ich c = Chr (\<lambda>x. ci x = ci c)"

fun seqs :: "rx list \<Rightarrow> rx" where
  "seqs [] = Eps"
| "seqs [r] = r"
| "seqs (r # s # rs) = Seq r (seqs (s # rs))"

fun alts :: "rx list \<Rightarrow> rx" where
  "alts [] = Chr (\<lambda>_. False)"
| "alts [r] = r"
| "alts (r # s # rs) = Alt r (alts (s # rs))"

definition rlit :: "str \<Rightarrow> rx" where
  "rlit s = seqs (map ch s)"

definition irlit :: "str \<Rightarrow> rx" where
  "irlit s = seqs (map ich s)"

definition opt :: "rx \<Rightarrow> rx" where
  "opt r = Alt r Eps"

definition plus :: "rx \<Rightarrow> rx" where
  "plus r = Seq r (Star r)"

text \<open>\<open>r{n}\<close>, \<open>r{0,n}\<close>, \<open>r{m,n}\<close>, \<open>r{m,}\<close>.\<close>

fun times :: "nat \<Rightarrow> rx \<Rightarrow> rx" where
  "times 0 r = Eps"
| "times (Suc n) r = (if n = 0 then r else Seq r (times n r))"

fun upto_times :: "nat \<Rightarrow> rx \<Rightarrow> rx" where
  "upto_times 0 r = Eps"
| "upto_times (Suc n) r = opt (Seq r (upto_times n r))"

definition between :: "nat \<Rightarrow> nat \<Rightarrow> rx \<Rightarrow> rx" where
  "between m n r = Seq (times m r) (upto_times (n - m) r)"

definition atleast :: "nat \<Rightarrow> rx \<Rightarrow> rx" where
  "atleast m r = Seq (times m r) (Star r)"

abbreviation rdigit :: rx where "rdigit \<equiv> Chr is_digit"
abbreviation rspace :: rx where "rspace \<equiv> Chr is_space"
abbreviation rword :: rx where "rword \<equiv> Chr is_word"

section \<open>Matching\<close>

definition word_at :: "str \<Rightarrow> bool" where
  "word_at s = (case s of [] \<Rightarrow> False | c # _ \<Rightarrow> is_word c)"

type_synonym cont = "pos \<Rightarrow> caps \<Rightarrow> (pos \<times> caps) option"

definition orelse :: "'a option \<Rightarrow> 'a option \<Rightarrow> 'a option" where
  "orelse a b = (case a of None \<Rightarrow> b | Some x \<Rightarrow> Some x)"

text \<open>
  The loops. The fuel is the number of characters left: an iteration that consumes nothing is not
  repeated (as in Python), so it never runs out before the input does.
\<close>

primrec star_m :: "(cont \<Rightarrow> cont) \<Rightarrow> cont \<Rightarrow> nat \<Rightarrow> cont" where
  "star_m f k 0 st c = k st c"
| "star_m f k (Suc n) st c =
     (case f (\<lambda>st' c'. if length (snd st') < length (snd st) then star_m f k n st' c' else None) st c of
        None \<Rightarrow> k st c
      | Some r \<Rightarrow> Some r)"

primrec lazy_m :: "(cont \<Rightarrow> cont) \<Rightarrow> cont \<Rightarrow> nat \<Rightarrow> cont" where
  "lazy_m f k 0 st c = k st c"
| "lazy_m f k (Suc n) st c =
     (case k st c of
        None \<Rightarrow> f (\<lambda>st' c'. if length (snd st') < length (snd st) then lazy_m f k n st' c' else None) st c
      | Some r \<Rightarrow> Some r)"

primrec rm :: "rx \<Rightarrow> cont \<Rightarrow> cont" where
  "rm Eps k st c = k st c"
| "rm (Chr P) k st c =
     (case snd st of [] \<Rightarrow> None | x # xs \<Rightarrow> if P x then k (x # fst st, xs) c else None)"
| "rm (Seq a b) k st c = rm a (rm b k) st c"
| "rm (Alt a b) k st c = (case rm a k st c of None \<Rightarrow> rm b k st c | Some r \<Rightarrow> Some r)"
| "rm (Star a) k st c = star_m (rm a) k (length (snd st)) st c"
| "rm (LazyStar a) k st c = lazy_m (rm a) k (length (snd st)) st c"
| "rm (Grp g a) k st c =
     rm a (\<lambda>st' c'. k st' ((g, take (length (snd st) - length (snd st')) (snd st)) # c')) st c"
| "rm Bos k st c = (if fst st = [] then k st c else None)"
| "rm Eos k st c = (if snd st = [] \<or> snd st = [10] then k st c else None)"
| "rm WordB k st c = (if word_at (fst st) \<noteq> word_at (snd st) then k st c else None)"
| "rm (LookAhead a) k st c =
     (case rm a (\<lambda>st' c'. Some (st', c')) st c of None \<Rightarrow> None | Some (_, c') \<Rightarrow> k st c')"
| "rm (NotAhead a) k st c =
     (case rm a (\<lambda>st' c'. Some (st', c')) st c of None \<Rightarrow> k st c | Some _ \<Rightarrow> None)"
| "rm (NotBehind P) k st c =
     (case fst st of [] \<Rightarrow> k st c | x # _ \<Rightarrow> if P x then None else k st c)"

text \<open>\<open>pattern.match\<close> at a position; the captures are the named groups, latest first.\<close>

definition rx_match :: "rx \<Rightarrow> pos \<Rightarrow> (pos \<times> caps) option" where
  "rx_match r st = rm r (\<lambda>st' c'. Some (st', c')) st []"

record hit =
  h_start :: nat
  h_end :: nat
  h_text :: str
  h_caps :: caps

definition mk_hit :: "pos \<Rightarrow> pos \<times> caps \<Rightarrow> hit" where
  "mk_hit st res =
     \<lparr>h_start = length (fst st), h_end = length (fst (fst res)),
      h_text = take (length (snd st) - length (snd (fst res))) (snd st), h_caps = snd res\<rparr>"

definition group :: "hit \<Rightarrow> string \<Rightarrow> str option" where
  "group h g = map_of (h_caps h) g"

text \<open>\<open>pattern.search\<close> from a position on: the hit and the position after it.\<close>

fun search_from :: "rx \<Rightarrow> str \<Rightarrow> str \<Rightarrow> (hit \<times> pos) option" where
  "search_from r p [] =
     (case rx_match r (p, []) of None \<Rightarrow> None | Some res \<Rightarrow> Some (mk_hit (p, []) res, fst res))"
| "search_from r p (c # s) =
     (case rx_match r (p, c # s) of
        Some res \<Rightarrow> Some (mk_hit (p, c # s) res, fst res)
      | None \<Rightarrow> search_from r (c # p) s)"

definition search :: "rx \<Rightarrow> str \<Rightarrow> hit option" where
  "search r s = map_option fst (search_from r [] s)"

definition found :: "rx \<Rightarrow> str \<Rightarrow> bool" where
  "found r s = (search_from r [] s \<noteq> None)"

definition fullmatch :: "rx \<Rightarrow> str \<Rightarrow> hit option" where
  "fullmatch r s =
     map_option (mk_hit ([], s))
       (rm r (\<lambda>st' c'. if snd st' = [] then Some (st', c') else None) ([], s) [])"

text \<open>
  \<open>pattern.finditer\<close>: non-overlapping hits from left to right. After an empty hit the scan moves
  one character on; none of the patterns it is used with matches the empty string.
\<close>

fun finditer_fuel :: "nat \<Rightarrow> rx \<Rightarrow> pos \<Rightarrow> hit list" where
  "finditer_fuel 0 r st = []"
| "finditer_fuel (Suc n) r st =
     (case search_from r (fst st) (snd st) of
        None \<Rightarrow> []
      | Some (h, st') \<Rightarrow>
          h # (if h_end h > h_start h then finditer_fuel n r st'
               else case snd st' of
                      [] \<Rightarrow> []
                    | c # s \<Rightarrow> finditer_fuel n r (c # fst st', s)))"

definition finditer :: "rx \<Rightarrow> str \<Rightarrow> hit list" where
  "finditer r s = finditer_fuel (Suc (length s)) r ([], s)"

text \<open>\<open>pattern.sub\<close> with a replacement computed from the hit.\<close>

fun sub_hits :: "nat \<Rightarrow> hit list \<Rightarrow> (hit \<Rightarrow> str) \<Rightarrow> str \<Rightarrow> str" where
  "sub_hits i [] f s = drop i s"
| "sub_hits i (h # hs) f s =
     take (h_start h - i) (drop i s) @ f h @ sub_hits (h_end h) hs f s"

definition sub :: "rx \<Rightarrow> (hit \<Rightarrow> str) \<Rightarrow> str \<Rightarrow> str" where
  "sub r f s = sub_hits 0 (finditer r s) f s"

section \<open>The matcher only moves forward\<close>

text \<open>\<open>adv st st'\<close>: \<open>st'\<close> is \<open>st\<close> after reading some characters.\<close>

definition adv :: "pos \<Rightarrow> pos \<Rightarrow> bool" where
  "adv st st' \<longleftrightarrow> (\<exists>w. snd st = w @ snd st' \<and> fst st' = rev w @ fst st)"

lemma adv_refl [simp]: "adv st st"
  by (simp add: adv_def)

lemma adv_trans: "adv a b \<Longrightarrow> adv b c \<Longrightarrow> adv a c"
  unfolding adv_def
  by (metis append.assoc rev_append)

lemma adv_char: "adv (p, c # s) (c # p, s)"
  by (simp add: adv_def)

lemma adv_whole: "adv st st' \<Longrightarrow> rev (fst st') @ snd st' = rev (fst st) @ snd st"
  by (auto simp: adv_def)

lemma adv_length: "adv st st' \<Longrightarrow> length (fst st) + length (snd st) = length (fst st') + length (snd st')
    \<and> length (fst st) \<le> length (fst st')"
  by (auto simp: adv_def)

definition reaches :: "cont \<Rightarrow> pos \<Rightarrow> pos \<times> caps \<Rightarrow> bool" where
  "reaches k st r \<longleftrightarrow> (\<exists>st' c'. adv st st' \<and> k st' c' = Some r)"

lemma reachesI: "k st' c' = Some r \<Longrightarrow> adv st st' \<Longrightarrow> reaches k st r"
  unfolding reaches_def by blast

lemma reaches_here: "k st c = Some r \<Longrightarrow> reaches k st r"
  by (rule reachesI[OF _ adv_refl])

lemma reachesE: "reaches k st r \<Longrightarrow> (\<And>st' c'. adv st st' \<Longrightarrow> k st' c' = Some r \<Longrightarrow> P) \<Longrightarrow> P"
  unfolding reaches_def by blast

definition forward :: "(cont \<Rightarrow> cont) \<Rightarrow> bool" where
  "forward f \<longleftrightarrow> (\<forall>k st c r. f k st c = Some r \<longrightarrow> reaches k st r)"

lemma forwardD: "forward f \<Longrightarrow> f k st c = Some r \<Longrightarrow> reaches k st r"
  unfolding forward_def by blast

lemma forwardI: "(\<And>k st c r. f k st c = Some r \<Longrightarrow> reaches k st r) \<Longrightarrow> forward f"
  unfolding forward_def by blast

lemma reaches_guarded:
  assumes "reaches (\<lambda>st' c'. if length (snd st') < n then g st' c' else None) st r"
  shows "reaches g st r"
  using assms by (elim reachesE) (auto intro: reachesI split: if_splits)

lemma reaches_trans:
  assumes "reaches k st r" and "\<And>st' c'. k st' c' = Some r \<Longrightarrow> reaches k' st' r"
  shows "reaches k' st r"
  using assms by (elim reachesE) (meson adv_trans reachesE reachesI)

lemma star_m_forward: "forward f \<Longrightarrow> star_m f k n st c = Some r \<Longrightarrow> reaches k st r"
proof (induction n arbitrary: st c)
  case (Suc n)
  let ?g = "\<lambda>st' c'. if length (snd st') < length (snd st) then star_m f k n st' c' else None"
  show ?case
  proof (cases "f ?g st c")
    case None
    with Suc.prems show ?thesis by (simp add: reaches_here)
  next
    case (Some x)
    with Suc.prems have "f ?g st c = Some r" by simp
    then have "reaches (star_m f k n) st r"
      by (rule reaches_guarded[OF forwardD[OF Suc.prems(1)]])
    then show ?thesis by (rule reaches_trans) (rule Suc.IH[OF Suc.prems(1)])
  qed
qed (simp add: reaches_here)

lemma lazy_m_forward: "forward f \<Longrightarrow> lazy_m f k n st c = Some r \<Longrightarrow> reaches k st r"
proof (induction n arbitrary: st c)
  case (Suc n)
  let ?g = "\<lambda>st' c'. if length (snd st') < length (snd st) then lazy_m f k n st' c' else None"
  show ?case
  proof (cases "k st c")
    case None
    with Suc.prems have "f ?g st c = Some r" by simp
    then have "reaches (lazy_m f k n) st r"
      by (rule reaches_guarded[OF forwardD[OF Suc.prems(1)]])
    then show ?thesis by (rule reaches_trans) (rule Suc.IH[OF Suc.prems(1)])
  next
    case (Some x)
    with Suc.prems show ?thesis by (simp add: reaches_here)
  qed
qed (simp add: reaches_here)

lemma rm_forward: "forward (rm r)"
proof (induction r)
  case (Chr P)
  show ?case
  proof (rule forwardI)
    fix k st c r
    assume m: "rm (Chr P) k st c = Some r"
    then obtain x xs where "snd st = x # xs" "k (x # fst st, xs) c = Some r"
      by (auto split: list.splits if_splits)
    moreover from this(1) have "adv st (x # fst st, xs)" by (simp add: adv_def)
    ultimately show "reaches k st r" by (blast intro: reachesI)
  qed
next
  case (Seq a b)
  show ?case
    by (rule forwardI) (simp, rule reaches_trans[OF forwardD[OF Seq(1)] forwardD[OF Seq(2)]])
next
  case (Alt a b)
  then show ?case by (intro forwardI) (auto split: option.splits dest: forwardD)
next
  case (Star a)
  show ?case by (rule forwardI) (simp add: star_m_forward[OF Star])
next
  case (LazyStar a)
  show ?case by (rule forwardI) (simp add: lazy_m_forward[OF LazyStar])
next
  case (Grp g a)
  show ?case
    by (rule forwardI) (simp, rule reaches_trans[OF forwardD[OF Grp]], auto intro: reaches_here)
qed (intro forwardI; auto split: option.splits list.splits if_splits intro: reaches_here)+

lemma rx_match_adv: "rx_match r st = Some (st', c) \<Longrightarrow> adv st st'"
  unfolding rx_match_def by (drule forwardD[OF rm_forward]) (auto elim: reachesE)

text \<open>A hit lies inside the text and carries the characters between its ends.\<close>

definition hit_ok :: "str \<Rightarrow> hit \<Rightarrow> bool" where
  "hit_ok s h \<longleftrightarrow> h_start h \<le> h_end h \<and> h_end h \<le> length s
     \<and> h_text h = take (h_end h - h_start h) (drop (h_start h) s)"

lemma mk_hit_ok:
  assumes "adv st (fst res)"
  shows "hit_ok (rev (fst st) @ snd st) (mk_hit st res)"
proof -
  note len = adv_length[OF assms]
  then have "length (snd st) - length (snd (fst res)) = length (fst (fst res)) - length (fst st)"
    by arith
  with len show ?thesis by (auto simp: hit_ok_def mk_hit_def)
qed

lemma search_from_ok:
  "search_from r p s = Some (h, st') \<Longrightarrow>
     hit_ok (rev p @ s) h \<and> adv (p, s) st' \<and> length p \<le> h_start h \<and> h_end h = length (fst st')"
proof (induction r p s rule: search_from.induct)
  case (1 r p)
  then show ?case
    using mk_hit_ok[of "(p, [])"] rx_match_adv[of r "(p, [])"]
    by (fastforce simp: mk_hit_def split: option.splits)
next
  case (2 r p c s)
  show ?case
  proof (cases "rx_match r (p, c # s)")
    case None
    with 2 have "search_from r (c # p) s = Some (h, st')" by simp
    from "2.IH"[OF None this] show ?thesis
      using adv_trans[OF adv_char] by (auto intro: adv_trans[OF adv_char])
  next
    case (Some res)
    with 2 have h: "h = mk_hit (p, c # s) res" and st': "st' = fst res" by auto
    obtain st1 c1 where "res = (st1, c1)" by fastforce
    with Some have "adv (p, c # s) (fst res)" using rx_match_adv by simp
    from mk_hit_ok[OF this] this h st' show ?thesis by (simp add: mk_hit_def)
  qed
qed

lemma finditer_fuel_ok:
  assumes "h \<in> set (finditer_fuel n r st)"
  shows "hit_ok (rev (fst st) @ snd st) h \<and> length (fst st) \<le> h_start h"
  using assms
proof (induction n arbitrary: st)
  case 0
  then show ?case by simp
next
  case (Suc n)
  have "search_from r (fst st) (snd st) \<noteq> None"
    using Suc.prems by (cases "search_from r (fst st) (snd st)") simp_all
  then obtain h0 st0 where s: "search_from r (fst st) (snd st) = Some (h0, st0)" by fastforce
  note ok = search_from_ok[OF s]
  from ok have whole: "rev (fst st0) @ snd st0 = rev (fst st) @ snd st"
    using adv_whole[of st st0] by simp
  have len: "length (fst st) \<le> length (fst st0)" using ok adv_length[of st st0] by simp
  consider "h = h0" | "h \<in> set (finditer_fuel n r st0)"
    | c s' where "snd st0 = c # s'" "h \<in> set (finditer_fuel n r (c # fst st0, s'))"
    using Suc.prems s by (cases "snd st0") (auto split: if_splits)
  then show ?case
  proof cases
    case 1
    with ok show ?thesis by simp
  next
    case 2
    from Suc.IH[OF this] whole len show ?thesis by simp
  next
    case 3
    from Suc.IH[OF 3(2)] whole len 3(1) show ?thesis by simp
  qed
qed

lemma finditer_ok: "h \<in> set (finditer r s) \<Longrightarrow> hit_ok s h"
  using finditer_fuel_ok[of h _ r "([], s)"] by (simp add: finditer_def del: finditer_fuel.simps)

lemma finditer_Nil_iff: "finditer r s = [] \<longleftrightarrow> \<not> found r s"
  unfolding finditer_def found_def
  by (cases "search_from r [] s") (auto split: prod.splits)

lemma sub_no_hit: "\<not> found r s \<Longrightarrow> sub r f s = s"
  by (simp add: sub_def finditer_Nil_iff[THEN iffD2])

section \<open>Patterns that cannot match the empty string\<close>

primrec consumes :: "rx \<Rightarrow> bool" where
  "consumes Eps = False"
| "consumes (Chr P) = True"
| "consumes (Seq a b) = (consumes a \<or> consumes b)"
| "consumes (Alt a b) = (consumes a \<and> consumes b)"
| "consumes (Star a) = False"
| "consumes (LazyStar a) = False"
| "consumes (Grp g a) = consumes a"
| "consumes Bos = False"
| "consumes Eos = False"
| "consumes WordB = False"
| "consumes (LookAhead a) = False"
| "consumes (NotAhead a) = False"
| "consumes (NotBehind P) = False"

definition reaches_later :: "cont \<Rightarrow> pos \<Rightarrow> pos \<times> caps \<Rightarrow> bool" where
  "reaches_later k st r \<longleftrightarrow> (\<exists>st' c'. adv st st' \<and> length (fst st) < length (fst st') \<and> k st' c' = Some r)"

lemma reaches_later_trans1:
  assumes "reaches k st r" and "\<And>st' c'. k st' c' = Some r \<Longrightarrow> reaches_later k' st' r"
  shows "reaches_later k' st r"
proof -
  from assms(1) obtain st1 c1 where "adv st st1" "k st1 c1 = Some r" by (rule reachesE)
  moreover from assms(2)[OF this(2)] obtain st2 c2 where
    "adv st1 st2" "length (fst st1) < length (fst st2)" "k' st2 c2 = Some r"
    by (auto simp: reaches_later_def)
  ultimately show ?thesis
    unfolding reaches_later_def using adv_trans adv_length by (metis le_less_trans)
qed

lemma reaches_later_trans2:
  assumes "reaches_later k st r" and "\<And>st' c'. k st' c' = Some r \<Longrightarrow> reaches k' st' r"
  shows "reaches_later k' st r"
proof -
  from assms(1) obtain st1 c1 where "adv st st1" "length (fst st) < length (fst st1)" "k st1 c1 = Some r"
    by (auto simp: reaches_later_def)
  moreover from assms(2)[OF this(3)] obtain st2 c2 where "adv st1 st2" "k' st2 c2 = Some r"
    by (rule reachesE)
  ultimately show ?thesis
    unfolding reaches_later_def using adv_trans adv_length by (metis less_le_trans)
qed

lemma rm_consumes: "consumes r \<Longrightarrow> rm r k st c = Some x \<Longrightarrow> reaches_later k st x"
proof (induction r arbitrary: k st c)
  case (Chr P)
  then obtain y ys where "snd st = y # ys" "k (y # fst st, ys) c = Some x"
    by (auto split: list.splits if_splits)
  moreover from this(1) have "adv st (y # fst st, ys)" by (simp add: adv_def)
  ultimately show ?case
    unfolding reaches_later_def by (intro exI[of _ "(y # fst st, ys)"] exI[of _ c]) simp
next
  case (Seq a b)
  from Seq.prems(2) have ab: "rm a (rm b k) st c = Some x" by simp
  show ?case
  proof (cases "consumes a")
    case True
    from Seq.IH(1)[OF True ab] show ?thesis
      by (rule reaches_later_trans2) (rule forwardD[OF rm_forward])
  next
    case False
    with Seq.prems(1) have "consumes b" by simp
    from forwardD[OF rm_forward ab] Seq.IH(2)[OF this] show ?thesis by (rule reaches_later_trans1)
  qed
next
  case (Alt a b)
  then show ?case by (auto split: option.splits)
next
  case (Grp g a)
  then have "consumes a" by simp
  from Grp.IH[OF this Grp.prems(2)[unfolded rm.simps]] show ?case
    by (rule reaches_later_trans2) (auto intro: reaches_here)
qed simp_all

lemma rx_match_consumes:
  "consumes r \<Longrightarrow> rx_match r st = Some res \<Longrightarrow> h_start (mk_hit st res) < h_end (mk_hit st res)"
  unfolding rx_match_def by (drule (1) rm_consumes) (auto simp: reaches_later_def mk_hit_def)

lemma search_from_consumes:
  "consumes r \<Longrightarrow> search_from r p s = Some (h, st') \<Longrightarrow> h_start h < h_end h"
  by (induction r p s rule: search_from.induct)
    (auto split: option.splits dest: rx_match_consumes)

lemma finditer_fuel_consumes:
  "consumes r \<Longrightarrow> h \<in> set (finditer_fuel n r st) \<Longrightarrow> h_start h < h_end h"
proof (induction n arbitrary: st)
  case (Suc n)
  show ?case
  proof (cases "search_from r (fst st) (snd st)")
    case None
    with Suc.prems show ?thesis by simp
  next
    case (Some y)
    then obtain h0 st0 where "search_from r (fst st) (snd st) = Some (h0, st0)" by (cases y) auto
    moreover from search_from_consumes[OF Suc.prems(1) this] have "h_start h0 < h_end h0" .
    moreover have "h \<in> set (finditer_fuel n r st0) \<Longrightarrow> h_start h < h_end h"
      using Suc.IH Suc.prems(1) by blast
    ultimately show ?thesis using Suc.prems(2) by auto
  qed
qed simp

lemma finditer_consumes: "consumes r \<Longrightarrow> h \<in> set (finditer r s) \<Longrightarrow> h_start h < h_end h"
  unfolding finditer_def by (rule finditer_fuel_consumes)

text \<open>What a match can start with; a pattern of words fails at once on a digit or a mark.\<close>

primrec starts :: "rx \<Rightarrow> nat \<Rightarrow> bool" where
  "starts Eps x = True"
| "starts (Chr P) x = P x"
| "starts (Seq a b) x = starts a x"
| "starts (Alt a b) x = (starts a x \<or> starts b x)"
| "starts (Star a) x = True"
| "starts (LazyStar a) x = True"
| "starts (Grp g a) x = starts a x"
| "starts Bos x = True"
| "starts Eos x = True"
| "starts WordB x = True"
| "starts (LookAhead a) x = True"
| "starts (NotAhead a) x = True"
| "starts (NotBehind P) x = True"

lemma rm_not_starts: "\<not> starts r x \<Longrightarrow> rm r k (p, x # s) c = None"
  by (induction r arbitrary: k c) auto

lemma rm_at_end: "consumes r \<Longrightarrow> rm r k (p, []) c = None"
  by (cases "rm r k (p, []) c") (auto dest!: rm_consumes simp: reaches_later_def adv_def)

definition letters_only :: "rx \<Rightarrow> bool" where
  "letters_only r \<longleftrightarrow> consumes r \<and> (\<forall>x < 65. \<not> starts r x)"

lemma letters_only_rm [simp]:
  "letters_only r \<Longrightarrow> rm r k (p, []) c = None"
  "letters_only r \<Longrightarrow> x < 65 \<Longrightarrow> rm r k (p, x # s) c = None"
  by (simp_all add: letters_only_def rm_at_end rm_not_starts)

section \<open>Evaluation\<close>

text \<open>Rules that run a pattern on a concrete text by simplification.\<close>

named_theorems rx_eval

lemma times_numeral [rx_eval]:
  "times (numeral n) r = (if pred_numeral n = 0 then r else Seq r (times (pred_numeral n) r))"
  by (simp add: numeral_eq_Suc)

lemma upto_times_numeral [rx_eval]:
  "upto_times (numeral n) r = opt (Seq r (upto_times (pred_numeral n) r))"
  by (simp add: numeral_eq_Suc)

lemma finditer_fuel_numeral [rx_eval]:
  "finditer_fuel (numeral n) r st = finditer_fuel (Suc (pred_numeral n)) r st"
  by (simp add: numeral_eq_Suc)

lemma star_m_numeral [rx_eval]: "star_m f k (numeral n) st c = star_m f k (Suc (pred_numeral n)) st c"
  by (simp add: numeral_eq_Suc)

lemmas [rx_eval] =
  finditer_def found_def search_def rx_match_def mk_hit_def group_def opt_def plus_def between_def
  atleast_def rlit_def irlit_def ch_def ich_def ci_def lower1_def word_at_def is_digit_def
  is_space_def is_word_def is_alnum_def is_alpha_def Let_def

end
