(* ===== verification/Numeric.thy ===== *)
theory Numeric
  imports Rx
begin

text \<open>
  \<open>gate/numeric.py\<close>: numbers, money, percentages and dates found in Turkish and English text by
  the twelve patterns, in order, and compared under tolerances. \<open>int\<close> and \<open>float\<close> raise
  \<open>ValueError\<close>, an index into an empty tuple raises \<open>IndexError\<close>; both are values here.
  \<open>float\<close> is modelled on digits and dots, which is all a numeral of the patterns can hold after
  its separators were replaced; \<open>fmt_g\<close> is the \<open>:g\<close> format of a non-negative number.
\<close>

section \<open>Quantities and tables\<close>

datatype kind = NUMBER | PERCENT | MONEY | DATE | YEAR

record quantity =
  qt_kind :: kind
  qt_raw :: str
  qt_start :: nat
  qt_end :: nat
  qt_values :: "real list"
  qt_unit :: "str option"
  qt_iso :: "str option"
  qt_granularity :: "str option"
  qt_decimals :: nat
  qt_scale :: real

datatype numeric_error = ValueError | IndexError

definition MONTHS :: "(str, nat) dict" where
  "MONTHS = [
     (lit ''january'', 1), (lit ''february'', 2), (lit ''march'', 3), (lit ''april'', 4),
     (lit ''may'', 5), (lit ''june'', 6), (lit ''july'', 7), (lit ''august'', 8),
     (lit ''september'', 9), (lit ''october'', 10), (lit ''november'', 11),
     (lit ''december'', 12), (lit ''jan'', 1), (lit ''feb'', 2), (lit ''mar'', 3),
     (lit ''apr'', 4), (lit ''jun'', 6), (lit ''jul'', 7), (lit ''aug'', 8), (lit ''sep'', 9),
     (lit ''sept'', 9), (lit ''oct'', 10), (lit ''nov'', 11), (lit ''dec'', 12),
     (lit ''ocak'', 1), ([351] @ lit ''ubat'', 2), (lit ''subat'', 2), (lit ''mart'', 3),
     (lit ''nisan'', 4), (lit ''may'' @ [305] @ lit ''s'', 5), (lit ''mayis'', 5),
     (lit ''haziran'', 6), (lit ''temmuz'', 7), (lit ''a'' @ [287] @ lit ''ustos'', 8),
     (lit ''agustos'', 8), (lit ''eyl'' @ [252] @ lit ''l'', 9), (lit ''eylul'', 9),
     (lit ''ekim'', 10), (lit ''kas'' @ [305] @ lit ''m'', 11), (lit ''kasim'', 11),
     (lit ''aral'' @ [305] @ lit ''k'', 12), (lit ''aralik'', 12)]"

definition SCALES :: "(str, real) dict" where
  "SCALES = [
     (lit ''k'', 1000), (lit ''thousand'', 1000), (lit ''bin'', 1000), (lit ''m'', 1000000),
     (lit ''mn'', 1000000), (lit ''mm'', 1000000), (lit ''million'', 1000000),
     (lit ''millions'', 1000000), (lit ''milyon'', 1000000), (lit ''b'', 1000000000),
     (lit ''bn'', 1000000000), (lit ''billion'', 1000000000), (lit ''billions'', 1000000000),
     (lit ''milyar'', 1000000000), (lit ''mlr'', 1000000000), (lit ''t'', 1000000000000),
     (lit ''tn'', 1000000000000), (lit ''trillion'', 1000000000000),
     (lit ''trilyon'', 1000000000000)]"

definition CURRENCIES :: "(str, str) dict" where
  "CURRENCIES = [
     (lit ''$'', lit ''USD''), (lit ''usd'', lit ''USD''), (lit ''dollar'', lit ''USD''),
     (lit ''dollars'', lit ''USD''), (lit ''dolar'', lit ''USD''), ([8364], lit ''EUR''),
     (lit ''eur'', lit ''EUR''), (lit ''euro'', lit ''EUR''), (lit ''euros'', lit ''EUR''),
     (lit ''avro'', lit ''EUR''), ([163], lit ''GBP''), (lit ''gbp'', lit ''GBP''),
     (lit ''pound'', lit ''GBP''), (lit ''pounds'', lit ''GBP''),
     (lit ''sterlin'', lit ''GBP''), ([8378], lit ''TRY''), (lit ''try'', lit ''TRY''),
     (lit ''tl'', lit ''TRY''), (lit ''lira'', lit ''TRY''),
     (lit ''t'' @ [252] @ lit ''rk liras'' @ [305], lit ''TRY'')]"

section \<open>The patterns\<close>

definition sep_rx :: rx where
  "sep_rx = Chr (\<lambda>c. c = 46 \<or> c = 44)"

text \<open>\<open>_NUM\<close>.\<close>

definition num_rx :: rx where
  "num_rx = Alt
     (seqs [between 1 3 rdigit, plus (Seq sep_rx (times 3 rdigit)), opt (Seq sep_rx (plus rdigit))])
     (seqs [plus rdigit, opt (Seq sep_rx (plus rdigit))])"

text \<open>\<open>_MONTH\<close>: the names, the longest first.\<close>

definition month_rx :: rx where
  "month_rx = alts (map irlit [
     lit ''september'', lit ''february'', lit ''november'', lit ''december'', lit ''january'',
     lit ''october'', lit ''haziran'', lit ''a'' @ [287] @ lit ''ustos'', lit ''agustos'',
     lit ''august'', lit ''temmuz'', lit ''aral'' @ [305] @ lit ''k'', lit ''aralik'',
     lit ''march'', lit ''april'', [351] @ lit ''ubat'', lit ''subat'', lit ''nisan'',
     lit ''may'' @ [305] @ lit ''s'', lit ''mayis'', lit ''eyl'' @ [252] @ lit ''l'',
     lit ''eylul'', lit ''kas'' @ [305] @ lit ''m'', lit ''kasim'', lit ''june'',
     lit ''july'', lit ''sept'', lit ''ocak'', lit ''mart'', lit ''ekim'', lit ''may'',
     lit ''jan'', lit ''feb'', lit ''mar'', lit ''apr'', lit ''jun'', lit ''jul'',
     lit ''aug'', lit ''sep'', lit ''oct'', lit ''nov'', lit ''dec''])"

text \<open>\<open>_SCALE\<close>, \<open>_CUR_WORD\<close>, \<open>_CUR_SYMBOL\<close>, \<open>_SUFFIX\<close>.\<close>

definition scale_rx :: rx where
  "scale_rx = alts
     [irlit (lit ''thousand''), Seq (irlit (lit ''million'')) (opt (irlit (lit ''s''))),
      Seq (irlit (lit ''billion'')) (opt (irlit (lit ''s''))), irlit (lit ''trillion''), irlit (lit ''milyon''),
      irlit (lit ''milyar''), irlit (lit ''trilyon''), irlit (lit ''bin''), irlit (lit ''mn''), irlit (lit ''bn''),
      irlit (lit ''mlr''), irlit (lit ''tn''), Chr (\<lambda>c. ci c \<in> {107, 109, 98, 116})]"

definition cur_word_rx :: rx where
  "cur_word_rx = alts
     [irlit (lit ''usd''), irlit (lit ''eur''), irlit (lit ''gbp''), irlit (lit ''try''), irlit (lit ''tl''),
      Seq (irlit (lit ''dollar'')) (opt (irlit (lit ''s''))), irlit (lit ''dolar''),
      Seq (irlit (lit ''euro'')) (opt (irlit (lit ''s''))), irlit (lit ''avro''),
      Seq (irlit (lit ''pound'')) (opt (irlit (lit ''s''))), irlit (lit ''sterlin''), irlit (lit ''t'' @ [252] @ lit ''rk liras'' @ [305]),
      irlit (lit ''lira'')]"

definition cur_symbol_rx :: rx where
  "cur_symbol_rx = Chr (\<lambda>c. c \<in> {36, 8364, 163, 8378})"

definition suffix_rx :: rx where
  "suffix_rx = opt (Seq (opt (ch 39)) (alts
     [Seq (irlit (lit ''d'')) (Chr (\<lambda>c. ci c \<in> {97, 101})), Seq (irlit (lit ''t'')) (Chr (\<lambda>c. ci c \<in> {97, 101})),
      irlit (lit ''nda''), irlit (lit ''nde''), irlit ([305] @ lit ''nda''), irlit (lit ''inde''), irlit ([305]),
      irlit (lit ''i''), irlit (lit ''u''), irlit ([252])]))"

text \<open>\<open>_IGNORED\<close>: placeholders, citation marks and section numbers.\<close>

definition ignored_rx :: rx where
  "ignored_rx = alts
     [seqs [ch 60, between 1 40 (Chr (\<lambda>c. c \<noteq> 62)), ch 62],
      seqs [ch 91, between 1 20 (Chr (\<lambda>c. c \<noteq> 93)), ch 93],
      seqs [ch 167, Star rspace, plus rdigit, Star (Seq (ch 46) (plus rdigit))]]"

text \<open>The members of \<open>_PATTERNS\<close>.\<close>

definition iso_date_rx :: rx where
  "iso_date_rx = seqs [WordB, Grp ''y'' (times 4 rdigit), ch 45, Grp ''m'' (times 2 rdigit), ch 45,
     Grp ''d'' (times 2 rdigit), WordB]"

definition day_month_year_rx :: rx where
  "day_month_year_rx = seqs [WordB, Grp ''d'' (between 1 2 rdigit), opt (ch 46), plus rspace,
     Grp ''mon'' month_rx, plus rspace, Grp ''y'' (times 4 rdigit), suffix_rx, WordB]"

definition month_day_year_rx :: rx where
  "month_day_year_rx = seqs [WordB, Grp ''mon'' month_rx, opt (ch 46), plus rspace,
     Grp ''d'' (between 1 2 rdigit), opt (ch 44), plus rspace, Grp ''y'' (times 4 rdigit), WordB]"

definition month_year_rx :: rx where
  "month_year_rx = seqs [WordB, Grp ''mon'' month_rx, plus rspace, Grp ''y'' (times 4 rdigit),
     suffix_rx, WordB]"

definition percent_sign_rx :: rx where
  "percent_sign_rx = Alt (seqs [ch 37, opt rspace, Grp ''n'' num_rx])
     (seqs [Grp ''n2'' num_rx, opt rspace, ch 37])"

definition percent_tr_rx :: rx where
  "percent_tr_rx = seqs [WordB, irlit (lit ''y'' @ [252] @ lit ''zde''), plus rspace, Grp ''n'' num_rx]"

definition percent_en_rx :: rx where
  "percent_en_rx = seqs [WordB, Grp ''n'' num_rx, plus rspace,
     Alt (irlit (lit ''percent'')) (seqs [irlit (lit ''per''), plus rspace, irlit (lit ''cent'')]), WordB]"

definition money_before_rx :: rx where
  "money_before_rx = seqs
     [Grp ''cur'' (Alt cur_symbol_rx (seqs [WordB, cur_word_rx, WordB])), opt rspace,
      Grp ''n'' num_rx, opt rspace, opt (Grp ''scale'' scale_rx), WordB]"

definition money_after_rx :: rx where
  "money_after_rx = seqs
     [WordB, Grp ''n'' num_rx, opt rspace, opt (Grp ''scale'' scale_rx), opt rspace,
      Grp ''cur'' (Alt cur_symbol_rx (Seq cur_word_rx WordB))]"

definition scaled_number_rx :: rx where
  "scaled_number_rx = seqs [WordB, Grp ''n'' num_rx, opt rspace, Grp ''scale'' scale_rx, WordB]"

definition year_rx :: rx where
  "year_rx = seqs [WordB, Grp ''y'' (Seq (Alt (rlit (lit ''19'')) (rlit (lit ''20''))) (times 2 rdigit)),
     opt (Seq (opt (ch 39)) (alts [rlit (lit ''de''), rlit (lit ''da''), rlit (lit ''te''), rlit (lit ''ta''),
       rlit (lit ''nin''), rlit (lit ''in''), rlit ([252] @ lit ''n''), rlit (lit ''un'')])), WordB]"

definition plain_number_rx :: rx where
  "plain_number_rx = seqs [NotBehind (\<lambda>c. is_word c \<or> c = 46 \<or> c = 44), Grp ''n'' num_rx,
     NotAhead rword]"

definition PATTERNS :: "(kind \<times> rx) list" where
  "PATTERNS =
     [(DATE, iso_date_rx), (DATE, day_month_year_rx), (DATE, month_day_year_rx),
      (DATE, month_year_rx), (PERCENT, percent_sign_rx), (PERCENT, percent_tr_rx),
      (PERCENT, percent_en_rx), (MONEY, money_before_rx), (MONEY, money_after_rx),
      (NUMBER, scaled_number_rx), (YEAR, year_rx), (NUMBER, plain_number_rx)]"

section \<open>Reading numerals\<close>

text \<open>\<open>int(s)\<close> on digits, \<open>float(s)\<close> on digits with at most one dot.\<close>

definition int_of :: "str \<Rightarrow> nat" where
  "int_of s = foldl (\<lambda>a c. 10 * a + (c - 48)) 0 s"

definition float_of :: "str \<Rightarrow> numeric_error + real" where
  "float_of s =
     (let a = takeWhile (\<lambda>c. c \<noteq> 46) s; b = drop 1 (dropWhile (\<lambda>c. c \<noteq> 46) s)
      in if list_all is_digit a \<and> list_all is_digit b \<and> (a \<noteq> [] \<or> b \<noteq> [])
         then Inr (real (int_of a) + real (int_of b) / 10 ^ length b)
         else Inl ValueError)"

fun split_on :: "nat \<Rightarrow> str \<Rightarrow> str list" where
  "split_on c [] = [[]]"
| "split_on c (x # xs) =
     (if x = c then [] # split_on c xs
      else (case split_on c xs of [] \<Rightarrow> [[x]] | g # gs \<Rightarrow> (x # g) # gs))"

definition parse_number :: "str \<Rightarrow> str \<Rightarrow> numeric_error + real list" where
  "parse_number text language =
     (let raw = strip text; dot = 46 \<in> set raw; comma = 44 \<in> set raw
      in if \<not> dot \<and> \<not> comma then rbind (float_of raw) (\<lambda>v. Inr [v])
         else if dot \<and> comma then
           (let decimal = (if the (rfind raw [46]) > the (rfind raw [44]) then 46 else 44);
                thousands = (if decimal = 46 then 44 else 46)
            in rbind (float_of (map (\<lambda>c. if c = decimal then 46 else c)
                                    (filter (\<lambda>c. c \<noteq> thousands) raw)))
                 (\<lambda>v. Inr [v]))
         else
           (let separator = (if dot then 46 else 44);
                groups = split_on separator raw;
                grouped = (length groups > 1 \<and> (\<forall>g\<in>set (tl groups). length g = 3))
            in rbind (if grouped then map_sum id Some (float_of (concat groups)) else Inr None)
                 (\<lambda>as_thousands.
               rbind (if length groups = 2
                      then map_sum id Some (float_of (map (\<lambda>c. if c = 44 then 46 else c) raw))
                      else Inr None)
                 (\<lambda>as_decimal.
               let prefers_thousands = (separator = 46 \<and> language = lit ''tr''
                                        \<or> separator = 44 \<and> language \<noteq> lit ''tr'');
                   ordered = (if prefers_thousands then [as_thousands, as_decimal]
                              else [as_decimal, as_thousands])
               in Inr (fromkeys (List.map_filter id ordered))))))"

definition scale_of :: "str option \<Rightarrow> real" where
  "scale_of token = (case token of None \<Rightarrow> 1
     | Some t \<Rightarrow> if t = [] then 1 else dget_or SCALES (str_lower t) 1)"

definition currency_of :: "str option \<Rightarrow> str option" where
  "currency_of token = (case token of None \<Rightarrow> None
     | Some t \<Rightarrow> if t = [] then None else dget CURRENCIES (strip (str_lower t)))"

text \<open>\<open>_decimals\<close>: how many decimals the writer chose, under the preferred reading.\<close>

definition decimals_of :: "str \<Rightarrow> real \<Rightarrow> nat" where
  "decimals_of numeral_txt reading =
     (if reading = real_of_int \<lfloor>reading\<rfloor> \<and> \<not> found (seqs [sep_rx, between 1 2 rdigit, Eos]) numeral_txt
      then 0
      else (case search (seqs [sep_rx, Grp ''1'' (plus rdigit), Eos]) numeral_txt of
              None \<Rightarrow> 0
            | Some h \<Rightarrow> length (the (group h ''1''))))"

section \<open>Building a quantity\<close>

text \<open>\<open>f"{n:04d}"\<close>.\<close>

definition zpad :: "nat \<Rightarrow> nat \<Rightarrow> str" where
  "zpad w n = replicate (w - length (dec n)) 48 @ dec n"

definition blank_quantity :: "kind \<Rightarrow> hit \<Rightarrow> quantity" where
  "blank_quantity k h =
     \<lparr>qt_kind = k, qt_raw = strip (h_text h), qt_start = h_start h, qt_end = h_end h,
      qt_values = [], qt_unit = None, qt_iso = None, qt_granularity = None, qt_decimals = 0,
      qt_scale = 1\<rparr>"

text \<open>A group that took part in the match and is not empty: \<open>if groups.get(g)\<close>.\<close>

definition group_or_none :: "hit \<Rightarrow> string \<Rightarrow> str option" where
  "group_or_none h g = (case group h g of None \<Rightarrow> None | Some t \<Rightarrow> if t = [] then None else Some t)"

definition build_date :: "hit \<Rightarrow> quantity option" where
  "build_date h =
     (let year = int_of (the (group h ''y''));
          month = (case group_or_none h ''m'' of
                     Some m \<Rightarrow> Some (int_of m)
                   | None \<Rightarrow> dget MONTHS (rstrip_set {46} (str_lower (the (group h ''mon'')))))
      in case month of
           None \<Rightarrow> None
         | Some m \<Rightarrow>
             if \<not> (1 \<le> m \<and> m \<le> 12) then None
             else case group_or_none h ''d'' of
                 Some dd \<Rightarrow>
                   if \<not> (1 \<le> int_of dd \<and> int_of dd \<le> 31) then None
                   else Some ((blank_quantity DATE h)
                     \<lparr>qt_iso := Some (zpad 4 year @ [45] @ zpad 2 m @ [45] @ zpad 2 (int_of dd)),
                      qt_granularity := Some (lit ''day'')\<rparr>)
               | None \<Rightarrow> Some ((blank_quantity DATE h)
                     \<lparr>qt_iso := Some (zpad 4 year @ [45] @ zpad 2 m),
                      qt_granularity := Some (lit ''month'')\<rparr>))"

definition build_year :: "hit \<Rightarrow> quantity" where
  "build_year h =
     (let year = int_of (the (group h ''y''))
      in (blank_quantity YEAR h)\<lparr>qt_values := [real year], qt_iso := Some (zpad 4 year),
           qt_granularity := Some (lit ''year'')\<rparr>)"

definition build_numeral :: "kind \<Rightarrow> hit \<Rightarrow> str \<Rightarrow> str option \<Rightarrow> str \<Rightarrow> numeric_error + quantity option" where
  "build_numeral k h numeral_txt scale_token language =
     (let multiplier = scale_of scale_token
      in rbind (parse_number numeral_txt language) (\<lambda>readings.
           case readings of
             [] \<Rightarrow> Inl IndexError
           | first # _ \<Rightarrow>
               (let q = (blank_quantity k h)\<lparr>qt_values := map (\<lambda>v. v * multiplier) readings,
                          qt_decimals := decimals_of numeral_txt first, qt_scale := multiplier\<rparr>
                in if k = MONEY
                   then (case currency_of (group h ''cur'') of
                           None \<Rightarrow> Inr None
                         | Some u \<Rightarrow> Inr (Some (q\<lparr>qt_unit := Some u\<rparr>)))
                   else Inr (Some q))))"

text \<open>\<open>_build\<close>.\<close>

definition build :: "kind \<Rightarrow> hit \<Rightarrow> str \<Rightarrow> numeric_error + quantity option" where
  "build k h language =
     (case k of
        DATE \<Rightarrow> Inr (build_date h)
      | YEAR \<Rightarrow> Inr (Some (build_year h))
      | _ \<Rightarrow>
         (let numeral_txt = (case group_or_none h ''n'' of Some n \<Rightarrow> Some n | None \<Rightarrow> group h ''n2'')
          in case numeral_txt of
               None \<Rightarrow> Inr None
             | Some n \<Rightarrow>
                 (let scale_token = group h ''scale'';
                      bare = (scale_token \<noteq> None \<and> length (the scale_token) = 1
                              \<and> list_ex is_space (strip (h_text h)))
                  in if bare \<and> k = NUMBER then Inr None
                     else build_numeral k h n (if bare then None else scale_token) language)))"

section \<open>Extraction\<close>

text \<open>The array \<open>taken\<close>: marking a span, and whether a span meets it.\<close>

definition mark :: "nat \<Rightarrow> nat \<Rightarrow> bool list \<Rightarrow> bool list" where
  "mark i j t = map (\<lambda>k. t ! k \<or> i \<le> k \<and> k < j) [0..<length t]"

definition span_taken :: "nat \<Rightarrow> nat \<Rightarrow> bool list \<Rightarrow> bool" where
  "span_taken i j t = list_ex id (take (j - i) (drop i t))"

type_synonym scan_state = "bool list \<times> quantity list"

definition scan_hit :: "kind \<Rightarrow> str \<Rightarrow> hit \<Rightarrow> scan_state \<Rightarrow> numeric_error + scan_state" where
  "scan_hit k language h st =
     (case st of (taken, acc) \<Rightarrow>
        if span_taken (h_start h) (h_end h) taken then Inr st
        else rbind (build k h language) (\<lambda>q.
          case q of
            None \<Rightarrow> Inr st
          | Some q \<Rightarrow> Inr (mark (h_start h) (h_end h) taken, acc @ [q])))"

fun scan_hits :: "kind \<Rightarrow> str \<Rightarrow> hit list \<Rightarrow> scan_state \<Rightarrow> numeric_error + scan_state" where
  "scan_hits k language [] st = Inr st"
| "scan_hits k language (h # hs) st =
     rbind (scan_hit k language h st) (scan_hits k language hs)"

fun scan_patterns :: "(kind \<times> rx) list \<Rightarrow> str \<Rightarrow> str \<Rightarrow> scan_state \<Rightarrow> numeric_error + scan_state" where
  "scan_patterns [] language text st = Inr st"
| "scan_patterns ((k, r) # ps) language text st =
     rbind (scan_hits k language (finditer r text) st) (scan_patterns ps language text)"

definition initially_taken :: "str \<Rightarrow> bool list" where
  "initially_taken text =
     fold (\<lambda>h. mark (h_start h) (h_end h)) (finditer ignored_rx text) (replicate (length text) False)"

definition extract_quantities :: "str \<Rightarrow> str \<Rightarrow> numeric_error + quantity list" where
  "extract_quantities text language =
     rbind (scan_patterns PATTERNS language text (initially_taken text, []))
       (\<lambda>st. Inr (sort_key qt_start (snd st)))"

section \<open>Comparison\<close>

definition isclose :: "real \<Rightarrow> real \<Rightarrow> bool" where
  "isclose a b = (\<bar>a - b\<bar> \<le> max (1 / 10^9 * max \<bar>a\<bar> \<bar>b\<bar>) (1 / 10^9))"

text \<open>\<open>_close\<close>, \<open>_rounds_to\<close>, \<open>_date_bounds\<close>.\<close>

definition close :: "real \<Rightarrow> real \<Rightarrow> real \<Rightarrow> bool" where
  "close left right relative =
     (if isclose left right then True
      else if relative \<le> 0 then False
      else \<bar>left - right\<bar> \<le> relative * max \<bar>left\<bar> \<bar>right\<bar>)"

definition rounds_to :: "real \<Rightarrow> quantity \<Rightarrow> real \<Rightarrow> bool" where
  "rounds_to precise coarse coarse_value =
     (let u = (if qt_scale coarse = 0 then 1 else qt_scale coarse)
      in isclose (py_round (precise / u) (qt_decimals coarse))
                 (py_round (coarse_value / u) (qt_decimals coarse)))"

definition date_bounds :: "quantity \<Rightarrow> (str \<times> str) option" where
  "date_bounds q =
     (case qt_iso q of
        None \<Rightarrow> None
      | Some date \<Rightarrow>
          if qt_granularity q = Some (lit ''day'') then Some (date, date)
          else if qt_granularity q = Some (lit ''month'')
          then Some (date @ lit ''-01'', date @ lit ''-31'')
          else Some (date @ lit ''-01-01'', date @ lit ''-12-31''))"

definition dated :: "quantity \<Rightarrow> bool" where
  "dated q = (qt_kind q = DATE \<or> qt_kind q = YEAR)"

definition dates_match :: "quantity \<Rightarrow> quantity \<Rightarrow> real \<Rightarrow> bool" where
  "dates_match left right date_days =
     (if qt_iso left = qt_iso right \<and> qt_granularity left = qt_granularity right then True
      else if date_days \<le> 0 \<or> qt_granularity left = qt_granularity right then False
      else (case (date_bounds left, date_bounds right) of
              (Some lb, Some rb) \<Rightarrow> fst lb \<le> fst rb \<and> snd rb \<le> snd lb
                                    \<or> fst rb \<le> fst lb \<and> snd lb \<le> snd rb
            | _ \<Rightarrow> False))"

definition any_pair :: "(real \<Rightarrow> real \<Rightarrow> bool) \<Rightarrow> quantity \<Rightarrow> quantity \<Rightarrow> bool" where
  "any_pair p left right = (\<exists>a\<in>set (qt_values left). \<exists>b\<in>set (qt_values right). p a b)"

definition quantities_match :: "real \<Rightarrow> real \<Rightarrow> real \<Rightarrow> quantity \<Rightarrow> quantity \<Rightarrow> bool" where
  "quantities_match relative percent_points date_days left right =
     (if dated left \<or> dated right then
        if dated left \<and> dated right then dates_match left right date_days
        else (let (year, other) = (if qt_kind left = YEAR then (left, right) else (right, left))
              in qt_kind year = YEAR \<and> qt_kind other = NUMBER
                 \<and> any_pair (\<lambda>a b. close a b 0) year other)
      else if qt_kind left = PERCENT \<or> qt_kind right = PERCENT then
        qt_kind left = qt_kind right
        \<and> any_pair (\<lambda>a b. \<bar>a - b\<bar> \<le> max percent_points (1 / 10^9)) left right
      else if qt_kind left = MONEY \<and> qt_kind right = MONEY \<and> qt_unit left \<noteq> qt_unit right then False
      else if any_pair (\<lambda>a b. close a b relative) left right then True
      else if relative \<le> 0 then False
      else any_pair (\<lambda>a b. rounds_to b left a \<or> rounds_to a right b) left right)"

section \<open>The label in traces and gate reports\<close>

text \<open>Decimal exponent of a positive number; its six significant digits as an integer.\<close>

definition dec_exponent :: "real \<Rightarrow> int" where
  "dec_exponent v =
     (if v \<ge> 1 then int (length (dec (nat \<lfloor>v\<rfloor>))) - 1
      else - int (length (dec (nat (\<lceil>1 / v\<rceil> - 1)))))"

definition six_digits :: "real \<Rightarrow> int \<Rightarrow> nat" where
  "six_digits v e = nat (round_even (if e \<le> 5 then v * 10 ^ nat (5 - e) else v / 10 ^ nat (e - 5)))"

definition strip_zeros :: "str \<Rightarrow> str" where
  "strip_zeros s = (let f = rstrip_set {48} s in if f = [] then [] else [46] @ f)"

definition fmt_g :: "real \<Rightarrow> str" where
  "fmt_g v =
     (if v = 0 then [48]
      else let e0 = dec_exponent v; n0 = six_digits v e0;
               (e, n) = (if n0 = 10 ^ 6 then (e0 + 1, 10 ^ 5) else (e0, n0));
               ds = dec n
           in if e < - 4 \<or> e \<ge> 6
              then [hd ds] @ strip_zeros (tl ds) @ [101, if e < 0 then 45 else 43]
                   @ zpad 2 (nat \<bar>e\<bar>)
              else if e \<ge> 0 then take (nat e + 1) ds @ strip_zeros (drop (nat e + 1) ds)
              else [48] @ strip_zeros (replicate (nat (- e) - 1) 48 @ ds))"

definition normalised_label :: "quantity \<Rightarrow> str" where
  "normalised_label q =
     (if dated q
      then (case qt_iso q of None \<Rightarrow> qt_raw q | Some t \<Rightarrow> if t = [] then qt_raw q else t)
      else (case qt_values q of
              [] \<Rightarrow> qt_raw q
            | v # _ \<Rightarrow>
                if qt_kind q = PERCENT then fmt_g v @ [37]
                else if qt_kind q = MONEY
                then (case qt_unit q of None \<Rightarrow> lit ''None'' | Some u \<Rightarrow> u) @ [32] @ fmt_g v
                else fmt_g v))"

end
