(* ===== verification/NumericProps.thy ===== *)
theory NumericProps
  imports Numeric
begin

text \<open>
  What \<open>gate/numeric.py\<close> guarantees: the quantities of a text are disjoint spans in reading order,
  the comparison is symmetric and monotone in its tolerances and accepts every quantity as equal
  to itself; and the numerals it cannot read, on which it raises.
\<close>

section \<open>The array \<open>taken\<close>\<close>

lemma length_mark [simp]: "length (mark i j t) = length t"
  by (simp add: mark_def)

lemma nth_mark [simp]: "k < length t \<Longrightarrow> mark i j t ! k \<longleftrightarrow> t ! k \<or> i \<le> k \<and> k < j"
  by (simp add: mark_def)

lemma span_taken_iff:
  assumes "j \<le> length t"
  shows "span_taken i j t \<longleftrightarrow> (\<exists>k. i \<le> k \<and> k < j \<and> t ! k)"
proof
  assume "span_taken i j t"
  then obtain m where "m < j - i" "m < length t - i" "t ! (i + m)"
    by (auto simp: span_taken_def list_ex_iff in_set_conv_nth)
  then show "\<exists>k. i \<le> k \<and> k < j \<and> t ! k" by (intro exI[of _ "i + m"]) simp
next
  assume "\<exists>k. i \<le> k \<and> k < j \<and> t ! k"
  then obtain k where k: "i \<le> k" "k < j" "t ! k" by blast
  then have "take (j - i) (drop i t) ! (k - i)" and "k - i < length (take (j - i) (drop i t))"
    using assms by simp_all
  then show "span_taken i j t"
    unfolding span_taken_def list_ex_iff by (metis id_apply nth_mem)
qed

lemma initially_taken_length: "length (initially_taken text) = length text"
proof -
  have "length (fold (\<lambda>h. mark (h_start h) (h_end h)) hs t) = length t" for hs :: "hit list" and t
    by (induction hs arbitrary: t) simp_all
  then show ?thesis by (simp add: initially_taken_def)
qed

section \<open>What \<open>build\<close> makes of a hit\<close>

definition spans_hit :: "hit \<Rightarrow> quantity \<Rightarrow> bool" where
  "spans_hit h q \<longleftrightarrow> qt_start q = h_start h \<and> qt_end q = h_end h \<and> qt_raw q = strip (h_text h)"

lemma blank_spans_hit [simp]: "spans_hit h (blank_quantity k h)"
  by (simp add: spans_hit_def blank_quantity_def)

lemma spans_hit_update [simp]:
  "spans_hit h (q\<lparr>qt_values := a\<rparr>) = spans_hit h q" "spans_hit h (q\<lparr>qt_iso := b\<rparr>) = spans_hit h q"
  "spans_hit h (q\<lparr>qt_unit := b\<rparr>) = spans_hit h q" "spans_hit h (q\<lparr>qt_granularity := b\<rparr>) = spans_hit h q"
  "spans_hit h (q\<lparr>qt_decimals := n\<rparr>) = spans_hit h q" "spans_hit h (q\<lparr>qt_scale := r\<rparr>) = spans_hit h q"
  by (simp_all add: spans_hit_def)

text \<open>A quantity is dated with a date of its own, or carries at least one value.\<close>

definition stated :: "quantity \<Rightarrow> bool" where
  "stated q \<longleftrightarrow> dated q \<or> qt_values q \<noteq> []"

lemma build_date_spans: "build_date h = Some q \<Longrightarrow> spans_hit h q \<and> stated q"
  by (auto simp: build_date_def Let_def stated_def dated_def blank_quantity_def spans_hit_def
      split: option.splits if_splits)

lemma build_numeral_spans:
  assumes "build_numeral k h n st l = Inr (Some q)"
  shows "spans_hit h q \<and> stated q"
proof -
  from assms obtain rs where rs: "parse_number n l = Inr rs"
    by (auto simp: build_numeral_def Let_def rbind_Inr_iff)
  with assms have "rs \<noteq> []" by (auto simp: build_numeral_def Let_def)
  with rs obtain x xs where "parse_number n l = Inr (x # xs)" by (cases rs) auto
  with assms show ?thesis
    by (auto simp: build_numeral_def Let_def stated_def spans_hit_def blank_quantity_def
        split: if_splits option.splits)
qed

lemma build_spans: "build k h l = Inr (Some q) \<Longrightarrow> spans_hit h q \<and> stated q"
  by (cases k)
    (auto simp: build_def Let_def build_year_def stated_def dated_def blank_quantity_def spans_hit_def
      dest!: build_date_spans build_numeral_spans split: option.splits if_splits)

section \<open>The scan\<close>

definition apart :: "quantity \<Rightarrow> quantity \<Rightarrow> bool" where
  "apart a b \<longleftrightarrow> qt_end a \<le> qt_start b \<or> qt_end b \<le> qt_start a"

definition placed :: "str \<Rightarrow> quantity \<Rightarrow> bool" where
  "placed text q \<longleftrightarrow> qt_start q < qt_end q \<and> qt_end q \<le> length text \<and> stated q
     \<and> qt_raw q = strip (take (qt_end q - qt_start q) (drop (qt_start q) text))"

definition scan_ok :: "str \<Rightarrow> scan_state \<Rightarrow> bool" where
  "scan_ok text st \<longleftrightarrow> length (fst st) = length text
     \<and> (\<forall>q\<in>set (snd st). placed text q \<and> (\<forall>k. qt_start q \<le> k \<and> k < qt_end q \<longrightarrow> fst st ! k))
     \<and> sorted_wrt apart (snd st)"

lemma scan_hit_ok:
  assumes "scan_hit k l h st = Inr st'" and "scan_ok text st" and "hit_ok text h"
    and "h_start h < h_end h"
  shows "scan_ok text st'"
proof -
  obtain taken acc where st: "st = (taken, acc)" by fastforce
  have len: "length taken = length text" using assms(2) by (simp add: scan_ok_def st)
  have hl: "h_end h \<le> length text" using assms(3) by (simp add: hit_ok_def)
  consider "st' = st"
    | q where "\<not> span_taken (h_start h) (h_end h) taken" "build k h l = Inr (Some q)"
        "st' = (mark (h_start h) (h_end h) taken, acc @ [q])"
    using assms(1) by (auto simp: scan_hit_def st rbind_Inr_iff split: if_splits option.splits)
  then show ?thesis
  proof cases
    case 1
    with assms(2) show ?thesis by simp
  next
    case 2
    from build_spans[OF 2(2)] have q: "qt_start q = h_start h" "qt_end q = h_end h"
      "qt_raw q = strip (h_text h)" "stated q" by (simp_all add: spans_hit_def)
    have free: "\<not> taken ! i" if "h_start h \<le> i" "i < h_end h" for i
      using 2(1) span_taken_iff[of "h_end h" taken "h_start h"] that hl len by auto
    have "apart p q" if "p \<in> set acc" for p
    proof (rule ccontr)
      assume "\<not> apart p q"
      then have "qt_start q < qt_end p" "qt_start p < qt_end q" by (simp_all add: apart_def)
      moreover have "qt_start p < qt_end p" and p: "\<forall>i. qt_start p \<le> i \<and> i < qt_end p \<longrightarrow> taken ! i"
        using assms(2) that by (auto simp: scan_ok_def st placed_def)
      ultimately have "taken ! (max (qt_start p) (qt_start q))"
        using q(1,2) assms(4) by simp
      with free[of "max (qt_start p) (qt_start q)"] \<open>qt_start p < qt_end q\<close> q(1,2) assms(4)
      show False by simp
    qed
    moreover have "placed text q"
      using assms(3,4) q hl by (simp add: placed_def hit_ok_def)
    ultimately show ?thesis
      using assms(2) 2(3) q(1,2) len hl
      by (auto simp: scan_ok_def st sorted_wrt_append placed_def)
  qed
qed

lemma scan_hits_ok:
  assumes "scan_hits k l hs st = Inr st'" and "scan_ok text st"
    and "\<forall>h\<in>set hs. hit_ok text h \<and> h_start h < h_end h"
  shows "scan_ok text st'"
  using assms
  by (induction hs arbitrary: st) (auto simp: rbind_Inr_iff dest: scan_hit_ok)

lemma scan_patterns_ok:
  assumes "scan_patterns ps l text st = Inr st'" and "scan_ok text st" and "\<forall>p\<in>set ps. consumes (snd p)"
  shows "scan_ok text st'"
  using assms
proof (induction ps arbitrary: st)
  case (Cons p ps)
  obtain k r where p: "p = (k, r)" by fastforce
  from Cons.prems(1) obtain st1 where "scan_hits k l (finditer r text) st = Inr st1"
    and s: "scan_patterns ps l text st1 = Inr st'" by (auto simp: p rbind_Inr_iff)
  moreover have "\<forall>h\<in>set (finditer r text). hit_ok text h \<and> h_start h < h_end h"
    using Cons.prems(3) p by (auto intro: finditer_ok finditer_consumes)
  ultimately have "scan_ok text st1" using Cons.prems(2) scan_hits_ok by blast
  with Cons.IH[OF s] Cons.prems(3) show ?case by simp
qed simp

lemma PATTERNS_consume: "\<forall>p\<in>set PATTERNS. consumes (snd p)"
  by (simp add: PATTERNS_def iso_date_rx_def day_month_year_rx_def month_day_year_rx_def
      month_year_rx_def percent_sign_rx_def percent_tr_rx_def percent_en_rx_def money_before_rx_def
      money_after_rx_def scaled_number_rx_def year_rx_def plain_number_rx_def num_rx_def
      between_def plus_def opt_def ch_def irlit_def ich_def rlit_def numeral_eq_Suc)

lemma sorted_wrt_insort_key:
  "(\<And>a b. R a b \<Longrightarrow> R b a) \<Longrightarrow> sorted_wrt R (x # xs) \<Longrightarrow> sorted_wrt R (insort_key f x xs)"
  by (induction xs) (auto simp: set_insort_key)

lemma sorted_wrt_sort_key:
  "(\<And>a b. R a b \<Longrightarrow> R b a) \<Longrightarrow> sorted_wrt R xs \<Longrightarrow> sorted_wrt R (sort_key f xs)"
  unfolding sort_key_def
proof (induction xs)
  case (Cons x xs)
  have "set (foldr (insort_key f) xs []) = set xs"
    using set_sort[of f xs] by (simp add: sort_key_def)
  with Cons show ?case
    by (simp add: sorted_wrt_insort_key)
qed simp

lemma extract_ok:
  assumes "extract_quantities text l = Inr qs"
  shows "sorted_wrt apart qs \<and> sorted (map qt_start qs) \<and> (\<forall>q\<in>set qs. placed text q)"
proof -
  from assms obtain st where
    s: "scan_patterns PATTERNS l text (initially_taken text, []) = Inr st"
    and qs: "qs = sort_key qt_start (snd st)"
    by (auto simp: extract_quantities_def rbind_Inr_iff)
  have "scan_ok text (initially_taken text, [])" by (simp add: scan_ok_def initially_taken_length)
  from scan_patterns_ok[OF s this PATTERNS_consume] have "sorted_wrt apart (snd st)"
    and "\<forall>q\<in>set (snd st). placed text q" by (auto simp: scan_ok_def)
  then show ?thesis
    using sorted_wrt_sort_key[of apart "snd st" qt_start] by (auto simp: qs apart_def)
qed

text \<open>
  C15. The quantities found in a text come in reading order, no character belongs to two of them,
  each is a non-empty span inside the text with \<open>raw\<close> its stripped characters, and each either is
  a date or has a value.
\<close>

theorem extract_in_order_disjoint:
  assumes "extract_quantities text language = Inr qs"
  shows "sorted_wrt (\<lambda>a b. qt_end a \<le> qt_start b) qs
    \<and> (\<forall>q\<in>set qs. qt_start q < qt_end q \<and> qt_end q \<le> length text
         \<and> qt_raw q = strip (take (qt_end q - qt_start q) (drop (qt_start q) text))
         \<and> (qt_kind q \<in> {DATE, YEAR} \<or> qt_values q \<noteq> []))"
proof
  note ok = extract_ok[OF assms]
  have "qt_end a \<le> qt_start b"
    if "apart a b" "qt_start a \<le> qt_start b" "placed text a" "placed text b" for a b
    using that by (auto simp: apart_def placed_def)
  moreover have "sorted_wrt (\<lambda>a b. qt_start a \<le> qt_start b) qs"
    using ok by (simp add: sorted_wrt_map)
  ultimately show "sorted_wrt (\<lambda>a b. qt_end a \<le> qt_start b) qs"
    using ok unfolding sorted_wrt_iff_nth_less by (meson nth_mem order.strict_trans)
  show "\<forall>q\<in>set qs. qt_start q < qt_end q \<and> qt_end q \<le> length text
         \<and> qt_raw q = strip (take (qt_end q - qt_start q) (drop (qt_start q) text))
         \<and> (qt_kind q \<in> {DATE, YEAR} \<or> qt_values q \<noteq> [])"
    using ok by (auto simp: placed_def stated_def dated_def)
qed

section \<open>Comparison\<close>

lemma isclose_commute: "isclose a b = isclose b a"
  by (simp add: isclose_def abs_minus_commute max.commute)

lemma isclose_refl [simp]: "isclose a a"
  by (simp add: isclose_def)

lemma close_commute: "close a b r = close b a r"
  by (simp add: close_def isclose_commute abs_minus_commute max.commute)

lemma close_refl [simp]: "close a a r"
  by (simp add: close_def)

lemma close_mono: "close a b r \<Longrightarrow> r \<le> r' \<Longrightarrow> close a b r'"
  unfolding close_def
  by (auto split: if_splits) (meson abs_ge_zero max.coboundedI1 mult_right_mono order_trans)

lemma any_pair_commute: "(\<And>a b. p a b = p' b a) \<Longrightarrow> any_pair p x y = any_pair p' y x"
  unfolding any_pair_def by blast

lemma any_pair_mono: "any_pair p x y \<Longrightarrow> (\<And>a b. p a b \<Longrightarrow> p' a b) \<Longrightarrow> any_pair p' x y"
  unfolding any_pair_def by blast

lemma any_pair_refl: "(\<And>a. p a a) \<Longrightarrow> qt_values x \<noteq> [] \<Longrightarrow> any_pair p x x"
  unfolding any_pair_def by (metis last_in_set)

lemma dates_match_commute: "dates_match a b n = dates_match b a n"
  unfolding dates_match_def by (auto split: option.splits)

lemma dates_match_mono: "dates_match a b n \<Longrightarrow> n \<le> n' \<Longrightarrow> dates_match a b n'"
  unfolding dates_match_def by (auto split: if_splits option.splits)

lemma match_commute: "quantities_match r p n a b = quantities_match r p n b a"
proof -
  have "any_pair (\<lambda>x y. close x y r) a b = any_pair (\<lambda>x y. close x y r) b a"
    "any_pair (\<lambda>x y. \<bar>x - y\<bar> \<le> max p (1 / 10^9)) a b = any_pair (\<lambda>x y. \<bar>x - y\<bar> \<le> max p (1 / 10^9)) b a"
    "any_pair (\<lambda>x y. rounds_to y a x \<or> rounds_to x b y) a b
       = any_pair (\<lambda>x y. rounds_to y b x \<or> rounds_to x a y) b a"
    by (rule any_pair_commute; auto simp: close_commute abs_minus_commute)+
  then show ?thesis
    by (cases "qt_kind a"; cases "qt_kind b")
      (auto simp: quantities_match_def dated_def dates_match_commute)
qed

lemma match_mono:
  assumes "quantities_match r p n a b" and "r \<le> r'" and "p \<le> p'" and "n \<le> n'"
  shows "quantities_match r' p' n' a b"
proof -
  have "any_pair (\<lambda>x y. close x y r) a b \<Longrightarrow> any_pair (\<lambda>x y. close x y r') a b"
    by (erule any_pair_mono) (rule close_mono[OF _ assms(2)])
  moreover have "any_pair (\<lambda>x y. \<bar>x - y\<bar> \<le> max p (1 / 10^9)) a b \<Longrightarrow>
      any_pair (\<lambda>x y. \<bar>x - y\<bar> \<le> max p' (1 / 10^9)) a b"
    by (erule any_pair_mono) (use assms(3) in auto)
  ultimately show ?thesis
    using assms(1,2) dates_match_mono[OF _ assms(4)]
    unfolding quantities_match_def by (auto simp: Let_def split: if_splits)
qed

lemma match_refl: "stated q \<Longrightarrow> quantities_match r p n q q"
  by (auto simp: quantities_match_def dates_match_def stated_def intro!: any_pair_refl)

text \<open>
  C16. The comparison does not depend on the order of its arguments, widening a tolerance never
  turns a match into a mismatch, and a quantity that was found in a text matches itself even with
  every tolerance at zero.
\<close>

theorem quantities_match_tolerant:
  "quantities_match r p n a b = quantities_match r p n b a
   \<and> (r \<le> r' \<and> p \<le> p' \<and> n \<le> n' \<and> quantities_match r p n a b \<longrightarrow> quantities_match r' p' n' a b)
   \<and> (extract_quantities text language = Inr qs \<and> q \<in> set qs \<longrightarrow> quantities_match r p n q q)"
  using match_commute match_mono match_refl extract_ok by (auto simp: placed_def)

section \<open>Numerals it cannot read\<close>

lemma letters_only_rx [simp]:
  "letters_only month_rx" "letters_only scale_rx" "letters_only cur_word_rx"
  by (simp_all add: letters_only_def month_rx_def scale_rx_def cur_word_rx_def irlit_def ich_def opt_def)
    (auto simp: ci_def lower1_def)

lemmas pattern_defs =
  ignored_rx_def iso_date_rx_def day_month_year_rx_def month_day_year_rx_def month_year_rx_def
  percent_sign_rx_def percent_tr_rx_def percent_en_rx_def money_before_rx_def money_after_rx_def
  scaled_number_rx_def year_rx_def plain_number_rx_def num_rx_def sep_rx_def cur_symbol_rx_def
  suffix_rx_def

lemmas extract_eval =
  extract_quantities_def PATTERNS_def initially_taken_def rx_eval pattern_defs span_taken_def
  scan_hit_def build_def group_or_none_def build_numeral_def parse_number_def strip_def
  map_filter_def rfind_def float_of_def

text \<open>
  Numerals the number pattern accepts but \<open>parse_number\<close> cannot read: an address-like
  "192.168.1" has no reading, so \<open>readings[0]\<close> raises \<open>IndexError\<close>; with both separators repeated
  ("1,234.567,89") \<open>float\<close> raises \<open>ValueError\<close>. The whole extraction is lost with it.
\<close>

theorem unreadable_numerals_raise:
  "extract_quantities (lit ''192.168.1.1'') language = Inl IndexError
   \<and> extract_quantities (lit ''1,234.567,89'') language = Inl ValueError"
  by (simp_all add: extract_eval)

text \<open>
  A capital dotted I (U+0130) matches the patterns, which ignore case, but its lower case is
  two characters, so the tables miss the word: "N\<open>_\<close>SAN 2026" is matched by the month pattern and
  dropped, and "M\<open>_\<close>LYON" counts as a factor of one instead of a million.
\<close>

theorem dotted_capital_dropped:
  "(\<exists>h. finditer month_year_rx ([78, 304, 83, 65, 78] @ lit '' 2026'') = [h] \<and> h_end h = 10
      \<and> build DATE h language = Inr None)
   \<and> (\<exists>h. finditer scale_rx ([77, 304] @ lit ''LYON'') = [h] \<and> h_end h = 6)
   \<and> scale_of (Some ([77, 304] @ lit ''LYON'')) = 1 \<and> scale_of (Some (lit ''milyon'')) = 10 ^ 6"
proof (intro conjI)
  have "\<exists>h. finditer month_year_rx ([78, 304, 83, 65, 78] @ lit '' 2026'') = [h] \<and> h_end h = 10
      \<and> group h ''m'' = None \<and> group h ''mon'' = Some [78, 304, 83, 65, 78]"
    by (simp add: month_year_rx_def rx_eval month_rx_def suffix_rx_def)
  then show "\<exists>h. finditer month_year_rx ([78, 304, 83, 65, 78] @ lit '' 2026'') = [h] \<and> h_end h = 10
      \<and> build DATE h language = Inr None"
    by (auto simp: build_def build_date_def group_or_none_def MONTHS_def str_lower_def lower1_def
        rstrip_set_def)
  show "\<exists>h. finditer scale_rx ([77, 304] @ lit ''LYON'') = [h] \<and> h_end h = 6"
    by (simp add: scale_rx_def rx_eval)
qed (simp_all add: scale_of_def dget_or_def SCALES_def str_lower_def lower1_def)

section \<open>Concrete texts\<close>

definition demo_percent :: quantity where
  "demo_percent = \<lparr>qt_kind = PERCENT, qt_raw = lit ''7%'', qt_start = 0, qt_end = 2, qt_values = [7],
     qt_unit = None, qt_iso = None, qt_granularity = None, qt_decimals = 0, qt_scale = 1\<rparr>"

lemma demo_percent_found: "extract_quantities (lit ''7%'') language = Inr [demo_percent]"
  by (simp add: extract_eval mark_def blank_quantity_def scale_of_def decimals_of_def int_of_def
      demo_percent_def upt_rec)

theorem extract_in_order_disjoint_witness:
  "extract_quantities (lit ''7%'') (lit ''en'') = Inr [demo_percent]
   \<and> qt_start demo_percent < qt_end demo_percent"
  using extract_in_order_disjoint[OF demo_percent_found[of "lit ''en''"]] demo_percent_found by auto

theorem quantities_match_tolerant_witness:
  "quantities_match 0 0 0 demo_percent demo_percent"
  using quantities_match_tolerant[of 0 0 0 demo_percent demo_percent 0 0 0 "lit ''7%''" "lit ''en''"
      "[demo_percent]" demo_percent] demo_percent_found by auto

end
