(* ===== verification/State.thy ===== *)
theory State
  imports Text
begin

text \<open>
  The research state of \<open>agent/state.py\<close>: analysis and plan, documents, the claim ledger, the report
  and the run. Pydantic models are records, enums and literals datatypes, \<open>dict\<close>s association lists
  in insertion order; a \<open>date\<close> is its proleptic ordinal.
\<close>

type_synonym day = int

section \<open>Analysis and plan\<close>

record time_scope =
  ts_start :: "day option"
  ts_end :: "day option"
  ts_description :: str

record query_analysis =
  an_language :: str
  an_intent :: str
  an_entities :: "str list"
  an_time_scope :: time_scope
  an_answer_type :: str
  an_domain :: str
  an_source_hints :: "str list"
  an_skills :: "str list"
  an_rationale :: str
  an_fallback :: bool

datatype subquestion_status = PENDING | SEARCHING | SUFFICIENT | EXHAUSTED

datatype facet_status = F_OPEN | F_SUFFICIENT | F_CONTESTED

record facet =
  f_id :: str
  f_name :: str
  f_description :: str
  f_status :: facet_status

datatype priority = MUST | NICE

record subquestion =
  sq_id :: str
  sq_text :: str
  sq_priority :: priority
  sq_facets :: "facet list"
  sq_expected_sources :: "str list"
  sq_status :: subquestion_status
  sq_queries_tried :: "str list"
  sq_rounds_without_progress :: nat
  sq_exhausted_reason :: "str option"

definition sq_open :: "subquestion \<Rightarrow> bool" where
  "sq_open s = (sq_status s = PENDING \<or> sq_status s = SEARCHING)"

definition missing_facets :: "subquestion \<Rightarrow> facet list" where
  "missing_facets s = filter (\<lambda>f. f_status f \<noteq> F_SUFFICIENT) (sq_facets s)"

datatype query_purpose = INITIAL | GAP | CONFLICT | BROADENED

datatype query_status = PLANNED | DONE | EMPTY | Q_FAILED | SKIPPED_BUDGET

record query_record =
  q_id :: str
  q_text :: str
  q_subq_id :: str
  q_facet_id :: "str option"
  q_purpose :: query_purpose
  q_rationale :: str
  q_iteration :: nat
  q_status :: query_status
  q_provider :: "str option"
  q_result_count :: nat
  q_cache_hit :: bool
  q_error_code :: "str option"

section \<open>Sources\<close>

record source_score =
  ss_authority :: real
  ss_primary :: real
  ss_recency :: real
  ss_relevance :: real
  ss_total :: real
  ss_tier :: nat
  ss_is_primary :: bool
  ss_rationale :: str
  ss_llm_scored :: bool

definition default_score :: source_score where
  "default_score = \<lparr>ss_authority = 0, ss_primary = 0, ss_recency = 0, ss_relevance = 0, ss_total = 0,
     ss_tier = 3, ss_is_primary = False, ss_rationale = [], ss_llm_scored = False\<rparr>"

record document =
  d_id :: str
  d_url :: str
  d_canonical_url :: str
  d_domain :: str
  d_title :: str
  d_snippet :: str
  d_content :: str
  d_content_hash :: str
  d_published_at :: "day option"
  d_date_provenance :: "str option"
  d_provider :: "str option"
  d_subq_ids :: "str list"
  d_query_ids :: "str list"
  d_origin_id :: str
  d_minhash :: "nat list"
  d_fetched :: bool
  d_fetch_error :: "str option"
  d_extracted :: bool
  d_selected_round :: "nat option"
  d_triage_score :: real
  d_score :: source_score
  d_first_seen_iteration :: nat

section \<open>The ledger\<close>

datatype claim_kind = FACT | C_NUMBER | C_DATE | EVENT | DEFINITION | OPINION | FORECAST

datatype validation_status = LEGACY | V_SUPPORTED | UNSUPPORTED | UNAVAILABLE

datatype freshness = NOT_TIME_SENSITIVE | CURRENT | HISTORICAL | UNDATED

record claim =
  c_id :: str
  c_subq_id :: str
  c_facet_id :: "str option"
  c_doc_id :: str
  c_origin_id :: str
  c_text :: str
  c_quote :: str
  c_kind :: claim_kind
  c_entity :: "str option"
  c_attribute :: "str option"
  c_value :: "str option"
  c_unit :: "str option"
  c_as_of :: "str option"
  c_conditions :: "str list"
  c_effective_from :: "str option"
  c_effective_until :: "str option"
  c_time_sensitive :: bool
  c_validation_status :: validation_status
  c_validation_reason :: str
  c_freshness :: freshness
  c_requires_fresh_confirmation :: bool
  c_quote_match_method :: "str option"
  c_quote_match_score :: "real option"
  c_attributed_to :: "str option"
  c_iteration :: nat

datatype cluster_status = K_SUPPORTED | SINGLE_SOURCE | CONTESTED

record cluster =
  k_id :: str
  k_subq_id :: str
  k_claim_ids :: "str list"
  k_doc_ids :: "str list"
  k_origin_ids :: "str list"
  k_facet_ids :: "str list"
  k_statement :: str
  k_entity :: "str option"
  k_attribute :: "str option"
  k_value :: "str option"
  k_unit :: "str option"
  k_as_of :: "str option"
  k_kind :: claim_kind
  k_conditions :: "str list"
  k_effective_from :: "str option"
  k_effective_until :: "str option"
  k_requires_fresh_confirmation :: bool
  k_confidence :: real
  k_best_source_score :: real
  k_has_primary :: bool
  k_status :: cluster_status

definition support :: "cluster \<Rightarrow> nat" where
  "support k = length (k_origin_ids k)"

datatype contradiction_kind =
  TRUE_CONFLICT | DIFFERENT_TIME | DIFFERENT_SCOPE | ROUNDING | CONSISTENT

record contradiction =
  x_id :: str
  x_cluster_ids :: "str list"
  x_subq_id :: str
  x_kind :: contradiction_kind
  x_summary :: str
  x_rationale :: str
  x_preferred_cluster_id :: "str option"
  x_resolved :: bool
  x_followup_attempted :: bool
  x_iteration :: nat

section \<open>Report\<close>

datatype sentence_kind = S_FACT | RECOMMENDATION | META

record sentence =
  s_text :: str
  s_kind :: sentence_kind
  s_cluster_ids :: "str list"
  s_finding_refs :: "str list"
  s_labels :: "str list"

datatype section_key =
  SUMMARY | KEY_FINDINGS | CONFLICTING | CONCLUSION | RECOMMENDATIONS | KNOWN_GAPS | SOURCES

fun key_value :: "section_key \<Rightarrow> str" where
  "key_value SUMMARY = lit ''summary''"
| "key_value KEY_FINDINGS = lit ''key_findings''"
| "key_value CONFLICTING = lit ''conflicting_or_uncertain''"
| "key_value CONCLUSION = lit ''conclusion''"
| "key_value RECOMMENDATIONS = lit ''recommendations''"
| "key_value KNOWN_GAPS = lit ''known_gaps''"
| "key_value SOURCES = lit ''sources''"

definition all_keys :: "section_key list" where
  "all_keys = [SUMMARY, KEY_FINDINGS, CONFLICTING, CONCLUSION, RECOMMENDATIONS, KNOWN_GAPS, SOURCES]"

text \<open>\<open>SectionKey(value)\<close>; an unknown name raises.\<close>

definition key_of :: "str \<Rightarrow> section_key option" where
  "key_of v = find (\<lambda>k. key_value k = v) all_keys"

record report_section =
  sec_key :: section_key
  sec_title :: str
  sec_sentences :: "sentence list"

record source_entry =
  se_number :: nat
  se_doc_id :: str
  se_url :: str
  se_title :: str
  se_domain :: str
  se_score :: real

record report =
  r_title :: str
  r_language :: str
  r_sections :: "report_section list"
  r_sources :: "source_entry list"
  r_fallback :: bool

definition report_section_of :: "report \<Rightarrow> section_key \<Rightarrow> report_section option" where
  "report_section_of r k = find (\<lambda>s. sec_key s = k) (r_sections r)"

definition report_sentences :: "report \<Rightarrow> (report_section \<times> sentence) list" where
  "report_sentences r = concat (map (\<lambda>s. map (Pair s) (sec_sentences s)) (r_sections r))"

text \<open>A search result (\<open>providers/search/base.py\<close>). The state keeps it in its JSON form, here it stays a record.\<close>

record search_hit =
  sh_url :: str
  sh_title :: str
  sh_snippet :: str
  sh_content :: "str option"
  sh_published_at :: "day option"
  sh_provider :: str
  sh_rank :: nat
  sh_provider_score :: "real option"

record pending_hit =
  ph_hit :: search_hit
  ph_query_id :: str
  ph_subq_id :: str

section \<open>The run\<close>

datatype stop_reason =
  R_SUFFICIENT | R_BUDGET | R_MAX_ITERATIONS | R_NO_PROGRESS | R_NO_EVIDENCE | R_CANCELLED

record route_record =
  rt_stop :: bool
  rt_reason :: "stop_reason option"
  rt_rule :: str
  rt_detail :: str

record heuristic_check =
  hc_id :: str
  hc_stage :: str
  hc_name :: str
  hc_warn :: bool
  hc_summary :: str
  hc_related_ids :: "str list"

record research_state =
  rs_run_id :: nat
  rs_question :: str
  rs_language :: str
  rs_as_of :: day
  rs_analysis :: query_analysis
  rs_plan :: "subquestion list"
  rs_queries :: "query_record list"
  rs_documents :: "(str, document) dict"
  rs_claims :: "(str, claim) dict"
  rs_clusters :: "(str, cluster) dict"
  rs_contradictions :: "contradiction list"
  rs_iteration :: nat
  rs_stop_reason :: "stop_reason option"
  rs_stop_detail :: str
  rs_skills :: "str list"
  rs_report :: "report option"
  rs_report_markdown :: str
  rs_gate_result :: "json option"
  rs_verification :: "(str \<times> json) list"
  rs_heuristic_checks :: "heuristic_check list"
  rs_counters :: "(str, nat) dict"
  rs_budget :: "(str, real) dict"
  rs_started_at :: "real option"
  rs_pending_hits :: "pending_hit list"
  rs_round_snapshot :: "(str, nat list) dict"
  rs_route :: "route_record option"
  rs_resynthesized :: bool
  rs_skill_domains :: "(nat, str list) dict"

definition subquestion_of :: "research_state \<Rightarrow> str \<Rightarrow> subquestion option" where
  "subquestion_of st i = find (\<lambda>s. sq_id s = i) (rs_plan st)"

definition source_dates :: "research_state \<Rightarrow> cluster \<Rightarrow> day list" where
  "source_dates st k = List.map_filter
     (\<lambda>i. case dget (rs_documents st) i of None \<Rightarrow> None | Some d \<Rightarrow> d_published_at d) (k_doc_ids k)"

definition latest_source_date :: "research_state \<Rightarrow> cluster \<Rightarrow> day option" where
  "latest_source_date st k =
     (case source_dates st k of [] \<Rightarrow> None | x # xs \<Rightarrow> Some (fold max xs x))"

definition open_subquestions :: "research_state \<Rightarrow> subquestion list" where
  "open_subquestions st = filter sq_open (rs_plan st)"

definition must_subquestions :: "research_state \<Rightarrow> subquestion list" where
  "must_subquestions st = filter (\<lambda>s. sq_priority s = MUST) (rs_plan st)"

definition queries_for :: "research_state \<Rightarrow> str \<Rightarrow> query_record list" where
  "queries_for st i = filter (\<lambda>q. q_subq_id q = i) (rs_queries st)"

definition clusters_for :: "research_state \<Rightarrow> str \<Rightarrow> cluster list" where
  "clusters_for st i = filter (\<lambda>k. k_subq_id k = i) (dvals (rs_clusters st))"

definition bump :: "str \<Rightarrow> nat \<Rightarrow> research_state \<Rightarrow> research_state" where
  "bump counter amount st =
     st\<lparr>rs_counters := dput counter (dget_or (rs_counters st) counter 0 + amount) (rs_counters st)\<rparr>"

definition next_id :: "str \<Rightarrow> nat \<Rightarrow> str" where
  "next_id p existing = p @ dec (existing + 1)"

section \<open>Facts about keys and ids\<close>

lemma key_value_inj [simp]: "key_value a = key_value b \<longleftrightarrow> a = b"
  by (cases a; cases b) simp_all

lemma in_all_keys [simp]: "k \<in> set all_keys"
  by (cases k) (simp_all add: all_keys_def)

lemma key_of_value [simp]: "key_of (key_value k) = Some k"
  by (cases k) (simp_all add: key_of_def all_keys_def)

lemma key_of_Some: "key_of v = Some k \<Longrightarrow> key_value k = v"
  by (auto simp: key_of_def find_Some_iff)

lemma next_id_inj [simp]: "next_id p m = next_id p n \<longleftrightarrow> m = n"
  by (simp add: next_id_def)

end
