(* ===== verification/Redaction.thy ===== *)
theory Redaction
  imports Rx
begin

text \<open>
  \<open>observability/redaction.py\<close>: what is removed from everything that leaves the process, by value
  pattern (the fourteen rules, in order, two of them behind a checksum) and by key name.
\<close>

definition SENSITIVE_KEYS :: "str list" where
  "SENSITIVE_KEYS = [
      lit ''api_key'', lit ''apikey'', lit ''authorization'', lit ''ciphertext'',
      lit ''cookie'', lit ''credentials'', lit ''key'', lit ''keys'', lit ''password'',
      lit ''secret'', lit ''secret_key'', lit ''session'', lit ''token'']"

section \<open>Checksums\<close>

definition digit_value :: "nat \<Rightarrow> nat" where
  "digit_value c = c - 48"

text \<open>\<open>_luhn\<close>: the loop over the reversed digits, with its index and running total.\<close>

fun luhn_total :: "nat \<Rightarrow> str \<Rightarrow> nat" where
  "luhn_total i [] = 0"
| "luhn_total i (c # cs) =
     (let v = digit_value c;
          w = (if odd i then (if 2 * v > 9 then 2 * v - 9 else 2 * v) else v)
      in w + luhn_total (Suc i) cs)"

definition luhn :: "str \<Rightarrow> bool" where
  "luhn digits = (luhn_total 0 (rev digits) mod 10 = 0)"

definition is_valid_card :: "str \<Rightarrow> bool" where
  "is_valid_card value = luhn (filter is_digit value)"

text \<open>The integers are unbounded in Python, so the subtraction is one of \<open>int\<close>.\<close>

definition is_valid_tckn :: "str \<Rightarrow> bool" where
  "is_valid_tckn value =
     (if length value \<noteq> 11 \<or> \<not> list_all is_digit value \<or> hd value = 48 then False
      else let d = map (\<lambda>c. int (digit_value c)) value;
               odd_sum = d ! 0 + d ! 2 + d ! 4 + d ! 6 + d ! 8;
               even_sum = d ! 1 + d ! 3 + d ! 5 + d ! 7
           in if (odd_sum * 7 - even_sum) mod 10 \<noteq> d ! 9 then False
              else sum_list (take 10 d) mod 10 = d ! 10)"

section \<open>The rules\<close>

definition is_ascii_alnum :: "nat \<Rightarrow> bool" where
  "is_ascii_alnum c = (is_digit c \<or> 65 \<le> c \<and> c \<le> 90 \<or> 97 \<le> c \<and> c \<le> 122)"

text \<open>\<open>[A-Za-z0-9_\<backslash>-]\<close>, and with a dot.\<close>

definition key_char :: "nat \<Rightarrow> bool" where
  "key_char c = (is_ascii_alnum c \<or> c = 95 \<or> c = 45)"

definition key_dot_char :: "nat \<Rightarrow> bool" where
  "key_dot_char c = (key_char c \<or> c = 46)"

record redact_rule =
  rr_label :: str
  rr_pattern :: rx
  rr_validator :: "(str \<Rightarrow> bool) option"

definition plain_rule :: "string \<Rightarrow> rx \<Rightarrow> redact_rule" where
  "plain_rule l r = \<lparr>rr_label = lit l, rr_pattern = r, rr_validator = None\<rparr>"

definition checked_rule :: "string \<Rightarrow> rx \<Rightarrow> (str \<Rightarrow> bool) \<Rightarrow> redact_rule" where
  "checked_rule l r v = \<lparr>rr_label = lit l, rr_pattern = r, rr_validator = Some v\<rparr>"

definition google_key_rx :: rx where
  "google_key_rx = seqs [WordB, rlit (lit ''AIza''), times 35 (Chr key_char), WordB]"

definition google_aq_rx :: rx where
  "google_aq_rx = seqs [WordB, rlit (lit ''AQ.''), atleast 30 (Chr key_dot_char)]"

definition langfuse_rx :: rx where
  "langfuse_rx = seqs [WordB, alts [rlit (lit ''pk''), rlit (lit ''sk'')], rlit (lit ''-lf-''),
     atleast 8 (Chr key_char), WordB]"

definition openai_rx :: rx where
  "openai_rx = seqs [WordB, rlit (lit ''sk-''), atleast 16 (Chr key_char), WordB]"

definition tavily_rx :: rx where
  "tavily_rx = seqs [WordB, rlit (lit ''tvly-''), atleast 8 (Chr key_char), WordB]"

definition brave_rx :: rx where
  "brave_rx = seqs [WordB, rlit (lit ''BSA''), atleast 20 (Chr key_char), WordB]"

text \<open>Under \<open>IGNORECASE\<close> the class is tested on the case-folded character.\<close>

definition bearer_rx :: rx where
  "bearer_rx = seqs [WordB, irlit (lit ''Bearer''), plus rspace,
     atleast 8 (Chr (\<lambda>c. key_dot_char (ci c)))]"

definition database_url_rx :: rx where
  "database_url_rx = seqs
     [WordB, Grp ''scheme'' (plus (Chr (\<lambda>c. 97 \<le> ci c \<and> ci c \<le> 122 \<or> c = 43))), rlit (lit ''://''),
      plus (Chr (\<lambda>c. \<not> is_space c \<and> c \<notin> {58, 47, 64})), ch 58,
      plus (Chr (\<lambda>c. \<not> is_space c \<and> c \<notin> {47, 64})), ch 64,
      plus (Chr (\<lambda>c. \<not> is_space c))]"

definition iban_rx :: rx where
  "iban_rx = seqs
     [WordB, times 2 (Chr (\<lambda>c. 65 \<le> c \<and> c \<le> 90)), times 2 (Chr (\<lambda>c. 48 \<le> c \<and> c \<le> 57)),
      between 11 30 (Chr (\<lambda>c. 65 \<le> c \<and> c \<le> 90 \<or> 48 \<le> c \<and> c \<le> 57)), WordB]"

definition card_rx :: rx where
  "card_rx = seqs
     [WordB, between 12 18 (Seq rdigit (opt (Chr (\<lambda>c. c = 32 \<or> c = 45)))), rdigit, WordB]"

definition tckn_rx :: rx where
  "tckn_rx = seqs
     [WordB, Chr (\<lambda>c. 49 \<le> c \<and> c \<le> 57), times 10 (Chr (\<lambda>c. 48 \<le> c \<and> c \<le> 57)), WordB]"

definition email_rx :: rx where
  "email_rx = seqs
     [WordB, plus (Chr (\<lambda>c. is_word c \<or> c \<in> {46, 43, 45})), ch 64,
      plus (Chr (\<lambda>c. is_word c \<or> c = 45)), ch 46,
      plus (Chr (\<lambda>c. is_word c \<or> c \<in> {46, 45})), WordB]"

definition phone_rx :: rx where
  "phone_rx = seqs
     [opt (alts [rlit (lit ''+90''), ch 48]), opt rspace, ch 53, times 2 rdigit, opt rspace,
      times 3 rdigit, opt rspace, times 2 rdigit, opt rspace, times 2 rdigit, WordB]"

definition ip_rx :: rx where
  "ip_rx = seqs [WordB, times 3 (Seq (between 1 3 rdigit) (ch 46)), between 1 3 rdigit, WordB]"

definition REDACT_RULES :: "redact_rule list" where
  "REDACT_RULES =
     [plain_rule ''GOOGLE_API_KEY'' google_key_rx,
      plain_rule ''GOOGLE_API_KEY'' google_aq_rx,
      plain_rule ''LANGFUSE_KEY'' langfuse_rx,
      plain_rule ''OPENAI_API_KEY'' openai_rx,
      plain_rule ''TAVILY_API_KEY'' tavily_rx,
      plain_rule ''BRAVE_API_KEY'' brave_rx,
      plain_rule ''BEARER_TOKEN'' bearer_rx,
      plain_rule ''DATABASE_URL'' database_url_rx,
      plain_rule ''IBAN'' iban_rx,
      checked_rule ''CREDIT_CARD'' card_rx is_valid_card,
      checked_rule ''TCKN'' tckn_rx is_valid_tckn,
      plain_rule ''EMAIL'' email_rx,
      plain_rule ''PHONE'' phone_rx,
      plain_rule ''IP_ADDRESS'' ip_rx]"

text \<open>\<open>PLACEHOLDER.format(label=label)\<close>, \<open>_keep_unless\<close>, \<open>redact_text\<close>.\<close>

definition placeholder :: "str \<Rightarrow> str" where
  "placeholder label = lit ''<'' @ label @ lit ''>''"

definition keep_unless :: "(str \<Rightarrow> bool) \<Rightarrow> str \<Rightarrow> hit \<Rightarrow> str" where
  "keep_unless validator replacement h = (if validator (h_text h) then replacement else h_text h)"

definition apply_rule :: "redact_rule \<Rightarrow> str \<Rightarrow> str" where
  "apply_rule r s =
     (let replacement = placeholder (rr_label r)
      in case rr_validator r of
           None \<Rightarrow> sub (rr_pattern r) (\<lambda>_. replacement) s
         | Some v \<Rightarrow> sub (rr_pattern r) (keep_unless v replacement) s)"

definition redact_text :: "str \<Rightarrow> str" where
  "redact_text s = fold apply_rule REDACT_RULES s"

section \<open>Structured values\<close>

definition sensitive_key :: "str \<Rightarrow> bool" where
  "sensitive_key k = List.member SENSITIVE_KEYS (str_lower k)"

text \<open>Python's tuples, sets and lists are all \<open>JList\<close> here: \<open>redact\<close> treats them alike.\<close>

fun redact :: "json \<Rightarrow> json" where
  "redact (JStr s) = JStr (redact_text s)"
| "redact (JObj kvs) =
     JObj (map (\<lambda>(k, v). (k, if sensitive_key k then JStr (lit ''<REDACTED>'') else redact v)) kvs)"
| "redact (JList vs) = JList (map redact vs)"
| "redact v = v"

text \<open>A text no pattern occurs in is unchanged; the checks run one after the other.\<close>

lemma apply_rule_no_hit: "\<not> found (rr_pattern r) s \<Longrightarrow> apply_rule r s = s"
  by (simp add: apply_rule_def Let_def sub_no_hit split: option.splits)

lemma fold_apply_rule_no_hit:
  "\<forall>r\<in>set rs. \<not> found (rr_pattern r) s \<Longrightarrow> fold apply_rule rs s = s"
  by (induction rs) (simp_all add: apply_rule_no_hit)

lemma redact_text_clean: "\<forall>r\<in>set REDACT_RULES. \<not> found (rr_pattern r) s \<Longrightarrow> redact_text s = s"
  by (simp add: redact_text_def fold_apply_rule_no_hit)

end
