(* ===== verification/Urls.thy ===== *)
theory Urls
  imports Rx
begin

text \<open>
  \<open>agent/dedup/urls.py\<close>: one canonical spelling per page. \<open>urlsplit\<close>, \<open>parse_qsl\<close>, \<open>urlencode\<close> and
  \<open>urlunsplit\<close> of the standard library are written out for what the module uses of them, percent
  decoding with UTF-8 and replacement characters included. Two things are outside: a network
  location with brackets (an IPv6 literal) is refused here, and the compatibility check of
  non-ASCII hosts, which never refuses a code point below U+0180, is not made.
\<close>

section \<open>Splitting a URL\<close>

record url_parts =
  u_scheme :: str
  u_netloc :: str
  u_path :: str
  u_query :: str

text \<open>\<open>s.partition(c)\<close>: the part before, whether the separator occurs, the part after.\<close>

definition partition_at :: "nat \<Rightarrow> str \<Rightarrow> str \<times> bool \<times> str" where
  "partition_at c s = (takeWhile (\<lambda>x. x \<noteq> c) s, c \<in> set s, drop 1 (dropWhile (\<lambda>x. x \<noteq> c) s))"

definition before_at :: "nat \<Rightarrow> str \<Rightarrow> str" where
  "before_at c s = fst (partition_at c s)"

definition after_at :: "nat \<Rightarrow> str \<Rightarrow> str" where
  "after_at c s = snd (snd (partition_at c s))"

text \<open>\<open>s.rpartition('@')[2]\<close>.\<close>

definition after_last :: "nat \<Rightarrow> str \<Rightarrow> str" where
  "after_last c s = rev (takeWhile (\<lambda>x. x \<noteq> c) (rev s))"

definition ascii_alpha :: "nat \<Rightarrow> bool" where
  "ascii_alpha c = (65 \<le> c \<and> c \<le> 90 \<or> 97 \<le> c \<and> c \<le> 122)"

definition scheme_char :: "nat \<Rightarrow> bool" where
  "scheme_char c = (ascii_alpha c \<or> 48 \<le> c \<and> c \<le> 57 \<or> c \<in> {43, 45, 46})"

definition split_scheme :: "str \<Rightarrow> str \<times> str" where
  "split_scheme u =
     (let s = before_at 58 u
      in if 58 \<in> set u \<and> s \<noteq> [] \<and> ascii_alpha (hd u) \<and> list_all scheme_char s
         then (str_lower s, after_at 58 u) else ([], u))"

text \<open>\<open>urlsplit\<close>; \<open>None\<close> is \<open>ValueError\<close>.\<close>

definition urlsplit :: "str \<Rightarrow> url_parts option" where
  "urlsplit raw =
     (let url = filter (\<lambda>c. c \<notin> {9, 10, 13}) (dropWhile (\<lambda>c. c \<le> 32) raw);
          (scheme, rest) = split_scheme url;
          slashes = starts_with rest [47, 47];
          body = drop 2 rest;
          netloc = (if slashes then takeWhile (\<lambda>c. c \<notin> {47, 63, 35}) body else []);
          rest = (if slashes then dropWhile (\<lambda>c. c \<notin> {47, 63, 35}) body else rest);
          rest = before_at 35 rest
      in if 91 \<in> set netloc \<or> 93 \<in> set netloc then None
         else Some \<lparr>u_scheme = scheme, u_netloc = netloc, u_path = before_at 63 rest,
                    u_query = after_at 63 rest\<rparr>)"

text \<open>\<open>parts.hostname\<close>: lower case up to a zone mark; empty is \<open>None\<close>.\<close>

definition hostname :: "url_parts \<Rightarrow> str option" where
  "hostname p =
     (let h = before_at 58 (after_last 64 (u_netloc p)); (name, zoned, zone) = partition_at 37 h
      in if h = [] then None
         else Some (str_lower name @ (if zoned then [37] @ zone else [])))"

datatype url_error = BadPort

definition digits_value :: "str \<Rightarrow> nat" where
  "digits_value s = foldl (\<lambda>a c. 10 * a + (c - 48)) 0 s"

text \<open>\<open>parts.port\<close>: raises when it is not a number up to 65535.\<close>

definition port_of :: "url_parts \<Rightarrow> url_error + nat option" where
  "port_of p =
     (let t = after_at 58 (after_last 64 (u_netloc p))
      in if t = [] then Inr None
         else if list_all (\<lambda>c. 48 \<le> c \<and> c \<le> 57) t \<and> digits_value t \<le> 65535
         then Inr (Some (digits_value t)) else Inl BadPort)"

section \<open>Query strings\<close>

definition hex_value :: "nat \<Rightarrow> nat option" where
  "hex_value c = (if 48 \<le> c \<and> c \<le> 57 then Some (c - 48)
     else if 65 \<le> c \<and> c \<le> 70 then Some (c - 55)
     else if 97 \<le> c \<and> c \<le> 102 then Some (c - 87) else None)"

text \<open>\<open>unquote_to_bytes\<close> on an ASCII run.\<close>

fun unquote_bytes :: "str \<Rightarrow> nat list" where
  "unquote_bytes (c # a # b # s) =
     (case (c = 37, hex_value a, hex_value b) of
        (True, Some x, Some y) \<Rightarrow> (16 * x + y) # unquote_bytes s
      | _ \<Rightarrow> c # unquote_bytes (a # b # s))"
| "unquote_bytes s = s"

text \<open>UTF-8 with replacement: each maximal ill-formed prefix becomes U+FFFD.\<close>

definition cont_byte :: "nat \<Rightarrow> nat \<Rightarrow> nat \<Rightarrow> bool" where
  "cont_byte lo hi b = (lo \<le> b \<and> b \<le> hi)"

definition lead3 :: "nat \<Rightarrow> nat \<times> nat" where
  "lead3 b = (if b = 224 then (160, 191) else if b = 237 then (128, 159) else (128, 191))"

definition lead4 :: "nat \<Rightarrow> nat \<times> nat" where
  "lead4 b = (if b = 240 then (144, 191) else if b = 244 then (128, 143) else (128, 191))"

definition utf8_step :: "nat list \<Rightarrow> nat \<times> nat" where
  "utf8_step bs =
     (case bs of
        [] \<Rightarrow> (65533, 1)
      | b # r \<Rightarrow>
          let ok = (\<lambda>i lo hi. i < length r \<and> cont_byte lo hi (r ! i)) in
          if b < 128 then (b, 1)
          else if 194 \<le> b \<and> b \<le> 223 then
            (if ok 0 128 191 then ((b - 192) * 64 + (r ! 0 - 128), 2) else (65533, 1))
          else if 224 \<le> b \<and> b \<le> 239 then
            (if \<not> ok 0 (fst (lead3 b)) (snd (lead3 b)) then (65533, 1)
             else if \<not> ok 1 128 191 then (65533, 2)
             else ((b - 224) * 4096 + (r ! 0 - 128) * 64 + (r ! 1 - 128), 3))
          else if 240 \<le> b \<and> b \<le> 244 then
            (if \<not> ok 0 (fst (lead4 b)) (snd (lead4 b)) then (65533, 1)
             else if \<not> ok 1 128 191 then (65533, 2)
             else if \<not> ok 2 128 191 then (65533, 3)
             else ((b - 240) * 262144 + (r ! 0 - 128) * 4096 + (r ! 1 - 128) * 64 + (r ! 2 - 128), 4))
          else (65533, 1))"

fun utf8_decode_fuel :: "nat \<Rightarrow> nat list \<Rightarrow> str" where
  "utf8_decode_fuel 0 bs = []"
| "utf8_decode_fuel (Suc n) [] = []"
| "utf8_decode_fuel (Suc n) (b # bs) =
     (let (c, k) = utf8_step (b # bs) in c # utf8_decode_fuel n (drop k (b # bs)))"

definition utf8_decode :: "nat list \<Rightarrow> str" where
  "utf8_decode bs = utf8_decode_fuel (length bs) bs"

definition utf8_encode1 :: "nat \<Rightarrow> nat list" where
  "utf8_encode1 c =
     (if c < 128 then [c]
      else if c < 2048 then [192 + c div 64, 128 + c mod 64]
      else if c < 65536 then [224 + c div 4096, 128 + c div 64 mod 64, 128 + c mod 64]
      else [240 + c div 262144, 128 + c div 4096 mod 64, 128 + c div 64 mod 64, 128 + c mod 64])"

text \<open>\<open>unquote\<close>: only the ASCII runs are decoded.\<close>

function unquote :: "str \<Rightarrow> str" where
  "unquote [] = []"
| "unquote (c # s) =
     (if c < 128
      then utf8_decode (unquote_bytes (takeWhile (\<lambda>x. x < 128) (c # s)))
           @ unquote (dropWhile (\<lambda>x. x < 128) (c # s))
      else c # unquote s)"
  by pat_completeness auto
termination
  by (relation "measure length") (auto simp: less_Suc_eq_le length_dropWhile_le)

fun split_char :: "nat \<Rightarrow> str \<Rightarrow> str list" where
  "split_char c [] = [[]]"
| "split_char c (x # xs) =
     (if x = c then [] # split_char c xs
      else (case split_char c xs of [] \<Rightarrow> [[x]] | g # gs \<Rightarrow> (x # g) # gs))"

definition plus_to_space :: "str \<Rightarrow> str" where
  "plus_to_space s = map (\<lambda>c. if c = 43 then 32 else c) s"

definition parse_qsl :: "str \<Rightarrow> (str \<times> str) list" where
  "parse_qsl qs =
     map (\<lambda>f. (unquote (plus_to_space (before_at 61 f)), unquote (plus_to_space (after_at 61 f))))
       (filter (\<lambda>f. after_at 61 f \<noteq> []) (split_char 38 qs))"

definition hex_digit :: "nat \<Rightarrow> nat" where
  "hex_digit n = (if n < 10 then 48 + n else 55 + n)"

definition quote_byte :: "nat \<Rightarrow> str" where
  "quote_byte b =
     (if ascii_alpha b \<or> 48 \<le> b \<and> b \<le> 57 \<or> b \<in> {95, 46, 45, 126} then [b]
      else if b = 32 then [43]
      else [37, hex_digit (b div 16), hex_digit (b mod 16)])"

definition quote_plus :: "str \<Rightarrow> str" where
  "quote_plus s = concat (map quote_byte (concat (map utf8_encode1 s)))"

definition urlencode :: "(str \<times> str) list \<Rightarrow> str" where
  "urlencode kvs = join [38] (map (\<lambda>(k, v). quote_plus k @ [61] @ quote_plus v) kvs)"

definition urlunsplit_https :: "str \<Rightarrow> str \<Rightarrow> str \<Rightarrow> str" where
  "urlunsplit_https netloc path query =
     lit ''https://'' @ netloc @ (if path \<noteq> [] \<and> hd path \<noteq> 47 then [47] @ path else path)
     @ (if query = [] then [] else [63] @ query)"

section \<open>Canonical URLs\<close>

definition TRACKING_PREFIXES :: "str list" where
  "TRACKING_PREFIXES = [lit ''utm_'', lit ''mc_'', lit ''pk_'', lit ''ga_'']"

definition TRACKING_KEYS :: "str list" where
  "TRACKING_KEYS =
     [lit ''gclid'', lit ''fbclid'', lit ''msclkid'', lit ''dclid'', lit ''yclid'', lit ''igshid'', lit ''ref'',
      lit ''ref_src'', lit ''amp'', lit ''outputtype'', lit ''cmpid'', lit ''ocid'', lit ''sr_share'',
      lit ''spm'', lit ''_ga'', lit ''si'']"

text \<open>\<open>_MOBILE_HOST.sub("", host)\<close>: one label, at the start.\<close>

definition strip_mobile :: "str \<Rightarrow> str" where
  "strip_mobile host =
     (if starts_with host (lit ''m.'') then drop 2 host
      else if starts_with host (lit ''mobile.'') then drop 7 host
      else if starts_with host (lit ''amp.'') then drop 4 host else host)"

definition amp_suffix_rx :: rx where
  "amp_suffix_rx = Seq (Alt (Seq (irlit (lit ''/amp'')) (opt (ch 47))) (irlit (lit ''.amp''))) Eos"

definition tracking :: "str \<Rightarrow> bool" where
  "tracking key = ((\<exists>p\<in>set TRACKING_PREFIXES. starts_with (str_lower key) p)
                   \<or> str_lower key \<in> set TRACKING_KEYS)"

text \<open>Python's order on pairs of strings, and a stable sort by it.\<close>

definition pair_le :: "str \<times> str \<Rightarrow> str \<times> str \<Rightarrow> bool" where
  "pair_le a b = (fst a < fst b \<or> fst a = fst b \<and> snd a \<le> snd b)"

fun insert_pair :: "str \<times> str \<Rightarrow> (str \<times> str) list \<Rightarrow> (str \<times> str) list" where
  "insert_pair x [] = [x]"
| "insert_pair x (y # ys) = (if pair_le x y then x # y # ys else y # insert_pair x ys)"

definition sort_pairs :: "(str \<times> str) list \<Rightarrow> (str \<times> str) list" where
  "sort_pairs xs = foldr insert_pair xs []"

definition canonical_host :: "str \<Rightarrow> str" where
  "canonical_host h = strip_mobile (removeprefix (str_lower h) (lit ''www.''))"

definition canonical_path :: "str \<Rightarrow> str" where
  "canonical_path p =
     (let q = sub amp_suffix_rx (\<lambda>_. []) p; q = (if q = [] then [47] else q)
      in if length q > 1
         then (let r = rstrip_set {47} q in if r = [] then [47] else r) else q)"

definition canonical_query :: "str \<Rightarrow> str" where
  "canonical_query q = urlencode (sort_pairs (filter (\<lambda>(k, v). \<not> tracking k) (parse_qsl q)))"

definition canonicalize_url :: "str \<Rightarrow> url_error + str option" where
  "canonicalize_url raw =
     (case urlsplit (strip raw) of
        None \<Rightarrow> Inr None
      | Some p \<Rightarrow>
          if u_scheme p \<notin> {lit ''http'', lit ''https''} then Inr None
          else case hostname p of
              None \<Rightarrow> Inr None
            | Some h \<Rightarrow>
                rbind (port_of p) (\<lambda>port.
                  let host = canonical_host h;
                      netloc = (case port of
                                  None \<Rightarrow> host
                                | Some n \<Rightarrow> if n \<in> {80, 443} then host else host @ [58] @ dec n)
                  in Inr (Some (urlunsplit_https netloc (canonical_path (u_path p))
                            (canonical_query (u_query p))))))"

definition domain_of :: "str \<Rightarrow> str" where
  "domain_of url =
     (case urlsplit url of
        None \<Rightarrow> []
      | Some p \<Rightarrow> canonical_host (case hostname p of None \<Rightarrow> [] | Some h \<Rightarrow> h))"

definition SECOND_LEVEL :: "str list" where
  "SECOND_LEVEL = [lit ''com'', lit ''org'', lit ''net'', lit ''gov'', lit ''edu'', lit ''gen'', lit ''bel'',
                   lit ''av'', lit ''co'', lit ''ac'', lit ''k12'']"

definition site_of :: "str \<Rightarrow> str" where
  "site_of domain =
     (let labels = filter (\<lambda>l. l \<noteq> []) (split_char 46 (str_lower domain)); n = length labels
      in if n \<le> 2 then join [46] labels
         else (let keep = (if length (labels ! (n - 1)) = 2 \<and> labels ! (n - 2) \<in> set SECOND_LEVEL
                           then 3 else 2)
               in join [46] (drop (n - keep) labels)))"

section \<open>What is canonical about it\<close>

lemma pair_le_total: "pair_le a b \<or> pair_le b a"
  by (auto simp: pair_le_def)

lemma pair_le_antisym: "pair_le a b \<Longrightarrow> pair_le b a \<Longrightarrow> a = b"
  by (auto simp: pair_le_def prod_eq_iff)

lemma pair_le_trans: "pair_le a b \<Longrightarrow> pair_le b c \<Longrightarrow> pair_le a c"
  by (auto simp: pair_le_def)

lemma insert_pair_commute: "insert_pair x (insert_pair y zs) = insert_pair y (insert_pair x zs)"
proof (induction zs)
  case Nil
  then show ?case using pair_le_total[of x y] pair_le_antisym[of x y] by auto
next
  case (Cons z zs)
  then show ?case
    using pair_le_total[of x y] pair_le_antisym[of x y] pair_le_trans[of x y z] pair_le_trans[of y x z]
    by auto
qed

lemma foldr_insert_pair: "foldr insert_pair xs (insert_pair y zs) = insert_pair y (foldr insert_pair xs zs)"
  by (induction xs) (simp_all add: insert_pair_commute)

lemma sort_pairs_append_commute: "sort_pairs (xs @ ys) = sort_pairs (ys @ xs)"
proof (induction ys)
  case (Cons y ys)
  have "sort_pairs (xs @ y # ys) = insert_pair y (sort_pairs (xs @ ys))"
    by (simp add: sort_pairs_def foldr_insert_pair)
  with Cons show ?case by (simp add: sort_pairs_def)
qed simp

lemma split_char_nonempty [simp]: "split_char c s \<noteq> []"
  by (induction s) (auto split: list.splits)

lemma split_char_sep: "split_char c (a @ c # b) = split_char c a @ split_char c b"
  by (induction a) (auto split: list.splits)

lemma parse_qsl_sep: "parse_qsl (a @ 38 # b) = parse_qsl a @ parse_qsl b"
  by (simp add: parse_qsl_def split_char_sep)

lemma canonical_query_commute: "canonical_query (a @ 38 # b) = canonical_query (b @ 38 # a)"
  by (simp add: canonical_query_def parse_qsl_sep sort_pairs_append_commute)

lemma canonical_query_tracking:
  "\<forall>(k, v)\<in>set (parse_qsl b). tracking k \<Longrightarrow> canonical_query (a @ 38 # b) = canonical_query a"
proof -
  assume "\<forall>(k, v)\<in>set (parse_qsl b). tracking k"
  then have "filter (\<lambda>(k, v). \<not> tracking k) (parse_qsl b) = []" by (auto simp: filter_empty_conv)
  then show ?thesis by (simp add: canonical_query_def parse_qsl_sep)
qed

lemma set_before_at: "c \<in> set (before_at x s) \<Longrightarrow> c \<in> set s \<and> c \<noteq> x"
  by (auto simp: before_at_def partition_at_def dest: set_takeWhileD)

text \<open>
  The canonical query does not depend on the order in which the parameters were written, and
  appending parameters that only track the visitor does not change it.
\<close>

lemma canonical_query_order_free:
  "canonical_query (a @ 38 # b) = canonical_query (b @ 38 # a)
   \<and> ((\<forall>(k, v)\<in>set (parse_qsl t). tracking k) \<longrightarrow> canonical_query (a @ 38 # t) = canonical_query a)"
  using canonical_query_commute canonical_query_tracking by blast

lemma utm_tracked: "\<forall>(k, v)\<in>set (parse_qsl (lit ''utm_a=1'')). tracking k"
  by (simp add: parse_qsl_def before_at_def after_at_def partition_at_def plus_to_space_def
      utf8_decode_def utf8_step_def eval_nat_numeral tracking_def TRACKING_PREFIXES_def
      str_lower_def lower1_def)

lemma canonical_query_order_free_witness:
  "canonical_query (lit ''b=2'' @ 38 # lit ''utm_a=1'') = canonical_query (lit ''b=2'')"
  using canonical_query_order_free[of "lit ''b=2''" "[]" "lit ''utm_a=1''"] utm_tracked by blast

lemmas canonical_eval =
  canonicalize_url_def strip_def urlsplit_def split_scheme_def before_at_def after_at_def
  partition_at_def ascii_alpha_def scheme_char_def str_lower_def lower1_def hostname_def after_last_def
  port_of_def canonical_host_def removeprefix_def strip_mobile_def canonical_path_def sub_def
  amp_suffix_rx_def rx_eval rstrip_set_def canonical_query_def parse_qsl_def sort_pairs_def
  urlencode_def urlunsplit_https_def digits_value_def

text \<open>
  Canonicalising is not idempotent, since one mobile label is dropped per call: the spelling of a page
  under \<open>m.m.\<close> is itself rewritten by the next call. And an address whose port is out of range is not
  refused but raises.
\<close>

lemma canonical_url_unstable:
  "canonicalize_url (lit ''http://m.m.x.com/a'') = Inr (Some (lit ''https://m.x.com/a''))
   \<and> canonicalize_url (lit ''https://m.x.com/a'') = Inr (Some (lit ''https://x.com/a''))
   \<and> canonicalize_url (lit ''http://x.com:99999/'') = Inl BadPort"
  by (simp add: canonical_eval)

end
