(* ===== verification/GateRules.thy ===== *)
theory GateRules
  imports State Numeric Redaction Urls
begin

text \<open>
  \<open>gate/rules.py\<close>: the twelve rules of the output gate as functions from report, state and
  configuration to violations. G4 reads numbers and G8 canonicalises URLs, and both can raise, so a
  rule returns an exception or its violations; \<open>evaluate\<close> runs them in the order of the table.
\<close>

section \<open>Violations and configuration\<close>

datatype gate_rule = G1 | G2 | G3 | G4 | G5 | G6 | G7 | G8 | G9 | G10 | G11 | G12

definition RULES :: "gate_rule list" where
  "RULES = [G1, G2, G3, G4, G5, G6, G7, G8, G9, G10, G11, G12]"

datatype gate_error =
  NumericError numeric_error | UrlError url_error | UnknownSectionKey | NegativeRounds
| UnknownRule gate_rule | MissingDetail

record violation =
  v_rule :: gate_rule
  v_error :: bool
  v_message :: str
  v_section :: "section_key option"
  v_index :: "nat option"
  v_details :: "(str \<times> json) list"

record gate_config =
  gc_rules :: "(gate_rule, str) dict"
  gc_numeric_relative :: real
  gc_date_granularity_days :: real
  gc_percentage_absolute :: real
  gc_required_sections :: "str list"

definition LABEL_UNCERTAIN :: str where "LABEL_UNCERTAIN = lit ''uncertain''"
definition LABEL_SINGLE_SOURCE :: str where "LABEL_SINGLE_SOURCE = lit ''single_source''"
definition LABEL_APPROXIMATE :: str where "LABEL_APPROXIMATE = lit ''approximate''"
definition GAP_LABEL_PREFIX :: str where "GAP_LABEL_PREFIX = lit ''gap:''"

definition LEDGER_NOUN :: rx where
  "LEDGER_NOUN = seqs
     [Bos, Star rspace,
      opt (alts [Seq (irlit (lit ''independent'')) (plus rspace), Seq (irlit (lit ''ba'' @ [287, 305] @ lit ''ms'' @ [305] @ lit ''z'')) (plus rspace),
                 Seq (irlit (lit ''farkl'' @ [305])) (plus rspace), Seq (irlit (lit ''distinct'')) (plus rspace)]),
      Grp ''noun'' (alts
        [Seq (irlit (lit ''source'')) (opt (irlit (lit ''s''))), Seq (irlit (lit ''kaynak'')) (Star rword),
         Seq (irlit (lit ''finding'')) (opt (irlit (lit ''s''))), Seq (irlit (lit ''bulgu'')) (Star rword),
         seqs [irlit (lit ''sub''), opt (ch 45), irlit (lit ''question''), opt (irlit (lit ''s''))],
         seqs [irlit (lit ''alt''), plus rspace, irlit (lit ''soru''), Star rword],
         irlit (lit ''searches''), Seq (irlit (lit ''arama'')) (Star rword),
         Seq (irlit (lit ''contradiction'')) (opt (irlit (lit ''s''))),
         Seq (irlit ([231] @ lit ''eli'' @ [351] @ lit ''ki'')) (Star rword), irlit (lit ''queries''),
         Seq (irlit (lit ''sorgu'')) (Star rword)]),
      WordB]"

definition addressed :: "report \<Rightarrow> (section_key \<times> nat \<times> sentence) list" where
  "addressed r =
     concat (map (\<lambda>s. map (\<lambda>(i, t). (sec_key s, i, t)) (enumerate 0 (sec_sentences s))) (r_sections r))"

definition at_sentence :: "gate_rule \<Rightarrow> bool \<Rightarrow> str \<Rightarrow> section_key \<Rightarrow> nat \<Rightarrow> (str \<times> json) list \<Rightarrow> violation" where
  "at_sentence r e m k i ds =
     \<lparr>v_rule = r, v_error = e, v_message = m, v_section = Some k, v_index = Some i, v_details = ds\<rparr>"

definition at_report :: "gate_rule \<Rightarrow> bool \<Rightarrow> str \<Rightarrow> (str \<times> json) list \<Rightarrow> violation" where
  "at_report r e m ds =
     \<lparr>v_rule = r, v_error = e, v_message = m, v_section = None, v_index = None, v_details = ds\<rparr>"

definition detail_text :: "sentence \<Rightarrow> str \<times> json" where
  "detail_text t = (lit ''text'', JStr (take 160 (s_text t)))"

section \<open>G1 to G3: sections and citations\<close>

definition plan_exhausted :: "research_state \<Rightarrow> bool" where
  "plan_exhausted st = list_ex (\<lambda>s. sq_status s = EXHAUSTED) (rs_plan st)"

definition required_names :: "gate_config \<Rightarrow> research_state \<Rightarrow> str list" where
  "required_names cfg st =
     gc_required_sections cfg @ (if plan_exhausted st then [key_value KNOWN_GAPS] else [])"

definition missing_section :: "str \<Rightarrow> violation" where
  "missing_section name =
     at_report G1 True (lit ''required section '' @ [39] @ name @ [39] @ lit '' is missing'')
       [(lit ''section'', JStr name), (lit ''remediable'', JBool True)]"

definition no_findings :: violation where
  "no_findings =
     \<lparr>v_rule = G1, v_error = True, v_message = lit ''no supported finding remains: insufficient evidence'',
      v_section = Some KEY_FINDINGS, v_index = None,
      v_details = [(lit ''section'', JStr (lit ''key_findings'')), (lit ''remediable'', JBool False)]\<rparr>"

definition cited_fact :: "sentence \<Rightarrow> bool" where
  "cited_fact t = (s_kind t = S_FACT \<and> s_cluster_ids t \<noteq> [])"

definition g1_sections :: "report \<Rightarrow> research_state \<Rightarrow> gate_config \<Rightarrow> violation list" where
  "g1_sections r st cfg =
     map missing_section
       (filter (\<lambda>n. n \<notin> set (map (\<lambda>s. key_value (sec_key s)) (r_sections r))) (required_names cfg st))
     @ (case report_section_of r KEY_FINDINGS of
          None \<Rightarrow> []
        | Some f \<Rightarrow> if list_ex cited_fact (sec_sentences f) then [] else [no_findings])"

definition g2_citations :: "report \<Rightarrow> research_state \<Rightarrow> gate_config \<Rightarrow> violation list" where
  "g2_citations r st cfg =
     map (\<lambda>(k, i, t). at_sentence G2 True (lit ''factual sentence without a citation'') k i [detail_text t])
       (filter (\<lambda>(k, i, t). s_kind t = S_FACT \<and> s_cluster_ids t = []) (addressed r))"

definition cluster_docs :: "research_state \<Rightarrow> str \<Rightarrow> str list" where
  "cluster_docs st c =
     (case dget (rs_clusters st) c of
        None \<Rightarrow> []
      | Some k \<Rightarrow> filter (\<lambda>d. dmem d (rs_documents st)) (k_doc_ids k))"

text \<open>The loop of \<open>cited_doc_ids\<close>: the documents of each cited cluster, each once.\<close>

definition cited_doc_ids :: "report \<Rightarrow> research_state \<Rightarrow> str list" where
  "cited_doc_ids r st =
     fold (\<lambda>c ordered. fold add_new (cluster_docs st c) ordered)
       (concat (map (\<lambda>(k, i, t). s_cluster_ids t @ s_finding_refs t) (addressed r))) []"

definition unknown_citations :: "research_state \<Rightarrow> section_key \<times> nat \<times> sentence \<Rightarrow> violation list" where
  "unknown_citations st = (\<lambda>(k, i, t).
     map (\<lambda>c. at_sentence G3 True (lit ''citation '' @ [39] @ c @ [39] @ lit '' is not in the ledger'') k i
                [(lit ''cluster_id'', JStr c)])
       (filter (\<lambda>c. \<not> dmem c (rs_clusters st)) (s_cluster_ids t)))"

definition g3_ledger :: "report \<Rightarrow> research_state \<Rightarrow> gate_config \<Rightarrow> violation list" where
  "g3_ledger r st cfg =
     (let listed = map se_doc_id (r_sources r); cited = cited_doc_ids r st
      in concat (map (unknown_citations st) (addressed r))
         @ map (\<lambda>d. at_report G3 True (lit ''source '' @ d @ lit '' is listed but never cited'')
                      [(lit ''doc_id'', JStr d)])
             (filter (\<lambda>d. d \<notin> set cited) (fromkeys listed))
         @ map (\<lambda>d. at_report G3 True (lit ''cited source '' @ d @ lit '' is missing from the list'')
                      [(lit ''doc_id'', JStr d)])
             (sort (filter (\<lambda>d. d \<notin> set listed) cited)))"

section \<open>G4: numbers\<close>

definition quantities_of :: "str \<Rightarrow> gate_error + quantity list" where
  "quantities_of text = map_sum NumericError id (extract_quantities text (detect_language text))"

definition claim_texts :: "research_state \<Rightarrow> str \<Rightarrow> str list" where
  "claim_texts st i =
     (case dget (rs_claims st) i of
        None \<Rightarrow> []
      | Some c \<Rightarrow> [c_text c, c_quote c, given (c_value c), given (c_as_of c)])"

definition cluster_texts :: "research_state \<Rightarrow> str \<Rightarrow> str list" where
  "cluster_texts st i =
     (case dget (rs_clusters st) i of
        None \<Rightarrow> []
      | Some k \<Rightarrow> [k_statement k, given (k_value k)] @ concat (map (claim_texts st) (k_claim_ids k)))"

definition support_of :: "research_state \<Rightarrow> str list \<Rightarrow> gate_error + quantity list" where
  "support_of st ids =
     rbind (rmap quantities_of (filter (\<lambda>t. t \<noteq> []) (concat (map (cluster_texts st) ids))))
       (\<lambda>qs. Inr (concat qs))"

definition starts_any :: "str \<Rightarrow> str list \<Rightarrow> bool" where
  "starts_any s ps = list_ex (starts_with s) ps"

definition known_clusters :: "research_state \<Rightarrow> str list \<Rightarrow> cluster list" where
  "known_clusters st ids = List.map_filter (dget (rs_clusters st)) ids"

definition ledger_expected :: "str \<Rightarrow> research_state \<Rightarrow> str list \<Rightarrow> report \<Rightarrow> nat list" where
  "ledger_expected noun0 st ids r =
     (let noun = str_lower noun0; ks = known_clusters st ids
      in if starts_any noun [lit ''source'', lit ''kaynak''] then
           (if ks \<noteq> []
            then [card (set (concat (map k_doc_ids ks))), card (set (concat (map k_origin_ids ks)))]
            else [length (r_sources r)])
         else if starts_any noun [lit ''finding'', lit ''bulgu''] then [length (rs_clusters st), length ks]
         else if starts_any noun [lit ''sub'', lit ''alt''] then [length (rs_plan st)]
         else if starts_any noun [lit ''search'', lit ''arama'', lit ''quer'', lit ''sorgu''] then
           [length (rs_queries st), length (filter (\<lambda>q. q_status q = DONE) (rs_queries st))]
         else [length (rs_contradictions st)])"

text \<open>\<open>int(quantity.value or -1)\<close>: a value of zero counts as missing.\<close>

definition stated_count :: "quantity \<Rightarrow> int" where
  "stated_count q = (case qt_values q of [] \<Rightarrow> - 1 | v # _ \<Rightarrow> if v = 0 then - 1 else \<lfloor>v\<rfloor>)"

definition exact_match :: "quantity \<Rightarrow> quantity list \<Rightarrow> bool" where
  "exact_match q qs = list_ex (quantities_match 0 0 0 q) qs"

definition tolerant_match :: "gate_config \<Rightarrow> quantity \<Rightarrow> quantity list \<Rightarrow> bool" where
  "tolerant_match cfg q qs =
     list_ex (quantities_match (gc_numeric_relative cfg) (gc_percentage_absolute cfg)
                (gc_date_granularity_days cfg) q) qs"

definition ledger_noun :: "quantity \<Rightarrow> sentence \<Rightarrow> str option" where
  "ledger_noun q t =
     (if qt_kind q \<noteq> NUMBER then None
      else let tail = drop (qt_end q) (s_text t)
           in case rx_match LEDGER_NOUN ([], tail) of
                None \<Rightarrow> None
              | Some res \<Rightarrow> group (mk_hit ([], tail) res) ''noun'')"

definition ledger_violation :: "quantity \<Rightarrow> str \<Rightarrow> nat list \<Rightarrow> section_key \<Rightarrow> nat \<Rightarrow> sentence \<Rightarrow> violation" where
  "ledger_violation q noun expected k i t =
     at_sentence G4 True ([39] @ qt_raw q @ [32] @ noun @ [39] @ lit '' does not match the ledger'') k i
       [(lit ''bucket'', JStr (lit ''ledger_derived'')), (lit ''value'', JStr (qt_raw q)),
        (lit ''expected'', JNum (real (Min (set expected)))), detail_text t]"

definition approximate_violation :: "quantity \<Rightarrow> section_key \<Rightarrow> nat \<Rightarrow> sentence \<Rightarrow> violation" where
  "approximate_violation q k i t =
     at_sentence G4 False ([39] @ qt_raw q @ [39] @ lit '' is an approximation of a cited value'') k i
       [(lit ''bucket'', JStr (lit ''within_tolerance'')), (lit ''value'', JStr (normalised_label q)),
        detail_text t]"

definition bare_violation :: "quantity \<Rightarrow> section_key \<Rightarrow> nat \<Rightarrow> sentence \<Rightarrow> violation" where
  "bare_violation q k i t =
     at_sentence G4 True ([39] @ qt_raw q @ [39] @ lit '' is not supported by any cited claim'') k i
       [(lit ''bucket'', JStr (lit ''bare_fact'')), (lit ''value'', JStr (normalised_label q)), detail_text t]"

definition g4_refs :: "sentence \<Rightarrow> str list" where
  "g4_refs t = (if s_kind t = S_FACT then s_cluster_ids t else s_finding_refs t)"

text \<open>
  The loop over the quantities of one sentence. \<open>support\<close> is computed at the first quantity that
  needs it, so a source text that cannot be read raises only then.
\<close>

fun g4_scan :: "report \<Rightarrow> research_state \<Rightarrow> gate_config \<Rightarrow> quantity list \<Rightarrow> section_key \<Rightarrow> nat \<Rightarrow> sentence
     \<Rightarrow> quantity list option \<Rightarrow> quantity list \<Rightarrow> gate_error + violation list" where
  "g4_scan r st cfg ctx k i t known [] = Inr []"
| "g4_scan r st cfg ctx k i t known (q # qs) =
     (if exact_match q ctx then g4_scan r st cfg ctx k i t known qs
      else case ledger_noun q t of
        Some noun \<Rightarrow>
          (let expected = ledger_expected noun st (g4_refs t) r
           in rbind (g4_scan r st cfg ctx k i t known qs) (\<lambda>vs.
                Inr ((if stated_count q \<in> int ` set expected then []
                      else [ledger_violation q noun expected k i t]) @ vs)))
      | None \<Rightarrow>
          rbind (case known of Some s \<Rightarrow> Inr s | None \<Rightarrow> support_of st (g4_refs t)) (\<lambda>s.
          rbind (g4_scan r st cfg ctx k i t (Some s) qs) (\<lambda>vs.
            Inr ((if exact_match q s then []
                  else if tolerant_match cfg q s then [approximate_violation q k i t]
                  else [bare_violation q k i t]) @ vs))))"

definition g4_sentence :: "report \<Rightarrow> research_state \<Rightarrow> gate_config \<Rightarrow> quantity list
     \<Rightarrow> section_key \<times> nat \<times> sentence \<Rightarrow> gate_error + violation list" where
  "g4_sentence r st cfg ctx = (\<lambda>(k, i, t).
     if s_kind t = META then Inr []
     else rbind (quantities_of (s_text t)) (g4_scan r st cfg ctx k i t None))"

definition g4_numbers :: "report \<Rightarrow> research_state \<Rightarrow> gate_config \<Rightarrow> gate_error + violation list" where
  "g4_numbers r st cfg =
     rbind (quantities_of (rs_question st)) (\<lambda>ctx.
     rbind (rmap (g4_sentence r st cfg ctx) (addressed r)) (\<lambda>vs. Inr (concat vs)))"

section \<open>G5 to G7: labelling\<close>

definition contested_ids :: "research_state \<Rightarrow> sentence \<Rightarrow> str list" where
  "contested_ids st t =
     filter (\<lambda>c. case dget (rs_clusters st) c of None \<Rightarrow> False | Some k \<Rightarrow> k_status k = CONTESTED)
       (s_cluster_ids t)"

definition g5_contested :: "report \<Rightarrow> research_state \<Rightarrow> gate_config \<Rightarrow> violation list" where
  "g5_contested r st cfg =
     map (\<lambda>(k, i, t). at_sentence G5 False (lit ''cites a contested finding without hedging'') k i
                        [(lit ''cluster_ids'', JList (map JStr (contested_ids st t)))])
       (filter (\<lambda>(k, i, t). contested_ids st t \<noteq> [] \<and> k \<noteq> CONFLICTING
                             \<and> LABEL_UNCERTAIN \<notin> set (s_labels t)) (addressed r))"

definition only_single :: "research_state \<Rightarrow> sentence \<Rightarrow> bool" where
  "only_single st t =
     (let ks = known_clusters st (s_cluster_ids t)
      in ks \<noteq> [] \<and> list_all (\<lambda>k. k_status k = SINGLE_SOURCE) ks)"

definition g6_single_source :: "report \<Rightarrow> research_state \<Rightarrow> gate_config \<Rightarrow> violation list" where
  "g6_single_source r st cfg =
     map (\<lambda>(k, i, t). at_sentence G6 False (lit ''single-source finding is not labelled'') k i [])
       (filter (\<lambda>(k, i, t). cited_fact t \<and> only_single st t
                             \<and> LABEL_SINGLE_SOURCE \<notin> set (s_labels t)) (addressed r))"

definition listed_gaps :: "report \<Rightarrow> str list" where
  "listed_gaps r =
     map (\<lambda>l. removeprefix l GAP_LABEL_PREFIX)
       (filter (\<lambda>l. starts_with l GAP_LABEL_PREFIX)
         (concat (map s_labels (case report_section_of r KNOWN_GAPS of None \<Rightarrow> [] | Some g \<Rightarrow> sec_sentences g))))"

definition g7_known_gaps :: "report \<Rightarrow> research_state \<Rightarrow> gate_config \<Rightarrow> violation list" where
  "g7_known_gaps r st cfg =
     map (\<lambda>s. at_report G7 True (lit ''exhausted sub-question '' @ sq_id s @ lit '' is not in Known Gaps'')
                [(lit ''subq_id'', JStr (sq_id s))])
       (filter (\<lambda>s. sq_status s = EXHAUSTED \<and> sq_id s \<notin> set (listed_gaps r)) (rs_plan st))"

section \<open>G8 to G12\<close>

definition g8_problem :: "source_entry \<Rightarrow> str \<Rightarrow> str \<Rightarrow> violation" where
  "g8_problem s message problem =
     at_report G8 True message [(lit ''problem'', JStr problem), (lit ''number'', JNum (real (se_number s)))]"

fun g8_scan :: "str list \<Rightarrow> str list \<Rightarrow> source_entry list \<Rightarrow> gate_error + violation list" where
  "g8_scan urls docs [] = Inr []"
| "g8_scan urls docs (s # ss) =
     rbind (map_sum UrlError id (canonicalize_url (se_url s))) (\<lambda>c.
       case c of
         None \<Rightarrow> rbind (g8_scan urls docs ss) (\<lambda>vs.
           Inr (g8_problem s (lit ''invalid URL for source '' @ dec (se_number s)) (lit ''invalid'') # vs))
       | Some u \<Rightarrow> rbind (g8_scan (u # urls) (se_doc_id s # docs) ss) (\<lambda>vs.
           Inr ((if u \<noteq> se_url s
                 then [g8_problem s (lit ''source '' @ dec (se_number s) @ lit '' is not canonical'')
                         (lit ''not_canonical'')] else [])
              @ (if u \<in> set urls \<or> se_doc_id s \<in> set docs
                 then [g8_problem s (lit ''source '' @ dec (se_number s) @ lit '' is a duplicate'')
                         (lit ''duplicate'')] else [])
              @ vs)))"

definition g8_urls :: "report \<Rightarrow> research_state \<Rightarrow> gate_config \<Rightarrow> gate_error + violation list" where
  "g8_urls r st cfg = g8_scan [] [] (r_sources r)"

definition g9_sensitive :: "report \<Rightarrow> research_state \<Rightarrow> gate_config \<Rightarrow> violation list" where
  "g9_sensitive r st cfg =
     map (\<lambda>(k, i, t). at_sentence G9 True (lit ''sensitive identifier or secret in the output'') k i [])
       (filter (\<lambda>(k, i, t). redact_text (s_text t) \<noteq> s_text t) (addressed r))
     @ map (\<lambda>s. at_report G9 True (lit ''sensitive data in source '' @ dec (se_number s))
                  [(lit ''number'', JNum (real (se_number s)))])
         (filter (\<lambda>s. redact_text (se_title s) \<noteq> se_title s) (r_sources r))"

definition report_body :: "report \<Rightarrow> str" where
  "report_body r = join [32] (map (\<lambda>(k, i, t). s_text t) (filter (\<lambda>(k, i, t). s_kind t \<noteq> META) (addressed r)))"

definition g10_language :: "report \<Rightarrow> research_state \<Rightarrow> gate_config \<Rightarrow> violation list" where
  "g10_language r st cfg =
     (let body = report_body r
      in if strip body = [] then []
         else let detected = detect_language body
         in if detected = rs_language st then
              (if rs_language st = lit ''tr'' \<and> lacks_turkish_letters body 120
               then [at_report G10 False (lit ''Turkish report is written without Turkish letters'')
                       [(lit ''problem'', JStr (lit ''missing_turkish_letters''))]]
               else [])
            else [at_report G10 False
                    (lit ''report reads as '' @ [39] @ detected @ [39] @ lit '' but the question is '' @ [39] @ rs_language st @ [39])
                    [(lit ''detected'', JStr detected), (lit ''expected'', JStr (rs_language st))]])"

definition g11_recommendations :: "report \<Rightarrow> research_state \<Rightarrow> gate_config \<Rightarrow> violation list" where
  "g11_recommendations r st cfg =
     map (\<lambda>(k, i, t). at_sentence G11 True (lit ''recommendation is not linked to a finding'') k i
                        [detail_text t])
       (filter (\<lambda>(k, i, t). s_kind t = RECOMMENDATION
                             \<and> \<not> list_ex (\<lambda>c. dmem c (rs_clusters st)) (s_finding_refs t)) (addressed r))"

definition rejected_claims :: "research_state \<Rightarrow> cluster \<Rightarrow> str list" where
  "rejected_claims st k =
     filter (\<lambda>i. case dget (rs_claims st) i of
                   None \<Rightarrow> False
                 | Some c \<Rightarrow> c_validation_status c \<in> {UNSUPPORTED, UNAVAILABLE}) (k_claim_ids k)"

definition ineligible :: "research_state \<Rightarrow> str \<Rightarrow> cluster option" where
  "ineligible st c =
     (case dget (rs_clusters st) c of
        None \<Rightarrow> None
      | Some k \<Rightarrow> if k_requires_fresh_confirmation k \<or> rejected_claims st k \<noteq> [] then Some k else None)"

definition g12_sentence :: "research_state \<Rightarrow> section_key \<times> nat \<times> sentence \<Rightarrow> violation list" where
  "g12_sentence st = (\<lambda>(k, i, t).
     List.map_filter (\<lambda>c. case ineligible st c of
         None \<Rightarrow> None
       | Some cl \<Rightarrow> Some (at_sentence G12 True (lit ''finding lacks validated, applicable source evidence'')
           k i [(lit ''cluster_id'', JStr c),
                (lit ''requires_fresh_confirmation'', JBool (k_requires_fresh_confirmation cl)),
                (lit ''rejected_claims'', JList (map JStr (rejected_claims st cl)))]))
       (fromkeys (s_cluster_ids t @ s_finding_refs t)))"

definition g12_evidence_eligibility :: "report \<Rightarrow> research_state \<Rightarrow> gate_config \<Rightarrow> violation list" where
  "g12_evidence_eligibility r st cfg = concat (map (g12_sentence st) (addressed r))"

section \<open>All rules\<close>

definition run_rule :: "gate_rule \<Rightarrow> report \<Rightarrow> research_state \<Rightarrow> gate_config \<Rightarrow> gate_error + violation list" where
  "run_rule rule r st cfg = (case rule of
       G1 \<Rightarrow> Inr (g1_sections r st cfg)
     | G2 \<Rightarrow> Inr (g2_citations r st cfg)
     | G3 \<Rightarrow> Inr (g3_ledger r st cfg)
     | G4 \<Rightarrow> g4_numbers r st cfg
     | G5 \<Rightarrow> Inr (g5_contested r st cfg)
     | G6 \<Rightarrow> Inr (g6_single_source r st cfg)
     | G7 \<Rightarrow> Inr (g7_known_gaps r st cfg)
     | G8 \<Rightarrow> g8_urls r st cfg
     | G9 \<Rightarrow> Inr (g9_sensitive r st cfg)
     | G10 \<Rightarrow> Inr (g10_language r st cfg)
     | G11 \<Rightarrow> Inr (g11_recommendations r st cfg)
     | G12 \<Rightarrow> Inr (g12_evidence_eligibility r st cfg))"

definition evaluate :: "report \<Rightarrow> research_state \<Rightarrow> gate_config \<Rightarrow> gate_error + violation list" where
  "evaluate r st cfg =
     rbind (rmap (\<lambda>rule. run_rule rule r st cfg) RULES) (\<lambda>vs. Inr (concat vs))"

end
