(* ===== verification/GateRunner.thy ===== *)
theory GateRunner
  imports GateRules
begin

text \<open>
  \<open>gate/runner.py\<close>: evaluate, remediate, evaluate again, decide. The report is mutated in place in
  the code and threaded through here; a violation addresses a sentence by section key and index. With
  it the localised reasons of \<open>agent/coverage.py\<close>, which the known gaps are written with.
\<close>

section \<open>Titles and fixed texts\<close>

definition section_title :: "section_key \<Rightarrow> str \<Rightarrow> str" where
  "section_title k language =
     (if language = lit ''tr'' then (case k of
         SUMMARY \<Rightarrow> [214] @ lit ''zet'' | KEY_FINDINGS \<Rightarrow> lit ''Temel Bulgular''
       | CONFLICTING \<Rightarrow> [199] @ lit ''eli'' @ [351] @ lit ''kili / Belirsiz Bilgiler'' | CONCLUSION \<Rightarrow> lit ''Sonu'' @ [231]
       | RECOMMENDATIONS \<Rightarrow> [214] @ lit ''neriler / Aksiyon Plan'' @ [305] | KNOWN_GAPS \<Rightarrow> lit ''Bilinen Eksikler''
       | SOURCES \<Rightarrow> lit ''Kaynaklar'')
      else (case k of
         SUMMARY \<Rightarrow> lit ''Summary'' | KEY_FINDINGS \<Rightarrow> lit ''Key Findings''
       | CONFLICTING \<Rightarrow> lit ''Conflicting / Uncertain Information'' | CONCLUSION \<Rightarrow> lit ''Conclusion''
       | RECOMMENDATIONS \<Rightarrow> lit ''Recommendations / Action Plan'' | KNOWN_GAPS \<Rightarrow> lit ''Known Gaps''
       | SOURCES \<Rightarrow> lit ''Sources''))"

fun section_order :: "section_key \<Rightarrow> nat" where
  "section_order SUMMARY = 0"
| "section_order KEY_FINDINGS = 1"
| "section_order CONFLICTING = 2"
| "section_order RECOMMENDATIONS = 3"
| "section_order CONCLUSION = 4"
| "section_order KNOWN_GAPS = 5"
| "section_order SOURCES = 6"

definition none_text :: "str \<Rightarrow> str" where
  "none_text language = (if language = lit ''tr'' then lit ''Bulunmad'' @ [305] @ lit ''.'' else lit ''None found.'')"

definition drop_note :: "str \<Rightarrow> nat \<Rightarrow> str" where
  "drop_note language count =
     (if language = lit ''tr''
      then lit ''Kan'' @ [305] @ lit ''t yetersizli'' @ [287] @ lit ''i nedeniyle '' @ dec count
           @ lit '' c'' @ [252] @ lit ''mle '' @ [231, 305] @ lit ''kar'' @ [305] @ lit ''ld'' @ [305] @ lit '' - ayr'' @ [305] @ lit ''nt'' @ [305] @ lit ''lar gate_result.json'' @ [39] @ lit ''da''
      else dec count @ lit '' sentence(s) removed for insufficient evidence - see gate_result.json'')"

definition banner_text :: "str \<Rightarrow> str" where
  "banner_text language =
     (if language = lit ''tr''
      then lit ''Yetersiz kan'' @ [305] @ lit ''t: Bu rapor '' @ [231, 305] @ lit ''kt'' @ [305] @ lit '' kontrollerinden ge'' @ [231] @ lit ''emedi. ''
           @ lit ''K'' @ [305] @ lit ''smi bir taslak olarak de'' @ [287] @ lit ''erlendirin ve listelenen sorunlar'' @ [305] @ lit '' inceleyin.''
      else lit ''Insufficient evidence: this report did not pass the output checks. ''
           @ lit ''Treat it as a partial draft and review the listed issues.'')"

text \<open>\<open>localised_reason\<close> of \<open>agent/coverage.py\<close>.\<close>

definition NO_PROGRESS_RX :: rx where
  "NO_PROGRESS_RX = seqs [rlit (lit ''no progress for ''), Grp ''1'' (plus rdigit), rlit (lit '' rounds'')]"

definition localised_reason :: "str option \<Rightarrow> str \<Rightarrow> str" where
  "localised_reason reason language =
     (case reason of
        None \<Rightarrow> []
      | Some t \<Rightarrow>
          if t = [] \<or> language \<noteq> lit ''tr'' then t
          else case rx_match NO_PROGRESS_RX ([], t) of
              Some res \<Rightarrow> the (group (mk_hit ([], t) res) ''1'')
                @ lit '' turdur ilerleme yok (yeni bulgu ya da ba'' @ [287, 305] @ lit ''ms'' @ [305] @ lit ''z kaynak gelmedi)''
            | None \<Rightarrow>
                if t = lit ''only repeated queries could be generated''
                then lit ''yaln'' @ [305] @ lit ''zca daha '' @ [246] @ lit ''nce sorulmu'' @ [351] @ lit '' sorgular '' @ [252] @ lit ''retilebildi'' else t)"

section \<open>Editing the report\<close>

definition ensure_section :: "section_key \<Rightarrow> str \<Rightarrow> report \<Rightarrow> report" where
  "ensure_section k language r =
     (case report_section_of r k of
        Some _ \<Rightarrow> r
      | None \<Rightarrow> r\<lparr>r_sections := sort_key (\<lambda>s. section_order (sec_key s))
            (r_sections r @ [\<lparr>sec_key = k, sec_title = section_title k language,
                              sec_sentences = []\<rparr>])\<rparr>)"

text \<open>Change the section \<open>report.section(key)\<close> returns, the first with that key.\<close>

fun edit_first :: "section_key \<Rightarrow> (report_section \<Rightarrow> report_section) \<Rightarrow> report_section list \<Rightarrow> report_section list" where
  "edit_first k f [] = []"
| "edit_first k f (s # ss) = (if sec_key s = k then f s # ss else s # edit_first k f ss)"

definition edit_section :: "section_key \<Rightarrow> (sentence list \<Rightarrow> sentence list) \<Rightarrow> report \<Rightarrow> report" where
  "edit_section k f r =
     r\<lparr>r_sections := edit_first k (\<lambda>s. s\<lparr>sec_sentences := f (sec_sentences s)\<rparr>) (r_sections r)\<rparr>"

definition sentence_at :: "report \<Rightarrow> section_key \<Rightarrow> nat \<Rightarrow> sentence option" where
  "sentence_at r k i =
     (case report_section_of r k of
        None \<Rightarrow> None
      | Some s \<Rightarrow> if i < length (sec_sentences s) then Some (sec_sentences s ! i) else None)"

definition target_of :: "report \<Rightarrow> violation \<Rightarrow> sentence option" where
  "target_of r v =
     (case (v_section v, v_index v) of (Some k, Some i) \<Rightarrow> sentence_at r k i | _ \<Rightarrow> None)"

definition edit_sentence :: "section_key \<Rightarrow> nat \<Rightarrow> (sentence \<Rightarrow> sentence) \<Rightarrow> report \<Rightarrow> report" where
  "edit_sentence k i f = edit_section k (\<lambda>ts. ts[i := f (ts ! i)])"

definition meta_sentence :: "str \<Rightarrow> str list \<Rightarrow> sentence" where
  "meta_sentence text labels =
     \<lparr>s_text = text, s_kind = META, s_cluster_ids = [], s_finding_refs = [], s_labels = labels\<rparr>"

definition source_url :: "document \<Rightarrow> gate_error + str option" where
  "source_url d = map_sum UrlError id
     (canonicalize_url (if d_canonical_url d = [] then d_url d else d_canonical_url d))"

text \<open>\<open>rebuild_sources\<close>: cited documents, canonical, each address once, numbered.\<close>

fun rebuild_entries :: "research_state \<Rightarrow> str list \<Rightarrow> source_entry list \<Rightarrow> gate_error + source_entry list" where
  "rebuild_entries st [] entries = Inr entries"
| "rebuild_entries st (i # is) entries =
     (case dget (rs_documents st) i of
        None \<Rightarrow> Inl MissingDetail
      | Some d \<Rightarrow>
          rbind (source_url d) (\<lambda>url.
            case url of
              None \<Rightarrow> rebuild_entries st is entries
            | Some u \<Rightarrow>
                if u \<in> set (map se_url entries) then rebuild_entries st is entries
                else rebuild_entries st is (entries @
                  [\<lparr>se_number = length entries + 1, se_doc_id = i, se_url = u,
                    se_title = redact_text (if d_title d = [] then u else d_title d),
                    se_domain = d_domain d, se_score = ss_total (d_score d)\<rparr>])))"

definition rebuild_sources :: "research_state \<Rightarrow> report \<Rightarrow> gate_error + report" where
  "rebuild_sources st r =
     rbind (rebuild_entries st (cited_doc_ids r st) []) (\<lambda>es. Inr (r\<lparr>r_sources := es\<rparr>))"

section \<open>Remediation\<close>

type_synonym action = "(str \<times> json) list"

record remedy =
  rm_report :: report
  rm_actions :: "action list"
  rm_drop :: "(section_key \<times> nat) list"

fun rule_value :: "gate_rule \<Rightarrow> str" where
  "rule_value G1 = lit ''G1''" | "rule_value G2 = lit ''G2''" | "rule_value G3 = lit ''G3''"
| "rule_value G4 = lit ''G4''" | "rule_value G5 = lit ''G5''" | "rule_value G6 = lit ''G6''"
| "rule_value G7 = lit ''G7''" | "rule_value G8 = lit ''G8''" | "rule_value G9 = lit ''G9''"
| "rule_value G10 = lit ''G10''" | "rule_value G11 = lit ''G11''" | "rule_value G12 = lit ''G12''"

definition json_of :: "('a \<Rightarrow> json) \<Rightarrow> 'a option \<Rightarrow> json" where
  "json_of f v = (case v of None \<Rightarrow> JNull | Some x \<Rightarrow> f x)"

definition act :: "remedy \<Rightarrow> report \<Rightarrow> action \<Rightarrow> remedy" where
  "act m r a = m\<lparr>rm_report := r, rm_actions := rm_actions m @ [a]\<rparr>"

text \<open>The local functions \<open>label\<close> and \<open>drop.add\<close>.\<close>

definition add_label :: "str \<Rightarrow> violation \<Rightarrow> remedy \<Rightarrow> remedy" where
  "add_label name v m =
     (case (target_of (rm_report m) v, v_section v, v_index v) of
        (Some t, Some k, Some i) \<Rightarrow>
          if name \<in> set (s_labels t) then m
          else act m (edit_sentence k i (\<lambda>t. t\<lparr>s_labels := s_labels t @ [name]\<rparr>) (rm_report m))
                 [(lit ''rule'', JStr (rule_value (v_rule v))), (lit ''action'', JStr (lit ''label:'' @ name)),
                  (lit ''section'', JStr (key_value k)), (lit ''sentence'', JNum (real i))]
      | _ \<Rightarrow> m)"

definition add_drop :: "violation \<Rightarrow> remedy \<Rightarrow> remedy" where
  "add_drop v m =
     (case (v_section v, v_index v) of
        (Some k, Some i) \<Rightarrow> m\<lparr>rm_drop := (k, i) # rm_drop m\<rparr>
      | _ \<Rightarrow> m)"

definition detail :: "str \<Rightarrow> violation \<Rightarrow> json option" where
  "detail k v = dget (v_details v) k"

definition remediable :: "violation \<Rightarrow> bool" where
  "remediable v = (detail (lit ''remediable'') v \<noteq> Some (JBool False))"

text \<open>One branch per rule.\<close>

definition fix_section :: "str \<Rightarrow> violation \<Rightarrow> remedy \<Rightarrow> gate_error + remedy" where
  "fix_section language v m =
     (case detail (lit ''section'') v of
        Some (JStr name) \<Rightarrow>
          (case key_of name of
             None \<Rightarrow> Inl UnknownSectionKey
           | Some k \<Rightarrow>
               (let r = ensure_section k language (rm_report m);
                    r = (if k \<noteq> SOURCES
                         then edit_section k (\<lambda>ts. if ts = [] then [meta_sentence (none_text language) []]
                                                   else ts) r
                         else r)
                in Inr (act m r [(lit ''rule'', JStr (lit ''G1'')), (lit ''action'', JStr (lit ''add_section'')),
                                 (lit ''section'', JStr (key_value k))])))
      | _ \<Rightarrow> Inl MissingDetail)"

definition fix_citation :: "research_state \<Rightarrow> json \<Rightarrow> violation \<Rightarrow> remedy \<Rightarrow> remedy" where
  "fix_citation st cid v m =
     (case (target_of (rm_report m) v, v_section v, v_index v) of
        (Some t, Some k, Some i) \<Rightarrow>
          (let kept = filter (\<lambda>c. dmem c (rs_clusters st)) (s_cluster_ids t);
               m1 = (if kept = [] \<and> s_kind t = S_FACT then m\<lparr>rm_drop := (k, i) # rm_drop m\<rparr> else m)
           in act m1 (edit_sentence k i (\<lambda>t. t\<lparr>s_cluster_ids := kept\<rparr>) (rm_report m))
                [(lit ''rule'', JStr (lit ''G3'')), (lit ''action'', JStr (lit ''drop_citation'')), (lit ''cluster_id'', cid)])
      | _ \<Rightarrow> m)"

definition fix_gap :: "research_state \<Rightarrow> str \<Rightarrow> violation \<Rightarrow> remedy \<Rightarrow> gate_error + remedy" where
  "fix_gap st language v m =
     (case detail (lit ''subq_id'') v of
        Some (JStr i) \<Rightarrow>
          (case subquestion_of st i of
             None \<Rightarrow> Inr m
           | Some q \<Rightarrow>
               (let reason = localised_reason (sq_exhausted_reason q) language;
                    text = (if reason = [] then sq_text q else sq_text q @ lit '' - '' @ reason);
                    r = edit_section KNOWN_GAPS
                          (\<lambda>ts. ts @ [meta_sentence text [GAP_LABEL_PREFIX @ sq_id q]])
                          (ensure_section KNOWN_GAPS language (rm_report m))
                in Inr (act m r [(lit ''rule'', JStr (lit ''G7'')), (lit ''action'', JStr (lit ''add_gap'')),
                                 (lit ''subq_id'', JStr (sq_id q))])))
      | _ \<Rightarrow> Inl MissingDetail)"

definition fix_sensitive :: "violation \<Rightarrow> remedy \<Rightarrow> remedy" where
  "fix_sensitive v m =
     (case (target_of (rm_report m) v, v_section v, v_index v) of
        (Some t, Some k, Some i) \<Rightarrow>
          act m (edit_sentence k i (\<lambda>t. t\<lparr>s_text := redact_text (s_text t)\<rparr>) (rm_report m))
            [(lit ''rule'', JStr (lit ''G9'')), (lit ''action'', JStr (lit ''mask'')), (lit ''sentence'', JNum (real i))]
      | _ \<Rightarrow> m)"

definition fix_violation :: "research_state \<Rightarrow> str \<Rightarrow> violation \<Rightarrow> remedy \<Rightarrow> gate_error + remedy" where
  "fix_violation st language v m =
     (if v_rule v = G1 \<and> detail (lit ''remediable'') v = Some (JBool True) then fix_section language v m
      else if v_rule v \<in> {G2, G11, G12} \<or> v_rule v = G4 \<and> v_error v then Inr (add_drop v m)
      else if v_rule v = G3 \<and> detail (lit ''cluster_id'') v \<noteq> None
      then Inr (fix_citation st (the (detail (lit ''cluster_id'') v)) v m)
      else if v_rule v = G4 then Inr (add_label LABEL_APPROXIMATE v m)
      else if v_rule v = G5 then Inr (add_label LABEL_UNCERTAIN v m)
      else if v_rule v = G6 then Inr (add_label LABEL_SINGLE_SOURCE v m)
      else if v_rule v = G7 then fix_gap st language v m
      else if v_rule v = G9 then Inr (fix_sensitive v m)
      else Inr m)"

fun fix_all :: "research_state \<Rightarrow> str \<Rightarrow> violation list \<Rightarrow> remedy \<Rightarrow> gate_error + remedy" where
  "fix_all st language [] m = Inr m"
| "fix_all st language (v # vs) m = rbind (fix_violation st language v m) (fix_all st language vs)"

text \<open>The closing loop: sentences marked in \<open>drop\<close> go, with an action each.\<close>

definition dropped_in :: "(section_key \<times> nat) list \<Rightarrow> report_section \<Rightarrow> (nat \<times> sentence) list" where
  "dropped_in drops s = filter (\<lambda>(i, t). (sec_key s, i) \<in> set drops) (enumerate 0 (sec_sentences s))"

definition kept_in :: "(section_key \<times> nat) list \<Rightarrow> report_section \<Rightarrow> sentence list" where
  "kept_in drops s =
     map snd (filter (\<lambda>(i, t). (sec_key s, i) \<notin> set drops) (enumerate 0 (sec_sentences s)))"

definition drop_action :: "report_section \<Rightarrow> sentence \<Rightarrow> action" where
  "drop_action s t = [(lit ''rule'', JStr (lit ''drop'')), (lit ''action'', JStr (lit ''drop_sentence'')),
     (lit ''section'', JStr (key_value (sec_key s))), (lit ''text'', JStr (take 160 (s_text t)))]"

definition drop_sentences :: "(section_key \<times> nat) list \<Rightarrow> report \<Rightarrow> report" where
  "drop_sentences drops r =
     r\<lparr>r_sections := map (\<lambda>s. s\<lparr>sec_sentences := kept_in drops s\<rparr>) (r_sections r)\<rparr>"

definition drop_actions :: "(section_key \<times> nat) list \<Rightarrow> report \<Rightarrow> action list" where
  "drop_actions drops r =
     concat (map (\<lambda>s. map (\<lambda>(i, t). drop_action s t) (dropped_in drops s)) (r_sections r))"

definition remediate :: "report \<Rightarrow> research_state \<Rightarrow> violation list \<Rightarrow> str \<Rightarrow> gate_error + report \<times> action list \<times> nat" where
  "remediate r st vs language =
     rbind (fix_all st language vs \<lparr>rm_report = r, rm_actions = [], rm_drop = []\<rparr>) (\<lambda>m.
       let drops = drop_actions (rm_drop m) (rm_report m)
       in rbind (rebuild_sources st (drop_sentences (rm_drop m) (rm_report m))) (\<lambda>r'.
            Inr (r', rm_actions m @ drops, length drops)))"

section \<open>The gate\<close>

datatype verdict = FAIL | PASS_WITH_WARNINGS | PASS

record gate_outcome =
  go_verdict :: verdict
  go_report :: report
  go_initial :: "violation list"
  go_final :: "violation list"
  go_remediations :: "action list"
  go_removed :: nat
  go_rounds :: nat
  go_banner :: "str option"
  go_descriptions :: "(gate_rule, str) dict"

record gate_loop =
  gl_report :: report
  gl_violations :: "violation list"
  gl_actions :: "action list"
  gl_removed :: nat
  gl_rounds :: nat

text \<open>The \<open>while\<close> loop; \<open>n\<close> is the number of rounds still allowed.\<close>

fun gate_rounds :: "research_state \<Rightarrow> gate_config \<Rightarrow> nat \<Rightarrow> gate_loop \<Rightarrow> gate_error + gate_loop" where
  "gate_rounds st cfg 0 g = Inr g"
| "gate_rounds st cfg (Suc n) g =
     (let todo = filter remediable (gl_violations g)
      in if todo = [] then Inr g
         else rbind (remediate (gl_report g) st todo (rs_language st)) (\<lambda>(r, acts, removed).
              rbind (evaluate r st cfg) (\<lambda>vs.
                gate_rounds st cfg n
                  \<lparr>gl_report = r, gl_violations = vs, gl_actions = gl_actions g @ acts,
                   gl_removed = gl_removed g + removed, gl_rounds = gl_rounds g + 1\<rparr>)))"

definition normalise_report :: "research_state \<Rightarrow> report \<Rightarrow> report" where
  "normalise_report st r =
     (let language = rs_language st;
          r1 = r\<lparr>r_sections := map (\<lambda>s. s\<lparr>sec_title := section_title (sec_key s) language\<rparr>)
                                  (r_sections r)\<rparr>
      in if plan_exhausted st then ensure_section KNOWN_GAPS language r1 else r1)"

definition add_note :: "str \<Rightarrow> nat \<Rightarrow> report \<Rightarrow> report" where
  "add_note language removed r =
     (if removed = 0 then r
      else edit_section SUMMARY
             (\<lambda>ts. ts @ [meta_sentence (drop_note language removed) [lit ''gate_note'']])
             (ensure_section SUMMARY language r))"

definition verdict_of :: "violation list \<Rightarrow> violation list \<Rightarrow> nat \<Rightarrow> verdict" where
  "verdict_of initial final removed =
     (if list_ex v_error final then FAIL
      else if initial \<noteq> [] \<or> final \<noteq> [] \<or> removed > 0 then PASS_WITH_WARNINGS
      else PASS)"

definition describe :: "gate_config \<Rightarrow> gate_rule \<Rightarrow> gate_error + gate_rule \<times> str" where
  "describe cfg rule =
     (case dget (gc_rules cfg) rule of None \<Rightarrow> Inl (UnknownRule rule) | Some d \<Rightarrow> Inr (rule, d))"

definition run_gate :: "report \<Rightarrow> research_state \<Rightarrow> gate_config \<Rightarrow> int \<Rightarrow> gate_error + gate_outcome" where
  "run_gate r st cfg max_rounds =
     (if max_rounds < 0 then Inl NegativeRounds
      else let working = (if max_rounds = 0 then r else normalise_report st r)
      in rbind (evaluate working st cfg) (\<lambda>initial.
         rbind (gate_rounds st cfg (nat max_rounds)
                  \<lparr>gl_report = working, gl_violations = initial, gl_actions = [], gl_removed = 0,
                   gl_rounds = 0\<rparr>) (\<lambda>g.
         rbind (rmap (describe cfg) RULES) (\<lambda>ds.
           let verdict = verdict_of initial (gl_violations g) (gl_removed g)
           in Inr \<lparr>go_verdict = verdict,
                   go_report = add_note (rs_language st) (gl_removed g) (gl_report g),
                   go_initial = initial, go_final = gl_violations g,
                   go_remediations = gl_actions g, go_removed = gl_removed g,
                   go_rounds = gl_rounds g,
                   go_banner = (if verdict = FAIL then Some (banner_text (rs_language st)) else None),
                   go_descriptions = ds\<rparr>))))"

text \<open>\<open>GateOutcome.checks\<close>: the status of each rule.\<close>

definition check_status :: "gate_outcome \<Rightarrow> gate_rule \<Rightarrow> str" where
  "check_status out rule =
     (let before = filter (\<lambda>v. v_rule v = rule) (go_initial out);
          after = filter (\<lambda>v. v_rule v = rule) (go_final out)
      in if list_ex v_error after then lit ''fail''
         else if after \<noteq> [] then lit ''warn''
         else if before \<noteq> [] then lit ''remediated'' else lit ''pass'')"

definition violation_json :: "violation \<Rightarrow> json" where
  "violation_json v = JObj (fold (\<lambda>(k, x). dput k x) (v_details v)
     [(lit ''rule'', JStr (rule_value (v_rule v))),
      (lit ''severity'', JStr (if v_error v then lit ''error'' else lit ''warn'')),
      (lit ''message'', JStr (v_message v)),
      (lit ''section'', json_of (\<lambda>k. JStr (key_value k)) (v_section v)),
      (lit ''sentence'', json_of (\<lambda>i. JNum (real i)) (v_index v))])"

definition outcome_checks :: "gate_outcome \<Rightarrow> json" where
  "outcome_checks out = JObj (map (\<lambda>rule. (rule_value rule, JObj
     [(lit ''status'', JStr (check_status out rule)),
      (lit ''description'', JStr (dget_or (go_descriptions out) rule [])),
      (lit ''found'', JList (map violation_json (filter (\<lambda>v. v_rule v = rule) (go_initial out)))),
      (lit ''remaining'', JList (map violation_json (filter (\<lambda>v. v_rule v = rule) (go_final out))))])) RULES)"

fun verdict_value :: "verdict \<Rightarrow> str" where
  "verdict_value FAIL = lit ''fail''"
| "verdict_value PASS_WITH_WARNINGS = lit ''pass_with_warnings''"
| "verdict_value PASS = lit ''pass''"

definition outcome_json :: "gate_outcome \<Rightarrow> json" where
  "outcome_json out = JObj
     [(lit ''verdict'', JStr (verdict_value (go_verdict out))), (lit ''rounds'', JNum (real (go_rounds out))),
      (lit ''removed_sentences'', JNum (real (go_removed out))), (lit ''banner'', json_of JStr (go_banner out)),
      (lit ''checks'', outcome_checks out), (lit ''remediations'', JList (map JObj (go_remediations out)))]"

end
