(* ===== verification/GateProps.thy ===== *)
theory GateProps
  imports GateRunner
begin

text \<open>
  What the output gate guarantees: the verdict, what a report that did not fail consists of, and
  which violations one round of remediation always clears.
\<close>

section \<open>Sections and sentences of a report\<close>

definition keys_of :: "report \<Rightarrow> section_key list" where
  "keys_of r = map sec_key (r_sections r)"

text \<open>The sentences with their section key, as a set.\<close>

definition body :: "report \<Rightarrow> (section_key \<times> sentence) set" where
  "body r = {(sec_key s, t) | s t. s \<in> set (r_sections r) \<and> t \<in> set (sec_sentences s)}"

lemma body_iff:
  "(k, t) \<in> body r \<longleftrightarrow> (\<exists>s\<in>set (r_sections r). sec_key s = k \<and> t \<in> set (sec_sentences s))"
  by (auto simp: body_def)

lemma addressed_iff:
  "(k, i, t) \<in> set (addressed r) \<longleftrightarrow>
     (\<exists>s\<in>set (r_sections r). sec_key s = k \<and> i < length (sec_sentences s) \<and> t = sec_sentences s ! i)"
  by (force simp: addressed_def in_set_enumerate_eq image_iff)

lemma addressed_body: "(k, t) \<in> body r \<longleftrightarrow> (\<exists>i. (k, i, t) \<in> set (addressed r))"
proof
  assume "(k, t) \<in> body r"
  then obtain s where "s \<in> set (r_sections r)" "k = sec_key s" "t \<in> set (sec_sentences s)"
    by (auto simp: body_def)
  moreover from this(3) obtain i where "i < length (sec_sentences s)" "t = sec_sentences s ! i"
    by (metis in_set_conv_nth)
  ultimately show "\<exists>i. (k, i, t) \<in> set (addressed r)" unfolding addressed_iff by blast
qed (auto simp: addressed_iff body_def)

lemma section_order_inj [simp]: "section_order a = section_order b \<longleftrightarrow> a = b"
  by (cases a; cases b) simp_all

lemma find_filter: "find P xs = (case filter P xs of [] \<Rightarrow> None | x # _ \<Rightarrow> Some x)"
  by (induction xs) auto

lemma find_sorted_key:
  "find (\<lambda>s. sec_key s = k) (sort_key (\<lambda>s. section_order (sec_key s)) xs) = find (\<lambda>s. sec_key s = k) xs"
  using sort_key_stable[of "\<lambda>s. section_order (sec_key s)" "section_order k" xs]
  by (simp add: find_filter)

lemma find_append_None: "find P xs = None \<Longrightarrow> find P (xs @ ys) = find P ys"
  by (induction xs) (auto split: if_splits)

lemma find_append_Some: "find P xs = Some x \<Longrightarrow> find P (xs @ ys) = Some x"
  by (induction xs) (auto split: if_splits)

lemma section_of_ensure:
  "report_section_of (ensure_section k l r) k' =
     (if k' = k \<and> report_section_of r k = None
      then Some \<lparr>sec_key = k, sec_title = section_title k l, sec_sentences = []\<rparr>
      else report_section_of r k')"
proof (cases "report_section_of r k")
  case None
  show ?thesis
  proof (cases "report_section_of r k'")
    case (Some s)
    with None show ?thesis
      by (auto simp: ensure_section_def report_section_of_def find_sorted_key find_append_Some)
  next
    case (None)
    with \<open>report_section_of r k = None\<close> show ?thesis
      by (auto simp: ensure_section_def report_section_of_def find_sorted_key find_append_None)
  qed
qed (auto simp: ensure_section_def)

lemma set_sections_ensure:
  "set (r_sections (ensure_section k l r)) =
     set (r_sections r) \<union> (if report_section_of r k = None
       then {\<lparr>sec_key = k, sec_title = section_title k l, sec_sentences = []\<rparr>} else {})"
  by (auto simp: ensure_section_def split: option.splits)

lemma section_of_None: "report_section_of r k = None \<longleftrightarrow> k \<notin> set (keys_of r)"
  by (auto simp: report_section_of_def keys_of_def find_None_iff)

lemma section_of_Some: "report_section_of r k = Some s \<Longrightarrow> s \<in> set (r_sections r) \<and> sec_key s = k"
  by (auto simp: report_section_of_def find_Some_iff)

lemma keys_ensure: "set (keys_of (ensure_section k l r)) = insert k (set (keys_of r))"
  using section_of_None[of r k] by (auto simp: keys_of_def set_sections_ensure split: if_splits)

lemma distinct_keys_ensure: "distinct (keys_of r) \<Longrightarrow> distinct (keys_of (ensure_section k l r))"
  using section_of_None[of r k]
  by (auto simp: keys_of_def ensure_section_def distinct_map_sort_key split: option.splits)

lemma body_ensure: "body (ensure_section k l r) = body r"
  unfolding body_def set_sections_ensure by auto

text \<open>Editing one section.\<close>

lemma find_edit_first:
  assumes "\<And>s. sec_key (f s) = sec_key s"
  shows "find (\<lambda>s. sec_key s = k') (edit_first k f ss) =
     (if k' = k then map_option f (find (\<lambda>s. sec_key s = k) ss) else find (\<lambda>s. sec_key s = k') ss)"
  by (induction ss) (auto simp: assms)

lemma section_of_edit:
  "report_section_of (edit_section k f r) k' =
     (if k' = k then map_option (\<lambda>s. s\<lparr>sec_sentences := f (sec_sentences s)\<rparr>) (report_section_of r k)
      else report_section_of r k')"
  by (simp add: report_section_of_def edit_section_def find_edit_first)

lemma keys_edit_first: "(\<And>s. sec_key (f s) = sec_key s) \<Longrightarrow> map sec_key (edit_first k f ss) = map sec_key ss"
  by (induction ss) auto

lemma keys_edit [simp]: "keys_of (edit_section k f r) = keys_of r"
  by (simp add: keys_of_def edit_section_def keys_edit_first)

lemma sentence_at_ensure [simp]: "sentence_at (ensure_section k l r) k' i = sentence_at r k' i"
  by (auto simp: sentence_at_def section_of_ensure split: option.splits)

lemma sentence_at_edit_sentence:
  "sentence_at (edit_sentence k i f r) k' i' =
     (if k' = k \<and> i' = i then map_option f (sentence_at r k i) else sentence_at r k' i')"
  by (auto simp: sentence_at_def edit_sentence_def section_of_edit split: option.splits)

lemma sentence_at_append:
  "sentence_at (edit_section k (\<lambda>ts. ts @ [x]) r) k' i = Some t \<Longrightarrow> t = x \<or> sentence_at r k' i = Some t"
  by (auto simp: sentence_at_def section_of_edit nth_append split: option.splits if_splits)

lemma sentence_at_none_marker:
  "sentence_at (edit_section k (\<lambda>ts. if ts = [] then [x] else ts) r) k' i = Some t \<Longrightarrow>
     t = x \<or> sentence_at r k' i = Some t"
  by (auto simp: sentence_at_def section_of_edit split: option.splits if_splits)

text \<open>With distinct keys, the addresses reach every sentence.\<close>

lemma find_distinct_key:
  "distinct (map sec_key ss) \<Longrightarrow> s \<in> set ss \<Longrightarrow> find (\<lambda>x. sec_key x = sec_key s) ss = Some s"
  by (induction ss) auto

lemma addressed_sentence_at:
  "distinct (keys_of r) \<Longrightarrow> (k, i, t) \<in> set (addressed r) \<longleftrightarrow> sentence_at r k i = Some t"
proof
  assume "distinct (keys_of r)" "(k, i, t) \<in> set (addressed r)"
  then obtain s where "s \<in> set (r_sections r)" "sec_key s = k" "i < length (sec_sentences s)"
    "t = sec_sentences s ! i" and "report_section_of r k = Some s"
    using find_distinct_key[of "r_sections r"]
    by (auto simp: addressed_iff keys_of_def report_section_of_def)
  then show "sentence_at r k i = Some t" by (simp add: sentence_at_def)
next
  assume "sentence_at r k i = Some t"
  then obtain s where "report_section_of r k = Some s" "i < length (sec_sentences s)"
    "t = sec_sentences s ! i" by (auto simp: sentence_at_def split: option.splits if_splits)
  moreover from this(1) have "s \<in> set (r_sections r)" "sec_key s = k"
    by (auto simp: report_section_of_def find_Some_iff)
  ultimately show "(k, i, t) \<in> set (addressed r)" by (auto simp: addressed_iff)
qed

lemma body_sentence_at: "distinct (keys_of r) \<Longrightarrow> (k, t) \<in> body r \<longleftrightarrow> (\<exists>i. sentence_at r k i = Some t)"
  by (simp add: addressed_body addressed_sentence_at)

section \<open>What the rules find\<close>

lemma rmap_mem: "rmap f xs = Inr ys \<Longrightarrow> x \<in> set xs \<Longrightarrow> \<exists>y\<in>set ys. f x = Inr y"
  by (induction xs arbitrary: ys) (auto simp: rbind_Inr_iff)

lemma in_RULES [simp]: "rule \<in> set RULES"
  by (cases rule) (simp_all add: RULES_def)

lemma evaluate_rule:
  "evaluate r st cfg = Inr vs \<Longrightarrow> \<exists>ws. run_rule rule r st cfg = Inr ws \<and> set ws \<subseteq> set vs"
  unfolding evaluate_def by (auto simp: rbind_Inr_iff dest!: rmap_mem[where x = rule])

definition clean_sentence :: "research_state \<Rightarrow> sentence \<Rightarrow> bool" where
  "clean_sentence st t \<longleftrightarrow> (s_kind t = S_FACT \<longrightarrow> s_cluster_ids t \<noteq> [])
     \<and> (\<forall>c\<in>set (s_cluster_ids t). dmem c (rs_clusters st))
     \<and> (s_kind t = RECOMMENDATION \<longrightarrow> (\<exists>c\<in>set (s_finding_refs t). dmem c (rs_clusters st)))
     \<and> (\<forall>c\<in>set (s_cluster_ids t @ s_finding_refs t). ineligible st c = None)"

definition clean_body :: "research_state \<Rightarrow> report \<Rightarrow> bool" where
  "clean_body st r \<longleftrightarrow> (\<forall>(k, t)\<in>body r. clean_sentence st t)"

text \<open>The four rules that look at what a sentence rests on.\<close>

definition flagged :: "gate_rule \<Rightarrow> violation list \<Rightarrow> section_key \<Rightarrow> nat \<Rightarrow> bool" where
  "flagged rule vs k i \<longleftrightarrow> (\<exists>v\<in>set vs. v_rule v = rule \<and> v_section v = Some k \<and> v_index v = Some i
     \<and> (rule = G3 \<longrightarrow> detail (lit ''cluster_id'') v \<noteq> None) \<and> v_error v \<and> remediable v)"

lemma flaggedI:
  "v \<in> set vs \<Longrightarrow> v_rule v = rule \<Longrightarrow> v_section v = Some k \<Longrightarrow> v_index v = Some i \<Longrightarrow>
     (rule = G3 \<Longrightarrow> detail (lit ''cluster_id'') v \<noteq> None) \<Longrightarrow> v_error v \<Longrightarrow> remediable v \<Longrightarrow>
     flagged rule vs k i"
  unfolding flagged_def by blast

lemma map_filter_memI: "x \<in> set xs \<Longrightarrow> P x \<Longrightarrow> f x \<in> set (map f (filter P xs))"
  by simp

lemma at_sentence_flagged:
  assumes "at_sentence rule True m k i ds \<in> set vs" and "rule = G3 \<Longrightarrow> dget ds (lit ''cluster_id'') \<noteq> None"
    and "dget ds (lit ''remediable'') \<noteq> Some (JBool False)"
  shows "flagged rule vs k i"
  using assms by (intro flaggedI[OF assms(1)]) (auto simp: at_sentence_def detail_def remediable_def)

lemma flagged_G2:
  assumes "evaluate r st cfg = Inr vs" and "(k, i, t) \<in> set (addressed r)"
    and "s_kind t = S_FACT" "s_cluster_ids t = []"
  shows "flagged G2 vs k i"
proof -
  from evaluate_rule[OF assms(1), of G2] have sub: "set (g2_citations r st cfg) \<subseteq> set vs"
    by (simp add: run_rule_def)
  have "(case (k, i, t) of (k, i, t) \<Rightarrow>
      at_sentence G2 True (lit ''factual sentence without a citation'') k i [detail_text t])
    \<in> set (g2_citations r st cfg)"
    unfolding g2_citations_def by (rule map_filter_memI[OF assms(2)]) (simp add: assms(3,4))
  with sub show ?thesis
    by (intro at_sentence_flagged) (auto simp: detail_text_def)
qed

lemma flagged_G3:
  assumes "evaluate r st cfg = Inr vs" and "(k, i, t) \<in> set (addressed r)"
    and "c \<in> set (s_cluster_ids t)" "\<not> dmem c (rs_clusters st)"
  shows "flagged G3 vs k i"
proof -
  from evaluate_rule[OF assms(1), of G3] have "set (g3_ledger r st cfg) \<subseteq> set vs"
    by (simp add: run_rule_def)
  moreover have "set (unknown_citations st (k, i, t)) \<subseteq> set (g3_ledger r st cfg)"
    using assms(2) unfolding g3_ledger_def Let_def by auto
  moreover have "\<exists>m. at_sentence G3 True m k i [(lit ''cluster_id'', JStr c)]
      \<in> set (unknown_citations st (k, i, t))"
    using assms(3,4) unfolding unknown_citations_def by auto
  ultimately obtain m where "at_sentence G3 True m k i [(lit ''cluster_id'', JStr c)] \<in> set vs" by blast
  then show ?thesis by (rule at_sentence_flagged) simp_all
qed

lemma flagged_G11:
  assumes "evaluate r st cfg = Inr vs" and "(k, i, t) \<in> set (addressed r)"
    and "s_kind t = RECOMMENDATION" "\<not> (\<exists>c\<in>set (s_finding_refs t). dmem c (rs_clusters st))"
  shows "flagged G11 vs k i"
proof -
  from evaluate_rule[OF assms(1), of G11] have sub: "set (g11_recommendations r st cfg) \<subseteq> set vs"
    by (simp add: run_rule_def)
  have "(case (k, i, t) of (k, i, t) \<Rightarrow>
      at_sentence G11 True (lit ''recommendation is not linked to a finding'') k i [detail_text t])
    \<in> set (g11_recommendations r st cfg)"
    unfolding g11_recommendations_def
    by (rule map_filter_memI[OF assms(2)]) (use assms(3,4) in \<open>simp add: list_ex_iff\<close>)
  with sub show ?thesis
    by (intro at_sentence_flagged) (auto simp: detail_text_def)
qed

lemma flagged_G12:
  assumes "evaluate r st cfg = Inr vs" and "(k, i, t) \<in> set (addressed r)"
    and "c \<in> set (s_cluster_ids t @ s_finding_refs t)" "ineligible st c \<noteq> None"
  shows "flagged G12 vs k i"
proof -
  from evaluate_rule[OF assms(1), of G12] have "set (g12_evidence_eligibility r st cfg) \<subseteq> set vs"
    by (simp add: run_rule_def)
  moreover have "set (g12_sentence st (k, i, t)) \<subseteq> set (g12_evidence_eligibility r st cfg)"
    using assms(2) unfolding g12_evidence_eligibility_def by auto
  moreover obtain cl where cl: "ineligible st c = Some cl" using assms(4) by blast
  have "\<exists>m ds. at_sentence G12 True m k i ((lit ''cluster_id'', JStr c) # ds) \<in> set (g12_sentence st (k, i, t))
      \<and> dget ds (lit ''remediable'') = None"
    unfolding g12_sentence_def prod.case in_set_map_filter
    by (intro exI conjI bexI[of _ c])
      (use assms(3) in \<open>simp_all only: cl option.case set_fromkeys\<close>, simp_all)
  ultimately obtain m ds where "at_sentence G12 True m k i ((lit ''cluster_id'', JStr c) # ds) \<in> set vs"
    "dget ds (lit ''remediable'') = None" by blast
  then show ?thesis by (intro at_sentence_flagged) auto
qed

lemma clean_if_unflagged:
  assumes "evaluate r st cfg = Inr vs" and "\<And>rule k i. rule \<in> {G2, G3, G11, G12} \<Longrightarrow> \<not> flagged rule vs k i"
  shows "clean_body st r"
proof -
  have "clean_sentence st t" if "(k, t) \<in> body r" for k t
  proof -
    from that obtain i where a: "(k, i, t) \<in> set (addressed r)" by (auto simp: addressed_body)
    have "\<not> flagged G2 vs k i" "\<not> flagged G3 vs k i" "\<not> flagged G11 vs k i" "\<not> flagged G12 vs k i"
      using assms(2) by simp_all
    with flagged_G2[OF assms(1) a] flagged_G3[OF assms(1) a] flagged_G11[OF assms(1) a]
      flagged_G12[OF assms(1) a]
    show ?thesis unfolding clean_sentence_def by blast
  qed
  then show ?thesis by (auto simp: clean_body_def)
qed

section \<open>One round of remediation\<close>

text \<open>
  What the loop over the violations may have made of a sentence: a fixed text of the gate, the
  original with its citations as they were and no G3 violation handled yet, or the original with
  only the citations the ledger knows, marked for removal if that leaves a fact without any.
\<close>

definition known_ids :: "research_state \<Rightarrow> sentence \<Rightarrow> str list" where
  "known_ids st t = filter (\<lambda>c. dmem c (rs_clusters st)) (s_cluster_ids t)"

definition gate_text :: "sentence \<Rightarrow> bool" where
  "gate_text t \<longleftrightarrow> s_kind t = META \<and> s_cluster_ids t = [] \<and> s_finding_refs t = []"

definition descends :: "research_state \<Rightarrow> (section_key \<times> nat) list \<Rightarrow> violation list \<Rightarrow>
    section_key \<Rightarrow> nat \<Rightarrow> sentence \<Rightarrow> sentence \<Rightarrow> bool" where
  "descends st drops vs k i t0 t \<longleftrightarrow> s_kind t = s_kind t0 \<and> s_finding_refs t = s_finding_refs t0
     \<and> (s_cluster_ids t = s_cluster_ids t0 \<and> \<not> flagged G3 vs k i
        \<or> s_cluster_ids t = known_ids st t0
          \<and> (s_kind t = S_FACT \<and> s_cluster_ids t = [] \<longrightarrow> (k, i) \<in> set drops))"

definition remedy_inv :: "research_state \<Rightarrow> report \<Rightarrow> violation list \<Rightarrow> remedy \<Rightarrow> bool" where
  "remedy_inv st r0 vs m \<longleftrightarrow> distinct (keys_of (rm_report m))
     \<and> (\<forall>k i t. sentence_at (rm_report m) k i = Some t \<longrightarrow>
          gate_text t \<or> (\<exists>t0. sentence_at r0 k i = Some t0 \<and> descends st (rm_drop m) vs k i t0 t))
     \<and> (\<forall>rule\<in>{G2, G11, G12}. \<forall>k i. flagged rule vs k i \<longrightarrow> (k, i) \<in> set (rm_drop m))"

lemma known_ids_filter:
  "filter (\<lambda>c. dmem c (rs_clusters st)) (known_ids st t) = known_ids st t"
  by (simp add: known_ids_def)

lemma flagged_snoc:
  "flagged rule (vs @ [v]) k i \<longleftrightarrow> flagged rule vs k i \<or> flagged rule [v] k i"
  by (auto simp: flagged_def)

lemma flagged_single:
  "flagged rule [v] k i \<longleftrightarrow> v_rule v = rule \<and> v_section v = Some k \<and> v_index v = Some i
     \<and> (rule = G3 \<longrightarrow> detail (lit ''cluster_id'') v \<noteq> None) \<and> v_error v \<and> remediable v"
  by (auto simp: flagged_def)

lemma remedy_invI:
  assumes "distinct (keys_of (rm_report m'))"
    and "\<And>k i t. sentence_at (rm_report m') k i = Some t \<Longrightarrow>
       gate_text t \<or> (\<exists>t0. sentence_at r0 k i = Some t0 \<and> descends st (rm_drop m') vs k i t0 t)"
    and "\<And>rule k i. rule \<in> {G2, G11, G12} \<Longrightarrow> flagged rule vs k i \<Longrightarrow> (k, i) \<in> set (rm_drop m')"
  shows "remedy_inv st r0 vs m'"
  using assms unfolding remedy_inv_def by blast

lemma remedy_invD:
  assumes "remedy_inv st r0 vs m"
  shows "distinct (keys_of (rm_report m))"
    and "sentence_at (rm_report m) k i = Some t \<Longrightarrow>
       gate_text t \<or> (\<exists>t0. sentence_at r0 k i = Some t0 \<and> descends st (rm_drop m) vs k i t0 t)"
    and "rule \<in> {G2, G11, G12} \<Longrightarrow> flagged rule vs k i \<Longrightarrow> (k, i) \<in> set (rm_drop m)"
  using assms unfolding remedy_inv_def by blast+

lemma descends_keep:
  "descends st ds vs k i t0 t \<Longrightarrow> \<not> flagged G3 [v] k i \<Longrightarrow> set ds \<subseteq> set ds' \<Longrightarrow>
     s_kind t' = s_kind t \<Longrightarrow> s_finding_refs t' = s_finding_refs t \<Longrightarrow>
     s_cluster_ids t' = s_cluster_ids t \<Longrightarrow> descends st ds' (vs @ [v]) k i t0 t'"
  by (auto simp: descends_def flagged_snoc)

text \<open>A step that leaves the citations alone, whatever it appends or relabels.\<close>

lemma remedy_inv_frame:
  assumes "remedy_inv st r0 vs m" and "distinct (keys_of (rm_report m'))"
    and "set (rm_drop m) \<subseteq> set (rm_drop m')" and "\<And>k i. \<not> flagged G3 [v] k i"
    and "\<And>k i t. sentence_at (rm_report m') k i = Some t \<Longrightarrow> gate_text t \<or>
       (\<exists>t1. sentence_at (rm_report m) k i = Some t1 \<and> s_kind t = s_kind t1
          \<and> s_finding_refs t = s_finding_refs t1 \<and> s_cluster_ids t = s_cluster_ids t1)"
    and "\<And>rule k i. rule \<in> {G2, G11, G12} \<Longrightarrow> flagged rule [v] k i \<Longrightarrow> (k, i) \<in> set (rm_drop m')"
  shows "remedy_inv st r0 (vs @ [v]) m'"
proof (rule remedy_invI[OF assms(2)])
  fix k i t assume "sentence_at (rm_report m') k i = Some t"
  from assms(5)[OF this] show "gate_text t \<or>
      (\<exists>t0. sentence_at r0 k i = Some t0 \<and> descends st (rm_drop m') (vs @ [v]) k i t0 t)"
  proof
    assume "\<exists>t1. sentence_at (rm_report m) k i = Some t1 \<and> s_kind t = s_kind t1
          \<and> s_finding_refs t = s_finding_refs t1 \<and> s_cluster_ids t = s_cluster_ids t1"
    then obtain t1 where t1: "sentence_at (rm_report m) k i = Some t1" "s_kind t = s_kind t1"
      "s_finding_refs t = s_finding_refs t1" "s_cluster_ids t = s_cluster_ids t1" by blast
    from remedy_invD(2)[OF assms(1) t1(1)] show ?thesis
    proof
      assume "gate_text t1" with t1 show ?thesis by (simp add: gate_text_def)
    next
      assume "\<exists>t0. sentence_at r0 k i = Some t0 \<and> descends st (rm_drop m) vs k i t0 t1"
      then obtain t0 where t0: "sentence_at r0 k i = Some t0" "descends st (rm_drop m) vs k i t0 t1"
        by blast
      from descends_keep[OF t0(2) assms(4,3) t1(2-4)] t0(1) show ?thesis by blast
    qed
  qed simp
next
  fix rule k i assume "rule \<in> {G2, G11, G12}" "flagged rule (vs @ [v]) k i"
  then show "(k, i) \<in> set (rm_drop m')"
    using remedy_invD(3)[OF assms(1)] assms(3,6) unfolding flagged_snoc by blast
qed

lemma add_label_inv:
  assumes "remedy_inv st r0 vs m" and "v_rule v \<notin> {G2, G3, G11, G12}"
  shows "remedy_inv st r0 (vs @ [v]) (add_label name v m)"
proof (rule remedy_inv_frame[OF assms(1)])
  show "distinct (keys_of (rm_report (add_label name v m)))"
    using remedy_invD(1)[OF assms(1)]
    by (auto simp: add_label_def act_def edit_sentence_def split: option.splits)
  show "set (rm_drop m) \<subseteq> set (rm_drop (add_label name v m))"
    by (auto simp: add_label_def act_def split: option.splits)
  show "gate_text t \<or> (\<exists>t1. sentence_at (rm_report m) k i = Some t1 \<and> s_kind t = s_kind t1
          \<and> s_finding_refs t = s_finding_refs t1 \<and> s_cluster_ids t = s_cluster_ids t1)"
    if "sentence_at (rm_report (add_label name v m)) k i = Some t" for k i t
    using that by (auto simp: add_label_def act_def sentence_at_edit_sentence split: option.splits if_splits)
qed (use assms(2) in \<open>auto simp: flagged_single\<close>)

lemma fix_sensitive_inv:
  assumes "remedy_inv st r0 vs m" and "v_rule v \<notin> {G2, G3, G11, G12}"
  shows "remedy_inv st r0 (vs @ [v]) (fix_sensitive v m)"
proof (rule remedy_inv_frame[OF assms(1)])
  show "distinct (keys_of (rm_report (fix_sensitive v m)))"
    using remedy_invD(1)[OF assms(1)]
    by (auto simp: fix_sensitive_def act_def edit_sentence_def split: option.splits)
  show "set (rm_drop m) \<subseteq> set (rm_drop (fix_sensitive v m))"
    by (auto simp: fix_sensitive_def act_def split: option.splits)
  show "gate_text t \<or> (\<exists>t1. sentence_at (rm_report m) k i = Some t1 \<and> s_kind t = s_kind t1
          \<and> s_finding_refs t = s_finding_refs t1 \<and> s_cluster_ids t = s_cluster_ids t1)"
    if "sentence_at (rm_report (fix_sensitive v m)) k i = Some t" for k i t
    using that by (auto simp: fix_sensitive_def act_def sentence_at_edit_sentence split: option.splits if_splits)
qed (use assms(2) in \<open>auto simp: flagged_single\<close>)

lemma gate_text_meta [simp]: "gate_text (meta_sentence x ls)"
  by (simp add: gate_text_def meta_sentence_def)

lemma fix_section_inv:
  assumes "remedy_inv st r0 vs m" and "v_rule v \<notin> {G2, G3, G11, G12}" and "fix_section l v m = Inr m'"
  shows "remedy_inv st r0 (vs @ [v]) m'"
proof -
  from assms(3) obtain k' a where m': "m' = act m (let r = ensure_section k' l (rm_report m) in
      if k' \<noteq> SOURCES then edit_section k' (\<lambda>ts. if ts = [] then [meta_sentence (none_text l) []] else ts) r
      else r) a"
    by (auto simp: fix_section_def Let_def split: option.splits json.splits)
  show ?thesis
  proof (rule remedy_inv_frame[OF assms(1)])
    show "distinct (keys_of (rm_report m'))"
      using remedy_invD(1)[OF assms(1)] by (simp add: m' act_def Let_def distinct_keys_ensure)
    show "gate_text t \<or> (\<exists>t1. sentence_at (rm_report m) k i = Some t1 \<and> s_kind t = s_kind t1
          \<and> s_finding_refs t = s_finding_refs t1 \<and> s_cluster_ids t = s_cluster_ids t1)"
      if "sentence_at (rm_report m') k i = Some t" for k i t
      using that by (auto simp: m' act_def Let_def split: if_splits dest!: sentence_at_none_marker)
  qed (use assms(2) in \<open>auto simp: flagged_single m' act_def\<close>)
qed

lemma fix_gap_inv:
  assumes "remedy_inv st r0 vs m" and "v_rule v \<notin> {G2, G3, G11, G12}" and "fix_gap st l v m = Inr m'"
  shows "remedy_inv st r0 (vs @ [v]) m'"
proof -
  from assms(3) consider "m' = m"
    | x ls a where "m' = act m (edit_section KNOWN_GAPS (\<lambda>ts. ts @ [meta_sentence x ls])
                     (ensure_section KNOWN_GAPS l (rm_report m))) a"
    by (auto simp: fix_gap_def Let_def split: option.splits json.splits)
  then show ?thesis
  proof cases
    case 1
    then show ?thesis
      by (intro remedy_inv_frame[OF assms(1)])
        (use assms(2) remedy_invD(1)[OF assms(1)] in \<open>auto simp: flagged_single\<close>)
  next
    case 2
    show ?thesis
    proof (rule remedy_inv_frame[OF assms(1)])
      show "distinct (keys_of (rm_report m'))"
        using remedy_invD(1)[OF assms(1)] by (simp add: 2 act_def distinct_keys_ensure)
      show "gate_text t \<or> (\<exists>t1. sentence_at (rm_report m) k i = Some t1 \<and> s_kind t = s_kind t1
          \<and> s_finding_refs t = s_finding_refs t1 \<and> s_cluster_ids t = s_cluster_ids t1)"
        if "sentence_at (rm_report m') k i = Some t" for k i t
        using that by (auto simp: 2 act_def dest!: sentence_at_append)
    qed (use assms(2) in \<open>auto simp: flagged_single 2 act_def\<close>)
  qed
qed

lemma add_drop_inv:
  assumes "remedy_inv st r0 vs m" and "v_rule v \<noteq> G3"
  shows "remedy_inv st r0 (vs @ [v]) (add_drop v m)"
proof (rule remedy_inv_frame[OF assms(1)])
  show "distinct (keys_of (rm_report (add_drop v m)))"
    using remedy_invD(1)[OF assms(1)] by (auto simp: add_drop_def split: option.splits)
  show "gate_text t \<or> (\<exists>t1. sentence_at (rm_report m) k i = Some t1 \<and> s_kind t = s_kind t1
          \<and> s_finding_refs t = s_finding_refs t1 \<and> s_cluster_ids t = s_cluster_ids t1)"
    if "sentence_at (rm_report (add_drop v m)) k i = Some t" for k i t
    using that by (auto simp: add_drop_def split: option.splits)
qed (use assms(2) in \<open>auto simp: flagged_single add_drop_def split: option.splits\<close>)

lemma fix_citation_inv:
  assumes inv: "remedy_inv st r0 vs m" and rule: "v_rule v = G3"
  shows "remedy_inv st r0 (vs @ [v]) (fix_citation st cid v m)"
proof (cases "\<exists>k i t. v_section v = Some k \<and> v_index v = Some i \<and> sentence_at (rm_report m) k i = Some t")
  case False
  then have same: "fix_citation st cid v m = m"
    by (auto simp: fix_citation_def target_of_def split: option.splits)
  have nf: "\<not> flagged G3 [v] k i" if "sentence_at (rm_report m) k i = Some t" for k i t
    using False that by (auto simp: flagged_single)
  show ?thesis
    unfolding same
  proof (rule remedy_invI[OF remedy_invD(1)[OF inv]])
    fix k i t assume at: "sentence_at (rm_report m) k i = Some t"
    from remedy_invD(2)[OF inv at] show "gate_text t \<or>
        (\<exists>t0. sentence_at r0 k i = Some t0 \<and> descends st (rm_drop m) (vs @ [v]) k i t0 t)"
      using descends_keep[OF _ nf[OF at] subset_refl refl refl refl] by blast
  next
    fix rule k i assume "rule \<in> {G2, G11, G12}" "flagged rule (vs @ [v]) k i"
    then show "(k, i) \<in> set (rm_drop m)"
      using remedy_invD(3)[OF inv] assms(2) unfolding flagged_snoc by (auto simp: flagged_single)
  qed
next
  case True
  then obtain k0 i0 t1 where v: "v_section v = Some k0" "v_index v = Some i0"
    and t1: "sentence_at (rm_report m) k0 i0 = Some t1" by blast
  let ?kept = "filter (\<lambda>c. dmem c (rs_clusters st)) (s_cluster_ids t1)"
  let ?m' = "fix_citation st cid v m"
  have rep: "rm_report ?m' = edit_sentence k0 i0 (\<lambda>t. t\<lparr>s_cluster_ids := ?kept\<rparr>) (rm_report m)"
    and drops: "set (rm_drop ?m') = set (rm_drop m) \<union>
       (if ?kept = [] \<and> s_kind t1 = S_FACT then {(k0, i0)} else {})"
    using t1 by (auto simp: fix_citation_def target_of_def v act_def Let_def)
  show ?thesis
  proof (rule remedy_invI)
    show "distinct (keys_of (rm_report ?m'))"
      using remedy_invD(1)[OF inv] by (simp add: rep edit_sentence_def)
  next
    fix k i t assume at: "sentence_at (rm_report ?m') k i = Some t"
    show "gate_text t \<or> (\<exists>t0. sentence_at r0 k i = Some t0
        \<and> descends st (rm_drop ?m') (vs @ [v]) k i t0 t)"
    proof (cases "k = k0 \<and> i = i0")
      case True
      with at t1 have t: "t = t1\<lparr>s_cluster_ids := ?kept\<rparr>"
        by (simp add: rep sentence_at_edit_sentence)
      from remedy_invD(2)[OF inv t1] show ?thesis
      proof
        assume "gate_text t1" with t show ?thesis by (simp add: gate_text_def)
      next
        assume "\<exists>t0. sentence_at r0 k0 i0 = Some t0 \<and> descends st (rm_drop m) vs k0 i0 t0 t1"
        then obtain t0 where t0: "sentence_at r0 k0 i0 = Some t0" "descends st (rm_drop m) vs k0 i0 t0 t1"
          by blast
        then have "?kept = known_ids st t0"
          by (auto simp: descends_def known_ids_def)
        with t0 t True drops show ?thesis by (auto simp: descends_def)
      qed
    next
      case False
      then have at': "sentence_at (rm_report m) k i = Some t" using at
        by (auto simp: rep sentence_at_edit_sentence split: if_splits)
      have "\<not> flagged G3 [v] k i" using False v by (auto simp: flagged_single)
      moreover have "set (rm_drop m) \<subseteq> set (rm_drop ?m')" using drops by auto
      ultimately show ?thesis
        using remedy_invD(2)[OF inv at'] descends_keep by blast
    qed
  next
    fix rule k i assume "rule \<in> {G2, G11, G12}" "flagged rule (vs @ [v]) k i"
    then show "(k, i) \<in> set (rm_drop ?m')"
      using remedy_invD(3)[OF inv] drops rule unfolding flagged_snoc by (auto simp: flagged_single)
  qed
qed

lemma fix_violation_inv:
  assumes "remedy_inv st r0 vs m" and "fix_violation st l v m = Inr m'"
  shows "remedy_inv st r0 (vs @ [v]) m'"
proof -
  have id: "remedy_inv st r0 (vs @ [v]) m" if "\<And>rule k i. rule \<in> {G2, G3, G11, G12} \<Longrightarrow> \<not> flagged rule [v] k i"
    by (rule remedy_inv_frame[OF assms(1) remedy_invD(1)[OF assms(1)]]) (use that in auto)
  consider (sect) "v_rule v = G1" "fix_section l v m = Inr m'"
    | (mark) "v_rule v \<noteq> G3" "m' = add_drop v m"
    | (cite) cid where "v_rule v = G3" "m' = fix_citation st cid v m"
    | (lab) name where "v_rule v \<notin> {G2, G3, G11, G12}" "m' = add_label name v m"
    | (gap) "v_rule v = G7" "fix_gap st l v m = Inr m'"
    | (mask) "v_rule v = G9" "m' = fix_sensitive v m"
    | (none) "m' = m" "v_rule v \<notin> {G2, G11, G12}" "v_rule v = G3 \<Longrightarrow> detail (lit ''cluster_id'') v = None"
    using assms(2) unfolding fix_violation_def by (auto split: if_splits)
  then show ?thesis
  proof cases
    case sect
    then show ?thesis using fix_section_inv[OF assms(1)] by simp
  next
    case mark
    then show ?thesis using add_drop_inv[OF assms(1)] by simp
  next
    case cite
    then show ?thesis using fix_citation_inv[OF assms(1)] by simp
  next
    case lab
    then show ?thesis using add_label_inv[OF assms(1)] by simp
  next
    case gap
    then show ?thesis using fix_gap_inv[OF assms(1)] by simp
  next
    case mask
    then show ?thesis using fix_sensitive_inv[OF assms(1)] by simp
  next
    case none
    then show ?thesis using id by (auto simp: flagged_single)
  qed
qed

lemma fix_all_inv:
  "fix_all st l ws m = Inr m' \<Longrightarrow> remedy_inv st r0 vs m \<Longrightarrow> remedy_inv st r0 (vs @ ws) m'"
proof (induction ws arbitrary: vs m)
  case (Cons w ws)
  then obtain m1 where "fix_violation st l w m = Inr m1" "fix_all st l ws m1 = Inr m'"
    by (auto simp: rbind_Inr_iff)
  with Cons.IH[of m1 "vs @ [w]"] fix_violation_inv[OF Cons.prems(2)] show ?case by simp
qed simp

lemma remedy_inv_start:
  "distinct (keys_of r) \<Longrightarrow> remedy_inv st r [] \<lparr>rm_report = r, rm_actions = [], rm_drop = []\<rparr>"
  by (rule remedy_invI) (auto simp: flagged_def descends_def)

text \<open>What is left after the marked sentences are gone.\<close>

lemma body_drop_kept:
  "(k, t) \<in> body (drop_sentences ds r) \<longleftrightarrow>
     (\<exists>s\<in>set (r_sections r). sec_key s = k \<and> t \<in> set (kept_in ds s))"
  by (simp add: body_iff drop_sentences_def)

lemma in_kept_in:
  "t \<in> set (kept_in ds s) \<longleftrightarrow>
     (\<exists>i<length (sec_sentences s). sec_sentences s ! i = t \<and> (sec_key s, i) \<notin> set ds)"
  by (force simp: kept_in_def in_set_enumerate_eq image_iff)

lemma body_drop_sentences:
  assumes "distinct (keys_of r)"
  shows "(k, t) \<in> body (drop_sentences ds r) \<longleftrightarrow>
     (\<exists>i. sentence_at r k i = Some t \<and> (k, i) \<notin> set ds)"
proof -
  have "(k, t) \<in> body (drop_sentences ds r) \<longleftrightarrow> (\<exists>i. (k, i, t) \<in> set (addressed r) \<and> (k, i) \<notin> set ds)"
    unfolding body_drop_kept in_kept_in addressed_iff by blast
  then show ?thesis using addressed_sentence_at[OF assms] by simp
qed

lemma descends_clean:
  assumes ev: "evaluate r0 st cfg = Inr vs" and dist: "distinct (keys_of r0)"
    and t0: "sentence_at r0 k i = Some t0" "descends st ds ws k i t0 t" and keep: "(k, i) \<notin> set ds"
    and ws: "\<And>rule. flagged rule vs k i \<Longrightarrow> flagged rule ws k i"
    and drop: "\<And>rule. rule \<in> {G2, G11, G12} \<Longrightarrow> flagged rule ws k i \<Longrightarrow> (k, i) \<in> set ds"
  shows "clean_sentence st t"
proof -
  have a: "(k, i, t0) \<in> set (addressed r0)" using t0(1) addressed_sentence_at[OF dist] by simp
  have nf: "\<not> flagged rule vs k i" if "rule \<in> {G2, G11, G12}" for rule
    using that ws drop keep by blast
  have f: "s_kind t0 = S_FACT \<longrightarrow> s_cluster_ids t0 \<noteq> []" using flagged_G2[OF ev a] nf[of G2] by auto
  have rc: "s_kind t0 = RECOMMENDATION \<longrightarrow> (\<exists>c\<in>set (s_finding_refs t0). dmem c (rs_clusters st))"
    using flagged_G11[OF ev a] nf[of G11] by blast
  have el: "\<forall>c\<in>set (s_cluster_ids t0 @ s_finding_refs t0). ineligible st c = None"
    using flagged_G12[OF ev a] nf[of G12] by blast
  have sk: "s_kind t = s_kind t0" "s_finding_refs t = s_finding_refs t0"
    using t0(2) by (simp_all add: descends_def)
  from t0(2) consider "s_cluster_ids t = s_cluster_ids t0" "\<not> flagged G3 ws k i"
    | "s_cluster_ids t = known_ids st t0" "s_kind t = S_FACT \<longrightarrow> s_cluster_ids t \<noteq> []"
    using keep by (auto simp: descends_def)
  then show ?thesis
  proof cases
    case 1
    have "\<forall>c\<in>set (s_cluster_ids t0). dmem c (rs_clusters st)"
      using flagged_G3[OF ev a] ws 1(2) by blast
    with f rc el sk 1 show ?thesis by (simp add: clean_sentence_def)
  next
    case 2
    with rc el sk show ?thesis by (auto simp: clean_sentence_def known_ids_def)
  qed
qed

lemma flagged_remediable: "flagged rule vs k i \<Longrightarrow> flagged rule (filter remediable vs) k i"
  by (auto simp: flagged_def)

lemma rebuild_sections:
  "rebuild_sources st r = Inr r' \<Longrightarrow> r_sections r' = r_sections r"
  by (auto simp: rebuild_sources_def rbind_Inr_iff)

lemma body_sections: "r_sections r' = r_sections r \<Longrightarrow> body r' = body r \<and> keys_of r' = keys_of r"
  by (simp add: body_def keys_of_def)

lemma keys_drop_sentences [simp]: "keys_of (drop_sentences ds r) = keys_of r"
  by (simp add: keys_of_def drop_sentences_def comp_def)

lemma remediate_clean:
  assumes "evaluate r st cfg = Inr vs" and "distinct (keys_of r)"
    and "remediate r st (filter remediable vs) l = Inr (r', acts, n)"
  shows "clean_body st r' \<and> distinct (keys_of r')"
proof -
  let ?ws = "filter remediable vs"
  from assms(3) obtain m where m: "fix_all st l ?ws \<lparr>rm_report = r, rm_actions = [], rm_drop = []\<rparr> = Inr m"
    and rb: "rebuild_sources st (drop_sentences (rm_drop m) (rm_report m)) = Inr r'"
    by (auto simp: remediate_def rbind_Inr_iff Let_def)
  from fix_all_inv[OF m remedy_inv_start[OF assms(2)]] have inv: "remedy_inv st r ?ws m" by simp
  note same = body_sections[OF rebuild_sections[OF rb]]
  have "clean_sentence st t" if "(k, t) \<in> body r'" for k t
  proof -
    from that same obtain i where at: "sentence_at (rm_report m) k i = Some t" "(k, i) \<notin> set (rm_drop m)"
      using body_drop_sentences[OF remedy_invD(1)[OF inv]] by auto
    from remedy_invD(2)[OF inv at(1)] show ?thesis
    proof
      assume "gate_text t"
      then show ?thesis by (simp add: gate_text_def clean_sentence_def)
    next
      assume "\<exists>t0. sentence_at r k i = Some t0 \<and> descends st (rm_drop m) ?ws k i t0 t"
      then obtain t0 where "sentence_at r k i = Some t0" "descends st (rm_drop m) ?ws k i t0 t" by blast
      from descends_clean[OF assms(1,2) this at(2) flagged_remediable remedy_invD(3)[OF inv]]
      show ?thesis .
    qed
  qed
  with same remedy_invD(1)[OF inv] show ?thesis by (auto simp: clean_body_def)
qed

section \<open>The loop and the verdict\<close>

lemma flagged_none: "filter remediable vs = [] \<Longrightarrow> \<not> flagged rule vs k i"
  by (auto simp: flagged_def filter_empty_conv)

lemma gate_rounds_clean:
  assumes "gate_rounds st cfg n g = Inr g'" and "distinct (keys_of (gl_report g))"
    and "evaluate (gl_report g) st cfg = Inr (gl_violations g)" and "n > 0 \<or> clean_body st (gl_report g)"
  shows "clean_body st (gl_report g')"
  using assms
proof (induction n arbitrary: g)
  case (Suc n)
  show ?case
  proof (cases "filter remediable (gl_violations g) = []")
    case True
    with Suc.prems(1) have "g' = g" by simp
    with clean_if_unflagged[OF Suc.prems(3) flagged_none[OF True]] show ?thesis by simp
  next
    case False
    from Suc.prems(1) False obtain r acts k vs where
      r: "remediate (gl_report g) st (filter remediable (gl_violations g)) (rs_language st) = Inr (r, acts, k)"
      and vs: "evaluate r st cfg = Inr vs"
      and nxt: "gate_rounds st cfg n \<lparr>gl_report = r, gl_violations = vs, gl_actions = gl_actions g @ acts,
                   gl_removed = gl_removed g + k, gl_rounds = gl_rounds g + 1\<rparr> = Inr g'"
      by (auto simp: rbind_Inr_iff Let_def)
    from Suc.IH[OF nxt] remediate_clean[OF Suc.prems(3,2) r] vs show ?thesis by simp
  qed
qed simp

lemma gate_rounds_evaluated:
  assumes "gate_rounds st cfg n g = Inr g'" and "evaluate (gl_report g) st cfg = Inr (gl_violations g)"
  shows "evaluate (gl_report g') st cfg = Inr (gl_violations g')"
    and "gl_rounds g' \<le> gl_rounds g + n"
proof -
  have "evaluate (gl_report g') st cfg = Inr (gl_violations g') \<and> gl_rounds g' \<le> gl_rounds g + n"
    using assms
  proof (induction n arbitrary: g)
    case (Suc n)
    show ?case
    proof (cases "filter remediable (gl_violations g) = []")
      case True
      with Suc.prems show ?thesis by simp
    next
      case False
      from Suc.prems(1) False obtain r acts k vs where vs: "evaluate r st cfg = Inr vs"
        and nxt: "gate_rounds st cfg n \<lparr>gl_report = r, gl_violations = vs,
            gl_actions = gl_actions g @ acts, gl_removed = gl_removed g + k,
            gl_rounds = gl_rounds g + 1\<rparr> = Inr g'"
        by (auto simp: rbind_Inr_iff Let_def)
      from Suc.IH[OF nxt] vs show ?thesis by simp
    qed
  qed simp
  then show "evaluate (gl_report g') st cfg = Inr (gl_violations g')"
    and "gl_rounds g' \<le> gl_rounds g + n" by simp_all
qed

lemma run_gate_Inr:
  assumes "run_gate r st cfg n = Inr out"
  obtains w g where "0 \<le> n" "w = (if n = 0 then r else normalise_report st r)"
    "evaluate w st cfg = Inr (go_initial out)"
    "gate_rounds st cfg (nat n) \<lparr>gl_report = w, gl_violations = go_initial out, gl_actions = [],
       gl_removed = 0, gl_rounds = 0\<rparr> = Inr g"
    "go_report out = add_note (rs_language st) (gl_removed g) (gl_report g)"
    "go_final out = gl_violations g" "go_removed out = gl_removed g" "go_rounds out = gl_rounds g"
    "go_verdict out = verdict_of (go_initial out) (gl_violations g) (gl_removed g)"
    "go_banner out = (if go_verdict out = FAIL then Some (banner_text (rs_language st)) else None)"
proof -
  let ?w = "if n = 0 then r else normalise_report st r"
  have n: "\<not> n < 0" using assms by (auto simp: run_gate_def)
  from assms n obtain ini where ini: "evaluate ?w st cfg = Inr ini"
    unfolding run_gate_def Let_def by (cases "evaluate ?w st cfg") simp_all
  let ?g0 = "\<lparr>gl_report = ?w, gl_violations = ini, gl_actions = [], gl_removed = 0, gl_rounds = 0\<rparr>"
  from assms n ini obtain g where g: "gate_rounds st cfg (nat n) ?g0 = Inr g"
    unfolding run_gate_def Let_def by (cases "gate_rounds st cfg (nat n) ?g0") simp_all
  from assms n ini g obtain ds where "out =
      \<lparr>go_verdict = verdict_of ini (gl_violations g) (gl_removed g),
       go_report = add_note (rs_language st) (gl_removed g) (gl_report g),
       go_initial = ini, go_final = gl_violations g, go_remediations = gl_actions g,
       go_removed = gl_removed g, go_rounds = gl_rounds g,
       go_banner = (if verdict_of ini (gl_violations g) (gl_removed g) = FAIL
                    then Some (banner_text (rs_language st)) else None),
       go_descriptions = ds\<rparr>"
    unfolding run_gate_def Let_def by (cases "rmap (describe cfg) RULES") auto
  with n ini g show ?thesis by (intro that[of ?w g]) simp_all
qed

lemma set_edit_first:
  "s' \<in> set (edit_first k f ss) \<Longrightarrow> s' \<in> set ss \<or> (\<exists>s\<in>set ss. sec_key s = k \<and> s' = f s)"
  by (induction ss) (auto split: if_splits)

lemma body_append:
  "(k', t) \<in> body (edit_section k (\<lambda>ts. ts @ [x]) r) \<Longrightarrow> (k', t) \<in> body r \<or> t = x"
  by (auto simp: body_iff edit_section_def dest!: set_edit_first)

lemma body_add_note: "(k, t) \<in> body (add_note l n r) \<Longrightarrow> (k, t) \<in> body r \<or> gate_text t"
  by (auto simp: add_note_def body_ensure split: if_splits dest!: body_append)

lemma keys_normalise: "distinct (keys_of r) \<Longrightarrow> distinct (keys_of (normalise_report st r))"
proof -
  assume "distinct (keys_of r)"
  then have "distinct (keys_of (r\<lparr>r_sections := map (\<lambda>s. s\<lparr>sec_title := section_title (sec_key s) l\<rparr>)
      (r_sections r)\<rparr>))" for l
    by (simp add: keys_of_def comp_def)
  then show ?thesis
    by (auto simp: normalise_report_def Let_def intro: distinct_keys_ensure)
qed

text \<open>
  C17. Whatever the verdict, once remediation is allowed at all, every sentence of the report that
  leaves the gate is grounded: a fact cites at least one finding, every citation is in the ledger, a
  recommendation builds on a finding of the ledger, and nothing rests on a finding whose evidence
  was rejected or still needs a fresh confirmation.
\<close>

theorem gate_output_grounded:
  assumes "run_gate r st cfg n = Inr out" and "n \<ge> 1" and "distinct (keys_of r)"
  shows "\<forall>(k, t)\<in>body (go_report out).
      (s_kind t = S_FACT \<longrightarrow> s_cluster_ids t \<noteq> [])
    \<and> (\<forall>c\<in>set (s_cluster_ids t). dmem c (rs_clusters st))
    \<and> (s_kind t = RECOMMENDATION \<longrightarrow> (\<exists>c\<in>set (s_finding_refs t). dmem c (rs_clusters st)))
    \<and> (\<forall>c\<in>set (s_cluster_ids t @ s_finding_refs t). ineligible st c = None)"
proof -
  from assms(1) obtain w g where w: "w = (if n = 0 then r else normalise_report st r)"
    and ev: "evaluate w st cfg = Inr (go_initial out)"
    and g: "gate_rounds st cfg (nat n) \<lparr>gl_report = w, gl_violations = go_initial out, gl_actions = [],
       gl_removed = 0, gl_rounds = 0\<rparr> = Inr g"
    and out: "go_report out = add_note (rs_language st) (gl_removed g) (gl_report g)"
    by (rule run_gate_Inr)
  have "distinct (keys_of w)" using assms(2,3) w keys_normalise by simp
  with gate_rounds_clean[OF g] ev assms(2) have "clean_body st (gl_report g)" by simp
  then show ?thesis
    using body_add_note[of _ _ "rs_language st" "gl_removed g" "gl_report g"]
    by (fastforce simp: out clean_body_def clean_sentence_def gate_text_def)
qed

text \<open>
  The verdict: \<open>fail\<close> exactly when an error is left after the last round, and then the report
  carries a banner; \<open>pass\<close> exactly when nothing was found, nothing is left and nothing was removed;
  what is left are the violations of the remediated report; the number of rounds is bounded; and a
  removal is always announced by a note in the summary.
\<close>

theorem gate_verdict:
  assumes "run_gate r st cfg n = Inr out"
  shows "(go_verdict out = FAIL \<longleftrightarrow> (\<exists>v\<in>set (go_final out). v_error v))
    \<and> (go_banner out \<noteq> None \<longleftrightarrow> go_verdict out = FAIL)
    \<and> (go_verdict out = PASS \<longleftrightarrow> go_initial out = [] \<and> go_final out = [] \<and> go_removed out = 0)
    \<and> int (go_rounds out) \<le> n
    \<and> (go_removed out > 0 \<longrightarrow> (\<exists>t. (SUMMARY, t) \<in> body (go_report out) \<and> s_labels t = [lit ''gate_note'']
          \<and> s_text t = drop_note (rs_language st) (go_removed out)))
    \<and> (go_removed out = 0 \<longrightarrow> evaluate (go_report out) st cfg = Inr (go_final out))"
proof -
  from assms obtain w g where n: "0 \<le> n" and ev: "evaluate w st cfg = Inr (go_initial out)"
    and g: "gate_rounds st cfg (nat n) \<lparr>gl_report = w, gl_violations = go_initial out, gl_actions = [],
       gl_removed = 0, gl_rounds = 0\<rparr> = Inr g"
    and out: "go_report out = add_note (rs_language st) (gl_removed g) (gl_report g)"
      "go_final out = gl_violations g" "go_removed out = gl_removed g" "go_rounds out = gl_rounds g"
      "go_verdict out = verdict_of (go_initial out) (gl_violations g) (gl_removed g)"
      "go_banner out = (if go_verdict out = FAIL then Some (banner_text (rs_language st)) else None)"
    by (rule run_gate_Inr)
  from gate_rounds_evaluated[OF g] ev n have fin: "evaluate (gl_report g) st cfg = Inr (gl_violations g)"
    and "int (gl_rounds g) \<le> n" by auto
  moreover have "\<exists>t. (SUMMARY, t) \<in> body (go_report out) \<and> s_labels t = [lit ''gate_note'']
          \<and> s_text t = drop_note (rs_language st) (go_removed out)" if "go_removed out > 0"
  proof -
    let ?t = "meta_sentence (drop_note (rs_language st) (go_removed out)) [lit ''gate_note'']"
    let ?r = "ensure_section SUMMARY (rs_language st) (gl_report g)"
    obtain s where "report_section_of ?r SUMMARY = Some s"
      by (cases "report_section_of (gl_report g) SUMMARY") (auto simp: section_of_ensure)
    then have "report_section_of (go_report out) SUMMARY
        = Some (s\<lparr>sec_sentences := sec_sentences s @ [?t]\<rparr>)"
      using that by (simp add: out add_note_def section_of_edit)
    then have "(SUMMARY, ?t) \<in> body (go_report out)"
      by (auto simp: body_iff dest!: section_of_Some intro!: bexI)
    then show ?thesis by (intro exI[of _ ?t]) (simp add: meta_sentence_def)
  qed
  ultimately show ?thesis
    by (auto simp: out(2-6) verdict_of_def list_ex_iff out(1) add_note_def)
qed

section \<open>Reports that did not fail\<close>

lemma sort_Nil: "sort xs = [] \<longleftrightarrow> xs = []"
  by (metis set_sort set_empty)

lemma error_free_rule:
  assumes "evaluate r st cfg = Inr vs" and "\<not> (\<exists>v\<in>set vs. v_error v)"
    and "run_rule rule r st cfg = Inr ws" and "\<forall>v\<in>set ws. v_error v"
  shows "ws = []"
  using evaluate_rule[OF assms(1), of rule] assms(2-4) by (cases ws) auto

lemma g8_scan_errors: "g8_scan us ds ss = Inr vs \<Longrightarrow> \<forall>v\<in>set vs. v_error v"
proof (induction us ds ss arbitrary: vs rule: g8_scan.induct)
  case (2 us ds s ss)
  show ?case
  proof (cases "canonicalize_url (se_url s)")
    case (Inr c)
    with 2 show ?thesis
      by (cases c) (auto simp: rbind_Inr_iff g8_problem_def at_report_def split: if_splits)
  qed (use 2 in simp)
qed simp

lemma g8_scan_clean:
  "g8_scan us ds ss = Inr [] \<Longrightarrow> (\<forall>s\<in>set ss. canonicalize_url (se_url s) = Inr (Some (se_url s))
      \<and> se_url s \<notin> set us) \<and> distinct (map se_url ss)"
proof (induction ss arbitrary: us ds)
  case (Cons s ss)
  show ?case
  proof (cases "canonicalize_url (se_url s)")
    case (Inr c)
    with Cons.prems obtain u where u: "c = Some u" "u = se_url s" "u \<notin> set us"
      and rest: "g8_scan (u # us) (se_doc_id s # ds) ss = Inr []"
      by (cases c) (auto simp: rbind_Inr_iff split: if_splits)
    from Cons.IH[OF rest] u Inr show ?thesis by auto
  qed (use Cons.prems in simp)
qed simp

lemma fold_add_new_set: "set (fold add_new xs ys) = set ys \<union> set xs"
  by (induction xs arbitrary: ys) (auto simp: add_new_def)

lemma cited_fold_set:
  "set (fold (\<lambda>c o'. fold add_new (cluster_docs st c) o') cs ys) = set ys \<union> (\<Union>c\<in>set cs. set (cluster_docs st c))"
  by (induction cs arbitrary: ys) (auto simp: fold_add_new_set)

lemma set_cited_doc_ids:
  "set (cited_doc_ids r st) =
     (\<Union>(k, t)\<in>body r. \<Union>c\<in>set (s_cluster_ids t @ s_finding_refs t). set (cluster_docs st c))"
proof -
  have "set (cited_doc_ids r st) =
      (\<Union>(k, i, t)\<in>set (addressed r). \<Union>c\<in>set (s_cluster_ids t @ s_finding_refs t). set (cluster_docs st c))"
    by (force simp: cited_doc_ids_def cited_fold_set)
  also have "\<dots> = (\<Union>(k, t)\<in>body r. \<Union>c\<in>set (s_cluster_ids t @ s_finding_refs t). set (cluster_docs st c))"
    by (fastforce simp: addressed_body)
  finally show ?thesis .
qed

lemma edit_first_keeps: "s \<in> set ss \<Longrightarrow> \<exists>s'\<in>set (edit_first k f ss). s' = s \<or> s' = f s"
  by (induction ss) auto

lemma body_append_mono:
  assumes "(k', t) \<in> body r"
  shows "(k', t) \<in> body (edit_section k (\<lambda>ts. ts @ [x]) r)"
proof -
  let ?f = "\<lambda>s. s\<lparr>sec_sentences := sec_sentences s @ [x]\<rparr>"
  from assms obtain s where s: "s \<in> set (r_sections r)" "sec_key s = k'" "t \<in> set (sec_sentences s)"
    by (auto simp: body_iff)
  from edit_first_keeps[OF s(1), of k ?f] obtain s' where
    "s' \<in> set (edit_first k ?f (r_sections r))" "s' = s \<or> s' = ?f s" by blast
  moreover from this(2) s have "sec_key s' = k'" "t \<in> set (sec_sentences s')" by auto
  ultimately show ?thesis unfolding body_iff edit_section_def by auto
qed

lemma body_add_note_mono: "(k, t) \<in> body r \<Longrightarrow> (k, t) \<in> body (add_note l n r)"
  by (auto simp: add_note_def body_ensure intro: body_append_mono)

lemma in_cited: "d \<in> set (cited_doc_ids r st) \<longleftrightarrow>
    (\<exists>k t c. (k, t) \<in> body r \<and> c \<in> set (s_cluster_ids t @ s_finding_refs t) \<and> d \<in> set (cluster_docs st c))"
  unfolding set_cited_doc_ids by auto

lemma cited_add_note: "set (cited_doc_ids (add_note l n r) st) = set (cited_doc_ids r st)"
proof (intro set_eqI iffI)
  fix d assume "d \<in> set (cited_doc_ids (add_note l n r) st)"
  then obtain k t c where t: "(k, t) \<in> body (add_note l n r)"
    "c \<in> set (s_cluster_ids t @ s_finding_refs t)" "d \<in> set (cluster_docs st c)"
    by (auto simp: in_cited)
  from this(2) have "\<not> gate_text t" by (auto simp: gate_text_def)
  with body_add_note[OF t(1)] t(2,3) show "d \<in> set (cited_doc_ids r st)"
    unfolding in_cited by blast
next
  fix d assume "d \<in> set (cited_doc_ids r st)"
  then show "d \<in> set (cited_doc_ids (add_note l n r) st)"
    unfolding in_cited using body_add_note_mono by blast
qed

lemma sources_add_note [simp]: "r_sources (add_note l n r) = r_sources r"
  by (simp add: add_note_def edit_section_def ensure_section_def split: option.splits)

lemma keys_add_note: "set (keys_of r) \<subseteq> set (keys_of (add_note l n r))"
  by (auto simp: add_note_def keys_ensure)

lemma section_of_add_note: "k \<noteq> SUMMARY \<Longrightarrow> report_section_of (add_note l n r) k = report_section_of r k"
  by (simp add: add_note_def section_of_edit section_of_ensure)

text \<open>What an evaluation without errors says of the rules that only report errors.\<close>

lemma error_free_report:
  assumes "evaluate r st cfg = Inr vs" and "\<not> (\<exists>v\<in>set vs. v_error v)"
  shows "g1_sections r st cfg = []" and "g3_ledger r st cfg = []" and "g7_known_gaps r st cfg = []"
    and "g9_sensitive r st cfg = []" and "g8_scan [] [] (r_sources r) = Inr []"
proof -
  note clean = error_free_rule[OF assms]
  show "g1_sections r st cfg = []"
    by (rule clean[of G1]) (auto simp: run_rule_def g1_sections_def missing_section_def at_report_def
        no_findings_def split: option.splits)
  show "g3_ledger r st cfg = []"
    by (rule clean[of G3]) (auto simp: run_rule_def g3_ledger_def Let_def unknown_citations_def
        at_report_def at_sentence_def)
  show "g7_known_gaps r st cfg = []"
    by (rule clean[of G7]) (auto simp: run_rule_def g7_known_gaps_def at_report_def)
  show "g9_sensitive r st cfg = []"
    by (rule clean[of G9]) (auto simp: run_rule_def g9_sensitive_def at_report_def at_sentence_def)
  obtain ws where "g8_urls r st cfg = Inr ws"
    using evaluate_rule[OF assms(1), of G8] by (auto simp: run_rule_def)
  moreover from this have "ws = []"
    by (intro clean[of G8]) (auto simp: run_rule_def g8_urls_def dest: g8_scan_errors)
  ultimately show "g8_scan [] [] (r_sources r) = Inr []" by (simp add: g8_urls_def)
qed

text \<open>
  C18. A report that did not fail is complete: every required section is there, Known Gaps too when
  a sub-question was given up, with each such sub-question listed; the key findings hold at least
  one cited fact; the source list is exactly the documents behind the cited findings; and its
  addresses are canonical and distinct, its titles free of anything the redaction rules would hide.
\<close>

theorem gate_pass_complete:
  assumes "run_gate r st cfg n = Inr out" and "go_verdict out \<noteq> FAIL"
  shows "set (required_names cfg st) \<subseteq> key_value ` set (keys_of (go_report out))
    \<and> (\<forall>q\<in>set (rs_plan st). sq_status q = EXHAUSTED \<longrightarrow> sq_id q \<in> set (listed_gaps (go_report out)))
    \<and> (\<forall>f. report_section_of (go_report out) KEY_FINDINGS = Some f \<longrightarrow> list_ex cited_fact (sec_sentences f))
    \<and> set (map se_doc_id (r_sources (go_report out))) = set (cited_doc_ids (go_report out) st)
    \<and> (\<forall>s\<in>set (r_sources (go_report out)). canonicalize_url (se_url s) = Inr (Some (se_url s))
         \<and> redact_text (se_title s) = se_title s)
    \<and> distinct (map se_url (r_sources (go_report out)))"
proof -
  from assms(1) obtain w g where n: "0 \<le> n" and ev: "evaluate w st cfg = Inr (go_initial out)"
    and g: "gate_rounds st cfg (nat n) \<lparr>gl_report = w, gl_violations = go_initial out, gl_actions = [],
       gl_removed = 0, gl_rounds = 0\<rparr> = Inr g"
    and out: "go_report out = add_note (rs_language st) (gl_removed g) (gl_report g)"
      "go_verdict out = verdict_of (go_initial out) (gl_violations g) (gl_removed g)"
    by (rule run_gate_Inr)
  let ?r = "gl_report g"
  from gate_rounds_evaluated(1)[OF g] ev have fin: "evaluate ?r st cfg = Inr (gl_violations g)" by simp
  have noerr: "\<not> (\<exists>v\<in>set (gl_violations g). v_error v)"
    using assms(2) out(2) by (auto simp: verdict_of_def list_ex_iff split: if_splits)
  note clean = error_free_report[OF fin noerr]
  have "set (required_names cfg st) \<subseteq> key_value ` set (keys_of ?r)"
    using clean(1) by (auto simp: g1_sections_def keys_of_def filter_empty_conv)
  moreover have "report_section_of ?r KEY_FINDINGS = Some f \<Longrightarrow> list_ex cited_fact (sec_sentences f)" for f
    using clean(1) by (auto simp: g1_sections_def split: if_splits)
  moreover have "set (map se_doc_id (r_sources ?r)) = set (cited_doc_ids ?r st)"
    using clean(2) by (auto simp: g3_ledger_def Let_def filter_empty_conv sort_Nil)
  moreover have "\<forall>q\<in>set (rs_plan st). sq_status q = EXHAUSTED \<longrightarrow> sq_id q \<in> set (listed_gaps ?r)"
    using clean(3) by (auto simp: g7_known_gaps_def filter_empty_conv)
  moreover have "listed_gaps (go_report out) = listed_gaps ?r"
    by (simp add: listed_gaps_def out(1) section_of_add_note)
  moreover have "\<forall>s\<in>set (r_sources ?r). redact_text (se_title s) = se_title s"
    using clean(4) by (auto simp: g9_sensitive_def filter_empty_conv)
  moreover note g8_scan_clean[OF clean(5)]
  ultimately show ?thesis
    using keys_add_note[of ?r "rs_language st" "gl_removed g"]
    by (simp add: out(1) cited_add_note section_of_add_note) blast
qed

end
