(* ===== verification/Contracts.thy ===== *)
theory Contracts
  imports Prelude
begin

text \<open>
  The cross-language contracts: the run state machine (\<open>contracts.py\<close>, with the table the code
  loads from \<open>contracts/run_states.yaml\<close>) and the error taxonomy (\<open>errors.py\<close>, with the table of
  \<open>contracts/error_codes.yaml\<close>).
\<close>

section \<open>Run states\<close>

datatype run_status =
  QUEUED | DISPATCHED | RUNNING | SUCCEEDED | SUCCEEDED_WITH_WARNINGS | FAILED | CANCELLED

definition all_statuses :: "run_status list" where
  "all_statuses =
     [QUEUED, DISPATCHED, RUNNING, SUCCEEDED, SUCCEEDED_WITH_WARNINGS, FAILED, CANCELLED]"

lemma set_all_statuses [simp]: "set all_statuses = UNIV"
proof -
  have "s \<in> set all_statuses" for s by (cases s) (simp_all add: all_statuses_def)
  then show ?thesis by blast
qed

record state_spec =
  owner :: str
  transitions :: "run_status list"

record run_state_machine =
  version :: int
  initial :: run_status
  terminal :: "run_status list"
  max_attempts :: nat
  states :: "(run_status, state_spec) dict"

text \<open>The \<open>ValueError\<close>s of the model validator, and the \<open>KeyError\<close> of a missing state.\<close>

datatype contract_error =
  StatesMissing "run_status list"
| TerminalHasTransitions run_status
| InitialIsTerminal run_status
| MaxAttemptsTooSmall
| StateKeyError run_status

text \<open>
  \<open>_check_consistency\<close>, after the field constraint \<open>max_attempts >= 1\<close>. The set \<open>terminal\<close> is
  iterated in list order; which of several faulty terminal states is named in the error is the
  only thing the order decides.
\<close>

fun check_terminals :: "run_status list \<Rightarrow> (run_status, state_spec) dict \<Rightarrow> contract_error + unit" where
  "check_terminals [] sts = Inr ()"
| "check_terminals (s # ss) sts =
     (case dget sts s of
        None \<Rightarrow> Inl (StateKeyError s)
      | Some spc \<Rightarrow> if transitions spc \<noteq> [] then Inl (TerminalHasTransitions s)
                    else check_terminals ss sts)"

definition check_consistency :: "run_state_machine \<Rightarrow> contract_error + run_state_machine" where
  "check_consistency m =
     (let missing = filter (\<lambda>s. \<not> dmem s (states m)) all_statuses
      in if max_attempts m < 1 then Inl MaxAttemptsTooSmall
         else if missing \<noteq> [] then Inl (StatesMissing missing)
         else (case check_terminals (terminal m) (states m) of
                 Inl e \<Rightarrow> Inl e
               | Inr _ \<Rightarrow> if initial m \<in> set (terminal m) then Inl (InitialIsTerminal (initial m))
                          else Inr m))"

definition can_transition :: "run_state_machine \<Rightarrow> run_status \<Rightarrow> run_status \<Rightarrow> contract_error + bool" where
  "can_transition m source target =
     (case dget (states m) source of
        None \<Rightarrow> Inl (StateKeyError source)
      | Some spc \<Rightarrow> Inr (target \<in> set (transitions spc)))"

definition is_terminal :: "run_state_machine \<Rightarrow> run_status \<Rightarrow> bool" where
  "is_terminal m s = (s \<in> set (terminal m))"

text \<open>\<open>contracts/run_states.yaml\<close>, as \<open>run_state_machine()\<close> loads it.\<close>

definition run_states :: run_state_machine where
  "run_states =
     \<lparr>version = 1, initial = QUEUED,
      terminal = [SUCCEEDED, SUCCEEDED_WITH_WARNINGS, FAILED, CANCELLED],
      max_attempts = 3,
      states =
        [(QUEUED, \<lparr>owner = lit ''dispatcher'', transitions = [DISPATCHED, CANCELLED, FAILED]\<rparr>),
         (DISPATCHED, \<lparr>owner = lit ''dispatcher'', transitions = [RUNNING, QUEUED, CANCELLED, FAILED]\<rparr>),
         (RUNNING, \<lparr>owner = lit ''agent'',
            transitions = [SUCCEEDED, SUCCEEDED_WITH_WARNINGS, FAILED, CANCELLED, QUEUED]\<rparr>),
         (SUCCEEDED, \<lparr>owner = lit ''agent'', transitions = []\<rparr>),
         (SUCCEEDED_WITH_WARNINGS, \<lparr>owner = lit ''agent'', transitions = []\<rparr>),
         (FAILED, \<lparr>owner = lit ''agent'', transitions = []\<rparr>),
         (CANCELLED, \<lparr>owner = lit ''dispatcher'', transitions = []\<rparr>)]\<rparr>"

lemma run_states_valid: "check_consistency run_states = Inr run_states"
  by code_simp

lemma check_terminals_ok:
  "check_terminals ss sts = Inr () \<Longrightarrow> s \<in> set ss \<Longrightarrow>
     \<exists>spc. dget sts s = Some spc \<and> transitions spc = []"
  by (induction ss sts rule: check_terminals.induct) (auto split: option.splits if_splits)

text \<open>What the validator guarantees of any machine it accepts.\<close>

lemma check_consistencyD:
  assumes "check_consistency m = Inr m'"
  shows "m' = m" and "1 \<le> max_attempts m" and "initial m \<notin> set (terminal m)"
    and "check_terminals (terminal m) (states m) = Inr ()"
    and "\<And>s. dmem s (states m)"
proof -
  from assms show "m' = m" and "1 \<le> max_attempts m" and "initial m \<notin> set (terminal m)"
    and "check_terminals (terminal m) (states m) = Inr ()"
    by (auto simp: check_consistency_def Let_def split: if_splits sum.splits)
  fix s
  have "filter (\<lambda>s. \<not> dmem s (states m)) all_statuses = []"
    using assms by (auto simp: check_consistency_def Let_def split: if_splits)
  then show "dmem s (states m)"
    unfolding filter_empty_conv set_all_statuses by blast
qed

lemma valid_can_transition_total:
  "check_consistency m = Inr m' \<Longrightarrow> \<exists>b. can_transition m s t = Inr b"
  using check_consistencyD(5)[of m m' s]
  by (auto simp: can_transition_def dmem_def simp del: dmem_iff)

lemma valid_terminal_stuck:
  assumes "check_consistency m = Inr m'" and "is_terminal m s"
  shows "can_transition m s t = Inr False"
proof -
  from assms(2) obtain spc where "dget (states m) s = Some spc" and "transitions spc = []"
    using check_terminals_ok[OF check_consistencyD(4)[OF assms(1)]]
    by (auto simp: is_terminal_def)
  then show ?thesis by (simp add: can_transition_def)
qed

text \<open>The transition relation of the shipped machine, as the code uses it.\<close>

definition allowed :: "run_status \<Rightarrow> run_status \<Rightarrow> bool" where
  "allowed s t = (can_transition run_states s t = Inr True)"

lemma allowed_simps [simp]:
  "allowed QUEUED t \<longleftrightarrow> t \<in> {DISPATCHED, CANCELLED, FAILED}"
  "allowed DISPATCHED t \<longleftrightarrow> t \<in> {RUNNING, QUEUED, CANCELLED, FAILED}"
  "allowed RUNNING t \<longleftrightarrow> t \<in> {SUCCEEDED, SUCCEEDED_WITH_WARNINGS, FAILED, CANCELLED, QUEUED}"
  "\<not> allowed SUCCEEDED t" "\<not> allowed SUCCEEDED_WITH_WARNINGS t" "\<not> allowed FAILED t"
  "\<not> allowed CANCELLED t"
  by (auto simp: allowed_def can_transition_def run_states_def)

abbreviation terminal_status :: "run_status \<Rightarrow> bool" where
  "terminal_status \<equiv> is_terminal run_states"

lemma terminal_status_simps [simp]:
  "\<not> terminal_status QUEUED" "\<not> terminal_status DISPATCHED" "\<not> terminal_status RUNNING"
  "terminal_status SUCCEEDED" "terminal_status SUCCEEDED_WITH_WARNINGS"
  "terminal_status FAILED" "terminal_status CANCELLED"
  by (simp_all add: is_terminal_def run_states_def)

lemma terminal_not_allowed: "terminal_status s \<Longrightarrow> \<not> allowed s t"
  by (cases s) auto

lemma can_transition_run_states: "can_transition run_states s t = Inr (allowed s t)"
  by (cases s) (auto simp: allowed_def can_transition_def run_states_def)

section \<open>Error taxonomy\<close>

datatype error_category =
  SEARCH | LLM | FETCH | BUDGET | PII | GATE | CONFIG | INFRA | BUG

datatype error_code =
  SEARCH_TIMEOUT | SEARCH_RATE_LIMIT | SEARCH_PROVIDER_ERROR | SEARCH_AUTH | SEARCH_EMPTY
| DUPLICATE_QUERY | NO_EVIDENCE_CODE
| LLM_TIMEOUT | LLM_RATE_LIMIT | LLM_PROVIDER_ERROR | LLM_AUTH | LLM_INVALID_OUTPUT
| LLM_REPAIR_FAILED | LLM_FALLBACK_USED | EMBEDDING_UNAVAILABLE | EXTRACT_QUOTE_NOT_FOUND
| FETCH_FAILED
| MAX_ITERATIONS_CODE | BUDGET_EXCEEDED
| PII_ENGINE_DEGRADED
| GATE_REMEDIATED | GATE_FAILED
| CONFIG_INVALID | PROMPT_REGISTRY_DEGRADED | PROMPT_SCHEMA_MISMATCH
| AGENT_UNREACHABLE | AGENT_HEARTBEAT_LOST | DEADLINE_EXCEEDED | DISPATCH_DEFERRED
| RUN_LEASE_LOST
| UNEXPECTED_EXCEPTION

text \<open>The \<open>StrEnum\<close> values of the codes.\<close>

fun code_value :: "error_code \<Rightarrow> str" where
  "code_value SEARCH_TIMEOUT = lit ''SEARCH_TIMEOUT''"
| "code_value SEARCH_RATE_LIMIT = lit ''SEARCH_RATE_LIMIT''"
| "code_value SEARCH_PROVIDER_ERROR = lit ''SEARCH_PROVIDER_ERROR''"
| "code_value SEARCH_AUTH = lit ''SEARCH_AUTH''"
| "code_value SEARCH_EMPTY = lit ''SEARCH_EMPTY''"
| "code_value DUPLICATE_QUERY = lit ''DUPLICATE_QUERY''"
| "code_value NO_EVIDENCE_CODE = lit ''NO_EVIDENCE''"
| "code_value LLM_TIMEOUT = lit ''LLM_TIMEOUT''"
| "code_value LLM_RATE_LIMIT = lit ''LLM_RATE_LIMIT''"
| "code_value LLM_PROVIDER_ERROR = lit ''LLM_PROVIDER_ERROR''"
| "code_value LLM_AUTH = lit ''LLM_AUTH''"
| "code_value LLM_INVALID_OUTPUT = lit ''LLM_INVALID_OUTPUT''"
| "code_value LLM_REPAIR_FAILED = lit ''LLM_REPAIR_FAILED''"
| "code_value LLM_FALLBACK_USED = lit ''LLM_FALLBACK_USED''"
| "code_value EMBEDDING_UNAVAILABLE = lit ''EMBEDDING_UNAVAILABLE''"
| "code_value EXTRACT_QUOTE_NOT_FOUND = lit ''EXTRACT_QUOTE_NOT_FOUND''"
| "code_value FETCH_FAILED = lit ''FETCH_FAILED''"
| "code_value MAX_ITERATIONS_CODE = lit ''MAX_ITERATIONS''"
| "code_value BUDGET_EXCEEDED = lit ''BUDGET_EXCEEDED''"
| "code_value PII_ENGINE_DEGRADED = lit ''PII_ENGINE_DEGRADED''"
| "code_value GATE_REMEDIATED = lit ''GATE_REMEDIATED''"
| "code_value GATE_FAILED = lit ''GATE_FAILED''"
| "code_value CONFIG_INVALID = lit ''CONFIG_INVALID''"
| "code_value PROMPT_REGISTRY_DEGRADED = lit ''PROMPT_REGISTRY_DEGRADED''"
| "code_value PROMPT_SCHEMA_MISMATCH = lit ''PROMPT_SCHEMA_MISMATCH''"
| "code_value AGENT_UNREACHABLE = lit ''AGENT_UNREACHABLE''"
| "code_value AGENT_HEARTBEAT_LOST = lit ''AGENT_HEARTBEAT_LOST''"
| "code_value DEADLINE_EXCEEDED = lit ''DEADLINE_EXCEEDED''"
| "code_value DISPATCH_DEFERRED = lit ''DISPATCH_DEFERRED''"
| "code_value RUN_LEASE_LOST = lit ''RUN_LEASE_LOST''"
| "code_value UNEXPECTED_EXCEPTION = lit ''UNEXPECTED_EXCEPTION''"

record error_code_spec =
  category :: error_category
  expected :: bool
  retryable :: bool

text \<open>\<open>contracts/error_codes.yaml\<close> (the descriptions are prose and left out).\<close>

definition mk_spec :: "error_category \<Rightarrow> bool \<Rightarrow> bool \<Rightarrow> error_code_spec" where
  "mk_spec c e r = \<lparr>category = c, expected = e, retryable = r\<rparr>"

fun spec :: "error_code \<Rightarrow> error_code_spec" where
  "spec SEARCH_TIMEOUT = mk_spec SEARCH True True"
| "spec SEARCH_RATE_LIMIT = mk_spec SEARCH True True"
| "spec SEARCH_PROVIDER_ERROR = mk_spec SEARCH True True"
| "spec SEARCH_AUTH = mk_spec SEARCH True False"
| "spec SEARCH_EMPTY = mk_spec SEARCH True False"
| "spec DUPLICATE_QUERY = mk_spec SEARCH True False"
| "spec NO_EVIDENCE_CODE = mk_spec SEARCH True False"
| "spec LLM_TIMEOUT = mk_spec LLM True True"
| "spec LLM_RATE_LIMIT = mk_spec LLM True True"
| "spec LLM_PROVIDER_ERROR = mk_spec LLM True True"
| "spec LLM_AUTH = mk_spec LLM True False"
| "spec LLM_INVALID_OUTPUT = mk_spec LLM True True"
| "spec LLM_REPAIR_FAILED = mk_spec LLM True False"
| "spec LLM_FALLBACK_USED = mk_spec LLM True False"
| "spec EMBEDDING_UNAVAILABLE = mk_spec LLM True False"
| "spec EXTRACT_QUOTE_NOT_FOUND = mk_spec LLM True False"
| "spec FETCH_FAILED = mk_spec FETCH True True"
| "spec MAX_ITERATIONS_CODE = mk_spec BUDGET True False"
| "spec BUDGET_EXCEEDED = mk_spec BUDGET True False"
| "spec PII_ENGINE_DEGRADED = mk_spec PII True False"
| "spec GATE_REMEDIATED = mk_spec GATE True False"
| "spec GATE_FAILED = mk_spec GATE True False"
| "spec CONFIG_INVALID = mk_spec CONFIG True False"
| "spec PROMPT_REGISTRY_DEGRADED = mk_spec CONFIG True False"
| "spec PROMPT_SCHEMA_MISMATCH = mk_spec CONFIG True False"
| "spec AGENT_UNREACHABLE = mk_spec INFRA True True"
| "spec AGENT_HEARTBEAT_LOST = mk_spec INFRA True True"
| "spec DEADLINE_EXCEEDED = mk_spec INFRA True False"
| "spec DISPATCH_DEFERRED = mk_spec INFRA True True"
| "spec RUN_LEASE_LOST = mk_spec INFRA True False"
| "spec UNEXPECTED_EXCEPTION = mk_spec BUG False False"

text \<open>
  \<open>AgentError\<close>: what broke and what was decided. The free-text fields \<open>decision\<close>, \<open>outcome\<close> and
  \<open>cause\<close> are kept where the model builds them.
\<close>

record agent_error =
  ae_code :: error_code
  ae_node :: str
  ae_decision :: str
  ae_outcome :: "str option"
  ae_run_id :: "str option"
  ae_span_id :: "str option"
  ae_iteration :: "nat option"
  ae_provider :: "str option"
  ae_attempt :: "nat option"
  ae_cause :: "str option"

definition ae_category :: "agent_error \<Rightarrow> error_category" where
  "ae_category e = category (spec (ae_code e))"

definition ae_expected :: "agent_error \<Rightarrow> bool" where
  "ae_expected e = expected (spec (ae_code e))"

definition ae_retryable :: "agent_error \<Rightarrow> bool" where
  "ae_retryable e = retryable (spec (ae_code e))"

lemma only_bug_unexpected: "\<not> expected (spec c) \<longleftrightarrow> c = UNEXPECTED_EXCEPTION"
  by (cases c) (simp_all add: mk_spec_def)

lemma unexpected_iff_bug: "\<not> expected (spec c) \<longleftrightarrow> category (spec c) = BUG"
  by (cases c) (simp_all add: mk_spec_def)

end
