(* ===== verification/Runs.thy ===== *)
theory Runs
  imports Contracts
begin

text \<open>
  The run table and the operations of \<open>db/repository.py\<close> (\<open>RunRepository\<close>) with the event insert of
  \<open>observability/events.py\<close>. A method is a function from the database to an exception or the new
  database; a raised exception rolls the transaction back, so the old database stands. The
  read-then-compare-and-set of \<open>_transition\<close> is kept as two functions, \<open>transition_check\<close> and
  \<open>transition_commit\<close>, so that other writers can be interleaved between them. The clock, fresh
  UUIDs and the rows other transactions hold locked are arguments.
\<close>

section \<open>The tables\<close>

type_synonym uuid = nat
type_synonym time = real

record run_row =
  rn_status :: run_status
  rn_question_masked :: str
  rn_question_language :: "str option"
  rn_config_snapshot :: json
  rn_config_hash :: str
  rn_overrides :: json
  rn_prompt_versions :: json
  rn_models_used :: json
  rn_skills_used :: "str list"
  rn_key_sources :: json
  rn_stop_reason :: "str option"
  rn_gate_status :: "str option"
  rn_error_code :: "error_code option"
  rn_error_message :: "str option"
  rn_iteration :: real
  rn_searches_used :: real
  rn_tokens_in :: real
  rn_tokens_out :: real
  rn_cost_usd :: real
  rn_event_seq :: nat
  rn_agent_id :: "str option"
  rn_lease_id :: "uuid option"
  rn_attempts :: nat
  rn_available_at :: "time option"
  rn_cancel_requested :: bool
  rn_langfuse_trace_url :: "str option"
  rn_created_at :: time
  rn_dispatched_at :: "time option"
  rn_started_at :: "time option"
  rn_heartbeat_at :: "time option"
  rn_deadline_at :: "time option"
  rn_finished_at :: "time option"

record secret_row =
  sk_run_id :: uuid
  sk_provider :: str
  sk_ciphertext :: str
  sk_expires_at :: time

record event_row =
  ev_run_id :: uuid
  ev_seq :: nat
  ev_level :: str
  ev_node :: str
  ev_type :: str
  ev_message :: str
  ev_data :: json
  ev_iteration :: "nat option"
  ev_span_id :: "str option"
  ev_parent_span_id :: "str option"
  ev_latency_ms :: "nat option"
  ev_tokens_in :: "nat option"
  ev_tokens_out :: "nat option"
  ev_cost_usd :: "real option"
  ev_error_code :: "error_code option"
  ev_expected :: "bool option"

record artifact_row =
  ar_run_id :: uuid
  ar_kind :: str
  ar_content_type :: str
  ar_content :: str
  ar_size_bytes :: nat

datatype notification =
  QueueNotify uuid | StatusNotify uuid run_status | EventNotify uuid nat

record db =
  db_runs :: "(uuid, run_row) dict"
  db_secrets :: "secret_row list"
  db_events :: "event_row list"
  db_artifacts :: "artifact_row list"
  db_notified :: "notification list"

datatype repo_error =
  IllegalTransition uuid run_status run_status
| RunNotFound uuid
| LeaseLost uuid
| UnknownRunCounter

definition set_run :: "uuid \<Rightarrow> run_row \<Rightarrow> db \<Rightarrow> db" where
  "set_run rid r d = d\<lparr>db_runs := dput rid r (db_runs d)\<rparr>"

definition notify :: "notification \<Rightarrow> db \<Rightarrow> db" where
  "notify n d = d\<lparr>db_notified := db_notified d @ [n]\<rparr>"

abbreviation get_run :: "db \<Rightarrow> uuid \<Rightarrow> run_row option" where
  "get_run d rid \<equiv> dget (db_runs d) rid"

section \<open>Lease-fenced writes and reads\<close>

text \<open>\<open>_owned\<close>: a bound repository only sees its own row, and only while it is running.\<close>

fun owned :: "uuid option \<Rightarrow> run_row \<Rightarrow> bool" where
  "owned None r = True"
| "owned (Some l) r = (rn_lease_id r = Some l \<and> rn_status r = RUNNING)"

definition write_owned :: "uuid option \<Rightarrow> uuid \<Rightarrow> (run_row \<Rightarrow> run_row) \<Rightarrow> db \<Rightarrow> repo_error + db" where
  "write_owned lease rid values d =
     (case get_run d rid of
        Some r \<Rightarrow> if owned lease r then Inr (set_run rid (values r) d)
                  else Inl (LeaseLost rid)
      | None \<Rightarrow> if lease \<noteq> None then Inl (LeaseLost rid) else Inr d)"

definition require :: "uuid \<Rightarrow> db \<Rightarrow> repo_error + run_row" where
  "require rid d = (case get_run d rid of None \<Rightarrow> Inl (RunNotFound rid) | Some r \<Rightarrow> Inr r)"

definition cancel_requested :: "uuid option \<Rightarrow> uuid \<Rightarrow> db \<Rightarrow> repo_error + bool" where
  "cancel_requested lease rid d =
     (let value = (case get_run d rid of
                     None \<Rightarrow> None
                   | Some r \<Rightarrow> if owned lease r then Some (rn_cancel_requested r) else None)
      in case value of
           None \<Rightarrow> if lease \<noteq> None then Inl (LeaseLost rid) else Inr False
         | Some b \<Rightarrow> Inr b)"

text \<open>SQL's \<open><\<close> is not true of a NULL.\<close>

definition before :: "time option \<Rightarrow> time \<Rightarrow> bool" where
  "before t cutoff = (case t of None \<Rightarrow> False | Some x \<Rightarrow> x < cutoff)"

definition stale_runs :: "time \<Rightarrow> time \<Rightarrow> db \<Rightarrow> (uuid \<times> run_row) list" where
  "stale_runs now timeout_seconds d =
     filter (\<lambda>(_, r). rn_status r = RUNNING \<and> before (rn_heartbeat_at r) (now - timeout_seconds))
       (db_runs d)"

definition overdue_runs :: "time \<Rightarrow> db \<Rightarrow> (uuid \<times> run_row) list" where
  "overdue_runs now d =
     filter (\<lambda>(_, r). rn_status r \<in> {DISPATCHED, RUNNING} \<and> before (rn_deadline_at r) now)
       (db_runs d)"

section \<open>Creating and claiming runs\<close>

definition new_run :: "str \<Rightarrow> str option \<Rightarrow> json \<Rightarrow> str \<Rightarrow> json \<Rightarrow> json \<Rightarrow> time option \<Rightarrow> time \<Rightarrow> run_row" where
  "new_run question language snapshot hash overrides key_sources deadline now =
     \<lparr>rn_status = QUEUED, rn_question_masked = question, rn_question_language = language,
      rn_config_snapshot = snapshot, rn_config_hash = hash, rn_overrides = overrides,
      rn_prompt_versions = JObj [], rn_models_used = JObj [], rn_skills_used = [],
      rn_key_sources = key_sources, rn_stop_reason = None, rn_gate_status = None,
      rn_error_code = None, rn_error_message = None, rn_iteration = 0, rn_searches_used = 0,
      rn_tokens_in = 0, rn_tokens_out = 0, rn_cost_usd = 0, rn_event_seq = 0,
      rn_agent_id = None, rn_lease_id = None, rn_attempts = 0, rn_available_at = None,
      rn_cancel_requested = False, rn_langfuse_trace_url = None, rn_created_at = now,
      rn_dispatched_at = None, rn_started_at = None, rn_heartbeat_at = None,
      rn_deadline_at = deadline, rn_finished_at = None\<rparr>"

definition create :: "uuid \<Rightarrow> run_row \<Rightarrow> db \<Rightarrow> db" where
  "create rid r d = notify (QueueNotify rid) (set_run rid r d)"

definition create_local :: "uuid \<Rightarrow> uuid \<Rightarrow> time \<Rightarrow> run_row \<Rightarrow> db \<Rightarrow> db" where
  "create_local rid lease now r d =
     set_run rid (r\<lparr>rn_status := RUNNING, rn_agent_id := Some (lit ''cli''), rn_lease_id := Some lease,
                    rn_attempts := 1, rn_started_at := Some now, rn_heartbeat_at := Some now,
                    rn_dispatched_at := Some now\<rparr>) d"

text \<open>
  \<open>_CLAIM\<close>: the oldest queued, available row that no other transaction has locked.
  \<open>ORDER BY created_at LIMIT 1\<close>; among equal timestamps the table order decides.
\<close>

definition claimable :: "uuid list \<Rightarrow> time \<Rightarrow> uuid \<times> run_row \<Rightarrow> bool" where
  "claimable locked now = (\<lambda>(rid, r).
     rn_status r = QUEUED
     \<and> (case rn_available_at r of None \<Rightarrow> True | Some t \<Rightarrow> t \<le> now)
     \<and> rid \<notin> set locked)"

fun oldest :: "(uuid \<times> run_row) list \<Rightarrow> (uuid \<times> run_row) option" where
  "oldest [] = None"
| "oldest (x # xs) =
     (case oldest xs of
        None \<Rightarrow> Some x
      | Some y \<Rightarrow> if rn_created_at (snd x) \<le> rn_created_at (snd y) then Some x else Some y)"

definition claim :: "uuid list \<Rightarrow> time \<Rightarrow> uuid \<Rightarrow> db \<Rightarrow> (uuid \<times> run_row) option \<times> db" where
  "claim locked now new_lease d =
     (case oldest (filter (claimable locked now) (db_runs d)) of
        None \<Rightarrow> (None, d)
      | Some (rid, r) \<Rightarrow>
          (let r' = r\<lparr>rn_status := DISPATCHED, rn_dispatched_at := Some now,
                      rn_attempts := rn_attempts r + 1, rn_lease_id := Some new_lease,
                      rn_agent_id := None\<rparr>
           in (Some (rid, r'), set_run rid r' d)))"

section \<open>Transitions\<close>

text \<open>\<open>_transition\<close>, first half: the checks on the row as read.\<close>

definition transition_check :: "uuid option \<Rightarrow> uuid \<Rightarrow> run_status \<Rightarrow> db \<Rightarrow> repo_error + run_status" where
  "transition_check lease rid target d =
     rbind (require rid d) (\<lambda>r.
       if lease \<noteq> None \<and> rn_lease_id r \<noteq> lease then Inl (LeaseLost rid)
       else if \<not> allowed (rn_status r) target then Inl (IllegalTransition rid (rn_status r) target)
       else Inr (rn_status r))"

text \<open>Second half: the conditional update, the work done in the same transaction, the notify.\<close>

definition transition_commit ::
    "uuid option \<Rightarrow> uuid \<Rightarrow> run_status \<Rightarrow> run_status \<Rightarrow> (run_row \<Rightarrow> run_row) \<Rightarrow> (db \<Rightarrow> db) \<Rightarrow> db \<Rightarrow> repo_error + db" where
  "transition_commit lease rid source target values also d =
     (case get_run d rid of
        None \<Rightarrow> Inl (RunNotFound rid)
      | Some r \<Rightarrow>
          if rn_status r = source \<and> (lease = None \<or> rn_lease_id r = lease)
          then Inr (notify (StatusNotify rid target)
                 (also (set_run rid ((values r)\<lparr>rn_status := target\<rparr>) d)))
          else Inl (IllegalTransition rid (rn_status r) target))"

definition transition ::
    "uuid option \<Rightarrow> uuid \<Rightarrow> run_status \<Rightarrow> (run_row \<Rightarrow> run_row) \<Rightarrow> (db \<Rightarrow> db) \<Rightarrow> db \<Rightarrow> repo_error + db" where
  "transition lease rid target values also d =
     rbind (transition_check lease rid target d)
       (\<lambda>source. transition_commit lease rid source target values also d)"

definition running_values :: "str \<Rightarrow> time option \<Rightarrow> time \<Rightarrow> run_row \<Rightarrow> run_row" where
  "running_values agent deadline now r =
     (let r' = r\<lparr>rn_agent_id := Some agent,
                 rn_started_at := (case rn_started_at r of None \<Rightarrow> Some now | Some t \<Rightarrow> Some t),
                 rn_heartbeat_at := Some now\<rparr>
      in case deadline of None \<Rightarrow> r' | Some t \<Rightarrow> r'\<lparr>rn_deadline_at := Some t\<rparr>)"

definition mark_running :: "uuid option \<Rightarrow> uuid \<Rightarrow> str \<Rightarrow> time option \<Rightarrow> time \<Rightarrow> db \<Rightarrow> repo_error + db" where
  "mark_running lease rid agent deadline now d =
     transition lease rid RUNNING (running_values agent deadline now) (\<lambda>d. d) d"

definition heartbeat :: "uuid option \<Rightarrow> uuid \<Rightarrow> time \<Rightarrow> db \<Rightarrow> repo_error + db" where
  "heartbeat lease rid now d = write_owned lease rid (\<lambda>r. r\<lparr>rn_heartbeat_at := Some now\<rparr>) d"

text \<open>\<open>update_counters\<close>, \<open>update_metadata\<close>: only the arguments that are given are written.\<close>

definition opt_set :: "'a option \<Rightarrow> ('a \<Rightarrow> 'r \<Rightarrow> 'r) \<Rightarrow> 'r \<Rightarrow> 'r" where
  "opt_set v f r = (case v of None \<Rightarrow> r | Some x \<Rightarrow> f x r)"

definition update_counters ::
    "uuid option \<Rightarrow> uuid \<Rightarrow> real option \<Rightarrow> real option \<Rightarrow> real option \<Rightarrow> real option \<Rightarrow> real option
     \<Rightarrow> db \<Rightarrow> repo_error + db" where
  "update_counters lease rid iteration searches_used tokens_in tokens_out cost_usd d =
     (if iteration = None \<and> searches_used = None \<and> tokens_in = None \<and> tokens_out = None
         \<and> cost_usd = None then Inr d
      else write_owned lease rid
        (\<lambda>r. opt_set iteration (\<lambda>x r. r\<lparr>rn_iteration := x\<rparr>)
             (opt_set searches_used (\<lambda>x r. r\<lparr>rn_searches_used := x\<rparr>)
             (opt_set tokens_in (\<lambda>x r. r\<lparr>rn_tokens_in := x\<rparr>)
             (opt_set tokens_out (\<lambda>x r. r\<lparr>rn_tokens_out := x\<rparr>)
             (opt_set cost_usd (\<lambda>x r. r\<lparr>rn_cost_usd := x\<rparr>) r))))) d)"

definition update_metadata ::
    "uuid option \<Rightarrow> uuid \<Rightarrow> json option \<Rightarrow> json option \<Rightarrow> str list option \<Rightarrow> str option
     \<Rightarrow> db \<Rightarrow> repo_error + db" where
  "update_metadata lease rid prompt_versions models_used skills_used trace_url d =
     (if prompt_versions = None \<and> models_used = None \<and> skills_used = None \<and> trace_url = None
      then Inr d
      else write_owned lease rid
        (\<lambda>r. opt_set prompt_versions (\<lambda>x r. r\<lparr>rn_prompt_versions := x\<rparr>)
             (opt_set models_used (\<lambda>x r. r\<lparr>rn_models_used := x\<rparr>)
             (opt_set skills_used (\<lambda>x r. r\<lparr>rn_skills_used := x\<rparr>)
             (opt_set trace_url (\<lambda>x r. r\<lparr>rn_langfuse_trace_url := Some x\<rparr>) r)))) d)"

section \<open>Finishing, requeueing, cancelling\<close>

definition utf8_len :: "str \<Rightarrow> nat" where
  "utf8_len s = sum_list (map (\<lambda>c. if c < 128 then 1 else if c < 2048 then 2
                                   else if c < 65536 then 3 else 4) s)"

record finish_args =
  fi_status :: run_status
  fi_stop_reason :: "str option"
  fi_gate_status :: "str option"
  fi_error_code :: "error_code option"
  fi_error_message :: "str option"
  fi_artifacts :: "(str, str \<times> str) dict"
  fi_metrics :: "(str, real) dict"
  fi_emit_finished :: bool

definition counter_names :: "str list" where
  "counter_names = [lit ''iteration'', lit ''searches_used'', lit ''tokens_in'', lit ''tokens_out'',
                    lit ''cost_usd'']"

definition finish_ready :: "finish_args \<Rightarrow> bool" where
  "finish_ready a = (dmem (lit ''report_md'') (fi_artifacts a) \<and> fi_emit_finished a)"

fun status_value :: "run_status \<Rightarrow> str" where
  "status_value QUEUED = lit ''queued''"
| "status_value DISPATCHED = lit ''dispatched''"
| "status_value RUNNING = lit ''running''"
| "status_value SUCCEEDED = lit ''succeeded''"
| "status_value SUCCEEDED_WITH_WARNINGS = lit ''succeeded_with_warnings''"
| "status_value FAILED = lit ''failed''"
| "status_value CANCELLED = lit ''cancelled''"

definition opt_json :: "str option \<Rightarrow> json" where
  "opt_json v = (case v of None \<Rightarrow> JNull | Some s \<Rightarrow> JStr s)"

definition finished_message :: "finish_args \<Rightarrow> str" where
  "finished_message a = lit ''Run finished: '' @ status_value (fi_status a)
     @ (case fi_stop_reason a of
          None \<Rightarrow> []
        | Some s \<Rightarrow> if s = [] then [] else lit '' ('' @ s @ lit '')'')"

definition ready_event :: "uuid \<Rightarrow> nat \<Rightarrow> finish_args \<Rightarrow> event_row" where
  "ready_event rid seq a =
     \<lparr>ev_run_id = rid, ev_seq = seq, ev_level = lit ''info'', ev_node = lit ''agent'',
      ev_type = lit ''report_ready'', ev_message = lit ''Report ready.'',
      ev_data = JObj [(lit ''display'', JStr (lit ''[Agent] Report ready.'')),
                      (lit ''gate_status'', opt_json (fi_gate_status a))],
      ev_iteration = None, ev_span_id = None, ev_parent_span_id = None, ev_latency_ms = None,
      ev_tokens_in = None, ev_tokens_out = None, ev_cost_usd = None,
      ev_error_code = None, ev_expected = None\<rparr>"

definition finished_event :: "uuid \<Rightarrow> nat \<Rightarrow> finish_args \<Rightarrow> event_row" where
  "finished_event rid seq a =
     \<lparr>ev_run_id = rid, ev_seq = seq, ev_level = lit ''info'', ev_node = lit ''agent'',
      ev_type = lit ''run_finished'', ev_message = finished_message a,
      ev_data = JObj [(lit ''display'', JStr (lit ''[Agent] '' @ finished_message a)),
                      (lit ''status'', JStr (status_value (fi_status a))),
                      (lit ''stop_reason'', opt_json (fi_stop_reason a)),
                      (lit ''gate_status'', opt_json (fi_gate_status a)),
                      (lit ''error_code'', opt_json (map_option code_value (fi_error_code a)))],
      ev_iteration = None, ev_span_id = None, ev_parent_span_id = None, ev_latency_ms = None,
      ev_tokens_in = None, ev_tokens_out = None, ev_cost_usd = None,
      ev_error_code = fi_error_code a,
      ev_expected = map_option (\<lambda>c. expected (spec c)) (fi_error_code a)\<rparr>"

text \<open>\<open>persist\<close>: run inside the transaction, after the row was updated.\<close>

definition persist :: "uuid \<Rightarrow> finish_args \<Rightarrow> db \<Rightarrow> db" where
  "persist rid a d =
     (let d1 = d\<lparr>db_secrets := filter (\<lambda>s. sk_run_id s \<noteq> rid) (db_secrets d)\<rparr>;
          d2 = d1\<lparr>db_artifacts := db_artifacts d1
                 @ map (\<lambda>(kind, ct, content).
                     \<lparr>ar_run_id = rid, ar_kind = kind, ar_content_type = ct, ar_content = content,
                      ar_size_bytes = utf8_len content\<rparr>) (fi_artifacts a)\<rparr>;
          seq = (case get_run d2 rid of None \<Rightarrow> 0 | Some r \<Rightarrow> rn_event_seq r)
      in if fi_emit_finished a
         then d2\<lparr>db_events := db_events d2
                @ (if finish_ready a then [ready_event rid (seq - 1) a] else [])
                @ [finished_event rid seq a]\<rparr>
         else d2)"

definition finish_values :: "finish_args \<Rightarrow> time \<Rightarrow> run_row \<Rightarrow> run_row" where
  "finish_values a now r =
     (let c = (\<lambda>k old. dget_or (fi_metrics a) k old);
          r1 = r\<lparr>rn_iteration := c (lit ''iteration'') (rn_iteration r),
                 rn_searches_used := c (lit ''searches_used'') (rn_searches_used r),
                 rn_tokens_in := c (lit ''tokens_in'') (rn_tokens_in r),
                 rn_tokens_out := c (lit ''tokens_out'') (rn_tokens_out r),
                 rn_cost_usd := c (lit ''cost_usd'') (rn_cost_usd r)\<rparr>;
          r2 = (if fi_emit_finished a
                then r1\<lparr>rn_event_seq := rn_event_seq r1 + 1 + (if finish_ready a then 1 else 0)\<rparr>
                else r1)
      in r2\<lparr>rn_stop_reason := fi_stop_reason a, rn_gate_status := fi_gate_status a,
            rn_error_code := fi_error_code a, rn_error_message := fi_error_message a,
            rn_finished_at := Some now\<rparr>)"

definition finish :: "uuid option \<Rightarrow> uuid \<Rightarrow> finish_args \<Rightarrow> time \<Rightarrow> db \<Rightarrow> repo_error + db" where
  "finish lease rid a now d =
     (if \<exists>k\<in>set (dkeys (fi_metrics a)). k \<notin> set counter_names then Inl UnknownRunCounter
      else transition lease rid (fi_status a) (finish_values a now) (persist rid a) d)"

definition requeue_values :: "time \<Rightarrow> real \<Rightarrow> run_row \<Rightarrow> run_row" where
  "requeue_values now backoff r =
     r\<lparr>rn_agent_id := None, rn_lease_id := None, rn_heartbeat_at := None,
       rn_dispatched_at := None, rn_available_at := Some (now + backoff)\<rparr>"

definition give_up_args :: "error_code \<Rightarrow> run_row \<Rightarrow> finish_args" where
  "give_up_args reason r =
     \<lparr>fi_status = FAILED, fi_stop_reason = None, fi_gate_status = None,
      fi_error_code = Some reason,
      fi_error_message = Some (lit ''giving up after '' @ dec (rn_attempts r) @ lit '' attempts''),
      fi_artifacts = [], fi_metrics = [], fi_emit_finished = False\<rparr>"

text \<open>
  \<open>requeue\<close> reads the row in one statement and writes in others: \<open>requeue_write\<close> is the method from
  there on, with the row as it was read. Other writers may come in between.
\<close>

definition attempts_spent :: "run_row \<Rightarrow> bool" where
  "attempts_spent r = (max_attempts run_states \<le> rn_attempts r)"

definition requeue_write ::
    "uuid option \<Rightarrow> uuid \<Rightarrow> error_code \<Rightarrow> real \<Rightarrow> time \<Rightarrow> run_row \<Rightarrow> db \<Rightarrow> repo_error + bool \<times> db" where
  "requeue_write lease rid reason backoff now r d =
     (if attempts_spent r
      then rbind (finish lease rid (give_up_args reason r) now d) (\<lambda>d'. Inr (False, d'))
      else rbind (transition lease rid QUEUED (requeue_values now backoff) (\<lambda>d. d) d)
             (\<lambda>d'. Inr (True, notify (QueueNotify rid) d')))"

definition requeue :: "uuid option \<Rightarrow> uuid \<Rightarrow> error_code \<Rightarrow> real \<Rightarrow> time \<Rightarrow> db \<Rightarrow> repo_error + bool \<times> db" where
  "requeue lease rid reason backoff now d =
     rbind (require rid d) (\<lambda>r. requeue_write lease rid reason backoff now r d)"

definition request_cancel :: "uuid \<Rightarrow> db \<Rightarrow> db" where
  "request_cancel rid d =
     (case get_run d rid of None \<Rightarrow> d | Some r \<Rightarrow> set_run rid (r\<lparr>rn_cancel_requested := True\<rparr>) d)"

section \<open>Provider keys and events\<close>

definition store_secrets :: "uuid \<Rightarrow> (str, str) dict \<Rightarrow> time \<Rightarrow> db \<Rightarrow> db" where
  "store_secrets rid ciphertexts now d =
     d\<lparr>db_secrets := db_secrets d @ map (\<lambda>(p, c).
         \<lparr>sk_run_id = rid, sk_provider = p, sk_ciphertext = c,
          sk_expires_at = now + 6 * 3600\<rparr>) ciphertexts\<rparr>"

definition load_ciphertexts :: "uuid \<Rightarrow> db \<Rightarrow> (str, str) dict" where
  "load_ciphertexts rid d =
     map (\<lambda>s. (sk_provider s, sk_ciphertext s)) (filter (\<lambda>s. sk_run_id s = rid) (db_secrets d))"

definition purge_expired_secrets :: "time \<Rightarrow> db \<Rightarrow> nat \<times> db" where
  "purge_expired_secrets now d =
     (length (filter (\<lambda>s. sk_expires_at s < now) (db_secrets d)),
      d\<lparr>db_secrets := filter (\<lambda>s. \<not> sk_expires_at s < now) (db_secrets d)\<rparr>)"

text \<open>
  \<open>_INSERT_EVENT\<close> with the \<open>LeaseLostError\<close> of \<open>EventWriter.emit\<close>: one statement bumps the run's
  counter and inserts the row under the new number.
\<close>

definition emit_event :: "uuid option \<Rightarrow> uuid \<Rightarrow> event_row \<Rightarrow> db \<Rightarrow> repo_error + nat \<times> db" where
  "emit_event lease rid e d =
     (case get_run d rid of
        None \<Rightarrow> Inl (LeaseLost rid)
      | Some r \<Rightarrow>
          if owned lease r
          then (let seq = rn_event_seq r + 1;
                    d1 = set_run rid (r\<lparr>rn_event_seq := seq\<rparr>) d;
                    d2 = d1\<lparr>db_events := db_events d1 @ [e\<lparr>ev_run_id := rid, ev_seq := seq\<rparr>]\<rparr>
                in Inr (seq, notify (EventNotify rid seq) d2))
          else Inl (LeaseLost rid))"

end
