(* ===== verification/RunProps.thy ===== *)
theory RunProps
  imports Runs
begin

text \<open>
  What holds of the run table under any interleaving of the writers. A step is one atomic write:
  the commit half of a transition may use the result of a check made in any earlier state, so a
  step only assumes that the checked source allowed the target. The set of leases handed out so
  far is carried along: \<open>gen_random_uuid()\<close> and \<open>uuid4()\<close> are taken to return a value never
  returned before.
\<close>

named_theorems run_defs

declare set_run_def [run_defs] notify_def [run_defs]

lemma get_run_set_run [simp]:
  "get_run (set_run rid r d) rid' = (if rid' = rid then Some r else get_run d rid')"
  by (simp add: set_run_def)

lemma get_run_notify [simp]: "get_run (notify n d) rid = get_run d rid"
  by (simp add: notify_def)

lemma db_simps [simp]:
  "db_events (set_run rid r d) = db_events d" "db_secrets (set_run rid r d) = db_secrets d"
  "db_artifacts (set_run rid r d) = db_artifacts d"
  "db_notified (set_run rid r d) = db_notified d"
  "db_events (notify n d) = db_events d" "db_secrets (notify n d) = db_secrets d"
  "db_runs (notify n d) = db_runs d" "db_artifacts (notify n d) = db_artifacts d"
  "db_notified (notify n d) = db_notified d @ [n]"
  by (simp_all add: set_run_def notify_def)

lemma db_runs_persist [simp]: "db_runs (persist rid a d) = db_runs d"
  by (simp add: persist_def Let_def)

lemma db_secrets_persist [simp]:
  "db_secrets (persist rid a d) = filter (\<lambda>s. sk_run_id s \<noteq> rid) (db_secrets d)"
  by (simp add: persist_def Let_def)

lemma db_events_persist:
  "db_events (persist rid a d) = db_events d @
     (if fi_emit_finished a
      then (if finish_ready a
            then [ready_event rid ((case get_run d rid of None \<Rightarrow> 0 | Some r \<Rightarrow> rn_event_seq r) - 1) a]
            else [])
         @ [finished_event rid (case get_run d rid of None \<Rightarrow> 0 | Some r \<Rightarrow> rn_event_seq r) a]
      else [])"
  by (simp add: persist_def Let_def)

lemma transition_commit_Inr:
  "transition_commit lease rid src tgt f also d = Inr d' \<longleftrightarrow>
     (\<exists>r. get_run d rid = Some r \<and> rn_status r = src \<and> (lease = None \<or> rn_lease_id r = lease)
        \<and> d' = notify (StatusNotify rid tgt) (also (set_run rid ((f r)\<lparr>rn_status := tgt\<rparr>) d)))"
  by (auto simp: transition_commit_def split: option.splits if_splits)

lemma transition_Inr:
  "transition lease rid tgt f also d = Inr d' \<longleftrightarrow>
     (\<exists>r. get_run d rid = Some r \<and> allowed (rn_status r) tgt \<and> (lease = None \<or> rn_lease_id r = lease)
        \<and> d' = notify (StatusNotify rid tgt) (also (set_run rid ((f r)\<lparr>rn_status := tgt\<rparr>) d)))"
  by (auto simp: transition_def transition_check_def require_def rbind_Inr_iff transition_commit_Inr
      split: option.splits if_splits)

lemma write_owned_Inr:
  "write_owned lease rid f d = Inr d' \<longleftrightarrow>
     (case get_run d rid of
        None \<Rightarrow> lease = None \<and> d' = d
      | Some r \<Rightarrow> owned lease r \<and> d' = set_run rid (f r) d)"
  by (auto simp: write_owned_def split: option.splits)

lemma emit_event_Inr:
  "emit_event lease rid e d = Inr (n, d') \<longleftrightarrow>
     (\<exists>r. get_run d rid = Some r \<and> owned lease r \<and> n = rn_event_seq r + 1
        \<and> d' = notify (EventNotify rid n)
             ((set_run rid (r\<lparr>rn_event_seq := n\<rparr>) d)
                \<lparr>db_events := db_events d @ [e\<lparr>ev_run_id := rid, ev_seq := n\<rparr>]\<rparr>))"
  by (auto simp: emit_event_def Let_def split: option.splits if_splits)

text \<open>What the value functions leave alone.\<close>

lemma running_values_simps [simp]:
  "rn_lease_id (running_values ag dl now r) = rn_lease_id r"
  "rn_event_seq (running_values ag dl now r) = rn_event_seq r"
  "rn_finished_at (running_values ag dl now r) = rn_finished_at r"
  "rn_attempts (running_values ag dl now r) = rn_attempts r"
  by (simp_all add: running_values_def Let_def split: option.splits)

lemma finish_values_simps [simp]:
  "rn_lease_id (finish_values a now r) = rn_lease_id r"
  "rn_finished_at (finish_values a now r) = Some now"
  "rn_attempts (finish_values a now r) = rn_attempts r"
  "rn_event_seq (finish_values a now r) = rn_event_seq r
     + (if fi_emit_finished a then if finish_ready a then 2 else 1 else 0)"
  by (simp_all add: finish_values_def Let_def)

lemma requeue_values_simps [simp]:
  "rn_lease_id (requeue_values now b r) = None"
  "rn_event_seq (requeue_values now b r) = rn_event_seq r"
  "rn_finished_at (requeue_values now b r) = rn_finished_at r"
  "rn_attempts (requeue_values now b r) = rn_attempts r"
  by (simp_all add: requeue_values_def)

lemma oldest_in: "oldest xs = Some x \<Longrightarrow> x \<in> set xs"
  by (induction xs arbitrary: x) (auto split: option.splits if_splits)

lemma oldest_None [simp]: "oldest xs = None \<longleftrightarrow> xs = []"
  by (cases xs) (auto split: option.splits)

lemma oldest_least: "oldest xs = Some x \<Longrightarrow> y \<in> set xs \<Longrightarrow> rn_created_at (snd x) \<le> rn_created_at (snd y)"
proof (induction xs arbitrary: x)
  case Nil
  then show ?case by simp
next
  case (Cons z xs)
  show ?case
  proof (cases "oldest xs")
    case None
    with Cons.prems show ?thesis by simp
  next
    case (Some w)
    from Cons.IH[OF Some] have w: "y \<in> set xs \<Longrightarrow> rn_created_at (snd w) \<le> rn_created_at (snd y)"
      by blast
    from Cons.prems(2) w Some Cons.prems(1) show ?thesis
      by (auto split: if_splits)
  qed
qed

text \<open>\<open>claim\<close>, with the row it picked spelled out.\<close>

lemma claim_Some:
  assumes "claim locked now l d = (Some (rid, r'), d')" and "distinct (dkeys (db_runs d))"
  shows "\<exists>r. get_run d rid = Some r \<and> claimable locked now (rid, r)
           \<and> r' = r\<lparr>rn_status := DISPATCHED, rn_dispatched_at := Some now,
                    rn_attempts := rn_attempts r + 1, rn_lease_id := Some l, rn_agent_id := None\<rparr>
           \<and> d' = set_run rid r' d
           \<and> (\<forall>x\<in>set (db_runs d). claimable locked now x \<longrightarrow> rn_created_at r \<le> rn_created_at (snd x))"
proof -
  from assms(1) obtain r where o: "oldest (filter (claimable locked now) (db_runs d)) = Some (rid, r)"
    and r': "r' = r\<lparr>rn_status := DISPATCHED, rn_dispatched_at := Some now,
                    rn_attempts := rn_attempts r + 1, rn_lease_id := Some l, rn_agent_id := None\<rparr>"
    and d': "d' = set_run rid r' d"
    by (auto simp: claim_def Let_def split: option.splits)
  from oldest_in[OF o] have "(rid, r) \<in> set (db_runs d)" and c: "claimable locked now (rid, r)"
    by auto
  with assms(2) have "get_run d rid = Some r" by (simp add: map_of_eq_Some_iff)
  moreover have "\<forall>x\<in>set (db_runs d). claimable locked now x \<longrightarrow> rn_created_at r \<le> rn_created_at (snd x)"
    using oldest_least[OF o] by auto
  ultimately show ?thesis using c r' d' by blast
qed

section \<open>Interleaved steps\<close>

text \<open>A column update that leaves the control columns alone.\<close>

definition data_only :: "(run_row \<Rightarrow> run_row) \<Rightarrow> bool" where
  "data_only f = (\<forall>r. rn_status (f r) = rn_status r \<and> rn_lease_id (f r) = rn_lease_id r
     \<and> rn_event_seq (f r) = rn_event_seq r \<and> rn_finished_at (f r) = rn_finished_at r
     \<and> rn_attempts (f r) = rn_attempts r)"

inductive run_step :: "uuid set \<Rightarrow> db \<Rightarrow> uuid set \<Rightarrow> db \<Rightarrow> bool" where
  step_create: "get_run d rid = None \<Longrightarrow>
     run_step U d U (create rid (new_run q lang snap h ov ks dl now) d)"
| step_create_local: "get_run d rid = None \<Longrightarrow> l \<notin> U \<Longrightarrow>
     run_step U d (insert l U) (create_local rid l now (new_run q lang snap h ov ks dl now) d)"
| step_claim: "l \<notin> U \<Longrightarrow> claim locked now l d = (Some x, d') \<Longrightarrow> run_step U d (insert l U) d'"
| step_running: "allowed src RUNNING \<Longrightarrow>
     transition_commit lease rid src RUNNING (running_values ag dl now) (\<lambda>d. d) d = Inr d' \<Longrightarrow>
     run_step U d U d'"
| step_finish: "allowed src (fi_status a) \<Longrightarrow> terminal_status (fi_status a) \<Longrightarrow>
     transition_commit lease rid src (fi_status a) (finish_values a now) (persist rid a) d = Inr d' \<Longrightarrow>
     run_step U d U d'"
| step_requeue: "allowed src QUEUED \<Longrightarrow>
     transition_commit lease rid src QUEUED (requeue_values now b) (\<lambda>d. d) d = Inr d' \<Longrightarrow>
     run_step U d U d'"
| step_owned: "data_only f \<Longrightarrow> write_owned lease rid f d = Inr d' \<Longrightarrow> run_step U d U d'"
| step_emit: "emit_event lease rid e d = Inr (n, d') \<Longrightarrow> run_step U d U d'"
| step_cancel: "run_step U d U (request_cancel rid d)"
| step_secrets: "run_step U d U (store_secrets rid cs now d)"
| step_purge: "run_step U d U (snd (purge_expired_secrets now d))"
| step_notify: "run_step U d U (notify n d)"

inductive run_steps :: "uuid set \<Rightarrow> db \<Rightarrow> uuid set \<Rightarrow> db \<Rightarrow> bool" where
  steps_refl: "run_steps U d U d"
| steps_step: "run_steps U d U' d' \<Longrightarrow> run_step U' d' U'' d'' \<Longrightarrow> run_steps U d U'' d''"

definition empty_db :: db where
  "empty_db = \<lparr>db_runs = [], db_secrets = [], db_events = [], db_artifacts = [], db_notified = []\<rparr>"

lemma data_only_heartbeat: "data_only (\<lambda>r. r\<lparr>rn_heartbeat_at := Some now\<rparr>)"
  by (simp add: data_only_def)

lemma run_step_keys: "run_step U d U' d' \<Longrightarrow> distinct (dkeys (db_runs d)) \<Longrightarrow> distinct (dkeys (db_runs d'))"
  by (induction rule: run_step.induct)
    (auto simp: create_def create_local_def claim_def Let_def set_run_def notify_def
      transition_commit_def write_owned_def emit_event_def request_cancel_def store_secrets_def
      purge_expired_secrets_def persist_def distinct_update
      split: option.splits if_splits prod.splits)

text \<open>
  Every step that changes a run moves it along an allowed transition, keeps its lease, drops it,
  or gives it one that was never handed out before.
\<close>

lemma run_step_row:
  assumes "run_step U d U' d'" and "distinct (dkeys (db_runs d))" and "get_run d rid = Some r"
  shows "\<exists>r'. get_run d' rid = Some r'
    \<and> (rn_status r' = rn_status r \<or> allowed (rn_status r) (rn_status r'))
    \<and> (rn_lease_id r' = rn_lease_id r \<or> rn_lease_id r' = None \<or> (\<exists>l. rn_lease_id r' = Some l \<and> l \<notin> U))"
  using assms
proof (induction rule: run_step.induct)
  case (step_claim l U locked now d x d')
  obtain rid' r' where x: "x = (rid', r')" by fastforce
  from claim_Some[OF step_claim.hyps(2)[unfolded x] step_claim.prems(1)] obtain r0 where
    "get_run d rid' = Some r0" "claimable locked now (rid', r0)"
    "r' = r0\<lparr>rn_status := DISPATCHED, rn_dispatched_at := Some now,
             rn_attempts := rn_attempts r0 + 1, rn_lease_id := Some l, rn_agent_id := None\<rparr>"
    "d' = set_run rid' r' d" by blast
  with step_claim.prems(2) step_claim.hyps(1) show ?case
    by (auto simp: claimable_def)
qed (auto simp: create_def create_local_def transition_commit_Inr write_owned_Inr emit_event_Inr
      data_only_def request_cancel_def store_secrets_def purge_expired_secrets_def
      split: option.splits)

lemma run_steps_keys:
  "run_steps U d U' d' \<Longrightarrow> distinct (dkeys (db_runs d)) \<Longrightarrow> distinct (dkeys (db_runs d'))"
  by (induction rule: run_steps.induct) (auto intro: run_step_keys)

lemma run_step_used: "run_step U d U' d' \<Longrightarrow> U \<subseteq> U'"
  by (induction rule: run_step.induct) auto

lemma run_steps_used: "run_steps U d U' d' \<Longrightarrow> U \<subseteq> U'"
  by (induction rule: run_steps.induct) (auto dest: run_step_used)

section \<open>Status histories\<close>

text \<open>
  The life of one run under any interleaving of the API, the dispatcher's writes and the workers:
  its row never disappears and its status only moves along the transitions of the contract.
\<close>

inductive allowed_path :: "run_status \<Rightarrow> run_status \<Rightarrow> bool" where
  path_refl: "allowed_path s s"
| path_step: "allowed_path s t \<Longrightarrow> allowed t u \<Longrightarrow> allowed_path s u"

lemma allowed_path_terminal: "allowed_path s t \<Longrightarrow> terminal_status s \<Longrightarrow> t = s"
  by (induction rule: allowed_path.induct) (auto dest: terminal_not_allowed)

lemma run_steps_path:
  assumes "run_steps U d U' d'" and "distinct (dkeys (db_runs d))" and "get_run d rid = Some r"
  shows "\<exists>r'. get_run d' rid = Some r' \<and> allowed_path (rn_status r) (rn_status r')"
  using assms
proof (induction rule: run_steps.induct)
  case (steps_refl U d)
  then show ?case by (auto intro: path_refl)
next
  case (steps_step U d U' d' U'' d'')
  then obtain r' where r': "get_run d' rid = Some r'" "allowed_path (rn_status r) (rn_status r')"
    by blast
  have "distinct (dkeys (db_runs d'))"
    using steps_step by (blast intro: run_steps_keys)
  from run_step_row[OF steps_step.hyps(2) this r'(1)] r'(2) show ?case
    by (metis path_step)
qed

text \<open>
  C1. A run that reached a terminal status stays in it, whatever the API, the dispatcher and any
  number of workers, late or not, write afterwards, in any interleaving, including transitions
  whose check was made before the run ended.
\<close>

theorem terminal_status_final:
  assumes "run_steps U d U' d'" and "distinct (dkeys (db_runs d))"
    and "get_run d rid = Some r" and "terminal_status (rn_status r)"
  shows "map_option rn_status (get_run d' rid) = Some (rn_status r)"
  using run_steps_path[OF assms(1-3)] allowed_path_terminal assms(4) by fastforce

section \<open>Fencing\<close>

text \<open>A lease a run has lost never comes back to it.\<close>

lemma lost_lease_step:
  assumes "run_step U d U' d'" and "distinct (dkeys (db_runs d))"
    and "get_run d rid = Some r" and "l \<in> U" and "rn_lease_id r \<noteq> Some l"
  shows "\<exists>r'. get_run d' rid = Some r' \<and> rn_lease_id r' \<noteq> Some l"
  using run_step_row[OF assms(1-3)] assms(4,5) by fastforce

lemma lost_lease_steps:
  assumes "run_steps U d U' d'" and "distinct (dkeys (db_runs d))"
    and "get_run d rid = Some r" and "l \<in> U" and "rn_lease_id r \<noteq> Some l"
  shows "\<exists>r'. get_run d' rid = Some r' \<and> rn_lease_id r' \<noteq> Some l"
  using assms
proof (induction rule: run_steps.induct)
  case (steps_refl U d)
  then show ?case by blast
next
  case (steps_step U d U' d' U'' d'')
  then obtain r' where "get_run d' rid = Some r'" "rn_lease_id r' \<noteq> Some l" by blast
  moreover have "distinct (dkeys (db_runs d'))" and "l \<in> U'"
    using steps_step run_steps_keys run_steps_used by blast+
  ultimately show ?case using lost_lease_step[OF steps_step.hyps(2)] by blast
qed

definition repo_writes_fail :: "uuid \<Rightarrow> uuid \<Rightarrow> db \<Rightarrow> bool" where
  "repo_writes_fail l rid d \<longleftrightarrow>
     (\<forall>f. write_owned (Some l) rid f d = Inl (LeaseLost rid))
   \<and> (\<forall>e. emit_event (Some l) rid e d = Inl (LeaseLost rid))
   \<and> (\<forall>t f also. transition (Some l) rid t f also d = Inl (LeaseLost rid))
   \<and> (\<forall>s t f also. \<exists>x. transition_commit (Some l) rid s t f also d = Inl x)
   \<and> cancel_requested (Some l) rid d = Inl (LeaseLost rid)"

lemma repo_writes_failI:
  "get_run d rid = Some r \<Longrightarrow> rn_lease_id r \<noteq> Some l \<Longrightarrow> repo_writes_fail l rid d"
  by (auto simp: repo_writes_fail_def write_owned_def emit_event_def transition_def
      transition_check_def require_def cancel_requested_def transition_commit_def)

text \<open>
  C2. Once a run is under another lease than \<open>l\<close> (requeued, or claimed again), every later write,
  event, transition and cancel poll of a worker still holding \<open>l\<close> fails with the lease error and
  leaves the database as it was, for ever.
\<close>

theorem stale_worker_fenced:
  assumes "run_steps U d U' d'" and "distinct (dkeys (db_runs d))"
    and "get_run d rid = Some r" and "l \<in> U" and "rn_lease_id r \<noteq> Some l"
  shows "repo_writes_fail l rid d'"
  using lost_lease_steps[OF assms] repo_writes_failI by blast

section \<open>The timeline\<close>

definition event_seq_of :: "db \<Rightarrow> uuid \<Rightarrow> nat" where
  "event_seq_of d rid = (case get_run d rid of None \<Rightarrow> 0 | Some r \<Rightarrow> rn_event_seq r)"

definition timeline :: "db \<Rightarrow> uuid \<Rightarrow> nat list" where
  "timeline d rid = map ev_seq (filter (\<lambda>e. ev_run_id e = rid) (db_events d))"

definition timeline_ok :: "db \<Rightarrow> bool" where
  "timeline_ok d = (\<forall>rid. timeline d rid = [1..<Suc (event_seq_of d rid)])"

lemma event_seq_of_simps [simp]:
  "event_seq_of (set_run rid r d) rid' = (if rid' = rid then rn_event_seq r else event_seq_of d rid')"
  "event_seq_of (notify n d) rid = event_seq_of d rid"
  "event_seq_of (persist rid' a d) rid = event_seq_of d rid"
  "event_seq_of (d\<lparr>db_events := es\<rparr>) rid = event_seq_of d rid"
  "event_seq_of (d\<lparr>db_secrets := ss\<rparr>) rid = event_seq_of d rid"
  by (simp_all add: event_seq_of_def)

lemma event_seq_of_get: "get_run d rid = Some r \<Longrightarrow> event_seq_of d rid = rn_event_seq r"
  by (simp add: event_seq_of_def)

lemma event_seq_of_none: "get_run d rid = None \<Longrightarrow> event_seq_of d rid = 0"
  by (simp add: event_seq_of_def)

lemma timeline_frame:
  "db_events d' = db_events d \<Longrightarrow> (\<And>rid. event_seq_of d' rid = event_seq_of d rid) \<Longrightarrow>
     timeline_ok d \<Longrightarrow> timeline_ok d'"
  by (simp add: timeline_ok_def timeline_def)

lemma timeline_extend:
  assumes "timeline_ok d" and "db_events d' = db_events d @ es"
    and "\<And>e. e \<in> set es \<Longrightarrow> ev_run_id e = rid"
    and "map ev_seq es = [Suc (event_seq_of d rid)..<Suc (event_seq_of d' rid)]"
    and "event_seq_of d rid \<le> event_seq_of d' rid"
    and "\<And>rid'. rid' \<noteq> rid \<Longrightarrow> event_seq_of d' rid' = event_seq_of d rid'"
  shows "timeline_ok d'"
  unfolding timeline_ok_def
proof
  fix rid'
  show "timeline d' rid' = [1..<Suc (event_seq_of d' rid')]"
  proof (cases "rid' = rid")
    case True
    have "filter (\<lambda>e. ev_run_id e = rid) es = es" using assms(3) by (simp add: filter_id_conv)
    then have "timeline d' rid = timeline d rid @ map ev_seq es"
      using assms(2) by (simp add: timeline_def)
    also have "\<dots> = [1..<Suc (event_seq_of d' rid)]"
      using assms(1,4,5) upt_add_eq_append[of 1 "Suc (event_seq_of d rid)"
          "event_seq_of d' rid - event_seq_of d rid"]
      by (simp add: timeline_ok_def del: upt_Suc)
    finally show ?thesis using True by simp
  next
    case False
    have "filter (\<lambda>e. ev_run_id e = rid') es = []"
      using assms(3) False by (auto simp: filter_empty_conv)
    then have "timeline d' rid' = timeline d rid'" using assms(2) by (simp add: timeline_def)
    with assms(1) assms(6)[OF False] show ?thesis by (simp add: timeline_ok_def)
  qed
qed

lemma timeline_step:
  assumes "run_step U d U' d'" and "distinct (dkeys (db_runs d))" and "timeline_ok d"
  shows "timeline_ok d'"
  using assms
proof (induction rule: run_step.induct)
  case (step_claim l U locked now d x d')
  obtain rid' r' where x: "x = (rid', r')" by fastforce
  from claim_Some[OF step_claim.hyps(2)[unfolded x] step_claim.prems(1)] obtain r0 where
    "get_run d rid' = Some r0"
    "r' = r0\<lparr>rn_status := DISPATCHED, rn_dispatched_at := Some now,
             rn_attempts := rn_attempts r0 + 1, rn_lease_id := Some l, rn_agent_id := None\<rparr>"
    "d' = set_run rid' r' d" by blast
  then show ?case
    by (intro timeline_frame[OF _ _ step_claim.prems(2)]) (auto simp: event_seq_of_get)
next
  case (step_finish src a lease rid now d d' U)
  then obtain r where r: "get_run d rid = Some r" and d': "d' = notify (StatusNotify rid (fi_status a))
       (persist rid a (set_run rid (finish_values a now r\<lparr>rn_status := fi_status a\<rparr>) d))"
    by (auto simp: transition_commit_Inr)
  show ?case
    by (rule timeline_extend[OF step_finish.prems(2), where rid = rid])
      (auto simp: d' db_events_persist ready_event_def finished_event_def
        event_seq_of_get[OF r] upt_rec split: if_splits)
next
  case (step_emit lease rid e d n d' U)
  then obtain r where r: "get_run d rid = Some r" and n: "n = rn_event_seq r + 1"
    and d': "d' = notify (EventNotify rid n) ((set_run rid (r\<lparr>rn_event_seq := n\<rparr>) d)
                \<lparr>db_events := db_events d @ [e\<lparr>ev_run_id := rid, ev_seq := n\<rparr>]\<rparr>)"
    by (auto simp: emit_event_Inr)
  show ?case
    by (rule timeline_extend[OF step_emit.prems(2), where rid = rid])
      (auto simp: d' n event_seq_of_get[OF r])
qed (rule timeline_frame; auto simp: create_def create_local_def new_run_def event_seq_of_get
      event_seq_of_none transition_commit_Inr write_owned_Inr data_only_def
      request_cancel_def store_secrets_def purge_expired_secrets_def split: option.splits)+

text \<open>
  C3. Starting from the empty database, after any interleaving of writers the events of every run
  carry exactly the numbers 1, 2, ..., \<open>event_seq\<close> in the order they were written: no gap and no
  duplicate, the closing events of \<open>finish\<close> included.
\<close>

theorem timeline_gap_free:
  assumes "run_steps {} empty_db U d"
  shows "timeline d rid = [1..<Suc (event_seq_of d rid)]"
proof -
  have "timeline_ok d \<and> distinct (dkeys (db_runs d))"
    using assms
  proof (induction "{} :: uuid set" empty_db U d rule: run_steps.induct)
    case steps_refl
    show ?case
      by (simp add: timeline_ok_def timeline_def event_seq_of_def empty_db_def)
  next
    case (steps_step U' d' U'' d'')
    then show ?case by (blast intro: timeline_step run_step_keys)
  qed
  then show ?thesis by (simp add: timeline_ok_def)
qed

section \<open>A concrete run\<close>

definition demo_row :: run_row where
  "demo_row = new_run (lit ''q'') None JNull [] JNull JNull None 0"

definition demo_db :: "run_status \<Rightarrow> uuid option \<Rightarrow> db" where
  "demo_db s l = set_run 1 (demo_row\<lparr>rn_status := s, rn_lease_id := l\<rparr>) empty_db"

definition demo_event :: event_row where
  "demo_event = ready_event 1 0 (give_up_args AGENT_HEARTBEAT_LOST demo_row)"

lemma demo_simps [simp]:
  "get_run (demo_db s l) 1 = Some (demo_row\<lparr>rn_status := s, rn_lease_id := l\<rparr>)"
  "db_runs (demo_db s l) = [(1, demo_row\<lparr>rn_status := s, rn_lease_id := l\<rparr>)]"
  "rn_status demo_row = QUEUED" "rn_lease_id demo_row = None" "rn_event_seq demo_row = 0"
  "rn_available_at demo_row = None"
  by (simp_all add: demo_db_def set_run_def empty_db_def demo_row_def new_run_def)

lemma steps_one: "run_step U d U' d' \<Longrightarrow> run_steps U d U' d'"
  by (rule steps_step[OF steps_refl])

theorem terminal_status_final_witness:
  "\<exists>d. run_steps {7} (demo_db FAILED (Some 7)) {7} d
     \<and> map_option rn_status (get_run d 1) = Some FAILED"
proof -
  have "run_steps {7} (demo_db FAILED (Some 7)) {7} (request_cancel 1 (demo_db FAILED (Some 7)))"
    by (rule steps_one) (rule step_cancel)
  moreover have "terminal_status FAILED" by (simp add: run_states_def is_terminal_def)
  ultimately have "map_option rn_status (get_run (request_cancel 1 (demo_db FAILED (Some 7))) 1) = Some FAILED"
    using terminal_status_final[of "{7}" "demo_db FAILED (Some 7)" "{7}" _ 1
        "demo_row\<lparr>rn_status := FAILED, rn_lease_id := Some 7\<rparr>"] by simp
  with \<open>run_steps {7} _ {7} _\<close> show ?thesis by blast
qed

theorem stale_worker_fenced_witness:
  "\<exists>d. run_steps {7, 8} (demo_db RUNNING (Some 8)) {7, 8} d \<and> repo_writes_fail 7 1 d"
proof -
  have "run_steps {7, 8} (demo_db RUNNING (Some 8)) {7, 8} (request_cancel 1 (demo_db RUNNING (Some 8)))"
    by (rule steps_one) (rule step_cancel)
  from stale_worker_fenced[OF this, of 1 "demo_row\<lparr>rn_status := RUNNING, rn_lease_id := Some 8\<rparr>" 7] this
  show ?thesis by auto
qed

theorem timeline_gap_free_witness:
  "\<exists>d. run_steps {} empty_db {} d \<and> timeline d 1 = [1]"
proof -
  define d1 where "d1 = create 1 demo_row empty_db"
  obtain d2 where e: "emit_event None 1 demo_event d1 = Inr (1, d2)"
    by (simp add: d1_def create_def emit_event_def Let_def)
  have "run_step {} empty_db {} d1"
    unfolding d1_def demo_row_def by (rule step_create) (simp add: empty_db_def)
  then have steps: "run_steps {} empty_db {} d2"
    by (rule steps_step[OF steps_one step_emit[OF e]])
  moreover have "event_seq_of d2 1 = 1"
    using e by (auto simp: d1_def create_def emit_event_Inr)
  ultimately show ?thesis using timeline_gap_free[OF steps, of 1] by auto
qed

end
