(* ===== verification/RedactionProps.thy ===== *)
theory RedactionProps
  imports Redaction
begin

text \<open>
  What redaction hides. \<open>pattern.sub\<close> is described without the scan: the text falls into pieces from
  left to right, a piece that is not kept is exactly what the pattern matches where it begins, and
  the pattern matches nowhere inside a kept piece. A replacement that leaves a match in place does
  not meet this.
\<close>

section \<open>Matches by position\<close>

definition at_pos :: "str \<Rightarrow> nat \<Rightarrow> pos" where
  "at_pos s i = (rev (take i s), drop i s)"

text \<open>What the pattern matches at a position, if it does.\<close>

definition hit_at :: "rx \<Rightarrow> str \<Rightarrow> nat \<Rightarrow> str option" where
  "hit_at r s i = map_option (\<lambda>res. h_text (mk_hit (at_pos s i) res)) (rx_match r (at_pos s i))"

datatype piece = Kept str | Hidden str | Rejected str

fun piece_text :: "piece \<Rightarrow> str" where
  "piece_text (Kept w) = w"
| "piece_text (Hidden w) = w"
| "piece_text (Rejected w) = w"

fun piece_shown :: "str \<Rightarrow> piece \<Rightarrow> str" where
  "piece_shown label (Kept w) = w"
| "piece_shown label (Hidden w) = placeholder label"
| "piece_shown label (Rejected w) = w"

text \<open>A match the checksum of its rule refuses stays; a rule without one accepts every match.\<close>

definition accepts :: "redact_rule \<Rightarrow> str \<Rightarrow> bool" where
  "accepts r w = (case rr_validator r of None \<Rightarrow> True | Some valid \<Rightarrow> valid w)"

fun piece_ok :: "redact_rule \<Rightarrow> str \<Rightarrow> nat \<Rightarrow> piece \<Rightarrow> bool" where
  "piece_ok r s i (Kept w) = (\<forall>j. i \<le> j \<and> j < i + length w \<longrightarrow> hit_at (rr_pattern r) s j = None)"
| "piece_ok r s i (Hidden w) = (hit_at (rr_pattern r) s i = Some w \<and> w \<noteq> [] \<and> accepts r w)"
| "piece_ok r s i (Rejected w) = (hit_at (rr_pattern r) s i = Some w \<and> w \<noteq> [] \<and> \<not> accepts r w)"

fun pieces_ok :: "redact_rule \<Rightarrow> str \<Rightarrow> nat \<Rightarrow> piece list \<Rightarrow> bool" where
  "pieces_ok r s i [] = True"
| "pieces_ok r s i (p # ps) = (piece_ok r s i p \<and> pieces_ok r s (i + length (piece_text p)) ps)"

text \<open>\<open>t\<close> is \<open>s\<close> with every match of the rule hidden behind its label.\<close>

definition hides :: "redact_rule \<Rightarrow> str \<Rightarrow> str \<Rightarrow> bool" where
  "hides r s t \<longleftrightarrow> (\<exists>ps. concat (map piece_text ps) = s \<and> pieces_ok r s 0 ps
     \<and> t = concat (map (piece_shown (rr_label r)) ps))"

fun hides_all :: "redact_rule list \<Rightarrow> str \<Rightarrow> str \<Rightarrow> bool" where
  "hides_all [] s t \<longleftrightarrow> t = s"
| "hides_all (r # rs) s t \<longleftrightarrow> (\<exists>u. hides r s u \<and> hides_all rs u t)"

section \<open>The scan finds every match\<close>

lemma search_from_Some:
  "search_from r p s = Some (h, st') \<Longrightarrow> \<exists>w u res. s = w @ u \<and> h = mk_hit (rev w @ p, u) res \<and> st' = fst res
     \<and> rx_match r (rev w @ p, u) = Some res \<and> (\<forall>j<length w. rx_match r (rev (take j w) @ p, drop j w @ u) = None)"
proof (induction r p s rule: search_from.induct)
  case (1 r p)
  then show ?case by (auto split: option.splits)
next
  case (2 r p c s)
  show ?case
  proof (cases "rx_match r (p, c # s)")
    case (Some res)
    then show ?thesis using "2.prems" by (intro exI[of _ "[]"] exI[of _ "c # s"] exI[of _ res]) auto
  next
    case None
    then have "search_from r (c # p) s = Some (h, st')" using "2.prems" by simp
    from "2.IH"[OF None this] obtain w u res where
      w: "s = w @ u" "h = mk_hit (rev w @ c # p, u) res" "st' = fst res" "rx_match r (rev w @ c # p, u) = Some res"
        "\<forall>j<length w. rx_match r (rev (take j w) @ c # p, drop j w @ u) = None"
      by blast
    have "rx_match r (rev (take j (c # w)) @ p, drop j (c # w) @ u) = None" if "j < length (c # w)" for j
      using that None w(1,5) by (cases j) auto
    then show ?thesis using w by (intro exI[of _ "c # w"] exI[of _ u] exI[of _ res]) auto
  qed
qed

lemma search_from_None:
  "search_from r p s = None \<Longrightarrow> j \<le> length s \<Longrightarrow> rx_match r (rev (take j s) @ p, drop j s) = None"
proof (induction r p s arbitrary: j rule: search_from.induct)
  case (2 r p c s)
  then show ?case by (cases j) (auto split: option.splits)
qed (auto split: option.splits)

lemma at_pos_inside: "at_pos (rev p @ w @ u) (length p + j) = (rev (take j w) @ p, drop j w @ u)" if "j \<le> length w"
  using that by (simp add: at_pos_def)

lemma at_pos_here: "at_pos (rev p @ u) (length p) = (p, u)"
  by (simp add: at_pos_def)

text \<open>The replacement from a position on, cut into pieces.\<close>

definition replacement_of :: "redact_rule \<Rightarrow> hit \<Rightarrow> str" where
  "replacement_of r h = (if accepts r (h_text h) then placeholder (rr_label r) else h_text h)"

lemma apply_rule_sub: "apply_rule r s = sub (rr_pattern r) (replacement_of r) s"
proof -
  have "replacement_of r = (case rr_validator r of None \<Rightarrow> \<lambda>_. placeholder (rr_label r)
      | Some v \<Rightarrow> keep_unless v (placeholder (rr_label r)))"
    by (rule ext) (simp add: replacement_of_def accepts_def keep_unless_def split: option.split)
  then show ?thesis by (simp add: apply_rule_def split: option.split)
qed

definition cut_from :: "redact_rule \<Rightarrow> pos \<Rightarrow> str \<Rightarrow> bool" where
  "cut_from r st t \<longleftrightarrow> (\<exists>ps. concat (map piece_text ps) = snd st
     \<and> pieces_ok r (rev (fst st) @ snd st) (length (fst st)) ps \<and> t = concat (map (piece_shown (rr_label r)) ps))"

lemma cut_step:
  assumes "rx_match (rr_pattern r) (rev w @ p, v @ u) = Some ((rev v @ rev w @ p, u), c)" and "v \<noteq> []"
    and "\<forall>j<length w. rx_match (rr_pattern r) (rev (take j w) @ p, drop j w @ v @ u) = None"
    and "cut_from r (rev v @ rev w @ p, u) t"
  shows "cut_from r (p, w @ v @ u) (w @ (if accepts r v then placeholder (rr_label r) else v) @ t)"
proof -
  let ?s = "rev p @ w @ v @ u"
  obtain ps where ps: "concat (map piece_text ps) = u" "t = concat (map (piece_shown (rr_label r)) ps)"
    "pieces_ok r ?s (length p + length w + length v) ps"
    using assms(4) by (auto simp: cut_from_def ac_simps)
  let ?q = "if accepts r v then Hidden v else Rejected v"
  have "hit_at (rr_pattern r) ?s j = None" if "length p \<le> j" "j < length p + length w" for j
    using assms(3) that at_pos_inside[of "j - length p" w p "v @ u"] by (simp add: hit_at_def)
  moreover have "hit_at (rr_pattern r) ?s (length p + length w) = Some v"
    using at_pos_inside[of "length w" w p "v @ u"] assms(1) by (simp add: hit_at_def mk_hit_def)
  ultimately have "pieces_ok r ?s (length p) (Kept w # ?q # ps)"
    using assms(2) ps(3) by (simp add: ac_simps)
  then show ?thesis using ps(1,2)
    unfolding cut_from_def by (intro exI[of _ "Kept w # ?q # ps"]) auto
qed

lemma finditer_fuel_cut:
  assumes "consumes (rr_pattern r)"
  shows "length s < n \<Longrightarrow>
    cut_from r (p, s) (sub_hits (length p) (finditer_fuel n (rr_pattern r) (p, s)) (replacement_of r) (rev p @ s))"
proof (induction n arbitrary: p s)
  case (Suc n)
  show ?case
  proof (cases "search_from (rr_pattern r) p s")
    case None
    have "hit_at (rr_pattern r) (rev p @ s) j = None" if "length p \<le> j" "j < length p + length s" for j
      using search_from_None[OF None, of "j - length p"] at_pos_inside[of "j - length p" s p "[]"] that
      by (simp add: hit_at_def)
    then show ?thesis using None unfolding cut_from_def by (intro exI[of _ "[Kept s]"]) auto
  next
    case (Some x)
    then obtain h st where hs: "search_from (rr_pattern r) p s = Some (h, st)" by (cases x) auto
    from search_from_Some[OF this] obtain w u res where
      w: "s = w @ u" "h = mk_hit (rev w @ p, u) res" "st = fst res" "rx_match (rr_pattern r) (rev w @ p, u) = Some res"
        "\<forall>j<length w. rx_match (rr_pattern r) (rev (take j w) @ p, drop j w @ u) = None"
      by blast
    obtain st' c where res: "res = (st', c)" by fastforce
    have "adv (rev w @ p, u) st'" using rx_match_adv w(4) res by blast
    then obtain v where v: "u = v @ snd st'" "fst st' = rev v @ rev w @ p" by (auto simp: adv_def)
    obtain u' where st': "st' = (rev v @ rev w @ p, u')" "u = v @ u'" using v by (cases st') auto
    have h: "h_start h = length p + length w" "h_end h = length p + length w + length v" "h_text h = v"
      using w(2) res st' by (simp_all add: mk_hit_def)
    have "v \<noteq> []" using rx_match_consumes[OF assms w(4)] h w(2) by auto
    let ?t = "sub_hits (length (rev v @ rev w @ p)) (finditer_fuel n (rr_pattern r) (rev v @ rev w @ p, u')) (replacement_of r) (rev (rev v @ rev w @ p) @ u')"
    have "cut_from r (rev v @ rev w @ p, u') ?t"
      by (rule Suc.IH) (use Suc.prems w(1) st' \<open>v \<noteq> []\<close> in \<open>cases v; auto\<close>)
    from cut_step[OF _ \<open>v \<noteq> []\<close> _ this, of c]
    have "cut_from r (p, w @ v @ u') (w @ (if accepts r v then placeholder (rr_label r) else v) @ ?t)"
      using w(4,5) res st' by simp
    moreover have "finditer_fuel (Suc n) (rr_pattern r) (p, s) = h # finditer_fuel n (rr_pattern r) st'"
      using hs h \<open>v \<noteq> []\<close> w(3) res by simp
    moreover have "replacement_of r h = (if accepts r v then placeholder (rr_label r) else v)"
      using h(3) by (simp add: replacement_of_def)
    ultimately show ?thesis using h(1,2) w(1) st' by (simp del: finditer_fuel.simps add: ac_simps)
  qed
qed simp

lemma apply_rule_hides: "consumes (rr_pattern r) \<Longrightarrow> hides r s (apply_rule r s)"
  using finditer_fuel_cut[of r s "Suc (length s)" "[]"]
  by (simp add: cut_from_def hides_def apply_rule_sub sub_def finditer_def del: finditer_fuel.simps)

lemma rules_consume: "r \<in> set REDACT_RULES \<Longrightarrow> consumes (rr_pattern r)"
  by (auto simp: REDACT_RULES_def plain_rule_def checked_rule_def google_key_rx_def google_aq_rx_def langfuse_rx_def
      openai_rx_def tavily_rx_def brave_rx_def bearer_rx_def database_url_rx_def iban_rx_def card_rx_def tckn_rx_def
      email_rx_def phone_rx_def ip_rx_def rx_eval)

lemma fold_hides: "\<forall>r\<in>set rs. consumes (rr_pattern r) \<Longrightarrow> hides_all rs s (fold apply_rule rs s)"
  by (induction rs arbitrary: s) (auto intro: apply_rule_hides)

lemma redact_text_hides: "hides_all REDACT_RULES s (redact_text s)"
  unfolding redact_text_def using fold_hides rules_consume by blast

section \<open>Structured values\<close>

text \<open>At any depth: the marker under a sensitive key, every other string with the rules applied, the rest as it was.\<close>

inductive json_hidden :: "json \<Rightarrow> json \<Rightarrow> bool" where
  hidden_str: "hides_all REDACT_RULES s t \<Longrightarrow> json_hidden (JStr s) (JStr t)"
| hidden_obj: "list_all2 (\<lambda>x y. fst y = fst x
       \<and> (if sensitive_key (fst x) then snd y = JStr (lit ''<REDACTED>'') else json_hidden (snd x) (snd y))) kvs kvs' \<Longrightarrow>
     json_hidden (JObj kvs) (JObj kvs')"
| hidden_list: "list_all2 json_hidden vs vs' \<Longrightarrow> json_hidden (JList vs) (JList vs')"
| hidden_null: "json_hidden JNull JNull"
| hidden_bool: "json_hidden (JBool b) (JBool b)"
| hidden_num: "json_hidden (JNum n) (JNum n)"

lemma redact_hidden: "json_hidden v (redact v)"
proof (induction v rule: redact.induct)
  case (2 kvs)
  then show ?case unfolding redact.simps
    by (intro hidden_obj) (auto simp: list_all2_map2 list.rel_refl_strong intro!: list.rel_refl_strong split: prod.splits)
next
  case (3 vs)
  then show ?case unfolding redact.simps
    by (intro hidden_list) (auto simp: list_all2_map2 intro!: list.rel_refl_strong)
qed (auto simp del: redact_text_def intro: json_hidden.intros redact_text_hides)

end
