(* ===== verification/Events.thy ===== *)
theory Events
  imports RunProps RedactionProps
begin

text \<open>
  \<open>EventWriter\<close> of \<open>observability/events.py\<close>: everything a run writes to its timeline goes through
  \<open>emit\<close>, which redacts the message and the payload before the insert of \<open>Runs.emit_event\<close>. The
  structured log line written beside it is I/O.
\<close>

datatype event_level = DEBUG | INFO | WARN | ERROR

fun level_value :: "event_level \<Rightarrow> str" where
  "level_value DEBUG = lit ''debug''"
| "level_value INFO = lit ''info''"
| "level_value WARN = lit ''warn''"
| "level_value ERROR = lit ''error''"

record event_writer =
  wr_run_id :: uuid
  wr_node :: str
  wr_iteration :: "nat option"
  wr_span_id :: "str option"
  wr_parent_span_id :: "str option"
  wr_lease_id :: "uuid option"

text \<open>The optional keyword arguments of \<open>emit\<close>.\<close>

record emit_args =
  em_data :: "(str \<times> json) list"
  em_label :: "str option"
  em_iteration :: "nat option"
  em_latency_ms :: "nat option"
  em_tokens_in :: "nat option"
  em_tokens_out :: "nat option"
  em_cost_usd :: "real option"
  em_error_code :: "error_code option"
  em_expected :: "bool option"

definition no_args :: emit_args where
  "no_args = \<lparr>em_data = [], em_label = None, em_iteration = None, em_latency_ms = None,
     em_tokens_in = None, em_tokens_out = None, em_cost_usd = None, em_error_code = None,
     em_expected = None\<rparr>"

text \<open>\<open>child\<close>: a writer for a nested span; the fresh span id is an argument.\<close>

definition child :: "event_writer \<Rightarrow> str \<Rightarrow> nat option \<Rightarrow> str option \<Rightarrow> str \<Rightarrow> event_writer" where
  "child w node iteration span_id fresh =
     \<lparr>wr_run_id = wr_run_id w, wr_node = node,
      wr_iteration = (case iteration of None \<Rightarrow> wr_iteration w | Some i \<Rightarrow> Some i),
      wr_span_id = Some (case span_id of None \<Rightarrow> fresh | Some s \<Rightarrow> if s = [] then fresh else s),
      wr_parent_span_id = wr_span_id w, wr_lease_id = wr_lease_id w\<rparr>"

definition event_payload :: "emit_args \<Rightarrow> str \<Rightarrow> (str \<times> json) list" where
  "event_payload a message =
     (case em_label a of
        None \<Rightarrow> em_data a
      | Some label \<Rightarrow>
          if label = [] then em_data a
          else dput (lit ''display'') (JStr (lit ''['' @ label @ lit ''] '' @ message)) (em_data a))"

text \<open>The row \<open>emit\<close> inserts; its number and run are filled in by the insert.\<close>

definition new_event :: "event_writer \<Rightarrow> str \<Rightarrow> str \<Rightarrow> event_level \<Rightarrow> emit_args \<Rightarrow> event_row" where
  "new_event w event_type message level a =
     \<lparr>ev_run_id = wr_run_id w, ev_seq = 0, ev_level = level_value level, ev_node = wr_node w,
      ev_type = event_type, ev_message = redact_text message,
      ev_data = redact (JObj (event_payload a message)),
      ev_iteration = (case em_iteration a of None \<Rightarrow> wr_iteration w | Some i \<Rightarrow> Some i),
      ev_span_id = wr_span_id w, ev_parent_span_id = wr_parent_span_id w,
      ev_latency_ms = em_latency_ms a, ev_tokens_in = em_tokens_in a,
      ev_tokens_out = em_tokens_out a, ev_cost_usd = em_cost_usd a,
      ev_error_code = em_error_code a, ev_expected = em_expected a\<rparr>"

definition emit :: "event_writer \<Rightarrow> str \<Rightarrow> str \<Rightarrow> event_level \<Rightarrow> emit_args \<Rightarrow> db \<Rightarrow> repo_error + nat \<times> db" where
  "emit w event_type message level a d =
     emit_event (wr_lease_id w) (wr_run_id w) (new_event w event_type message level a) d"

definition category_value :: "error_category \<Rightarrow> str" where
  "category_value c = (case c of
       SEARCH \<Rightarrow> lit ''search'' | LLM \<Rightarrow> lit ''llm'' | FETCH \<Rightarrow> lit ''fetch''
     | BUDGET \<Rightarrow> lit ''budget'' | PII \<Rightarrow> lit ''pii'' | GATE \<Rightarrow> lit ''gate''
     | CONFIG \<Rightarrow> lit ''config'' | INFRA \<Rightarrow> lit ''infra'' | BUG \<Rightarrow> lit ''bug'')"

definition error_message :: "agent_error \<Rightarrow> str" where
  "error_message e =
     (let m = code_value (ae_code e) @ lit '': '' @ ae_decision e
      in case ae_outcome e of
           None \<Rightarrow> m
         | Some t \<Rightarrow> if t = [] then m else m @ lit '' -> '' @ t)"

definition error_data :: "agent_error \<Rightarrow> (str \<times> json) list" where
  "error_data e =
     [(lit ''decision'', JStr (ae_decision e)), (lit ''outcome'', opt_json (ae_outcome e)),
      (lit ''category'', JStr (category_value (ae_category e))),
      (lit ''retryable'', JBool (ae_retryable e)), (lit ''provider'', opt_json (ae_provider e)),
      (lit ''attempt'', case ae_attempt e of None \<Rightarrow> JNull | Some n \<Rightarrow> JNum (real n)),
      (lit ''cause'', opt_json (ae_cause e))]"

text \<open>\<open>EventWriter.error\<close>: an expected failure is a warning, a bug is an error.\<close>

definition emit_error :: "event_writer \<Rightarrow> agent_error \<Rightarrow> emit_args \<Rightarrow> db \<Rightarrow> repo_error + nat \<times> db" where
  "emit_error w e a d =
     emit w (lit ''error'') (error_message e) (if ae_expected e then WARN else ERROR)
       (a\<lparr>em_data := fold (\<lambda>(k, v). dput k v) (em_data a) (error_data e),
          em_iteration := ae_iteration e, em_error_code := Some (ae_code e),
          em_expected := Some (ae_expected e)\<rparr>) d"

section \<open>What reaches the timeline\<close>

text \<open>
  A stored event against what was passed to \<open>emit\<close>: the message with every match of the rules hidden,
  and the payload with the marker under the sensitive keys and its other strings treated like the message.
\<close>

definition event_redacted :: "str \<Rightarrow> emit_args \<Rightarrow> event_row \<Rightarrow> bool" where
  "event_redacted m a e \<longleftrightarrow> hides_all REDACT_RULES m (ev_message e)
     \<and> json_hidden (JObj (event_payload a m)) (ev_data e)"

lemma new_event_redacted: "event_redacted m a (new_event w t m l a\<lparr>ev_run_id := r, ev_seq := n\<rparr>)"
  using redact_text_hides redact_hidden[of "JObj (event_payload a m)"]
  by (simp add: event_redacted_def new_event_def del: redact.simps)

lemma emit_Inr:
  "emit w t m l a d = Inr (n, d') \<Longrightarrow>
     db_events d' = db_events d @ [new_event w t m l a\<lparr>ev_run_id := wr_run_id w, ev_seq := n\<rparr>]"
  by (auto simp: emit_def emit_event_Inr)

end
