(* ===== verification/Sink.thy ===== *)
theory Sink
  imports Events
begin

text \<open>
  The services of \<open>agent/runtime.py\<close>: the in-memory event sink, the call records with their two
  recorders, and the two caches. The wall-clock stamp of an event and the echo callback are left out,
  SHA-256 and the JSON rendering under it are the argument \<open>digest\<close>. A table is an association list
  with a unique key.
\<close>

section \<open>The in-memory timeline\<close>

record mem_event =
  me_seq :: nat
  me_level :: str
  me_node :: str
  me_type :: str
  me_message :: str
  me_data :: json
  me_iteration :: "nat option"
  me_span_id :: "str option"
  me_parent_span_id :: "str option"
  me_latency_ms :: "nat option"
  me_tokens_in :: "nat option"
  me_tokens_out :: "nat option"
  me_cost_usd :: "real option"
  me_error_code :: "error_code option"
  me_expected :: "bool option"

record mem_sink =
  ms_run_id :: uuid
  ms_node :: str
  ms_iteration :: "nat option"
  ms_span_id :: "str option"
  ms_parent_span_id :: "str option"

definition mem_child :: "mem_sink \<Rightarrow> str \<Rightarrow> nat option \<Rightarrow> str option \<Rightarrow> str \<Rightarrow> mem_sink" where
  "mem_child k node iteration span_id fresh =
     \<lparr>ms_run_id = ms_run_id k, ms_node = node,
      ms_iteration = (case iteration of None \<Rightarrow> ms_iteration k | Some i \<Rightarrow> Some i),
      ms_span_id = Some (case span_id of None \<Rightarrow> fresh | Some s \<Rightarrow> if s = [] then fresh else s),
      ms_parent_span_id = ms_span_id k\<rparr>"

definition mem_emit ::
  "mem_sink \<Rightarrow> str \<Rightarrow> str \<Rightarrow> event_level \<Rightarrow> emit_args \<Rightarrow> mem_event list \<Rightarrow> nat \<times> mem_event list" where
  "mem_emit k event_type message level a evs =
     (let payload = (case em_label a of
                       None \<Rightarrow> em_data a
                     | Some label \<Rightarrow>
                         if label = [] then em_data a
                         else dput (lit ''display'') (JStr ((lit ''['') @ label @ (lit ''] '') @ message)) (em_data a));
          seq = length evs + 1
      in (seq, evs @
           [\<lparr>me_seq = seq, me_level = level_value level, me_node = ms_node k, me_type = event_type,
             me_message = redact_text message, me_data = redact (JObj payload),
             me_iteration = (case em_iteration a of None \<Rightarrow> ms_iteration k | Some i \<Rightarrow> Some i),
             me_span_id = ms_span_id k, me_parent_span_id = ms_parent_span_id k,
             me_latency_ms = em_latency_ms a, me_tokens_in = em_tokens_in a,
             me_tokens_out = em_tokens_out a, me_cost_usd = em_cost_usd a,
             me_error_code = em_error_code a, me_expected = em_expected a\<rparr>]))"

definition mem_debug :: "mem_sink \<Rightarrow> str \<Rightarrow> str \<Rightarrow> emit_args \<Rightarrow> mem_event list \<Rightarrow> mem_event list" where
  "mem_debug k event_type message a evs = snd (mem_emit k event_type message DEBUG a evs)"

definition mem_info :: "mem_sink \<Rightarrow> str \<Rightarrow> str \<Rightarrow> emit_args \<Rightarrow> mem_event list \<Rightarrow> mem_event list" where
  "mem_info k event_type message a evs = snd (mem_emit k event_type message INFO a evs)"

definition mem_warn :: "mem_sink \<Rightarrow> str \<Rightarrow> str \<Rightarrow> emit_args \<Rightarrow> mem_event list \<Rightarrow> mem_event list" where
  "mem_warn k event_type message a evs = snd (mem_emit k event_type message WARN a evs)"

definition mem_error_data :: "agent_error \<Rightarrow> (str \<times> json) list" where
  "mem_error_data e =
     [((lit ''decision''), JStr (ae_decision e)), ((lit ''outcome''), opt_json (ae_outcome e)),
      ((lit ''category''), JStr (category_value (ae_category e))),
      ((lit ''provider''), opt_json (ae_provider e)),
      ((lit ''attempt''), case ae_attempt e of None \<Rightarrow> JNull | Some n \<Rightarrow> JNum (real n)),
      ((lit ''cause''), opt_json (ae_cause e))]"

definition mem_error :: "mem_sink \<Rightarrow> agent_error \<Rightarrow> emit_args \<Rightarrow> mem_event list \<Rightarrow> mem_event list" where
  "mem_error k e a evs =
     snd (mem_emit k (lit ''error'') (error_message e) (if ae_expected e then WARN else ERROR)
       (a\<lparr>em_data := fold (\<lambda>(k, v). dput k v) (em_data a) (mem_error_data e),
          em_error_code := Some (ae_code e), em_expected := Some (ae_expected e)\<rparr>) evs)"

section \<open>Call records\<close>

record llm_call_record =
  lc_run_id :: uuid
  lc_span_id :: str
  lc_node :: str
  lc_iteration :: "nat option"
  lc_provider :: str
  lc_model :: str
  lc_tier :: str
  lc_prompt_id :: "str option"
  lc_prompt_version :: "str option"
  lc_tokens_in :: nat
  lc_tokens_out :: nat
  lc_cost_usd :: real
  lc_latency_ms :: nat
  lc_attempt :: nat
  lc_fallback_from :: "str option"
  lc_status :: str
  lc_error_code :: "error_code option"
  lc_request :: json
  lc_response :: json

record search_call_record =
  sr_run_id :: uuid
  sr_span_id :: str
  sr_node :: str
  sr_iteration :: "nat option"
  sr_provider :: str
  sr_query :: str
  sr_subquestion_id :: "str option"
  sr_status :: str
  sr_result_count :: nat
  sr_latency_ms :: nat
  sr_cache_hit :: bool
  sr_error_code :: "error_code option"

record call_log =
  cl_llm_calls :: "llm_call_record list"
  cl_search_calls :: "search_call_record list"

text \<open>\<open>MemoryCallRecorder\<close> and the rows of \<open>DbCallRecorder\<close>, which redacts what it stores.\<close>

definition record_llm_call :: "llm_call_record \<Rightarrow> call_log \<Rightarrow> call_log" where
  "record_llm_call c l = l\<lparr>cl_llm_calls := cl_llm_calls l @ [c]\<rparr>"

definition record_search_call :: "search_call_record \<Rightarrow> call_log \<Rightarrow> call_log" where
  "record_search_call c l = l\<lparr>cl_search_calls := cl_search_calls l @ [c]\<rparr>"

definition db_llm_call :: "llm_call_record \<Rightarrow> call_log \<Rightarrow> call_log" where
  "db_llm_call c l =
     l\<lparr>cl_llm_calls := cl_llm_calls l
         @ [c\<lparr>lc_request := redact (lc_request c), lc_response := redact (lc_response c)\<rparr>]\<rparr>"

definition db_search_call :: "search_call_record \<Rightarrow> call_log \<Rightarrow> call_log" where
  "db_search_call c l =
     l\<lparr>cl_search_calls := cl_search_calls l @ [c\<lparr>sr_query := redact_text (sr_query c)\<rparr>]\<rparr>"

section \<open>Caches\<close>

definition cache_key :: "(json list \<Rightarrow> str) \<Rightarrow> json list \<Rightarrow> str" where
  "cache_key digest parts = digest parts"

record 'r mem_cache =
  mc_responses :: "(str, time \<times> 'r) dict"
  mc_embeddings :: "(str, real list) dict"

definition mem_get_response :: "time \<Rightarrow> str \<Rightarrow> 'r mem_cache \<Rightarrow> 'r option" where
  "mem_get_response now key c =
     (case dget (mc_responses c) key of
        None \<Rightarrow> None
      | Some (expires, response) \<Rightarrow> if expires < now then None else Some response)"

definition mem_put_response :: "time \<Rightarrow> str \<Rightarrow> 'r \<Rightarrow> real \<Rightarrow> 'r mem_cache \<Rightarrow> 'r mem_cache" where
  "mem_put_response now key response ttl c =
     c\<lparr>mc_responses := dput key (now + ttl, response) (mc_responses c)\<rparr>"

definition mem_get_embeddings :: "str list \<Rightarrow> 'r mem_cache \<Rightarrow> (str, real list) dict" where
  "mem_get_embeddings keys c =
     fold (\<lambda>k d. case dget (mc_embeddings c) k of None \<Rightarrow> d | Some v \<Rightarrow> dput k v d) keys []"

definition mem_put_embeddings :: "(str, real list) dict \<Rightarrow> 'r mem_cache \<Rightarrow> 'r mem_cache" where
  "mem_put_embeddings vectors c =
     c\<lparr>mc_embeddings := fold (\<lambda>(k, v). dput k v) vectors (mc_embeddings c)\<rparr>"

record 'r cache_row =
  cr_provider :: str
  cr_query :: str
  cr_response :: 'r
  cr_expires_at :: time

record embedding_row =
  er_model :: str
  er_dimensions :: nat
  er_vector :: "real list"

record 'r db_cache =
  dc_search :: "(str, 'r cache_row) dict"
  dc_embeddings :: "(str, embedding_row) dict"

definition db_get_response :: "time \<Rightarrow> str \<Rightarrow> 'r db_cache \<Rightarrow> 'r option" where
  "db_get_response now key c =
     (case dget (dc_search c) key of
        None \<Rightarrow> None
      | Some row \<Rightarrow> if now < cr_expires_at row then Some (cr_response row) else None)"

text \<open>On a conflict of the key only the response and its expiry are replaced.\<close>

definition db_put_response :: "time \<Rightarrow> str \<Rightarrow> str \<Rightarrow> str \<Rightarrow> 'r \<Rightarrow> real \<Rightarrow> 'r db_cache \<Rightarrow> 'r db_cache" where
  "db_put_response now key provider query response ttl c =
     c\<lparr>dc_search :=
        (case dget (dc_search c) key of
           None \<Rightarrow> dput key \<lparr>cr_provider = provider, cr_query = take 2000 (redact_text query),
                             cr_response = response, cr_expires_at = now + ttl\<rparr> (dc_search c)
         | Some row \<Rightarrow> dput key (row\<lparr>cr_response := response, cr_expires_at := now + ttl\<rparr>) (dc_search c))\<rparr>"

definition db_get_embeddings :: "str list \<Rightarrow> 'r db_cache \<Rightarrow> (str, real list) dict" where
  "db_get_embeddings keys c =
     map (\<lambda>(k, row). (k, er_vector row)) (filter (\<lambda>(k, row). k \<in> set keys) (dc_embeddings c))"

text \<open>\<open>ON CONFLICT DO NOTHING\<close>: a vector that is stored stays.\<close>

definition db_put_embeddings :: "str \<Rightarrow> (str, real list) dict \<Rightarrow> 'r db_cache \<Rightarrow> 'r db_cache" where
  "db_put_embeddings model vectors c =
     c\<lparr>dc_embeddings := fold (\<lambda>(k, v) t. if dmem k t then t
           else dput k \<lparr>er_model = model, er_dimensions = length v, er_vector = v\<rparr> t)
        vectors (dc_embeddings c)\<rparr>"

definition db_purge_expired :: "time \<Rightarrow> 'r db_cache \<Rightarrow> 'r db_cache" where
  "db_purge_expired now c = c\<lparr>dc_search := filter (\<lambda>(k, row). \<not> cr_expires_at row < now) (dc_search c)\<rparr>"

section \<open>Sink and writer\<close>

text \<open>What a row of the timeline and an event in memory have in common: all but the run it belongs to.\<close>

definition mem_of_row :: "event_row \<Rightarrow> mem_event" where
  "mem_of_row e = \<lparr>me_seq = ev_seq e, me_level = ev_level e, me_node = ev_node e, me_type = ev_type e,
     me_message = ev_message e, me_data = ev_data e, me_iteration = ev_iteration e,
     me_span_id = ev_span_id e, me_parent_span_id = ev_parent_span_id e,
     me_latency_ms = ev_latency_ms e, me_tokens_in = ev_tokens_in e, me_tokens_out = ev_tokens_out e,
     me_cost_usd = ev_cost_usd e, me_error_code = ev_error_code e, me_expected = ev_expected e\<rparr>"

definition sink_of :: "event_writer \<Rightarrow> mem_sink" where
  "sink_of w = \<lparr>ms_run_id = wr_run_id w, ms_node = wr_node w, ms_iteration = wr_iteration w,
     ms_span_id = wr_span_id w, ms_parent_span_id = wr_parent_span_id w\<rparr>"

definition run_timeline :: "db \<Rightarrow> uuid \<Rightarrow> mem_event list" where
  "run_timeline d rid = map mem_of_row (filter (\<lambda>e. ev_run_id e = rid) (db_events d))"

text \<open>A call on a writer, and the same call on the sink.\<close>

datatype event_call = Emit_call event_writer str str event_level emit_args | Error_call event_writer agent_error

fun caller :: "event_call \<Rightarrow> event_writer" where
  "caller (Emit_call w t m l a) = w"
| "caller (Error_call w e) = w"

fun db_call :: "event_call \<Rightarrow> db \<Rightarrow> repo_error + db" where
  "db_call (Emit_call w t m l a) d = rbind (emit w t m l a d) (\<lambda>(n, d'). Inr d')"
| "db_call (Error_call w e) d = rbind (emit_error w e no_args d) (\<lambda>(n, d'). Inr d')"

fun mem_call :: "event_call \<Rightarrow> mem_event list \<Rightarrow> mem_event list" where
  "mem_call (Emit_call w t m l a) evs = snd (mem_emit (sink_of w) t m l a evs)"
| "mem_call (Error_call w e) evs = mem_error (sink_of w) e no_args evs"

text \<open>
  The two differ on errors: the row has the field \<open>retryable\<close> in its data and takes the iteration of
  the error, if it has one. \<open>same_event\<close> is equality up to that.
\<close>

definition drop_retryable :: "json \<Rightarrow> json" where
  "drop_retryable j = (case j of JObj kvs \<Rightarrow> JObj (filter (\<lambda>(k, v). k \<noteq> (lit ''retryable'')) kvs) | _ \<Rightarrow> j)"

definition same_event :: "mem_event \<Rightarrow> mem_event \<Rightarrow> bool" where
  "same_event row mem \<longleftrightarrow>
     (if me_type row = (lit ''error'')
      then row\<lparr>me_data := drop_retryable (me_data row), me_iteration := None\<rparr>
         = mem\<lparr>me_data := drop_retryable (me_data mem), me_iteration := None\<rparr>
      else row = mem)"

end
