(* ===== verification/Settings.thy ===== *)
theory Settings
  imports Prelude
begin

text \<open>
  The sections of \<open>Settings\<close> in \<open>config/schema.py\<close>: one record per section, its defaults, and the
  bounds the schema declares (\<open>ge\<close>, \<open>gt\<close>, \<open>le\<close>, \<open>Probability\<close>, the \<open>model_validator\<close>s) as a
  predicate. A count is a natural number: every integer field has a lower bound of at least 0.
\<close>

definition probability :: "real \<Rightarrow> bool" where
  "probability x = (0 \<le> x \<and> x \<le> 1)"

record budget_settings =
  bs_max_iterations :: nat
  bs_max_searches :: nat
  bs_max_wall_clock_seconds :: "nat option"
  bs_max_cost_usd :: "real option"
  bs_queries_per_subquestion_first_round :: nat
  bs_queries_per_gap_followup_round :: nat
  bs_max_queries_per_followup_round :: nat
  bs_stagnation_threshold :: nat

definition default_budget_settings :: budget_settings where
  "default_budget_settings = \<lparr>bs_max_iterations = 4,
     bs_max_searches = 45,
     bs_max_wall_clock_seconds = None,
     bs_max_cost_usd = None,
     bs_queries_per_subquestion_first_round = 3,
     bs_queries_per_gap_followup_round = 1,
     bs_max_queries_per_followup_round = 8,
     bs_stagnation_threshold = 2\<rparr>"

definition budget_settings_ok :: "budget_settings \<Rightarrow> bool" where
  "budget_settings_ok s = (1 \<le> bs_max_iterations s \<and> bs_max_iterations s \<le> 10
     \<and> 1 \<le> bs_max_searches s \<and> bs_max_searches s \<le> 200
     \<and> (case bs_max_wall_clock_seconds s of None \<Rightarrow> True | Some v \<Rightarrow> 30 \<le> v \<and> v \<le> 7200)
     \<and> (case bs_max_cost_usd s of None \<Rightarrow> True | Some v \<Rightarrow> 0 < v \<and> v \<le> 100)
     \<and> 1 \<le> bs_queries_per_subquestion_first_round s \<and> bs_queries_per_subquestion_first_round s \<le> 5
     \<and> 1 \<le> bs_queries_per_gap_followup_round s \<and> bs_queries_per_gap_followup_round s \<le> 3
     \<and> 1 \<le> bs_max_queries_per_followup_round s \<and> bs_max_queries_per_followup_round s \<le> 20
     \<and> 1 \<le> bs_stagnation_threshold s \<and> bs_stagnation_threshold s \<le> 5)"

record plan_settings =
  ps_min_subquestions :: nat
  ps_max_subquestions :: nat
  ps_max_facets_per_subquestion :: nat

definition default_plan_settings :: plan_settings where
  "default_plan_settings = \<lparr>ps_min_subquestions = 3,
     ps_max_subquestions = 6,
     ps_max_facets_per_subquestion = 5\<rparr>"

definition plan_settings_ok :: "plan_settings \<Rightarrow> bool" where
  "plan_settings_ok s = (1 \<le> ps_min_subquestions s \<and> ps_min_subquestions s \<le> 10
     \<and> 1 \<le> ps_max_subquestions s \<and> ps_max_subquestions s \<le> 12
     \<and> 1 \<le> ps_max_facets_per_subquestion s \<and> ps_max_facets_per_subquestion s \<le> 10
     \<and> ps_min_subquestions s \<le> ps_max_subquestions s)"

record fetch_settings =
  fs_top_k_first_round :: nat
  fs_top_k_followup_round :: nat
  fs_timeout_seconds :: real
  fs_retries :: nat
  fs_max_content_bytes :: nat

definition default_fetch_settings :: fetch_settings where
  "default_fetch_settings = \<lparr>fs_top_k_first_round = 5,
     fs_top_k_followup_round = 3,
     fs_timeout_seconds = 10,
     fs_retries = 1,
     fs_max_content_bytes = 2000000\<rparr>"

definition fetch_settings_ok :: "fetch_settings \<Rightarrow> bool" where
  "fetch_settings_ok s = (1 \<le> fs_top_k_first_round s \<and> fs_top_k_first_round s \<le> 20
     \<and> 1 \<le> fs_top_k_followup_round s \<and> fs_top_k_followup_round s \<le> 20
     \<and> 0 < fs_timeout_seconds s \<and> fs_timeout_seconds s \<le> 120
     \<and> fs_retries s \<le> 5
     \<and> 0 < fs_max_content_bytes s)"

record dedup_settings =
  ds_minhash_num_perm :: nat
  ds_minhash_shingle_size :: nat
  ds_minhash_jaccard_threshold :: real
  ds_claim_similarity_threshold :: real
  ds_claim_lexical_fallback_threshold :: real
  ds_query_similarity_threshold :: real
  ds_syndication_min_shared_quotes :: nat
  ds_syndication_min_quote_words :: nat

definition default_dedup_settings :: dedup_settings where
  "default_dedup_settings = \<lparr>ds_minhash_num_perm = 128,
     ds_minhash_shingle_size = 5,
     ds_minhash_jaccard_threshold = 4/5,
     ds_claim_similarity_threshold = 43/50,
     ds_claim_lexical_fallback_threshold = 7/10,
     ds_query_similarity_threshold = 9/10,
     ds_syndication_min_shared_quotes = 2,
     ds_syndication_min_quote_words = 12\<rparr>"

definition dedup_settings_ok :: "dedup_settings \<Rightarrow> bool" where
  "dedup_settings_ok s = (0 < ds_minhash_num_perm s
     \<and> 2 \<le> ds_minhash_shingle_size s \<and> ds_minhash_shingle_size s \<le> 12
     \<and> probability (ds_minhash_jaccard_threshold s)
     \<and> probability (ds_claim_similarity_threshold s)
     \<and> probability (ds_claim_lexical_fallback_threshold s)
     \<and> probability (ds_query_similarity_threshold s)
     \<and> 1 \<le> ds_syndication_min_shared_quotes s \<and> ds_syndication_min_shared_quotes s \<le> 10
     \<and> 5 \<le> ds_syndication_min_quote_words s \<and> ds_syndication_min_quote_words s \<le> 60)"

record scoring_weights =
  sw_authority :: real
  sw_primary :: real
  sw_recency :: real
  sw_relevance :: real

definition default_scoring_weights :: scoring_weights where
  "default_scoring_weights = \<lparr>sw_authority = 35/100,
     sw_primary = 25/100,
     sw_recency = 15/100,
     sw_relevance = 25/100\<rparr>"

definition scoring_weights_ok :: "scoring_weights \<Rightarrow> bool" where
  "scoring_weights_ok s = (probability (sw_authority s)
     \<and> probability (sw_primary s)
     \<and> probability (sw_recency s)
     \<and> probability (sw_relevance s)
     \<and> \<bar>sw_authority s + sw_primary s + sw_recency s + sw_relevance s - 1\<bar> \<le> 1 / 10^6)"

record scoring_settings =
  sc_weights :: scoring_weights
  sc_primary_source_min_score :: real
  sc_min_independent_origins :: nat
  sc_unknown_domain_tier :: nat

definition default_scoring_settings :: scoring_settings where
  "default_scoring_settings = \<lparr>sc_weights = default_scoring_weights,
     sc_primary_source_min_score = 7/10,
     sc_min_independent_origins = 2,
     sc_unknown_domain_tier = 3\<rparr>"

definition scoring_settings_ok :: "scoring_settings \<Rightarrow> bool" where
  "scoring_settings_ok s = (scoring_weights_ok (sc_weights s)
     \<and> probability (sc_primary_source_min_score s)
     \<and> 1 \<le> sc_min_independent_origins s \<and> sc_min_independent_origins s \<le> 5
     \<and> List.member [1, 2, 3] (sc_unknown_domain_tier s))"

record contradiction_settings =
  cs_numeric_relative_tolerance :: real
  cs_date_granularity_days :: nat

definition default_contradiction_settings :: contradiction_settings where
  "default_contradiction_settings = \<lparr>cs_numeric_relative_tolerance = 5/100,
     cs_date_granularity_days = 31\<rparr>"

definition contradiction_settings_ok :: "contradiction_settings \<Rightarrow> bool" where
  "contradiction_settings_ok s = (probability (cs_numeric_relative_tolerance s)
     \<and> cs_date_granularity_days s \<le> 366)"

record concurrency_settings =
  ks_max_parallel_searches :: nat
  ks_max_parallel_fetches :: nat
  ks_max_parallel_llm_calls :: nat
  ks_citation_verification_batch_size :: nat

definition default_concurrency_settings :: concurrency_settings where
  "default_concurrency_settings = \<lparr>ks_max_parallel_searches = 5,
     ks_max_parallel_fetches = 5,
     ks_max_parallel_llm_calls = 4,
     ks_citation_verification_batch_size = 10\<rparr>"

definition concurrency_settings_ok :: "concurrency_settings \<Rightarrow> bool" where
  "concurrency_settings_ok s = (1 \<le> ks_max_parallel_searches s \<and> ks_max_parallel_searches s \<le> 20
     \<and> 1 \<le> ks_max_parallel_fetches s \<and> ks_max_parallel_fetches s \<le> 20
     \<and> 1 \<le> ks_max_parallel_llm_calls s \<and> ks_max_parallel_llm_calls s \<le> 20
     \<and> 1 \<le> ks_citation_verification_batch_size s \<and> ks_citation_verification_batch_size s \<le> 50)"

record llm_settings =
  ls_reasoning_model :: str
  ls_fast_model :: str
  ls_allow_fallback :: bool
  ls_timeout_seconds :: real
  ls_retries :: nat
  ls_repair_retries :: nat

definition default_llm_settings :: llm_settings where
  "default_llm_settings = \<lparr>ls_reasoning_model = [],
     ls_fast_model = [],
     ls_allow_fallback = True,
     ls_timeout_seconds = 60,
     ls_retries = 2,
     ls_repair_retries = 1\<rparr>"

definition llm_settings_ok :: "llm_settings \<Rightarrow> bool" where
  "llm_settings_ok s = (0 < ls_timeout_seconds s \<and> ls_timeout_seconds s \<le> 600
     \<and> ls_retries s \<le> 5
     \<and> ls_repair_retries s \<le> 3)"

record search_settings =
  hs_timeout_seconds :: real
  hs_retries :: nat
  hs_results_per_query :: nat
  hs_cache_ttl_seconds :: nat

definition default_search_settings :: search_settings where
  "default_search_settings = \<lparr>hs_timeout_seconds = 15,
     hs_retries = 2,
     hs_results_per_query = 10,
     hs_cache_ttl_seconds = 86400\<rparr>"

definition search_settings_ok :: "search_settings \<Rightarrow> bool" where
  "search_settings_ok s = (0 < hs_timeout_seconds s \<and> hs_timeout_seconds s \<le> 120
     \<and> hs_retries s \<le> 5
     \<and> 1 \<le> hs_results_per_query s \<and> hs_results_per_query s \<le> 50
     \<and> 0 < hs_cache_ttl_seconds s)"

record pii_settings =
  pi_enabled :: bool
  pi_mask_question_person_names :: bool
  pi_presidio_timeout_seconds :: real
  pi_score_threshold :: real

definition default_pii_settings :: pii_settings where
  "default_pii_settings = \<lparr>pi_enabled = True,
     pi_mask_question_person_names = False,
     pi_presidio_timeout_seconds = 5,
     pi_score_threshold = 1/2\<rparr>"

definition pii_settings_ok :: "pii_settings \<Rightarrow> bool" where
  "pii_settings_ok s = (0 < pi_presidio_timeout_seconds s \<and> pi_presidio_timeout_seconds s \<le> 60
     \<and> probability (pi_score_threshold s))"

record gate_settings =
  gs_enabled :: bool
  gs_max_remediation_rounds :: nat

definition default_gate_settings :: gate_settings where
  "default_gate_settings = \<lparr>gs_enabled = True,
     gs_max_remediation_rounds = 1\<rparr>"

definition gate_settings_ok :: "gate_settings \<Rightarrow> bool" where
  "gate_settings_ok s = (gs_max_remediation_rounds s \<le> 3)"

record logging_settings =
  lg_level :: str
  lg_format :: str

definition default_logging_settings :: logging_settings where
  "default_logging_settings = \<lparr>lg_level = lit ''INFO'',
     lg_format = lit ''json''\<rparr>"

definition logging_settings_ok :: "logging_settings \<Rightarrow> bool" where
  "logging_settings_ok s = (List.member [lit ''DEBUG'', lit ''INFO'', lit ''WARNING'', lit ''ERROR''] (lg_level s)
     \<and> List.member [lit ''json'', lit ''console''] (lg_format s))"

record settings =
  st_budget :: budget_settings
  st_plan :: plan_settings
  st_fetch :: fetch_settings
  st_dedup :: dedup_settings
  st_scoring :: scoring_settings
  st_contradiction :: contradiction_settings
  st_concurrency :: concurrency_settings
  st_llm :: llm_settings
  st_search :: search_settings
  st_pii :: pii_settings
  st_gate :: gate_settings
  st_logging :: logging_settings

definition default_settings :: settings where
  "default_settings = \<lparr>st_budget = default_budget_settings,
     st_plan = default_plan_settings,
     st_fetch = default_fetch_settings,
     st_dedup = default_dedup_settings,
     st_scoring = default_scoring_settings,
     st_contradiction = default_contradiction_settings,
     st_concurrency = default_concurrency_settings,
     st_llm = default_llm_settings,
     st_search = default_search_settings,
     st_pii = default_pii_settings,
     st_gate = default_gate_settings,
     st_logging = default_logging_settings\<rparr>"

definition settings_ok :: "settings \<Rightarrow> bool" where
  "settings_ok s = (budget_settings_ok (st_budget s)
     \<and> plan_settings_ok (st_plan s)
     \<and> fetch_settings_ok (st_fetch s)
     \<and> dedup_settings_ok (st_dedup s)
     \<and> scoring_settings_ok (st_scoring s)
     \<and> contradiction_settings_ok (st_contradiction s)
     \<and> concurrency_settings_ok (st_concurrency s)
     \<and> llm_settings_ok (st_llm s)
     \<and> search_settings_ok (st_search s)
     \<and> pii_settings_ok (st_pii s)
     \<and> gate_settings_ok (st_gate s)
     \<and> logging_settings_ok (st_logging s))"

lemma default_settings_ok: "settings_ok default_settings"
  by (simp add: settings_ok_def default_settings_def probability_def
    budget_settings_ok_def default_budget_settings_def
    plan_settings_ok_def default_plan_settings_def
    fetch_settings_ok_def default_fetch_settings_def
    dedup_settings_ok_def default_dedup_settings_def
    scoring_weights_ok_def default_scoring_weights_def
    scoring_settings_ok_def default_scoring_settings_def
    contradiction_settings_ok_def default_contradiction_settings_def
    concurrency_settings_ok_def default_concurrency_settings_def
    llm_settings_ok_def default_llm_settings_def
    search_settings_ok_def default_search_settings_def
    pii_settings_ok_def default_pii_settings_def
    gate_settings_ok_def default_gate_settings_def
    logging_settings_ok_def default_logging_settings_def)

end
