(* ===== verification/Router.thy ===== *)
theory Router
  imports State Settings Numeric
begin

text \<open>
  \<open>agent/budget.py\<close> and \<open>agent/termination.py\<close>: the live counters, the hard limits, and the decision
  to stop or to search again. The reading of the monotonic clock is an argument \<open>now\<close>; \<open>repr\<close> is
  Python's shortest rendering of a float, used only in the detail text of a cost stop.
\<close>

section \<open>The budget meter\<close>

datatype budget_limit = L_ITERATIONS | L_SEARCHES | L_WALL_CLOCK | L_COST

fun limit_value :: "budget_limit \<Rightarrow> str" where
  "limit_value L_ITERATIONS = lit ''max_iterations''"
| "limit_value L_SEARCHES = lit ''max_searches''"
| "limit_value L_WALL_CLOCK = lit ''max_wall_clock_seconds''"
| "limit_value L_COST = lit ''max_cost_usd''"

record budget_meter =
  bm_settings :: budget_settings
  bm_started_at :: real
  bm_searches :: nat
  bm_llm_calls :: nat
  bm_tokens_in :: nat
  bm_tokens_out :: nat
  bm_cost_usd :: real
  bm_iteration :: nat

definition meter_init :: "budget_settings \<Rightarrow> real \<Rightarrow> budget_meter" where
  "meter_init s now = \<lparr>bm_settings = s, bm_started_at = now, bm_searches = 0, bm_llm_calls = 0,
     bm_tokens_in = 0, bm_tokens_out = 0, bm_cost_usd = 0, bm_iteration = 0\<rparr>"

definition elapsed_seconds :: "real \<Rightarrow> budget_meter \<Rightarrow> real" where
  "elapsed_seconds now m = now - bm_started_at m"

definition add_llm :: "nat \<Rightarrow> nat \<Rightarrow> real \<Rightarrow> budget_meter \<Rightarrow> budget_meter" where
  "add_llm tokens_in tokens_out cost m = m\<lparr>bm_llm_calls := bm_llm_calls m + 1,
     bm_tokens_in := bm_tokens_in m + tokens_in, bm_tokens_out := bm_tokens_out m + tokens_out,
     bm_cost_usd := bm_cost_usd m + cost\<rparr>"

definition add_search :: "nat \<Rightarrow> budget_meter \<Rightarrow> budget_meter" where
  "add_search count m = m\<lparr>bm_searches := bm_searches m + count\<rparr>"

text \<open>\<open>max(0, max_searches - searches)\<close>: natural subtraction stops at 0.\<close>

definition searches_left :: "budget_meter \<Rightarrow> nat" where
  "searches_left m = bs_max_searches (bm_settings m) - bm_searches m"

definition exceeded :: "real \<Rightarrow> budget_meter \<Rightarrow> budget_limit option" where
  "exceeded now m =
     (let s = bm_settings m
      in if bs_max_searches s \<le> bm_searches m then Some L_SEARCHES
         else if (case bs_max_wall_clock_seconds s of None \<Rightarrow> False | Some w \<Rightarrow> real w \<le> elapsed_seconds now m)
         then Some L_WALL_CLOCK
         else if (case bs_max_cost_usd s of None \<Rightarrow> False | Some c \<Rightarrow> c \<le> bm_cost_usd m) then Some L_COST
         else None)"

text \<open>\<open>int(x)\<close> of a non-negative stored number.\<close>

definition stored_nat :: "(str, real) dict \<Rightarrow> str \<Rightarrow> nat" where
  "stored_nat snap key = nat \<lfloor>dget_or snap key 0\<rfloor>"

definition meter_restore :: "real \<Rightarrow> (str, real) dict \<Rightarrow> budget_meter \<Rightarrow> budget_meter" where
  "meter_restore now snap m = m\<lparr>bm_searches := stored_nat snap (lit ''searches''),
     bm_llm_calls := stored_nat snap (lit ''llm_calls''), bm_tokens_in := stored_nat snap (lit ''tokens_in''),
     bm_tokens_out := stored_nat snap (lit ''tokens_out''), bm_cost_usd := dget_or snap (lit ''cost_usd'') 0,
     bm_iteration := stored_nat snap (lit ''iteration''),
     bm_started_at := now - dget_or snap (lit ''elapsed_seconds'') 0\<rparr>"

definition meter_snapshot :: "real \<Rightarrow> budget_meter \<Rightarrow> (str, real) dict" where
  "meter_snapshot now m =
     [(lit ''iteration'', real (bm_iteration m)), (lit ''searches'', real (bm_searches m)),
      (lit ''searches_left'', real (searches_left m)), (lit ''llm_calls'', real (bm_llm_calls m)),
      (lit ''tokens_in'', real (bm_tokens_in m)), (lit ''tokens_out'', real (bm_tokens_out m)),
      (lit ''cost_usd'', py_round (bm_cost_usd m) 6),
      (lit ''elapsed_seconds'', py_round (elapsed_seconds now m) 2)]"

section \<open>The router\<close>

record route_decision =
  de_stop :: bool
  de_reason :: "stop_reason option"
  de_rule :: str
  de_detail :: str

text \<open>\<open>f"{x:.nf}"\<close> of a non-negative number.\<close>

definition fmt_fixed :: "nat \<Rightarrow> real \<Rightarrow> str" where
  "fmt_fixed n x =
     (let k = nat (round_even (x * 10 ^ n))
      in dec (k div 10 ^ n) @ (if n = 0 then [] else [46] @ zpad n (k mod 10 ^ n)))"

definition limit_detail :: "(real \<Rightarrow> str) \<Rightarrow> real \<Rightarrow> budget_meter \<Rightarrow> budget_settings \<Rightarrow> budget_limit \<Rightarrow> str" where
  "limit_detail repr now m s limit =
     (case limit of
        L_SEARCHES \<Rightarrow> lit ''max_searches='' @ dec (bs_max_searches s) @ lit '' used''
      | L_WALL_CLOCK \<Rightarrow> lit ''max_wall_clock_seconds=''
          @ (case bs_max_wall_clock_seconds s of None \<Rightarrow> lit ''None'' | Some w \<Rightarrow> dec w)
          @ lit '' elapsed ('' @ fmt_fixed 0 (elapsed_seconds now m) @ lit ''s)''
      | L_COST \<Rightarrow> lit ''max_cost_usd=''
          @ (case bs_max_cost_usd s of None \<Rightarrow> lit ''None'' | Some c \<Rightarrow> repr c)
          @ lit '' spent ($'' @ fmt_fixed 4 (bm_cost_usd m) @ lit '')''
      | L_ITERATIONS \<Rightarrow> limit_value L_ITERATIONS)"

definition required :: "research_state \<Rightarrow> subquestion list" where
  "required st = (if must_subquestions st \<noteq> [] then must_subquestions st else rs_plan st)"

definition decide ::
  "(real \<Rightarrow> str) \<Rightarrow> real \<Rightarrow> research_state \<Rightarrow> budget_meter \<Rightarrow> budget_settings \<Rightarrow> route_decision" where
  "decide repr now st m s =
     (if required st \<noteq> [] \<and> list_all (\<lambda>q. sq_status q = SUFFICIENT) (required st) then
        \<lparr>de_stop = True, de_reason = Some R_SUFFICIENT, de_rule = lit ''success'',
         de_detail = lit ''all '' @ dec (length (required st)) @ lit '' required sub-questions are answered''\<rparr>
      else if bs_max_iterations s \<le> rs_iteration st then
        \<lparr>de_stop = True, de_reason = Some R_MAX_ITERATIONS, de_rule = lit ''hard_limit'',
         de_detail = lit ''max_iterations='' @ dec (bs_max_iterations s) @ lit '' reached''\<rparr>
      else case exceeded now m of
        Some limit \<Rightarrow>
          \<lparr>de_stop = True, de_reason = Some R_BUDGET, de_rule = lit ''hard_limit'',
           de_detail = limit_detail repr now m s limit\<rparr>
      | None \<Rightarrow>
          if open_subquestions st = [] then
            \<lparr>de_stop = True, de_reason = Some R_NO_PROGRESS, de_rule = lit ''no_progress'',
             de_detail = lit ''no open sub-questions left (remaining ones are exhausted)''\<rparr>
          else
            \<lparr>de_stop = False, de_reason = None, de_rule = lit ''gaps_remain'',
             de_detail = dec (length (open_subquestions st)) @ lit '' sub-question(s) still open: ''
               @ join (lit '', '') (map sq_id (open_subquestions st))\<rparr>)"

end
