(* ===== verification/LlmGateway.thy ===== *)
theory LlmGateway
  imports Sink Router
begin

text \<open>
  \<open>providers/llm/gateway.py\<close> and \<open>providers/llm/catalog.py\<close>: the one door every model call goes
  through. The providers, the parser of structured output and the stream of span ids are arguments
  (\<open>llm_env\<close>): the answer to the n-th provider call of the run may depend on n, so every sequence of
  answers is covered. Recording and tracing are best effort; the recorder here is the one that works.
  The \<open>while True\<close> of one provider is \<open>provider_loop\<close>, which ends because an attempt is only repeated
  while retries or repairs are left.
\<close>

section \<open>The model catalog\<close>

datatype tier = REASONING | FAST | EMBEDDING

fun tier_value :: "tier \<Rightarrow> str" where
  "tier_value REASONING = (lit ''reasoning'')"
| "tier_value FAST = (lit ''fast'')"
| "tier_value EMBEDDING = (lit ''embedding'')"

record price =
  pr_input :: real
  pr_output :: real
  pr_long :: "(nat \<times> real \<times> real) option"

record model_catalog =
  ct_chain :: "str list"
  ct_tiers :: "(tier, (str, str) dict) dict"
  ct_prices :: "(str, price) dict"
  ct_choices :: "(str, str) dict"

definition model_for :: "model_catalog \<Rightarrow> tier \<Rightarrow> str \<Rightarrow> str option" where
  "model_for c t provider = dget (dget_or (ct_tiers c) t []) provider"

definition model_cost :: "model_catalog \<Rightarrow> str \<Rightarrow> nat \<Rightarrow> nat \<Rightarrow> real" where
  "model_cost c model tokens_in tokens_out =
     (case dget (ct_prices c) model of
        None \<Rightarrow> 0
      | Some p \<Rightarrow>
          (case pr_long p of
             Some (limit, long_in, long_out) \<Rightarrow>
               if limit < tokens_in then (real tokens_in * long_in + real tokens_out * long_out) / 1000000
               else (real tokens_in * pr_input p + real tokens_out * pr_output p) / 1000000
           | None \<Rightarrow> (real tokens_in * pr_input p + real tokens_out * pr_output p) / 1000000))"

text \<open>The validator: every model has a price, every selectable model a provider of the chain.\<close>

definition catalog_ok :: "model_catalog \<Rightarrow> bool" where
  "catalog_ok c \<longleftrightarrow>
     list_all (\<lambda>m. dmem m (ct_prices c)) (concat (map dvals (dvals (ct_tiers c))))
   \<and> list_all (\<lambda>(m, p). List.member (ct_chain c) p \<and> dmem m (ct_prices c)) (ct_choices c)"

section \<open>Messages, providers, world\<close>

datatype role = System | User | Assistant

fun role_value :: "role \<Rightarrow> str" where
  "role_value System = (lit ''system'')"
| "role_value User = (lit ''user'')"
| "role_value Assistant = (lit ''assistant'')"

record completion =
  cm_text :: str
  cm_tokens_in :: nat
  cm_tokens_out :: nat
  cm_latency_ms :: nat

record provider_error =
  pe_code :: error_code
  pe_provider :: str
  pe_message :: str
  pe_retryable :: bool
  pe_status :: "nat option"

definition provider_error_str :: "provider_error \<Rightarrow> str" where
  "provider_error_str e = code_value (pe_code e) @ (lit '' from '') @ pe_provider e
     @ (case pe_status e of None \<Rightarrow> [] | Some n \<Rightarrow> if n = 0 then [] else (lit '' (HTTP '') @ dec n @ (lit '')''))
     @ (lit '': '') @ pe_message e"

type_synonym conversation = "(role \<times> str) list"

record 'v llm_env =
  le_complete :: "nat \<Rightarrow> str \<Rightarrow> str \<Rightarrow> conversation \<Rightarrow> provider_error + completion"
  le_parse :: "str \<Rightarrow> str + 'v"
  le_span :: "nat \<Rightarrow> str"

text \<open>
  What the calls of a run change: the timeline, the call log, the meter, the breaker, the models used,
  and, for the services beside the LLM gateway, how often each was asked (the index of its next
  answer), the search keys rejected, what was put into the caches, and why embeddings are off.
\<close>

record llm_world =
  lw_asked :: nat
  lw_timeline :: "mem_event list"
  lw_log :: call_log
  lw_meter :: budget_meter
  lw_slept :: "real list"
  lw_rejected :: "(str, str) dict"
  lw_models_used :: "(str, str) dict"
  lw_searched :: nat
  lw_search_rejected :: "(str, str) dict"
  lw_cache_reads :: nat
  lw_stored :: "(str \<times> str \<times> str \<times> json \<times> nat) list"
  lw_fetched :: nat
  lw_embedded :: nat
  lw_embedding_reads :: nat
  lw_vectors_stored :: "(str \<times> (str, real list) dict) list"
  lw_embedding_off :: "str option"

record llm_gateway =
  lg_providers :: "str list"
  lg_catalog :: model_catalog
  lg_settings :: llm_settings

definition lg_chain :: "llm_gateway \<Rightarrow> str list" where
  "lg_chain g = filter (List.member (lg_providers g)) (ct_chain (lg_catalog g))"

datatype llm_exception =
  Provider_failed provider_error
| LLM_failure agent_error
| LLM_keys_rejected agent_error
| Unknown_model str

record 'v llm_result =
  lr_value :: 'v
  lr_provider :: str
  lr_model :: str
  lr_tokens_in :: nat
  lr_tokens_out :: nat
  lr_cost_usd :: real
  lr_latency_ms :: nat
  lr_attempts :: nat
  lr_repaired :: bool
  lr_fallback_from :: "str option"

text \<open>The arguments of \<open>_with_provider\<close> that stay the same through its loop.\<close>

record call_site =
  cs_sink :: mem_sink
  cs_provider :: str
  cs_model :: str
  cs_tier :: tier
  cs_prompt_id :: "str option"
  cs_prompt_version :: "str option"
  cs_fallback_from :: "str option"
  cs_next_provider :: "str option"

definition gateway_error :: "error_code \<Rightarrow> mem_sink \<Rightarrow> str \<Rightarrow> str option \<Rightarrow> agent_error" where
  "gateway_error code k decision outcome =
     \<lparr>ae_code = code, ae_node = ms_node k, ae_decision = decision, ae_outcome = outcome,
      ae_run_id = None, ae_span_id = None, ae_iteration = None, ae_provider = None,
      ae_attempt = None, ae_cause = None\<rparr>"

definition say_error :: "mem_sink \<Rightarrow> agent_error \<Rightarrow> llm_world \<Rightarrow> llm_world" where
  "say_error k e w = w\<lparr>lw_timeline := mem_error k e no_args (lw_timeline w)\<rparr>"

section \<open>One provider\<close>

definition last_messages :: "conversation \<Rightarrow> json" where
  "last_messages conversation =
     JObj [((lit ''messages''), JList (map (\<lambda>(r, content).
        JObj [((lit ''role''), JStr (role_value r)), ((lit ''content''), JStr (take 2000 content))])
        (drop (length conversation - 2) conversation)))]"

definition record_call ::
  "str \<Rightarrow> call_site \<Rightarrow> nat \<Rightarrow> str \<Rightarrow> error_code option \<Rightarrow> completion option \<Rightarrow> conversation \<Rightarrow> real
     \<Rightarrow> llm_world \<Rightarrow> llm_world" where
  "record_call span_id s attempt status code completion conversation cost w =
     (let k = cs_sink s;
          r = \<lparr>lc_run_id = ms_run_id k, lc_span_id = span_id, lc_node = ms_node k,
               lc_iteration = ms_iteration k, lc_provider = cs_provider s, lc_model = cs_model s,
               lc_tier = tier_value (cs_tier s), lc_prompt_id = cs_prompt_id s,
               lc_prompt_version = cs_prompt_version s,
               lc_tokens_in = (case completion of None \<Rightarrow> 0 | Some c \<Rightarrow> cm_tokens_in c),
               lc_tokens_out = (case completion of None \<Rightarrow> 0 | Some c \<Rightarrow> cm_tokens_out c),
               lc_cost_usd = cost,
               lc_latency_ms = (case completion of None \<Rightarrow> 0 | Some c \<Rightarrow> cm_latency_ms c),
               lc_attempt = attempt, lc_fallback_from = cs_fallback_from s, lc_status = status,
               lc_error_code = code, lc_request = last_messages conversation,
               lc_response = (case completion of None \<Rightarrow> JNull
                              | Some c \<Rightarrow> JObj [((lit ''text''), JStr (take 4000 (cm_text c)))])\<rparr>;
          w' = w\<lparr>lw_log := record_llm_call r (lw_log w)\<rparr>
      in case completion of
           None \<Rightarrow> w'
         | Some c \<Rightarrow> w'\<lparr>lw_timeline := mem_debug k (lit ''llm_called'')
             (cs_provider s @ (lit '':'') @ cs_model s @ (lit '' '') @ status @ (lit '' ('') @ dec (cm_tokens_in c) @ (lit ''+'')
                @ dec (cm_tokens_out c) @ (lit '' tokens, $'') @ fmt_fixed 5 cost @ (lit '', '') @ dec (cm_latency_ms c)
                @ (lit '' ms)''))
             (no_args\<lparr>em_data := [((lit ''provider''), JStr (cs_provider s)), ((lit ''model''), JStr (cs_model s)),
                  ((lit ''tier''), JStr (tier_value (cs_tier s))), ((lit ''prompt''), opt_json (cs_prompt_id s)),
                  ((lit ''status''), JStr status)],
                em_latency_ms := Some (cm_latency_ms c), em_tokens_in := Some (cm_tokens_in c),
                em_tokens_out := Some (cm_tokens_out c), em_cost_usd := Some cost\<rparr>)
             (lw_timeline w')\<rparr>)"

definition retry_delay :: "nat \<Rightarrow> real" where
  "retry_delay attempts = min 8 (1 / 2 * 2 ^ (attempts - 1))"

definition repair_instruction :: "str \<Rightarrow> str" where
  "repair_instruction problem =
     (lit ''Your previous response could not be used.'') @ [10] @ (lit ''Problem: '') @ problem @ [10]
     @ (lit ''Reply again with ONLY a JSON object that satisfies the schema exactly. '')
     @ (lit ''Use null for optional fields you cannot fill. No prose, no code fences.'')"

text \<open>Tokens in, tokens out, cost and latency summed over the completions of the loop.\<close>

type_synonym totals = "nat \<times> nat \<times> real \<times> nat"

definition add_totals :: "completion \<Rightarrow> real \<Rightarrow> totals \<Rightarrow> totals" where
  "add_totals c cost t = (case t of (ti, to, co, la) \<Rightarrow>
     (ti + cm_tokens_in c, to + cm_tokens_out c, co + cost, la + cm_latency_ms c))"

definition provider_failure :: "call_site \<Rightarrow> nat \<Rightarrow> provider_error \<Rightarrow> agent_error" where
  "provider_failure s attempts e =
     gateway_error (pe_code e) (cs_sink s)
       (case cs_next_provider s of None \<Rightarrow> (lit ''give up'') | Some n \<Rightarrow> if n = [] then (lit ''give up'') else (lit ''fallback->'') @ n)
       (Some (cs_provider s @ (lit '' failed after '') @ dec attempts @ (lit '' attempt(s)'')))
       \<lparr>ae_provider := Some (cs_provider s), ae_attempt := Some attempts, ae_cause := Some (pe_message e)\<rparr>"

definition retry_notice :: "call_site \<Rightarrow> nat \<Rightarrow> nat \<Rightarrow> provider_error \<Rightarrow> agent_error" where
  "retry_notice s attempts attempt_limit e =
     gateway_error (pe_code e) (cs_sink s)
       ((lit ''retry in '') @ fmt_fixed 1 (retry_delay attempts) @ (lit ''s''))
       (Some ((lit ''attempt '') @ dec attempts @ (lit ''/'') @ dec attempt_limit))
       \<lparr>ae_provider := Some (cs_provider s), ae_attempt := Some attempts, ae_cause := Some (pe_message e)\<rparr>"

definition repair_notice :: "call_site \<Rightarrow> nat \<Rightarrow> str \<Rightarrow> agent_error" where
  "repair_notice s attempts problem =
     gateway_error LLM_INVALID_OUTPUT (cs_sink s) (lit ''repair with the validation error'')
       (Some (lit ''retrying once''))
       \<lparr>ae_provider := Some (cs_provider s), ae_attempt := Some attempts, ae_cause := Some (take 500 problem)\<rparr>"

definition repair_failure :: "call_site \<Rightarrow> nat \<Rightarrow> str \<Rightarrow> agent_error" where
  "repair_failure s attempts problem =
     gateway_error LLM_REPAIR_FAILED (cs_sink s) (lit ''use the node'' @ [39] @ lit ''s deterministic fallback'')
       (Some (take 300 problem))
       \<lparr>ae_provider := Some (cs_provider s), ae_attempt := Some attempts\<rparr>"

function provider_loop ::
  "'v llm_env \<Rightarrow> llm_gateway \<Rightarrow> call_site \<Rightarrow> nat \<Rightarrow> nat \<Rightarrow> bool \<Rightarrow> totals \<Rightarrow> conversation \<Rightarrow> llm_world
     \<Rightarrow> (llm_exception + 'v llm_result) \<times> llm_world" where
  "provider_loop env g s attempts0 repairs_left repaired totals conversation w =
     (let attempt_limit = ls_retries (lg_settings g) + 1;
          attempts = attempts0 + 1;
          span_id = le_span env (lw_asked w);
          answer = le_complete env (lw_asked w) (cs_provider s) (cs_model s) conversation;
          w1 = w\<lparr>lw_asked := lw_asked w + 1\<rparr>
      in case answer of
           Inl e \<Rightarrow>
             (let w2 = record_call span_id s attempts (lit ''error'') (Some (pe_code e)) None conversation 0 w1
              in if pe_retryable e \<and> attempts < attempt_limit
                 then provider_loop env g s attempts repairs_left repaired totals conversation
                        ((say_error (cs_sink s) (retry_notice s attempts attempt_limit e) w2)
                           \<lparr>lw_slept := lw_slept w2 @ [retry_delay attempts]\<rparr>)
                 else (Inl (Provider_failed e), say_error (cs_sink s) (provider_failure s attempts e) w2))
         | Inr c \<Rightarrow>
             (let cost = model_cost (lg_catalog g) (cs_model s) (cm_tokens_in c) (cm_tokens_out c);
                  w2 = w1\<lparr>lw_meter := add_llm (cm_tokens_in c) (cm_tokens_out c) cost (lw_meter w1)\<rparr>;
                  totals' = add_totals c cost totals
              in case le_parse env (cm_text c) of
                   Inl problem \<Rightarrow>
                     (let w3 = record_call span_id s attempts (lit ''invalid'') (Some LLM_INVALID_OUTPUT) (Some c)
                                 conversation cost w2
                      in if 0 < repairs_left
                         then provider_loop env g s attempts (repairs_left - 1) True totals'
                                (conversation @ [(Assistant, take 4000 (cm_text c)), (User, repair_instruction problem)])
                                (say_error (cs_sink s) (repair_notice s attempts problem) w3)
                         else (Inl (LLM_failure (repair_failure s attempts problem)),
                               say_error (cs_sink s) (repair_failure s attempts problem) w3))
                 | Inr v \<Rightarrow>
                     (Inr \<lparr>lr_value = v, lr_provider = cs_provider s, lr_model = cs_model s,
                          lr_tokens_in = fst totals', lr_tokens_out = fst (snd totals'),
                          lr_cost_usd = fst (snd (snd totals')), lr_latency_ms = snd (snd (snd totals')),
                          lr_attempts = attempts, lr_repaired = repaired,
                          lr_fallback_from = cs_fallback_from s\<rparr>,
                      record_call span_id s attempts (lit ''ok'') None (Some c) conversation cost w2)))"
  by pat_completeness auto
termination
  by (relation "measure (\<lambda>(env, g, s, attempts, repairs, _). (ls_retries (lg_settings g) + 1 - attempts) + repairs)") auto

declare provider_loop.simps [simp del]

definition with_provider ::
  "'v llm_env \<Rightarrow> llm_gateway \<Rightarrow> call_site \<Rightarrow> conversation \<Rightarrow> llm_world \<Rightarrow> (llm_exception + 'v llm_result) \<times> llm_world" where
  "with_provider env g s conversation w =
     provider_loop env g s 0 (ls_repair_retries (lg_settings g)) False (0, 0, 0, 0) conversation w"

section \<open>The chain\<close>

text \<open>\<open>selection\<close>: the provider and the model chosen for a tier; an unknown model is a \<open>KeyError\<close>.\<close>

definition selection :: "llm_gateway \<Rightarrow> tier \<Rightarrow> llm_exception + (str \<times> str) option" where
  "selection g t =
     (let model = (if t = REASONING then ls_reasoning_model (lg_settings g) else ls_fast_model (lg_settings g))
      in if model = [] then Inr None
         else (case dget (ct_choices (lg_catalog g)) model of
                 None \<Rightarrow> Inl (Unknown_model model)
               | Some provider \<Rightarrow> Inr (Some (provider, model))))"

definition keys_rejected :: "mem_sink \<Rightarrow> llm_world \<Rightarrow> llm_exception" where
  "keys_rejected k w =
     LLM_keys_rejected (gateway_error LLM_AUTH k (lit ''stop the run'')
       (Some ((lit ''Every LLM key was rejected - '')
          @ join (lit '', '') (map (\<lambda>(name, reason). name @ (lit '' ('') @ reason @ (lit '')'')) (lw_rejected w))
          @ (lit ''. Check the keys in Settings.''))))"

text \<open>The order of the providers for one call; the selected one first, alone without fallback.\<close>

definition call_chain :: "llm_gateway \<Rightarrow> (str \<times> str) option \<Rightarrow> str list" where
  "call_chain g selected =
     (let chain = (case selected of
                     None \<Rightarrow> lg_chain g
                   | Some (preferred, _) \<Rightarrow> preferred # filter (\<lambda>n. n \<noteq> preferred) (lg_chain g))
      in if ls_allow_fallback (lg_settings g) then chain else take 1 chain)"

definition all_failed :: "mem_sink \<Rightarrow> provider_error option \<Rightarrow> agent_error" where
  "all_failed k last_error =
     gateway_error (case last_error of None \<Rightarrow> LLM_PROVIDER_ERROR | Some e \<Rightarrow> pe_code e) k
       (lit ''every provider in the chain failed'') (map_option provider_error_str last_error)
       \<lparr>ae_provider := map_option pe_provider last_error\<rparr>"

definition fallback_used :: "mem_sink \<Rightarrow> str \<Rightarrow> str \<Rightarrow> str \<Rightarrow> agent_error" where
  "fallback_used k first_name name model =
     gateway_error LLM_FALLBACK_USED k ((lit ''fallback '') @ first_name @ (lit ''->'') @ name)
       (Some ((lit ''OK via '') @ model))\<lparr>ae_provider := Some name\<rparr>"

text \<open>The loop over the live providers, and what follows it when none answered.\<close>

fun try_providers ::
  "'v llm_env \<Rightarrow> llm_gateway \<Rightarrow> mem_sink \<Rightarrow> tier \<Rightarrow> str option \<Rightarrow> str option \<Rightarrow> conversation
     \<Rightarrow> (str \<times> str) option \<Rightarrow> str list \<Rightarrow> provider_error option \<Rightarrow> str list \<Rightarrow> llm_world
     \<Rightarrow> (llm_exception + 'v llm_result) \<times> llm_world" where
  "try_providers env g k t prompt_id prompt_version messages selected chain last_error [] w =
     (if list_all (\<lambda>n. dmem n (lw_rejected w)) chain then (Inl (keys_rejected k w), w)
      else (let failure = all_failed k last_error
            in (Inl (LLM_failure failure),
                say_error k (failure\<lparr>ae_decision := (lit ''use the node'' @ [39] @ lit ''s deterministic fallback'')\<rparr>) w)))"
| "try_providers env g k t prompt_id prompt_version messages selected chain last_error (name # live) w =
     (case (case selected of
              Some (preferred, m) \<Rightarrow> if name = preferred then Some m else model_for (lg_catalog g) t name
            | None \<Rightarrow> model_for (lg_catalog g) t name) of
        None \<Rightarrow> try_providers env g k t prompt_id prompt_version messages selected chain last_error live w
      | Some model \<Rightarrow>
          (let s = \<lparr>cs_sink = k, cs_provider = name, cs_model = model, cs_tier = t, cs_prompt_id = prompt_id,
                    cs_prompt_version = prompt_version,
                    cs_fallback_from = (if name \<noteq> hd chain then Some (hd chain) else None),
                    cs_next_provider = (case live of [] \<Rightarrow> None | n # _ \<Rightarrow> Some n)\<rparr>
           in case with_provider env g s messages w of
                (Inl (Provider_failed e), w1) \<Rightarrow>
                  try_providers env g k t prompt_id prompt_version messages selected chain (Some e) live
                    (if pe_code e = LLM_AUTH
                     then w1\<lparr>lw_rejected := dput name (pe_message e) (lw_rejected w1)\<rparr> else w1)
              | (Inl x, w1) \<Rightarrow> (Inl x, w1)
              | (Inr result, w1) \<Rightarrow>
                  (let w2 = w1\<lparr>lw_models_used := dput (tier_value t) (name @ (lit '':'') @ model) (lw_models_used w1)\<rparr>
                   in (Inr result,
                       if name \<noteq> hd chain then say_error k (fallback_used k (hd chain) name model) w2 else w2))))"

definition generate ::
  "'v llm_env \<Rightarrow> llm_gateway \<Rightarrow> mem_sink \<Rightarrow> tier \<Rightarrow> str option \<Rightarrow> str option \<Rightarrow> str \<Rightarrow> str \<Rightarrow> llm_world
     \<Rightarrow> (llm_exception + 'v llm_result) \<times> llm_world" where
  "generate env g k t prompt_id prompt_version system user w =
     (if lg_chain g = [] then
        (Inl (LLM_failure (gateway_error LLM_AUTH k (lit ''no LLM provider has a key'')
           (Some (lit ''add a Gemini or OpenAI key in Settings'')))), w)
      else case selection g t of
        Inl x \<Rightarrow> (Inl x, w)
      | Inr selected \<Rightarrow>
          (if (case selected of None \<Rightarrow> False | Some (preferred, _) \<Rightarrow> \<not> List.member (lg_providers g) preferred) then
             (Inl (LLM_keys_rejected (gateway_error LLM_AUTH k (lit ''stop before substituting a different model'')
                (case selected of None \<Rightarrow> None
                 | Some (preferred, model) \<Rightarrow> Some ((lit ''Selected '') @ model @ (lit '' requires a '') @ preferred
                     @ (lit '' key in Settings.''))))), w)
           else
             (let chain = call_chain g selected;
                  live = filter (\<lambda>n. \<not> dmem n (lw_rejected w)) chain
              in if live = [] then (Inl (keys_rejected k w), w)
                 else try_providers env g k t prompt_id prompt_version [(System, system), (User, user)]
                        selected chain None live w)))"

end
