(* ===== verification/Demo.thy ===== *)
theory Demo
  imports LlmGateway
begin

text \<open>A small concrete research state, at which the properties over states are instantiated.\<close>

definition demo_doc :: document where
  "demo_doc = \<lparr>d_id = lit ''d'', d_url = lit ''https://a.b/'', d_canonical_url = lit ''https://a.b/'',
     d_domain = lit ''a.b'', d_title = lit ''!'', d_snippet = [], d_content = [], d_content_hash = [],
     d_published_at = None, d_date_provenance = None, d_provider = None, d_subq_ids = [],
     d_query_ids = [], d_origin_id = lit ''o'', d_minhash = [], d_fetched = True, d_fetch_error = None,
     d_extracted = True, d_selected_round = None, d_triage_score = 0, d_score = default_score,
     d_first_seen_iteration = 1\<rparr>"

definition demo_cluster :: cluster where
  "demo_cluster = \<lparr>k_id = lit ''c'', k_subq_id = lit ''s'', k_claim_ids = [], k_doc_ids = [lit ''d''],
     k_origin_ids = [lit ''o''], k_facet_ids = [], k_statement = lit ''!'', k_entity = None,
     k_attribute = None, k_value = None, k_unit = None, k_as_of = None, k_kind = FACT,
     k_conditions = [], k_effective_from = None, k_effective_until = None,
     k_requires_fresh_confirmation = False, k_confidence = 1, k_best_source_score = 1,
     k_has_primary = True, k_status = K_SUPPORTED\<rparr>"

definition demo_state :: research_state where
  "demo_state = \<lparr>rs_run_id = 1, rs_question = lit ''!'', rs_language = lit ''en'', rs_as_of = 0,
     rs_analysis = \<lparr>an_language = lit ''en'', an_intent = [], an_entities = [],
       an_time_scope = \<lparr>ts_start = None, ts_end = None, ts_description = []\<rparr>, an_answer_type = [],
       an_domain = [], an_source_hints = [], an_skills = [], an_rationale = [], an_fallback = False\<rparr>,
     rs_plan = [], rs_queries = [], rs_documents = [(lit ''d'', demo_doc)], rs_claims = [],
     rs_clusters = [(lit ''c'', demo_cluster)], rs_contradictions = [], rs_iteration = 0,
     rs_stop_reason = None, rs_stop_detail = [], rs_skills = [], rs_report = None,
     rs_report_markdown = [], rs_gate_result = None, rs_verification = [], rs_heuristic_checks = [],
     rs_counters = [], rs_budget = [], rs_started_at = None, rs_pending_hits = [],
     rs_round_snapshot = [], rs_route = None, rs_resynthesized = False, rs_skill_domains = []\<rparr>"


text \<open>A sink and an untouched world of the gateways, at which properties of nodes are instantiated.\<close>

definition demo_sink :: mem_sink where
  "demo_sink = \<lparr>ms_run_id = 1, ms_node = lit ''agent'', ms_iteration = None, ms_span_id = None, ms_parent_span_id = None\<rparr>"

definition demo_world :: llm_world where
  "demo_world = \<lparr>lw_asked = 0, lw_timeline = [], lw_log = \<lparr>cl_llm_calls = [], cl_search_calls = []\<rparr>,
     lw_meter = meter_init default_budget_settings 0, lw_slept = [], lw_rejected = [], lw_models_used = [], lw_searched = 0,
     lw_search_rejected = [], lw_cache_reads = 0, lw_stored = [], lw_fetched = 0, lw_embedded = 0,
     lw_embedding_reads = 0, lw_vectors_stored = [], lw_embedding_off = None\<rparr>"

definition b_subquestion :: subquestion where
  "b_subquestion = \<lparr>sq_id = [115], sq_text = [], sq_priority = MUST, sq_facets = [], sq_expected_sources = [],
     sq_status = SEARCHING, sq_queries_tried = [], sq_rounds_without_progress = 0, sq_exhausted_reason = None\<rparr>"

end
