(* ===== verification/GateDemo.thy ===== *)
theory GateDemo
  imports GateProps NumericProps Demo
begin

text \<open>
  A concrete run of the gate: a report with a cited and an uncited fact. The uncited one is dropped,
  the source list rebuilt, the removal noted.
\<close>

definition demo_sentence :: "str list \<Rightarrow> sentence" where
  "demo_sentence cs = \<lparr>s_text = lit ''!'', s_kind = S_FACT, s_cluster_ids = cs, s_finding_refs = [],
     s_labels = []\<rparr>"

definition demo_report :: report where
  "demo_report = \<lparr>r_title = [], r_language = lit ''en'',
     r_sections = [\<lparr>sec_key = KEY_FINDINGS, sec_title = lit ''Key Findings'',
       sec_sentences = [demo_sentence [lit ''c''], demo_sentence []]\<rparr>],
     r_sources = [], r_fallback = False\<rparr>"

definition demo_config :: gate_config where
  "demo_config = \<lparr>gc_rules = map (\<lambda>r. (r, [])) RULES, gc_numeric_relative = 0,
     gc_date_granularity_days = 0, gc_percentage_absolute = 0, gc_required_sections = []\<rparr>"

lemma redact_mark: "redact_text [33] = [33]"
  by (rule redact_text_clean)
    (simp add: REDACT_RULES_def plain_rule_def checked_rule_def rx_eval google_key_rx_def
      google_aq_rx_def langfuse_rx_def openai_rx_def tavily_rx_def brave_rx_def bearer_rx_def
      database_url_rx_def iban_rx_def card_rx_def tckn_rx_def email_rx_def phone_rx_def ip_rx_def
      is_ascii_alnum_def key_char_def key_dot_char_def)

lemma language_mark: "detect_language [33] = [101, 110]"
    "detect_language [33, 32, 33] = [101, 110]"
  by (simp_all add: detect_language_def tokens_def tokens_all_def fold_text_def tr_fold_def
      token_char_def TR_MARKERS_def EN_MARKERS_def TR_CHARS_def STOPWORDS_def rx_eval str_lower_def)

lemma quantities_mark: "quantities_of [33] = Inr []"
  by (simp add: quantities_of_def language_mark extract_eval)

lemma canonical_mark:
  "canonicalize_url [104, 116, 116, 112, 115, 58, 47, 47, 97, 46, 98, 47]
     = Inr (Some [104, 116, 116, 112, 115, 58, 47, 47, 97, 46, 98, 47])"
  by (simp add: canonical_eval)

lemmas demo_defs = demo_report_def demo_state_def demo_config_def demo_sentence_def demo_cluster_def
  demo_doc_def

definition demo_kept :: report where
  "demo_kept = demo_report\<lparr>
     r_sections := [\<lparr>sec_key = KEY_FINDINGS, sec_title = lit ''Key Findings'',
       sec_sentences = [demo_sentence [lit ''c'']]\<rparr>],
     r_sources := [\<lparr>se_number = 1, se_doc_id = lit ''d'', se_url = lit ''https://a.b/'',
       se_title = lit ''!'', se_domain = lit ''a.b'', se_score = 0\<rparr>]\<rparr>"

lemmas rule_eval = evaluate_def RULES_def run_rule_def g1_sections_def g2_citations_def g3_ledger_def
  g4_numbers_def g4_sentence_def g5_contested_def g6_single_source_def g7_known_gaps_def g8_urls_def
  g9_sensitive_def g10_language_def g11_recommendations_def g12_evidence_eligibility_def
  addressed_def required_names_def plan_exhausted_def report_section_of_def cited_fact_def
  unknown_citations_def cited_doc_ids_def cluster_docs_def add_new_def dmem_def contested_ids_def
  only_single_def known_clusters_def map_filter_def report_body_def strip_def g12_sentence_def
  ineligible_def rejected_claims_def is_space_def

lemma demo_initial:
  "\<exists>v w. evaluate demo_report demo_state demo_config = Inr [v, w]
     \<and> v = at_sentence G2 True (lit ''factual sentence without a citation'') KEY_FINDINGS 1
             [(lit ''text'', JStr (lit ''!''))]
     \<and> v_rule w = G3 \<and> v_details w = [(lit ''doc_id'', JStr (lit ''d''))]"
  by (simp add: rule_eval demo_defs redact_mark language_mark quantities_mark at_report_def detail_text_def)

lemma demo_final: "evaluate demo_kept demo_state demo_config = Inr []"
  by (simp add: rule_eval demo_defs demo_kept_def redact_mark language_mark quantities_mark canonical_mark)

lemma demo_describe: "rmap (describe demo_config) RULES = Inr (map (\<lambda>r. (r, [])) RULES)"
  by (simp add: RULES_def describe_def demo_config_def)

lemma demo_remediate:
  assumes "v_rule w = G3" and "v_details w = [(lit ''doc_id'', JStr (lit ''d''))]"
  shows "\<exists>acts. remediate demo_report demo_state
       [at_sentence G2 True (lit ''factual sentence without a citation'') KEY_FINDINGS 1
             [(lit ''text'', JStr (lit ''!''))], w] (lit ''en'') = Inr (demo_kept, acts, 1)"
  using assms
  by (simp add: remediate_def fix_violation_def add_drop_def at_sentence_def detail_def
      demo_kept_def demo_defs drop_sentences_def kept_in_def drop_actions_def dropped_in_def
      rebuild_sources_def addressed_def cited_doc_ids_def cluster_docs_def dmem_def add_new_def
      source_url_def canonical_mark redact_mark default_score_def)

lemma demo_gate:
  "\<exists>out. run_gate demo_report demo_state demo_config 1 = Inr out
     \<and> go_verdict out = PASS_WITH_WARNINGS \<and> go_removed out = 1
     \<and> go_report out = add_note (lit ''en'') 1 demo_kept"
proof -
  obtain v w where vw: "evaluate demo_report demo_state demo_config = Inr [v, w]"
    "v = at_sentence G2 True (lit ''factual sentence without a citation'') KEY_FINDINGS 1
             [(lit ''text'', JStr (lit ''!''))]"
    "v_rule w = G3" "v_details w = [(lit ''doc_id'', JStr (lit ''d''))]"
    using demo_initial by blast
  have norm: "normalise_report demo_state demo_report = demo_report"
    by (simp add: normalise_report_def demo_defs plan_exhausted_def section_title_def)
  have rem: "remediable v" "remediable w"
    using vw(2,4) by (simp_all add: remediable_def detail_def at_sentence_def)
  obtain acts where "remediate demo_report demo_state [v, w] (rs_language demo_state) = Inr (demo_kept, acts, 1)"
    using demo_remediate[OF vw(3,4)] vw(2) by (auto simp: demo_state_def)
  with vw(1) rem show ?thesis
    by (simp add: run_gate_def norm demo_final demo_describe verdict_of_def Let_def)
       (simp add: demo_state_def)
qed

theorem gate_output_grounded_witness:
  "\<exists>out. run_gate demo_report demo_state demo_config 1 = Inr out \<and> go_removed out = 1
     \<and> (\<forall>(k, t)\<in>body (go_report out). s_kind t = S_FACT \<longrightarrow> s_cluster_ids t \<noteq> [])"
proof -
  obtain out where out: "run_gate demo_report demo_state demo_config 1 = Inr out" "go_removed out = 1"
    using demo_gate by blast
  have "distinct (keys_of demo_report)" by (simp add: keys_of_def demo_report_def)
  with gate_output_grounded[OF out(1)] out show ?thesis by fastforce
qed

theorem gate_verdict_witness:
  "\<exists>out. run_gate demo_report demo_state demo_config 1 = Inr out \<and> int (go_rounds out) \<le> 1
     \<and> (\<exists>t. (SUMMARY, t) \<in> body (go_report out) \<and> s_text t = drop_note (lit ''en'') 1)"
proof -
  obtain out where out: "run_gate demo_report demo_state demo_config 1 = Inr out" "go_removed out = 1"
    using demo_gate by blast
  moreover have "rs_language demo_state = lit ''en''" by (simp add: demo_state_def)
  ultimately show ?thesis using gate_verdict[OF out(1)] by fastforce
qed

theorem gate_pass_complete_witness:
  "\<exists>out. run_gate demo_report demo_state demo_config 1 = Inr out
     \<and> set (map se_doc_id (r_sources (go_report out))) = set (cited_doc_ids (go_report out) demo_state)"
proof -
  obtain out where out: "run_gate demo_report demo_state demo_config 1 = Inr out"
    "go_verdict out \<noteq> FAIL"
    using demo_gate by fastforce
  from gate_pass_complete[OF this] out(1) show ?thesis by blast
qed

end
