(* ===== verification/UnionFind.thy ===== *)
theory UnionFind
  imports Prelude
begin

text \<open>
  The \<open>parent\<close> dictionary with its local functions \<open>root\<close> and \<open>join\<close>, which
  \<open>clustering.independent_origin_keys\<close> and \<open>syndication.merge_syndicated_origins\<close> both write out. The
  larger of two roots is put under the smaller, so a parent is always smaller than its child; the
  \<open>while\<close> loop of \<open>root\<close> then visits each key at most once and the size of the dictionary is enough
  fuel (\<open>find_root_unfold\<close>). The interface the two callers rely on is the locale \<open>grouping\<close>.
\<close>

section \<open>The interface\<close>

locale grouping =
  fixes ok :: "'p \<Rightarrow> bool" and none :: 'p and rep :: "'p \<Rightarrow> 'a::linorder \<Rightarrow> 'a"
    and link :: "'a \<Rightarrow> 'a \<Rightarrow> 'p \<Rightarrow> 'p"
  assumes ok_none: "ok none" and rep_none: "rep none x = x"
    and ok_link: "ok p \<Longrightarrow> ok (link a b p)"
    and rep_rep: "ok p \<Longrightarrow> rep p (rep p x) = rep p x"
    and rep_le: "ok p \<Longrightarrow> rep p x \<le> x"
    and rep_link: "ok p \<Longrightarrow> rep (link a b p) x = rep (link a b p) y \<longleftrightarrow>
        rep p x = rep p y \<or> rep p x = rep p a \<and> rep p y = rep p b
        \<or> rep p x = rep p b \<and> rep p y = rep p a"
begin

text \<open>After a series of links, two elements have one representative iff the links connect them.\<close>

lemma ok_links: "ok p \<Longrightarrow> ok (fold (\<lambda>(a, b). link a b) es p)"
  by (induction es arbitrary: p) (auto simp: ok_link)

lemma links_mono:
  "ok p \<Longrightarrow> rep p x = rep p y \<Longrightarrow> rep (fold (\<lambda>(a, b). link a b) es p) x = rep (fold (\<lambda>(a, b). link a b) es p) y"
  by (induction es arbitrary: p) (auto simp: ok_link rep_link)

lemma links_edge:
  "ok p \<Longrightarrow> (a, b) \<in> set es \<Longrightarrow> rep (fold (\<lambda>(a, b). link a b) es p) a = rep (fold (\<lambda>(a, b). link a b) es p) b"
proof (induction es arbitrary: p)
  case (Cons e es)
  obtain c d where e: "e = (c, d)" by fastforce
  show ?case
  proof (cases "(a, b) = (c, d)")
    case True
    then have ab: "a = c" "b = d" by simp_all
    have "rep (link c d p) c = rep (link c d p) d" using Cons.prems(1) by (simp add: rep_link)
    then show ?thesis
      unfolding e ab by simp (rule links_mono[OF ok_link[OF Cons.prems(1)]])
  next
    case False
    with Cons.prems(2) e have "(a, b) \<in> set es" by auto
    from Cons.IH[OF ok_link[OF Cons.prems(1)] this] show ?thesis by (simp add: e)
  qed
qed simp

lemma links_only:
  "ok p \<Longrightarrow> rep (fold (\<lambda>(a, b). link a b) es p) x = rep (fold (\<lambda>(a, b). link a b) es p) y \<Longrightarrow>
     (x, y) \<in> ({(u, v). rep p u = rep p v} \<union> set es \<union> (set es)\<inverse>)\<^sup>*"
proof (induction es arbitrary: p)
  case (Cons e es)
  obtain c d where e: "e = (c, d)" by fastforce
  let ?R = "{(u, v). rep p u = rep p v} \<union> set (e # es) \<union> (set (e # es))\<inverse>"
  have step: "(u, v) \<in> ?R\<^sup>*" if "rep (link c d p) u = rep (link c d p) v" for u v
  proof -
    have e1: "(u', v') \<in> ?R" if "rep p u' = rep p v'" for u' v' using that by simp
    have cd: "(c, d) \<in> ?R" "(d, c) \<in> ?R" by (simp_all add: e)
    from that Cons.prems(1) consider "rep p u = rep p v" | "rep p u = rep p c" "rep p d = rep p v"
      | "rep p u = rep p d" "rep p c = rep p v" by (auto simp: rep_link)
    then show ?thesis
    proof cases
      case 1 then show ?thesis using e1 by blast
    next
      case 2
      have "(u, c) \<in> ?R" "(d, v) \<in> ?R" using 2 e1 by blast+
      with cd(1) show ?thesis by (blast intro: rtrancl_trans)
    next
      case 3
      have "(u, d) \<in> ?R" "(c, v) \<in> ?R" using 3 e1 by blast+
      with cd(2) show ?thesis by (blast intro: rtrancl_trans)
    qed
  qed
  have "(x, y) \<in> ({(u, v). rep (link c d p) u = rep (link c d p) v} \<union> set es \<union> (set es)\<inverse>)\<^sup>*"
    using Cons.IH[OF ok_link[OF Cons.prems(1)]] Cons.prems(2) by (simp add: e)
  moreover have "{(u, v). rep (link c d p) u = rep (link c d p) v} \<union> set es \<union> (set es)\<inverse> \<subseteq> ?R\<^sup>*"
    using step by auto
  ultimately show ?case by (rule rtrancl_subset_rtrancl[THEN subsetD, rotated])
qed auto

lemma same_links:
  "rep (fold (\<lambda>(a, b). link a b) es none) x = rep (fold (\<lambda>(a, b). link a b) es none) y \<longleftrightarrow>
     (x, y) \<in> (set es \<union> (set es)\<inverse>)\<^sup>*"
proof
  assume "rep (fold (\<lambda>(a, b). link a b) es none) x = rep (fold (\<lambda>(a, b). link a b) es none) y"
  then have "(x, y) \<in> ({(u, v). rep none u = rep none v} \<union> set es \<union> (set es)\<inverse>)\<^sup>*"
    by (rule links_only[OF ok_none])
  moreover have "{(u, v). rep none u = rep none v} \<union> set es \<union> (set es)\<inverse> \<subseteq> (set es \<union> (set es)\<inverse>)\<^sup>*"
    by (auto simp: rep_none)
  ultimately show "(x, y) \<in> (set es \<union> (set es)\<inverse>)\<^sup>*"
    by (rule rtrancl_subset_rtrancl[THEN subsetD, rotated])
next
  assume "(x, y) \<in> (set es \<union> (set es)\<inverse>)\<^sup>*"
  then show "rep (fold (\<lambda>(a, b). link a b) es none) x = rep (fold (\<lambda>(a, b). link a b) es none) y"
    by induction (use links_edge[OF ok_none] in force)+
qed

text \<open>The representative is the least member of its group, so the order of the links is irrelevant.\<close>

lemma rep_links_order:
  assumes "set es = set es'"
  shows "rep (fold (\<lambda>(a, b). link a b) es none) x = rep (fold (\<lambda>(a, b). link a b) es' none) x"
proof -
  let ?p = "fold (\<lambda>(a, b). link a b) es none" and ?p' = "fold (\<lambda>(a, b). link a b) es' none"
  have ok: "ok ?p" "ok ?p'" using ok_links ok_none by blast+
  have same: "rep ?p u = rep ?p v \<longleftrightarrow> rep ?p' u = rep ?p' v" for u v
    unfolding same_links assms by simp
  have "rep ?p x = rep ?p (rep ?p x)" using rep_rep[OF ok(1)] by simp
  then have "rep ?p' x = rep ?p' (rep ?p x)" using same by blast
  then have "rep ?p' x \<le> rep ?p x" using rep_le[OF ok(2)] by metis
  moreover have "rep ?p' x = rep ?p' (rep ?p' x)" using rep_rep[OF ok(2)] by simp
  then have "rep ?p x = rep ?p (rep ?p' x)" using same by blast
  then have "rep ?p x \<le> rep ?p' x" using rep_le[OF ok(1)] by metis
  ultimately show ?thesis by simp
qed

end

section \<open>The dictionary of parents\<close>

fun root_fuel :: "nat \<Rightarrow> (str, str) dict \<Rightarrow> str \<Rightarrow> str" where
  "root_fuel 0 parent node = node"
| "root_fuel (Suc n) parent node =
     (let p = dget_or parent node node in if p = node then node else root_fuel n parent p)"

definition find_root :: "(str, str) dict \<Rightarrow> str \<Rightarrow> str" where
  "find_root parent node = root_fuel (length parent) parent node"

definition join_roots :: "str \<Rightarrow> str \<Rightarrow> (str, str) dict \<Rightarrow> (str, str) dict" where
  "join_roots left right parent =
     (let a = find_root parent left; b = find_root parent right
      in if a \<noteq> b then dput (max a b) (min a b) parent else parent)"

definition descending :: "(str, str) dict \<Rightarrow> bool" where
  "descending parent \<longleftrightarrow> (\<forall>x p. dget parent x = Some p \<longrightarrow> p < x)"

text \<open>The keys a climb from \<open>x\<close> can still meet.\<close>

definition rank :: "(str, str) dict \<Rightarrow> str \<Rightarrow> nat" where
  "rank parent x = card {y \<in> set (dkeys parent). y \<le> x}"

lemma rank_less:
  assumes "descending parent" and "dget parent x = Some p"
  shows "rank parent p < rank parent x"
  unfolding rank_def
proof (rule psubset_card_mono)
  have "p < x" using assms by (simp add: descending_def)
  moreover have "x \<in> set (dkeys parent)" using assms(2) by (force dest: map_of_SomeD)
  ultimately have "x \<in> {y \<in> set (dkeys parent). y \<le> x} - {y \<in> set (dkeys parent). y \<le> p}"
    by auto
  moreover have "{y \<in> set (dkeys parent). y \<le> p} \<subseteq> {y \<in> set (dkeys parent). y \<le> x}"
    using \<open>p < x\<close> by (auto intro: order_trans[OF _ less_imp_le])
  ultimately show "{y \<in> set (dkeys parent). y \<le> p} \<subset> {y \<in> set (dkeys parent). y \<le> x}"
    by blast
qed simp

lemma rank_le: "rank parent x \<le> length parent"
proof -
  have "rank parent x \<le> card (set (dkeys parent))"
    unfolding rank_def by (rule card_mono) auto
  also have "\<dots> \<le> length parent" by (metis card_length length_map)
  finally show ?thesis .
qed

lemma root_fuel_enough:
  assumes "descending parent"
  shows "rank parent x \<le> n \<Longrightarrow> rank parent x \<le> m \<Longrightarrow> root_fuel n parent x = root_fuel m parent x"
proof (induction n arbitrary: m x)
  case 0
  then have "dget parent x = None" using rank_less[OF assms, of x] by fastforce
  then show ?case by (cases m) (simp_all add: dget_or_def)
next
  case (Suc n)
  show ?case
  proof (cases "dget parent x")
    case None
    then show ?thesis by (cases m) (simp_all add: dget_or_def)
  next
    case (Some p)
    from rank_less[OF assms Some] Suc.prems obtain m' where m: "m = Suc m'"
      "rank parent p \<le> n" "rank parent p \<le> m'" by (cases m) auto
    from Suc.IH[OF m(2,3)] m(1) Some show ?thesis by (simp add: dget_or_def Let_def)
  qed
qed

lemma find_root_unfold:
  assumes "descending parent"
  shows "find_root parent x = (case dget parent x of None \<Rightarrow> x | Some p \<Rightarrow> find_root parent p)"
proof (cases "dget parent x")
  case None
  then show ?thesis by (cases "length parent") (simp_all add: find_root_def dget_or_def)
next
  case (Some p)
  have "p \<noteq> x" using assms Some by (auto simp: descending_def)
  have "rank parent p \<le> length parent - 1"
    using rank_less[OF assms Some] rank_le[of parent x] by simp
  moreover from Some obtain n where "length parent = Suc n" by (cases parent) auto
  ultimately have "find_root parent x = root_fuel n parent p" "rank parent p \<le> n"
    using Some \<open>p \<noteq> x\<close> by (simp_all add: find_root_def dget_or_def Let_def)
  moreover have "root_fuel n parent p = find_root parent p"
    unfolding find_root_def by (rule root_fuel_enough[OF assms]) (use rank_le calculation in auto)
  ultimately show ?thesis using Some by simp
qed

lemma find_root_induct [consumes 1, case_names step]:
  assumes "descending parent"
    and "\<And>x. (\<And>p. dget parent x = Some p \<Longrightarrow> P p) \<Longrightarrow> P x"
  shows "P x"
proof (induction "rank parent x" arbitrary: x rule: less_induct)
  case less
  then show ?case using assms(2) rank_less[OF assms(1)] by blast
qed

lemma find_root_is_root:
  assumes d: "descending parent"
  shows "dget parent (find_root parent x) = None"
  using d
proof (induction x rule: find_root_induct)
  case (step x)
  then show ?case by (cases "dget parent x") (simp_all add: find_root_unfold[OF d, of x])
qed

lemma find_root_root: "descending parent \<Longrightarrow> dget parent x = None \<Longrightarrow> find_root parent x = x"
  by (simp add: find_root_unfold)

lemma find_root_le:
  assumes d: "descending parent"
  shows "find_root parent x \<le> x"
  using d
proof (induction x rule: find_root_induct)
  case (step x)
  show ?case
  proof (cases "dget parent x")
    case (Some p)
    then have "find_root parent p \<le> p" and "p < x" using step d by (auto simp: descending_def)
    then show ?thesis using Some by (simp add: find_root_unfold[OF d, of x])
  qed (simp add: find_root_unfold[OF d, of x])
qed

text \<open>Linking changes exactly the representative of the group that is put under the other.\<close>

lemma descending_link:
  "descending parent \<Longrightarrow> dget parent hi = None \<Longrightarrow> lo < hi \<Longrightarrow> descending (dput hi lo parent)"
  by (auto simp: descending_def)

lemma find_root_link:
  assumes "descending parent" and "dget parent hi = None" "dget parent lo = None" and "lo < hi"
  shows "find_root (dput hi lo parent) x = (if find_root parent x = hi then lo else find_root parent x)"
  using assms(1)
proof (induction x rule: find_root_induct)
  case (step x)
  note desc = descending_link[OF assms(1,2,4)]
  have lo: "find_root (dput hi lo parent) lo = lo"
    using assms by (intro find_root_root[OF desc]) auto
  show ?case
  proof (cases "dget parent x")
    case None
    then show ?thesis
      using lo assms find_root_root[OF assms(1) None]
      by (simp add: find_root_unfold[OF desc, of x])
  next
    case (Some p)
    moreover from this assms(2) have "x \<noteq> hi" by auto
    ultimately show ?thesis
      using step(1)[of p] by (simp add: find_root_unfold[OF desc, of x] find_root_unfold[OF assms(1), of x])
  qed
qed

lemma find_root_join:
  assumes "descending parent"
  shows "descending (join_roots a b parent)"
    and "find_root (join_roots a b parent) x =
      (if find_root parent x = max (find_root parent a) (find_root parent b)
       then min (find_root parent a) (find_root parent b) else find_root parent x)"
proof -
  let ?a = "find_root parent a" and ?b = "find_root parent b"
  have roots: "dget parent ?a = None" "dget parent ?b = None"
    using find_root_is_root[OF assms] by simp_all
  have "?a \<noteq> ?b \<Longrightarrow> dget parent (max ?a ?b) = None \<and> dget parent (min ?a ?b) = None \<and> min ?a ?b < max ?a ?b"
    using roots by (auto simp: max_def min_def)
  then show "descending (join_roots a b parent)"
    and "find_root (join_roots a b parent) x =
      (if find_root parent x = max ?a ?b then min ?a ?b else find_root parent x)"
    using assms descending_link[OF assms] find_root_link[OF assms]
    by (auto simp: join_roots_def Let_def)
qed

interpretation parents: grouping descending "[]" find_root join_roots
proof unfold_locales
  show "descending []" by (simp add: descending_def)
  show "find_root [] x = x" for x by (simp add: find_root_def)
next
  fix parent :: "(str, str) dict" and a b x y
  assume d: "descending parent"
  show "descending (join_roots a b parent)" by (rule find_root_join(1)[OF d])
  show "find_root parent (find_root parent x) = find_root parent x"
    by (rule find_root_root[OF d find_root_is_root[OF d]])
  show "find_root parent x \<le> x" by (rule find_root_le[OF d])
  show "find_root (join_roots a b parent) x = find_root (join_roots a b parent) y \<longleftrightarrow>
      find_root parent x = find_root parent y
      \<or> find_root parent x = find_root parent a \<and> find_root parent y = find_root parent b
      \<or> find_root parent x = find_root parent b \<and> find_root parent y = find_root parent a"
    unfolding find_root_join(2)[OF d] by (auto simp: max_def min_def)
qed

end
