(* ===== verification/Clustering.thy ===== *)
theory Clustering
  imports UnionFind Settings Numeric State Urls
begin

text \<open>
  \<open>agent/clustering.py\<close>: claims that state one fact become one cluster, and the support of a cluster
  is the number of independent origins behind it. The loop over the new claims is \<open>place_all\<close>, one
  iteration \<open>place\<close>; \<open>best_cluster\<close> is the search for the cluster it joins. A result is \<open>Inl\<close> when
  quantity extraction raises (\<open>values_conflict\<close>) or a claim of the ledger is missing.
\<close>

section \<open>Entities\<close>

definition suffixes_rx :: rx where
  "suffixes_rx = seqs [WordB, alts
     [seqs [ich 97, opt (ch 46), opt rspace, ich 351, opt (ch 46)],
      seqs [irlit (lit ''inc''), opt (ch 46)], seqs [irlit (lit ''ltd''), opt (ch 46)], irlit (lit ''llc''),
      irlit (lit ''gmbh''), seqs [irlit (lit ''corp''), opt (ch 46)], seqs [irlit (lit ''co''), opt (ch 46)],
      irlit (lit ''plc''), seqs [ich 115, opt (ch 46), ich 97, opt (ch 46)], irlit (lit ''as'')], Eos]"

definition articles_rx :: rx where
  "articles_rx = seqs [Bos, alts [irlit (lit ''the''), irlit (lit ''a''), irlit (lit ''an'')], plus rspace]"

text \<open>\<open>_ARTICLES.sub("", s)\<close>, \<open>_SUFFIXES.sub("", s)\<close>, \<open>rstrip(",. ")\<close>.\<close>

definition drop_articles :: "str \<Rightarrow> str" where
  "drop_articles s = sub articles_rx (\<lambda>_. []) s"

definition drop_suffixes :: "str \<Rightarrow> str" where
  "drop_suffixes s = sub suffixes_rx (\<lambda>_. []) s"

definition rstrip_punct :: "str \<Rightarrow> str" where
  "rstrip_punct s = rstrip_set {44, 46, 32} s"

definition strip_once :: "str \<Rightarrow> str" where
  "strip_once s = rstrip_punct (strip (drop_suffixes s))"

text \<open>The \<open>while previous != cleaned\<close> loop: a pass that changes something shortens the name.\<close>

fun strip_all :: "nat \<Rightarrow> str \<Rightarrow> str" where
  "strip_all 0 s = s"
| "strip_all (Suc n) s = (if strip_once s = s then s else strip_all n (strip_once s))"

definition normalise_entity :: "str option \<Rightarrow> str option" where
  "normalise_entity name =
     (if given name = [] then None
      else let cleaned = rstrip_punct (drop_articles (strip (fold_text (given name))));
               compact = filter is_word (strip_all (length cleaned) cleaned)
           in if compact = [] then None else Some compact)"

definition GENERIC_ENTITY_WORDS :: "str list" where
  "GENERIC_ENTITY_WORDS = [lit ''market'', lit ''markets'', lit ''industry'', lit ''sector'', lit ''pazar'',
     lit ''pazari'', lit ''sektor'', lit ''sekt'' @ [246] @ lit ''r'', lit ''sekt'' @ [246] @ lit ''r'' @ [252]]"

definition entity_words :: "str option \<Rightarrow> str list" where
  "entity_words name =
     (if given name = [] then []
      else fromkeys (filter (\<lambda>w. \<not> List.member GENERIC_ENTITY_WORDS w)
             (tokens (drop_suffixes (rstrip_punct (drop_articles (strip (fold_text (given name)))))) False)))"

definition same_word :: "str \<Rightarrow> str \<Rightarrow> bool" where
  "same_word left right =
     (if left = right then True
      else let (shorter, longer) = (if length left \<le> length right then (left, right) else (right, left))
           in 4 \<le> length shorter \<and> starts_with longer shorter)"

definition covered :: "str list \<Rightarrow> str list \<Rightarrow> bool" where
  "covered small large = (small \<noteq> [] \<and> list_all (\<lambda>a. list_ex (same_word a) large) small)"

definition entities_equivalent :: "str option \<Rightarrow> str option \<Rightarrow> bool" where
  "entities_equivalent left right =
     (case (normalise_entity left, normalise_entity right) of
        (Some a, Some b) \<Rightarrow>
          a = b \<or> covered (entity_words left) (entity_words right)
                  \<and> covered (entity_words right) (entity_words left)
      | _ \<Rightarrow> False)"

definition entity_contains :: "str option \<Rightarrow> str option \<Rightarrow> bool" where
  "entity_contains left right =
     (let l = entity_words left; r = entity_words right;
          (small, large) = (if length l \<le> length r then (l, r) else (r, l))
      in length small = 1 \<and> covered small large)"

definition entities_compatible :: "str option \<Rightarrow> str option \<Rightarrow> bool" where
  "entities_compatible left right =
     (case (normalise_entity left, normalise_entity right) of
        (Some a, Some b) \<Rightarrow> starts_with a b \<or> starts_with b a \<or> entities_equivalent left right
      | _ \<Rightarrow> True)"

section \<open>Values\<close>

definition SCALE_WORDS :: "str list" where
  "SCALE_WORDS = [lit ''thousand'', lit ''million'', lit ''billion'', lit ''trillion'', lit ''bn'', lit ''mn'', lit ''bin'',
     lit ''milyon'', lit ''milyar'', lit ''trilyon'']"

definition SYMBOLS :: "(str, str) dict" where
  "SYMBOLS = [(lit ''usd'', lit ''$''), (lit ''dollars'', lit ''$''), (lit ''eur'', [8364]), (lit ''euro'', [8364]),
     (lit ''gbp'', [163]), (lit ''try'', [8378]), (lit ''tl'', [8378])]"

definition value_text :: "str option \<Rightarrow> str option \<Rightarrow> str" where
  "value_text val un =
     (let v = given val; u = given un
      in if v = [] then []
         else if u = [] then v
         else let written = split_ws (fold_text v);
                  words = filter (\<lambda>w. \<not> List.member written (fold_text w)
                            \<and> \<not> contains v (dget_or SYMBOLS (fold_text w) [0])) (split_ws u);
                  scale = filter (\<lambda>w. List.member SCALE_WORDS (fold_text w)) words;
                  rest = filter (\<lambda>w. \<not> List.member SCALE_WORDS (fold_text w)) words
              in join [32] (v # scale @ rest))"

definition dot :: "real list \<Rightarrow> real list \<Rightarrow> real" where
  "dot left right = sum_list (map2 (*) left right)"

definition cosine :: "real list \<Rightarrow> real list \<Rightarrow> real" where
  "cosine left right =
     (let norm = sqrt (dot left left) * sqrt (dot right right)
      in if norm \<noteq> 0 then dot left right / norm else 0)"

text \<open>\<open>_quantity_text\<close> of a claim and of a cluster.\<close>

definition claim_quantity_text :: "claim \<Rightarrow> str" where
  "claim_quantity_text c =
     (if given (c_value c) \<noteq> [] then value_text (c_value c) (c_unit c) else c_text c)"

definition cluster_quantity_text :: "cluster \<Rightarrow> str" where
  "cluster_quantity_text k =
     (if given (k_value k) \<noteq> [] then value_text (k_value k) (k_unit k) else [])"

text \<open>\<open>values_conflict\<close> on the two texts.\<close>

definition texts_conflict :: "str \<Rightarrow> str \<Rightarrow> numeric_error + bool" where
  "texts_conflict left right =
     rbind (extract_quantities left (lit ''en'')) (\<lambda>a.
     rbind (extract_quantities right (lit ''en'')) (\<lambda>b.
       Inr (a \<noteq> [] \<and> b \<noteq> [] \<and>
            \<not> list_ex (\<lambda>x. list_ex (quantities_match (2/100) (1/2) 31 x) b) a)))"

definition values_conflict :: "claim \<Rightarrow> claim \<Rightarrow> numeric_error + bool" where
  "values_conflict left right = texts_conflict (claim_quantity_text left) (claim_quantity_text right)"

section \<open>Independent origins\<close>

text \<open>The keys \<open>f"origin:..."\<close> and \<open>f"site:..."\<close> of a claim, and the links the first loop makes.\<close>

definition origin_node :: "claim \<Rightarrow> str" where
  "origin_node c = lit ''origin:'' @ c_origin_id c"

definition site_links :: "claim list \<Rightarrow> (str, document) dict \<Rightarrow> (str \<times> str) list" where
  "site_links members documents = List.map_filter (\<lambda>c.
     case dget documents (c_doc_id c) of
       None \<Rightarrow> None
     | Some d \<Rightarrow> if d_domain d = [] then None
                 else Some (origin_node c, lit ''site:'' @ site_of (d_domain d))) members"

definition origin_parents :: "claim list \<Rightarrow> (str, document) dict \<Rightarrow> (str, str) dict" where
  "origin_parents members documents =
     fold (\<lambda>(a, b). join_roots a b) (site_links members documents) []"

definition origin_group :: "claim list \<Rightarrow> (str, document) dict \<Rightarrow> claim \<Rightarrow> str" where
  "origin_group members documents c = find_root (origin_parents members documents) (origin_node c)"

definition setdefault :: "'k \<Rightarrow> 'v \<Rightarrow> ('k, 'v) dict \<Rightarrow> ('k, 'v) dict" where
  "setdefault k v d = (if dmem k d then d else dput k v d)"

definition said_key :: "claim \<Rightarrow> str" where
  "said_key c = lit ''said:'' @ (case normalise_entity (c_attributed_to c) of None \<Rightarrow> lit ''None'' | Some e \<Rightarrow> e)"

text \<open>The two loops that name the groups.\<close>

definition said_pass :: "(claim \<Rightarrow> str) \<Rightarrow> claim list \<Rightarrow> (str, str) dict" where
  "said_pass grp members = fold (\<lambda>c d. if given (c_attributed_to c) \<noteq> [] then setdefault (grp c) (said_key c) d else d)
     (sort_key c_origin_id members) []"

definition group_keys :: "(claim \<Rightarrow> str) \<Rightarrow> claim list \<Rightarrow> (str, str) dict" where
  "group_keys grp members = fold (\<lambda>c. setdefault (grp c) (c_origin_id c))
     (sort_key c_origin_id members) (said_pass grp members)"

definition origin_key :: "claim list \<Rightarrow> (str, document) dict \<Rightarrow> claim \<Rightarrow> str" where
  "origin_key members documents c =
     (let grp = origin_group members documents in dget_or (group_keys grp members) (grp c) [])"

definition independent_origin_keys ::
  "claim list \<Rightarrow> (str, document) dict \<Rightarrow> (str, str) dict" where
  "independent_origin_keys members documents =
     fold (\<lambda>c. dput (c_id c) (origin_key members documents c)) members []"

section \<open>Support and confidence\<close>

definition member_claims :: "cluster \<Rightarrow> (str, claim) dict \<Rightarrow> claim list" where
  "member_claims k claims = List.map_filter (dget claims) (k_claim_ids k)"

text \<open>The members whose document is known, with the document.\<close>

definition documented :: "claim list \<Rightarrow> (str, document) dict \<Rightarrow> (claim \<times> document) list" where
  "documented members documents =
     List.map_filter (\<lambda>c. map_option (Pair c) (dget documents (c_doc_id c))) members"

definition best_by_origin ::
  "(claim \<Rightarrow> str) \<Rightarrow> (claim \<times> document) list \<Rightarrow> (str, real) dict" where
  "best_by_origin key cds = fold (\<lambda>(c, d) best.
     dput (key c) (max (dget_or best (key c) 0) (ss_total (d_score d))) best) cds []"

definition doubt_of :: "real list \<Rightarrow> real" where
  "doubt_of scores = fold (\<lambda>s d. d * (1 - 8/10 * clamp 0 1 s)) scores 1"

definition refresh :: "(str, claim) dict \<Rightarrow> (str, document) dict \<Rightarrow> cluster \<Rightarrow> cluster" where
  "refresh claims documents k =
     (let members = member_claims k claims;
          keys = independent_origin_keys members documents;
          key = (\<lambda>c. dget_or keys (c_id c) []);
          origins = fromkeys (map key members);
          cds = documented members documents;
          best = fold (\<lambda>(c, d). max (ss_total (d_score d))) cds 0
      in k\<lparr>k_doc_ids := fromkeys (map c_doc_id members), k_origin_ids := origins,
           k_confidence := py_round (min (99/100) (1 - doubt_of (dvals (best_by_origin key cds)))) 4,
           k_best_source_score := py_round best 4,
           k_has_primary := list_ex (\<lambda>(c, d). ss_is_primary (d_score d)) cds,
           k_status := if k_status k \<noteq> CONTESTED
                       then (if 2 \<le> length origins then K_SUPPORTED else SINGLE_SOURCE)
                       else k_status k\<rparr>)"

section \<open>Placing a claim\<close>

definition similarity ::
  "(str, real list) dict option \<Rightarrow> dedup_settings \<Rightarrow> claim \<Rightarrow> claim \<Rightarrow> real \<times> real" where
  "similarity vectors s claim other =
     (case vectors of
        Some vs \<Rightarrow> (case (dget vs (c_id claim), dget vs (c_id other)) of
            (Some a, Some b) \<Rightarrow> (cosine a b, ds_claim_similarity_threshold s)
          | _ \<Rightarrow> (token_jaccard (c_text claim) (c_text other), ds_claim_lexical_fallback_threshold s))
      | None \<Rightarrow> (token_jaccard (c_text claim) (c_text other), ds_claim_lexical_fallback_threshold s))"

definition same_conditions :: "claim \<Rightarrow> claim \<Rightarrow> bool" where
  "same_conditions claim anchor =
     (set (map fold_text (c_conditions claim)) = set (map fold_text (c_conditions anchor))
      \<and> c_effective_from claim = c_effective_from anchor
      \<and> c_effective_until claim = c_effective_until anchor
      \<and> c_requires_fresh_confirmation claim = c_requires_fresh_confirmation anchor)"

definition threshold_for :: "real \<Rightarrow> claim \<Rightarrow> claim \<Rightarrow> real" where
  "threshold_for t claim anchor =
     (if normalise_entity (c_entity claim) = None \<or> normalise_entity (c_entity anchor) = None
      then min 1 (t + 4/100) else t)"

text \<open>The body of the inner loop: the score of a cluster the claim may join.\<close>

definition candidate_score ::
  "(str, real list) dict option \<Rightarrow> dedup_settings \<Rightarrow> claim \<Rightarrow> cluster \<Rightarrow> claim option
   \<Rightarrow> numeric_error + real option" where
  "candidate_score vectors s claim k rep =
     (if k_subq_id k \<noteq> c_subq_id claim then Inr None
      else case rep of
        None \<Rightarrow> Inr None
      | Some anchor \<Rightarrow>
          if \<not> entities_compatible (c_entity claim) (c_entity anchor) then Inr None
          else if \<not> same_conditions claim anchor then Inr None
          else rbind (values_conflict claim anchor) (\<lambda>conflict.
            if conflict then Inr None
            else let (score, t) = similarity vectors s claim anchor
                 in Inr (if threshold_for t claim anchor \<le> score then Some score else None)))"

fun best_cluster ::
  "(cluster \<Rightarrow> claim option \<Rightarrow> numeric_error + real option) \<Rightarrow> (str, claim) dict \<Rightarrow> (str \<times> cluster) list
   \<Rightarrow> str option \<times> real \<Rightarrow> numeric_error + str option \<times> real" where
  "best_cluster sc reps [] best = Inr best"
| "best_cluster sc reps ((cid, k) # ks) best =
     rbind (sc k (dget reps cid)) (\<lambda>r.
       best_cluster sc reps ks
         (case r of Some score \<Rightarrow> if score > snd best then (Some cid, score) else best | None \<Rightarrow> best))"

definition cluster_id :: "nat \<Rightarrow> str" where
  "cluster_id n = lit ''k'' @ dec n"

text \<open>\<open>while best_id in clusters\<close>: some number up to one more than the clusters is free.\<close>

fun fresh_number :: "nat \<Rightarrow> str list \<Rightarrow> nat \<Rightarrow> nat" where
  "fresh_number 0 used n = n"
| "fresh_number (Suc f) used n =
     (if List.member used (cluster_id n) then fresh_number f used (n + 1) else n)"

definition fresh_cluster_id :: "(str, cluster) dict \<Rightarrow> str" where
  "fresh_cluster_id clusters =
     cluster_id (fresh_number (length clusters) (dkeys clusters) (length clusters + 1))"

definition new_cluster :: "str \<Rightarrow> claim \<Rightarrow> cluster" where
  "new_cluster cid c = \<lparr>k_id = cid, k_subq_id = c_subq_id c, k_claim_ids = [], k_doc_ids = [],
     k_origin_ids = [], k_facet_ids = [], k_statement = c_text c, k_entity = c_entity c,
     k_attribute = c_attribute c, k_value = c_value c, k_unit = c_unit c, k_as_of = c_as_of c,
     k_kind = c_kind c, k_conditions = c_conditions c, k_effective_from = c_effective_from c,
     k_effective_until = c_effective_until c,
     k_requires_fresh_confirmation = c_requires_fresh_confirmation c, k_confidence = 0,
     k_best_source_score = 0, k_has_primary = False, k_status = SINGLE_SOURCE\<rparr>"

definition join_cluster :: "claim \<Rightarrow> cluster \<Rightarrow> cluster" where
  "join_cluster c k = k\<lparr>k_claim_ids := add_new (c_id c) (k_claim_ids k),
     k_facet_ids := if given (c_facet_id c) \<noteq> [] then add_new (given (c_facet_id c)) (k_facet_ids k)
                    else k_facet_ids k\<rparr>"

type_synonym placing = "(str, cluster) dict \<times> (str, claim) dict"

definition place ::
  "(str, real list) dict option \<Rightarrow> dedup_settings \<Rightarrow> claim \<Rightarrow> placing \<Rightarrow> numeric_error + placing" where
  "place vectors s c st =
     (case st of (clusters, reps) \<Rightarrow>
        rbind (best_cluster (candidate_score vectors s c) reps clusters (None, 0)) (\<lambda>best.
          case fst best of
            Some cid \<Rightarrow> Inr (dmap_at cid (join_cluster c) clusters, reps)
          | None \<Rightarrow> let cid = fresh_cluster_id clusters
                    in Inr (dput cid (join_cluster c (new_cluster cid c)) clusters, dput cid c reps)))"

fun place_all ::
  "(str, real list) dict option \<Rightarrow> dedup_settings \<Rightarrow> claim list \<Rightarrow> placing \<Rightarrow> numeric_error + placing" where
  "place_all vectors s [] st = Inr st"
| "place_all vectors s (c # cs) st = rbind (place vectors s c st) (place_all vectors s cs)"

text \<open>The first claim of each cluster stands for it.\<close>

definition representatives :: "(str, cluster) dict \<Rightarrow> (str, claim) dict \<Rightarrow> (str, claim) dict" where
  "representatives clusters claims = fold (\<lambda>k reps.
     case k_claim_ids k of
       [] \<Rightarrow> reps
     | i # _ \<Rightarrow> (case dget claims i of None \<Rightarrow> reps | Some c \<Rightarrow> dput (k_id k) c reps)) (dvals clusters) []"

definition add_claims :: "claim list \<Rightarrow> (str, claim) dict \<Rightarrow> (str, claim) dict" where
  "add_claims cs claims = fold (\<lambda>c. dput (c_id c) c) cs claims"

definition cluster_claims ::
  "(str, cluster) dict \<Rightarrow> claim list \<Rightarrow> (str, real list) dict option \<Rightarrow> (str, document) dict
   \<Rightarrow> dedup_settings \<Rightarrow> (str, claim) dict \<Rightarrow> numeric_error + (str, cluster) dict" where
  "cluster_claims existing new_claims vectors documents s all_claims =
     (if list_ex (\<lambda>k. list_ex (\<lambda>i. \<not> dmem i all_claims) (k_claim_ids k)) (dvals existing)
      then Inl ValueError
      else let claims = add_claims new_claims all_claims
           in rbind (place_all vectors s new_claims (existing, representatives existing claims))
                (\<lambda>st. Inr (dmap_vals (refresh claims documents) (fst st))))"

end
