(* ===== verification/ClusterLemmas.thy ===== *)
theory ClusterLemmas
  imports Clustering
begin

text \<open>
  Facts behind the properties of clustering: the two loops with fuel run to their end, the keys of
  independent origins are those of the connected groups, and what \<open>place\<close> keeps.
\<close>

section \<open>The loops end\<close>

lemma sub_hits_subseq:
  "i \<le> length (fst st) \<Longrightarrow> s = rev (fst st) @ snd st \<Longrightarrow>
     subseq (sub_hits i (finditer_fuel n r st) (\<lambda>_. []) s) (drop i s)"
proof (induction n arbitrary: i st)
  case (Suc n)
  show ?case
  proof (cases "search_from r (fst st) (snd st)")
    case (Some hs)
    obtain h st' where hs: "hs = (h, st')" by (cases hs)
    note ok = search_from_ok[OF Some[unfolded hs]]
    let ?next = "if h_end h > h_start h then finditer_fuel n r st'
       else case snd st' of [] \<Rightarrow> [] | c # u \<Rightarrow> finditer_fuel n r (c # fst st', u)"
    from ok have whole: "rev (fst st') @ snd st' = s"
      using adv_whole[of st st'] Suc.prems(2) by simp
    have next_ok: "subseq (sub_hits (h_end h) ?next (\<lambda>_. []) s) (drop (h_end h) s)"
    proof -
      have "subseq (sub_hits (h_end h) (finditer_fuel n r st') (\<lambda>_. []) s) (drop (h_end h) s)"
        using Suc.IH[of "h_end h" st'] ok whole by simp
      moreover have "subseq (sub_hits (h_end h) (finditer_fuel n r (c # fst st', u)) (\<lambda>_. []) s) (drop (h_end h) s)"
        if "snd st' = c # u" for c u
        using Suc.IH[of "h_end h" "(c # fst st', u)"] ok whole that
        by (simp flip: whole)
      ultimately show ?thesis by (cases "snd st'") auto
    qed
    have "i \<le> h_start h" "h_start h \<le> h_end h"
      using ok Suc.prems(1) by (auto simp: hit_ok_def)
    then have "drop i s = take (h_start h - i) (drop i s) @ take (h_end h - h_start h) (drop (h_start h) s) @ drop (h_end h) s"
      by (smt (verit, ccfv_threshold) add.commute append_take_drop_id drop_drop le_add_diff_inverse2)
    moreover have "subseq (take (h_start h - i) (drop i s) @ [] @ sub_hits (h_end h) ?next (\<lambda>_. []) s)
      (take (h_start h - i) (drop i s) @ take (h_end h - h_start h) (drop (h_start h) s) @ drop (h_end h) s)"
      using next_ok by (intro list_emb_append_mono) auto
    ultimately show ?thesis using Some hs by simp
  qed simp
qed simp

lemma sub_subseq: "subseq (sub r (\<lambda>_. []) s) s"
  using sub_hits_subseq[of 0 "([], s)" s "Suc (length s)" r]
  by (simp add: sub_def finditer_def del: finditer_fuel.simps)

lemma subseq_dropWhile: "subseq (dropWhile P xs) xs"
  by (induction xs) auto

lemma subseq_rev_dropWhile: "subseq (rev (dropWhile P (rev xs))) xs"
proof (induction xs rule: rev_induct)
  case (snoc x xs)
  then show ?case by (auto intro: subseq_rev_drop_many)
qed simp

lemma subseq_strip: "subseq (strip s) s"
  unfolding strip_def by (rule subseq_order.order_trans[OF subseq_rev_dropWhile subseq_dropWhile])

lemma strip_once_subseq: "subseq (strip_once s) s"
  unfolding strip_once_def rstrip_punct_def rstrip_set_def drop_suffixes_def
  by (rule subseq_order.order_trans[OF subseq_rev_dropWhile
        subseq_order.order_trans[OF subseq_strip sub_subseq]])

lemma strip_once_shorter: "strip_once s \<noteq> s \<Longrightarrow> length (strip_once s) < length s"
  using strip_once_subseq[of s] list_emb_length[of _ "strip_once s" s] subseq_same_length
  by (metis le_neq_implies_less)

lemma strip_all_fixed: "length s \<le> n \<Longrightarrow> strip_once (strip_all n s) = strip_all n s"
proof (induction n arbitrary: s)
  case 0
  then show ?case using strip_once_subseq[of "[]"] by simp
next
  case (Suc n)
  then show ?case using strip_once_shorter[of s] by fastforce
qed

lemma cluster_id_inj [simp]: "cluster_id m = cluster_id n \<longleftrightarrow> m = n"
  by (simp add: cluster_id_def)

lemma fresh_number_free:
  "card {m. n \<le> m \<and> cluster_id m \<in> set used} \<le> f \<Longrightarrow> cluster_id (fresh_number f used n) \<notin> set used"
proof (induction f arbitrary: n)
  case 0
  have fin: "finite {m. n \<le> m \<and> cluster_id m \<in> set used}"
    by (rule finite_subset[OF _ finite_vimageI[of "set used" cluster_id]]) (auto simp: inj_on_def)
  with 0 have "{m. n \<le> m \<and> cluster_id m \<in> set used} = {}" by simp
  then show ?case by auto
next
  case (Suc f)
  show ?case
  proof (cases "cluster_id n \<in> set used")
    case True
    let ?A = "\<lambda>n. {m. n \<le> m \<and> cluster_id m \<in> set used}"
    have fin: "finite (?A n)" for n
      by (rule finite_subset[OF _ finite_vimageI[of "set used" cluster_id]]) (auto simp: inj_on_def)
    have "n \<in> ?A n" "n \<notin> ?A (n + 1)" using True by simp_all
    moreover have "?A (n + 1) \<subseteq> ?A n" by auto
    ultimately have "?A (n + 1) \<subset> ?A n" by blast
    from psubset_card_mono[OF fin this] Suc.prems have "card (?A (n + 1)) \<le> f" by linarith
    from Suc.IH[OF this] True show ?thesis by simp
  qed simp
qed

lemma fresh_cluster_id_fresh: "fresh_cluster_id clusters \<notin> fst ` set clusters"
proof -
  let ?n = "length clusters + 1"
  let ?A = "{m. ?n \<le> m \<and> cluster_id m \<in> set (dkeys clusters)}"
  have "cluster_id ` ?A \<subseteq> set (dkeys clusters)" by auto
  from card_mono[OF _ this] have "card (cluster_id ` ?A) \<le> card (set (dkeys clusters))" by simp
  also have "card (cluster_id ` ?A) = card ?A" by (rule card_image) (auto simp: inj_on_def)
  also have "card (set (dkeys clusters)) \<le> length clusters" by (metis card_length length_map)
  finally show ?thesis
    using fresh_number_free[of ?n "dkeys clusters" "length clusters"]
    unfolding fresh_cluster_id_def by simp
qed

section \<open>Keys of independent origins\<close>

text \<open>Two claims are linked when a chain of shared origins and shared publishers joins them.\<close>

definition linked :: "claim list \<Rightarrow> (str, document) dict \<Rightarrow> claim \<Rightarrow> claim \<Rightarrow> bool" where
  "linked members documents c c' \<longleftrightarrow>
     (origin_node c, origin_node c') \<in> (set (site_links members documents) \<union> (set (site_links members documents))\<inverse>)\<^sup>*"

text \<open>The first claim of a group, in order of origin ids, that names a speaker.\<close>

definition speaker :: "claim list \<Rightarrow> (str, document) dict \<Rightarrow> claim \<Rightarrow> claim option" where
  "speaker members documents c =
     find (\<lambda>x. given (c_attributed_to x) \<noteq> [] \<and> linked members documents x c) (sort_key c_origin_id members)"

lemma origin_group_eq:
  "origin_group members documents c = origin_group members documents c' \<longleftrightarrow> linked members documents c c'"
  unfolding origin_group_def origin_parents_def linked_def by (rule parents.same_links)

lemma linked_refl [simp]: "linked ms ds c c"
  by (simp add: linked_def)

lemma linked_sym: "linked ms ds c c' \<Longrightarrow> linked ms ds c' c"
  by (metis origin_group_eq)

lemma linked_trans: "linked ms ds a b \<Longrightarrow> linked ms ds b c \<Longrightarrow> linked ms ds a c"
  by (metis origin_group_eq)

lemma dget_setdefault:
  "dget (setdefault k v d) k' = (if k' = k \<and> dget d k = None then Some v else dget d k')"
  by (auto simp: setdefault_def dmem_def simp del: dmem_iff)

lemma dget_setdefaults:
  "dget (fold (\<lambda>c d. if P c then setdefault (f c) (g c) d else d) cs d) k =
     (case dget d k of Some v \<Rightarrow> Some v | None \<Rightarrow> map_option g (find (\<lambda>c. P c \<and> f c = k) cs))"
  by (induction cs arbitrary: d) (auto simp: dget_setdefault split: option.splits)

lemma dget_group_keys:
  "dget (group_keys grp members) k =
     (case find (\<lambda>c. given (c_attributed_to c) \<noteq> [] \<and> grp c = k) (sort_key c_origin_id members) of
        Some x \<Rightarrow> Some (said_key x)
      | None \<Rightarrow> map_option c_origin_id (find (\<lambda>c. grp c = k) (sort_key c_origin_id members)))"
  using dget_setdefaults[of "\<lambda>_. True" grp c_origin_id "sort_key c_origin_id members" "said_pass grp members" k]
  unfolding group_keys_def said_pass_def
  by (simp add: dget_setdefaults option.map_comp split: option.splits)

lemma origin_key_cases:
  assumes "c \<in> set members"
  shows "case speaker members documents c of
      Some x \<Rightarrow> origin_key members documents c = said_key x
    | None \<Rightarrow> \<exists>x\<in>set members. linked members documents x c \<and> origin_key members documents c = c_origin_id x"
proof -
  let ?g = "origin_group members documents"
  obtain y where y: "find (\<lambda>x. ?g x = ?g c) (sort_key c_origin_id members) = Some y"
    using find_SomeI[of c "sort_key c_origin_id members" "\<lambda>x. ?g x = ?g c"] assms by auto
  from find_SomeD[OF this] have "?g y = ?g c" "y \<in> set members" by simp_all
  then show ?thesis
    using y unfolding origin_key_def Let_def dget_or_def dget_group_keys origin_group_eq
      speaker_def[symmetric] by (auto split: option.splits)
qed

lemma origin_key_linked:
  "linked members documents c c' \<Longrightarrow> origin_key members documents c = origin_key members documents c'"
  by (simp add: origin_key_def origin_group_eq[THEN iffD2])

lemma linked_same_origin: "c_origin_id c = c_origin_id c' \<Longrightarrow> linked ms ds c c'"
  by (simp add: linked_def origin_node_def)

text \<open>The keys differ unless the claims are linked or one speaker stands behind both groups.\<close>

lemma origin_key_eq_iff:
  assumes "c \<in> set members" and "c' \<in> set members"
    and "\<And>x. x \<in> set members \<Longrightarrow> \<not> starts_with (c_origin_id x) (lit ''said:'')"
  shows "origin_key members documents c = origin_key members documents c' \<longleftrightarrow>
      linked members documents c c'
      \<or> (\<exists>x y. speaker members documents c = Some x \<and> speaker members documents c' = Some y
              \<and> said_key x = said_key y)"
    (is "?L \<longleftrightarrow> ?R")
proof
  assume eq: ?L
  have said: "starts_with (said_key x) (lit ''said:'')" for x by (simp add: said_key_def)
  note k = origin_key_cases[OF assms(1), of documents] and k' = origin_key_cases[OF assms(2), of documents]
  show ?R
  proof (cases "speaker members documents c"; cases "speaker members documents c'")
    assume "speaker members documents c = None" "speaker members documents c' = None"
    with k k' eq obtain x y where "linked members documents x c" "linked members documents y c'"
      "c_origin_id x = c_origin_id y" by auto
    then show ?thesis by (metis linked_same_origin linked_sym linked_trans)
  next
    fix x assume "speaker members documents c = None" "speaker members documents c' = Some x"
    with k k' eq said[of x] assms(3) show ?thesis by auto
  next
    fix x assume "speaker members documents c = Some x" "speaker members documents c' = None"
    with k k' eq said[of x] assms(3) show ?thesis by auto
  next
    fix x y assume "speaker members documents c = Some x" "speaker members documents c' = Some y"
    with k k' eq show ?thesis by simp
  qed
next
  assume ?R
  then show ?L
    using origin_key_linked origin_key_cases[OF assms(1), of documents]
      origin_key_cases[OF assms(2), of documents] by auto
qed

lemma dget_fold_dput:
  "dget (fold (\<lambda>c. dput (f c) (g c)) cs d) k =
     (case find (\<lambda>c. f c = k) (rev cs) of Some c \<Rightarrow> Some (g c) | None \<Rightarrow> dget d k)"
  by (induction cs arbitrary: d rule: rev_induct) (auto split: option.splits)

lemma dget_keys:
  assumes "inj_on c_id (set members)" and "c \<in> set members"
  shows "dget (independent_origin_keys members documents) (c_id c) = Some (origin_key members documents c)"
proof -
  obtain x where x: "find (\<lambda>x. c_id x = c_id c) (rev members) = Some x"
    using find_SomeI[of c "rev members" "\<lambda>x. c_id x = c_id c"] assms(2) by auto
  moreover from find_SomeD[OF x] have "x \<in> set members" "c_id x = c_id c" by simp_all
  with assms have "x = c" by (auto dest: inj_onD)
  ultimately show ?thesis by (simp add: independent_origin_keys_def dget_fold_dput)
qed

text \<open>Claims on pages of one publisher, and claims of one origin, share a key.\<close>

lemma site_linksI:
  "c \<in> set members \<Longrightarrow> dget documents (c_doc_id c) = Some d \<Longrightarrow> d_domain d \<noteq> [] \<Longrightarrow>
     (origin_node c, lit ''site:'' @ site_of (d_domain d)) \<in> set (site_links members documents)"
  unfolding site_links_def in_set_map_filter by (rule bexI[of _ c]) simp_all

lemma same_site_linked:
  assumes "c \<in> set members" and "c' \<in> set members"
    and "dget documents (c_doc_id c) = Some d" and "dget documents (c_doc_id c') = Some d'"
    and "d_domain d \<noteq> []" and "d_domain d' \<noteq> []" and "site_of (d_domain d) = site_of (d_domain d')"
  shows "linked members documents c c'"
proof -
  let ?E = "set (site_links members documents)" and ?s = "lit ''site:'' @ site_of (d_domain d)"
  have "(origin_node c, ?s) \<in> ?E" "(origin_node c', ?s) \<in> ?E"
    using assms site_linksI by (metis (no_types, lifting))+
  then have "(origin_node c, ?s) \<in> ?E \<union> ?E\<inverse>" "(?s, origin_node c') \<in> ?E \<union> ?E\<inverse>" by auto
  then show ?thesis unfolding linked_def by (meson r_into_rtrancl rtrancl_trans)
qed

end
