(* ===== verification/ClusterPlacing.thy ===== *)
theory ClusterPlacing
  imports ClusterLemmas
begin

text \<open>
  What one iteration of the loop of \<open>cluster_claims\<close> does (\<open>placeE\<close>), and the invariant the loop
  keeps (\<open>place_all_inv\<close>): clusters only grow, every claim lands in one cluster of its sub-question,
  and a claim joins a cluster only by matching the claim that stands for it.
\<close>

section \<open>One claim\<close>

text \<open>The conditions under which a claim joins the cluster of an anchor.\<close>

definition joins :: "(str, real list) dict option \<Rightarrow> dedup_settings \<Rightarrow> claim \<Rightarrow> claim \<Rightarrow> bool" where
  "joins vectors s c anchor \<longleftrightarrow>
     entities_compatible (c_entity c) (c_entity anchor) \<and> same_conditions c anchor
     \<and> values_conflict c anchor = Inr False
     \<and> threshold_for (snd (similarity vectors s c anchor)) c anchor \<le> fst (similarity vectors s c anchor)"

lemma candidate_score_Some:
  assumes "candidate_score vectors s c k rep = Inr (Some v)"
  shows "k_subq_id k = c_subq_id c \<and> (\<exists>anchor. rep = Some anchor \<and> joins vectors s c anchor)"
  using assms
  by (cases "similarity vectors s c (the rep)")
    (auto simp: candidate_score_def joins_def rbind_Inr_iff split: if_splits option.splits)

lemma best_cluster_from:
  "best_cluster sc reps ks best = Inr (Some cid, v) \<Longrightarrow>
     best = (Some cid, v) \<or> (\<exists>k v. (cid, k) \<in> set ks \<and> sc k (dget reps cid) = Inr (Some v))"
proof (induction sc reps ks best rule: best_cluster.induct)
  case (2 sc reps i k ks best)
  from "2.prems" obtain r where r: "sc k (dget reps i) = Inr r"
    and rest: "best_cluster sc reps ks
      (case r of Some score \<Rightarrow> if score > snd best then (Some i, score) else best | None \<Rightarrow> best) = Inr (Some cid, v)"
    by (auto simp: rbind_Inr_iff)
  from "2.IH"[OF rest] r show ?case by (auto split: option.splits if_splits)
qed simp

lemma placeE:
  assumes "place vectors s c (clusters, reps) = Inr (clusters', reps')"
  obtains (join) cid k anchor where "(cid, k) \<in> set clusters" "k_subq_id k = c_subq_id c"
      "dget reps cid = Some anchor" "joins vectors s c anchor"
      "clusters' = dmap_at cid (join_cluster c) clusters" "reps' = reps"
  | (new) cid where "cid \<notin> fst ` set clusters"
      "clusters' = clusters @ [(cid, join_cluster c (new_cluster cid c))]" "reps' = dput cid c reps"
proof -
  from assms obtain b v where b: "best_cluster (candidate_score vectors s c) reps clusters (None, 0) = Inr (b, v)"
    and res: "(case b of Some cid \<Rightarrow> (dmap_at cid (join_cluster c) clusters, reps)
      | None \<Rightarrow> let cid = fresh_cluster_id clusters
          in (dput cid (join_cluster c (new_cluster cid c)) clusters, dput cid c reps)) = (clusters', reps')"
    by (auto simp: place_def rbind_Inr_iff Let_def split: option.splits)
  show thesis
  proof (cases b)
    case None
    have "dput x y clusters = clusters @ [(x, y)]" if "x \<notin> fst ` set clusters" for x y
      using that by (induction clusters) auto
    then show thesis
      using res None fresh_cluster_id_fresh[of clusters] by (intro new[of "fresh_cluster_id clusters"]) (auto simp: Let_def)
  next
    case (Some cid)
    with best_cluster_from[OF b[unfolded Some]] obtain k w where "(cid, k) \<in> set clusters"
      "candidate_score vectors s c k (dget reps cid) = Inr (Some w)" by auto
    with candidate_score_Some[OF this(2)] res Some show thesis by (auto intro: join)
  qed
qed

section \<open>What a step keeps\<close>

definition all_ids :: "(str, cluster) dict \<Rightarrow> str list" where
  "all_ids clusters = concat (map k_claim_ids (dvals clusters))"

definition well_clustered :: "(str, cluster) dict \<Rightarrow> bool" where
  "well_clustered clusters \<longleftrightarrow> distinct (dkeys clusters)
     \<and> (\<forall>(cid, k)\<in>set clusters. k_id k = cid) \<and> distinct (all_ids clusters)"

text \<open>A cluster grown by further claims: nothing but the ids of claims and facets changes.\<close>

definition grown :: "cluster \<Rightarrow> cluster \<Rightarrow> bool" where
  "grown k k' \<longleftrightarrow> prefix (k_claim_ids k) (k_claim_ids k') \<and> prefix (k_facet_ids k) (k_facet_ids k')
     \<and> k' = k\<lparr>k_claim_ids := k_claim_ids k', k_facet_ids := k_facet_ids k'\<rparr>"

lemma grown_refl [simp]: "grown k k"
  by (simp add: grown_def)

lemma grown_trans: "grown a b \<Longrightarrow> grown b c \<Longrightarrow> grown a c"
  by (cases a; cases b; cases c) (auto simp: grown_def intro: prefix_order.order_trans)

lemma grown_subq: "grown k k' \<Longrightarrow> k_subq_id k' = k_subq_id k"
  by (cases k; cases k') (simp add: grown_def)

lemma grown_facts:
  "grown k k' \<Longrightarrow> prefix (k_claim_ids k) (k_claim_ids k') \<and> k_statement k' = k_statement k
     \<and> k_subq_id k' = k_subq_id k"
  by (cases k; cases k') (simp add: grown_def)

lemma grown_ids: "grown k k' \<Longrightarrow> set (k_claim_ids k) \<subseteq> set (k_claim_ids k')"
  by (simp add: grown_def set_mono_prefix)

lemma grown_join [simp]: "grown k (join_cluster c k)"
  by (simp add: grown_def join_cluster_def add_new_def)

definition kept :: "(str, cluster) dict \<Rightarrow> (str, cluster) dict \<Rightarrow> bool" where
  "kept clusters clusters' \<longleftrightarrow> (\<exists>ys zs. clusters' = ys @ zs
     \<and> list_all2 (\<lambda>x y. fst x = fst y \<and> grown (snd x) (snd y)) clusters ys)"

lemma kept_refl [simp]: "kept clusters clusters"
  unfolding kept_def by (intro exI[of _ clusters] exI[of _ "[]"]) (simp add: list_all2_same)

lemma kept_trans: "kept a b \<Longrightarrow> kept b c \<Longrightarrow> kept a c"
proof -
  assume "kept a b" "kept b c"
  then obtain ys zs us ws where b: "b = ys @ zs" "list_all2 (\<lambda>x y. fst x = fst y \<and> grown (snd x) (snd y)) a ys"
    and c: "c = us @ ws" "list_all2 (\<lambda>x y. fst x = fst y \<and> grown (snd x) (snd y)) b us"
    unfolding kept_def by blast
  from c(2)[unfolded b(1) list_all2_append1] obtain us1 us2 where u: "us = us1 @ us2"
    "list_all2 (\<lambda>x y. fst x = fst y \<and> grown (snd x) (snd y)) ys us1" by blast
  have "list_all2 (\<lambda>x y. fst x = fst y \<and> grown (snd x) (snd y)) a us1"
    by (rule list_all2_trans[OF _ b(2) u(2)]) (auto intro: grown_trans)
  with c(1) u(1) show "kept a c" unfolding kept_def by (intro exI[of _ us1] exI[of _ "us2 @ ws"]) simp
qed

lemma kept_dkeys: "kept a b \<Longrightarrow> prefix (dkeys a) (dkeys b)"
proof -
  assume "kept a b"
  then obtain ys zs where b: "b = ys @ zs" "list_all2 (\<lambda>x y. fst x = fst y \<and> grown (snd x) (snd y)) a ys"
    unfolding kept_def by blast
  then have "dkeys a = dkeys ys" by (auto simp: list_all2_conv_all_nth intro: nth_equalityI)
  with b(1) show ?thesis by simp
qed

lemma kept_dget:
  assumes "kept a b" and "dget a i = Some k"
  shows "\<exists>k'. dget b i = Some k' \<and> grown k k'"
proof -
  from assms(1) obtain ys zs where b: "b = ys @ zs"
    and l: "list_all2 (\<lambda>x y. fst x = fst y \<and> grown (snd x) (snd y)) a ys"
    unfolding kept_def by blast
  from l assms(2) have "\<exists>k'. dget ys i = Some k' \<and> grown k k'"
    by (induction rule: list_all2_induct) (auto split: if_splits)
  with b show ?thesis by auto
qed

lemma dmap_at_split:
  assumes "(cid, k) \<in> set d" and "distinct (dkeys d)"
  obtains a b where "d = a @ (cid, k) # b" "dmap_at cid f d = a @ (cid, f k) # b"
proof -
  from assms(1) obtain a b where d: "d = a @ (cid, k) # b" by (auto dest: split_list)
  with assms(2) have "dmap_at cid f a = a" "dmap_at cid f b = b"
    by (force simp: dmap_at_def intro!: map_idI)+
  with d show thesis by (intro that[of a b]) (auto simp: dmap_at_def)
qed

lemma kept_dmap_at:
  assumes "(cid, k) \<in> set d" and "distinct (dkeys d)"
  shows "kept d (dmap_at cid (join_cluster c) d)"
proof -
  obtain a b where "d = a @ (cid, k) # b" "dmap_at cid (join_cluster c) d = a @ (cid, join_cluster c k) # b"
    by (rule dmap_at_split[OF assms])
  then show ?thesis
    unfolding kept_def by (intro exI[of _ "dmap_at cid (join_cluster c) d"] exI[of _ "[]"])
      (simp add: list_all2_append list_all2_same)
qed

lemma kept_snoc [simp]: "kept d (d @ [x])"
  unfolding kept_def by (intro exI[of _ d] exI[of _ "[x]"]) (simp add: list_all2_same)

text \<open>One step on the dictionary of clusters, whatever branch it takes.\<close>

lemma place_step:
  assumes "place vectors s c (clusters, reps) = Inr (clusters', reps')" and "distinct (dkeys clusters)"
    and "\<forall>(cid, k)\<in>set clusters. k_id k = cid"
  shows "kept clusters clusters' \<and> distinct (dkeys clusters') \<and> (\<forall>(cid, k)\<in>set clusters'. k_id k = cid)
    \<and> set (all_ids clusters') = insert (c_id c) (set (all_ids clusters))
    \<and> (c_id c \<notin> set (all_ids clusters) \<longrightarrow> distinct (all_ids clusters) \<longrightarrow> distinct (all_ids clusters'))
    \<and> (\<exists>(cid, k)\<in>set clusters'. c_id c \<in> set (k_claim_ids k) \<and> k_subq_id k = c_subq_id c)"
  using assms(1)
proof (cases rule: placeE)
  case (join cid k anchor)
  obtain a b where d: "clusters = a @ (cid, k) # b"
    and d': "clusters' = a @ (cid, join_cluster c k) # b"
    using dmap_at_split[OF join(1) assms(2), of "join_cluster c"] join(5) by metis
  have "kept clusters clusters'" unfolding join(5) by (rule kept_dmap_at[OF join(1) assms(2)])
  then show ?thesis
    using assms(2,3) join(2) by (auto simp: d d' all_ids_def join_cluster_def add_new_def)
next
  case (new cid)
  then show ?thesis
    using assms(2,3) by (auto simp: all_ids_def join_cluster_def add_new_def new_cluster_def)
qed

section \<open>All the claims\<close>

lemma place_all_kept:
  assumes "place_all vectors s cs (clusters, reps) = Inr (clusters', reps')" and "distinct (dkeys clusters)"
    and "\<forall>(cid, k)\<in>set clusters. k_id k = cid"
  shows "kept clusters clusters' \<and> distinct (dkeys clusters') \<and> (\<forall>(cid, k)\<in>set clusters'. k_id k = cid)
    \<and> set (all_ids clusters') = set (all_ids clusters) \<union> c_id ` set cs
    \<and> (distinct (map c_id cs) \<longrightarrow> c_id ` set cs \<inter> set (all_ids clusters) = {} \<longrightarrow> distinct (all_ids clusters)
         \<longrightarrow> distinct (all_ids clusters'))
    \<and> (\<forall>c\<in>set cs. \<exists>cid k. dget clusters' cid = Some k \<and> c_id c \<in> set (k_claim_ids k) \<and> k_subq_id k = c_subq_id c)"
  using assms
proof (induction cs arbitrary: clusters reps)
  case (Cons c cs)
  from Cons.prems(1) obtain cl1 r1 where p: "place vectors s c (clusters, reps) = Inr (cl1, r1)"
    and rest: "place_all vectors s cs (cl1, r1) = Inr (clusters', reps')"
    by (auto simp: rbind_Inr_iff)
  note st = place_step[OF p Cons.prems(2,3)]
  then have "distinct (dkeys cl1)" "\<forall>(cid, k)\<in>set cl1. k_id k = cid" by simp_all
  note ih = Cons.IH[OF rest this]
  from st obtain cid k where k: "(cid, k) \<in> set cl1" "c_id c \<in> set (k_claim_ids k)" "k_subq_id k = c_subq_id c"
    by auto
  have "dget cl1 cid = Some k" using k(1) st by (simp add: map_of_is_SomeI)
  from ih have "kept cl1 clusters'" by simp
  from kept_dget[OF this \<open>dget cl1 cid = Some k\<close>] obtain k' where
    k': "dget clusters' cid = Some k'" "grown k k'" by blast
  then have "c_id c \<in> set (k_claim_ids k')" "k_subq_id k' = c_subq_id c"
    using k(2,3) grown_ids[OF k'(2)] grown_subq[OF k'(2)] by auto
  with k'(1) have new: "\<exists>cid k. dget clusters' cid = Some k \<and> c_id c \<in> set (k_claim_ids k) \<and> k_subq_id k = c_subq_id c"
    by blast
  have "kept clusters clusters'" using st ih kept_trans by blast
  moreover have "\<forall>x\<in>set (c # cs). \<exists>cid k. dget clusters' cid = Some k \<and> c_id x \<in> set (k_claim_ids k) \<and> k_subq_id k = c_subq_id x"
    using new ih by simp
  moreover have "distinct (map c_id (c # cs)) \<longrightarrow> c_id ` set (c # cs) \<inter> set (all_ids clusters) = {} \<longrightarrow>
      distinct (all_ids clusters) \<longrightarrow> distinct (all_ids clusters')"
    using st ih by auto
  moreover have "set (all_ids clusters') = set (all_ids clusters) \<union> c_id ` set (c # cs)"
    using st ih by auto
  ultimately show ?case using ih by simp
qed simp

text \<open>The claim that stands for a cluster is the first of its claims.\<close>

definition anchored :: "(str, claim) dict \<Rightarrow> (str, cluster) dict \<Rightarrow> (str, claim) dict \<Rightarrow> bool" where
  "anchored claims clusters reps \<longleftrightarrow> (\<forall>cid a. dget reps cid = Some a \<longrightarrow>
     (\<exists>k. dget clusters cid = Some k \<and> k_claim_ids k \<noteq> [] \<and> dget claims (hd (k_claim_ids k)) = Some a))"

lemma anchoredD:
  assumes "anchored claims clusters reps" and "dget reps cid = Some a" and "dget clusters cid = Some k"
  shows "k_claim_ids k \<noteq> []" and "dget claims (hd (k_claim_ids k)) = Some a"
proof -
  from assms(1,2) obtain k' where "dget clusters cid = Some k'" "k_claim_ids k' \<noteq> []"
    "dget claims (hd (k_claim_ids k')) = Some a" unfolding anchored_def by blast
  with assms(3) show "k_claim_ids k \<noteq> []" and "dget claims (hd (k_claim_ids k)) = Some a" by simp_all
qed

definition joined ::
  "(str, real list) dict option \<Rightarrow> dedup_settings \<Rightarrow> (str, claim) dict \<Rightarrow> str \<Rightarrow> cluster \<Rightarrow> claim \<Rightarrow> bool" where
  "joined vectors s reps cid k c \<longleftrightarrow> k_subq_id k = c_subq_id c
     \<and> (\<exists>a. dget reps cid = Some a \<and> (a = c \<or> joins vectors s c a))"

lemma hd_add_new: "xs \<noteq> [] \<Longrightarrow> hd (add_new x xs) = hd xs" and add_new_not_Nil [simp]: "add_new x xs \<noteq> []"
  by (auto simp: add_new_def)

lemma place_joined:
  assumes "place vectors s c (clusters, reps) = Inr (cl1, r1)" and "distinct (dkeys clusters)"
    and "anchored claims clusters reps" and "dget claims (c_id c) = Some c"
  shows "anchored claims cl1 r1 \<and> (\<forall>cid a. dget reps cid = Some a \<longrightarrow> dget r1 cid = Some a)
    \<and> (\<forall>cid k i. dget cl1 cid = Some k \<and> i \<in> set (k_claim_ids k) \<longrightarrow>
         (\<exists>k0. dget clusters cid = Some k0 \<and> i \<in> set (k_claim_ids k0))
         \<or> i = c_id c \<and> joined vectors s r1 cid k c)"
  using assms(1)
proof (cases rule: placeE)
  case (join cid k anchor)
  have k: "dget clusters cid = Some k" using join(1) assms(2) by simp
  from anchoredD[OF assms(3) join(3) this] have "anchored claims cl1 r1"
    using assms(3) join(3,5,6) k by (auto simp: anchored_def join_cluster_def hd_add_new)
  with join k show ?thesis
    by (auto simp: joined_def join_cluster_def add_new_def split: if_splits)
next
  case (new cid)
  then have "dget clusters cid = None" by (simp add: map_of_eq_None_iff)
  moreover from this assms(3) have "dget reps cid = None"
    unfolding anchored_def by (metis not_Some_eq)
  moreover let ?k = "join_cluster c (new_cluster cid c)"
  have k: "k_claim_ids ?k = [c_id c]" "k_subq_id ?k = c_subq_id c"
    by (simp_all add: join_cluster_def new_cluster_def add_new_def)
  have get: "dget cl1 x = (if x = cid then Some ?k else dget clusters x)" for x
    using new(2) calculation(1) by (simp add: map_add_def split: option.splits)
  have "anchored claims cl1 r1"
    unfolding anchored_def
  proof (intro allI impI)
    fix x a assume "dget r1 x = Some a"
    then show "\<exists>k. dget cl1 x = Some k \<and> k_claim_ids k \<noteq> [] \<and> dget claims (hd (k_claim_ids k)) = Some a"
      using assms(3,4) k unfolding anchored_def get new(3) dget_dput
      by (cases "x = cid") (simp, metis)
  qed
  ultimately show ?thesis
    using new(3) get k by (auto simp: joined_def split: if_splits)
qed

lemma place_all_joined:
  assumes "place_all vectors s cs (clusters, reps) = Inr (clusters', reps')" and "distinct (dkeys clusters)"
    and "\<forall>(cid, k)\<in>set clusters. k_id k = cid" and "anchored claims clusters reps"
    and "\<forall>c\<in>set cs. dget claims (c_id c) = Some c"
  shows "anchored claims clusters' reps' \<and> (\<forall>cid a. dget reps cid = Some a \<longrightarrow> dget reps' cid = Some a)
    \<and> (\<forall>cid k i. dget clusters' cid = Some k \<and> i \<in> set (k_claim_ids k) \<longrightarrow>
         (\<exists>k0. dget clusters cid = Some k0 \<and> i \<in> set (k_claim_ids k0))
         \<or> (\<exists>c\<in>set cs. i = c_id c \<and> joined vectors s reps' cid k c))"
  using assms
proof (induction cs arbitrary: clusters reps)
  case (Cons c cs)
  from Cons.prems(1) obtain cl1 r1 where p: "place vectors s c (clusters, reps) = Inr (cl1, r1)"
    and rest: "place_all vectors s cs (cl1, r1) = Inr (clusters', reps')"
    by (auto simp: rbind_Inr_iff)
  note st = place_step[OF p Cons.prems(2,3)] and pj = place_joined[OF p Cons.prems(2,4)]
  have c: "dget claims (c_id c) = Some c" using Cons.prems(5) by simp
  have ih: "anchored claims clusters' reps' \<and> (\<forall>cid a. dget r1 cid = Some a \<longrightarrow> dget reps' cid = Some a)
    \<and> (\<forall>cid k i. dget clusters' cid = Some k \<and> i \<in> set (k_claim_ids k) \<longrightarrow>
         (\<exists>k0. dget cl1 cid = Some k0 \<and> i \<in> set (k_claim_ids k0))
         \<or> (\<exists>c\<in>set cs. i = c_id c \<and> joined vectors s reps' cid k c))"
    using st pj[OF c] Cons.prems(5) by (intro Cons.IH[OF rest]) auto
  have grow: "kept cl1 clusters'" using place_all_kept[OF rest] st by blast
  have "(\<exists>k0. dget clusters cid = Some k0 \<and> i \<in> set (k_claim_ids k0))
      \<or> (\<exists>c'\<in>set (c # cs). i = c_id c' \<and> joined vectors s reps' cid k c')"
    if k: "dget clusters' cid = Some k" "i \<in> set (k_claim_ids k)" for cid k i
  proof -
    consider k1 where "dget cl1 cid = Some k1" "i \<in> set (k_claim_ids k1)"
      | c' where "c' \<in> set cs" "i = c_id c'" "joined vectors s reps' cid k c'" using ih k by blast
    then show ?thesis
    proof cases
      case 1
      have "k_subq_id k = k_subq_id k1"
        using kept_dget[OF grow 1(1)] k(1) grown_subq by auto
      moreover have "(\<exists>k0. dget clusters cid = Some k0 \<and> i \<in> set (k_claim_ids k0))
          \<or> i = c_id c \<and> joined vectors s r1 cid k1 c" using pj[OF c] 1 by blast
      ultimately show ?thesis using ih by (auto simp: joined_def)
    qed auto
  qed
  with ih pj[OF c] show ?case by blast
qed auto

text \<open>The representatives the loop starts from, and the ledger it reads.\<close>

lemma dget_representatives:
  assumes "dget (representatives clusters claims) cid = Some a"
    and "distinct (dkeys clusters)" and "\<forall>(cid, k)\<in>set clusters. k_id k = cid"
  shows "\<exists>k. dget clusters cid = Some k \<and> k_claim_ids k \<noteq> [] \<and> dget claims (hd (k_claim_ids k)) = Some a"
proof -
  let ?f = "\<lambda>k reps. case k_claim_ids k of [] \<Rightarrow> reps
     | i # _ \<Rightarrow> (case dget claims i of None \<Rightarrow> reps | Some c \<Rightarrow> dput (k_id k) c reps)"
  have "dget (fold ?f ks d) cid = Some a \<Longrightarrow> dget d cid = Some a
      \<or> (\<exists>k\<in>set ks. k_id k = cid \<and> k_claim_ids k \<noteq> [] \<and> dget claims (hd (k_claim_ids k)) = Some a)" for ks d
    by (induction ks arbitrary: d) (fastforce split: list.splits option.splits if_splits)+
  from this[of "dvals clusters" "[]"] assms(1) obtain k where
    k: "k \<in> set (dvals clusters)" "k_id k = cid" "k_claim_ids k \<noteq> []" "dget claims (hd (k_claim_ids k)) = Some a"
    by (auto simp: representatives_def)
  then obtain i where "(i, k) \<in> set clusters" by auto
  with assms(2,3) k show ?thesis by auto
qed

lemma dget_add_claims:
  assumes "distinct (map c_id cs)" and "c \<in> set cs"
  shows "dget (add_claims cs claims) (c_id c) = Some c"
proof -
  obtain x where x: "find (\<lambda>x. c_id x = c_id c) (rev cs) = Some x"
    using find_SomeI[of c "rev cs" "\<lambda>x. c_id x = c_id c"] assms(2) by auto
  with find_SomeD[OF x] assms have "x = c" by (auto simp: distinct_map dest: inj_onD)
  with x show ?thesis unfolding add_claims_def using dget_fold_dput[of c_id "\<lambda>c. c" cs claims] by simp
qed

lemma cluster_claims_Inr:
  assumes "cluster_claims existing new_claims vectors documents s all_claims = Inr clusters'"
  obtains cl reps where
    "place_all vectors s new_claims (existing, representatives existing (add_claims new_claims all_claims)) = Inr (cl, reps)"
    "clusters' = dmap_vals (refresh (add_claims new_claims all_claims) documents) cl"
  using assms by (auto simp: cluster_claims_def rbind_Inr_iff Let_def split: if_splits)

lemma refresh_keeps [simp]:
  "k_id (refresh claims documents k) = k_id k" "k_claim_ids (refresh claims documents k) = k_claim_ids k"
  "k_subq_id (refresh claims documents k) = k_subq_id k"
  "k_statement (refresh claims documents k) = k_statement k"
  by (simp_all add: refresh_def Let_def)

end
