(* ===== verification/ClusterProps.thy ===== *)
theory ClusterProps
  imports ClusterPlacing
begin

text \<open>
  The properties of clustering: what counts as an independent origin, what a refreshed cluster
  claims about its support, and what placing the new claims of a round keeps and adds.
\<close>

section \<open>Independent origins\<close>

text \<open>
  C19. Two members of a cluster count as one origin exactly when a chain of shared texts and shared
  publishers links them, or when one and the same speaker is quoted behind both of their groups
  (\<open>speaker\<close> is the first claim of the group, in order of origin ids, that names one). Every member
  gets a key, so the lookups of \<open>_refresh\<close> never fail.
\<close>

theorem independent_origins:
  assumes "inj_on c_id (set members)" and "c \<in> set members" and "c' \<in> set members"
    and "\<And>x. x \<in> set members \<Longrightarrow> \<not> starts_with (c_origin_id x) (lit ''said:'')"
  shows "dget (independent_origin_keys members documents) (c_id c) \<noteq> None
    \<and> (dget (independent_origin_keys members documents) (c_id c)
          = dget (independent_origin_keys members documents) (c_id c') \<longleftrightarrow>
        linked members documents c c'
        \<or> (\<exists>x y. speaker members documents c = Some x \<and> speaker members documents c' = Some y
                \<and> said_key x = said_key y))"
  using assms origin_key_eq_iff[OF assms(2-4)] by (simp_all add: dget_keys)

section \<open>Support and confidence\<close>

definition keyed :: "(str, claim) dict \<Rightarrow> bool" where
  "keyed claims \<longleftrightarrow> (\<forall>i c. dget claims i = Some c \<longrightarrow> c_id c = i)"

lemma member_claims_iff: "c \<in> set (member_claims k claims) \<longleftrightarrow> (\<exists>i\<in>set (k_claim_ids k). dget claims i = Some c)"
  by (simp add: member_claims_def in_set_map_filter)

lemma member_claims_inj: "keyed claims \<Longrightarrow> inj_on c_id (set (member_claims k claims))"
proof (rule inj_onI)
  fix x y
  assume k: "keyed claims" and m: "x \<in> set (member_claims k claims)" "y \<in> set (member_claims k claims)"
    and e: "c_id x = c_id y"
  from m obtain i j where "dget claims i = Some x" "dget claims j = Some y" unfolding member_claims_iff by blast
  with k e show "x = y" by (simp add: keyed_def)
qed

lemma refresh_origins:
  assumes "keyed claims"
  shows "k_origin_ids (refresh claims documents k) =
    fromkeys (map (origin_key (member_claims k claims) documents) (member_claims k claims))"
proof -
  have "k_origin_ids (refresh claims documents k) = fromkeys (map (\<lambda>c. dget_or
      (independent_origin_keys (member_claims k claims) documents) (c_id c) []) (member_claims k claims))"
    by (simp add: refresh_def Let_def)
  also have "\<dots> = fromkeys (map (origin_key (member_claims k claims) documents) (member_claims k claims))"
    using dget_keys[OF member_claims_inj[OF assms]]
    by (intro arg_cong[where f = fromkeys] map_cong refl) (simp add: dget_or_def)
  finally show ?thesis .
qed

lemma card_image_factor:
  assumes "finite A" and "\<And>x y. x \<in> A \<Longrightarrow> y \<in> A \<Longrightarrow> f x = f y \<Longrightarrow> g x = g y"
  shows "card (g ` A) \<le> card (f ` A)"
proof -
  have "g ` A = (\<lambda>v. g (inv_into A f v)) ` (f ` A)"
  proof -
    have "g x = g (inv_into A f (f x))" if "x \<in> A" for x
      by (rule assms(2)[OF that inv_into_into]) (use that f_inv_into_f[of "f x" f A] in auto)
    then show ?thesis unfolding image_image by (rule image_cong[OF refl])
  qed
  then show ?thesis using card_image_le[of "f ` A"] assms(1) by (metis finite_imageI)
qed

lemma doubt_of_bounds:
  "0 \<le> d \<Longrightarrow> d \<le> 1 \<Longrightarrow>
     0 \<le> fold (\<lambda>s d. d * (1 - 8/10 * clamp 0 1 s)) ss d \<and> fold (\<lambda>s d. d * (1 - 8/10 * clamp 0 1 s)) ss d \<le> 1"
proof (induction ss arbitrary: d)
  case (Cons s ss)
  have "0 \<le> 1 - 8/10 * clamp 0 1 s" "1 - 8/10 * clamp 0 1 s \<le> 1"
    using clamp_bounds[of 0 1 s] by auto
  then have "0 \<le> d * (1 - 8/10 * clamp 0 1 s)" "d * (1 - 8/10 * clamp 0 1 s) \<le> 1"
    using Cons.prems by (auto intro: mult_le_one)
  from Cons.IH[OF this] show ?case by simp
qed simp

lemma doubt_of_single: "length ss \<le> 1 \<Longrightarrow> 1/5 \<le> doubt_of ss"
  using clamp_bounds[of 0 1 "hd ss"] by (cases ss) (auto simp: doubt_of_def)

lemma dkeys_fold_dput:
  "distinct (dkeys d) \<Longrightarrow> distinct (dkeys (fold (\<lambda>x d. dput (f x) (g x d) d) xs d))
     \<and> set (dkeys (fold (\<lambda>x d. dput (f x) (g x d) d) xs d)) = set (dkeys d) \<union> f ` set xs"
proof (induction xs arbitrary: d)
  case (Cons x xs)
  from Cons.IH[OF distinct_dput[OF Cons.prems], of "f x" "g x d"] show ?case by auto
qed simp

lemma best_by_origin_length:
  assumes "fst ` set cds \<subseteq> set ms"
  shows "length (best_by_origin key cds) \<le> card (key ` set ms)"
proof -
  have e: "best_by_origin key cds =
      fold (\<lambda>x best. dput (key (fst x)) (max (dget_or best (key (fst x)) 0) (ss_total (d_score (snd x)))) best) cds []"
    unfolding best_by_origin_def case_prod_beta ..
  have d: "distinct (dkeys (best_by_origin key cds))"
    "set (dkeys (best_by_origin key cds)) = (\<lambda>x. key (fst x)) ` set cds"
    unfolding e
    using dkeys_fold_dput[of "[]" "\<lambda>x. key (fst x)" "\<lambda>x best. max (dget_or best (key (fst x)) 0) (ss_total (d_score (snd x)))" cds]
    by simp_all
  from distinct_card[OF d(1)] d(2) have "length (best_by_origin key cds) = card (key ` (fst ` set cds))"
    by (simp add: image_image)
  also have "\<dots> \<le> card (key ` set ms)" using assms by (intro card_mono) auto
  finally show ?thesis .
qed

lemma refresh_confidence:
  "0 \<le> k_confidence (refresh claims documents k) \<and> k_confidence (refresh claims documents k) \<le> 99/100
    \<and> (support (refresh claims documents k) \<le> 1 \<longrightarrow> k_confidence (refresh claims documents k) \<le> 4/5)"
proof -
  let ?ms = "member_claims k claims"
  let ?key = "\<lambda>c. dget_or (independent_origin_keys ?ms documents) (c_id c) []"
  let ?b = "best_by_origin ?key (documented ?ms documents)"
  let ?x = "min (99/100) (1 - doubt_of (dvals ?b))"
  have conf: "k_confidence (refresh claims documents k) = of_int (round_even (?x * 10 ^ 4)) / 10 ^ 4"
    by (simp add: refresh_def Let_def py_round_def)
  have d: "0 \<le> doubt_of (dvals ?b)" "doubt_of (dvals ?b) \<le> 1"
    using doubt_of_bounds[of 1 "dvals ?b"] by (simp_all add: doubt_of_def)
  have "0 \<le> round_even (?x * 10 ^ 4)" using d by (intro round_even_mono_int) (simp add: min_def)
  moreover have "round_even (?x * 10 ^ 4) \<le> 9900" by (intro round_even_le_int) (simp add: min_def)
  moreover have "round_even (?x * 10 ^ 4) \<le> 8000" if "support (refresh claims documents k) \<le> 1"
  proof -
    have "card (?key ` set ?ms) \<le> 1"
      using that by (simp add: refresh_def Let_def support_def)
    moreover have "length ?b \<le> card (?key ` set ?ms)"
      by (rule best_by_origin_length) (auto simp: documented_def in_set_map_filter)
    ultimately have "1/5 \<le> doubt_of (dvals ?b)" by (intro doubt_of_single) simp
    then show ?thesis by (intro round_even_le_int) (simp add: min_def)
  qed
  ultimately show ?thesis unfolding conf by (auto simp: field_simps)
qed

definition paged :: "(str, document) dict \<Rightarrow> claim \<Rightarrow> bool" where
  "paged documents c \<longleftrightarrow> (\<exists>d. dget documents (c_doc_id c) = Some d \<and> d_domain d \<noteq> [])"

definition publisher :: "(str, document) dict \<Rightarrow> claim \<Rightarrow> str" where
  "publisher documents c = site_of (d_domain (the (dget documents (c_doc_id c))))"

lemma refresh_support:
  "keyed claims \<Longrightarrow> support (refresh claims documents k) =
     card (origin_key (member_claims k claims) documents ` set (member_claims k claims))"
  by (simp add: support_def refresh_origins)

lemma support_le_texts:
  "keyed claims \<Longrightarrow> support (refresh claims documents k) \<le> card (c_origin_id ` set (member_claims k claims))"
  unfolding refresh_support by (intro card_image_factor origin_key_linked linked_same_origin) auto

lemma publisher_linked:
  assumes "x \<in> set members" and "y \<in> set members" and "publisher documents x = publisher documents y"
    and "paged documents x" and "paged documents y"
  shows "linked members documents x y"
proof -
  from assms(4,5) obtain dx dy where d: "dget documents (c_doc_id x) = Some dx"
    "dget documents (c_doc_id y) = Some dy" "d_domain dx \<noteq> []" "d_domain dy \<noteq> []"
    unfolding paged_def by blast
  show ?thesis
    by (rule same_site_linked[OF assms(1,2) d]) (use assms(3) d in \<open>simp add: publisher_def\<close>)
qed

lemma support_le_publishers:
  assumes "keyed claims" and "\<forall>c\<in>set (member_claims k claims). paged documents c"
  shows "support (refresh claims documents k) \<le> card (publisher documents ` set (member_claims k claims))"
  unfolding refresh_support[OF assms(1)]
  using assms(2) by (intro card_image_factor origin_key_linked publisher_linked) auto

text \<open>
  C20. What \<open>_refresh\<close> states of a cluster is bounded by its evidence. Its origins are pairwise
  different and never more than the distinct texts of its members, nor than the distinct publishers
  when every page names one: four pages of one site are one voice. It is supported exactly when two
  independent origins stand behind it, a contested cluster stays contested, the confidence lies in
  [0, 0.99] and one voice alone never reaches more than 0.8.
\<close>

theorem support_bounded_by_evidence:
  assumes "keyed claims"
  shows "distinct (k_origin_ids (refresh claims documents k))
    \<and> support (refresh claims documents k) \<le> card (c_origin_id ` set (member_claims k claims))
    \<and> ((\<forall>c\<in>set (member_claims k claims). paged documents c) \<longrightarrow>
         support (refresh claims documents k) \<le> card (publisher documents ` set (member_claims k claims)))
    \<and> k_status (refresh claims documents k) =
        (if k_status k = CONTESTED then CONTESTED
         else if 2 \<le> support (refresh claims documents k) then K_SUPPORTED else SINGLE_SOURCE)
    \<and> 0 \<le> k_confidence (refresh claims documents k) \<and> k_confidence (refresh claims documents k) \<le> 99/100
    \<and> (support (refresh claims documents k) \<le> 1 \<longrightarrow> k_confidence (refresh claims documents k) \<le> 4/5)"
proof -
  have "distinct (k_origin_ids (refresh claims documents k))" by (simp add: refresh_origins[OF assms])
  moreover have "k_status (refresh claims documents k) = (if k_status k = CONTESTED then CONTESTED
         else if 2 \<le> support (refresh claims documents k) then K_SUPPORTED else SINGLE_SOURCE)"
    by (simp add: refresh_def Let_def support_def)
  ultimately show ?thesis
    using support_le_texts[OF assms] support_le_publishers[OF assms] refresh_confidence by blast
qed

section \<open>Clustering a round\<close>

text \<open>
  C21. Clustering the new claims of a round keeps the ledger a partition. No cluster is lost, renamed
  or reordered, an old cluster keeps its statement and only gains claims, every claim of the ledger
  is in one cluster of its own sub-question, and ids and positions stay distinct - provided each
  claim comes once.
\<close>

theorem clusters_partition:
  assumes "cluster_claims existing new_claims vectors documents s all_claims = Inr clusters'"
    and "well_clustered existing" and "distinct (map c_id new_claims)"
    and "c_id ` set new_claims \<inter> set (all_ids existing) = {}"
  shows "well_clustered clusters' \<and> prefix (dkeys existing) (dkeys clusters')
    \<and> set (all_ids clusters') = set (all_ids existing) \<union> c_id ` set new_claims
    \<and> (\<forall>cid k. dget existing cid = Some k \<longrightarrow> (\<exists>k'. dget clusters' cid = Some k'
          \<and> prefix (k_claim_ids k) (k_claim_ids k') \<and> k_statement k' = k_statement k \<and> k_subq_id k' = k_subq_id k))
    \<and> (\<forall>c\<in>set new_claims. \<exists>cid k. dget clusters' cid = Some k \<and> c_id c \<in> set (k_claim_ids k)
          \<and> k_subq_id k = c_subq_id c)"
proof -
  from assms(1) obtain cl reps where
    p: "place_all vectors s new_claims (existing, representatives existing (add_claims new_claims all_claims)) = Inr (cl, reps)"
    and res: "clusters' = dmap_vals (refresh (add_claims new_claims all_claims) documents) cl"
    by (rule cluster_claims_Inr)
  have ex: "distinct (dkeys existing)" "\<forall>(cid, k)\<in>set existing. k_id k = cid" "distinct (all_ids existing)"
    using assms(2) by (simp_all add: well_clustered_def)
  note k = place_all_kept[OF p ex(1,2)]
  then have grow: "kept existing cl" by blast
  have ids: "all_ids clusters' = all_ids cl" by (simp add: res all_ids_def comp_def)
  have kd: "\<exists>k'. dget clusters' cid = Some k' \<and> prefix (k_claim_ids k) (k_claim_ids k')
      \<and> k_statement k' = k_statement k \<and> k_subq_id k' = k_subq_id k"
    if "dget existing cid = Some k" for cid k
    using kept_dget[OF grow that] by (auto simp: res dest: grown_facts)
  have wc: "well_clustered clusters'"
  proof -
    have "\<forall>(cid, k)\<in>set clusters'. k_id k = cid" using k by (auto simp: res dmap_vals_def)
    moreover have "distinct (dkeys clusters')" using k by (simp add: res)
    moreover have "distinct (all_ids clusters')" using k ex(3) assms(3,4) unfolding ids by blast
    ultimately show ?thesis by (simp add: well_clustered_def)
  qed
  have new: "\<exists>cid k. dget clusters' cid = Some k \<and> c_id c \<in> set (k_claim_ids k) \<and> k_subq_id k = c_subq_id c"
    if "c \<in> set new_claims" for c
  proof -
    from k that obtain cid k where "dget cl cid = Some k" "c_id c \<in> set (k_claim_ids k)"
      "k_subq_id k = c_subq_id c" by blast
    then show ?thesis by (intro exI[of _ cid]) (auto simp: res)
  qed
  have "prefix (dkeys existing) (dkeys clusters')" using kept_dkeys[OF grow] by (simp add: res)
  moreover have "set (all_ids clusters') = set (all_ids existing) \<union> c_id ` set new_claims"
    using k unfolding ids by blast
  ultimately show ?thesis using wc new kd by blast
qed

text \<open>
  C22. A claim shares a cluster with an earlier one only if it matches the first claim of that
  cluster: one sub-question, compatible entities, the same conditions and validity, no conflicting
  quantity, and a similarity that reaches the threshold. In particular two contradicting figures are
  never merged into one fact.
\<close>

theorem merged_claims_match:
  assumes "cluster_claims existing new_claims vectors documents s all_claims = Inr clusters'"
    and "well_clustered existing" and "distinct (map c_id new_claims)"
    and "dget clusters' cid = Some k" and "i \<in> set (k_claim_ids k)"
  shows "(\<exists>k0. dget existing cid = Some k0 \<and> i \<in> set (k_claim_ids k0))
    \<or> (\<exists>c\<in>set new_claims. i = c_id c \<and> c_subq_id c = k_subq_id k
         \<and> (\<exists>a. dget (add_claims new_claims all_claims) (hd (k_claim_ids k)) = Some a
               \<and> (a = c \<or> joins vectors s c a)))"
proof -
  let ?claims = "add_claims new_claims all_claims"
  from assms(1) obtain cl reps where
    p: "place_all vectors s new_claims (existing, representatives existing ?claims) = Inr (cl, reps)"
    and res: "clusters' = dmap_vals (refresh ?claims documents) cl"
    by (rule cluster_claims_Inr)
  have wc: "distinct (dkeys existing)" "\<forall>(cid, k)\<in>set existing. k_id k = cid"
    using assms(2) by (simp_all add: well_clustered_def)
  have anch: "anchored ?claims existing (representatives existing ?claims)"
    using dget_representatives[OF _ wc] by (simp add: anchored_def)
  have led: "\<forall>c\<in>set new_claims. dget ?claims (c_id c) = Some c"
    using dget_add_claims[OF assms(3)] by blast
  note j = place_all_joined[OF p wc anch led]
  from assms(4) obtain k1 where k1: "dget cl cid = Some k1" "k = refresh ?claims documents k1"
    by (auto simp: res)
  have "i \<in> set (k_claim_ids k1)" using assms(5) k1(2) by simp
  with j k1(1) consider k0 where "dget existing cid = Some k0" "i \<in> set (k_claim_ids k0)"
    | c where "c \<in> set new_claims" "i = c_id c" "joined vectors s reps cid k1 c"
    by blast
  then show ?thesis
  proof cases
    case 2
    from 2(3) obtain a where a: "dget reps cid = Some a" "a = c \<or> joins vectors s c a" "k_subq_id k1 = c_subq_id c"
      by (auto simp: joined_def)
    from j have "anchored ?claims cl reps" by blast
    from anchoredD(2)[OF this a(1) k1(1)] have "dget ?claims (hd (k_claim_ids k)) = Some a"
      by (simp add: k1(2))
    with 2(1,2) a(2,3) k1(2) show ?thesis by auto
  qed blast
qed

end
