(* ===== verification/Dedup.thy ===== *)
theory Dedup
  imports Clustering
begin

text \<open>
  The document and query layers of deduplication: \<open>dedup/queries.py\<close> (repeated queries),
  \<open>dedup/minhash.py\<close> (near-identical documents share an origin) and \<open>dedup/syndication.py\<close>
  (pages that share long quotes are one origin). SHA-256, MinHash and the LSH index come from
  \<open>hashlib\<close> and \<open>datasketch\<close>: they are the record \<open>near_ops\<close>, an argument of the definitions.
\<close>

section \<open>Queries\<close>

record query_dedup =
  qd_threshold :: real
  qd_seen :: "str set list"

definition normalise_query :: "str \<Rightarrow> str set" where
  "normalise_query text = token_set text"

definition query_dedup_init :: "real \<Rightarrow> str list \<Rightarrow> query_dedup" where
  "query_dedup_init threshold seen = \<lparr>qd_threshold = threshold, qd_seen = map normalise_query seen\<rparr>"

definition is_duplicate :: "query_dedup \<Rightarrow> str \<Rightarrow> bool" where
  "is_duplicate qd query =
     (let candidate = normalise_query query
      in if candidate = {} then True
         else list_ex (\<lambda>previous. candidate \<union> previous \<noteq> {}
                \<and> qd_threshold qd \<le> real (card (candidate \<inter> previous)) / real (card (candidate \<union> previous)))
              (qd_seen qd))"

definition admit :: "query_dedup \<Rightarrow> str \<Rightarrow> bool \<times> query_dedup" where
  "admit qd query =
     (if is_duplicate qd query then (False, qd)
      else (True, qd\<lparr>qd_seen := qd_seen qd @ [normalise_query query]\<rparr>))"

section \<open>Documents\<close>

text \<open>\<open>hashlib.sha256\<close>, the signature of a set of shingles, and \<open>MinHashLSH.insert\<close> (\<open>None\<close> when the
  key is already there) and \<open>query\<close>.\<close>

record 'l near_ops =
  no_sha :: "str \<Rightarrow> str"
  no_signature :: "str set \<Rightarrow> nat list"
  no_insert :: "str \<Rightarrow> nat list \<Rightarrow> 'l \<Rightarrow> 'l option"
  no_query :: "nat list \<Rightarrow> 'l \<Rightarrow> str list"

definition normalised :: "str \<Rightarrow> str" where
  "normalised text = join [32] (tokens text True)"

definition content_hash :: "'l near_ops \<Rightarrow> str \<Rightarrow> str" where
  "content_hash ops text = no_sha ops (normalised text)"

definition shingles :: "str \<Rightarrow> nat \<Rightarrow> str set" where
  "shingles text n =
     (let words = tokens text True
      in if length words < n then (if words \<noteq> [] then {join [32] words} else {})
         else set (map (\<lambda>i. join [32] (take n (drop i words))) [0..<length words - n + 1]))"

definition minhash_signature :: "'l near_ops \<Rightarrow> str \<Rightarrow> nat \<Rightarrow> nat list" where
  "minhash_signature ops text shingle_size = no_signature ops (shingles text shingle_size)"

datatype index_error = MissingKey | DuplicateKey

record 'l origin_index =
  oi_shingle_size :: nat
  oi_lsh :: 'l
  oi_by_hash :: "(str, str) dict"
  oi_origin_of :: "(str, str) dict"
  oi_hash_of :: "(str, str) dict"
  oi_signatures :: "(str, nat list) dict"

definition origin_index_init :: "nat \<Rightarrow> 'l \<Rightarrow> 'l origin_index" where
  "origin_index_init shingle_size lsh = \<lparr>oi_shingle_size = shingle_size, oi_lsh = lsh, oi_by_hash = [],
     oi_origin_of = [], oi_hash_of = [], oi_signatures = []\<rparr>"

definition content_hash_of :: "'l origin_index \<Rightarrow> str \<Rightarrow> index_error + str" where
  "content_hash_of ix doc_id =
     (case dget (oi_hash_of ix) doc_id of None \<Rightarrow> Inl MissingKey | Some h \<Rightarrow> Inr h)"

definition origin_of :: "'l origin_index \<Rightarrow> str \<Rightarrow> str option" where
  "origin_of ix doc_id = dget (oi_origin_of ix) doc_id"

definition restore_doc ::
  "'l near_ops \<Rightarrow> str \<Rightarrow> str \<Rightarrow> nat list \<Rightarrow> str \<Rightarrow> 'l origin_index \<Rightarrow> index_error + 'l origin_index" where
  "restore_doc ops doc_id origin_id signature h ix =
     (let ix1 = ix\<lparr>oi_origin_of := dput doc_id origin_id (oi_origin_of ix),
            oi_hash_of := dput doc_id h (oi_hash_of ix),
            oi_by_hash := setdefault h origin_id (oi_by_hash ix)\<rparr>
      in if signature = [] then Inr ix1
         else case no_insert ops doc_id signature (oi_lsh ix) of
                None \<Rightarrow> Inl DuplicateKey
              | Some lsh \<Rightarrow> Inr (ix1\<lparr>oi_signatures := dput doc_id signature (oi_signatures ix), oi_lsh := lsh\<rparr>))"

text \<open>The tail of \<open>assign\<close>, for a document whose text is new.\<close>

definition assign_new ::
  "'l near_ops \<Rightarrow> str \<Rightarrow> str \<Rightarrow> str \<Rightarrow> 'l origin_index \<Rightarrow> index_error + str \<times> 'l origin_index" where
  "assign_new ops doc_id text digest ix =
     (let signature = minhash_signature ops text (oi_shingle_size ix);
          found = (case sort (no_query ops signature (oi_lsh ix)) of
                     [] \<Rightarrow> Some (lit ''o-'' @ doc_id)
                   | m # _ \<Rightarrow> dget (oi_origin_of ix) m)
      in case found of
           None \<Rightarrow> Inl MissingKey
         | Some origin \<Rightarrow>
             (case no_insert ops doc_id signature (oi_lsh ix) of
                None \<Rightarrow> Inl DuplicateKey
              | Some lsh \<Rightarrow> Inr (origin, ix\<lparr>oi_lsh := lsh,
                  oi_signatures := dput doc_id signature (oi_signatures ix),
                  oi_by_hash := dput digest origin (oi_by_hash ix),
                  oi_origin_of := dput doc_id origin (oi_origin_of ix)\<rparr>)))"

definition assign ::
  "'l near_ops \<Rightarrow> str \<Rightarrow> str \<Rightarrow> 'l origin_index \<Rightarrow> index_error + str \<times> 'l origin_index" where
  "assign ops doc_id text ix =
     (case dget (oi_origin_of ix) doc_id of
        Some origin \<Rightarrow> Inr (origin, ix)
      | None \<Rightarrow>
          let digest = content_hash ops text;
              ix1 = ix\<lparr>oi_hash_of := dput doc_id digest (oi_hash_of ix)\<rparr>
          in case dget (oi_by_hash ix1) digest of
               Some origin \<Rightarrow> Inr (origin, ix1\<lparr>oi_origin_of := dput doc_id origin (oi_origin_of ix1)\<rparr>)
             | None \<Rightarrow> assign_new ops doc_id text digest ix1)"

section \<open>Syndicated copies\<close>

text \<open>The sets of origins in \<open>holders\<close> are lists without duplicates.\<close>

definition hold :: "(str, document) dict \<Rightarrow> nat \<Rightarrow> claim \<Rightarrow> (str, str list) dict \<Rightarrow> (str, str list) dict" where
  "hold documents min_words c holders =
     (let words = tokens (c_quote c) True
      in case dget documents (c_doc_id c) of
           None \<Rightarrow> holders
         | Some d \<Rightarrow> if min_words \<le> length words
             then dput (join [32] words)
                    (add_new (d_origin_id d) (dget_or holders (join [32] words) [])) holders
             else holders)"

definition quote_holders :: "(str, document) dict \<Rightarrow> (str, claim) dict \<Rightarrow> nat \<Rightarrow> (str, str list) dict" where
  "quote_holders documents claims min_words = fold (hold documents min_words) (dvals claims) []"

text \<open>\<open>itertools.combinations(xs, 2)\<close>.\<close>

fun combinations2 :: "'a list \<Rightarrow> ('a \<times> 'a) list" where
  "combinations2 [] = []"
| "combinations2 (x # xs) = map (Pair x) xs @ combinations2 xs"

definition count_up :: "'a \<Rightarrow> ('a, nat) dict \<Rightarrow> ('a, nat) dict" where
  "count_up p counter = dput p (dget_or counter p 0 + 1) counter"

definition shared_quotes :: "(str, str list) dict \<Rightarrow> (str \<times> str, nat) dict" where
  "shared_quotes holders =
     fold count_up (concat (map (\<lambda>origins. combinations2 (sort origins)) (dvals holders))) []"

text \<open>\<open>sorted(shared.items())\<close>: the pairs are different, so their order decides.\<close>

definition sorted_items :: "(str \<times> str, nat) dict \<Rightarrow> ((str \<times> str) \<times> nat) list" where
  "sorted_items shared = sort_key (\<lambda>x. fst (fst x)) (sort_key (\<lambda>x. snd (fst x)) shared)"

definition copy_links :: "nat \<Rightarrow> (str \<times> str, nat) dict \<Rightarrow> (str \<times> str) list" where
  "copy_links min_shared shared = map fst (filter (\<lambda>x. min_shared \<le> snd x) (sorted_items shared))"

definition copy_parents ::
  "(str, document) dict \<Rightarrow> (str, claim) dict \<Rightarrow> nat \<Rightarrow> nat \<Rightarrow> (str, str) dict" where
  "copy_parents documents claims min_shared min_words =
     fold (\<lambda>(a, b). join_roots a b)
       (copy_links min_shared (shared_quotes (quote_holders documents claims min_words))) []"

definition moved_origins :: "(str, str) dict \<Rightarrow> (str, str) dict" where
  "moved_origins parent =
     map (\<lambda>x. (fst x, find_root parent (fst x))) (filter (\<lambda>x. find_root parent (fst x) \<noteq> fst x) parent)"

definition merge_syndicated_origins ::
  "(str, document) dict \<Rightarrow> (str, claim) dict \<Rightarrow> nat \<Rightarrow> nat
   \<Rightarrow> (str, str) dict \<times> (str, document) dict \<times> (str, claim) dict" where
  "merge_syndicated_origins documents claims min_shared min_words =
     (let moved = moved_origins (copy_parents documents claims min_shared min_words)
      in if moved \<noteq> []
         then (moved,
           dmap_vals (\<lambda>d. d\<lparr>d_origin_id := dget_or moved (d_origin_id d) (d_origin_id d)\<rparr>) documents,
           dmap_vals (\<lambda>c. c\<lparr>c_origin_id := dget_or moved (c_origin_id c) (c_origin_id c)\<rparr>) claims)
         else (moved, documents, claims))"

end
