(* ===== verification/DedupProps.thy ===== *)
theory DedupProps
  imports Dedup
begin

text \<open>
  Properties of deduplication: an admitted query is never admitted again in any rewording that keeps
  its words, a document keeps its origin and shares it with every copy of its text, and the
  syndication pass computes the groups of a direct definition (\<open>copies\<close>), whatever the order.
\<close>

section \<open>Queries\<close>

definition query_similarity :: "str set \<Rightarrow> str set \<Rightarrow> real" where
  "query_similarity a b = real (card (a \<inter> b)) / real (card (a \<union> b))"

text \<open>The queries remembered are pairwise below the threshold and none is empty.\<close>

definition dissimilar :: "real \<Rightarrow> str set list \<Rightarrow> bool" where
  "dissimilar t seen \<longleftrightarrow> (\<forall>i j. i < j \<and> j < length seen \<longrightarrow>
      seen ! j \<noteq> {} \<and> query_similarity (seen ! j) (seen ! i) < t)"

fun admit_all :: "query_dedup \<Rightarrow> str list \<Rightarrow> query_dedup" where
  "admit_all qd [] = qd"
| "admit_all qd (q # qs) = admit_all (snd (admit qd q)) qs"

lemma admit_threshold [simp]: "qd_threshold (snd (admit qd q)) = qd_threshold qd"
  by (simp add: admit_def)

lemma admit_all_threshold [simp]: "qd_threshold (admit_all qd qs) = qd_threshold qd"
  by (induction qs arbitrary: qd) simp_all

lemma admit_seen: "set (qd_seen qd) \<subseteq> set (qd_seen (snd (admit qd q)))"
  by (auto simp: admit_def)

lemma admit_all_seen: "set (qd_seen qd) \<subseteq> set (qd_seen (admit_all qd qs))"
  by (induction qs arbitrary: qd) (use admit_seen in fastforce)+

lemma not_duplicate:
  "\<not> is_duplicate qd q \<Longrightarrow> normalise_query q \<noteq> {}
     \<and> (\<forall>p\<in>set (qd_seen qd). query_similarity (normalise_query q) p < qd_threshold qd)"
  by (auto simp: is_duplicate_def Let_def list_ex_iff query_similarity_def not_le split: if_splits)

lemma dissimilar_admit:
  "dissimilar (qd_threshold qd) (qd_seen qd) \<Longrightarrow> dissimilar (qd_threshold qd) (qd_seen (snd (admit qd q)))"
  using not_duplicate[of qd q] by (auto simp: admit_def dissimilar_def nth_append)

lemma dissimilar_admit_all:
  "dissimilar (qd_threshold qd) (qd_seen qd) \<Longrightarrow> dissimilar (qd_threshold qd) (qd_seen (admit_all qd qs))"
proof (induction qs arbitrary: qd)
  case (Cons q qs)
  from Cons.IH[of "snd (admit qd q)"] dissimilar_admit[OF Cons.prems] show ?case by simp
qed simp

text \<open>
  A deduplicator that has processed any series of queries holds pairwise dissimilar word sets,
  and a query it admitted is refused ever after, in every rewording with the same content words
  (order, case, stop words and punctuation do not matter).
\<close>

theorem query_admitted_once:
  assumes "dissimilar (qd_threshold qd) (qd_seen qd)" and "qd_threshold qd \<le> 1"
    and "fst (admit qd q)" and "token_set q' = token_set q"
  shows "dissimilar (qd_threshold qd) (qd_seen (admit_all (snd (admit qd q)) later))
    \<and> \<not> fst (admit (admit_all (snd (admit qd q)) later) q')"
proof -
  let ?qd = "admit_all (snd (admit qd q)) later"
  from assms(3) have nd: "\<not> is_duplicate qd q" by (simp add: admit_def split: if_splits)
  then have "normalise_query q \<in> set (qd_seen (snd (admit qd q)))" by (simp add: admit_def)
  then have seen: "normalise_query q \<in> set (qd_seen ?qd)" using admit_all_seen by blast
  have "is_duplicate ?qd q'"
    unfolding is_duplicate_def Let_def normalise_query_def assms(4)
    using seen assms(2) not_duplicate[OF nd]
    by (auto simp: list_ex_iff normalise_query_def intro!: bexI[of _ "token_set q"] split: if_splits)
  moreover have "dissimilar (qd_threshold qd) (qd_seen ?qd)"
    using dissimilar_admit_all[of "snd (admit qd q)" later] dissimilar_admit[OF assms(1), of q] by simp
  ultimately show ?thesis by (simp add: admit_def)
qed

lemma token_set_ab: "token_set (lit ''a b x'') = {[98], [120]}" "token_set (lit ''X, B'') = {[98], [120]}"
  by (auto simp: token_set_def tokens_def tokens_all_def fold_text_eq_map tr_fold_def lower1_def
    runs.simps token_char_def is_word_def is_alnum_def is_alpha_def is_digit_def STOPWORDS_def)

theorem query_admitted_once_witness:
  "\<not> fst (admit (snd (admit (query_dedup_init (9/10) []) (lit ''a b x''))) (lit ''X, B''))"
proof -
  let ?qd = "query_dedup_init (9/10) []"
  have "dissimilar (qd_threshold ?qd) (qd_seen ?qd)" "qd_threshold ?qd \<le> 1"
    by (simp_all add: query_dedup_init_def dissimilar_def)
  moreover have "fst (admit ?qd (lit ''a b x''))"
    unfolding admit_def is_duplicate_def normalise_query_def token_set_ab by (simp add: query_dedup_init_def)
  moreover have "token_set (lit ''X, B'') = token_set (lit ''a b x'')" unfolding token_set_ab ..
  ultimately have "\<not> fst (admit (admit_all (snd (admit ?qd (lit ''a b x''))) []) (lit ''X, B''))"
    using query_admitted_once[of ?qd "lit ''a b x''" "lit ''X, B''" "[]"] by blast
  then show ?thesis by simp
qed

section \<open>Documents\<close>

text \<open>
  What the code relies on from \<open>MinHashLSH\<close>: a query answers with inserted keys, and inserting fails
  only for a key that is there. \<open>keys\<close> reads the keys of an index.
\<close>

definition near_laws :: "'l near_ops \<Rightarrow> ('l \<Rightarrow> str set) \<Rightarrow> bool" where
  "near_laws ops keys \<longleftrightarrow>
     (\<forall>sg l. set (no_query ops sg l) \<subseteq> keys l)
     \<and> (\<forall>i sg l. i \<notin> keys l \<longrightarrow> (\<exists>l'. no_insert ops i sg l = Some l' \<and> keys l' = insert i (keys l)))"

definition index_ok :: "('l \<Rightarrow> str set) \<Rightarrow> 'l origin_index \<Rightarrow> bool" where
  "index_ok keys ix \<longleftrightarrow> keys (oi_lsh ix) \<subseteq> fst ` set (oi_origin_of ix)"

lemma dget_in: "x \<in> fst ` set d \<Longrightarrow> \<exists>v. dget d x = Some v"
  by (metis map_of_eq_None_iff not_Some_eq)

lemma assign_new_ok:
  assumes "near_laws ops keys" and "index_ok keys ix" and "doc_id \<notin> fst ` set (oi_origin_of ix)"
  shows "\<exists>origin ix'. assign_new ops doc_id text digest ix = Inr (origin, ix') \<and> index_ok keys ix'
    \<and> oi_origin_of ix' = dput doc_id origin (oi_origin_of ix) \<and> oi_by_hash ix' = dput digest origin (oi_by_hash ix)"
proof -
  let ?sg = "minhash_signature ops text (oi_shingle_size ix)"
  have q: "set (no_query ops ?sg (oi_lsh ix)) \<subseteq> fst ` set (oi_origin_of ix)"
    using assms(1,2) by (fastforce simp: near_laws_def index_ok_def)
  obtain origin where o: "(case sort (no_query ops ?sg (oi_lsh ix)) of [] \<Rightarrow> Some (lit ''o-'' @ doc_id)
      | m # _ \<Rightarrow> dget (oi_origin_of ix) m) = Some origin"
  proof (cases "sort (no_query ops ?sg (oi_lsh ix))")
    case (Cons m ms)
    then have "m \<in> set (no_query ops ?sg (oi_lsh ix))" by (metis list.set_intros(1) set_sort)
    with q have "m \<in> fst ` set (oi_origin_of ix)" by (rule subsetD)
    then obtain v where "dget (oi_origin_of ix) m = Some v" using dget_in by metis
    with Cons that show thesis by simp
  qed (use that in simp)
  have "doc_id \<notin> keys (oi_lsh ix)" using assms(2,3) by (auto simp: index_ok_def)
  with assms(1) obtain l where l: "no_insert ops doc_id ?sg (oi_lsh ix) = Some l"
    "keys l = insert doc_id (keys (oi_lsh ix))" unfolding near_laws_def by blast
  show ?thesis
    using o l assms(2) by (auto simp: assign_new_def Let_def index_ok_def)
qed

lemma assign_fresh:
  assumes "near_laws ops keys" and "index_ok keys ix" and "dget (oi_origin_of ix) doc_id = None"
  shows "\<exists>origin ix'. assign ops doc_id text ix = Inr (origin, ix') \<and> index_ok keys ix'
    \<and> oi_origin_of ix' = dput doc_id origin (oi_origin_of ix)
    \<and> dget (oi_by_hash ix') (content_hash ops text) = Some origin
    \<and> (dget (oi_by_hash ix) (content_hash ops text) = Some origin
       \<or> dget (oi_by_hash ix) (content_hash ops text) = None)"
proof (cases "dget (oi_by_hash ix) (content_hash ops text)")
  case None
  let ?ix = "ix\<lparr>oi_hash_of := dput doc_id (content_hash ops text) (oi_hash_of ix)\<rparr>"
  have "index_ok keys ?ix" "doc_id \<notin> fst ` set (oi_origin_of ?ix)"
    using assms(2,3) by (simp_all add: index_ok_def map_of_eq_None_iff)
  from assign_new_ok[OF assms(1) this, of "text" "content_hash ops text"] assms(3) None
  show ?thesis by (auto simp: assign_def Let_def)
next
  case (Some origin)
  with assms(2,3) show ?thesis by (auto simp: assign_def Let_def index_ok_def)
qed

text \<open>
  The index assigns every document an origin without failing, once: the origin never changes
  afterwards, no other document's does, and a later document with the same normalised text gets the
  same one.
\<close>

theorem origin_assigned_once:
  assumes "near_laws ops keys" and "index_ok keys ix" and "dget (oi_origin_of ix) doc_id = None"
  shows "\<exists>origin ix'. assign ops doc_id text ix = Inr (origin, ix') \<and> index_ok keys ix'
    \<and> (\<forall>text'. assign ops doc_id text' ix' = Inr (origin, ix'))
    \<and> (\<forall>d. d \<noteq> doc_id \<longrightarrow> origin_of ix' d = origin_of ix d)
    \<and> (\<forall>copy text'. dget (oi_origin_of ix') copy = None \<longrightarrow> normalised text' = normalised text \<longrightarrow>
         (\<exists>ix''. assign ops copy text' ix' = Inr (origin, ix'') \<and> origin_of ix'' doc_id = Some origin))"
proof -
  from assign_fresh[OF assms, of "text"] obtain origin ix' where
    a: "assign ops doc_id text ix = Inr (origin, ix')" "index_ok keys ix'"
      "oi_origin_of ix' = dput doc_id origin (oi_origin_of ix)"
      "dget (oi_by_hash ix') (content_hash ops text) = Some origin" by blast
  have "\<exists>ix''. assign ops copy text' ix' = Inr (origin, ix'') \<and> origin_of ix'' doc_id = Some origin"
    if "dget (oi_origin_of ix') copy = None" "normalised text' = normalised text" for copy text'
    using that a(3,4) by (auto simp: assign_def Let_def content_hash_def origin_of_def)
  moreover have "assign ops doc_id text' ix' = Inr (origin, ix')" for text'
    using a(3) by (simp add: assign_def)
  ultimately show ?thesis using a by (auto simp: origin_of_def)
qed

text \<open>An index that finds equal signatures, as a concrete instance.\<close>

definition exact_ops :: "(str, nat list) dict near_ops" where
  "exact_ops = \<lparr>no_sha = id, no_signature = (\<lambda>A. [card A]),
     no_insert = (\<lambda>i sg l. if dmem i l then None else Some (dput i sg l)),
     no_query = (\<lambda>sg l. map fst (filter (\<lambda>x. snd x = sg) l))\<rparr>"

theorem origin_assigned_once_witness:
  "\<exists>origin ix'. assign exact_ops [49] (lit ''a b'') (origin_index_init 2 []) = Inr (origin, ix')
     \<and> assign exact_ops [49] [] ix' = Inr (origin, ix')"
proof -
  have "near_laws exact_ops (\<lambda>l. fst ` set l)"
    by (auto simp: near_laws_def exact_ops_def)
  moreover have "index_ok (\<lambda>l. fst ` set l) (origin_index_init 2 ([] :: (str, nat list) dict))"
    by (simp add: index_ok_def origin_index_init_def)
  ultimately show ?thesis
    using origin_assigned_once[of exact_ops "\<lambda>l. fst ` set l" "origin_index_init 2 []" "[49]" "lit ''a b''"]
    by (fastforce simp: origin_index_init_def)
qed

section \<open>Syndicated copies\<close>

text \<open>
  The direct definition: the quotes an origin holds, and the groups of origins that share enough of
  them, directly or through others.
\<close>

definition held_quotes :: "(str, document) dict \<Rightarrow> (str, claim) dict \<Rightarrow> nat \<Rightarrow> str \<Rightarrow> str set" where
  "held_quotes documents claims w origin =
     {join [32] (tokens (c_quote c) True) | c d. c \<in> set (dvals claims) \<and> dget documents (c_doc_id c) = Some d
        \<and> w \<le> length (tokens (c_quote c) True) \<and> d_origin_id d = origin}"

lemma held_quotesI:
  "c \<in> set (dvals claims) \<Longrightarrow> dget documents (c_doc_id c) = Some d \<Longrightarrow> tokens (c_quote c) True = words \<Longrightarrow>
     w \<le> length words \<Longrightarrow> join [32] words \<in> held_quotes documents claims w (d_origin_id d)"
  unfolding held_quotes_def by blast

lemma finite_held: "finite (held_quotes documents claims w a)"
  by (rule finite_subset[of _ "(\<lambda>c. join [32] (tokens (c_quote c) True)) ` set (dvals claims)"])
    (auto simp: held_quotes_def)

definition share_enough :: "(str, document) dict \<Rightarrow> (str, claim) dict \<Rightarrow> nat \<Rightarrow> nat \<Rightarrow> (str \<times> str) set" where
  "share_enough documents claims m w =
     {(a, b). a \<noteq> b \<and> m \<le> card (held_quotes documents claims w a \<inter> held_quotes documents claims w b)}"

definition copies :: "(str, document) dict \<Rightarrow> (str, claim) dict \<Rightarrow> nat \<Rightarrow> nat \<Rightarrow> str \<Rightarrow> str \<Rightarrow> bool" where
  "copies documents claims m w a b \<longleftrightarrow> (a, b) \<in> (share_enough documents claims m w)\<^sup>*"

text \<open>\<open>holders\<close> lists, for each quote, the origins that hold it.\<close>

lemma hold_one:
  assumes "\<forall>q. distinct (dget_or h q [])" and "distinct (dkeys h)"
  shows "(\<forall>q. distinct (dget_or (hold documents w c h) q [])) \<and> distinct (dkeys (hold documents w c h))
    \<and> (\<forall>q. set (dget_or (hold documents w c h) q []) = set (dget_or h q []) \<union>
       {d_origin_id d | d. dget documents (c_doc_id c) = Some d
          \<and> w \<le> length (tokens (c_quote c) True) \<and> join [32] (tokens (c_quote c) True) = q})"
proof -
  let ?q = "join [32] (tokens (c_quote c) True)"
  have e: "dget_or (dput ?q v h) q [] = (if q = ?q then v else dget_or h q [])" for v q
    by (simp add: dget_or_def)
  show ?thesis
  proof (cases "\<exists>d. dget documents (c_doc_id c) = Some d \<and> w \<le> length (tokens (c_quote c) True)")
    case True
    then obtain d where d: "dget documents (c_doc_id c) = Some d" "w \<le> length (tokens (c_quote c) True)" by blast
    then have "hold documents w c h = dput ?q (add_new (d_origin_id d) (dget_or h ?q [])) h"
      by (simp add: hold_def Let_def)
    then show ?thesis using assms d by (auto simp: e add_new_def)
  next
    case False
    then have "hold documents w c h = h" by (auto simp: hold_def Let_def split: option.splits)
    then show ?thesis using assms False by auto
  qed
qed

lemma fold_hold:
  "(\<forall>q. distinct (dget_or h q [])) \<Longrightarrow> distinct (dkeys h) \<Longrightarrow>
     (\<forall>q. distinct (dget_or (fold (hold documents w) cs h) q []))
     \<and> distinct (dkeys (fold (hold documents w) cs h))
     \<and> (\<forall>q. set (dget_or (fold (hold documents w) cs h) q []) = set (dget_or h q []) \<union>
         {d_origin_id d | c d. c \<in> set cs \<and> dget documents (c_doc_id c) = Some d
            \<and> w \<le> length (tokens (c_quote c) True) \<and> join [32] (tokens (c_quote c) True) = q})"
proof (induction cs arbitrary: h)
  case (Cons c cs)
  have one: "\<forall>q. distinct (dget_or (hold documents w c h) q [])" "distinct (dkeys (hold documents w c h))"
    "set (dget_or (hold documents w c h) q []) = set (dget_or h q []) \<union>
       {d_origin_id d | d. dget documents (c_doc_id c) = Some d
          \<and> w \<le> length (tokens (c_quote c) True) \<and> join [32] (tokens (c_quote c) True) = q}" for q
    using hold_one[OF Cons.prems] by blast+
  note ih = Cons.IH[OF one(1,2)]
  have "set (dget_or (fold (hold documents w) (c # cs) h) q []) = set (dget_or h q []) \<union>
      {d_origin_id d | x d. x \<in> set (c # cs) \<and> dget documents (c_doc_id x) = Some d
         \<and> w \<le> length (tokens (c_quote x) True) \<and> join [32] (tokens (c_quote x) True) = q}" (is "?L = ?R") for q
  proof -
    have "?L = set (dget_or (hold documents w c h) q []) \<union>
      {d_origin_id d | x d. x \<in> set cs \<and> dget documents (c_doc_id x) = Some d
         \<and> w \<le> length (tokens (c_quote x) True) \<and> join [32] (tokens (c_quote x) True) = q}"
      using ih by simp
    also have "\<dots> = ?R" unfolding one(3) by auto
    finally show ?thesis .
  qed
  then show ?case using ih unfolding fold_Cons comp_def by blast
qed simp

lemma holders_facts:
  "distinct (dget_or (quote_holders documents claims w) q [])"
  "distinct (dkeys (quote_holders documents claims w))"
  "a \<in> set (dget_or (quote_holders documents claims w) q []) \<longleftrightarrow> q \<in> held_quotes documents claims w a"
  using fold_hold[of "[]" documents w "dvals claims"]
  by (auto simp: quote_holders_def held_quotes_def dget_or_def)

text \<open>The counter holds, for each pair, the number of quotes both hold.\<close>

lemma count_up_fold:
  "dget_or (fold count_up ps d) p 0 = dget_or d p 0 + count_list ps p"
  by (induction ps arbitrary: d) (auto simp: count_up_def dget_or_def split: option.splits)

lemma combinations2_mem:
  "sorted xs \<Longrightarrow> distinct xs \<Longrightarrow> (a, b) \<in> set (combinations2 xs) \<longleftrightarrow> a \<in> set xs \<and> b \<in> set xs \<and> (a::'a::linorder) < b"
  by (induction xs) (auto simp: less_le)

lemma combinations2_distinct: "distinct xs \<Longrightarrow> distinct (combinations2 xs)"
proof (induction xs)
  case (Cons x xs)
  have "fst ` set (combinations2 xs) \<subseteq> set xs" for xs :: "'a list"
    by (induction xs) auto
  with Cons show ?case by (fastforce simp: distinct_map inj_on_def)
qed simp

lemma count_distinct: "distinct xs \<Longrightarrow> count_list xs x = (if x \<in> set xs then 1 else 0)"
  by (induction xs) auto

lemma count_concat: "count_list (concat xss) x = sum_list (map (\<lambda>xs. count_list xs x) xss)"
  by (induction xss) auto

lemma dget_or_val: "distinct (dkeys d) \<Longrightarrow> (q, v) \<in> set d \<Longrightarrow> dget_or d q x = v"
  by (simp add: dget_or_def)

lemma sum_list_indicator: "sum_list (map (\<lambda>x. if P x then 1 else 0) xs) = length (filter P xs)"
  by (induction xs) auto

lemma shared_count:
  fixes documents claims w defines "h \<equiv> quote_holders documents claims w"
  shows "dget_or (shared_quotes h) (a, b) 0 =
    (if a < b then card (held_quotes documents claims w a \<inter> held_quotes documents claims w b) else 0)"
proof -
  have dist: "distinct v" if "(q, v) \<in> set h" for q v
    using holders_facts(1)[of documents claims w q] dget_or_val[OF holders_facts(2), of q v] that
    unfolding h_def by metis
  have mem: "a \<in> set v \<longleftrightarrow> q \<in> held_quotes documents claims w a" if "(q, v) \<in> set h" for q v a
    using holders_facts(3)[of a documents claims w q] dget_or_val[OF holders_facts(2), of q v] that
    unfolding h_def by metis
  have "dget_or (shared_quotes h) (a, b) 0 = sum_list (map (\<lambda>v. count_list (combinations2 (sort v)) (a, b)) (dvals h))"
    unfolding shared_quotes_def count_up_fold count_concat by (simp add: dget_or_def comp_def)
  also have "\<dots> = sum_list (map (\<lambda>x. if a < b \<and> a \<in> set (snd x) \<and> b \<in> set (snd x) then 1 else 0) h)"
    using dist by (auto simp: count_distinct combinations2_distinct combinations2_mem comp_def
        intro!: arg_cong[where f = sum_list])
  also have "\<dots> = length (filter (\<lambda>x. a < b \<and> a \<in> set (snd x) \<and> b \<in> set (snd x)) h)"
    by (rule sum_list_indicator)
  also have "\<dots> = card (fst ` set (filter (\<lambda>x. a < b \<and> a \<in> set (snd x) \<and> b \<in> set (snd x)) h))"
  proof -
    have "distinct (map fst (filter (\<lambda>x. a < b \<and> a \<in> set (snd x) \<and> b \<in> set (snd x)) h))"
      using holders_facts(2)[of documents claims w] unfolding h_def by (rule distinct_map_filter)
    from distinct_card[OF this] show ?thesis by simp
  qed
  also have "fst ` set (filter (\<lambda>x. a < b \<and> a \<in> set (snd x) \<and> b \<in> set (snd x)) h)
      = (if a < b then held_quotes documents claims w a \<inter> held_quotes documents claims w b else {})"
  proof (cases "a < b")
    case True
    have in_h: "\<exists>v. (q, v) \<in> set h" if "q \<in> held_quotes documents claims w a" for q
    proof -
      have "dget_or h q [] \<noteq> []"
        using that holders_facts(3)[of a documents claims w q] unfolding h_def by auto
      then have "dget h q \<noteq> None" by (auto simp: dget_or_def split: option.splits)
      then show ?thesis by (metis map_of_SomeD not_None_eq)
    qed
    have "q \<in> fst ` set (filter (\<lambda>x. a < b \<and> a \<in> set (snd x) \<and> b \<in> set (snd x)) h) \<longleftrightarrow>
        (\<exists>v. (q, v) \<in> set h \<and> a \<in> set v \<and> b \<in> set v)" for q
      using True by force
    moreover have "(\<exists>v. (q, v) \<in> set h \<and> a \<in> set v \<and> b \<in> set v) \<longleftrightarrow>
        q \<in> held_quotes documents claims w a \<and> q \<in> held_quotes documents claims w b" for q
      using mem in_h by metis
    ultimately show ?thesis using True by auto
  qed simp
  finally show ?thesis by simp
qed

text \<open>The links the pass makes are the pairs that share enough.\<close>

lemma distinct_counts:
  "distinct (dkeys d) \<Longrightarrow> distinct (dkeys (fold count_up ps d))"
  by (induction ps arbitrary: d) (auto simp: count_up_def)

lemma copy_links_set:
  assumes "1 \<le> m"
  shows "set (copy_links m (shared_quotes (quote_holders documents claims w)))
    = {(a, b). a < b \<and> (a, b) \<in> share_enough documents claims m w}"
proof -
  let ?s = "shared_quotes (quote_holders documents claims w)"
  have d: "distinct (dkeys ?s)" unfolding shared_quotes_def by (rule distinct_counts) simp
  have "p \<in> set (copy_links m ?s) \<longleftrightarrow> m \<le> dget_or ?s p 0" for p
  proof -
    have "p \<in> set (copy_links m ?s) \<longleftrightarrow> (\<exists>n. (p, n) \<in> set ?s \<and> m \<le> n)"
      by (force simp: copy_links_def sorted_items_def)
    also have "\<dots> \<longleftrightarrow> m \<le> dget_or ?s p 0"
      using d assms by (auto simp: dget_or_def split: option.splits dest: map_of_SomeD)
    finally show ?thesis .
  qed
  then show ?thesis using assms by (auto simp: shared_count share_enough_def split: if_splits)
qed

lemma share_enough_sym: "(share_enough documents claims m w)\<inverse> = share_enough documents claims m w"
  by (auto simp: share_enough_def Int_commute)

lemma share_enough_links:
  fixes documents claims m w
  assumes "1 \<le> m"
  defines "L \<equiv> set (copy_links m (shared_quotes (quote_holders documents claims w)))"
  shows "L \<union> L\<inverse> = share_enough documents claims m w"
proof (rule set_eqI)
  fix p :: "str \<times> str"
  obtain a b where p: "p = (a, b)" by (cases p)
  have "(a, b) \<in> share_enough documents claims m w \<longleftrightarrow> (b, a) \<in> share_enough documents claims m w"
    by (metis share_enough_sym converse_iff)
  moreover have "(a, b) \<in> share_enough documents claims m w \<Longrightarrow> a < b \<or> b < a"
    by (auto simp: share_enough_def)
  ultimately show "p \<in> L \<union> L\<inverse> \<longleftrightarrow> p \<in> share_enough documents claims m w"
    unfolding L_def copy_links_set[OF assms(1)] p by auto
qed

lemma copies_root:
  assumes "1 \<le> m"
  shows "find_root (copy_parents documents claims m w) a = find_root (copy_parents documents claims m w) b
    \<longleftrightarrow> copies documents claims m w a b"
  unfolding copy_parents_def parents.same_links share_enough_links[OF assms] copies_def ..

lemma copy_parents_descending: "descending (copy_parents documents claims m w)"
  unfolding copy_parents_def by (rule parents.ok_links) (rule parents.ok_none)

text \<open>\<open>moved\<close> is the map to the representative.\<close>

lemma dget_moved:
  assumes "descending parent"
  shows "dget_or (moved_origins parent) a a = find_root parent a"
proof -
  have "dget (map (\<lambda>x. (fst x, f (fst x))) (filter (\<lambda>x. f (fst x) \<noteq> fst x) d)) a
      = (if a \<in> fst ` set d \<and> f a \<noteq> a then Some (f a) else None)"
    for f :: "str \<Rightarrow> str" and d :: "(str, str) dict"
    by (induction d) auto
  moreover have "a \<notin> fst ` set parent \<Longrightarrow> find_root parent a = a"
    by (rule find_root_root[OF assms]) (simp add: map_of_eq_None_iff)
  ultimately show ?thesis by (auto simp: moved_origins_def dget_or_def)
qed

lemma merged_dicts:
  assumes "merge_syndicated_origins documents claims m w = (moved, documents', claims')"
  shows "moved = moved_origins (copy_parents documents claims m w)"
    and "documents' = dmap_vals (\<lambda>d. d\<lparr>d_origin_id := dget_or moved (d_origin_id d) (d_origin_id d)\<rparr>) documents"
    and "claims' = dmap_vals (\<lambda>c. c\<lparr>c_origin_id := dget_or moved (c_origin_id c) (c_origin_id c)\<rparr>) claims"
  using assms by (auto simp: merge_syndicated_origins_def Let_def dmap_vals_def dget_or_def split: if_splits)

text \<open>
  C23. The syndication pass implements its specification: an origin is replaced by the least member
  of its group of copies, where two origins are copies when they hold at least
  \<open>min_shared_quotes\<close> long quotes in common or a chain of such pairs joins them. Documents and
  claims are renamed alike; nothing else of them changes. So the outcome depends on what is quoted,
  not on the order in which claims arrive.
\<close>

theorem syndication_refines_groups:
  assumes "merge_syndicated_origins documents claims m w = (moved, documents', claims')" and "1 \<le> m"
  shows "(\<forall>a. copies documents claims m w a (dget_or moved a a)
            \<and> (\<forall>b. copies documents claims m w a b \<longrightarrow> dget_or moved a a \<le> b))
    \<and> (\<forall>a b. dget_or moved a a = dget_or moved b b \<longleftrightarrow> copies documents claims m w a b)
    \<and> documents' = dmap_vals (\<lambda>d. d\<lparr>d_origin_id := dget_or moved (d_origin_id d) (d_origin_id d)\<rparr>) documents
    \<and> claims' = dmap_vals (\<lambda>c. c\<lparr>c_origin_id := dget_or moved (c_origin_id c) (c_origin_id c)\<rparr>) claims"
proof -
  let ?p = "copy_parents documents claims m w"
  note desc = copy_parents_descending[of documents claims m w]
  have r: "dget_or moved a a = find_root ?p a" for a
    unfolding merged_dicts(1)[OF assms(1)] by (rule dget_moved[OF desc])
  have "copies documents claims m w a (find_root ?p a)" for a
    using copies_root[OF assms(2)] parents.rep_rep[OF desc] by metis
  moreover have "find_root ?p a \<le> b" if "copies documents claims m w a b" for a b
    using that copies_root[OF assms(2)] parents.rep_le[OF desc] by metis
  ultimately show ?thesis
    using copies_root[OF assms(2)] merged_dicts(2,3)[OF assms(1)] unfolding r by blast
qed

end
