(* ===== verification/Coverage.thy ===== *)
theory Coverage
  imports Clustering
begin

text \<open>
  \<open>agent/coverage.py\<close>: whether a facet is sufficient, and the state machine of a sub-question
  (pending, searching, then sufficient or exhausted). \<open>ResearchState.origins_for\<close> is here too, as it
  needs the origin keys of the clustering.
\<close>

section \<open>Independent origins of a set of clusters\<close>

text \<open>\<open>{cid: claims[cid] for cluster ... for cid ... if cid in claims}\<close>, its values.\<close>

definition ledger_members :: "cluster list \<Rightarrow> (str, claim) dict \<Rightarrow> claim list" where
  "ledger_members ks claims = List.map_filter (dget claims) (fromkeys (concat (map k_claim_ids ks)))"

definition origins_behind :: "cluster list \<Rightarrow> (str, claim) dict \<Rightarrow> (str, document) dict \<Rightarrow> str set" where
  "origins_behind ks claims documents =
     (let members = ledger_members ks claims
      in if members \<noteq> [] then set (dvals (independent_origin_keys members documents))
         else set (concat (map k_origin_ids ks)))"

definition origins_for :: "research_state \<Rightarrow> str \<Rightarrow> str set" where
  "origins_for st subq_id = origins_behind (clusters_for st subq_id) (rs_claims st) (rs_documents st)"

section \<open>Facets\<close>

definition settled_clusters :: "research_state \<Rightarrow> str list" where
  "settled_clusters st =
     concat (map x_cluster_ids (filter (\<lambda>x. x_resolved x \<or> x_followup_attempted x) (rs_contradictions st)))"

definition relevant_clusters :: "research_state \<Rightarrow> subquestion \<Rightarrow> facet \<Rightarrow> cluster list" where
  "relevant_clusters st subq f = filter (\<lambda>k. \<not> k_requires_fresh_confirmation k
     \<and> (List.member (k_facet_ids k) (f_id f) \<or> k_facet_ids k = [] \<and> length (sq_facets subq) = 1))
     (clusters_for st (sq_id subq))"

definition facet_claims :: "research_state \<Rightarrow> subquestion \<Rightarrow> facet \<Rightarrow> claim list" where
  "facet_claims st subq f = filter (\<lambda>c. c_subq_id c = sq_id subq \<and> c_facet_id c = Some (f_id f)
     \<and> (c_validation_status c = V_SUPPORTED \<or> c_validation_status c = LEGACY)) (dvals (rs_claims st))"

definition awaiting_freshness :: "claim list \<Rightarrow> bool" where
  "awaiting_freshness cs = (list_ex c_requires_fresh_confirmation cs
     \<and> \<not> list_ex (\<lambda>c. c_time_sensitive c \<and> \<not> c_requires_fresh_confirmation c) cs)"

definition strong_primary :: "scoring_settings \<Rightarrow> cluster list \<Rightarrow> bool" where
  "strong_primary s ks =
     list_ex (\<lambda>k. k_has_primary k \<and> sc_primary_source_min_score s \<le> k_best_source_score k) ks"

definition blocked :: "research_state \<Rightarrow> cluster list \<Rightarrow> bool" where
  "blocked st ks = list_ex (\<lambda>k. k_status k = CONTESTED \<and> \<not> List.member (settled_clusters st) (k_id k)) ks"

definition facet_verdict :: "scoring_settings \<Rightarrow> research_state \<Rightarrow> subquestion \<Rightarrow> facet \<Rightarrow> facet_status" where
  "facet_verdict s st subq f =
     (let relevant = relevant_clusters st subq f;
          origins = origins_behind relevant (rs_claims st) (rs_documents st)
      in if awaiting_freshness (facet_claims st subq f) then F_OPEN
         else if blocked st relevant then F_CONTESTED
         else if strong_primary s relevant \<or> sc_min_independent_origins s \<le> card origins then F_SUFFICIENT
         else F_OPEN)"

definition assess_facets :: "scoring_settings \<Rightarrow> research_state \<Rightarrow> research_state" where
  "assess_facets s st = st\<lparr>rs_plan := map (\<lambda>subq.
     subq\<lparr>sq_facets := map (\<lambda>f. f\<lparr>f_status := facet_verdict s st subq f\<rparr>) (sq_facets subq)\<rparr>) (rs_plan st)\<rparr>"

section \<open>Progress of a sub-question\<close>

definition no_progress_reason :: "nat \<Rightarrow> str" where
  "no_progress_reason rounds = lit ''no progress for '' @ dec rounds @
     lit '' rounds (no new findings or independent sources)''"

definition REPEATED_QUERIES_REASON :: str where
  "REPEATED_QUERIES_REASON = lit ''only repeated queries could be generated''"

definition update_progress :: "budget_settings \<Rightarrow> int \<Rightarrow> subquestion \<Rightarrow> subquestion" where
  "update_progress s gain subq =
     (if \<not> sq_open subq then subq
      else if sq_facets subq \<noteq> [] \<and> list_all (\<lambda>f. f_status f = F_SUFFICIENT) (sq_facets subq)
      then subq\<lparr>sq_status := SUFFICIENT, sq_rounds_without_progress := 0\<rparr>
      else if gain > 0 then subq\<lparr>sq_status := SEARCHING, sq_rounds_without_progress := 0\<rparr>
      else let n = sq_rounds_without_progress subq + 1
           in if bs_stagnation_threshold s \<le> n
              then subq\<lparr>sq_status := EXHAUSTED, sq_rounds_without_progress := n,
                     sq_exhausted_reason := Some (no_progress_reason n)\<rparr>
              else subq\<lparr>sq_status := SEARCHING, sq_rounds_without_progress := n\<rparr>)"

definition progress_of :: "research_state \<Rightarrow> str \<Rightarrow> nat \<times> nat" where
  "progress_of st i = (length (clusters_for st i), card (origins_for st i))"

definition progress_snapshot :: "research_state \<Rightarrow> (str, nat \<times> nat) dict" where
  "progress_snapshot st = fold (\<lambda>subq. dput (sq_id subq) (progress_of st (sq_id subq))) (rs_plan st) []"

definition gain_since :: "research_state \<Rightarrow> (str, nat \<times> nat) dict \<Rightarrow> str \<Rightarrow> int" where
  "gain_since st snapshot i =
     (let (clusters_before, origins_before) = dget_or snapshot i (0, 0);
          (clusters_now, origins_now) = progress_of st i
      in (int clusters_now - int clusters_before) + (int origins_now - int origins_before))"

end
