(* ===== verification/CoverageProps.thy ===== *)
theory CoverageProps
  imports Coverage ClusterProps
begin

text \<open>
  Properties of coverage: what a sufficient facet rests on, and the life of a sub-question, which
  closes after a bounded number of rounds without gain.
\<close>

section \<open>Sufficient facets\<close>

lemma dvals_fold_dput:
  "set (dvals (fold (\<lambda>c. dput (f c) (g c)) cs d)) \<subseteq> set (dvals d) \<union> g ` set cs"
proof (induction cs arbitrary: d)
  case (Cons c cs)
  have "set (dvals (dput (f c) (g c) d)) \<subseteq> insert (g c) (set (dvals d))"
    by (induction d) auto
  with Cons.IH[of "dput (f c) (g c) d"] show ?case by auto
qed simp

lemma origins_behind_le:
  assumes "ledger_members ks claims \<noteq> []"
    and "\<And>x y. x \<in> set (ledger_members ks claims) \<Longrightarrow> y \<in> set (ledger_members ks claims) \<Longrightarrow> f x = f y \<Longrightarrow>
           linked (ledger_members ks claims) documents x y"
  shows "card (origins_behind ks claims documents) \<le> card (f ` set (ledger_members ks claims))"
proof -
  let ?ms = "ledger_members ks claims"
  have "origins_behind ks claims documents \<subseteq> origin_key ?ms documents ` set ?ms"
    using assms(1) dvals_fold_dput[of c_id "origin_key ?ms documents" ?ms "[]"]
    by (simp add: origins_behind_def independent_origin_keys_def Let_def)
  then have "card (origins_behind ks claims documents) \<le> card (origin_key ?ms documents ` set ?ms)"
    by (rule card_mono[rotated]) simp
  also have "\<dots> \<le> card (f ` set ?ms)"
    by (rule card_image_factor) (auto intro: origin_key_linked assms(2))
  finally show ?thesis .
qed

text \<open>
  A facet is called sufficient only on evidence: no contradiction that still awaits its follow-up
  touches it, and either a primary source of at least the configured score backs one of its clusters,
  or its claims come from at least \<open>min_independent_origins\<close> distinct texts and, when every page
  names its publisher, from as many publishers.
\<close>

theorem sufficient_facet_has_evidence:
  assumes "facet_verdict s st subq f = F_SUFFICIENT"
    and "ledger_members (relevant_clusters st subq f) (rs_claims st) \<noteq> []"
  shows "(\<forall>k\<in>set (relevant_clusters st subq f). k_status k = CONTESTED \<longrightarrow>
            (\<exists>x\<in>set (rs_contradictions st). k_id k \<in> set (x_cluster_ids x) \<and> (x_resolved x \<or> x_followup_attempted x)))
    \<and> ((\<exists>k\<in>set (relevant_clusters st subq f). k_has_primary k \<and> sc_primary_source_min_score s \<le> k_best_source_score k)
       \<or> sc_min_independent_origins s \<le> card (c_origin_id ` set (ledger_members (relevant_clusters st subq f) (rs_claims st)))
         \<and> ((\<forall>c\<in>set (ledger_members (relevant_clusters st subq f) (rs_claims st)). paged (rs_documents st) c) \<longrightarrow>
              sc_min_independent_origins s \<le>
              card (publisher (rs_documents st) ` set (ledger_members (relevant_clusters st subq f) (rs_claims st)))))"
proof -
  let ?ks = "relevant_clusters st subq f"
  let ?ms = "ledger_members ?ks (rs_claims st)" and ?ds = "rs_documents st"
  have nb: "\<not> blocked st ?ks"
    and ev: "strong_primary s ?ks \<or> sc_min_independent_origins s \<le> card (origins_behind ?ks (rs_claims st) ?ds)"
    using assms(1) by (auto simp: facet_verdict_def Let_def split: if_splits)
  have texts: "card (origins_behind ?ks (rs_claims st) ?ds) \<le> card (c_origin_id ` set ?ms)"
    by (rule origins_behind_le[OF assms(2) linked_same_origin])
  have pubs: "card (origins_behind ?ks (rs_claims st) ?ds) \<le> card (publisher ?ds ` set ?ms)"
    if "\<forall>c\<in>set ?ms. paged ?ds c"
    by (rule origins_behind_le[OF assms(2) publisher_linked]) (use that in auto)
  from nb have "\<forall>k\<in>set ?ks. k_status k = CONTESTED \<longrightarrow>
      (\<exists>x\<in>set (rs_contradictions st). k_id k \<in> set (x_cluster_ids x) \<and> (x_resolved x \<or> x_followup_attempted x))"
    by (auto simp: blocked_def list_ex_iff settled_clusters_def)
  with ev texts pubs show ?thesis by (auto simp: strong_primary_def list_ex_iff)
qed

section \<open>The life of a sub-question\<close>

text \<open>
  A round may rewrite the facets (\<open>assess_facets\<close>, new ones from the model) and then moves the
  sub-question on; query generation marks an open one as being searched, with the texts tried, or gives
  it up when it can only repeat itself.
\<close>

inductive sq_reach :: "budget_settings \<Rightarrow> subquestion \<Rightarrow> bool" for s where
  start: "sq_status q = PENDING \<Longrightarrow> sq_rounds_without_progress q = 0 \<Longrightarrow> sq_exhausted_reason q = None \<Longrightarrow> sq_reach s q"
| round: "sq_reach s q \<Longrightarrow> sq_reach s (update_progress s gain (q\<lparr>sq_facets := fs\<rparr>))"
| searching: "sq_reach s q \<Longrightarrow> sq_open q \<Longrightarrow>
    sq_reach s (q\<lparr>sq_status := SEARCHING, sq_queries_tried := sq_queries_tried q @ texts\<rparr>)"
| give_up: "sq_reach s q \<Longrightarrow> sq_open q \<Longrightarrow>
    sq_reach s (q\<lparr>sq_status := EXHAUSTED, sq_exhausted_reason := Some REPEATED_QUERIES_REASON\<rparr>)"

lemma update_closed: "\<not> sq_open q \<Longrightarrow> update_progress s gain q = q"
  by (simp add: update_progress_def)

lemma update_status:
  "sq_open q \<Longrightarrow> sq_status (update_progress s gain q) \<in> {SEARCHING, SUFFICIENT, EXHAUSTED}"
  by (simp add: update_progress_def Let_def)

lemma not_open_iff: "\<not> sq_open q \<longleftrightarrow> sq_status q = SUFFICIENT \<or> sq_status q = EXHAUSTED"
  by (cases "sq_status q") (simp_all add: sq_open_def)

text \<open>
  C33. In every reachable state of a sub-question: while it is open it has gone fewer rounds without
  progress than the stagnation threshold and carries no reason; it is exhausted only for one of the
  two stated reasons, and the number in the reason is the number of rounds it waited; a closed
  sub-question never changes its status again.
\<close>

theorem subquestion_lifecycle:
  assumes "sq_reach s q" and "1 \<le> bs_stagnation_threshold s"
  shows "(sq_open q \<longrightarrow> sq_rounds_without_progress q < bs_stagnation_threshold s \<and> sq_exhausted_reason q = None)
    \<and> (sq_status q = EXHAUSTED \<longrightarrow>
         sq_exhausted_reason q = Some REPEATED_QUERIES_REASON
         \<or> sq_rounds_without_progress q = bs_stagnation_threshold s
           \<and> sq_exhausted_reason q = Some (no_progress_reason (bs_stagnation_threshold s)))
    \<and> (\<not> sq_open q \<longrightarrow> (\<forall>gain fs. sq_status (update_progress s gain (q\<lparr>sq_facets := fs\<rparr>)) = sq_status q))"
proof -
  have "(sq_open q \<longrightarrow> sq_rounds_without_progress q < bs_stagnation_threshold s \<and> sq_exhausted_reason q = None)
    \<and> (sq_status q = EXHAUSTED \<longrightarrow>
         sq_exhausted_reason q = Some REPEATED_QUERIES_REASON
         \<or> sq_rounds_without_progress q = bs_stagnation_threshold s
           \<and> sq_exhausted_reason q = Some (no_progress_reason (bs_stagnation_threshold s)))"
    using assms
  proof (induction rule: sq_reach.induct)
    case (round q gain fs)
    then show ?case
      by (auto simp: update_progress_def Let_def sq_open_def intro!: arg_cong[where f = no_progress_reason])
  qed (auto simp: sq_open_def)
  moreover have "\<not> sq_open q \<longrightarrow> (\<forall>gain fs. sq_status (update_progress s gain (q\<lparr>sq_facets := fs\<rparr>)) = sq_status q)"
    by (simp add: update_progress_def sq_open_def)
  ultimately show ?thesis by blast
qed

text \<open>Rounds in a row: the facets found at the time, and the gain of the round.\<close>

fun rounds_run :: "budget_settings \<Rightarrow> (facet list \<times> int) list \<Rightarrow> subquestion \<Rightarrow> subquestion" where
  "rounds_run s [] q = q"
| "rounds_run s ((fs, gain) # rs) q = rounds_run s rs (update_progress s gain (q\<lparr>sq_facets := fs\<rparr>))"

lemma rounds_run_closed: "\<not> sq_open q \<Longrightarrow> sq_status (rounds_run s rs q) = sq_status q"
proof (induction rs arbitrary: q)
  case (Cons r rs)
  obtain fs gain where r: "r = (fs, gain)" by (cases r)
  have c: "\<not> sq_open (q\<lparr>sq_facets := fs\<rparr>)" using Cons.prems by (simp add: sq_open_def)
  with Cons.IH[of "q\<lparr>sq_facets := fs\<rparr>"] show ?case by (simp add: r update_closed)
qed simp

lemma rounds_run_stagnant:
  "sq_open (rounds_run s rs q) \<Longrightarrow> \<forall>r\<in>set rs. snd r \<le> 0 \<Longrightarrow>
     sq_rounds_without_progress q + length rs = sq_rounds_without_progress (rounds_run s rs q)
     \<and> (rs \<noteq> [] \<longrightarrow> sq_rounds_without_progress (rounds_run s rs q) < bs_stagnation_threshold s)"
proof (induction rs arbitrary: q)
  case (Cons r rs)
  obtain fs gain where r: "r = (fs, gain)" by (cases r)
  let ?q = "update_progress s gain (q\<lparr>sq_facets := fs\<rparr>)"
  have run: "rounds_run s (r # rs) q = rounds_run s rs ?q" by (simp add: r)
  have "sq_open ?q"
  proof (rule ccontr)
    assume "\<not> sq_open ?q"
    from rounds_run_closed[OF this, of s rs] this Cons.prems(1) show False
      unfolding run by (simp add: sq_open_def)
  qed
  moreover from this Cons.prems(2) have "sq_rounds_without_progress ?q = sq_rounds_without_progress q + 1"
    "sq_rounds_without_progress ?q < bs_stagnation_threshold s"
    by (auto simp: r update_progress_def Let_def sq_open_def split: if_splits)
  ultimately show ?case
    using Cons.IH[of ?q] Cons.prems unfolding run by (cases rs) auto
qed simp

text \<open>
  Stagnation is noticed: after \<open>stagnation_threshold\<close> rounds in a row that bring neither a new
  cluster nor a new origin, a sub-question is closed, whatever the facets look like meanwhile. So no
  sub-question keeps the search going by itself.
\<close>

theorem stagnation_closes:
  assumes "\<forall>r\<in>set rounds. snd r \<le> 0" and "bs_stagnation_threshold s \<le> length rounds" and "rounds \<noteq> []"
  shows "\<not> sq_open (rounds_run s rounds q)"
  using rounds_run_stagnant[of s rounds q] assms by fastforce

definition demo_subquestion :: subquestion where
  "demo_subquestion = \<lparr>sq_id = [113], sq_text = [], sq_priority = MUST, sq_facets = [],
     sq_expected_sources = [], sq_status = PENDING, sq_queries_tried = [], sq_rounds_without_progress = 0,
     sq_exhausted_reason = None\<rparr>"

theorem subquestion_lifecycle_witness:
  "sq_rounds_without_progress (update_progress default_budget_settings 0 demo_subquestion) < 2"
proof -
  have "sq_reach default_budget_settings (update_progress default_budget_settings 0 (demo_subquestion\<lparr>sq_facets := []\<rparr>))"
    by (rule sq_reach.round[OF sq_reach.start]) (simp_all add: demo_subquestion_def)
  from subquestion_lifecycle[OF this] show ?thesis
    by (simp add: demo_subquestion_def default_budget_settings_def update_progress_def sq_open_def Let_def)
qed

theorem stagnation_closes_witness:
  "\<not> sq_open (rounds_run default_budget_settings [([], 0), ([], -1)] demo_subquestion)"
  by (rule stagnation_closes) (simp_all add: default_budget_settings_def)

end
