(* ===== verification/ClusterDemo.thy ===== *)
theory ClusterDemo
  imports ClusterProps NumericProps DedupProps CoverageProps Demo
begin

text \<open>
  Concrete runs of the clustering model: two claims with one figure, on two pages of one publisher.
  They instantiate the hypotheses of the properties of \<open>ClusterProps\<close>.
\<close>

definition demo_claim :: "str \<Rightarrow> str \<Rightarrow> claim" where
  "demo_claim i d = \<lparr>c_id = i, c_subq_id = [113], c_facet_id = None, c_doc_id = d, c_origin_id = d,
     c_text = lit ''7%'', c_quote = [], c_kind = FACT, c_entity = None, c_attribute = None, c_value = None,
     c_unit = None, c_as_of = None, c_conditions = [], c_effective_from = None, c_effective_until = None,
     c_time_sensitive = False, c_validation_status = V_SUPPORTED, c_validation_reason = [],
     c_freshness = NOT_TIME_SENSITIVE, c_requires_fresh_confirmation = False, c_quote_match_method = None,
     c_quote_match_score = None, c_attributed_to = None, c_iteration = 1\<rparr>"

definition demo_page :: "str \<Rightarrow> str \<Rightarrow> document" where
  "demo_page i domain = \<lparr>d_id = i, d_url = [], d_canonical_url = [], d_domain = domain, d_title = [],
     d_snippet = [], d_content = [], d_content_hash = [], d_published_at = None, d_date_provenance = None,
     d_provider = None, d_subq_ids = [], d_query_ids = [], d_origin_id = i, d_minhash = [], d_fetched = True,
     d_fetch_error = None, d_extracted = True, d_selected_round = None, d_triage_score = 0,
     d_score = default_score, d_first_seen_iteration = 1\<rparr>"

definition demo_docs :: "(str, document) dict" where
  "demo_docs = [([97], demo_page [97] (lit ''x.org'')), ([98], demo_page [98] (lit ''blog.x.org''))]"

abbreviation demo_c1 :: claim where "demo_c1 \<equiv> demo_claim [49] [97]"
abbreviation demo_c2 :: claim where "demo_c2 \<equiv> demo_claim [50] [98]"

lemma demo_claim_simps [simp]:
  "c_id (demo_claim i d) = i" "c_doc_id (demo_claim i d) = d" "c_origin_id (demo_claim i d) = d"
  "c_text (demo_claim i d) = [55, 37]" "c_entity (demo_claim i d) = None" "c_subq_id (demo_claim i d) = [113]"
  "c_facet_id (demo_claim i d) = None" "c_conditions (demo_claim i d) = []"
  by (simp_all add: demo_claim_def)

lemma demo_linked: "linked [demo_c1, demo_c2] demo_docs demo_c1 demo_c2"
  by (rule same_site_linked[where d = "demo_page [97] (lit ''x.org'')" and d' = "demo_page [98] (lit ''blog.x.org'')"])
    (simp_all add: demo_docs_def demo_page_def site_of_def str_lower_def lower1_def)

lemma demo_origins_plain: "x \<in> set [demo_c1, demo_c2] \<Longrightarrow> \<not> starts_with (c_origin_id x) (lit ''said:'')"
  by auto

theorem independent_origins_witness:
  "dget (independent_origin_keys [demo_c1, demo_c2] demo_docs) (c_id demo_c1)
     = dget (independent_origin_keys [demo_c1, demo_c2] demo_docs) (c_id demo_c2)"
proof -
  have "inj_on c_id (set [demo_c1, demo_c2])" by (auto simp: inj_on_def)
  from independent_origins[OF this, of demo_c1 demo_c2 demo_docs] demo_linked show ?thesis
    using demo_origins_plain by (metis list.set_intros)
qed

section \<open>A supported cluster that is one voice\<close>

definition demo_ledger :: "(str, claim) dict" where
  "demo_ledger = [([49], demo_c1), ([50], demo_c2)]"

definition pair_cluster :: cluster where
  "pair_cluster = (new_cluster [107, 49] demo_c1)\<lparr>k_claim_ids := [[49], [50]]\<rparr>"

lemma demo_members: "member_claims pair_cluster demo_ledger = [demo_c1, demo_c2]"
  by (simp add: member_claims_def pair_cluster_def demo_ledger_def map_filter_def)

theorem support_bounded_by_evidence_witness:
  "support (refresh demo_ledger demo_docs pair_cluster) \<le> 1
   \<and> k_status (refresh demo_ledger demo_docs pair_cluster) = SINGLE_SOURCE"
proof -
  have k: "keyed demo_ledger" by (auto simp: keyed_def demo_ledger_def)
  have p: "\<forall>c\<in>set (member_claims pair_cluster demo_ledger). paged demo_docs c"
    by (simp add: demo_members paged_def demo_docs_def demo_page_def)
  have "publisher demo_docs demo_c1 = publisher demo_docs demo_c2"
    by (simp add: publisher_def demo_docs_def demo_page_def site_of_def str_lower_def lower1_def)
  then have "card (publisher demo_docs ` set (member_claims pair_cluster demo_ledger)) \<le> 1"
    by (simp add: demo_members)
  moreover have "k_status pair_cluster \<noteq> CONTESTED"
    by (simp add: pair_cluster_def new_cluster_def)
  ultimately show ?thesis
    using support_bounded_by_evidence[OF k, of demo_docs pair_cluster] p by auto
qed

section \<open>Two claims of one figure become one cluster\<close>

lemma demo_no_conflict: "values_conflict demo_c2 demo_c1 = Inr False"
proof -
  have "claim_quantity_text demo_c1 = [55, 37]" "claim_quantity_text demo_c2 = [55, 37]"
    by (simp_all add: claim_quantity_text_def given_def demo_claim_def)
  moreover have "quantities_match (2/100) (1/2) 31 demo_percent demo_percent"
    by (simp add: quantities_match_def demo_percent_def dated_def any_pair_def)
  ultimately show ?thesis
    using demo_percent_found[of "lit ''en''"] by (simp add: values_conflict_def texts_conflict_def)
qed

lemma demo_placed:
  "\<exists>k. cluster_claims [] [demo_c1, demo_c2] None demo_docs default_dedup_settings [] = Inr [([107, 49], k)]
     \<and> k_claim_ids k = [[49], [50]]"
proof -
  let ?s = default_dedup_settings
  let ?k = "join_cluster demo_c1 (new_cluster [107, 49] demo_c1)"
  have p1: "place None ?s demo_c1 ([], []) = Inr ([([107, 49], ?k)], [([107, 49], demo_c1)])"
    by (simp add: place_def fresh_cluster_id_def cluster_id_def Let_def)
  have sub: "k_subq_id ?k = [113]" by (simp add: join_cluster_def new_cluster_def)
  have "candidate_score None ?s demo_c2 ?k (Some demo_c1) = Inr (Some 1)"
    by (simp add: candidate_score_def sub demo_no_conflict entities_compatible_def normalise_entity_def
        given_def same_conditions_def similarity_def threshold_for_def default_dedup_settings_def)
      (simp add: demo_claim_def)
  then have p2: "place None ?s demo_c2 ([([107, 49], ?k)], [([107, 49], demo_c1)])
      = Inr ([([107, 49], join_cluster demo_c2 ?k)], [([107, 49], demo_c1)])"
    by (simp add: place_def dmap_at_def)
  show ?thesis
    using p1 p2 by (simp add: cluster_claims_def representatives_def dmap_vals_def)
      (simp add: join_cluster_def new_cluster_def add_new_def)
qed

lemma well_clustered_Nil: "well_clustered []"
  by (simp add: well_clustered_def all_ids_def)

theorem clusters_partition_witness:
  "\<exists>cl. cluster_claims [] [demo_c1, demo_c2] None demo_docs default_dedup_settings [] = Inr cl
     \<and> well_clustered cl \<and> set (all_ids cl) = {[49], [50]}"
  using demo_placed clusters_partition[OF _ well_clustered_Nil, of "[demo_c1, demo_c2]" None demo_docs
      default_dedup_settings "[]"] by (fastforce simp: all_ids_def)

theorem merged_claims_match_witness:
  "joins None default_dedup_settings demo_c2 demo_c1"
proof -
  obtain k where k: "cluster_claims [] [demo_c1, demo_c2] None demo_docs default_dedup_settings []
      = Inr [([107, 49], k)]" "k_claim_ids k = [[49], [50]]"
    using demo_placed by blast
  have "distinct (map c_id [demo_c1, demo_c2])" by simp
  from merged_claims_match[OF k(1) well_clustered_Nil this, of "[107, 49]" k "[50]"] k(2)
  obtain a where "dget (add_claims [demo_c1, demo_c2] []) [49] = Some a"
    "a = demo_c2 \<or> joins None default_dedup_settings demo_c2 a" by auto
  moreover from this(1) have "a = demo_c1" by (simp add: add_claims_def)
  moreover have "demo_c1 \<noteq> demo_c2" by (metis demo_claim_simps(1) list.inject numeral_eq_iff num.inject(2) num.distinct(1) num.distinct(3) num.distinct(5) semiring_norm(85,89))
  ultimately show ?thesis by auto
qed


section \<open>Syndicated copies\<close>

text \<open>A concrete run of the syndication pass: two pages that quote the same text.\<close>

definition demo_quotes :: "(str, claim) dict" where
  "demo_quotes = [([49], demo_c1\<lparr>c_quote := lit ''x''\<rparr>), ([50], demo_c2\<lparr>c_quote := lit ''x''\<rparr>)]"

lemma tokens_x: "tokens (lit ''x'') True = [lit ''x'']"
  by (simp add: tokens_def tokens_all_def fold_text_eq_map tr_fold_def lower1_def runs.simps
    token_char_def is_word_def is_alnum_def is_alpha_def)

lemma demo_held: "lit ''x'' \<in> held_quotes demo_docs demo_quotes 1 [97]"
  "lit ''x'' \<in> held_quotes demo_docs demo_quotes 1 [98]"
proof -
  let ?a = "demo_c1\<lparr>c_quote := lit ''x''\<rparr>" and ?b = "demo_c2\<lparr>c_quote := lit ''x''\<rparr>"
  have c: "?a \<in> set (dvals demo_quotes)" "?b \<in> set (dvals demo_quotes)" by (simp_all add: demo_quotes_def)
  have d: "dget demo_docs (c_doc_id ?a) = Some (demo_page [97] (lit ''x.org''))"
    "dget demo_docs (c_doc_id ?b) = Some (demo_page [98] (lit ''blog.x.org''))"
    by (simp_all add: demo_docs_def)
  have q: "tokens (c_quote ?a) True = [lit ''x'']" "tokens (c_quote ?b) True = [lit ''x'']"
    using tokens_x by simp_all
  show "lit ''x'' \<in> held_quotes demo_docs demo_quotes 1 [97]"
    using held_quotesI[OF c(1) d(1) q(1), of 1] by (simp add: demo_page_def)
  show "lit ''x'' \<in> held_quotes demo_docs demo_quotes 1 [98]"
    using held_quotesI[OF c(2) d(2) q(2), of 1] by (simp add: demo_page_def)
qed

theorem syndication_refines_groups_witness:
  "dget_or (fst (merge_syndicated_origins demo_docs demo_quotes 1 1)) [98] [98]
     = dget_or (fst (merge_syndicated_origins demo_docs demo_quotes 1 1)) [97] [97]"
proof -
  obtain moved ds cs where m: "merge_syndicated_origins demo_docs demo_quotes 1 1 = (moved, ds, cs)"
    by (cases "merge_syndicated_origins demo_docs demo_quotes 1 1") auto
  have "([98], [97]) \<in> share_enough demo_docs demo_quotes 1 1"
    using demo_held card_gt_0_iff[of "held_quotes demo_docs demo_quotes 1 [98] \<inter> held_quotes demo_docs demo_quotes 1 [97]"]
    by (auto simp: share_enough_def finite_held)
  then have "copies demo_docs demo_quotes 1 1 [98] [97]" unfolding copies_def by (rule r_into_rtrancl)
  with syndication_refines_groups[OF m] have "dget_or moved [98] [98] = dget_or moved [97] [97]" by auto
  with m show ?thesis by simp
qed


section \<open>Coverage\<close>

text \<open>A facet backed by one primary source, as a concrete state.\<close>

definition demo_facet :: facet where
  "demo_facet = \<lparr>f_id = [102], f_name = [], f_description = [], f_status = F_OPEN\<rparr>"

definition covered_state :: research_state where
  "covered_state = demo_state\<lparr>
     rs_claims := [([49], demo_c1)],
     rs_clusters := [([99], demo_cluster\<lparr>k_claim_ids := [[49]], k_facet_ids := [[102]], k_subq_id := [113]\<rparr>)]\<rparr>"

lemma covered_relevant:
  "relevant_clusters covered_state (demo_subquestion\<lparr>sq_facets := [demo_facet]\<rparr>) demo_facet
     = [demo_cluster\<lparr>k_claim_ids := [[49]], k_facet_ids := [[102]], k_subq_id := [113]\<rparr>]"
  by (simp add: relevant_clusters_def clusters_for_def covered_state_def demo_cluster_def
      demo_subquestion_def demo_facet_def)

theorem sufficient_facet_has_evidence_witness:
  "facet_verdict default_scoring_settings covered_state (demo_subquestion\<lparr>sq_facets := [demo_facet]\<rparr>) demo_facet
     = F_SUFFICIENT
   \<and> ((\<exists>k\<in>set (relevant_clusters covered_state (demo_subquestion\<lparr>sq_facets := [demo_facet]\<rparr>) demo_facet).
          k_has_primary k)
      \<or> sc_min_independent_origins default_scoring_settings \<le> card (c_origin_id ` set (ledger_members
          (relevant_clusters covered_state (demo_subquestion\<lparr>sq_facets := [demo_facet]\<rparr>) demo_facet)
          (rs_claims covered_state))))"
proof -
  let ?q = "demo_subquestion\<lparr>sq_facets := [demo_facet]\<rparr>"
  have v: "facet_verdict default_scoring_settings covered_state ?q demo_facet = F_SUFFICIENT"
    unfolding facet_verdict_def Let_def covered_relevant
    by (simp add: awaiting_freshness_def facet_claims_def covered_state_def demo_claim_def demo_facet_def
        demo_subquestion_def blocked_def strong_primary_def demo_cluster_def default_scoring_settings_def)
  have m: "ledger_members (relevant_clusters covered_state ?q demo_facet) (rs_claims covered_state) \<noteq> []"
    unfolding covered_relevant
    by (simp add: ledger_members_def covered_state_def demo_cluster_def map_filter_def)
  from sufficient_facet_has_evidence[OF v m] v show ?thesis by blast
qed

end
