(* ===== verification/RouterProps.thy ===== *)
theory RouterProps
  imports Router Demo
begin

text \<open>
  Properties of the router and the meter: when the search goes on, in which order the reasons to stop
  are considered, and what survives a snapshot and a resume.
\<close>

section \<open>The decision\<close>

lemma decide_stop:
  "de_stop (decide repr now st m s) \<longleftrightarrow>
     required st \<noteq> [] \<and> list_all (\<lambda>q. sq_status q = SUFFICIENT) (required st)
     \<or> bs_max_iterations s \<le> rs_iteration st \<or> exceeded now m \<noteq> None \<or> open_subquestions st = []"
  by (auto simp: decide_def split: option.splits)

lemma exceeded_None:
  "exceeded now m = None \<longleftrightarrow> bm_searches m < bs_max_searches (bm_settings m)
     \<and> (case bs_max_wall_clock_seconds (bm_settings m) of None \<Rightarrow> True | Some w \<Rightarrow> elapsed_seconds now m < real w)
     \<and> (case bs_max_cost_usd (bm_settings m) of None \<Rightarrow> True | Some c \<Rightarrow> bm_cost_usd m < c)"
  by (auto simp: exceeded_def Let_def split: option.splits)

text \<open>
  The search goes on exactly when something is open, a required sub-question is unanswered, and
  every limit that is set leaves room: rounds, searches, wall clock, cost. Success is considered
  first: a run whose required sub-questions are all answered is reported sufficient even on its last
  round or with its budget spent, and every stop names its reason.
\<close>

theorem search_continues_iff:
  "(\<not> de_stop (decide repr now st m (bm_settings m)) \<longleftrightarrow>
      (\<exists>q\<in>set (rs_plan st). sq_open q) \<and> \<not> list_all (\<lambda>q. sq_status q = SUFFICIENT) (required st)
      \<and> rs_iteration st < bs_max_iterations (bm_settings m) \<and> 0 < searches_left m
      \<and> (case bs_max_wall_clock_seconds (bm_settings m) of None \<Rightarrow> True | Some w \<Rightarrow> elapsed_seconds now m < real w)
      \<and> (case bs_max_cost_usd (bm_settings m) of None \<Rightarrow> True | Some c \<Rightarrow> bm_cost_usd m < c))
   \<and> (de_reason (decide repr now st m (bm_settings m)) = Some R_SUFFICIENT \<longleftrightarrow>
        required st \<noteq> [] \<and> list_all (\<lambda>q. sq_status q = SUFFICIENT) (required st))
   \<and> (de_stop (decide repr now st m (bm_settings m)) \<longleftrightarrow> de_reason (decide repr now st m (bm_settings m)) \<noteq> None)"
proof -
  have open_nil: "open_subquestions st = [] \<longleftrightarrow> \<not> (\<exists>q\<in>set (rs_plan st). sq_open q)"
    by (auto simp: open_subquestions_def filter_empty_conv)
  have req: "required st = [] \<longleftrightarrow> rs_plan st = []"
    by (auto simp: required_def must_subquestions_def filter_empty_conv)
  have "de_reason (decide repr now st m (bm_settings m)) = Some R_SUFFICIENT \<longleftrightarrow>
        required st \<noteq> [] \<and> list_all (\<lambda>q. sq_status q = SUFFICIENT) (required st)"
    "de_stop (decide repr now st m (bm_settings m)) \<longleftrightarrow> de_reason (decide repr now st m (bm_settings m)) \<noteq> None"
    by (auto simp: decide_def split: option.splits)
  moreover have "\<not> de_stop (decide repr now st m (bm_settings m)) \<longleftrightarrow>
      (\<exists>q\<in>set (rs_plan st). sq_open q) \<and> \<not> list_all (\<lambda>q. sq_status q = SUFFICIENT) (required st)
      \<and> rs_iteration st < bs_max_iterations (bm_settings m) \<and> exceeded now m = None"
    unfolding decide_stop open_nil using req by auto
  ultimately show ?thesis unfolding exceeded_None searches_left_def by auto
qed

section \<open>Snapshots\<close>

lemma py_round_close: "\<bar>py_round x n - x\<bar> \<le> 1 / 2 / 10 ^ n"
proof -
  have "\<bar>of_int (round_even (x * 10 ^ n)) - x * 10 ^ n\<bar> / 10 ^ n \<le> (1 / 2) / 10 ^ n"
    by (intro divide_right_mono round_even_close) simp
  moreover have "\<bar>of_int (round_even (x * 10 ^ n)) - x * 10 ^ n\<bar> / 10 ^ n = \<bar>py_round x n - x\<bar>"
    unfolding py_round_def abs_divide[symmetric]
    by (simp add: field_simps abs_div_pos flip: abs_divide)
  ultimately show ?thesis by simp
qed

text \<open>
  C34. Counting goes on after a resume: restoring a snapshot, at any later clock and into any fresh
  meter of the same settings, brings back every counter exactly, the cost to within half a millionth
  of a dollar and the time already spent to within five milliseconds, and so the searches left and
  the search limit.
\<close>

theorem meter_roundtrip:
  defines "r \<equiv> \<lambda>now later m m'. meter_restore later (meter_snapshot now m) m'"
  assumes "bm_settings m' = bm_settings m"
  shows "bm_searches (r now later m m') = bm_searches m \<and> bm_llm_calls (r now later m m') = bm_llm_calls m
    \<and> bm_tokens_in (r now later m m') = bm_tokens_in m \<and> bm_tokens_out (r now later m m') = bm_tokens_out m
    \<and> bm_iteration (r now later m m') = bm_iteration m
    \<and> \<bar>bm_cost_usd (r now later m m') - bm_cost_usd m\<bar> \<le> 1 / 2 / 10 ^ 6
    \<and> \<bar>elapsed_seconds later (r now later m m') - elapsed_seconds now m\<bar> \<le> 1 / 2 / 10 ^ 2
    \<and> searches_left (r now later m m') = searches_left m
    \<and> (exceeded later (r now later m m') = Some L_SEARCHES \<longleftrightarrow> exceeded now m = Some L_SEARCHES)"
  using assms(2) py_round_close[of "bm_cost_usd m" 6] py_round_close[of "elapsed_seconds now m" 2]
  unfolding r_def
  by (auto simp: meter_restore_def meter_snapshot_def stored_nat_def dget_or_def elapsed_seconds_def
      searches_left_def exceeded_def Let_def split: option.splits)

theorem meter_roundtrip_witness:
  "bm_searches (meter_restore 100 (meter_snapshot 7 (add_search 3 (meter_init default_budget_settings 5)))
     (meter_init default_budget_settings 99)) = 3"
  using meter_roundtrip[of "meter_init default_budget_settings 99" "add_search 3 (meter_init default_budget_settings 5)" 100 7]
  by (simp add: add_search_def meter_init_def)

end
