(* ===== verification/Config.thy ===== *)
theory Config
  imports Contracts Urls
begin

text \<open>
  \<open>config/schema.py\<close> as data and \<open>config/loader.py\<close>: the form fields derived from the schema, the
  locked settings, and the resolution of YAML, environment and per-run overrides into one
  configuration. Reading the YAML file, pydantic's validation and the model catalog are arguments of
  \<open>load_settings\<close>. A Python mapping is \<open>JObj\<close> with its keys in order.
\<close>

section \<open>The schema\<close>

datatype constraint = Ge real | Gt real | Le real | Lt real

text \<open>\<open>model_fields\<close>: a field with its name, group, description, annotation, default, lock and
  constraints, or a nested section.\<close>

datatype model_field =
  Leaf str str str str json bool "constraint list"
| Sub str "model_field list"

definition budget_settings_fields :: "model_field list" where
  "budget_settings_fields = [
     Leaf (lit ''max_iterations'') (lit ''Budget'')
       (lit ''Research rounds: 1 initial + N follow-ups.'')
       (lit ''<class '' @ [39] @ lit ''int'' @ [39] @ lit ''>'') (JNum (4)) False [Ge 1, Le 10],
     Leaf (lit ''max_searches'') (lit ''Budget'')
       (lit ''Total search calls per run.'')
       (lit ''<class '' @ [39] @ lit ''int'' @ [39] @ lit ''>'') (JNum (45)) False [Ge 1, Le 200],
     Leaf (lit ''max_wall_clock_seconds'') (lit ''Budget'')
       (lit ''Wall-clock budget. Disabled by default; the counter always runs.'')
       (lit ''int | None'') (JNull) False [Ge 30, Le 7200],
     Leaf (lit ''max_cost_usd'') (lit ''Budget'')
       (lit ''Cost budget in USD. Disabled by default; the counter always runs.'')
       (lit ''float | None'') (JNull) False [Gt 0, Le 100],
     Leaf (lit ''queries_per_subquestion_first_round'') (lit ''Budget'')
       (lit ''Queries per open sub-question in round 1.'')
       (lit ''<class '' @ [39] @ lit ''int'' @ [39] @ lit ''>'') (JNum (3)) False [Ge 1, Le 5],
     Leaf (lit ''queries_per_gap_followup_round'') (lit ''Budget'')
       (lit ''Queries per missing facet or unresolved conflict in later rounds.'')
       (lit ''<class '' @ [39] @ lit ''int'' @ [39] @ lit ''>'') (JNum (1)) False [Ge 1, Le 3],
     Leaf (lit ''max_queries_per_followup_round'') (lit ''Budget'')
       (lit ''Ceiling on queries in a single follow-up round.'')
       (lit ''<class '' @ [39] @ lit ''int'' @ [39] @ lit ''>'') (JNum (8)) False [Ge 1, Le 20],
     Leaf (lit ''stagnation_threshold'') (lit ''Budget'')
       (lit ''Rounds without a new cluster or origin before a sub-question is exhausted.'')
       (lit ''<class '' @ [39] @ lit ''int'' @ [39] @ lit ''>'') (JNum (2)) False [Ge 1, Le 5]]"

definition plan_settings_fields :: "model_field list" where
  "plan_settings_fields = [
     Leaf (lit ''min_subquestions'') (lit ''Planning'')
       (lit ''Lower bound.'')
       (lit ''<class '' @ [39] @ lit ''int'' @ [39] @ lit ''>'') (JNum (3)) False [Ge 1, Le 10],
     Leaf (lit ''max_subquestions'') (lit ''Planning'')
       (lit ''Upper bound.'')
       (lit ''<class '' @ [39] @ lit ''int'' @ [39] @ lit ''>'') (JNum (6)) False [Ge 1, Le 12],
     Leaf (lit ''max_facets_per_subquestion'') (lit ''Planning'')
       (lit ''Answered-criteria checklist size.'')
       (lit ''<class '' @ [39] @ lit ''int'' @ [39] @ lit ''>'') (JNum (5)) False [Ge 1, Le 10]]"

definition fetch_settings_fields :: "model_field list" where
  "fetch_settings_fields = [
     Leaf (lit ''top_k_first_round'') (lit ''Retrieval'')
       (lit ''Documents fetched in full in round 1.'')
       (lit ''<class '' @ [39] @ lit ''int'' @ [39] @ lit ''>'') (JNum (5)) False [Ge 1, Le 20],
     Leaf (lit ''top_k_followup_round'') (lit ''Retrieval'')
       (lit ''Documents fetched in full in later rounds.'')
       (lit ''<class '' @ [39] @ lit ''int'' @ [39] @ lit ''>'') (JNum (3)) False [Ge 1, Le 20],
     Leaf (lit ''timeout_seconds'') (lit ''Retrieval'')
       (lit ''Per-document fetch timeout.'')
       (lit ''<class '' @ [39] @ lit ''float'' @ [39] @ lit ''>'') (JNum (10)) False [Gt 0, Le 120],
     Leaf (lit ''retries'') (lit ''Retrieval'')
       (lit ''Fetch retries.'')
       (lit ''<class '' @ [39] @ lit ''int'' @ [39] @ lit ''>'') (JNum (1)) False [Ge 0, Le 5],
     Leaf (lit ''max_content_bytes'') (lit ''Retrieval'')
       (lit ''Truncation limit for fetched content.'')
       (lit ''<class '' @ [39] @ lit ''int'' @ [39] @ lit ''>'') (JNum (2000000)) False [Gt 0]]"

definition dedup_settings_fields :: "model_field list" where
  "dedup_settings_fields = [
     Leaf (lit ''minhash_num_perm'') (lit ''Deduplication'')
       (lit ''MinHash permutations.'')
       (lit ''<class '' @ [39] @ lit ''int'' @ [39] @ lit ''>'') (JNum (128)) False [Gt 0],
     Leaf (lit ''minhash_shingle_size'') (lit ''Deduplication'')
       (lit ''Word shingle size.'')
       (lit ''<class '' @ [39] @ lit ''int'' @ [39] @ lit ''>'') (JNum (5)) False [Ge 2, Le 12],
     Leaf (lit ''minhash_jaccard_threshold'') (lit ''Deduplication'')
       (lit ''L2 near-duplicate document threshold.'')
       (lit ''<class '' @ [39] @ lit ''float'' @ [39] @ lit ''>'') (JNum (4/5)) False [Ge 0, Le 1],
     Leaf (lit ''claim_similarity_threshold'') (lit ''Deduplication'')
       (lit ''L3 claim cosine threshold.'')
       (lit ''<class '' @ [39] @ lit ''float'' @ [39] @ lit ''>'') (JNum (43/50)) False [Ge 0, Le 1],
     Leaf (lit ''claim_lexical_fallback_threshold'') (lit ''Deduplication'')
       (lit ''L3 threshold without an embedding provider.'')
       (lit ''<class '' @ [39] @ lit ''float'' @ [39] @ lit ''>'') (JNum (7/10)) False [Ge 0, Le 1],
     Leaf (lit ''query_similarity_threshold'') (lit ''Deduplication'')
       (lit ''L4 query repetition threshold.'')
       (lit ''<class '' @ [39] @ lit ''float'' @ [39] @ lit ''>'') (JNum (9/10)) False [Ge 0, Le 1],
     Leaf (lit ''syndication_min_shared_quotes'') (lit ''Deduplication'')
       (lit ''Verbatim quotes two pages must share to count as one origin.'')
       (lit ''<class '' @ [39] @ lit ''int'' @ [39] @ lit ''>'') (JNum (2)) False [Ge 1, Le 10],
     Leaf (lit ''syndication_min_quote_words'') (lit ''Deduplication'')
       (lit ''Shortest quote (in words) that counts towards syndication.'')
       (lit ''<class '' @ [39] @ lit ''int'' @ [39] @ lit ''>'') (JNum (12)) False [Ge 5, Le 60]]"

definition scoring_weights_fields :: "model_field list" where
  "scoring_weights_fields = [
     Leaf (lit ''authority'') (lit ''Scoring'')
       (lit ''Domain tier weight.'')
       (lit ''<class '' @ [39] @ lit ''float'' @ [39] @ lit ''>'') (JNum (7/20)) False [Ge 0, Le 1],
     Leaf (lit ''primary'') (lit ''Scoring'')
       (lit ''Primary source weight.'')
       (lit ''<class '' @ [39] @ lit ''float'' @ [39] @ lit ''>'') (JNum (1/4)) False [Ge 0, Le 1],
     Leaf (lit ''recency'') (lit ''Scoring'')
       (lit ''Recency weight.'')
       (lit ''<class '' @ [39] @ lit ''float'' @ [39] @ lit ''>'') (JNum (3/20)) False [Ge 0, Le 1],
     Leaf (lit ''relevance'') (lit ''Scoring'')
       (lit ''Relevance weight.'')
       (lit ''<class '' @ [39] @ lit ''float'' @ [39] @ lit ''>'') (JNum (1/4)) False [Ge 0, Le 1]]"

definition scoring_settings_fields :: "model_field list" where
  "scoring_settings_fields = [
     Sub (lit ''weights'') scoring_weights_fields,
     Leaf (lit ''primary_source_min_score'') (lit ''Scoring'')
       (lit ''A facet is sufficient with one primary source at or above this score.'')
       (lit ''<class '' @ [39] @ lit ''float'' @ [39] @ lit ''>'') (JNum (7/10)) False [Ge 0, Le 1],
     Leaf (lit ''min_independent_origins'') (lit ''Scoring'')
       (lit ''...or with this many independent origins (v0.6 '' @ [167] @ lit ''7).'')
       (lit ''<class '' @ [39] @ lit ''int'' @ [39] @ lit ''>'') (JNum (2)) False [Ge 1, Le 5],
     Leaf (lit ''unknown_domain_tier'') (lit ''Scoring'')
       (lit ''Tier assigned to unknown domains.'')
       (lit ''typing.Literal[1, 2, 3]'') (JNum (3)) False []]"

definition contradiction_settings_fields :: "model_field list" where
  "contradiction_settings_fields = [
     Leaf (lit ''numeric_relative_tolerance'') (lit ''Contradiction'')
       (lit ''Relative gap above which values conflict.'')
       (lit ''<class '' @ [39] @ lit ''float'' @ [39] @ lit ''>'') (JNum (1/20)) False [Ge 0, Le 1],
     Leaf (lit ''date_granularity_days'') (lit ''Contradiction'')
       (lit ''Date distance treated as the same point in time.'')
       (lit ''<class '' @ [39] @ lit ''int'' @ [39] @ lit ''>'') (JNum (31)) False [Ge 0, Le 366]]"

definition concurrency_settings_fields :: "model_field list" where
  "concurrency_settings_fields = [
     Leaf (lit ''max_parallel_searches'') (lit ''Concurrency'')
       (lit ''Search fan-out.'')
       (lit ''<class '' @ [39] @ lit ''int'' @ [39] @ lit ''>'') (JNum (5)) False [Ge 1, Le 20],
     Leaf (lit ''max_parallel_fetches'') (lit ''Concurrency'')
       (lit ''Fetch fan-out.'')
       (lit ''<class '' @ [39] @ lit ''int'' @ [39] @ lit ''>'') (JNum (5)) False [Ge 1, Le 20],
     Leaf (lit ''max_parallel_llm_calls'') (lit ''Concurrency'')
       (lit ''LLM fan-out.'')
       (lit ''<class '' @ [39] @ lit ''int'' @ [39] @ lit ''>'') (JNum (4)) False [Ge 1, Le 20],
     Leaf (lit ''citation_verification_batch_size'') (lit ''Concurrency'')
       (lit ''Sentences per entailment call - batching keeps verification cheap (D34).'')
       (lit ''<class '' @ [39] @ lit ''int'' @ [39] @ lit ''>'') (JNum (10)) False [Ge 1, Le 50]]"

definition llm_settings_fields :: "model_field list" where
  "llm_settings_fields = [
     Leaf (lit ''reasoning_model'') (lit ''Models'')
       (lit ''Planning, synthesis and evidence verification. Empty = automatic.'')
       (lit ''<class '' @ [39] @ lit ''str'' @ [39] @ lit ''>'') (JStr ([])) False [],
     Leaf (lit ''fast_model'') (lit ''Models'')
       (lit ''Search queries, source scoring and claim extraction. Empty = automatic.'')
       (lit ''<class '' @ [39] @ lit ''str'' @ [39] @ lit ''>'') (JStr ([])) False [],
     Leaf (lit ''allow_fallback'') (lit ''Models'')
       (lit ''Allow another provider on failure. Switches appear in the timeline.'')
       (lit ''<class '' @ [39] @ lit ''bool'' @ [39] @ lit ''>'') (JBool True) False [],
     Leaf (lit ''timeout_seconds'') (lit ''LLM'')
       (lit ''Per-call timeout.'')
       (lit ''<class '' @ [39] @ lit ''float'' @ [39] @ lit ''>'') (JNum (60)) False [Gt 0, Le 600],
     Leaf (lit ''retries'') (lit ''LLM'')
       (lit ''Retries before the next provider.'')
       (lit ''<class '' @ [39] @ lit ''int'' @ [39] @ lit ''>'') (JNum (2)) False [Ge 0, Le 5],
     Leaf (lit ''repair_retries'') (lit ''LLM'')
       (lit ''Structured-output repair attempts.'')
       (lit ''<class '' @ [39] @ lit ''int'' @ [39] @ lit ''>'') (JNum (1)) False [Ge 0, Le 3]]"

definition search_settings_fields :: "model_field list" where
  "search_settings_fields = [
     Leaf (lit ''timeout_seconds'') (lit ''Search'')
       (lit ''Per-query timeout.'')
       (lit ''<class '' @ [39] @ lit ''float'' @ [39] @ lit ''>'') (JNum (15)) False [Gt 0, Le 120],
     Leaf (lit ''retries'') (lit ''Search'')
       (lit ''Retries before the fallback provider.'')
       (lit ''<class '' @ [39] @ lit ''int'' @ [39] @ lit ''>'') (JNum (2)) False [Ge 0, Le 5],
     Leaf (lit ''results_per_query'') (lit ''Search'')
       (lit ''Results requested per query.'')
       (lit ''<class '' @ [39] @ lit ''int'' @ [39] @ lit ''>'') (JNum (10)) False [Ge 1, Le 50],
     Leaf (lit ''cache_ttl_seconds'') (lit ''Search'')
       (lit ''Search cache TTL.'')
       (lit ''<class '' @ [39] @ lit ''int'' @ [39] @ lit ''>'') (JNum (86400)) False [Gt 0]]"

definition pii_settings_fields :: "model_field list" where
  "pii_settings_fields = [
     Leaf (lit ''enabled'') (lit ''PII'')
       (lit ''Masking of sensitive identifiers.'')
       (lit ''<class '' @ [39] @ lit ''bool'' @ [39] @ lit ''>'') (JBool True) True [],
     Leaf (lit ''mask_question_person_names'') (lit ''PII'')
       (lit ''Mask person names in the question too. Web content is never name-masked.'')
       (lit ''<class '' @ [39] @ lit ''bool'' @ [39] @ lit ''>'') (JBool False) False [],
     Leaf (lit ''presidio_timeout_seconds'') (lit ''PII'')
       (lit ''Presidio HTTP timeout.'')
       (lit ''<class '' @ [39] @ lit ''float'' @ [39] @ lit ''>'') (JNum (5)) False [Gt 0, Le 60],
     Leaf (lit ''score_threshold'') (lit ''PII'')
       (lit ''Minimum recogniser confidence.'')
       (lit ''<class '' @ [39] @ lit ''float'' @ [39] @ lit ''>'') (JNum (1/2)) False [Ge 0, Le 1]]"

definition gate_settings_fields :: "model_field list" where
  "gate_settings_fields = [
     Leaf (lit ''enabled'') (lit ''Output gate'')
       (lit ''Deterministic output gate.'')
       (lit ''<class '' @ [39] @ lit ''bool'' @ [39] @ lit ''>'') (JBool True) True [],
     Leaf (lit ''max_remediation_rounds'') (lit ''Output gate'')
       (lit ''Deterministic remediation passes.'')
       (lit ''<class '' @ [39] @ lit ''int'' @ [39] @ lit ''>'') (JNum (1)) False [Ge 0, Le 3]]"

definition logging_settings_fields :: "model_field list" where
  "logging_settings_fields = [
     Leaf (lit ''level'') (lit ''Logging'')
       (lit ''Log level.'')
       (lit ''typing.Literal['' @ [39] @ lit ''DEBUG'' @ [39] @ lit '', '' @ [39] @ lit ''INFO'' @ [39] @ lit '', '' @ [39] @ lit ''WARNING'' @ [39] @ lit '', '' @ [39] @ lit ''ERROR'' @ [39] @ lit '']'') (JStr (lit ''INFO'')) False [],
     Leaf (lit ''format'') (lit ''Logging'')
       (lit ''json in containers, console for local debugging.'')
       (lit ''typing.Literal['' @ [39] @ lit ''json'' @ [39] @ lit '', '' @ [39] @ lit ''console'' @ [39] @ lit '']'') (JStr (lit ''json'')) False []]"

definition settings_fields :: "model_field list" where
  "settings_fields = [
     Sub (lit ''budget'') budget_settings_fields,
     Sub (lit ''plan'') plan_settings_fields,
     Sub (lit ''fetch'') fetch_settings_fields,
     Sub (lit ''dedup'') dedup_settings_fields,
     Sub (lit ''scoring'') scoring_settings_fields,
     Sub (lit ''contradiction'') contradiction_settings_fields,
     Sub (lit ''concurrency'') concurrency_settings_fields,
     Sub (lit ''llm'') llm_settings_fields,
     Sub (lit ''search'') search_settings_fields,
     Sub (lit ''pii'') pii_settings_fields,
     Sub (lit ''gate'') gate_settings_fields,
     Sub (lit ''logging'') logging_settings_fields]"

record tunable_field =
  tf_path :: str
  tf_group :: str
  tf_description :: str
  tf_annotation :: str
  tf_default :: json
  tf_locked :: bool
  tf_minimum :: "real option"
  tf_maximum :: "real option"

fun lower_bound :: "constraint \<Rightarrow> real option" where
  "lower_bound (Ge x) = Some x"
| "lower_bound (Gt x) = Some x"
| "lower_bound (Le x) = None"
| "lower_bound (Lt x) = None"

fun upper_bound :: "constraint \<Rightarrow> real option" where
  "upper_bound (Ge x) = None"
| "upper_bound (Gt x) = None"
| "upper_bound (Le x) = Some x"
| "upper_bound (Lt x) = Some x"

text \<open>\<open>_bounds\<close>: a later constraint overrides an earlier one.\<close>

definition field_bounds :: "constraint list \<Rightarrow> real option \<times> real option" where
  "field_bounds cs = fold (\<lambda>c (lo, hi).
     (case lower_bound c of None \<Rightarrow> lo | Some x \<Rightarrow> Some x,
      case upper_bound c of None \<Rightarrow> hi | Some x \<Rightarrow> Some x)) cs (None, None)"

fun walk_field :: "str \<Rightarrow> model_field \<Rightarrow> tunable_field list" where
  "walk_field pre (Leaf name grp description annotation dflt locked cs) =
     [\<lparr>tf_path = pre @ name, tf_group = grp, tf_description = description,
       tf_annotation = annotation, tf_default = dflt, tf_locked = locked,
       tf_minimum = fst (field_bounds cs), tf_maximum = snd (field_bounds cs)\<rparr>]"
| "walk_field pre (Sub name fs) = concat (map (walk_field (pre @ name @ [46])) fs)"

definition walk :: "tunable_field list" where
  "walk = concat (map (walk_field []) settings_fields)"

definition tunable_fields :: "bool \<Rightarrow> tunable_field list" where
  "tunable_fields include_locked = (if include_locked then walk else filter (\<lambda>row. \<not> tf_locked row) walk)"

definition is_locked :: "str \<Rightarrow> bool" where
  "is_locked path = list_ex (\<lambda>row. tf_path row = path \<and> tf_locked row) walk"

definition known_paths :: "str list" where
  "known_paths = map tf_path walk"

section \<open>The loader\<close>

text \<open>\<open>ConfigError\<close>: the decision and the cause.\<close>

datatype config_error = ConfigError str "str option"

definition ENV_OVERRIDES :: "(str \<times> str) list" where
  "ENV_OVERRIDES = [(lit ''APP_LOG_LEVEL'', lit ''logging.level''), (lit ''APP_LOG_FORMAT'', lit ''logging.format'')]"

text \<open>\<open>dict.update\<close>.\<close>

definition dupdate :: "('k, 'v) dict \<Rightarrow> ('k, 'v) dict \<Rightarrow> ('k, 'v) dict" where
  "dupdate d e = fold (\<lambda>(k, v). dput k v) e d"

text \<open>\<open>_read_yaml\<close>: the file may be missing (\<open>None\<close>), empty or hold something else than a mapping.\<close>

definition read_yaml :: "str \<Rightarrow> json option \<Rightarrow> config_error + (str \<times> json) list" where
  "read_yaml path file =
     (case file of
        None \<Rightarrow> Inl (ConfigError (lit ''missing '' @ path) None)
      | Some JNull \<Rightarrow> Inr []
      | Some (JObj kvs) \<Rightarrow> Inr kvs
      | Some _ \<Rightarrow> Inl (ConfigError (path @ lit '' must contain a mapping'') None))"

lemma size_pair: "size_prod (\<lambda>_. 0) size x = Suc (size (snd x))"
  by (cases x) simp

function flatten_into :: "str \<Rightarrow> (str \<times> json) list \<Rightarrow> (str, json) dict \<Rightarrow> (str, json) dict" where
  "flatten_into pre [] flat = flat"
| "flatten_into pre ((key, v) # rest) flat =
     flatten_into pre rest
       (case v of
          JObj kvs \<Rightarrow> dupdate flat (flatten_into (pre @ key @ [46]) kvs [])
        | _ \<Rightarrow> dput (pre @ key) v flat)"
  by pat_completeness auto
termination
  by (relation "measure (\<lambda>(p, kvs, flat). size_list (\<lambda>x. Suc (size (snd x))) kvs)")
    (auto simp: size_list_conv_sum_list size_pair)

definition flatten_map :: "(str \<times> json) list \<Rightarrow> (str, json) dict" where
  "flatten_map data = flatten_into [] data []"

lemma length_after_at: "after_at c s \<noteq> [] \<Longrightarrow> length (after_at c s) < length s"
  unfolding after_at_def partition_at_def
  using length_dropWhile_le[of "\<lambda>x. x \<noteq> c" s] by (cases "dropWhile (\<lambda>x. x \<noteq> c) s") auto

text \<open>\<open>_assign\<close>: \<open>path.partition(".")\<close> and the nested dictionaries.\<close>

function assign_path :: "(str \<times> json) list \<Rightarrow> str \<Rightarrow> json \<Rightarrow> config_error + (str \<times> json) list" where
  "assign_path target path v =
     (let head = before_at 46 path; tail = after_at 46 path
      in if tail = [] then Inr (dput head v target)
         else case dget_or target head (JObj []) of
                JObj branch \<Rightarrow> rbind (assign_path branch tail v) (\<lambda>b. Inr (dput head (JObj b) target))
              | _ \<Rightarrow> Inl (ConfigError (lit ''cannot set '' @ path @ lit '': '' @ head @ lit '' is a scalar'') None))"
  by pat_completeness auto
termination
  by (relation "measure (\<lambda>(t, path, v). length path)") (auto simp: length_after_at)

declare assign_path.simps [simp del]

fun check_paths :: "bool \<Rightarrow> str list \<Rightarrow> config_error + unit" where
  "check_paths allow_locked [] = Inr ()"
| "check_paths allow_locked (path # paths) =
     (if \<not> List.member known_paths path then Inl (ConfigError (lit ''unknown setting: '' @ path) None)
      else if \<not> allow_locked \<and> is_locked path
      then Inl (ConfigError (path @ lit '' cannot be overridden per run (security-critical setting)'') None)
      else check_paths allow_locked paths)"

fun assign_all :: "(str, json) dict \<Rightarrow> (str \<times> json) list \<Rightarrow> config_error + (str \<times> json) list" where
  "assign_all [] merged = Inr merged"
| "assign_all ((path, v) # rest) merged = rbind (assign_path merged path v) (assign_all rest)"

text \<open>The values the environment sets, in the order of the table.\<close>

definition env_values :: "(str, str) dict \<Rightarrow> (str, json) dict" where
  "env_values env = List.map_filter
     (\<lambda>(var, path). map_option (\<lambda>v. (path, JStr v)) (dget env var)) ENV_OVERRIDES"

text \<open>The three layers laid over each other, and where each value comes from.\<close>

definition merge_layers ::
  "(str, json) dict \<Rightarrow> (str, json) dict \<Rightarrow> (str, json) dict \<Rightarrow> config_error + (str \<times> json) list" where
  "merge_layers yaml env overrides =
     rbind (check_paths True (dkeys yaml)) (\<lambda>_.
     rbind (assign_all yaml []) (\<lambda>m1.
     rbind (assign_all env m1) (\<lambda>m2.
     rbind (check_paths False (dkeys overrides)) (\<lambda>_. assign_all overrides m2))))"

definition layer_sources ::
  "(str, json) dict \<Rightarrow> (str, json) dict \<Rightarrow> (str, json) dict \<Rightarrow> (str, str) dict" where
  "layer_sources yaml env overrides =
     fold (\<lambda>path. dput path (lit ''override'')) (dkeys overrides)
       (fold (\<lambda>path. dput path (lit ''env'')) (dkeys env)
         (map (\<lambda>path. (path, lit ''yaml'')) (dkeys yaml)))"

record 's effective_config =
  ec_settings :: 's
  ec_snapshot :: json
  ec_config_hash :: str
  ec_sources :: "(str, str) dict"

definition source_of :: "'s effective_config \<Rightarrow> str \<Rightarrow> str" where
  "source_of c path = dget_or (ec_sources c) path (lit ''default'')"

text \<open>
  What the loader takes from libraries: \<open>Settings.model_validate\<close> (the settings, or the text of the
  error) and \<open>model_dump\<close>, the two model names, the choices of the catalog, SHA-256 of the canonical
  JSON.
\<close>

record 's config_ops =
  co_validate :: "(str \<times> json) list \<Rightarrow> str + 's"
  co_dump :: "'s \<Rightarrow> json"
  co_models :: "'s \<Rightarrow> str list"
  co_choices :: "str list"
  co_hash :: "json \<Rightarrow> str"

fun check_models :: "str list \<Rightarrow> str list \<Rightarrow> config_error + unit" where
  "check_models choices [] = Inr ()"
| "check_models choices (model # models) =
     (if model \<noteq> [] \<and> \<not> List.member choices model
      then Inl (ConfigError (lit ''unknown research model: '' @ model @
                  lit ''; choose a model from the catalog'') None)
      else check_models choices models)"

definition load_settings ::
  "'s config_ops \<Rightarrow> str \<Rightarrow> json option \<Rightarrow> (str, str) dict \<Rightarrow> (str \<times> json) list
   \<Rightarrow> config_error + 's effective_config" where
  "load_settings ops path file env overrides =
     rbind (read_yaml path file) (\<lambda>raw.
     let yaml = flatten_map raw; evs = env_values env; ovs = flatten_map overrides
     in rbind (merge_layers yaml evs ovs) (\<lambda>merged.
        case co_validate ops merged of
          Inl cause \<Rightarrow> Inl (ConfigError (lit ''settings failed validation'') (Some cause))
        | Inr s \<Rightarrow> rbind (check_models (co_choices ops) (co_models ops s)) (\<lambda>_.
            Inr \<lparr>ec_settings = s, ec_snapshot = co_dump ops s,
                 ec_config_hash = co_hash ops (co_dump ops s),
                 ec_sources = layer_sources yaml evs ovs\<rparr>)))"

end
