(* ===== verification/ConfigProps.thy ===== *)
theory ConfigProps
  imports Config
begin

text \<open>
  Properties of configuration: which layer wins for each setting, and that no per-run override
  reaches a locked or unknown one. \<open>lookup_keys\<close> reads a nested mapping along a path.
\<close>

section \<open>Paths\<close>

abbreviation path_keys :: "str \<Rightarrow> str list" where
  "path_keys p \<equiv> split_char 46 p"

fun lookup_keys :: "(str \<times> json) list \<Rightarrow> str list \<Rightarrow> json option" where
  "lookup_keys t [] = None"
| "lookup_keys t [k] = dget t k"
| "lookup_keys t (k # k' # ks) = (case dget t k of Some (JObj b) \<Rightarrow> lookup_keys b (k' # ks) | _ \<Rightarrow> None)"

text \<open>A path that does not end in a dot.\<close>

definition plain_path :: "str \<Rightarrow> bool" where
  "plain_path p \<longleftrightarrow> p \<noteq> [] \<and> last p \<noteq> 46"

lemma split_char_eq:
  "split_char c s = takeWhile (\<lambda>x. x \<noteq> c) s #
     (case dropWhile (\<lambda>x. x \<noteq> c) s of [] \<Rightarrow> [] | _ # t \<Rightarrow> split_char c t)"
  by (induction s) (auto split: list.splits)

lemma split_char_not_Nil [simp]: "split_char c s \<noteq> []"
  by (subst split_char_eq) simp

lemma no_dot: "46 \<notin> set p \<Longrightarrow> dropWhile (\<lambda>x. x \<noteq> 46) p = []"
  by (auto simp: dropWhile_eq_Nil_conv)

lemma dot_of_after: "after_at 46 p \<noteq> [] \<Longrightarrow> 46 \<in> set p"
  by (rule ccontr) (simp add: no_dot after_at_def partition_at_def)

lemma keys_step:
  "path_keys p = (if after_at 46 p = [] \<and> plain_path p \<or> 46 \<notin> set p then [before_at 46 p]
     else before_at 46 p # path_keys (after_at 46 p))"
proof (cases "dropWhile (\<lambda>x. x \<noteq> 46) p")
  case Nil
  then have "46 \<notin> set p" by (auto simp: dropWhile_eq_Nil_conv)
  then show ?thesis using Nil by (subst split_char_eq) (simp add: Nil before_at_def partition_at_def)
next
  case (Cons d t)
  then have "46 \<in> set p" using no_dot[of p] by auto
  have "t \<noteq> []" if "plain_path p"
  proof
    assume "t = []"
    with Cons have "p = takeWhile (\<lambda>x. x \<noteq> 46) p @ [d]" by (metis takeWhile_dropWhile_id)
    moreover have "d = 46" using Cons hd_dropWhile[of "\<lambda>x. x \<noteq> 46" p] by fastforce
    ultimately show False using that by (metis last_snoc plain_path_def)
  qed
  with Cons \<open>46 \<in> set p\<close> show ?thesis
    by (subst split_char_eq) (auto simp: before_at_def after_at_def partition_at_def)
qed

lemma plain_after: "plain_path p \<Longrightarrow> after_at 46 p \<noteq> [] \<Longrightarrow> plain_path (after_at 46 p)"
proof -
  assume p: "plain_path p" "after_at 46 p \<noteq> []"
  then have "last (dropWhile (\<lambda>x. x \<noteq> 46) p) = last (after_at 46 p)"
    using no_dot[of p] by (cases "dropWhile (\<lambda>x. x \<noteq> 46) p") (auto simp: after_at_def partition_at_def)
  moreover have "dropWhile (\<lambda>x. x \<noteq> 46) p \<noteq> []"
    using dot_of_after[OF p(2)] by (simp add: dropWhile_eq_Nil_conv)
  then have "last (dropWhile (\<lambda>x. x \<noteq> 46) p) = last p" by (metis last_appendR takeWhile_dropWhile_id)
  ultimately show ?thesis using p by (simp add: plain_path_def)
qed

text \<open>Storing at a path: it is read back there, and the paths beside it keep their value.\<close>

lemma keys_cases:
  assumes "plain_path p"
  obtains "after_at 46 p = []" "path_keys p = [before_at 46 p]"
  | k ks where "after_at 46 p \<noteq> []" "plain_path (after_at 46 p)" "path_keys (after_at 46 p) = k # ks"
      "path_keys p = before_at 46 p # k # ks"
proof (cases "after_at 46 p = []")
  case True
  with that(1) keys_step[of p] assms show thesis by simp
next
  case False
  then have "46 \<in> set p" by (rule dot_of_after)
  with that(2) keys_step[of p] False plain_after[OF assms False] show thesis
    by (cases "path_keys (after_at 46 p)") auto
qed

lemma assign_get:
  "assign_path t p v = Inr t' \<Longrightarrow> plain_path p \<Longrightarrow> lookup_keys t' (path_keys p) = Some v"
proof (induction t p v arbitrary: t' rule: assign_path.induct)
  case (1 t p v)
  from \<open>plain_path p\<close> show ?case
  proof (cases rule: keys_cases)
    case 1
    with "1.prems" show ?thesis by (auto simp: assign_path.simps[of t p])
  next
    case (2 k ks)
    with "1.prems"(1) obtain b b' where "dget_or t (before_at 46 p) (JObj []) = JObj b"
      "assign_path b (after_at 46 p) v = Inr b'" "t' = dput (before_at 46 p) (JObj b') t"
      by (auto simp: assign_path.simps[of t p] Let_def rbind_Inr_iff split: json.splits)
    with "1.IH"[OF refl refl 2(1) this(1,2) 2(2)] 2 show ?thesis by simp
  qed
qed

lemma assign_frame:
  "assign_path t p v = Inr t' \<Longrightarrow> plain_path p \<Longrightarrow> \<not> prefix (path_keys p) ks \<Longrightarrow> \<not> prefix ks (path_keys p) \<Longrightarrow>
     lookup_keys t' ks = lookup_keys t ks"
proof (induction t p v arbitrary: t' ks rule: assign_path.induct)
  case (1 t p v)
  from "1.prems"(4) obtain h hs where ks: "ks = h # hs" by (cases ks) auto
  from \<open>plain_path p\<close> show ?case
  proof (cases rule: keys_cases)
    case 1
    with "1.prems" ks have "h \<noteq> before_at 46 p" "t' = dput (before_at 46 p) v t"
      by (auto simp: assign_path.simps[of t p])
    then show ?thesis by (cases hs) (simp_all add: ks)
  next
    case (2 k ks')
    with "1.prems"(1) obtain b b' where b: "dget_or t (before_at 46 p) (JObj []) = JObj b"
      "assign_path b (after_at 46 p) v = Inr b'" "t' = dput (before_at 46 p) (JObj b') t"
      by (auto simp: assign_path.simps[of t p] Let_def rbind_Inr_iff split: json.splits)
    show ?thesis
    proof (cases "h = before_at 46 p \<and> hs \<noteq> []")
      case True
      then obtain g gs where hs: "hs = g # gs" by (cases hs) auto
      have "\<not> prefix (path_keys (after_at 46 p)) hs" "\<not> prefix hs (path_keys (after_at 46 p))"
        using "1.prems"(3,4) True 2 ks by auto
      from "1.IH"[OF refl refl 2(1) b(1) b(2) 2(2) this] have "lookup_keys b' hs = lookup_keys b hs" .
      moreover have "lookup_keys t ks = lookup_keys b hs"
        using b(1) True ks hs by (auto simp: dget_or_def split: option.splits) (cases gs; simp)
      ultimately show ?thesis using b(3) True ks hs by simp
    next
      case False
      with "1.prems"(4) 2 ks b(3) show ?thesis by (cases hs) auto
    qed
  qed
qed

section \<open>The known paths\<close>

lemmas schema_fields =
  settings_fields_def budget_settings_fields_def plan_settings_fields_def fetch_settings_fields_def
  dedup_settings_fields_def scoring_weights_fields_def scoring_settings_fields_def
  contradiction_settings_fields_def concurrency_settings_fields_def llm_settings_fields_def
  search_settings_fields_def pii_settings_fields_def gate_settings_fields_def logging_settings_fields_def

text \<open>Every path is a section and a name, but for the nested weights of scoring.\<close>

definition well_placed :: "str \<Rightarrow> bool" where
  "well_placed p \<longleftrightarrow> plain_path p \<and> (length (path_keys p) = 2 \<and> path_keys p \<noteq> [lit ''scoring'', lit ''weights'']
     \<or> length (path_keys p) = 3 \<and> take 2 (path_keys p) = [lit ''scoring'', lit ''weights''])"

lemma known_well_placed: "list_all well_placed known_paths"
  by (simp add: known_paths_def walk_def schema_fields well_placed_def plain_path_def)

lemma split_char_inj: "split_char c s = split_char c t \<Longrightarrow> s = t"
proof (induction s arbitrary: t)
  case Nil
  then show ?case by (cases t) (auto split: list.splits if_splits)
next
  case (Cons x xs)
  from Cons.prems obtain y ys where t: "t = y # ys" by (cases t) (auto split: list.splits if_splits)
  obtain g gs h hs where gh: "split_char c xs = g # gs" "split_char c ys = h # hs"
    using split_char_not_Nil by (metis list.exhaust)
  from Cons.prems t gh have "x = y \<and> split_char c xs = split_char c ys"
    by (auto split: if_splits)
  with Cons.IH t show ?case by blast
qed

lemma known_incomparable:
  assumes "p \<in> set known_paths" and "q \<in> set known_paths" and "p \<noteq> q"
  shows "\<not> prefix (path_keys p) (path_keys q)"
proof
  assume pre: "prefix (path_keys p) (path_keys q)"
  have w: "well_placed p" "well_placed q"
    using assms(1,2) known_well_placed by (auto simp: list_all_iff)
  show False
  proof (cases "length (path_keys p) = length (path_keys q)")
    case True
    with pre have "path_keys p = path_keys q" by (auto elim: prefixE)
    with split_char_inj assms(3) show False by blast
  next
    case False
    with pre w have "length (path_keys p) = 2" "take 2 (path_keys q) = [lit ''scoring'', lit ''weights'']"
      by (auto simp: well_placed_def dest: prefix_length_le)
    moreover from pre this(1) have "path_keys p = take 2 (path_keys q)"
      by (auto elim!: prefixE simp: take_append)
    ultimately show False using w(1) by (auto simp: well_placed_def)
  qed
qed

lemma known_plain: "p \<in> set known_paths \<Longrightarrow> plain_path p"
  using known_well_placed by (auto simp: list_all_iff well_placed_def)

section \<open>Layers\<close>

text \<open>The value after laying one more layer.\<close>

definition over :: "json option \<Rightarrow> json option \<Rightarrow> json option" where
  "over new old = (case new of None \<Rightarrow> old | Some v \<Rightarrow> Some v)"

lemma assign_all_lookup:
  "assign_all flat t = Inr t' \<Longrightarrow> distinct (dkeys flat) \<Longrightarrow> set (dkeys flat) \<subseteq> set known_paths \<Longrightarrow>
     p \<in> set known_paths \<Longrightarrow> lookup_keys t' (path_keys p) = over (dget flat p) (lookup_keys t (path_keys p))"
proof (induction flat arbitrary: t)
  case (Cons x flat)
  obtain q v where x: "x = (q, v)" by (cases x)
  from Cons.prems(1) obtain t1 where t1: "assign_path t q v = Inr t1" "assign_all flat t1 = Inr t'"
    by (auto simp: x rbind_Inr_iff)
  have q: "q \<in> set known_paths" "plain_path q" using Cons.prems(3) known_plain by (auto simp: x)
  have ih: "lookup_keys t' (path_keys p) = over (dget flat p) (lookup_keys t1 (path_keys p))"
    using Cons.IH[OF t1(2)] Cons.prems by (auto simp: x)
  show ?case
  proof (cases "p = q")
    case True
    with Cons.prems(2) have "dget flat p = None" by (simp add: x map_of_eq_None_iff)
    with ih True assign_get[OF t1(1) q(2)] show ?thesis by (simp add: x over_def)
  next
    case False
    have "lookup_keys t1 (path_keys p) = lookup_keys t (path_keys p)"
      by (rule assign_frame[OF t1(1) q(2)]) (use known_incomparable q(1) Cons.prems(4) False in auto)
    with ih False show ?thesis by (simp add: x over_def)
  qed
qed (simp add: over_def)

lemma check_paths_Inr:
  "check_paths allow ps = Inr () \<Longrightarrow> set ps \<subseteq> set known_paths \<and> (\<not> allow \<longrightarrow> (\<forall>p\<in>set ps. \<not> is_locked p))"
  by (induction ps) (auto split: if_splits)

lemma distinct_dupdate: "distinct (dkeys d) \<Longrightarrow> distinct (dkeys (dupdate d e))"
  unfolding dupdate_def by (induction e arbitrary: d) (auto simp: distinct_update)

lemma distinct_flatten: "distinct (dkeys flat) \<Longrightarrow> distinct (dkeys (flatten_into pre kvs flat))"
  by (induction pre kvs flat rule: flatten_into.induct)
    (auto simp: distinct_dupdate split: json.splits)

lemma flatten_map_distinct: "distinct (dkeys (flatten_map kvs))"
  unfolding flatten_map_def by (rule distinct_flatten) simp

lemma env_values_known:
  "distinct (dkeys (env_values env)) \<and> set (dkeys (env_values env)) \<subseteq> set known_paths"
proof -
  have "lit ''logging.level'' \<in> set known_paths" "lit ''logging.format'' \<in> set known_paths"
    by (simp_all add: known_paths_def walk_def schema_fields)
  then show ?thesis
    by (auto simp: env_values_def ENV_OVERRIDES_def map_filter_def split: option.splits)
qed

lemma load_settings_Inr:
  assumes "load_settings ops path file env overrides = Inr cfg"
  obtains raw merged where "read_yaml path file = Inr raw"
    "merge_layers (flatten_map raw) (env_values env) (flatten_map overrides) = Inr merged"
    "co_validate ops merged = Inr (ec_settings cfg)"
    "ec_config_hash cfg = co_hash ops (co_dump ops (ec_settings cfg))"
proof -
  from assms obtain raw where raw: "read_yaml path file = Inr raw"
    and r: "rbind (merge_layers (flatten_map raw) (env_values env) (flatten_map overrides)) (\<lambda>merged.
      case co_validate ops merged of
        Inl cause \<Rightarrow> Inl (ConfigError (lit ''settings failed validation'') (Some cause))
      | Inr s \<Rightarrow> rbind (check_models (co_choices ops) (co_models ops s)) (\<lambda>_.
          Inr \<lparr>ec_settings = s, ec_snapshot = co_dump ops s, ec_config_hash = co_hash ops (co_dump ops s),
               ec_sources = layer_sources (flatten_map raw) (env_values env) (flatten_map overrides)\<rparr>)) = Inr cfg"
    unfolding load_settings_def Let_def by (cases "read_yaml path file") simp_all
  from r obtain merged where m: "merge_layers (flatten_map raw) (env_values env) (flatten_map overrides) = Inr merged"
    by (cases "merge_layers (flatten_map raw) (env_values env) (flatten_map overrides)") simp_all
  show thesis
  proof (cases "co_validate ops merged")
    case (Inr s)
    with r m have "ec_settings cfg = s" "ec_config_hash cfg = co_hash ops (co_dump ops s)"
      by (auto simp: rbind_Inr_iff)
    with raw m Inr that show thesis by simp
  qed (use r m in simp)
qed

lemma merge_layers_paths:
  "merge_layers yaml env ovs = Inr merged \<Longrightarrow> check_paths True (dkeys yaml) = Inr () \<and> check_paths False (dkeys ovs) = Inr ()"
  by (auto simp: merge_layers_def rbind_Inr_iff)

text \<open>
  C35. Resolution has one rule for every known setting: the per-run override if there is one, else
  the environment's value, else the YAML's; the validated mapping holds exactly that, and a setting
  marked as overridden is one the caller may override: no override names a locked or unknown path.
\<close>

theorem layers_resolved:
  assumes "load_settings ops path file env overrides = Inr cfg"
  shows "\<exists>raw merged. read_yaml path file = Inr raw \<and> co_validate ops merged = Inr (ec_settings cfg)
    \<and> (\<forall>p\<in>set known_paths. lookup_keys merged (path_keys p) =
          over (dget (flatten_map overrides) p) (over (dget (env_values env) p) (dget (flatten_map raw) p)))
    \<and> (\<forall>p\<in>set (dkeys (flatten_map overrides)). p \<in> set known_paths \<and> \<not> is_locked p)
    \<and> ec_config_hash cfg = co_hash ops (co_dump ops (ec_settings cfg))"
proof -
  let ?ovs = "flatten_map overrides" and ?evs = "env_values env"
  from assms obtain raw merged where raw: "read_yaml path file = Inr raw"
    and m: "merge_layers (flatten_map raw) ?evs ?ovs = Inr merged"
    and v: "co_validate ops merged = Inr (ec_settings cfg)"
    and cfg: "ec_config_hash cfg = co_hash ops (co_dump ops (ec_settings cfg))"
    by (rule load_settings_Inr)
  from m obtain m1 m2 where ok: "check_paths True (dkeys (flatten_map raw)) = Inr ()"
      "check_paths False (dkeys ?ovs) = Inr ()"
    and lay: "assign_all (flatten_map raw) [] = Inr m1" "assign_all ?evs m1 = Inr m2" "assign_all ?ovs m2 = Inr merged"
    by (auto simp: merge_layers_def rbind_Inr_iff)
  have look: "lookup_keys merged (path_keys p) = over (dget ?ovs p) (over (dget ?evs p) (dget (flatten_map raw) p))"
    if "p \<in> set known_paths" for p
  proof -
    have "lookup_keys [] ks = None" for ks by (induction "[] :: (str \<times> json) list" ks rule: lookup_keys.induct) simp_all
    then show ?thesis
      using assign_all_lookup[OF lay(1) flatten_map_distinct _ that] assign_all_lookup[OF lay(2) _ _ that]
        assign_all_lookup[OF lay(3) flatten_map_distinct _ that] check_paths_Inr[OF ok(1)] check_paths_Inr[OF ok(2)]
        env_values_known[of env]
      by (simp add: over_def split: option.splits)
  qed
  have "\<forall>p\<in>set (dkeys ?ovs). p \<in> set known_paths \<and> \<not> is_locked p"
    using check_paths_Inr[OF ok(2)] by blast
  then show ?thesis using raw v cfg look by blast
qed

text \<open>
  C36. No override reaches a security-critical setting: whatever else it holds, a set of overrides
  that names a locked path - PII masking, the output gate - or an unknown one is rejected, and the
  locked settings are those two.
\<close>

theorem locked_settings_hold:
  assumes "p \<in> set (dkeys (flatten_map overrides))" and "p \<notin> set known_paths \<or> is_locked p"
  shows "(\<exists>e. load_settings ops path file env overrides = Inl e)
    \<and> (\<forall>q. is_locked q \<longleftrightarrow> q = lit ''pii.enabled'' \<or> q = lit ''gate.enabled'')"
proof -
  have "\<exists>e. load_settings ops path file env overrides = Inl e"
  proof (cases "load_settings ops path file env overrides")
    case (Inr cfg)
    then obtain raw merged where "merge_layers (flatten_map raw) (env_values env) (flatten_map overrides) = Inr merged"
      by (rule load_settings_Inr)
    from merge_layers_paths[OF this] check_paths_Inr[of False] assms show ?thesis by blast
  qed blast
  moreover have "is_locked q \<longleftrightarrow> q = lit ''pii.enabled'' \<or> q = lit ''gate.enabled''" for q
    by (auto simp: is_locked_def walk_def schema_fields)
  ultimately show ?thesis by blast
qed

section \<open>A concrete resolution\<close>

definition echo_ops :: "((str \<times> json) list) config_ops" where
  "echo_ops = \<lparr>co_validate = Inr, co_dump = JObj, co_models = (\<lambda>_. []), co_choices = [], co_hash = (\<lambda>_. [])\<rparr>"

definition demo_yaml :: json where
  "demo_yaml = JObj [(lit ''budget'', JObj [(lit ''max_searches'', JNum 5)])]"

lemma known_max_searches:
  "lit ''budget.max_searches'' \<in> set known_paths" "\<not> is_locked (lit ''budget.max_searches'')"
  by (simp_all add: known_paths_def is_locked_def walk_def schema_fields)

lemma demo_loaded:
  "\<exists>cfg. load_settings echo_ops [] (Some demo_yaml) [] [(lit ''budget.max_searches'', JNum 7)] = Inr cfg"
  using known_max_searches
  by (simp add: load_settings_def read_yaml_def demo_yaml_def flatten_map_def dupdate_def env_values_def
      ENV_OVERRIDES_def map_filter_def merge_layers_def Let_def assign_path.simps before_at_def after_at_def
      partition_at_def dget_or_def echo_ops_def)

theorem layers_resolved_witness:
  "\<exists>cfg. load_settings echo_ops [] (Some demo_yaml) [] [(lit ''budget.max_searches'', JNum 7)] = Inr cfg
     \<and> lookup_keys (ec_settings cfg) [lit ''budget'', lit ''max_searches''] = Some (JNum 7)"
proof -
  obtain cfg where l: "load_settings echo_ops [] (Some demo_yaml) [] [(lit ''budget.max_searches'', JNum 7)] = Inr cfg"
    using demo_loaded by blast
  from layers_resolved[OF l] known_max_searches(1) obtain raw merged where
    "co_validate echo_ops merged = Inr (ec_settings cfg)"
    and look: "lookup_keys merged (path_keys (lit ''budget.max_searches'')) =
      over (dget (flatten_map [(lit ''budget.max_searches'', JNum 7)]) (lit ''budget.max_searches''))
        (over (dget (env_values []) (lit ''budget.max_searches'')) (dget (flatten_map raw) (lit ''budget.max_searches'')))"
    by blast
  then have "merged = ec_settings cfg" by (simp add: echo_ops_def)
  with look l show ?thesis by (simp add: flatten_map_def over_def)
qed

theorem locked_settings_hold_witness:
  "\<exists>e. load_settings echo_ops [] (Some demo_yaml) []
        [(lit ''gate'', JObj [(lit ''enabled'', JBool False)])] = Inl e"
proof -
  have "lit ''gate.enabled'' \<in> set (dkeys (flatten_map [(lit ''gate'', JObj [(lit ''enabled'', JBool False)])]))"
    by (simp add: flatten_map_def dupdate_def)
  moreover have "is_locked (lit ''gate.enabled'')" by (simp add: is_locked_def walk_def schema_fields)
  ultimately show ?thesis using locked_settings_hold by blast
qed

end
