(* ===== verification/Quotes.thy ===== *)
theory Quotes
  imports Text
begin

text \<open>
  \<open>agent/quotes.py\<close>: a claim needs a quote the page really contains. The ratio of
  \<open>difflib.SequenceMatcher\<close> (with \<open>autojunk=False\<close> and no junk function) is written out: the longest
  common block, leftmost in the first list, then in the second, and the same on both sides of it.
  The loop over the candidate starts runs over a Python set of integers, whose order is an argument.
\<close>

section \<open>SequenceMatcher\<close>

text \<open>
  One row of \<open>find_longest_match\<close>: for each position of the second list, the length of the common
  block that ends there; \<open>d\<close> is the entry of the previous row one to the left.
\<close>

fun match_row :: "'a \<Rightarrow> nat \<Rightarrow> nat list \<Rightarrow> 'a list \<Rightarrow> nat list" where
  "match_row x d (p # prev) (y # ys) = (if x = y then Suc d else 0) # match_row x p prev ys"
| "match_row x d prev ys = []"

text \<open>Scanning a row: a longer block replaces the best one found so far (start, start, size).\<close>

fun scan_row :: "nat \<Rightarrow> nat \<Rightarrow> nat list \<Rightarrow> nat \<times> nat \<times> nat \<Rightarrow> nat \<times> nat \<times> nat" where
  "scan_row i j [] best = best"
| "scan_row i j (k # row) (bi, bj, bs) =
     scan_row i (Suc j) row (if bs < k then (Suc i - k, Suc j - k, k) else (bi, bj, bs))"

fun longest_from :: "nat \<Rightarrow> 'a list \<Rightarrow> 'a list \<Rightarrow> nat list \<Rightarrow> nat \<times> nat \<times> nat \<Rightarrow> nat \<times> nat \<times> nat" where
  "longest_from i [] ys prev best = best"
| "longest_from i (x # xs) ys prev best =
     (let row = match_row x 0 prev ys in longest_from (Suc i) xs ys row (scan_row i 0 row best))"

definition longest_match :: "'a list \<Rightarrow> 'a list \<Rightarrow> nat \<times> nat \<times> nat" where
  "longest_match xs ys = longest_from 0 xs ys (replicate (length ys) 0) (0, 0, 0)"

text \<open>A block at \<open>i\<close> and \<open>j\<close> of size \<open>k\<close> is common to both lists.\<close>

definition common_block :: "'a list \<Rightarrow> 'a list \<Rightarrow> nat \<times> nat \<times> nat \<Rightarrow> bool" where
  "common_block xs ys b =
     (case b of (i, j, k) \<Rightarrow> i + k \<le> length xs \<and> j + k \<le> length ys
        \<and> take k (drop i xs) = take k (drop j ys))"

lemma length_match_row: "length prev = length ys \<Longrightarrow> length (match_row x d prev ys) = length ys"
  by (induction x d prev ys rule: match_row.induct) auto

lemma nth_match_row:
  "length prev = length ys \<Longrightarrow> j < length ys \<Longrightarrow>
     match_row x d prev ys ! j
       = (if x = ys ! j then Suc (case j of 0 \<Rightarrow> d | Suc j' \<Rightarrow> prev ! j') else 0)"
proof (induction x d prev ys arbitrary: j rule: match_row.induct)
  case (1 x d p prev y ys)
  then show ?case by (cases j) (auto split: nat.split)
qed auto

text \<open>The rows are right: entry \<open>j\<close> of row \<open>i\<close> is the length of a common block that ends there.\<close>

definition row_ok :: "'a list \<Rightarrow> 'a list \<Rightarrow> nat \<Rightarrow> nat list \<Rightarrow> bool" where
  "row_ok xs ys n row \<longleftrightarrow> length row = length ys \<and>
     (\<forall>j < length ys. row ! j \<le> n \<and> row ! j \<le> Suc j \<and>
        (\<forall>m < row ! j. xs ! (n - Suc m) = ys ! (j - m)))"

lemma row_ok_start: "row_ok xs ys 0 (replicate (length ys) 0)"
  by (simp add: row_ok_def)

lemma row_ok_next:
  assumes "row_ok xs ys n prev"
  shows "row_ok xs ys (Suc n) (match_row (xs ! n) 0 prev ys)"
proof -
  have len: "length prev = length ys" using assms by (simp add: row_ok_def)
  have "match_row (xs ! n) 0 prev ys ! j \<le> Suc n \<and> match_row (xs ! n) 0 prev ys ! j \<le> Suc j \<and>
      (\<forall>m < match_row (xs ! n) 0 prev ys ! j. xs ! (Suc n - Suc m) = ys ! (j - m))"
    if j: "j < length ys" for j
  proof (cases "xs ! n = ys ! j")
    case False
    then show ?thesis using j len by (simp add: nth_match_row)
  next
    case True
    show ?thesis
    proof (cases j)
      case 0
      then show ?thesis using True j len by (simp add: nth_match_row)
    next
      case (Suc j')
      then have "prev ! j' \<le> n" and "prev ! j' \<le> Suc j'"
        and old: "\<And>m. m < prev ! j' \<Longrightarrow> xs ! (n - Suc m) = ys ! (j' - m)"
        using assms j by (auto simp: row_ok_def)
      moreover have "xs ! (n - m) = ys ! (j - m)" if "m < Suc (prev ! j')" for m
        using that True old Suc by (cases m) auto
      ultimately show ?thesis using True j len Suc by (simp add: nth_match_row)
    qed
  qed
  then show ?thesis using len by (simp add: row_ok_def length_match_row)
qed

lemma row_ok_block:
  assumes "row_ok xs ys n row" and "n \<le> length xs" and "j < length ys"
  shows "common_block xs ys (n - row ! j, Suc j - row ! j, row ! j)"
proof -
  have k: "row ! j \<le> n" "row ! j \<le> Suc j" and eq: "\<And>m. m < row ! j \<Longrightarrow> xs ! (n - Suc m) = ys ! (j - m)"
    using assms by (auto simp: row_ok_def)
  have "take (row ! j) (drop (n - row ! j) xs) = take (row ! j) (drop (Suc j - row ! j) ys)"
  proof (rule nth_equalityI)
    show "length (take (row ! j) (drop (n - row ! j) xs)) = length (take (row ! j) (drop (Suc j - row ! j) ys))"
      using k assms by simp
  next
    fix q assume "q < length (take (row ! j) (drop (n - row ! j) xs))"
    then have q: "q < row ! j" by simp
    then have "xs ! (n - Suc (row ! j - Suc q)) = ys ! (j - (row ! j - Suc q))" by (intro eq) simp
    moreover have "n - Suc (row ! j - Suc q) = n - row ! j + q" and "j - (row ! j - Suc q) = Suc j - row ! j + q"
      using q k by simp_all
    ultimately show "take (row ! j) (drop (n - row ! j) xs) ! q = take (row ! j) (drop (Suc j - row ! j) ys) ! q"
      using q k assms by simp
  qed
  then show ?thesis using k assms by (simp add: common_block_def)
qed

lemma scan_row_block:
  assumes "\<And>q. q < length row \<Longrightarrow> common_block xs ys (Suc i - row ! q, Suc (j + q) - row ! q, row ! q)"
    and "common_block xs ys best"
  shows "common_block xs ys (scan_row i j row best)"
  using assms
proof (induction i j row best rule: scan_row.induct)
  case (2 i j k row bi bj bs)
  have "common_block xs ys (Suc i - k, Suc j - k, k)" using "2.prems"(1)[of 0] by simp
  moreover have "common_block xs ys (Suc i - row ! q, Suc (Suc j + q) - row ! q, row ! q)" if "q < length row" for q
    using "2.prems"(1)[of "Suc q"] that by simp
  ultimately show ?case using 2 by simp
qed simp

lemma longest_from_block:
  assumes "row_ok xs ys n prev" and "common_block xs ys best" and "n \<le> length xs"
  shows "common_block xs ys (longest_from n (drop n xs) ys prev best)"
  using assms
proof (induction "length xs - n" arbitrary: n prev best)
  case (Suc d)
  then have n: "n < length xs" by simp
  let ?row = "match_row (xs ! n) 0 prev ys"
  have ok: "row_ok xs ys (Suc n) ?row" using Suc.prems by (intro row_ok_next)
  have "common_block xs ys (scan_row n 0 ?row best)"
  proof (rule scan_row_block[OF _ Suc.prems(2)])
    fix q assume "q < length ?row"
    then show "common_block xs ys (Suc n - ?row ! q, Suc (0 + q) - ?row ! q, ?row ! q)"
      using row_ok_block[OF ok] n ok by (simp add: row_ok_def)
  qed
  then have "common_block xs ys (longest_from (Suc n) (drop (Suc n) xs) ys ?row (scan_row n 0 ?row best))"
    using Suc n ok by simp
  then show ?case using n by (simp add: Cons_nth_drop_Suc[symmetric] Let_def)
qed simp

lemma longest_match_block: "common_block xs ys (longest_match xs ys)"
  using longest_from_block[of xs ys 0 "replicate (length ys) 0" "(0, 0, 0)"] row_ok_start[of xs ys]
  by (simp add: longest_match_def common_block_def)

lemma longest_match_shorter:
  assumes "longest_match xs ys = (i, j, k)" and "0 < k"
  shows "i < length xs" and "i + k \<le> length xs"
  using longest_match_block[of xs ys] assms by (auto simp: common_block_def)

text \<open>The matched words, on both sides of the longest block as well.\<close>

function matched :: "'a list \<Rightarrow> 'a list \<Rightarrow> 'a list" where
  "matched xs ys =
     (case longest_match xs ys of (i, j, k) \<Rightarrow>
        if k = 0 then []
        else matched (take i xs) (take j ys) @ take k (drop i xs)
               @ matched (drop (i + k) xs) (drop (j + k) ys))"
  by pat_completeness auto
termination
proof (relation "measure (\<lambda>(xs, ys). length xs)")
  fix xs ys :: "'a list" and i b j k
  assume b: "(i, b) = longest_match xs ys" "(j, k) = b" "k \<noteq> 0"
  then have lm: "longest_match xs ys = (i, j, k)" and k: "0 < k" by auto
  show "((take i xs, take j ys), (xs, ys)) \<in> measure (\<lambda>(xs, ys). length xs)"
    using longest_match_shorter[OF lm k] by simp
  show "((drop (i + k) xs, drop (j + k) ys), (xs, ys)) \<in> measure (\<lambda>(xs, ys). length xs)"
    using longest_match_shorter[OF lm k] k by simp
qed simp

declare matched.simps [simp del]

definition ratio :: "'a list \<Rightarrow> 'a list \<Rightarrow> real" where
  "ratio xs ys =
     (if length xs + length ys = 0 then 1
      else 2 * real (length (matched xs ys)) / real (length xs + length ys))"

lemma matched_subseq: "subseq (matched xs ys) xs \<and> subseq (matched xs ys) ys"
proof (induction xs ys rule: matched.induct)
  case (1 xs ys)
  obtain i j k where b: "longest_match xs ys = (i, j, k)" by (cases "longest_match xs ys") auto
  show ?case
  proof (cases "k = 0")
    case True
    then show ?thesis using b by (simp add: matched.simps)
  next
    case False
    have eq: "take k (drop i xs) = take k (drop j ys)" 
      using longest_match_block[of xs ys] b by (simp add: common_block_def)
    have split: "zs = take n zs @ take k (drop n zs) @ drop (n + k) zs" for n and zs :: "'a list"
      by (metis append_take_drop_id drop_drop add.commute)
    have "subseq (matched (take i xs) (take j ys)) (take i xs)"
      "subseq (matched (take i xs) (take j ys)) (take j ys)"
      "subseq (matched (drop (i + k) xs) (drop (j + k) ys)) (drop (i + k) xs)"
      "subseq (matched (drop (i + k) xs) (drop (j + k) ys)) (drop (j + k) ys)"
      using 1[OF b[symmetric] refl False] by auto
    then have "subseq (matched (take i xs) (take j ys) @ take k (drop i xs)
          @ matched (drop (i + k) xs) (drop (j + k) ys)) (take i xs @ take k (drop i xs) @ drop (i + k) xs)"
      and "subseq (matched (take i xs) (take j ys) @ take k (drop j ys)
          @ matched (drop (i + k) xs) (drop (j + k) ys)) (take j ys @ take k (drop j ys) @ drop (j + k) ys)"
      by (simp_all add: list_emb_append_mono)
    then show ?thesis
      using b False eq split[of xs i] split[of ys j] by (simp add: matched.simps[of xs ys])
  qed
qed

lemma ratio_bounds: "0 \<le> ratio xs ys \<and> ratio xs ys \<le> 1"
proof -
  have "length (matched xs ys) \<le> length xs" and "length (matched xs ys) \<le> length ys"
    using matched_subseq[of xs ys] by (auto dest: list_emb_length)
  then show ?thesis by (auto simp: ratio_def divide_le_eq)
qed

section \<open>The words of a quote\<close>

definition MIN_QUOTE_CHARS :: nat where
  "MIN_QUOTE_CHARS = 20"

definition FUZZY_THRESHOLD :: real where
  "FUZZY_THRESHOLD = 88 / 100"

text \<open>\<open>str.translate(_PUNCT)\<close>: curly quotes, dashes and the no-break space.\<close>

definition punct :: "nat \<Rightarrow> nat" where
  "punct c = (if c \<in> {8220, 8221, 8222} then 34 else if c \<in> {8217, 8216} then 39
     else if c \<in> {8211, 8212} then 45 else if c = 160 then 32 else c)"

definition NUMBER_WORDS :: "str list" where
  "NUMBER_WORDS = [
     lit ''sifir'', lit ''bir'', lit ''iki'', [252, 231], lit ''d'' @ [246] @ lit ''rt'',
     lit ''be'' @ [351], lit ''alti'', lit ''yedi'', lit ''sekiz'', lit ''dokuz'', lit ''on'',
     lit ''yirmi'', lit ''otuz'', lit ''kirk'', lit ''elli'', lit ''altmi'' @ [351],
     lit ''yetmi'' @ [351], lit ''seksen'', lit ''doksan'', lit ''y'' @ [252] @ lit ''z'',
     lit ''bin'', lit ''milyon'', lit ''milyar'', lit ''trilyon'', lit ''yarim'',
     [231] @ lit ''eyrek'', lit ''zero'', lit ''one'', lit ''two'', lit ''three'',
     lit ''four'', lit ''five'', lit ''six'', lit ''seven'', lit ''eight'', lit ''nine'',
     lit ''ten'', lit ''eleven'', lit ''twelve'', lit ''twenty'', lit ''thirty'',
     lit ''forty'', lit ''fifty'', lit ''sixty'', lit ''seventy'', lit ''eighty'',
     lit ''ninety'', lit ''hundred'', lit ''thousand'', lit ''million'', lit ''billion'',
     lit ''trillion'', lit ''half'', lit ''quarter'', lit ''first'', lit ''second'',
     lit ''third'', lit ''fourth'', lit ''fifth'', lit ''dozen'']"

definition is_numeric :: "str \<Rightarrow> bool" where
  "is_numeric word = (list_ex is_digit word \<or> List.member NUMBER_WORDS word)"

record quote_check =
  qc_ok :: bool
  qc_method :: str
  qc_similarity :: real

definition words :: "str \<Rightarrow> str list" where
  "words s = runs is_word (fold_text (map punct s))"

section \<open>Verification\<close>

text \<open>The starts around an anchor at \<open>index\<close>, in the order the set is iterated in; negative ones are skipped.\<close>

definition window_starts :: "(int list \<Rightarrow> int list) \<Rightarrow> nat \<Rightarrow> nat \<Rightarrow> nat list" where
  "window_starts order index n =
     map nat (filter (\<lambda>s. 0 \<le> s)
       (order (fromkeys [int index, int index - 1, int index - int n + 1, int index - int n + 2])))"

definition candidate_windows :: "(int list \<Rightarrow> int list) \<Rightarrow> str list \<Rightarrow> str list \<Rightarrow> str list list" where
  "candidate_windows order quote_words content_words =
     (let n = length quote_words;
          anchors = [hd quote_words, quote_words ! min 1 (n - 1), last quote_words]
      in concat (map (\<lambda>(index, word).
           if List.member anchors word then
             concat (map (\<lambda>start. map (\<lambda>len. take len (drop start content_words)) [n - 1, n, n + 1])
               (window_starts order index n))
           else []) (enumerate 0 content_words)))"

text \<open>The body of the innermost loop: the first window that is close enough, or the best ratio seen.\<close>

fun first_close :: "str list \<Rightarrow> str list \<Rightarrow> real \<Rightarrow> str list list \<Rightarrow> quote_check" where
  "first_close quote_words numbers best [] =
     \<lparr>qc_ok = False, qc_method = lit ''not_found'', qc_similarity = best\<rparr>"
| "first_close quote_words numbers best (window # ws) =
     (if length window < max 3 (length quote_words - 1) then first_close quote_words numbers best ws
      else if numbers \<noteq> [] \<and> \<not> list_all (List.member window) numbers then first_close quote_words numbers best ws
      else let r = ratio quote_words window
           in if FUZZY_THRESHOLD \<le> r then \<lparr>qc_ok = True, qc_method = lit ''fuzzy'', qc_similarity = r\<rparr>
              else first_close quote_words numbers (max best r) ws)"

definition verify_quote :: "(int list \<Rightarrow> int list) \<Rightarrow> str \<Rightarrow> str \<Rightarrow> quote_check" where
  "verify_quote order quote content =
     (let quote_words = words quote; content_words = words content
      in if length (strip quote) < MIN_QUOTE_CHARS then
           \<lparr>qc_ok = False, qc_method = lit ''too_short'', qc_similarity = 0\<rparr>
         else if quote_words = [] \<or> content_words = [] then
           \<lparr>qc_ok = False, qc_method = lit ''empty'', qc_similarity = 0\<rparr>
         else if contains (join (lit '' '') content_words) (join (lit '' '') quote_words) then
           \<lparr>qc_ok = True, qc_method = lit ''exact'', qc_similarity = 1\<rparr>
         else first_close quote_words (filter is_numeric quote_words) 0
                (candidate_windows order quote_words content_words))"

end
