(* ===== verification/QuotesProps.thy ===== *)
theory QuotesProps
  imports Quotes
begin

text \<open>
  Properties of quote verification: what an accepted quote shares with the page, that a verbatim
  quote is accepted, and the one number that can slip through, at the edge of an exact match.
\<close>

section \<open>Joined words\<close>

lemma join_Cons: "join sep (x # xs) = (if xs = [] then x else x @ sep @ join sep xs)"
  by (cases xs) auto

lemma join_eq_Nil: "join [c] xs = [] \<longleftrightarrow> xs = [] \<or> xs = [[]]"
  by (cases xs) (auto simp: join_Cons)

lemma join_append: "xs \<noteq> [] \<Longrightarrow> ys \<noteq> [] \<Longrightarrow> join sep (xs @ ys) = join sep xs @ sep @ join sep ys"
  by (induction xs) (auto simp: join_Cons)

text \<open>Two words before a separator neither contains are equal.\<close>

lemma first_word_eq:
  "s \<notin> set x \<Longrightarrow> s \<notin> set y \<Longrightarrow> x @ s # xs = y @ s # ys \<Longrightarrow> x = y \<and> xs = ys"
  by (induction x arbitrary: y) (auto simp: Cons_eq_append_conv append_eq_Cons_conv)

lemma prefix_join_words:
  assumes "prefix (join [s] qs) (join [s] cs)" "s \<notin> \<Union> (set ` set qs)" "s \<notin> \<Union> (set ` set cs)"
  shows "prefix (butlast qs) cs"
  using assms
proof (induction qs arbitrary: cs)
  case (Cons q qs)
  show ?case
  proof (cases "qs = []")
    case False
    then obtain r where r: "join [s] cs = q @ s # join [s] qs @ r"
      using Cons.prems(1) by (auto simp: join_Cons prefix_def)
    then obtain c cs' where cs: "cs = c # cs'" by (cases cs) auto
    have sq: "s \<notin> set q" and sc: "s \<notin> set c" using Cons.prems cs by auto
    have "cs' \<noteq> []" using r cs sc by (auto simp: join_Cons)
    then have "q @ s # join [s] qs @ r = c @ s # join [s] cs'" using r cs by (simp add: join_Cons)
    then have "q = c" and "join [s] qs @ r = join [s] cs'" using first_word_eq[OF sq sc] by blast+
    moreover from this have "prefix (join [s] qs) (join [s] cs')" by (metis prefixI)
    ultimately have "prefix (butlast qs) cs'" using Cons.prems cs by (intro Cons.IH) auto
    then show ?thesis using \<open>q = c\<close> cs False by simp
  qed simp
qed simp

lemma suffix_join_words:
  assumes "join [s] cs = ps @ t" "t \<noteq> []" "hd t \<noteq> s"
  shows "\<exists>xs c ys w. cs = xs @ c # ys \<and> suffix w c \<and> t = join [s] (w # ys)"
  using assms
proof (induction cs arbitrary: ps)
  case (Cons c cs)
  show ?case
  proof (cases "cs = []")
    case True
    then have "suffix t c" using Cons.prems by (auto simp: suffix_def)
    then show ?thesis using True by (intro exI[of _ "[]"] exI[of _ c] exI[of _ t]) simp
  next
    case False
    then have eq: "c @ s # join [s] cs = ps @ t" using Cons.prems by (simp add: join_Cons)
    then consider us where "c = ps @ us" "us @ s # join [s] cs = t"
      | us where "ps = c @ s # us" "join [s] cs = us @ t"
      using Cons.prems(2,3) by (auto simp: append_eq_append_conv2 Cons_eq_append_conv)
    then show ?thesis
    proof cases
      case 1
      then have "suffix us c" "t = join [s] (us # cs)" using False by (auto simp: suffix_def join_Cons)
      then show ?thesis by (intro exI[of _ "[]"] exI[of _ c] exI[of _ cs] exI[of _ us]) simp
    next
      case 2
      then obtain xs c' ys w where "cs = xs @ c' # ys" "suffix w c'" "t = join [s] (w # ys)"
        using Cons.IH Cons.prems(2,3) by blast
      then show ?thesis by (intro exI[of _ "c # xs"] exI[of _ c'] exI[of _ ys] exI[of _ w]) simp
    qed
  qed
qed simp

text \<open>Of a text found in another, all words but the outer two are words of the other, in a row.\<close>

lemma contained_words:
  assumes "sublist (join [s] qs) (join [s] cs)" and "s \<notin> \<Union> (set ` set qs)" and "s \<notin> \<Union> (set ` set cs)"
    and "[] \<notin> set qs" and "qs \<noteq> []"
  shows "sublist (tl (butlast qs)) cs"
proof -
  obtain ps r where eq: "join [s] cs = ps @ join [s] qs @ r" using assms(1) by (auto simp: sublist_def)
  obtain q qs' where qs: "qs = q # qs'" and q: "q \<noteq> []" "s \<notin> set q" using assms by (cases qs) auto
  have "join [s] qs @ r \<noteq> []" "hd (join [s] qs @ r) \<noteq> s"
    using qs q by (cases q; auto simp: join_Cons)+
  then obtain xs c ys w where cs: "cs = xs @ c # ys" "suffix w c" and t: "join [s] qs @ r = join [s] (w # ys)"
    using suffix_join_words[OF eq] by blast
  have "prefix (butlast qs) (w # ys)"
  proof (rule prefix_join_words[OF _ assms(2)])
    show "prefix (join [s] qs) (join [s] (w # ys))" using t by (metis prefixI)
    show "s \<notin> \<Union> (set ` set (w # ys))" using cs assms(3) by (auto dest: set_mono_suffix)
  qed
  then have "prefix (tl (butlast qs)) ys" by (cases "butlast qs") auto
  then obtain zs where "cs = (xs @ [c]) @ tl (butlast qs) @ zs" using cs by (auto simp: prefix_def)
  then show ?thesis unfolding sublist_def by blast
qed

lemma words_no_space: "32 \<notin> \<Union> (set ` set (words s))"
  using runs_all[of _ is_word] by (force simp: words_def is_word_def is_alnum_def is_alpha_def is_digit_def)

lemma words_nonempty: "[] \<notin> set (words s)"
  by (simp add: words_def runs_nonempty)

section \<open>The windows\<close>

lemma sublist_window: "sublist (take n (drop m xs)) xs"
  by (rule sublist_order.order_trans[OF sublist_take sublist_drop])

lemma candidate_window_sublist: "w \<in> set (candidate_windows order qs cs) \<Longrightarrow> sublist w cs"
  by (auto simp: candidate_windows_def Let_def sublist_window split: if_splits)

lemma first_close_ok:
  assumes "qc_ok (first_close qs numbers best ws)"
  shows "\<exists>w\<in>set ws. (\<forall>x\<in>set numbers. x \<in> set w) \<and> FUZZY_THRESHOLD \<le> ratio qs w
     \<and> first_close qs numbers best ws = \<lparr>qc_ok = True, qc_method = lit ''fuzzy'', qc_similarity = ratio qs w\<rparr>"
  using assms
  by (induction qs numbers best ws rule: first_close.induct)
    (auto simp: Let_def list_all_iff split: if_splits)

lemma ratio_common:
  "t \<le> ratio xs ys \<Longrightarrow> xs \<noteq> [] \<Longrightarrow>
     \<exists>zs. subseq zs xs \<and> subseq zs ys \<and> t * real (length xs + length ys) \<le> 2 * real (length zs)"
  using matched_subseq[of xs ys]
  by (intro exI[of _ "matched xs ys"]) (auto simp: ratio_def pos_le_divide_eq add_pos_nonneg)

lemmas words_eval = words_def punct_def fold_text_eq_map lower1_def tr_fold_def is_word_def
  is_alnum_def is_alpha_def is_digit_def

section \<open>Properties\<close>

text \<open>
  C14. An accepted quote has at least 20 characters and was accepted in one of two ways. Exactly:
  then all its words but the first and the last are words of the page, in a row. Or fuzzily: then a
  passage of consecutive words of the page holds every numeral of the quote, and quote and passage
  have so many words in common, in the same order, that these make up 88 percent of both. Either
  way a numeral inside the quote is a word of the page.
\<close>

theorem quote_accepted:
  assumes "qc_ok (verify_quote order quote content)"
  shows "20 \<le> length (strip quote)
    \<and> (qc_method (verify_quote order quote content) = lit ''exact''
          \<and> sublist (tl (butlast (words quote))) (words content)
       \<or> qc_method (verify_quote order quote content) = lit ''fuzzy''
          \<and> (\<exists>passage common. sublist passage (words content)
               \<and> (\<forall>w\<in>set (words quote). is_numeric w \<longrightarrow> w \<in> set passage)
               \<and> subseq common (words quote) \<and> subseq common passage
               \<and> 88 / 100 * real (length (words quote) + length passage) \<le> 2 * real (length common)))
    \<and> (\<forall>w\<in>set (tl (butlast (words quote))). is_numeric w \<longrightarrow> w \<in> set (words content))"
proof -
  let ?q = "words quote" and ?c = "words content"
  have long: "20 \<le> length (strip quote)" and q: "?q \<noteq> []"
    using assms by (auto simp: verify_quote_def MIN_QUOTE_CHARS_def Let_def split: if_splits)
  have inner: "w \<in> set ?q" if "w \<in> set (tl (butlast ?q))" for w
    using that by (metis in_set_butlastD list.sel(2) list.set_sel(2))
  show ?thesis
  proof (cases "contains (join [32] ?c) (join [32] ?q)")
    case True
    then have "sublist (tl (butlast ?q)) ?c"
      using contained_words words_no_space words_nonempty q by (simp add: contains_sublist)
    moreover have "qc_method (verify_quote order quote content) = lit ''exact''"
      using True assms by (auto simp: verify_quote_def Let_def split: if_splits)
    ultimately show ?thesis using long by (auto dest: set_mono_sublist)
  next
    case False
    then have "verify_quote order quote content
        = first_close ?q (filter is_numeric ?q) 0 (candidate_windows order ?q ?c)"
      using assms by (auto simp: verify_quote_def Let_def split: if_splits)
    then obtain p where p: "p \<in> set (candidate_windows order ?q ?c)"
      "\<forall>x\<in>set (filter is_numeric ?q). x \<in> set p" "FUZZY_THRESHOLD \<le> ratio ?q p"
      and m: "qc_method (verify_quote order quote content) = lit ''fuzzy''"
      using first_close_ok assms by fastforce
    have sub: "sublist p ?c" using candidate_window_sublist p by blast
    moreover have "\<exists>zs. subseq zs ?q \<and> subseq zs p
        \<and> 88 / 100 * real (length ?q + length p) \<le> 2 * real (length zs)"
      using ratio_common[OF p(3) q] by (simp add: FUZZY_THRESHOLD_def)
    moreover have "\<forall>w\<in>set ?q. is_numeric w \<longrightarrow> w \<in> set p" using p(2) by auto
    ultimately show ?thesis using long m inner by (blast dest: set_mono_sublist)
  qed
qed

theorem quote_accepted_witness:
  "20 \<le> length (strip (lit ''The fine is 40 million euros''))
   \<and> lit ''40'' \<in> set (words (lit ''In short: the fine is now 40 million euros''))"
proof -
  have w: "words (lit ''The fine is 40 million euros'')
      = [lit ''the'', lit ''fine'', lit ''is'', lit ''40'', lit ''million'', lit ''euros'']"
    "words (lit ''In short: the fine is now 40 million euros'')
      = [lit ''in'', lit ''short'', lit ''the'', lit ''fine'', lit ''is'', lit ''now'', lit ''40'', lit ''million'', lit ''euros'']"
    by (simp_all add: words_eval)
  have long: "\<not> length (strip (lit ''The fine is 40 million euros'')) < MIN_QUOTE_CHARS"
    by (simp add: strip_def is_space_def MIN_QUOTE_CHARS_def)
  have "qc_ok (verify_quote id (lit ''The fine is 40 million euros'') (lit ''In short: the fine is now 40 million euros''))"
    unfolding verify_quote_def Let_def if_not_P[OF long] w
    by (simp add: candidate_windows_def window_starts_def is_numeric_def is_digit_def NUMBER_WORDS_def
      matched.simps ratio_def longest_match_def FUZZY_THRESHOLD_def enumerate_simps)
  moreover have "lit ''40'' \<in> set (tl (butlast (words (lit ''The fine is 40 million euros''))))" unfolding w by simp
  moreover have "is_numeric (lit ''40'')" by (simp add: is_numeric_def is_digit_def)
  ultimately show ?thesis
    using quote_accepted[of id "lit ''The fine is 40 million euros''" "lit ''In short: the fine is now 40 million euros''"]
    by blast
qed

text \<open>
  Checking a quote is exact on the words inside it, but a numeral at its edge may be part of a
  longer number of the page: the words are compared as one joined text. A quote that says 5
  million is found, as an exact match, on a page that says 15 million.
\<close>

theorem edge_numeral_accepted:
  "verify_quote order (lit ''5 million users were affected'') (lit ''About 15 million users were affected.'')
     = \<lparr>qc_ok = True, qc_method = lit ''exact'', qc_similarity = 1\<rparr>
   \<and> is_numeric (lit ''5'') \<and> lit ''5'' \<in> set (words (lit ''5 million users were affected''))
   \<and> lit ''5'' \<notin> set (words (lit ''About 15 million users were affected.''))"
proof -
  have w: "words (lit ''5 million users were affected'')
      = [lit ''5'', lit ''million'', lit ''users'', lit ''were'', lit ''affected'']"
    "words (lit ''About 15 million users were affected.'')
      = [lit ''about'', lit ''15'', lit ''million'', lit ''users'', lit ''were'', lit ''affected'']"
    by (simp_all add: words_eval)
  have long: "\<not> length (strip (lit ''5 million users were affected'')) < MIN_QUOTE_CHARS"
    by (simp add: strip_def is_space_def MIN_QUOTE_CHARS_def)
  have found: "contains (join (lit '' '') (words (lit ''About 15 million users were affected.'')))
      (join (lit '' '') (words (lit ''5 million users were affected'')))" unfolding w by simp
  have "verify_quote order (lit ''5 million users were affected'') (lit ''About 15 million users were affected.'')
     = \<lparr>qc_ok = True, qc_method = lit ''exact'', qc_similarity = 1\<rparr>"
    unfolding verify_quote_def Let_def if_not_P[OF long] if_P[OF found] by (simp only: w if_P[OF found[unfolded w]]) simp
  moreover have "is_numeric (lit ''5'')" by (simp add: is_numeric_def is_digit_def)
  ultimately show ?thesis by (simp add: words_eval)
qed

end
