(* ===== verification/RunOps.thy ===== *)
theory RunOps
  imports Events
begin

text \<open>
  What the single operations of the repository promise: \<open>claim\<close> (oldest first, never twice),
  \<open>finish\<close> (status, artifacts, closing events and the deletion of the provider keys as one write),
  the attempt budget of \<open>requeue\<close>, whose read and write other writers may come between, and what
  \<open>EventWriter.emit\<close> lets through.
\<close>

section \<open>Claiming\<close>

text \<open>
  C4. \<open>claim\<close> takes a queued, available run that nobody has locked, the oldest of them, moves it
  to dispatched under the new lease and counts the attempt; no other run changes, and no later
  claim on the resulting table returns the same run.
\<close>

theorem claim_exclusive_oldest:
  assumes "claim locked now l d = (Some (rid, r'), d')" and "distinct (dkeys (db_runs d))"
  shows "\<exists>r. get_run d rid = Some r \<and> rn_status r = QUEUED \<and> rid \<notin> set locked
      \<and> (\<forall>x\<in>set (db_runs d). claimable locked now x \<longrightarrow> rn_created_at r \<le> rn_created_at (snd x))
      \<and> rn_status r' = DISPATCHED \<and> rn_lease_id r' = Some l \<and> rn_attempts r' = rn_attempts r + 1
      \<and> get_run d' rid = Some r' \<and> (\<forall>rid'. rid' \<noteq> rid \<longrightarrow> get_run d' rid' = get_run d rid')
      \<and> (\<forall>locked' now' l'. fst (claim locked' now' l' d') \<noteq> None \<longrightarrow>
            fst (the (fst (claim locked' now' l' d'))) \<noteq> rid)"
proof -
  from claim_Some[OF assms] obtain r where r: "get_run d rid = Some r" "claimable locked now (rid, r)"
    and r': "r' = r\<lparr>rn_status := DISPATCHED, rn_dispatched_at := Some now,
               rn_attempts := rn_attempts r + 1, rn_lease_id := Some l, rn_agent_id := None\<rparr>"
    and d': "d' = set_run rid r' d"
    and old: "\<forall>x\<in>set (db_runs d). claimable locked now x \<longrightarrow> rn_created_at r \<le> rn_created_at (snd x)"
    by blast
  have dist: "distinct (dkeys (db_runs d'))"
    using assms(2) by (simp add: d' set_run_def distinct_update)
  have "fst x \<noteq> rid" if "claim locked' now' l' d' = (Some x, d'')" for locked' now' l' x d''
  proof -
    obtain rid2 r2 where x: "x = (rid2, r2)" by fastforce
    from claim_Some[OF that[unfolded x] dist] obtain r0 where
      "get_run d' rid2 = Some r0" "rn_status r0 = QUEUED" by (auto simp: claimable_def)
    then show ?thesis using x by (auto simp: d' r' split: if_splits)
  qed
  then have "\<forall>locked' now' l'. fst (claim locked' now' l' d') \<noteq> None \<longrightarrow>
            fst (the (fst (claim locked' now' l' d'))) \<noteq> rid"
    by (metis option.collapse prod.collapse)
  with r old show ?thesis by (auto simp: claimable_def d' r')
qed

theorem claim_exclusive_oldest_witness:
  "fst (claim [] 5 9 (demo_db QUEUED None)) \<noteq> None
   \<and> rn_attempts (snd (the (fst (claim [] 5 9 (demo_db QUEUED None))))) = 1"
proof -
  have q: "rn_attempts demo_row = 0" by (simp add: demo_row_def new_run_def)
  obtain r' d' where c: "claim [] 5 9 (demo_db QUEUED None) = (Some (1, r'), d')"
    by (simp add: claim_def claimable_def Let_def)
  from claim_exclusive_oldest[OF this] have "rn_attempts r' = 1" by (auto simp: q)
  with c show ?thesis by simp
qed

lemma claim_exclusive_facts:
  assumes "claim locked now l d = (Some (rid, r'), d')" and "distinct (dkeys (db_runs d))"
  shows "\<exists>r. get_run d rid = Some r \<and> rn_status r = QUEUED \<and> rn_attempts r' = rn_attempts r + 1
    \<and> rn_status r' = DISPATCHED \<and> d' = set_run rid r' d"
proof -
  from claim_Some[OF assms] obtain r where "get_run d rid = Some r" "claimable locked now (rid, r)"
    "r' = r\<lparr>rn_status := DISPATCHED, rn_dispatched_at := Some now,
               rn_attempts := rn_attempts r + 1, rn_lease_id := Some l, rn_agent_id := None\<rparr>"
    "d' = set_run rid r' d"
    by blast
  then show ?thesis by (intro exI[of _ r]) (simp add: claimable_def)
qed

section \<open>Finishing\<close>

definition closing_events :: "finish_args \<Rightarrow> nat" where
  "closing_events a = (if fi_emit_finished a then if finish_ready a then 2 else 1 else 0)"

text \<open>
  C5. A successful \<open>finish\<close> is one write: the run has the terminal status and the outcome columns,
  its provider keys are gone and every other run's stay, each artifact is stored with the byte
  length of its content, the closing events carry the next numbers of the timeline, and no other
  run is touched.
\<close>

theorem finish_publishes:
  assumes "finish lease rid a now d = Inr d'"
  shows "\<exists>r r'. get_run d rid = Some r \<and> allowed (rn_status r) (fi_status a)
      \<and> get_run d' rid = Some r' \<and> rn_status r' = fi_status a \<and> rn_finished_at r' = Some now
      \<and> rn_error_code r' = fi_error_code a \<and> rn_stop_reason r' = fi_stop_reason a
      \<and> rn_event_seq r' = rn_event_seq r + closing_events a
      \<and> (\<forall>rid'. rid' \<noteq> rid \<longrightarrow> get_run d' rid' = get_run d rid')
      \<and> load_ciphertexts rid d' = []
      \<and> (\<forall>rid'. rid' \<noteq> rid \<longrightarrow> load_ciphertexts rid' d' = load_ciphertexts rid' d)
      \<and> map (\<lambda>x. (ar_run_id x, ar_kind x, ar_content x, ar_size_bytes x)) (db_artifacts d')
        = map (\<lambda>x. (ar_run_id x, ar_kind x, ar_content x, ar_size_bytes x)) (db_artifacts d)
          @ map (\<lambda>(k, ct, c). (rid, k, c, utf8_len c)) (fi_artifacts a)
      \<and> map (\<lambda>e. (ev_run_id e, ev_seq e)) (db_events d')
        = map (\<lambda>e. (ev_run_id e, ev_seq e)) (db_events d)
          @ map (Pair rid) [Suc (rn_event_seq r)..<Suc (rn_event_seq r + closing_events a)]"
proof -
  from assms obtain r where r: "get_run d rid = Some r" "allowed (rn_status r) (fi_status a)"
    and d': "d' = notify (StatusNotify rid (fi_status a))
       (persist rid a (set_run rid ((finish_values a now r)\<lparr>rn_status := fi_status a\<rparr>) d))"
    by (auto simp: finish_def transition_Inr split: if_splits)
  let ?r' = "(finish_values a now r)\<lparr>rn_status := fi_status a\<rparr>"
  have art: "db_artifacts d' = db_artifacts d @ map (\<lambda>(kind, ct, content).
                     \<lparr>ar_run_id = rid, ar_kind = kind, ar_content_type = ct, ar_content = content,
                      ar_size_bytes = utf8_len content\<rparr>) (fi_artifacts a)"
    by (simp add: d' persist_def Let_def)
  have ev: "map (\<lambda>e. (ev_run_id e, ev_seq e)) (db_events d')
        = map (\<lambda>e. (ev_run_id e, ev_seq e)) (db_events d)
          @ map (Pair rid) [Suc (rn_event_seq r)..<Suc (rn_event_seq r + closing_events a)]"
    by (simp add: d' db_events_persist closing_events_def ready_event_def finished_event_def upt_rec)
  have row: "get_run d' rid = Some ?r'" by (simp add: d')
  have "rn_error_code ?r' = fi_error_code a" "rn_stop_reason ?r' = fi_stop_reason a"
    "rn_event_seq ?r' = rn_event_seq r + closing_events a"
    by (simp_all add: finish_values_def Let_def closing_events_def)
  moreover have "load_ciphertexts rid d' = []"
    "\<forall>rid'. rid' \<noteq> rid \<longrightarrow> load_ciphertexts rid' d' = load_ciphertexts rid' d"
    "\<forall>rid'. rid' \<noteq> rid \<longrightarrow> get_run d' rid' = get_run d rid'"
    by (auto simp: d' load_ciphertexts_def filter_empty_conv intro: arg_cong[where f = "map _"] filter_cong)
  ultimately show ?thesis using r ev art row
    by (intro exI[of _ r] exI[of _ ?r']) (auto simp: comp_def case_prod_beta)
qed

definition demo_finish :: finish_args where
  "demo_finish = \<lparr>fi_status = SUCCEEDED, fi_stop_reason = Some (lit ''done''), fi_gate_status = None,
     fi_error_code = None, fi_error_message = None,
     fi_artifacts = [(lit ''report_md'', lit ''text/markdown'', lit ''ok'')], fi_metrics = [],
     fi_emit_finished = True\<rparr>"

theorem finish_publishes_witness:
  "\<exists>d. finish (Some 8) 1 demo_finish 9 (demo_db RUNNING (Some 8)) = Inr d \<and> event_seq_of d 1 = 2"
proof -
  have al: "allowed RUNNING SUCCEEDED" by (simp add: allowed_def can_transition_def run_states_def)
  obtain d where f: "finish (Some 8) 1 demo_finish 9 (demo_db RUNNING (Some 8)) = Inr d"
    by (simp add: finish_def demo_finish_def transition_def transition_check_def require_def
        transition_commit_def al)
  have "closing_events demo_finish = 2"
    by (simp add: closing_events_def demo_finish_def finish_ready_def dmem_def)
  with finish_publishes[OF f] f show ?thesis
    by (auto simp: event_seq_of_def)
qed

section \<open>The attempt budget\<close>

text \<open>
  The interleaved steps of \<open>RunProps\<close>, with the calls of \<open>requeue\<close> that are under way: the rows they
  have read (\<open>T\<close>), and for every run how many of them wrote on a count that was no longer the run's
  (\<open>s\<close>). A call is a read, then a write at any later time; any other step takes no run back to the
  queue. The write that fails a run is the \<open>step_finish\<close> of \<open>run_step\<close>.
\<close>

type_synonym budget_state = "uuid set \<times> (uuid \<times> run_row) list \<times> (uuid \<Rightarrow> nat) \<times> db"

definition outdated :: "uuid \<Rightarrow> run_row \<Rightarrow> db \<Rightarrow> bool" where
  "outdated rid r0 d \<longleftrightarrow> map_option rn_attempts (get_run d rid) \<noteq> Some (rn_attempts r0)"

inductive life_step :: "budget_state \<Rightarrow> budget_state \<Rightarrow> bool" where
  life_read: "require rid d = Inr r0 \<Longrightarrow> life_step (U, T, s, d) (U, (rid, r0) # T, s, d)"
| life_requeue: "(rid, r0) \<in> set T \<Longrightarrow> \<not> attempts_spent r0 \<Longrightarrow> allowed src QUEUED \<Longrightarrow>
     transition_commit lease rid src QUEUED (requeue_values now b) (\<lambda>d. d) d = Inr d' \<Longrightarrow>
     life_step (U, T, s, d)
       (U, remove1 (rid, r0) T, if outdated rid r0 d then s(rid := s rid + 1) else s, d')"
| life_other: "run_step U d U' d' \<Longrightarrow>
     (\<And>rid r'. get_run d' rid = Some r' \<Longrightarrow> rn_status r' = QUEUED \<Longrightarrow>
        get_run d rid = None \<or> map_option rn_status (get_run d rid) = Some QUEUED) \<Longrightarrow>
     life_step (U, T, s, d) (U', T, s, d')"

inductive_cases life_stepE: "life_step (U, T, s, d) (U', T', s', d')"

abbreviation life_steps :: "budget_state \<Rightarrow> budget_state \<Rightarrow> bool" where
  "life_steps \<equiv> life_step\<^sup>*\<^sup>*"

text \<open>Nothing is left out: what these steps do to the table, and the calls add, are steps of \<open>run_step\<close>.\<close>

lemma life_step_run:
  "life_step x y \<Longrightarrow> (fst y = fst x \<and> snd (snd (snd y)) = snd (snd (snd x)))
     \<or> run_step (fst x) (snd (snd (snd x))) (fst y) (snd (snd (snd y)))"
  by (induction rule: life_step.induct) (auto intro: step_requeue)

lemma run_step_back:
  assumes "run_step U d U' d'" and "get_run d' rid = Some r'" and "rn_status r' = QUEUED"
    and "get_run d rid = Some r" and "rn_status r \<noteq> QUEUED" and "distinct (dkeys (db_runs d))"
  shows "\<exists>src lease now b. allowed src QUEUED
    \<and> transition_commit lease rid src QUEUED (requeue_values now b) (\<lambda>d. d) d = Inr d'"
  using assms
proof (induction rule: run_step.induct)
  case (step_claim l U locked now d x d')
  obtain rid' r1 where "x = (rid', r1)" by fastforce
  with claim_Some step_claim show ?case by (fastforce split: if_splits)
next
  case (step_requeue src lease rid0 now b d d' U)
  then show ?case by (cases "rid0 = rid") (auto simp: transition_commit_Inr)
qed (auto simp: create_def create_local_def transition_commit_Inr write_owned_Inr emit_event_Inr
      data_only_def request_cancel_def store_secrets_def purge_expired_secrets_def
      split: option.splits if_splits)

text \<open>How a step changes the count.\<close>

lemma run_step_attempts:
  assumes "run_step U d U' d'" and "distinct (dkeys (db_runs d))" and "get_run d' rid = Some r'"
  shows "(get_run d rid = None \<and> rn_attempts r' \<le> 1 \<and> (rn_status r' = QUEUED \<longrightarrow> rn_attempts r' = 0))
    \<or> (\<exists>r. get_run d rid = Some r \<and> (rn_attempts r' = rn_attempts r
         \<or> rn_status r = QUEUED \<and> rn_attempts r' = rn_attempts r + 1 \<and> rn_status r' = DISPATCHED))"
  using assms
proof (induction rule: run_step.induct)
  case (step_claim l U locked now d x d')
  obtain rid' r1 where "x = (rid', r1)" by fastforce
  with claim_Some[of locked now l d rid' r1 d'] step_claim show ?case by (auto simp: claimable_def split: if_splits)
qed (auto simp: create_def create_local_def new_run_def transition_commit_Inr write_owned_Inr emit_event_Inr
      data_only_def request_cancel_def store_secrets_def purge_expired_secrets_def
      split: option.splits if_splits)

definition within_budget :: "(uuid \<Rightarrow> nat) \<Rightarrow> db \<Rightarrow> bool" where
  "within_budget s d \<longleftrightarrow> (\<forall>rid r. get_run d rid = Some r \<longrightarrow>
     rn_attempts r \<le> max_attempts run_states + s rid
     \<and> (rn_status r = QUEUED \<longrightarrow> rn_attempts r < max_attempts run_states + s rid))"

lemma max_attempts_run_states [simp]: "max_attempts run_states = 3"
  by (simp add: run_states_def)

lemma life_step_budget:
  assumes "life_step (U, T, s, d) (U', T', s', d')" and "within_budget s d" and "distinct (dkeys (db_runs d))"
  shows "within_budget s' d' \<and> distinct (dkeys (db_runs d'))"
proof -
  from assms(1) consider (read) "s' = s" "d' = d"
    | (requeue) rid r0 src lease now b where "\<not> attempts_spent r0"
        "transition_commit lease rid src QUEUED (requeue_values now b) (\<lambda>d. d) d = Inr d'"
        "s' = (if outdated rid r0 d then s(rid := s rid + 1) else s)"
    | (other) "run_step U d U' d'" "s' = s" "\<forall>rid r'. get_run d' rid = Some r' \<longrightarrow> rn_status r' = QUEUED \<longrightarrow>
        get_run d rid = None \<or> map_option rn_status (get_run d rid) = Some QUEUED"
    by (rule life_stepE) blast+
  then show ?thesis
  proof cases
    case read
    then show ?thesis using assms by simp
  next
    case (requeue rid r0 src lease now b)
    then obtain r where r: "get_run d rid = Some r"
      "d' = notify (StatusNotify rid QUEUED) (set_run rid (requeue_values now b r\<lparr>rn_status := QUEUED\<rparr>) d)"
      by (auto simp: transition_commit_Inr)
    have "rn_attempts r \<le> 3 + s rid" "rn_attempts r0 < 3"
      using assms(2) r requeue(1) by (auto simp: within_budget_def attempts_spent_def)
    then have "rn_attempts r < 3 + s' rid" using requeue(3) r by (auto simp: outdated_def)
    moreover have "\<forall>x. x \<noteq> rid \<longrightarrow> s' x = s x" using requeue(3) by auto
    ultimately have "within_budget s' d'" using assms(2) r unfolding within_budget_def by auto
    moreover have "distinct (dkeys (db_runs d'))"
      using assms(3) r by (simp add: set_run_def distinct_update)
    ultimately show ?thesis by blast
  next
    case other
    have "rn_attempts r' \<le> 3 + s rid \<and> (rn_status r' = QUEUED \<longrightarrow> rn_attempts r' < 3 + s rid)"
      if r': "get_run d' rid = Some r'" for rid r'
      using run_step_attempts[OF other(1) assms(3) r']
    proof (elim disjE exE conjE)
      fix r assume "get_run d rid = Some r" "rn_attempts r' = rn_attempts r"
      then show ?thesis using assms(2) other(3) r' by (fastforce simp: within_budget_def)
    next
      fix r assume "get_run d rid = Some r" "rn_status r = QUEUED" "rn_attempts r' = rn_attempts r + 1" "rn_status r' = DISPATCHED"
      then show ?thesis using assms(2) unfolding within_budget_def by fastforce
    qed auto
    then show ?thesis using other(1,2) run_step_keys assms(3) by (simp add: within_budget_def)
  qed
qed

lemma life_steps_budget:
  assumes "life_steps ({}, [], \<lambda>_. 0, empty_db) x"
  shows "within_budget (fst (snd (snd x))) (snd (snd (snd x))) \<and> distinct (dkeys (db_runs (snd (snd (snd x)))))"
  using assms
proof (induction)
  case base
  then show ?case by (simp add: within_budget_def empty_db_def)
next
  case (step y z)
  then show ?case using life_step_budget by (cases y, cases z) auto
qed

text \<open>The two ways a call of \<open>requeue\<close> goes on from the row it read.\<close>

lemma requeue_write_Inr:
  assumes "requeue_write lease rid reason b now r0 d = Inr (again, d')" and "get_run d rid = Some r"
  shows "\<exists>r'. get_run d' rid = Some r' \<and> rn_attempts r' = rn_attempts r \<and> again = (rn_attempts r0 < 3)
    \<and> (if again then rn_status r' = QUEUED \<and> rn_lease_id r' = None
       else rn_status r' = FAILED \<and> rn_error_code r' = Some reason)"
proof (cases "attempts_spent r0")
  case True
  then have f: "finish lease rid (give_up_args reason r0) now d = Inr d'" and "\<not> again"
    using assms(1) by (auto simp: requeue_write_def rbind_Inr_iff)
  have "rn_error_code (finish_values (give_up_args reason r0) now r) = Some reason"
    by (simp add: finish_values_def give_up_args_def Let_def)
  then show ?thesis using f \<open>\<not> again\<close> True assms(2)
    by (auto simp: finish_def transition_Inr attempts_spent_def give_up_args_def split: if_splits)
next
  case False
  then show ?thesis using assms
    by (auto simp: requeue_write_def rbind_Inr_iff transition_Inr attempts_spent_def)
qed

text \<open>A call of \<open>requeue\<close> nobody comes between is such a sequence of steps, and outdates nothing.\<close>

lemma requeue_steps:
  assumes "requeue lease rid reason b now d = Inr (again, d')"
  shows "\<exists>T'. life_steps (U, T, s, d) (U, T', s, d')"
proof -
  obtain r where r: "get_run d rid = Some r" "requeue_write lease rid reason b now r d = Inr (again, d')"
    using assms by (auto simp: requeue_def rbind_Inr_iff require_def split: option.splits)
  have rd: "life_step (U, T, s, d) (U, (rid, r) # T, s, d)" by (rule life_read) (simp add: require_def r)
  show ?thesis
  proof (cases "attempts_spent r")
    case True
    then have "finish lease rid (give_up_args reason r) now d = Inr d'"
      using r by (auto simp: requeue_write_def rbind_Inr_iff)
    then have c: "allowed (rn_status r) FAILED"
      "transition_commit lease rid (rn_status r) FAILED (finish_values (give_up_args reason r) now)
         (persist rid (give_up_args reason r)) d = Inr d'"
      using r(1) by (auto simp: finish_def transition_Inr transition_commit_Inr give_up_args_def split: if_splits)
    have "run_step U d U d'"
      using c step_finish[of "rn_status r" "give_up_args reason r"] by (simp add: give_up_args_def)
    moreover have "get_run d x = None \<or> map_option rn_status (get_run d x) = Some QUEUED"
      if "get_run d' x = Some r'" "rn_status r' = QUEUED" for x r'
      using c(2) that by (cases "x = rid") (auto simp: transition_commit_Inr)
    ultimately have "life_step (U, (rid, r) # T, s, d) (U, (rid, r) # T, s, d')" by (intro life_other) auto
    then show ?thesis using rd by (blast intro: rtranclp.rtrancl_into_rtrancl)
  next
    case False
    then obtain d1 where t: "transition lease rid QUEUED (requeue_values now b) (\<lambda>d. d) d = Inr d1"
      "d' = notify (QueueNotify rid) d1"
      using r by (auto simp: requeue_write_def rbind_Inr_iff)
    then have "allowed (rn_status r) QUEUED"
      "transition_commit lease rid (rn_status r) QUEUED (requeue_values now b) (\<lambda>d. d) d = Inr d1"
      using r(1) by (auto simp: transition_Inr transition_commit_Inr)
    from life_requeue[OF _ False this, of "(rid, r) # T" U s] r(1)
    have "life_step (U, (rid, r) # T, s, d) (U, T, s, d1)" by (simp add: outdated_def)
    moreover have "life_step (U, T, s, d1) (U, T, s, d')"
      unfolding t(2) by (rule life_other[OF step_notify]) auto
    ultimately show ?thesis using rd by (blast intro: rtranclp.rtrancl_into_rtrancl)
  qed
qed

text \<open>
  C6. Under any interleaving of the writers with calls of \<open>requeue\<close> that read the attempts in one
  statement and write in another, a run is dispatched at most \<open>max_attempts\<close> times (three), plus once
  for every requeue that wrote on a count some other claim had outdated since it was read; a queued run
  has one dispatch left. A call that read the budget as spent fails the run with its reason, whenever
  its write comes through, and queues nothing; a call that read it as not spent queues it without a lease.
\<close>

theorem attempts_bounded:
  assumes "life_steps ({}, [], \<lambda>_. 0, empty_db) (U, T, s, d)" and "get_run d rid = Some r"
  shows "rn_attempts r \<le> max_attempts run_states + s rid
    \<and> (rn_status r = QUEUED \<longrightarrow> rn_attempts r < max_attempts run_states + s rid)
    \<and> (\<forall>r0 lease reason b now again d'. (rid, r0) \<in> set T \<longrightarrow>
         requeue_write lease rid reason b now r0 d = Inr (again, d') \<longrightarrow>
         (\<exists>r'. get_run d' rid = Some r' \<and> rn_attempts r' = rn_attempts r
            \<and> (if rn_attempts r0 < max_attempts run_states
               then again \<and> rn_status r' = QUEUED \<and> rn_lease_id r' = None
               else \<not> again \<and> rn_status r' = FAILED \<and> rn_error_code r' = Some reason)))"
proof -
  have "within_budget s d" using life_steps_budget[OF assms(1)] by simp
  then have b: "rn_attempts r \<le> max_attempts run_states + s rid"
    "rn_status r = QUEUED \<longrightarrow> rn_attempts r < max_attempts run_states + s rid"
    using assms(2) unfolding within_budget_def by blast+
  show ?thesis
  proof (intro conjI allI impI)
    fix r0 lease reason b now again d'
    assume "requeue_write lease rid reason b now r0 d = Inr (again, d')"
    from requeue_write_Inr[OF this assms(2)]
    show "\<exists>r'. get_run d' rid = Some r' \<and> rn_attempts r' = rn_attempts r
            \<and> (if rn_attempts r0 < max_attempts run_states
               then again \<and> rn_status r' = QUEUED \<and> rn_lease_id r' = None
               else \<not> again \<and> rn_status r' = FAILED \<and> rn_error_code r' = Some reason)"
      by auto
  qed (use b in simp_all)
qed

section \<open>A run that loses its worker again and again\<close>

text \<open>A table with one run, ready to be claimed if it is queued.\<close>

definition lone :: "run_status \<Rightarrow> nat \<Rightarrow> db \<Rightarrow> bool" where
  "lone st n d \<longleftrightarrow> (\<exists>r. db_runs d = [(1, r)] \<and> rn_status r = st \<and> rn_attempts r = n
     \<and> (\<forall>t. rn_available_at r = Some t \<longrightarrow> t \<le> 0))"

lemma lone_claim:
  assumes "lone QUEUED n d" and "l \<notin> U"
  shows "\<exists>d'. life_step (U, T, s, d) (insert l U, T, s, d') \<and> lone DISPATCHED (n + 1) d'"
proof -
  from assms(1) obtain r where r: "db_runs d = [(1, r)]" "rn_status r = QUEUED" "rn_attempts r = n"
    "\<forall>t. rn_available_at r = Some t \<longrightarrow> t \<le> 0"
    unfolding lone_def by blast
  let ?r = "r\<lparr>rn_status := DISPATCHED, rn_dispatched_at := Some 0, rn_attempts := rn_attempts r + 1,
     rn_lease_id := Some l, rn_agent_id := None\<rparr>"
  have "claimable [] 0 (1, r)" using r by (simp add: claimable_def split: option.splits)
  then have c: "claim [] 0 l d = (Some (1, ?r), set_run 1 ?r d)" using r by (simp add: claim_def Let_def)
  have "life_step (U, T, s, d) (insert l U, T, s, set_run 1 ?r d)"
    using step_claim[OF assms(2) c] by (rule life_other) (auto split: if_splits)
  moreover have "db_runs (set_run 1 ?r d) = [(1, ?r)]" using r by (simp add: set_run_def)
  ultimately show ?thesis using r unfolding lone_def by (intro exI[of _ "set_run 1 ?r d"] conjI exI[of _ ?r]) auto
qed

lemma lone_read:
  assumes "lone st n d"
  shows "\<exists>r0. life_step (U, T, s, d) (U, (1, r0) # T, s, d) \<and> rn_attempts r0 = n"
  using assms by (auto simp: lone_def require_def intro!: life_read)

lemma lone_requeue:
  assumes "lone DISPATCHED n d" and "(1, r0) \<in> set T" and "rn_attempts r0 < 3"
  shows "\<exists>d'. life_step (U, T, s, d)
      (U, remove1 (1, r0) T, if rn_attempts r0 \<noteq> n then s(1 := s 1 + 1) else s, d') \<and> lone QUEUED n d'"
proof -
  from assms(1) obtain r where r: "db_runs d = [(1, r)]" "rn_status r = DISPATCHED" "rn_attempts r = n"
    unfolding lone_def by blast
  let ?r = "requeue_values 0 0 r\<lparr>rn_status := QUEUED\<rparr>"
  have "transition_commit None 1 DISPATCHED QUEUED (requeue_values 0 0) (\<lambda>d. d) d
      = Inr (notify (StatusNotify 1 QUEUED) (set_run 1 ?r d))" (is "_ = Inr ?d")
    using r by (simp add: transition_commit_Inr)
  from life_requeue[OF assms(2) _ _ this] assms(3)
  have "life_step (U, T, s, d) (U, remove1 (1, r0) T, if outdated 1 r0 d then s(1 := s 1 + 1) else s, ?d)"
    by (simp add: attempts_spent_def)
  moreover have "outdated 1 r0 d \<longleftrightarrow> rn_attempts r0 \<noteq> n" using r by (auto simp: outdated_def)
  moreover have "db_runs ?d = [(1, ?r)]" using r by (simp add: set_run_def notify_def)
  then have "lone QUEUED n ?d" using r unfolding lone_def by (auto simp: requeue_values_def)
  ultimately show ?thesis by auto
qed

text \<open>Claimed, given up by its worker and queued again.\<close>

lemma lone_cycle:
  assumes "lone QUEUED n d" and "l \<notin> U" and "n + 1 < 3"
  shows "\<exists>d'. life_steps (U, T, s, d) (insert l U, T, s, d') \<and> lone QUEUED (n + 1) d'"
proof -
  obtain d1 where d1: "life_step (U, T, s, d) (insert l U, T, s, d1)" "lone DISPATCHED (n + 1) d1"
    using lone_claim[OF assms(1,2)] by blast
  obtain r0 where r0: "life_step (insert l U, T, s, d1) (insert l U, (1, r0) # T, s, d1)" "rn_attempts r0 = n + 1"
    using lone_read[OF d1(2)] by blast
  obtain d2 where "life_step (insert l U, (1, r0) # T, s, d1) (insert l U, T, s, d2)" "lone QUEUED (n + 1) d2"
    using lone_requeue[OF d1(2), of r0 "(1, r0) # T"] r0(2) assms(3) by auto
  then show ?thesis using d1(1) r0(1) by (meson converse_rtranclp_into_rtranclp rtranclp.rtrancl_refl)
qed

lemma lone_start: "\<exists>d. life_steps ({}, [], \<lambda>_. 0, empty_db) ({}, [], \<lambda>_. 0, d) \<and> lone QUEUED 0 d"
proof -
  have c: "db_runs (create 1 demo_row empty_db) = [(1, demo_row)]"
    by (simp add: create_def empty_db_def set_run_def notify_def)
  have "run_step {} empty_db {} (create 1 demo_row empty_db)"
    unfolding demo_row_def by (rule step_create) (simp add: empty_db_def)
  then have "life_step ({}, [], \<lambda>_. 0, empty_db) ({}, [], \<lambda>_. 0, create 1 demo_row empty_db)"
    by (rule life_other) (simp add: empty_db_def)
  moreover have "lone QUEUED 0 (create 1 demo_row empty_db)"
    using c unfolding lone_def by (simp add: demo_row_def new_run_def)
  ultimately show ?thesis by blast
qed

lemma lone_second:
  "\<exists>d. life_steps ({}, [], \<lambda>_. 0, empty_db) ({2, 1}, [], \<lambda>_. 0, d) \<and> lone DISPATCHED 2 d"
proof -
  obtain d0 where d0: "life_steps ({}, [], \<lambda>_. 0, empty_db) ({}, [], \<lambda>_. 0, d0)" "lone QUEUED 0 d0"
    using lone_start by blast
  obtain d1 where d1: "life_steps ({}, [], \<lambda>_. 0, d0) ({1}, [], \<lambda>_. 0, d1)" "lone QUEUED 1 d1"
    using lone_cycle[OF d0(2), of 1 "{}"] by auto
  obtain d2 where d2: "life_step ({1}, [], \<lambda>_. 0, d1) ({2, 1}, [], \<lambda>_. 0, d2)" "lone DISPATCHED 2 d2"
    using lone_claim[OF d1(2), of 2 "{1}"] by (auto simp: numeral_2_eq_2)
  show ?thesis using d0(1) d1(1) d2 by (meson rtranclp.rtrancl_into_rtrancl rtranclp_trans)
qed

lemma lone_spent:
  "\<exists>U T d r0. life_steps ({}, [], \<lambda>_. 0, empty_db) (U, T, \<lambda>_. 0, d) \<and> lone DISPATCHED 3 d
     \<and> (1, r0) \<in> set T \<and> rn_attempts r0 = 3"
proof -
  obtain d2 where d2: "life_steps ({}, [], \<lambda>_. 0, empty_db) ({2, 1}, [], \<lambda>_. 0, d2)" "lone DISPATCHED 2 d2"
    using lone_second by blast
  obtain r0 where r0: "life_step ({2, 1}, [], \<lambda>_. 0, d2) ({2, 1}, [(1, r0)], \<lambda>_. 0, d2)" "rn_attempts r0 = 2"
    using lone_read[OF d2(2)] by blast
  obtain d3 where d3: "life_step ({2, 1}, [(1, r0)], \<lambda>_. 0, d2) ({2, 1}, [], \<lambda>_. 0, d3)" "lone QUEUED 2 d3"
    using lone_requeue[OF d2(2), of r0 "[(1, r0)]"] r0(2) by auto
  obtain d4 where d4: "life_step ({2, 1}, [], \<lambda>_. 0, d3) ({3, 2, 1}, [], \<lambda>_. 0, d4)" "lone DISPATCHED 3 d4"
    using lone_claim[OF d3(2), of 3 "{2, 1}"] by auto
  obtain r1 where r1: "life_step ({3, 2, 1}, [], \<lambda>_. 0, d4) ({3, 2, 1}, [(1, r1)], \<lambda>_. 0, d4)" "rn_attempts r1 = 3"
    using lone_read[OF d4(2)] by blast
  have "life_steps ({}, [], \<lambda>_. 0, empty_db) ({3, 2, 1}, [(1, r1)], \<lambda>_. 0, d4)"
    using d2(1) r0(1) d3(1) d4(1) r1(1) by (meson rtranclp.rtrancl_into_rtrancl)
  then show ?thesis using d4(2) r1(2) by (intro exI conjI) auto
qed

theorem attempts_bounded_witness:
  "\<exists>U T d r0 d' r'. life_steps ({}, [], \<lambda>_. 0, empty_db) (U, T, \<lambda>_. 0, d) \<and> (1, r0) \<in> set T
     \<and> requeue_write None 1 AGENT_HEARTBEAT_LOST 0 0 r0 d = Inr (False, d')
     \<and> get_run d' 1 = Some r' \<and> rn_status r' = FAILED \<and> rn_attempts r' = 3 \<and> rn_error_code r' = Some AGENT_HEARTBEAT_LOST"
proof -
  obtain U T d r0 where s: "life_steps ({}, [], \<lambda>_. 0, empty_db) (U, T, \<lambda>_. 0, d)" "lone DISPATCHED 3 d"
    "(1, r0) \<in> set T" "rn_attempts r0 = 3"
    using lone_spent by blast
  then obtain r where r: "get_run d 1 = Some r" "rn_status r = DISPATCHED" "rn_attempts r = 3"
    by (auto simp: lone_def)
  have "\<exists>d'. finish None 1 (give_up_args AGENT_HEARTBEAT_LOST r0) 0 d = Inr d'"
    using r by (auto simp: finish_def give_up_args_def transition_Inr)
  then obtain d' where d': "requeue_write None 1 AGENT_HEARTBEAT_LOST 0 0 r0 d = Inr (False, d')"
    using s(4) by (auto simp: requeue_write_def attempts_spent_def)
  obtain r' where "get_run d' 1 = Some r'" "rn_attempts r' = rn_attempts r" "rn_status r' = FAILED"
    "rn_error_code r' = Some AGENT_HEARTBEAT_LOST"
    using attempts_bounded[OF s(1) r(1)] s(3,4) d' by force
  then show ?thesis using s d' r(3) by (intro exI[of _ U] exI[of _ T] exI[of _ d] exI[of _ r0] exI[of _ d'] exI[of _ r']) simp
qed

text \<open>
  The extra dispatch is real: two calls read the count of the second dispatch, the first queues the run
  again, it is claimed for the third time, and the second call queues it once more.
\<close>

lemma fourth_dispatch_reachable:
  "\<exists>U T d. life_steps ({}, [], \<lambda>_. 0, empty_db) (U, T, (\<lambda>_. 0)(1 := 1), d) \<and> lone DISPATCHED 4 d"
proof -
  obtain d2 where d2: "life_steps ({}, [], \<lambda>_. 0, empty_db) ({2, 1}, [], \<lambda>_. 0, d2)" "lone DISPATCHED 2 d2"
    using lone_second by blast
  obtain r0 where r0: "life_step ({2, 1}, [], \<lambda>_. 0, d2) ({2, 1}, [(1, r0)], \<lambda>_. 0, d2)" "rn_attempts r0 = 2"
    using lone_read[OF d2(2)] by blast
  obtain r1 where r1: "life_step ({2, 1}, [(1, r0)], \<lambda>_. 0, d2) ({2, 1}, [(1, r1), (1, r0)], \<lambda>_. 0, d2)" "rn_attempts r1 = 2"
    using lone_read[OF d2(2)] by blast
  obtain d3 where d3: "life_step ({2, 1}, [(1, r1), (1, r0)], \<lambda>_. 0, d2) ({2, 1}, [(1, r0)], \<lambda>_. 0, d3)" "lone QUEUED 2 d3"
    using lone_requeue[OF d2(2), of r1 "[(1, r1), (1, r0)]"] r1(2) by auto
  obtain d4 where d4: "life_step ({2, 1}, [(1, r0)], \<lambda>_. 0, d3) ({3, 2, 1}, [(1, r0)], \<lambda>_. 0, d4)" "lone DISPATCHED 3 d4"
    using lone_claim[OF d3(2), of 3 "{2, 1}"] by auto
  obtain d5 where d5: "life_step ({3, 2, 1}, [(1, r0)], \<lambda>_. 0, d4) ({3, 2, 1}, [], (\<lambda>_. 0)(1 := 1), d5)" "lone QUEUED 3 d5"
    using lone_requeue[OF d4(2), of r0 "[(1, r0)]" _ "\<lambda>_. 0"] r0(2) by auto
  obtain d6 where d6: "life_step ({3, 2, 1}, [], (\<lambda>_. 0)(1 := 1), d5) ({4, 3, 2, 1}, [], (\<lambda>_. 0)(1 := 1), d6)" "lone DISPATCHED 4 d6"
    using lone_claim[OF d5(2), of 4 "{3, 2, 1}"] by auto
  have "life_steps ({}, [], \<lambda>_. 0, empty_db) ({4, 3, 2, 1}, [], (\<lambda>_. 0)(1 := 1), d6)"
    using d2(1) r0(1) r1(1) d3(1) d4(1) d5(1) d6(1) by (meson rtranclp.rtrancl_into_rtrancl)
  then show ?thesis using d6(2) by blast
qed

section \<open>Redaction at the boundary\<close>

text \<open>
  C7. Whatever message, payload or error detail a node passes to \<open>emit\<close>, the one row it adds to the
  timeline shows the message cut into pieces rule by rule: what a rule matches, and its checksum accepts,
  is replaced by the label of the rule, and a rule matches nowhere in what is kept. The payload is treated
  so at any depth, and under a sensitive key there is only the marker. A lost lease adds no row. The two
  closing rows of \<open>finish\<close> are written beside \<open>emit\<close>, without redaction.
\<close>

theorem emit_redacts:
  "case emit w t m l a d of
     Inr (n, d') \<Rightarrow> (\<exists>e. db_events d' = db_events d @ [e] \<and> event_redacted m a e
        \<and> ev_run_id e = wr_run_id w \<and> ev_seq e = n \<and> ev_message e = redact_text m)
   | Inl err \<Rightarrow> err = LeaseLost (wr_run_id w)"
proof (cases "emit w t m l a d")
  case (Inl err)
  then show ?thesis by (auto simp: emit_def emit_event_def Let_def split: option.splits if_splits)
next
  case (Inr x)
  then obtain n d' where "emit w t m l a d = Inr (n, d')" by (cases x) auto
  from emit_Inr[OF this] this show ?thesis
    using new_event_redacted[where w = w and t = t and m = m and l = l and a = a] by (simp add: new_event_def)
qed

definition demo_writer :: event_writer where
  "demo_writer = \<lparr>wr_run_id = 1, wr_node = lit ''agent'', wr_iteration = None, wr_span_id = None,
     wr_parent_span_id = None, wr_lease_id = Some 8\<rparr>"

text \<open>An address as the message.\<close>

lemma address_alone: "\<forall>r\<in>set (butlast REDACT_RULES). \<not> found (rr_pattern r) [49, 46, 50, 46, 51, 46, 52]"
  by (simp add: REDACT_RULES_def plain_rule_def checked_rule_def rx_eval google_key_rx_def google_aq_rx_def langfuse_rx_def
      openai_rx_def tavily_rx_def brave_rx_def bearer_rx_def database_url_rx_def iban_rx_def card_rx_def tckn_rx_def
      email_rx_def phone_rx_def)

lemma address_labelled: "apply_rule (plain_rule ''IP_ADDRESS'' ip_rx) [49, 46, 50, 46, 51, 46, 52] = lit ''<IP_ADDRESS>''"
  by (simp add: apply_rule_def plain_rule_def sub_def ip_rx_def rx_eval placeholder_def)

lemma redact_address: "redact_text (lit ''1.2.3.4'') = lit ''<IP_ADDRESS>''"
proof -
  have t: "lit ''1.2.3.4'' = [49, 46, 50, 46, 51, 46, 52]" by simp
  have r: "REDACT_RULES = butlast REDACT_RULES @ [plain_rule ''IP_ADDRESS'' ip_rx]" by (simp add: REDACT_RULES_def)
  have "redact_text s = apply_rule (plain_rule ''IP_ADDRESS'' ip_rx) (fold apply_rule (butlast REDACT_RULES) s)" for s
    unfolding redact_text_def by (subst r) (simp only: fold_append fold_simps comp_apply)
  then show ?thesis unfolding t using fold_apply_rule_no_hit[OF address_alone] address_labelled by simp
qed

theorem emit_redacts_witness:
  "\<exists>n d'. emit demo_writer (lit ''note'') (lit ''1.2.3.4'') INFO no_args (demo_db RUNNING (Some 8)) = Inr (n, d')
     \<and> map ev_message (db_events d') = [lit ''<IP_ADDRESS>'']"
proof -
  let ?e = "emit demo_writer (lit ''note'') (lit ''1.2.3.4'') INFO no_args (demo_db RUNNING (Some 8))"
  obtain n d' where e: "?e = Inr (n, d')"
    by (auto simp: emit_def emit_event_def demo_writer_def Let_def split: option.splits)
  have "db_events (demo_db RUNNING (Some 8)) = []" by (simp add: demo_db_def empty_db_def)
  moreover have r: "redact_text [49, 46, 50, 46, 51, 46, 52] = lit ''<IP_ADDRESS>''" using redact_address by simp
  ultimately show ?thesis using emit_redacts[where w = demo_writer and t = "lit ''note''" and m = "lit ''1.2.3.4''" and l = INFO and a = no_args and d = "demo_db RUNNING (Some 8)"] e
    by (auto simp: redact_address)
qed

end
