(* ===== verification/Executor.thy ===== *)
theory Executor
  imports RunOps
begin

text \<open>
  \<open>agent_server/executor.py\<close>: one replica, its slots, and the life of one attempt from the accepted
  dispatch to the terminal write. The graph runner is an argument: whatever it does to the database,
  the heartbeats and other writers meanwhile included, is its effect here, and what ends it is a
  value (\<open>Inl\<close> an exception). Validation of the configuration snapshot and decryption of the keys
  are arguments too.
\<close>

section \<open>Errors\<close>

text \<open>\<open>str(uuid)\<close>: 32 hexadecimal digits in groups of 8, 4, 4, 4 and 12.\<close>

definition hex_digit :: "nat \<Rightarrow> nat" where
  "hex_digit k = (if k < 10 then 48 + k else 87 + k)"

primrec hex :: "nat \<Rightarrow> nat \<Rightarrow> str" where
  "hex 0 n = []"
| "hex (Suc w) n = hex w (n div 16) @ [hex_digit (n mod 16)]"

definition uuid_str :: "uuid \<Rightarrow> str" where
  "uuid_str u =
     (let h = hex 32 u
      in take 8 h @ [45] @ take 4 (drop 8 h) @ [45] @ take 4 (drop 12 h) @ [45]
           @ take 4 (drop 16 h) @ [45] @ drop 20 h)"

definition mk_error :: "error_code \<Rightarrow> str \<Rightarrow> str \<Rightarrow> str option \<Rightarrow> agent_error" where
  "mk_error code node decision outcome =
     \<lparr>ae_code = code, ae_node = node, ae_decision = decision, ae_outcome = outcome,
      ae_run_id = None, ae_span_id = None, ae_iteration = None, ae_provider = None,
      ae_attempt = None, ae_cause = None\<rparr>"

text \<open>The error a repository exception carries; an unknown counter is a plain \<open>ValueError\<close>.\<close>

fun repo_agent_error :: "repo_error \<Rightarrow> agent_error option" where
  "repo_agent_error (IllegalTransition rid source target) =
     Some (mk_error UNEXPECTED_EXCEPTION (lit ''repository'') (lit ''refuse the write'')
       (Some (status_value source @ (lit '' -> '') @ status_value target
          @ (lit '' is not allowed by the run state machine'')))\<lparr>ae_run_id := Some (uuid_str rid)\<rparr>)"
| "repo_agent_error (RunNotFound rid) =
     Some (mk_error UNEXPECTED_EXCEPTION (lit ''repository'') (lit ''refuse the write'')
       (Some ((lit ''run does not exist'')))\<lparr>ae_run_id := Some (uuid_str rid)\<rparr>)"
| "repo_agent_error (LeaseLost rid) =
     Some (mk_error RUN_LEASE_LOST (lit ''ownership'') (lit ''stop the stale attempt without publishing state'')
       None\<lparr>ae_run_id := Some (uuid_str rid)\<rparr>)"
| "repo_agent_error UnknownRunCounter = None"

text \<open>What can end the work of an attempt: the exceptions \<open>_execute\<close> tells apart.\<close>

datatype run_exception =
  Raised_repo repo_error
| Task_cancelled
| Timed_out
| Cancelled_by_request
| Agent_exception agent_error
| Other_exception str str str

section \<open>The replica\<close>

record run_outcome =
  ro_status :: run_status
  ro_stop_reason :: "str option"
  ro_gate_status :: "str option"
  ro_error_code :: "error_code option"
  ro_error_message :: "str option"
  ro_artifacts :: "(str, str \<times> str) dict"
  ro_metrics :: "(str, real) dict"

definition plain_outcome :: "run_status \<Rightarrow> run_outcome" where
  "plain_outcome status = \<lparr>ro_status = status, ro_stop_reason = None, ro_gate_status = None,
     ro_error_code = None, ro_error_message = None, ro_artifacts = [], ro_metrics = []\<rparr>"

record executor =
  ex_agent_id :: str
  ex_slots :: nat
  ex_tasks :: "uuid list"
  ex_draining :: bool

definition slots_used :: "executor \<Rightarrow> nat" where
  "slots_used x = length (ex_tasks x)"

definition slots_free :: "executor \<Rightarrow> nat" where
  "slots_free x = (if ex_draining x then 0 else ex_slots x - length (ex_tasks x))"

definition health :: "str \<Rightarrow> executor \<Rightarrow> (str, str) dict" where
  "health release x =
     [((lit ''status''), if ex_draining x then (lit ''draining'') else (lit ''ok'')),
      ((lit ''agent_id''), ex_agent_id x), ((lit ''version''), release)]"

definition capacity :: "executor \<Rightarrow> (str, json) dict" where
  "capacity x =
     [((lit ''agent_id''), JStr (ex_agent_id x)), ((lit ''slots_total''), JNum (real (ex_slots x))),
      ((lit ''slots_used''), JNum (real (slots_used x))), ((lit ''slots_free''), JNum (real (slots_free x))),
      ((lit ''running_run_ids''), JList (map (\<lambda>r. JStr (uuid_str r)) (ex_tasks x)))]"

definition begin_draining :: "executor \<Rightarrow> executor" where
  "begin_draining x = x\<lparr>ex_draining := True\<rparr>"

text \<open>The done-callback of a task.\<close>

definition task_done :: "uuid \<Rightarrow> executor \<Rightarrow> executor" where
  "task_done rid x = x\<lparr>ex_tasks := filter (\<lambda>r. r \<noteq> rid) (ex_tasks x)\<rparr>"

datatype accept_error = Already_executing uuid | No_capacity uuid | Refused repo_error

text \<open>\<open>execute\<close>: accept a dispatch under the lock, or refuse it.\<close>

definition accept ::
  "uuid \<Rightarrow> nat \<Rightarrow> uuid \<Rightarrow> time \<Rightarrow> executor \<times> db \<Rightarrow> accept_error + executor \<times> db" where
  "accept rid attempt lease now s =
     (case s of (x, d) \<Rightarrow>
        if rid \<in> set (ex_tasks x) then Inl (Already_executing rid)
        else if slots_free x = 0 then Inl (No_capacity rid)
        else (case require rid d of
                Inl e \<Rightarrow> Inl (Refused e)
              | Inr r \<Rightarrow>
                  if rn_attempts r \<noteq> attempt \<or> rn_lease_id r \<noteq> Some lease
                  then Inl (Refused (LeaseLost rid))
                  else (case mark_running (Some lease) rid (ex_agent_id x) (rn_deadline_at r) now d of
                          Inl e \<Rightarrow> Inl (Refused e)
                        | Inr d' \<Rightarrow> Inr (x\<lparr>ex_tasks := ex_tasks x @ [rid]\<rparr>, d'))))"

definition cancel :: "uuid \<Rightarrow> executor \<times> db \<Rightarrow> bool \<times> db" where
  "cancel rid s = (case s of (x, d) \<Rightarrow> (rid \<in> set (ex_tasks x), request_cancel rid d))"

section \<open>One attempt\<close>

record ('s, 'k) run_context =
  rc_run_id :: uuid
  rc_question :: str
  rc_settings :: 's
  rc_keys :: 'k
  rc_events :: event_writer
  rc_attempt :: nat
  rc_lease_id :: uuid
  rc_deadline_at :: "time option"

definition build_context ::
  "(json \<Rightarrow> run_exception + 's) \<Rightarrow> ((str, str) dict \<Rightarrow> 'k) \<Rightarrow> uuid \<Rightarrow> nat \<Rightarrow> event_writer \<Rightarrow> uuid \<Rightarrow> db
     \<Rightarrow> run_exception + ('s, 'k) run_context" where
  "build_context validate decrypt rid attempt events lease d =
     (case require rid d of
        Inl e \<Rightarrow> Inl (Raised_repo e)
      | Inr r \<Rightarrow> rbind (validate (rn_config_snapshot r)) (\<lambda>settings.
          Inr \<lparr>rc_run_id = rid, rc_question = rn_question_masked r, rc_settings = settings,
               rc_keys = decrypt (load_ciphertexts rid d), rc_events = events, rc_attempt = attempt,
               rc_lease_id = lease, rc_deadline_at = rn_deadline_at r\<rparr>))"

text \<open>\<open>is_cancelled\<close> of the context, and the check at a node boundary.\<close>

definition checkpoint :: "('s, 'k) run_context \<Rightarrow> db \<Rightarrow> run_exception + unit" where
  "checkpoint c d =
     (case cancel_requested (Some (rc_lease_id c)) (rc_run_id c) d of
        Inl e \<Rightarrow> Inl (Raised_repo e)
      | Inr b \<Rightarrow> if b then Inl Cancelled_by_request else Inr ())"

definition run_writer :: "uuid \<Rightarrow> str \<Rightarrow> uuid \<Rightarrow> event_writer" where
  "run_writer rid span_id lease =
     \<lparr>wr_run_id = rid, wr_node = (lit ''agent''), wr_iteration = None, wr_span_id = Some span_id,
      wr_parent_span_id = None, wr_lease_id = Some lease\<rparr>"

definition run_started_message :: "nat \<Rightarrow> str" where
  "run_started_message attempt =
     (if 1 < attempt then (lit ''Resuming run from checkpoint (attempt '') @ dec attempt @ (lit '').'')
      else (lit ''Run started.''))"

definition run_started_args :: "nat \<Rightarrow> str \<Rightarrow> str option \<Rightarrow> emit_args" where
  "run_started_args attempt agent_id dispatcher = no_args\<lparr>em_label := Some ((lit ''Agent'')),
     em_data := [((lit ''attempt''), JNum (real attempt)), ((lit ''agent_id''), JStr agent_id),
                 ((lit ''dispatcher''), opt_json dispatcher)]\<rparr>"

text \<open>\<open>exc.error.outcome or exc.error.decision\<close>\<close>

definition outcome_or_decision :: "agent_error \<Rightarrow> str" where
  "outcome_or_decision e =
     (case ae_outcome e of None \<Rightarrow> ae_decision e | Some t \<Rightarrow> if t = [] then ae_decision e else t)"

definition failed_with :: "error_code \<Rightarrow> str option \<Rightarrow> run_outcome" where
  "failed_with code message =
     plain_outcome FAILED\<lparr>ro_error_code := Some code, ro_error_message := message\<rparr>"

definition unexpected_error :: "event_writer \<Rightarrow> str \<Rightarrow> str \<Rightarrow> str \<Rightarrow> agent_error" where
  "unexpected_error w type_name message trace =
     mk_error UNEXPECTED_EXCEPTION (lit ''agent'') (lit ''fail the run'') (Some (type_name @ (lit '': '') @ message))
       \<lparr>ae_run_id := Some (uuid_str (wr_run_id w)), ae_span_id := wr_span_id w,
        ae_cause := Some (redact_text trace)\<rparr>"

text \<open>
  The \<open>except\<close> clauses: the outcome to settle with, or \<open>None\<close> when the attempt ends without one,
  because its ownership was revoked or writing the event about the failure showed that it was.
\<close>

definition report_failure :: "event_writer \<Rightarrow> agent_error \<Rightarrow> run_outcome \<Rightarrow> db \<Rightarrow> run_outcome option \<times> db" where
  "report_failure w e outcome d =
     (case emit_error w e no_args d of Inl _ \<Rightarrow> (None, d) | Inr (_, d') \<Rightarrow> (Some outcome, d'))"

fun conclude :: "event_writer \<Rightarrow> run_exception + run_outcome \<Rightarrow> db \<Rightarrow> run_outcome option \<times> db" where
  "conclude w (Inr outcome) d = (Some outcome, d)"
| "conclude w (Inl (Raised_repo e)) d =
     (case e of
        LeaseLost _ \<Rightarrow> (None, d)
      | _ \<Rightarrow> (case repo_agent_error e of
               Some a \<Rightarrow> report_failure w a (failed_with (ae_code a) (Some (outcome_or_decision a))) d
             | None \<Rightarrow> (let a = unexpected_error w (lit ''ValueError'') (lit ''unknown run counter'') []
                        in report_failure w a (failed_with (ae_code a) (ae_outcome a)) d)))"
| "conclude w (Inl Task_cancelled) d = (None, d)"
| "conclude w (Inl Timed_out) d =
     (Some (failed_with DEADLINE_EXCEEDED (Some ((lit ''The run exceeded its stored hard deadline.'')))), d)"
| "conclude w (Inl Cancelled_by_request) d =
     (case emit w (lit ''run_cancelled'') (lit ''Run cancelled at a node boundary.'') WARN no_args d of
        Inl _ \<Rightarrow> (None, d)
      | Inr (_, d') \<Rightarrow> (Some (plain_outcome CANCELLED\<lparr>ro_stop_reason := Some ((lit ''cancelled''))\<rparr>), d'))"
| "conclude w (Inl (Agent_exception a)) d =
     report_failure w a (failed_with (ae_code a) (Some (outcome_or_decision a))) d"
| "conclude w (Inl (Other_exception type_name message trace)) d =
     (let a = unexpected_error w type_name message trace
      in report_failure w a (failed_with (ae_code a) (ae_outcome a)) d)"

definition settle_args :: "run_outcome \<Rightarrow> finish_args" where
  "settle_args o' = \<lparr>fi_status = ro_status o', fi_stop_reason = ro_stop_reason o',
     fi_gate_status = ro_gate_status o', fi_error_code = ro_error_code o',
     fi_error_message = ro_error_message o', fi_artifacts = ro_artifacts o',
     fi_metrics = ro_metrics o', fi_emit_finished = True\<rparr>"

text \<open>\<open>_settle\<close>: every exception of the terminal write is logged and swallowed.\<close>

definition settle :: "uuid \<Rightarrow> uuid \<Rightarrow> run_outcome \<Rightarrow> time \<Rightarrow> db \<Rightarrow> db" where
  "settle rid lease o' now d =
     (case finish (Some lease) rid (settle_args o') now d of Inl _ \<Rightarrow> d | Inr d' \<Rightarrow> d')"

definition wind_down :: "event_writer \<Rightarrow> uuid \<Rightarrow> run_exception + run_outcome \<Rightarrow> time \<Rightarrow> db \<Rightarrow> db" where
  "wind_down w lease result now d =
     (case conclude w result d of
        (None, d') \<Rightarrow> d'
      | (Some o', d') \<Rightarrow> settle (wr_run_id w) lease o' now d')"

definition execute_attempt ::
  "(json \<Rightarrow> run_exception + 's) \<Rightarrow> ((str, str) dict \<Rightarrow> 'k)
     \<Rightarrow> (('s, 'k) run_context \<Rightarrow> real option \<Rightarrow> db \<Rightarrow> (run_exception + run_outcome) \<times> db)
     \<Rightarrow> executor \<Rightarrow> uuid \<Rightarrow> nat \<Rightarrow> uuid \<Rightarrow> str option \<Rightarrow> str \<Rightarrow> time \<Rightarrow> time \<Rightarrow> db \<Rightarrow> db" where
  "execute_attempt validate decrypt runner x rid attempt lease dispatcher span_id now finished d =
     (let w = run_writer rid span_id lease
      in case (case build_context validate decrypt rid attempt w lease d of
                 Inl e \<Rightarrow> (Inl e, d)
               | Inr c \<Rightarrow>
                   (case emit w (lit ''run_started'') (run_started_message attempt) INFO
                           (run_started_args attempt (ex_agent_id x) dispatcher) d of
                      Inl e \<Rightarrow> (Inl (Raised_repo e), d)
                    | Inr (_, d') \<Rightarrow> runner c (map_option (\<lambda>t. t - now) (rc_deadline_at c)) d'))
         of (result, d') \<Rightarrow> wind_down w lease result finished d')"

text \<open>One beat: a lost lease cancels the owner (\<open>True\<close>); any other failure is logged.\<close>

definition heartbeat_tick :: "uuid \<Rightarrow> uuid \<Rightarrow> time \<Rightarrow> db \<Rightarrow> bool \<times> db" where
  "heartbeat_tick rid lease now d =
     (case heartbeat (Some lease) rid now d of
        Inr d' \<Rightarrow> (False, d')
      | Inl (LeaseLost _) \<Rightarrow> (True, d)
      | Inl _ \<Rightarrow> (False, d))"

end
