(* ===== verification/ExecutorProps.thy ===== *)
theory ExecutorProps
  imports Executor
begin

text \<open>
  Properties of the executor: what a dispatch does when it is accepted or refused, the slots of a
  replica, and the end of an attempt. The writes a worker makes while it runs share one contract, the
  locale \<open>fenced_write\<close>: they succeed only under the lease, keep it, and touch no other run.
\<close>

section \<open>Lease-fenced writes\<close>

text \<open>A worker's script: its writes in order, up to the first that is refused.\<close>

fun run_script :: "(uuid \<Rightarrow> uuid \<Rightarrow> 'a \<Rightarrow> db \<Rightarrow> repo_error + db) \<Rightarrow> uuid \<Rightarrow> uuid \<Rightarrow> 'a list \<Rightarrow> db \<Rightarrow> repo_error + db" where
  "run_script perform lease rid [] d = Inr d"
| "run_script perform lease rid (a # acts) d =
     rbind (perform lease rid a d) (run_script perform lease rid acts)"

locale fenced_write =
  fixes perform :: "uuid \<Rightarrow> uuid \<Rightarrow> 'a \<Rightarrow> db \<Rightarrow> repo_error + db"
  assumes fenced: "get_run d rid = Some r \<Longrightarrow> \<not> owned (Some lease) r \<Longrightarrow> \<exists>e. perform lease rid a d = Inl e"
    and keeps: "perform lease rid a d = Inr d' \<Longrightarrow> get_run d rid = Some r \<Longrightarrow>
      \<exists>r'. get_run d' rid = Some r' \<and> owned (Some lease) r' \<and> rn_attempts r' = rn_attempts r"
    and others: "perform lease rid a d = Inr d' \<Longrightarrow> rid' \<noteq> rid \<Longrightarrow> get_run d' rid' = get_run d rid'"
begin

lemma script_keeps:
  "run_script perform lease rid acts d = Inr d' \<Longrightarrow> get_run d rid = Some r \<Longrightarrow> owned (Some lease) r \<Longrightarrow>
     \<exists>r'. get_run d' rid = Some r' \<and> owned (Some lease) r' \<and> rn_attempts r' = rn_attempts r"
proof (induction acts arbitrary: d r)
  case (Cons a acts)
  then obtain d1 where d1: "perform lease rid a d = Inr d1" "run_script perform lease rid acts d1 = Inr d'"
    by (auto simp: rbind_Inr_iff)
  from keeps[OF d1(1) Cons.prems(2)] obtain r1 where
    "get_run d1 rid = Some r1" "owned (Some lease) r1" "rn_attempts r1 = rn_attempts r" by blast
  with Cons.IH[OF d1(2)] show ?case by fastforce
qed auto

lemma script_others:
  "run_script perform lease rid acts d = Inr d' \<Longrightarrow> rid' \<noteq> rid \<Longrightarrow> get_run d' rid' = get_run d rid'"
proof (induction acts arbitrary: d)
  case (Cons a acts)
  then obtain d1 where "perform lease rid a d = Inr d1" "run_script perform lease rid acts d1 = Inr d'"
    by (auto simp: rbind_Inr_iff)
  then show ?case using Cons.IH others Cons.prems(2) by metis
qed simp

lemma script_fenced:
  "get_run d rid = Some r \<Longrightarrow> \<not> owned (Some lease) r \<Longrightarrow> acts \<noteq> [] \<Longrightarrow> \<exists>e. run_script perform lease rid acts d = Inl e"
  using fenced[of d rid r lease] by (cases acts) (auto simp: rbind_Inl_iff)

end

text \<open>
  The writes of a running attempt: the heartbeat, the counters after each node, the metadata the graph
  runner stores, and the events of its writer.
\<close>

datatype worker_write =
  Beat time
| Counters real real real real real
| Prompt_versions json
| Trace_url str
| Models_used json "str list"
| Event event_row

fun worker_perform :: "uuid \<Rightarrow> uuid \<Rightarrow> worker_write \<Rightarrow> db \<Rightarrow> repo_error + db" where
  "worker_perform lease rid (Beat now) d = heartbeat (Some lease) rid now d"
| "worker_perform lease rid (Counters i s ti to c) d =
     update_counters (Some lease) rid (Some i) (Some s) (Some ti) (Some to) (Some c) d"
| "worker_perform lease rid (Prompt_versions j) d = update_metadata (Some lease) rid (Some j) None None None d"
| "worker_perform lease rid (Trace_url u) d = update_metadata (Some lease) rid None None None (Some u) d"
| "worker_perform lease rid (Models_used j skills) d =
     update_metadata (Some lease) rid None (Some j) (Some skills) None d"
| "worker_perform lease rid (Event e) d = rbind (emit_event (Some lease) rid e d) (\<lambda>(n, d'). Inr d')"

lemma owned_data: "rn_lease_id r' = rn_lease_id r \<Longrightarrow> rn_status r' = rn_status r \<Longrightarrow> owned l r' = owned l r"
  by (cases l) auto

lemma write_owned_others: "write_owned l rid f d = Inr d' \<Longrightarrow> rid' \<noteq> rid \<Longrightarrow> get_run d' rid' = get_run d rid'"
  by (auto simp: write_owned_Inr split: option.splits)

interpretation worker: fenced_write worker_perform
proof
  fix d rid r lease a
  assume "get_run d rid = Some r" "\<not> owned (Some lease) r"
  then show "\<exists>e. worker_perform lease rid a d = Inl e"
    by (cases a) (simp_all add: heartbeat_def update_counters_def update_metadata_def write_owned_def emit_event_def)
next
  fix lease rid a d d' r
  assume "worker_perform lease rid a d = Inr d'" "get_run d rid = Some r"
  then show "\<exists>r'. get_run d' rid = Some r' \<and> owned (Some lease) r' \<and> rn_attempts r' = rn_attempts r"
    by (cases a)
      (auto simp: heartbeat_def update_counters_def update_metadata_def opt_set_def rbind_Inr_iff emit_event_Inr
        write_owned_Inr)
next
  fix lease rid a d d' rid'
  assume "worker_perform lease rid a d = Inr d'" "rid' \<noteq> rid"
  then show "get_run d' rid' = get_run d rid'"
    by (cases a)
      (auto simp: heartbeat_def update_counters_def update_metadata_def rbind_Inr_iff emit_event_Inr
        dest: write_owned_others)
qed

section \<open>Accepting a dispatch\<close>

text \<open>
  A dispatch is accepted only by a replica that is not draining, has a free slot and does not
  run it already, for the attempt and the lease the row carries. Then the run is running, owned by
  this replica under the same lease, its deadline is the stored one, and the replica runs one more
  task. The dispatch is refused, with nothing written, in every other case.
\<close>

theorem accept_takes_ownership:
  "case accept rid attempt lease now (x, d) of
     Inl e \<Rightarrow> rid \<in> set (ex_tasks x) \<or> ex_draining x \<or> ex_slots x \<le> length (ex_tasks x)
       \<or> get_run d rid = None
       \<or> (\<exists>r. get_run d rid = Some r \<and> (rn_attempts r \<noteq> attempt \<or> rn_lease_id r \<noteq> Some lease
              \<or> \<not> allowed (rn_status r) RUNNING))
   | Inr (x', d') \<Rightarrow> rid \<notin> set (ex_tasks x) \<and> \<not> ex_draining x \<and> length (ex_tasks x) < ex_slots x
       \<and> x' = x\<lparr>ex_tasks := ex_tasks x @ [rid]\<rparr>
       \<and> (\<exists>r r'. get_run d rid = Some r \<and> rn_attempts r = attempt \<and> rn_lease_id r = Some lease
            \<and> allowed (rn_status r) RUNNING
            \<and> get_run d' rid = Some r' \<and> owned (Some lease) r' \<and> rn_agent_id r' = Some (ex_agent_id x)
            \<and> rn_attempts r' = attempt \<and> rn_deadline_at r' = rn_deadline_at r
            \<and> (\<forall>rid'. rid' \<noteq> rid \<longrightarrow> get_run d' rid' = get_run d rid'))"
proof (cases "accept rid attempt lease now (x, d)")
  case (Inl e)
  then show ?thesis
    by (auto simp: accept_def slots_free_def require_def mark_running_def transition_def transition_check_def
        transition_commit_def split: if_splits option.splits sum.splits)
next
  case (Inr s)
  obtain x' d' where s: "s = (x', d')" by (cases s)
  have "rid \<notin> set (ex_tasks x)" "\<not> ex_draining x" "length (ex_tasks x) < ex_slots x"
    "x' = x\<lparr>ex_tasks := ex_tasks x @ [rid]\<rparr>"
    using Inr s by (auto simp: accept_def slots_free_def split: if_splits sum.splits)
  moreover obtain r where r: "get_run d rid = Some r" "rn_attempts r = attempt" "rn_lease_id r = Some lease"
    and m: "mark_running (Some lease) rid (ex_agent_id x) (rn_deadline_at r) now d = Inr d'"
    using Inr s by (auto simp: accept_def require_def split: if_splits option.splits sum.splits)
  moreover have "allowed (rn_status r) RUNNING"
    and "d' = notify (StatusNotify rid RUNNING)
       (set_run rid ((running_values (ex_agent_id x) (rn_deadline_at r) now r)\<lparr>rn_status := RUNNING\<rparr>) d)"
    using m r by (auto simp: mark_running_def transition_Inr)
  moreover have "rn_agent_id (running_values (ex_agent_id x) (rn_deadline_at r) now r) = Some (ex_agent_id x)"
    "rn_deadline_at (running_values (ex_agent_id x) (rn_deadline_at r) now r) = rn_deadline_at r"
    by (simp_all add: running_values_def Let_def split: option.split)
  ultimately show ?thesis using Inr s by auto
qed

theorem accept_takes_ownership_witness:
  "\<exists>x d. accept 1 0 8 5 (\<lparr>ex_agent_id = lit ''a'', ex_slots = 1, ex_tasks = [], ex_draining = False\<rparr>,
      demo_db DISPATCHED (Some 8)) = Inr (x, d) \<and> length (ex_tasks x) = 1"
proof -
  let ?x = "\<lparr>ex_agent_id = lit ''a'', ex_slots = 1, ex_tasks = [], ex_draining = False\<rparr>"
  have al: "allowed DISPATCHED RUNNING" by (simp add: allowed_def can_transition_def run_states_def)
  have "\<exists>s. accept 1 0 8 5 (?x, demo_db DISPATCHED (Some 8)) = Inr s"
    by (simp add: accept_def slots_free_def require_def mark_running_def transition_def
        transition_check_def transition_commit_def al) (simp add: demo_row_def new_run_def)
  then obtain x d where a: "accept 1 0 8 5 (?x, demo_db DISPATCHED (Some 8)) = Inr (x, d)" by auto
  then have "x = ?x\<lparr>ex_tasks := ex_tasks ?x @ [1]\<rparr>"
    using accept_takes_ownership[where rid = 1 and attempt = 0 and lease = 8 and now = 5 and x = ?x
        and d = "demo_db DISPATCHED (Some 8)"] by simp
  with a show ?thesis by auto
qed

section \<open>The slots of a replica\<close>

inductive replica :: "nat \<Rightarrow> executor \<times> db \<Rightarrow> bool" where
  replica_start: "ex_slots x = n \<Longrightarrow> ex_tasks x = [] \<Longrightarrow> replica n (x, d)"
| replica_accept: "replica n s \<Longrightarrow> accept rid attempt lease now s = Inr s' \<Longrightarrow> replica n s'"
| replica_done: "replica n (x, d) \<Longrightarrow> replica n (task_done rid x, d)"
| replica_drain: "replica n (x, d) \<Longrightarrow> replica n (begin_draining x, d)"
| replica_db: "replica n (x, d) \<Longrightarrow> replica n (x, d')"

text \<open>
  Whatever is dispatched to it, a replica never runs a run twice at the same time and never more
  runs than it has slots, and the slots it reports free are exactly those it may still fill; once it
  drains it reports none.
\<close>

theorem slots_respected:
  assumes "replica n (x, d)"
  shows "distinct (ex_tasks x) \<and> length (ex_tasks x) \<le> n \<and> slots_used x + slots_free x \<le> n
    \<and> (if ex_draining x then slots_free x = 0 else slots_used x + slots_free x = n)"
proof -
  have "distinct (ex_tasks (fst s)) \<and> length (ex_tasks (fst s)) \<le> n \<and> ex_slots (fst s) = n"
    if "replica n s" for s
    using that
  proof (induction rule: replica.induct)
    case (replica_accept n s rid attempt lease now s')
    then show ?case
      by (cases s) (auto simp: accept_def slots_free_def split: if_splits sum.splits)
  next
    case (replica_done n x d rid)
    then show ?case by (auto simp: task_done_def intro: order_trans[OF length_filter_le])
  qed (auto simp: begin_draining_def)
  from this[OF assms] show ?thesis by (auto simp: slots_used_def slots_free_def)
qed

theorem slots_respected_witness:
  "\<exists>x d. replica 1 (x, d) \<and> ex_tasks x = [1] \<and> slots_free x = 0"
proof -
  let ?x = "\<lparr>ex_agent_id = lit ''a'', ex_slots = 1, ex_tasks = [], ex_draining = False\<rparr>"
  have al: "allowed DISPATCHED RUNNING" by (simp add: allowed_def can_transition_def run_states_def)
  have "\<exists>d. accept 1 0 8 5 (?x, demo_db DISPATCHED (Some 8)) = Inr (?x\<lparr>ex_tasks := [1]\<rparr>, d)"
    by (simp add: accept_def slots_free_def require_def mark_running_def transition_def
        transition_check_def transition_commit_def al) (simp add: demo_row_def new_run_def)
  then obtain d where "accept 1 0 8 5 (?x, demo_db DISPATCHED (Some 8)) = Inr (?x\<lparr>ex_tasks := [1]\<rparr>, d)" ..
  then have r: "replica 1 (?x\<lparr>ex_tasks := [1]\<rparr>, d)"
    by (rule replica_accept[OF replica_start, rotated 2]) simp_all
  then show ?thesis using slots_respected[OF r] by (intro exI conjI) (auto simp: slots_used_def)
qed

section \<open>The end of an attempt\<close>

text \<open>The status and the error code an attempt ends with.\<close>

fun ended_as :: "run_exception + run_outcome \<Rightarrow> run_status \<times> error_code option" where
  "ended_as (Inr o') = (ro_status o', ro_error_code o')"
| "ended_as (Inl Cancelled_by_request) = (CANCELLED, None)"
| "ended_as (Inl Timed_out) = (FAILED, Some DEADLINE_EXCEEDED)"
| "ended_as (Inl (Agent_exception a)) = (FAILED, Some (ae_code a))"
| "ended_as (Inl _) = (FAILED, Some UNEXPECTED_EXCEPTION)"

text \<open>What ends an attempt by something else than the loss of its ownership.\<close>

fun properly_ended :: "run_exception + run_outcome \<Rightarrow> bool" where
  "properly_ended (Inr o') = (terminal_status (ro_status o') \<and> set (dkeys (ro_metrics o')) \<subseteq> set counter_names)"
| "properly_ended (Inl Task_cancelled) = False"
| "properly_ended (Inl (Raised_repo (LeaseLost _))) = False"
| "properly_ended (Inl _) = True"

lemma allowed_running: "terminal_status s \<Longrightarrow> allowed RUNNING s"
  by (cases s) (simp_all add: allowed_def can_transition_def run_states_def is_terminal_def)

lemma terminal_cases: "terminal_status s \<longleftrightarrow> s \<in> {SUCCEEDED, SUCCEEDED_WITH_WARNINGS, FAILED, CANCELLED}"
  by (cases s) (simp_all add: run_states_def is_terminal_def)

lemma emit_owned:
  assumes "get_run d (wr_run_id w) = Some r" and "owned (wr_lease_id w) r"
  shows "\<exists>n d' r'. emit w t m l a d = Inr (n, d') \<and> get_run d' (wr_run_id w) = Some r'
    \<and> rn_lease_id r' = rn_lease_id r \<and> rn_status r' = rn_status r
    \<and> (\<forall>rid'. rid' \<noteq> wr_run_id w \<longrightarrow> get_run d' rid' = get_run d rid')"
  using assms by (auto simp: emit_def emit_event_def Let_def)

lemma report_owned:
  assumes "get_run d (wr_run_id w) = Some r" and "owned (wr_lease_id w) r"
  shows "\<exists>d' r'. report_failure w e o' d = (Some o', d') \<and> get_run d' (wr_run_id w) = Some r'
    \<and> rn_lease_id r' = rn_lease_id r \<and> rn_status r' = rn_status r
    \<and> (\<forall>rid'. rid' \<noteq> wr_run_id w \<longrightarrow> get_run d' rid' = get_run d rid')"
  using assms by (auto simp: report_failure_def emit_error_def emit_def emit_event_def Let_def)

lemma emit_not_owned:
  "get_run d (wr_run_id w) = Some r \<Longrightarrow> \<not> owned (wr_lease_id w) r \<Longrightarrow>
     emit w t m l a d = Inl (LeaseLost (wr_run_id w))"
  by (simp add: emit_def emit_event_def)

text \<open>Concluding keeps the run owned and yields the outcome of \<open>ended_as\<close>.\<close>

lemma conclude_proper:
  assumes "get_run d (wr_run_id w) = Some r" and "owned (wr_lease_id w) r" and "properly_ended result"
  shows "\<exists>o' d' r'. conclude w result d = (Some o', d') \<and> ended_as result = (ro_status o', ro_error_code o')
    \<and> properly_ended (Inr o') \<and> get_run d' (wr_run_id w) = Some r'
    \<and> rn_lease_id r' = rn_lease_id r \<and> rn_status r' = rn_status r
    \<and> (\<forall>rid'. rid' \<noteq> wr_run_id w \<longrightarrow> get_run d' rid' = get_run d rid')"
proof -
  have out: "properly_ended (Inr (failed_with c m))" "ro_status (failed_with c m) = FAILED"
    "ro_error_code (failed_with c m) = Some c" for c m
    by (simp_all add: failed_with_def plain_outcome_def run_states_def is_terminal_def)
  have report: "\<exists>o' d' r'. report_failure w a (failed_with c m) d = (Some o', d')
    \<and> (FAILED, Some c) = (ro_status o', ro_error_code o')
    \<and> properly_ended (Inr o') \<and> get_run d' (wr_run_id w) = Some r'
    \<and> rn_lease_id r' = rn_lease_id r \<and> rn_status r' = rn_status r
    \<and> (\<forall>rid'. rid' \<noteq> wr_run_id w \<longrightarrow> get_run d' rid' = get_run d rid')" for a c m
    using report_owned[OF assms(1,2), of a "failed_with c m"] out[of c m] by (elim exE) simp
  show ?thesis
  proof (cases result)
    case (Inr o')
    then show ?thesis using assms by auto
  next
    case (Inl e)
    show ?thesis
    proof (cases e)
      case (Raised_repo x)
      have code: "ae_code a = UNEXPECTED_EXCEPTION" if "repo_agent_error x = Some a" for a
        using that Inl Raised_repo assms(3) by (cases x) (auto simp: mk_error_def)
      have "ended_as result = (FAILED, Some UNEXPECTED_EXCEPTION)" using Inl Raised_repo by simp
      moreover have "\<exists>a c m. conclude w result d = report_failure w a (failed_with c m) d \<and> c = UNEXPECTED_EXCEPTION"
        using Inl Raised_repo assms(3) by (cases x) (auto simp: Let_def unexpected_error_def mk_error_def)
      ultimately show ?thesis using report by (elim exE conjE) (simp only:)
    next
      case Cancelled_by_request
      obtain n d' r' where "emit w (lit ''run_cancelled'') (lit ''Run cancelled at a node boundary.'') WARN no_args d
          = Inr (n, d')" "get_run d' (wr_run_id w) = Some r'" "rn_lease_id r' = rn_lease_id r"
        "rn_status r' = rn_status r" "\<forall>rid'. rid' \<noteq> wr_run_id w \<longrightarrow> get_run d' rid' = get_run d rid'"
        using emit_owned[OF assms(1,2)] by blast
      then show ?thesis using Inl Cancelled_by_request
        by (simp add: plain_outcome_def run_states_def is_terminal_def)
    next
      case Timed_out
      then show ?thesis using Inl assms(1) out by simp
    next
      case (Agent_exception a)
      then show ?thesis using Inl report[of a "ae_code a"] by simp
    next
      case (Other_exception t m tr)
      then show ?thesis
        using Inl report[of "unexpected_error w t m tr" UNEXPECTED_EXCEPTION]
        by (simp add: unexpected_error_def mk_error_def Let_def)
    qed (use Inl assms in simp)
  qed
qed

lemma settle_publishes:
  assumes "get_run d rid = Some r" and "owned (Some lease) r" and "properly_ended (Inr o')"
  shows "\<exists>r'. get_run (settle rid lease o' now d) rid = Some r' \<and> rn_status r' = ro_status o'
    \<and> rn_error_code r' = ro_error_code o' \<and> rn_finished_at r' = Some now
    \<and> load_ciphertexts rid (settle rid lease o' now d) = []
    \<and> (\<forall>rid'. rid' \<noteq> rid \<longrightarrow> get_run (settle rid lease o' now d) rid' = get_run d rid')"
proof -
  have "allowed (rn_status r) (ro_status o')" using assms allowed_running by auto
  moreover have "finish (Some lease) rid (settle_args o') now d
      = transition (Some lease) rid (ro_status o') (finish_values (settle_args o') now) (persist rid (settle_args o')) d"
    using assms(3) by (auto simp: finish_def settle_args_def)
  ultimately obtain d' where f: "finish (Some lease) rid (settle_args o') now d = Inr d'"
    using assms(1,2) by (simp add: transition_Inr)
  then show ?thesis
    using f unfolding settle_def
    by (auto simp: finish_def transition_Inr settle_args_def load_ciphertexts_def filter_empty_conv finish_values_def
        Let_def split: if_splits)
qed

lemma wind_down_settles:
  assumes "get_run d rid = Some r" and "owned (Some lease) r" and "properly_ended result"
  shows "\<exists>r'. get_run (wind_down (run_writer rid span_id lease) lease result now d) rid = Some r'
    \<and> terminal_status (rn_status r') \<and> (rn_status r', rn_error_code r') = ended_as result
    \<and> rn_finished_at r' = Some now
    \<and> load_ciphertexts rid (wind_down (run_writer rid span_id lease) lease result now d) = []
    \<and> (\<forall>rid'. rid' \<noteq> rid \<longrightarrow>
         get_run (wind_down (run_writer rid span_id lease) lease result now d) rid' = get_run d rid')"
proof -
  let ?w = "run_writer rid span_id lease"
  have w: "wr_run_id ?w = rid" "wr_lease_id ?w = Some lease" by (simp_all add: run_writer_def)
  obtain o' d' r' where c: "conclude ?w result d = (Some o', d')" "ended_as result = (ro_status o', ro_error_code o')"
    "properly_ended (Inr o')" "get_run d' rid = Some r'" "rn_lease_id r' = rn_lease_id r" "rn_status r' = rn_status r"
    "\<forall>rid'. rid' \<noteq> rid \<longrightarrow> get_run d' rid' = get_run d rid'"
    using conclude_proper[of d ?w r result] assms unfolding w by blast
  have "owned (Some lease) r'" using owned_data[OF c(5,6)] assms(2) by blast
  from settle_publishes[OF c(4) this c(3), of now] c show ?thesis
    by (auto simp: wind_down_def w)
qed

text \<open>
  C8. However an attempt that still owns its run ends - it returns an outcome, is cancelled, runs
  into its deadline, raises a coded error or has a bug - the run gets exactly the terminal status and
  the error code that belong to this end, its end is dated, its provider keys are destroyed, and no
  other run is touched.
\<close>

theorem attempt_settled:
  assumes "get_run d rid = Some r" and "owned (Some lease) r" and "properly_ended result"
  shows "\<exists>r'. get_run (wind_down (run_writer rid span_id lease) lease result now d) rid = Some r'
    \<and> terminal_status (rn_status r') \<and> (rn_status r', rn_error_code r') = ended_as result
    \<and> rn_finished_at r' = Some now
    \<and> load_ciphertexts rid (wind_down (run_writer rid span_id lease) lease result now d) = []
    \<and> (\<forall>rid'. rid' \<noteq> rid \<longrightarrow>
         get_run (wind_down (run_writer rid span_id lease) lease result now d) rid' = get_run d rid')"
  using wind_down_settles[OF assms] .

text \<open>
  An attempt whose run was given to another lease, or finished by someone else, publishes
  nothing when it ends: the database is left exactly as it is, whatever the attempt returned or raised.
\<close>

theorem attempt_superseded:
  assumes "get_run d rid = Some r" and "rn_lease_id r \<noteq> Some lease \<or> terminal_status (rn_status r)"
  shows "wind_down (run_writer rid span_id lease) lease result now d = d"
proof -
  let ?w = "run_writer rid span_id lease"
  have no: "\<not> owned (wr_lease_id ?w) r" and g: "get_run d (wr_run_id ?w) = Some r"
    using assms by (auto simp: run_writer_def terminal_cases)
  have report: "report_failure ?w a o' d = (None, d)" for a o'
    by (simp add: report_failure_def emit_error_def emit_not_owned[OF g no])
  have "snd (conclude ?w result d) = d"
  proof (cases result)
    case (Inl e)
    then show ?thesis
    proof (cases e)
      case (Raised_repo x)
      then show ?thesis using Inl report by (cases x) (simp_all add: Let_def)
    next
      case Cancelled_by_request
      then show ?thesis using Inl by (simp add: emit_not_owned[OF g no])
    qed (simp_all add: report Let_def)
  qed simp
  moreover have "settle rid lease o' now d = d" for o'
  proof -
    have "\<not> allowed (rn_status r) (ro_status o') \<or> rn_lease_id r \<noteq> Some lease"
      using assms(2) allowed_path_terminal by (cases "rn_status r"; cases "ro_status o'")
        (auto simp: allowed_def can_transition_def run_states_def is_terminal_def)
    then show ?thesis
      using assms(1) by (auto simp: settle_def finish_def settle_args_def transition_Inr split: sum.splits if_splits)
  qed
  ultimately show ?thesis
    by (auto simp: wind_down_def run_writer_def split: prod.splits option.splits)
qed

text \<open>
  C37. An attempt that owns its run, whose settings validate, and whose graph runner makes any number
  of lease-fenced writes - heartbeats, counters, metadata, events - before it ends, brings the run to
  the terminal status of that end; no other run changes.
\<close>

theorem attempt_carried_out:
  assumes "get_run d rid = Some r" and "owned (Some lease) r"
    and "validate (rn_config_snapshot r) = Inr settings" and "properly_ended result"
    and "\<And>c seconds d1 r1. get_run d1 rid = Some r1 \<Longrightarrow> owned (Some lease) r1 \<Longrightarrow>
           \<exists>acts d2. run_script worker_perform lease rid acts d1 = Inr d2 \<and> runner c seconds d1 = (result, d2)"
  shows "\<exists>r'. get_run (execute_attempt validate decrypt runner x rid attempt lease dispatcher span_id now finished d) rid = Some r'
    \<and> (rn_status r', rn_error_code r') = ended_as result \<and> terminal_status (rn_status r')
    \<and> (\<forall>rid'. rid' \<noteq> rid \<longrightarrow>
         get_run (execute_attempt validate decrypt runner x rid attempt lease dispatcher span_id now finished d) rid'
           = get_run d rid')"
proof -
  let ?w = "run_writer rid span_id lease"
  have w: "wr_run_id ?w = rid" "wr_lease_id ?w = Some lease" by (simp_all add: run_writer_def)
  obtain c where c: "build_context validate decrypt rid attempt ?w lease d = Inr c"
    using assms(1,3) by (simp add: build_context_def require_def)
  obtain n d1 r1 where e: "emit ?w (lit ''run_started'') (run_started_message attempt) INFO
      (run_started_args attempt (ex_agent_id x) dispatcher) d = Inr (n, d1)"
    and d1: "get_run d1 rid = Some r1" "rn_lease_id r1 = rn_lease_id r" "rn_status r1 = rn_status r"
      "\<forall>rid'. rid' \<noteq> rid \<longrightarrow> get_run d1 rid' = get_run d rid'"
    using emit_owned[of d ?w r] assms(1,2) unfolding w by metis
  have o1: "owned (Some lease) r1" using owned_data[OF d1(2,3)] assms(2) by blast
  let ?s = "map_option (\<lambda>t. t - now) (rc_deadline_at c)"
  obtain acts d2 where d2: "run_script worker_perform lease rid acts d1 = Inr d2" "runner c ?s d1 = (result, d2)"
    using assms(5)[OF d1(1) o1] by blast
  obtain r2 where r2: "get_run d2 rid = Some r2" "owned (Some lease) r2"
    using worker.script_keeps[OF d2(1) d1(1) o1] by blast
  have x: "execute_attempt validate decrypt runner x rid attempt lease dispatcher span_id now finished d
      = wind_down ?w lease result finished d2"
    by (simp only: execute_attempt_def Let_def c e d2 sum.case prod.case)
  have "\<forall>rid'. rid' \<noteq> rid \<longrightarrow> get_run d2 rid' = get_run d rid'"
    using worker.script_others[OF d2(1)] d1(4) by simp
  then show ?thesis
    unfolding x using wind_down_settles[OF r2 assms(4), of span_id finished] by fastforce
qed

theorem attempt_carried_out_witness:
  "\<exists>r. get_run (execute_attempt (\<lambda>_. Inr ()) id (\<lambda>c s d. (Inl Timed_out, d))
       \<lparr>ex_agent_id = lit ''a'', ex_slots = 1, ex_tasks = [1], ex_draining = False\<rparr> 1 1 8 None (lit ''s'') 5 9
       (demo_db RUNNING (Some 8))) 1 = Some r \<and> rn_status r = FAILED"
proof -
  have "\<exists>acts d2. run_script worker_perform 8 1 acts d1 = Inr d2 \<and> (Inl Timed_out :: run_exception + run_outcome, d1) = (Inl Timed_out, d2)"
    for d1 by (rule exI[of _ "[]"]) simp
  then show ?thesis
    using attempt_carried_out[of "demo_db RUNNING (Some 8)" 1 "demo_row\<lparr>rn_status := RUNNING, rn_lease_id := Some 8\<rparr>" 8
        "\<lambda>_. Inr ()" "()" "Inl Timed_out" "\<lambda>c s d. (Inl Timed_out, d)" id
        "\<lparr>ex_agent_id = lit ''a'', ex_slots = 1, ex_tasks = [1], ex_draining = False\<rparr>" 1 None "lit ''s''" 5 9]
    by fastforce
qed

theorem attempt_settled_witness:
  "\<exists>r. get_run (wind_down (run_writer 1 (lit ''s'') 8) 8 (Inl Timed_out) 9 (demo_db RUNNING (Some 8))) 1 = Some r
     \<and> rn_status r = FAILED \<and> rn_error_code r = Some DEADLINE_EXCEEDED"
  using attempt_settled[of "demo_db RUNNING (Some 8)" 1 "demo_row\<lparr>rn_status := RUNNING, rn_lease_id := Some 8\<rparr>" 8
      "Inl Timed_out" "lit ''s''" 9] by auto

theorem attempt_superseded_witness:
  "wind_down (run_writer 1 (lit ''s'') 7) 7 (Inl Timed_out) 9 (demo_db RUNNING (Some 8)) = demo_db RUNNING (Some 8)"
  using attempt_superseded[of "demo_db RUNNING (Some 8)" 1 "demo_row\<lparr>rn_status := RUNNING, rn_lease_id := Some 8\<rparr>" 7
      "lit ''s''" "Inl Timed_out" 9] by simp

end
