(* ===== verification/SinkProps.thy ===== *)
theory SinkProps
  imports Sink
begin

text \<open>
  The in-memory services do what the database ones do: the same calls leave the same timeline, and a
  stored response is found in both caches until it expires.
\<close>

section \<open>Timelines\<close>

lemma run_timeline_emit:
  assumes "emit w t m l a d = Inr (n, d')"
  shows "run_timeline d' (wr_run_id w) = run_timeline d (wr_run_id w)
      @ [mem_of_row (new_event w t m l a\<lparr>ev_run_id := wr_run_id w, ev_seq := n\<rparr>)]"
    and "event_seq_of d' (wr_run_id w) = n" and "n = Suc (event_seq_of d (wr_run_id w))"
  using assms unfolding emit_def emit_event_Inr by (auto simp: run_timeline_def event_seq_of_def)

lemma mem_emit_row:
  "snd (mem_emit (sink_of w) t m l a evs)
     = evs @ [mem_of_row (new_event w t m l a\<lparr>ev_run_id := wr_run_id w, ev_seq := Suc (length evs)\<rparr>)]"
  by (cases "em_iteration a")
    (simp_all add: mem_emit_def sink_of_def mem_of_row_def new_event_def event_payload_def Let_def)

lemma fst_mem_emit: "fst (mem_emit k t m l a evs) = Suc (length evs)"
  by (simp add: mem_emit_def)

lemma drop_retryable_error:
  "drop_retryable (redact (JObj (error_data e))) = drop_retryable (redact (JObj (mem_error_data e)))"
  by (simp add: drop_retryable_def error_data_def mem_error_data_def)

text \<open>One call: the event added on one side is the event added on the other.\<close>

lemma call_same:
  assumes "db_call c d = Inr d'" and "length evs = event_seq_of d (wr_run_id (caller c))"
  shows "\<exists>row ev. run_timeline d' (wr_run_id (caller c)) = run_timeline d (wr_run_id (caller c)) @ [row]
    \<and> mem_call c evs = evs @ [ev] \<and> same_event row ev
    \<and> event_seq_of d' (wr_run_id (caller c)) = Suc (length evs)"
proof (cases c)
  case (Emit_call w t m l a)
  then obtain n where "emit w t m l a d = Inr (n, d')" using assms by (auto simp: rbind_Inr_iff)
  from run_timeline_emit[OF this] show ?thesis
    using Emit_call assms(2) by (simp add: mem_emit_row same_event_def)
next
  case (Error_call w e)
  let ?a = "no_args\<lparr>em_data := error_data e, em_iteration := ae_iteration e,
     em_error_code := Some (ae_code e), em_expected := Some (ae_expected e)\<rparr>"
  let ?b = "no_args\<lparr>em_data := mem_error_data e, em_error_code := Some (ae_code e), em_expected := Some (ae_expected e)\<rparr>"
  let ?l = "if ae_expected e then WARN else ERROR"
  obtain n where "emit w (lit ''error'') (error_message e) ?l ?a d = Inr (n, d')"
    using Error_call assms by (auto simp: rbind_Inr_iff emit_error_def no_args_def)
  from run_timeline_emit[OF this]
  have row: "run_timeline d' (wr_run_id w) = run_timeline d (wr_run_id w)
      @ [mem_of_row (new_event w (lit ''error'') (error_message e) ?l ?a\<lparr>ev_run_id := wr_run_id w, ev_seq := n\<rparr>)]"
    and n: "event_seq_of d' (wr_run_id w) = n" "n = Suc (length evs)"
    using assms(2) Error_call by simp_all
  have ev: "mem_call c evs = evs @ [mem_of_row (new_event w (lit ''error'') (error_message e) ?l ?b
      \<lparr>ev_run_id := wr_run_id w, ev_seq := Suc (length evs)\<rparr>)]"
    unfolding Error_call mem_call.simps mem_error_def mem_emit_row[symmetric] by (simp add: no_args_def)
  show ?thesis
    using row ev n Error_call drop_retryable_error[of e]
    by (simp add: same_event_def mem_of_row_def new_event_def event_payload_def no_args_def)
qed

fun db_calls :: "event_call list \<Rightarrow> db \<Rightarrow> repo_error + db" where
  "db_calls [] d = Inr d"
| "db_calls (c # cs) d = rbind (db_call c d) (db_calls cs)"

text \<open>
  C39. The in-memory sink records what the event writer of the service stores: any sequence of events
  and errors of one run, whichever node's writer sends them, leaves the same timeline, event by
  event, with the same numbers, once the two differences on errors are set aside: the row of an error
  has a field more in its data and takes the round of the error.
\<close>

theorem sinks_agree:
  assumes "db_calls cs d = Inr d'" and "\<And>c. c \<in> set cs \<Longrightarrow> wr_run_id (caller c) = rid"
    and "run_timeline d rid = [] \<and> event_seq_of d rid = 0"
  shows "list_all2 same_event (run_timeline d' rid) (fold mem_call cs [])
    \<and> event_seq_of d' rid = length (fold mem_call cs [])"
proof -
  have "list_all2 same_event (run_timeline d' rid) (fold mem_call cs evs) \<and> event_seq_of d' rid = length (fold mem_call cs evs)"
    if "db_calls cs d = Inr d'" "\<And>c. c \<in> set cs \<Longrightarrow> wr_run_id (caller c) = rid"
      "list_all2 same_event (run_timeline d rid) evs" "event_seq_of d rid = length evs" for d evs
    using that
  proof (induction cs arbitrary: d evs)
    case (Cons c cs)
    then obtain d1 where d1: "db_call c d = Inr d1" "db_calls cs d1 = Inr d'" by (auto simp: rbind_Inr_iff)
    have rid: "wr_run_id (caller c) = rid" using Cons.prems(2) by simp
    obtain row ev where "run_timeline d1 rid = run_timeline d rid @ [row]" "mem_call c evs = evs @ [ev]"
      "same_event row ev" "event_seq_of d1 rid = Suc (length evs)"
      using call_same[OF d1(1), of evs] Cons.prems(4) unfolding rid by auto
    then show ?case using Cons.IH[OF d1(2), of "evs @ [ev]"] Cons.prems(2,3)
      by (simp add: list_all2_appendI)
  qed auto
  from this[OF assms(1,2)] assms(3) show ?thesis by simp
qed

theorem sinks_agree_witness:
  "\<exists>d. db_calls [Error_call (\<lparr>wr_run_id = 1, wr_node = lit ''plan'', wr_iteration = None, wr_span_id = None,
        wr_parent_span_id = None, wr_lease_id = Some 8\<rparr>) \<lparr>ae_code = LLM_TIMEOUT, ae_node = lit ''plan'',
        ae_decision = lit ''retry'', ae_outcome = None, ae_run_id = None, ae_span_id = None, ae_iteration = Some 3,
        ae_provider = None, ae_attempt = Some 1, ae_cause = None\<rparr>] (demo_db RUNNING (Some 8)) = Inr d
     \<and> length (run_timeline d 1) = 1"
proof -
  let ?w = "\<lparr>wr_run_id = 1, wr_node = lit ''plan'', wr_iteration = None, wr_span_id = None,
        wr_parent_span_id = None, wr_lease_id = Some 8\<rparr> :: event_writer"
  let ?e = "\<lparr>ae_code = LLM_TIMEOUT, ae_node = lit ''plan'',
        ae_decision = lit ''retry'', ae_outcome = None, ae_run_id = None, ae_span_id = None, ae_iteration = Some 3,
        ae_provider = None, ae_attempt = Some 1, ae_cause = None\<rparr>"
  obtain d where d: "db_calls [Error_call ?w ?e] (demo_db RUNNING (Some 8)) = Inr d"
    by (simp add: emit_error_def emit_def emit_event_def Let_def)
  have "run_timeline (demo_db RUNNING (Some 8)) 1 = [] \<and> event_seq_of (demo_db RUNNING (Some 8)) 1 = 0"
    by (simp add: run_timeline_def event_seq_of_def demo_db_def empty_db_def demo_row_def new_run_def)
  from sinks_agree[OF d _ this] have "length (run_timeline d 1) = length (fold mem_call [Error_call ?w ?e] [])"
    by (auto dest: list_all2_lengthD)
  then show ?thesis using d by (auto simp: mem_error_def mem_emit_def Let_def)
qed

section \<open>Caches\<close>

text \<open>
  A response stored with a time to live is returned by both caches, as it was stored last, until
  that time is over and not after it; other keys are unaffected, and purging only drops what is
  never returned again.
\<close>

lemma cache_until_expiry:
  "mem_get_response now key (mem_put_response stored key response ttl c)
     = (if stored + ttl < now then None else Some response)
   \<and> db_get_response now key (db_put_response stored key provider query response ttl b)
     = (if now < stored + ttl then Some response else None)
   \<and> (if other = key then True
      else mem_get_response now other (mem_put_response stored key response ttl c) = mem_get_response now other c
         \<and> db_get_response now other (db_put_response stored key provider query response ttl b) = db_get_response now other b)
   \<and> (if distinct (dkeys (dc_search b)) \<and> purged \<le> now
      then db_get_response now other (db_purge_expired purged b) = db_get_response now other b else True)"
proof -
  have purge: "db_get_response now other (db_purge_expired purged b) = db_get_response now other b"
    if d: "distinct (dkeys (dc_search b))" and "purged \<le> now"
  proof -
    have "map_of (filter (\<lambda>(k, row). \<not> cr_expires_at row < purged) xs) other
        = (case map_of xs other of None \<Rightarrow> None | Some row \<Rightarrow> if cr_expires_at row < purged then None else Some row)"
      if "distinct (map fst xs)" for xs :: "(str \<times> 'b cache_row) list"
      using that by (induction xs) (auto simp: map_of_eq_None_iff split: option.split)
    from this[OF d] show ?thesis using that(2)
      by (auto simp: db_get_response_def db_purge_expired_def split: option.split)
  qed
  have "mem_get_response now key (mem_put_response stored key response ttl c)
      = (if stored + ttl < now then None else Some response)"
    by (simp add: mem_get_response_def mem_put_response_def)
  moreover have "db_get_response now key (db_put_response stored key provider query response ttl b)
      = (if now < stored + ttl then Some response else None)"
    by (cases "dget (dc_search b) key") (simp_all add: db_get_response_def db_put_response_def)
  moreover have "mem_get_response now other (mem_put_response stored key response ttl c) = mem_get_response now other c"
    "db_get_response now other (db_put_response stored key provider query response ttl b) = db_get_response now other b"
    if "other \<noteq> key"
    using that by (cases "dget (dc_search b) key";
        simp add: mem_get_response_def mem_put_response_def db_get_response_def db_put_response_def)+
  ultimately show ?thesis using purge
    by (cases "other = key"; cases "distinct (dkeys (dc_search b)) \<and> purged \<le> now") auto
qed

end
