(* ===== verification/LlmProps.thy ===== *)
theory LlmProps
  imports LlmGateway
begin

text \<open>
  Properties of the LLM gateway: a call ends after a bounded number of provider calls, everything it
  costs is on the meter and in the log, a rejected key is never used again, and it says which
  failures leave it, and when. All of it is read off one description of a pass through the world, \<open>pass\<close>.
\<close>

section \<open>Accounting\<close>

text \<open>The meter holds the sums over the log, and every provider call is in the log.\<close>

definition accounted :: "llm_world \<Rightarrow> bool" where
  "accounted w \<longleftrightarrow>
     (let calls = cl_llm_calls (lw_log w); m = lw_meter w
      in length calls = lw_asked w
       \<and> bm_llm_calls m = length (filter (\<lambda>c. lc_status c \<noteq> lit ''error'') calls)
       \<and> bm_tokens_in m = sum_list (map lc_tokens_in calls)
       \<and> bm_tokens_out m = sum_list (map lc_tokens_out calls)
       \<and> bm_cost_usd m = sum_list (map lc_cost_usd calls))"

text \<open>What one pass does to the world: calls only of providers that satisfy \<open>P\<close>, at most \<open>n\<close> of them.\<close>

definition pass :: "(str \<Rightarrow> bool) \<Rightarrow> nat \<Rightarrow> llm_world \<Rightarrow> llm_world \<Rightarrow> bool" where
  "pass P n w w' \<longleftrightarrow>
     (\<exists>new. cl_llm_calls (lw_log w') = cl_llm_calls (lw_log w) @ new
        \<and> (\<forall>c\<in>set new. P (lc_provider c)) \<and> length new \<le> n \<and> lw_asked w' = lw_asked w + length new)
   \<and> (accounted w \<longrightarrow> accounted w')
   \<and> (\<exists>evs. lw_timeline w' = lw_timeline w @ evs)"

lemma pass_refl: "pass P n w w"
  by (simp add: pass_def)

lemma pass_trans:
  assumes "pass P m w w1" and "pass P n w1 w2"
  shows "pass P (m + n) w w2"
proof -
  obtain a b where "cl_llm_calls (lw_log w1) = cl_llm_calls (lw_log w) @ a" "\<forall>c\<in>set a. P (lc_provider c)" "length a \<le> m"
    "lw_asked w1 = lw_asked w + length a" "lw_asked w2 = lw_asked w1 + length b"
    "cl_llm_calls (lw_log w2) = cl_llm_calls (lw_log w1) @ b" "\<forall>c\<in>set b. P (lc_provider c)" "length b \<le> n"
    using assms by (auto simp: pass_def)
  moreover have "\<exists>evs. lw_timeline w2 = lw_timeline w @ evs" using assms by (auto simp: pass_def)
  moreover have "accounted w \<longrightarrow> accounted w2" using assms by (simp add: pass_def)
  ultimately show ?thesis unfolding pass_def
    by (intro conjI exI[of _ "a @ b"]) auto
qed

lemma pass_mono: "pass P m w w' \<Longrightarrow> m \<le> n \<Longrightarrow> (\<And>x. P x \<Longrightarrow> Q x) \<Longrightarrow> pass Q n w w'"
  unfolding pass_def by (meson order_trans)

text \<open>A step that leaves log, meter and counter alone.\<close>

lemma pass_quiet:
  assumes "lw_log w' = lw_log w" "lw_meter w' = lw_meter w" "lw_asked w' = lw_asked w"
    and "\<exists>evs. lw_timeline w' = lw_timeline w @ evs"
  shows "pass P 0 w w'"
  using assms by (simp add: pass_def accounted_def Let_def)

lemma mem_error_extends: "\<exists>evs. mem_error k e a tl' = tl' @ evs"
  by (simp add: mem_error_def mem_emit_def Let_def)

lemma mem_debug_extends: "\<exists>evs. mem_debug k t m a tl' = tl' @ evs"
  by (simp add: mem_debug_def mem_emit_def Let_def)

lemma pass_say: "pass P 0 w (say_error k e w)"
  by (rule pass_quiet) (simp_all add: say_error_def mem_error_extends)

lemma say_error_simps [simp]:
  "lw_asked (say_error k e w) = lw_asked w" "lw_rejected (say_error k e w) = lw_rejected w"
  "lw_log (say_error k e w) = lw_log w" "lw_meter (say_error k e w) = lw_meter w"
  by (simp_all add: say_error_def)

lemma record_call_simps [simp]:
  "lw_asked (record_call sp s a st code c conv cost w) = lw_asked w"
  "lw_rejected (record_call sp s a st code c conv cost w) = lw_rejected w"
  "lw_meter (record_call sp s a st code c conv cost w) = lw_meter w"
  by (simp_all add: record_call_def Let_def split: option.split)

lemma record_call_log:
  "\<exists>r. cl_llm_calls (lw_log (record_call sp s a st code c conv cost w)) = cl_llm_calls (lw_log w) @ [r]
     \<and> lc_provider r = cs_provider s \<and> lc_status r = st \<and> lc_cost_usd r = cost
     \<and> lc_tokens_in r = (case c of None \<Rightarrow> 0 | Some x \<Rightarrow> cm_tokens_in x)
     \<and> lc_tokens_out r = (case c of None \<Rightarrow> 0 | Some x \<Rightarrow> cm_tokens_out x)"
  by (simp add: record_call_def record_llm_call_def Let_def split: option.split)

lemma record_call_timeline:
  "\<exists>evs. lw_timeline (record_call sp s a st code c conv cost w) = lw_timeline w @ evs"
  by (simp add: record_call_def Let_def mem_debug_extends split: option.split)

lemma accounted_snoc:
  assumes "accounted w" and "cl_llm_calls (lw_log w') = cl_llm_calls (lw_log w) @ [r]"
    and "lw_asked w' = lw_asked w + 1" and "lc_status r \<noteq> lit ''error''"
    and "lw_meter w' = add_llm (lc_tokens_in r) (lc_tokens_out r) (lc_cost_usd r) (lw_meter w)"
  shows "accounted w'"
  using assms by (simp add: accounted_def Let_def add_llm_def)

text \<open>A provider call that failed, and one that was answered.\<close>

lemma pass_failed_call:
  "pass (\<lambda>p. p = cs_provider s) 1 w
     (record_call sp s a (lit ''error'') code None conv 0 (w\<lparr>lw_asked := lw_asked w + 1\<rparr>))"
proof -
  let ?w = "record_call sp s a (lit ''error'') code None conv 0 (w\<lparr>lw_asked := lw_asked w + 1\<rparr>)"
  obtain r where r: "cl_llm_calls (lw_log ?w) = cl_llm_calls (lw_log w) @ [r]"
    "lc_provider r = cs_provider s" "lc_status r = lit ''error''" "lc_cost_usd r = 0" "lc_tokens_in r = 0" "lc_tokens_out r = 0"
    using record_call_log[of sp s a "lit ''error''" code None conv 0 "w\<lparr>lw_asked := lw_asked w + 1\<rparr>"] by auto
  moreover have "accounted w \<longrightarrow> accounted ?w" using r by (simp add: accounted_def Let_def)
  moreover have "\<exists>evs. lw_timeline ?w = lw_timeline w @ evs"
    using record_call_timeline[of sp s a "lit ''error''" code None conv 0 "w\<lparr>lw_asked := lw_asked w + 1\<rparr>"] by simp
  ultimately show ?thesis unfolding pass_def by (intro conjI exI[of _ "[r]"]) auto
qed

lemma pass_answered_call:
  assumes "st \<noteq> lit ''error''"
  shows "pass (\<lambda>p. p = cs_provider s) 1 w
     (record_call sp s a st code (Some c) conv cost
        (w\<lparr>lw_asked := lw_asked w + 1, lw_meter := add_llm (cm_tokens_in c) (cm_tokens_out c) cost (lw_meter w)\<rparr>))"
proof -
  let ?v = "w\<lparr>lw_asked := lw_asked w + 1, lw_meter := add_llm (cm_tokens_in c) (cm_tokens_out c) cost (lw_meter w)\<rparr>"
  let ?w = "record_call sp s a st code (Some c) conv cost ?v"
  obtain r where r: "cl_llm_calls (lw_log ?w) = cl_llm_calls (lw_log w) @ [r]"
    "lc_provider r = cs_provider s" "lc_status r = st" "lc_cost_usd r = cost"
    "lc_tokens_in r = cm_tokens_in c" "lc_tokens_out r = cm_tokens_out c"
    using record_call_log[of sp s a st code "Some c" conv cost ?v] by auto
  moreover have "accounted w \<longrightarrow> accounted ?w" using r assms by (auto intro: accounted_snoc)
  moreover have "\<exists>evs. lw_timeline ?w = lw_timeline w @ evs"
    using record_call_timeline[of sp s a st code "Some c" conv cost ?v] by simp
  ultimately show ?thesis unfolding pass_def by (intro conjI exI[of _ "[r]"]) auto
qed

section \<open>The loop of one provider\<close>

lemma pass_slept: "pass P n w w' \<Longrightarrow> pass P n w (w'\<lparr>lw_slept := x\<rparr>)"
  by (simp add: pass_def accounted_def)

lemma provider_loop_pass:
  "pass (\<lambda>p. p = cs_provider s) (max (ls_retries (lg_settings g) + 1 - attempts) 1 + repairs) w
     (snd (provider_loop env g s attempts repairs repaired totals conv w))
   \<and> lw_rejected (snd (provider_loop env g s attempts repairs repaired totals conv w)) = lw_rejected w
   \<and> (\<forall>x. fst (provider_loop env g s attempts repairs repaired totals conv w) = Inl x \<longrightarrow>
        (\<exists>e. x = Provider_failed e) \<or> (\<exists>a. x = LLM_failure a \<and> ae_code a = LLM_REPAIR_FAILED))"
proof (induction env g s attempts repairs repaired totals conv w rule: provider_loop.induct)
  case (1 env g s attempts repairs repaired totals conv w)
  let ?P = "\<lambda>p. p = cs_provider s" and ?R = "ls_retries (lg_settings g)"
  let ?sp = "le_span env (lw_asked w)" and ?a = "attempts + 1" and ?w1 = "w\<lparr>lw_asked := lw_asked w + 1\<rparr>"
  show ?case
  proof (cases "le_complete env (lw_asked w) (cs_provider s) (cs_model s) conv")
    case (Inl e)
    let ?w2 = "record_call ?sp s ?a (lit ''error'') (Some (pe_code e)) None conv 0 ?w1"
    have one: "pass ?P 1 w ?w2" by (rule pass_failed_call)
    show ?thesis
    proof (cases "pe_retryable e \<and> ?a < ?R + 1")
      case True
      let ?w3 = "(say_error (cs_sink s) (retry_notice s ?a (?R + 1) e) ?w2)\<lparr>lw_slept := lw_slept ?w2 @ [retry_delay ?a]\<rparr>"
      have eq: "provider_loop env g s attempts repairs repaired totals conv w
          = provider_loop env g s ?a repairs repaired totals conv ?w3"
        using Inl True by (simp add: provider_loop.simps[of env g s attempts] Let_def)
      have "pass ?P (1 + 0) w ?w3" by (intro pass_slept pass_trans[OF one] pass_say)
      from pass_trans[OF this conjunct1[OF "1.IH"(1)[OF refl refl refl refl refl Inl refl True]]]
      have "pass ?P (max (?R + 1 - attempts) 1 + repairs) w (snd (provider_loop env g s ?a repairs repaired totals conv ?w3))"
        using True by (elim pass_mono) auto
      then show ?thesis unfolding eq using "1.IH"(1)[OF refl refl refl refl refl Inl refl True] by simp
    next
      case False
      then have eq: "provider_loop env g s attempts repairs repaired totals conv w
          = (Inl (Provider_failed e), say_error (cs_sink s) (provider_failure s ?a e) ?w2)"
        using Inl by (auto simp: provider_loop.simps[of env g s attempts] Let_def)
      have "pass ?P (1 + 0) w (say_error (cs_sink s) (provider_failure s ?a e) ?w2)"
        by (intro pass_trans[OF one] pass_say)
      then have "pass ?P (max (?R + 1 - attempts) 1 + repairs) w (say_error (cs_sink s) (provider_failure s ?a e) ?w2)"
        by (elim pass_mono) auto
      then show ?thesis unfolding eq by simp
    qed
  next
    case (Inr c)
    let ?cost = "model_cost (lg_catalog g) (cs_model s) (cm_tokens_in c) (cm_tokens_out c)"
    let ?w2 = "?w1\<lparr>lw_meter := add_llm (cm_tokens_in c) (cm_tokens_out c) ?cost (lw_meter ?w1)\<rparr>"
    let ?rec = "\<lambda>st code. record_call ?sp s ?a st code (Some c) conv ?cost ?w2"
    have one: "pass ?P 1 w (?rec st code)" if "st \<noteq> lit ''error''" for st code
      using pass_answered_call[OF that] by simp
    show ?thesis
    proof (cases "le_parse env (cm_text c)")
      case (Inl problem)
      let ?w3 = "?rec (lit ''invalid'') (Some LLM_INVALID_OUTPUT)"
      have inv: "pass ?P 1 w ?w3" by (rule one) simp
      show ?thesis
      proof (cases "0 < repairs")
        case True
        let ?conv = "conv @ [(Assistant, take 4000 (cm_text c)), (User, repair_instruction problem)]"
        let ?w4 = "say_error (cs_sink s) (repair_notice s ?a problem) ?w3"
        let ?t = "add_totals c ?cost totals"
        have eq: "provider_loop env g s attempts repairs repaired totals conv w
            = provider_loop env g s ?a (repairs - 1) True ?t ?conv ?w4"
          using Inr Inl True by (simp add: provider_loop.simps[of env g s attempts] Let_def)
        have "pass ?P (1 + 0) w ?w4" by (intro pass_trans[OF inv] pass_say)
        from pass_trans[OF this conjunct1[OF "1.IH"(2)[OF refl refl refl refl refl Inr refl refl refl Inl refl True]]]
        have "pass ?P (max (?R + 1 - attempts) 1 + repairs) w (snd (provider_loop env g s ?a (repairs - 1) True ?t ?conv ?w4))"
          using True by (elim pass_mono) auto
        then show ?thesis unfolding eq
          using "1.IH"(2)[OF refl refl refl refl refl Inr refl refl refl Inl refl True] by simp
      next
        case False
        then have eq: "provider_loop env g s attempts repairs repaired totals conv w
            = (Inl (LLM_failure (repair_failure s ?a problem)), say_error (cs_sink s) (repair_failure s ?a problem) ?w3)"
          using Inr Inl by (simp add: provider_loop.simps[of env g s attempts] Let_def)
        have "pass ?P (1 + 0) w (say_error (cs_sink s) (repair_failure s ?a problem) ?w3)"
          by (intro pass_trans[OF inv] pass_say)
        then have "pass ?P (max (?R + 1 - attempts) 1 + repairs) w (say_error (cs_sink s) (repair_failure s ?a problem) ?w3)"
          by (elim pass_mono) auto
        moreover have "ae_code (repair_failure s ?a problem) = LLM_REPAIR_FAILED"
          by (simp add: repair_failure_def gateway_error_def)
        ultimately show ?thesis unfolding eq by simp
      qed
    next
      case (Inr v)
      obtain res where eq: "provider_loop env g s attempts repairs repaired totals conv w = (Inr res, ?rec (lit ''ok'') None)"
        using \<open>le_complete _ _ _ _ _ = Inr c\<close> Inr by (simp add: provider_loop.simps[of env g s attempts] Let_def)
      have "pass ?P (max (?R + 1 - attempts) 1 + repairs) w (?rec (lit ''ok'') None)"
        by (rule pass_mono[OF one]) auto
      then show ?thesis unfolding eq by simp
    qed
  qed
qed

section \<open>The chain\<close>

abbreviation call_bound :: "llm_gateway \<Rightarrow> nat" where
  "call_bound g \<equiv> ls_retries (lg_settings g) + 1 + ls_repair_retries (lg_settings g)"

lemma with_provider_pass:
  "pass (\<lambda>p. p = cs_provider s) (call_bound g) w (snd (with_provider env g s conv w))"
  "lw_rejected (snd (with_provider env g s conv w)) = lw_rejected w"
  "fst (with_provider env g s conv w) = Inl x \<Longrightarrow> (\<exists>e. x = Provider_failed e) \<or> (\<exists>a. x = LLM_failure a \<and> ae_code a = LLM_REPAIR_FAILED)"
  using provider_loop_pass[of s g 0 "ls_repair_retries (lg_settings g)" w env False "(0, 0, 0, 0)" conv]
  by (simp_all add: with_provider_def)

lemma pass_rejected: "pass P n w w' \<Longrightarrow> pass P n w (w'\<lparr>lw_rejected := x\<rparr>)"
  by (simp add: pass_def accounted_def)

lemma pass_models: "pass P n w w' \<Longrightarrow> pass P n w (w'\<lparr>lw_models_used := x\<rparr>)"
  by (simp add: pass_def accounted_def)

text \<open>
  How a call may fail once providers are asked: the answer of one could not be repaired, every provider
  failed, or the keys of the whole chain are rejected by then. The error of a provider stays inside.
\<close>

definition chain_failure :: "mem_sink \<Rightarrow> str list \<Rightarrow> (str, str) dict \<Rightarrow> llm_exception \<Rightarrow> bool" where
  "chain_failure k chain rejected x \<longleftrightarrow> (case x of
       LLM_failure a \<Rightarrow> ae_code a = LLM_REPAIR_FAILED \<or> (\<exists>last_error. a = all_failed k last_error)
     | LLM_keys_rejected a \<Rightarrow> ae_code a = LLM_AUTH \<and> list_all (\<lambda>n. dmem n rejected) chain
     | Unknown_model m \<Rightarrow> False | Provider_failed e \<Rightarrow> False)"

lemma try_providers_pass:
  "pass (\<lambda>p. p \<in> set live) (length live * call_bound g) w
     (snd (try_providers env g k t pid pv msgs selected chain last_error live w))
   \<and> set (dkeys (lw_rejected w)) \<subseteq> set (dkeys (lw_rejected (snd (try_providers env g k t pid pv msgs selected chain last_error live w))))
   \<and> (\<forall>x. fst (try_providers env g k t pid pv msgs selected chain last_error live w) = Inl x \<longrightarrow>
        chain_failure k chain (lw_rejected (snd (try_providers env g k t pid pv msgs selected chain last_error live w))) x)"
proof (induction live arbitrary: last_error w)
  case Nil
  show ?case
    by (auto simp: pass_refl pass_say Let_def chain_failure_def keys_rejected_def gateway_error_def)
next
  case (Cons name live)
  let ?model = "case selected of Some (preferred, m) \<Rightarrow> if name = preferred then Some m else model_for (lg_catalog g) t name
            | None \<Rightarrow> model_for (lg_catalog g) t name"
  show ?case
  proof (cases ?model)
    case None
    have "pass (\<lambda>p. p \<in> set (name # live)) (length (name # live) * call_bound g) w
        (snd (try_providers env g k t pid pv msgs selected chain last_error live w))"
      using pass_mono[OF conjunct1[OF Cons.IH[where w = w and last_error = last_error]]] by simp
    then show ?thesis using None Cons.IH[of w last_error] by simp
  next
    case (Some model)
    define s where "s = \<lparr>cs_sink = k, cs_provider = name, cs_model = model, cs_tier = t, cs_prompt_id = pid,
        cs_prompt_version = pv, cs_fallback_from = (if name \<noteq> hd chain then Some (hd chain) else None),
        cs_next_provider = (case live of [] \<Rightarrow> None | n # _ \<Rightarrow> Some n)\<rparr>"
    obtain res w1 where wp: "with_provider env g s msgs w = (res, w1)" by (cases "with_provider env g s msgs w")
    have "pass (\<lambda>p. p = cs_provider s) (call_bound g) w w1"
      using with_provider_pass(1)[of s g w env msgs] unfolding wp by simp
    then have one: "pass (\<lambda>p. p \<in> set (name # live)) (call_bound g) w w1"
      by (rule pass_mono) (simp_all add: s_def)
    have rej: "lw_rejected w1 = lw_rejected w" using with_provider_pass(2)[of env g s msgs w] by (simp add: wp)
    have more: "pass (\<lambda>p. p \<in> set (name # live)) (length (name # live) * call_bound g) w w1"
      by (rule pass_mono[OF one]) auto
    show ?thesis
    proof (cases res)
      case (Inr result)
      let ?w2 = "w1\<lparr>lw_models_used := dput (tier_value t) (name @ lit '':'' @ model) (lw_models_used w1)\<rparr>"
      have eq: "try_providers env g k t pid pv msgs selected chain last_error (name # live) w
          = (Inr result, if name \<noteq> hd chain then say_error k (fallback_used k (hd chain) name model) ?w2 else ?w2)"
        using Some wp Inr by (simp add: s_def Let_def)
      define w3 where "w3 = (if name \<noteq> hd chain then say_error k (fallback_used k (hd chain) name model) ?w2 else ?w2)"
      have "pass (\<lambda>p. p \<in> set (name # live)) (length (name # live) * call_bound g) w (say_error k (fallback_used k (hd chain) name model) ?w2)"
        using pass_trans[OF pass_models[OF more] pass_say] unfolding add_0_right .
      moreover have "w3 = say_error k (fallback_used k (hd chain) name model) ?w2 \<or> w3 = ?w2" by (simp add: w3_def)
      ultimately have p3: "pass (\<lambda>p. p \<in> set (name # live)) (length (name # live) * call_bound g) w w3"
        using pass_models[OF more] by (elim disjE) (simp_all only:)
      have r3: "lw_rejected w3 = lw_rejected w" using rej by (simp add: w3_def)
      show ?thesis unfolding eq w3_def[symmetric] using p3 r3 by simp
    next
      case (Inl x)
      show ?thesis
      proof (cases "\<exists>e. x = Provider_failed e")
        case True
        then obtain e where x: "x = Provider_failed e" ..
        define w2 where "w2 = (if pe_code e = LLM_AUTH then w1\<lparr>lw_rejected := dput name (pe_message e) (lw_rejected w1)\<rparr> else w1)"
        let ?rest = "try_providers env g k t pid pv msgs selected chain (Some e) live w2"
        have eq: "try_providers env g k t pid pv msgs selected chain last_error (name # live) w = ?rest"
          using Some wp Inl x by (simp add: s_def Let_def w2_def)
        have "pass (\<lambda>p. p \<in> set (name # live)) (call_bound g) w w2"
          using one pass_rejected[OF one] by (simp add: w2_def)
        moreover have "pass (\<lambda>p. p \<in> set (name # live)) (length live * call_bound g) w2 (snd ?rest)"
          by (rule pass_mono[OF conjunct1[OF Cons.IH]]) simp_all
        ultimately have "pass (\<lambda>p. p \<in> set (name # live)) (length (name # live) * call_bound g) w (snd ?rest)"
          using pass_trans[of "\<lambda>p. p \<in> set (name # live)" "call_bound g" w w2 "length live * call_bound g"]
          by (simp only: list.size(4) add_mult_distrib One_nat_def[symmetric] mult_1 add.commute[of "length live * call_bound g"])
        moreover have "set (dkeys (lw_rejected w)) \<subseteq> set (dkeys (lw_rejected w2))" using rej by (auto simp: w2_def)
        ultimately show ?thesis unfolding eq using Cons.IH[of w2 "Some e"] by blast
      next
        case False
        then have eq: "try_providers env g k t pid pv msgs selected chain last_error (name # live) w = (Inl x, w1)"
          using Some wp Inl by (cases x) (simp_all add: s_def Let_def)
        have "\<exists>a. x = LLM_failure a \<and> ae_code a = LLM_REPAIR_FAILED"
          using with_provider_pass(3)[of env g s msgs w x] wp Inl False by auto
        then show ?thesis unfolding eq using more rej by (auto simp: chain_failure_def)
      qed
    qed
  qed
qed

lemma length_call_chain: "length (call_chain g selected) \<le> length (lg_chain g) + 1"
  by (auto simp: call_chain_def Let_def split: option.split intro: le_trans[OF length_filter_le])

text \<open>
  How a call may fail at all. Without a chain, with the code of a missing key. A rejected-keys error
  comes only when the selected model has no key, or all of the chain is rejected. The bare \<open>KeyError\<close>
  comes only for the configured model of the tier, and only if the catalog does not offer it, which
  \<open>load_settings\<close> refuses.
\<close>

definition tier_model :: "llm_gateway \<Rightarrow> tier \<Rightarrow> str" where
  "tier_model g t = (if t = REASONING then ls_reasoning_model (lg_settings g) else ls_fast_model (lg_settings g))"

definition call_failure :: "llm_gateway \<Rightarrow> mem_sink \<Rightarrow> tier \<Rightarrow> (str, str) dict \<Rightarrow> llm_exception \<Rightarrow> bool" where
  "call_failure g k t rejected x \<longleftrightarrow> (case x of
       LLM_failure a \<Rightarrow> if lg_chain g = [] then ae_code a = LLM_AUTH
         else ae_code a = LLM_REPAIR_FAILED \<or> (\<exists>last_error. a = all_failed k last_error)
     | LLM_keys_rejected a \<Rightarrow> ae_code a = LLM_AUTH \<and> lg_chain g \<noteq> [] \<and> (\<exists>selected. selection g t = Inr selected
         \<and> ((\<exists>p m. selected = Some (p, m) \<and> p \<notin> set (lg_providers g))
            \<or> list_all (\<lambda>n. dmem n rejected) (call_chain g selected)))
     | Unknown_model m \<Rightarrow> m = tier_model g t \<and> m \<noteq> [] \<and> dget (ct_choices (lg_catalog g)) m = None
     | Provider_failed e \<Rightarrow> False)"

lemma chain_call_failure:
  "chain_failure k (call_chain g selected) rej x \<Longrightarrow> lg_chain g \<noteq> [] \<Longrightarrow> selection g t = Inr selected \<Longrightarrow>
     call_failure g k t rej x"
  by (cases x) (auto simp: chain_failure_def call_failure_def)

lemma selection_failure: "selection g t = Inl x \<Longrightarrow> call_failure g k t rej x"
  by (auto simp: selection_def tier_model_def call_failure_def Let_def split: if_splits option.splits)

lemma generate_pass:
  "pass (\<lambda>p. p \<notin> set (dkeys (lw_rejected w))) ((length (lg_chain g) + 1) * call_bound g) w
     (snd (generate env g k t pid pv system user w))
   \<and> set (dkeys (lw_rejected w)) \<subseteq> set (dkeys (lw_rejected (snd (generate env g k t pid pv system user w))))
   \<and> (\<forall>x. fst (generate env g k t pid pv system user w) = Inl x \<longrightarrow>
        call_failure g k t (lw_rejected (snd (generate env g k t pid pv system user w))) x)"
proof -
  have "pass (\<lambda>p. p \<notin> set (dkeys (lw_rejected w))) ((length (lg_chain g) + 1) * call_bound g) w
      (snd (try_providers env g k t pid pv msgs selected (call_chain g selected) None
         (filter (\<lambda>n. \<not> dmem n (lw_rejected w)) (call_chain g selected)) w))" for msgs selected
  proof (rule pass_mono[OF conjunct1[OF try_providers_pass]])
    have "length (filter (\<lambda>n. \<not> dmem n (lw_rejected w)) (call_chain g selected)) \<le> length (lg_chain g) + 1"
      using length_call_chain[of g selected] length_filter_le order_trans by blast
    then show "length (filter (\<lambda>n. \<not> dmem n (lw_rejected w)) (call_chain g selected)) * call_bound g
        \<le> (length (lg_chain g) + 1) * call_bound g" by (rule mult_le_mono1)
  qed auto
  note tried = this
  show ?thesis
  proof (cases "lg_chain g = []")
    case True
    then show ?thesis by (simp add: generate_def pass_refl call_failure_def gateway_error_def)
  next
    case False
    note chain = this
    show ?thesis
    proof (cases "selection g t")
      case (Inl x)
      then show ?thesis using chain selection_failure[OF Inl] by (simp add: generate_def pass_refl)
    next
      case (Inr selected)
      let ?live = "filter (\<lambda>n. \<not> dmem n (lw_rejected w)) (call_chain g selected)"
      let ?run = "try_providers env g k t pid pv [(System, system), (User, user)] selected (call_chain g selected) None ?live w"
      consider (refused) p m where "selected = Some (p, m)" "p \<notin> set (lg_providers g)"
        | (dead) "\<not> (case selected of None \<Rightarrow> False | Some (p, _) \<Rightarrow> \<not> List.member (lg_providers g) p)" "?live = []"
        | (live) "\<not> (case selected of None \<Rightarrow> False | Some (p, _) \<Rightarrow> \<not> List.member (lg_providers g) p)" "?live \<noteq> []"
        by (cases selected) auto
      then show ?thesis
      proof cases
        case refused
        then show ?thesis using chain Inr
          by (simp add: generate_def pass_refl call_failure_def gateway_error_def)
      next
        case dead
        then have e: "generate env g k t pid pv system user w = (Inl (keys_rejected k w), w)"
          using chain Inr by (simp only: generate_def if_False sum.case Let_def refl if_True)
        have "list_all (\<lambda>n. dmem n (lw_rejected w)) (call_chain g selected)"
          using dead(2) by (simp add: list_all_iff filter_empty_conv)
        then show ?thesis using chain Inr unfolding e
          by (simp add: pass_refl call_failure_def keys_rejected_def gateway_error_def)
      next
        case live
        then have e: "generate env g k t pid pv system user w = ?run"
          using chain Inr by (simp only: generate_def if_False sum.case Let_def)
        show ?thesis unfolding e
          using tried[of "[(System, system), (User, user)]" selected] chain_call_failure[OF _ chain Inr]
            try_providers_pass[of ?live g w env k t pid pv "[(System, system), (User, user)]" selected "call_chain g selected" None]
          by blast
      qed
    qed
  qed
qed

section \<open>Properties\<close>

text \<open>
  C12. A model call comes to an end: it asks providers at most (retries + 1 + repairs) times each, and
  at most one more provider than the chain has. It never asks one whose key was rejected before,
  never takes a rejection back and leaves every event that was on the timeline where it was. It fails,
  if it fails, because no provider has a key, because an answer could not be repaired, because every
  provider failed, because the selected model has no key or the keys of the whole chain are rejected,
  or, with the bare \<open>KeyError\<close>, because the model configured for the tier is not in the catalog; the
  error of a provider never leaves it.
\<close>

theorem llm_call_ends:
  "\<exists>new evs. lw_asked (snd (generate env g k t pid pv system user w)) = lw_asked w + length new
     \<and> length new \<le> (length (lg_chain g) + 1) * (ls_retries (lg_settings g) + 1 + ls_repair_retries (lg_settings g))
     \<and> cl_llm_calls (lw_log (snd (generate env g k t pid pv system user w))) = cl_llm_calls (lw_log w) @ new
     \<and> list_all (\<lambda>c. \<not> dmem (lc_provider c) (lw_rejected w)) new
     \<and> set (dkeys (lw_rejected w)) \<subseteq> set (dkeys (lw_rejected (snd (generate env g k t pid pv system user w))))
     \<and> lw_timeline (snd (generate env g k t pid pv system user w)) = lw_timeline w @ evs
     \<and> (case fst (generate env g k t pid pv system user w) of Inr _ \<Rightarrow> True
        | Inl x \<Rightarrow> call_failure g k t (lw_rejected (snd (generate env g k t pid pv system user w))) x)"
proof -
  note gp = generate_pass[of w g env k t pid pv system user]
  obtain new evs where "cl_llm_calls (lw_log (snd (generate env g k t pid pv system user w))) = cl_llm_calls (lw_log w) @ new"
    "\<forall>c\<in>set new. lc_provider c \<notin> set (dkeys (lw_rejected w))"
    "length new \<le> (length (lg_chain g) + 1) * call_bound g"
    "lw_asked (snd (generate env g k t pid pv system user w)) = lw_asked w + length new"
    "lw_timeline (snd (generate env g k t pid pv system user w)) = lw_timeline w @ evs"
    using gp unfolding pass_def by blast
  moreover have "case fst (generate env g k t pid pv system user w) of Inr _ \<Rightarrow> True
      | Inl x \<Rightarrow> call_failure g k t (lw_rejected (snd (generate env g k t pid pv system user w))) x"
    using gp by (cases "fst (generate env g k t pid pv system user w)") simp_all
  moreover have "set (dkeys (lw_rejected w)) \<subseteq> set (dkeys (lw_rejected (snd (generate env g k t pid pv system user w))))"
    using gp by blast
  ultimately show ?thesis by (intro exI[of _ new] exI[of _ evs] conjI) (simp_all add: list_all_iff)
qed

text \<open>
  C40. The meter is the sum of the log: as long as every call goes through the gateway, the tokens and
  the cost the budget is checked against are those of the recorded calls, the model calls counted are
  the recorded ones that were answered, and there is one record per provider call.
\<close>

theorem llm_calls_accounted:
  assumes "accounted w"
  shows "accounted (snd (generate env g k t pid pv system user w))"
  using generate_pass[of w g env k t pid pv system user] assms by (simp add: pass_def)

theorem llm_calls_accounted_witness:
  "accounted (snd (generate \<lparr>le_complete = \<lambda>n p m c. Inr \<lparr>cm_text = lit ''{}'', cm_tokens_in = 3, cm_tokens_out = 2, cm_latency_ms = 1\<rparr>,
        le_parse = \<lambda>s. Inl (lit ''no''), le_span = \<lambda>n. []\<rparr>
      \<lparr>lg_providers = [lit ''gemini''], lg_catalog = \<lparr>ct_chain = [lit ''gemini''],
         ct_tiers = [(FAST, [(lit ''gemini'', lit ''m'')])], ct_prices = [], ct_choices = []\<rparr>,
       lg_settings = default_llm_settings\<rparr>
      \<lparr>ms_run_id = 1, ms_node = [], ms_iteration = None, ms_span_id = None, ms_parent_span_id = None\<rparr> FAST None None [] []
      \<lparr>lw_asked = 0, lw_timeline = [], lw_log = \<lparr>cl_llm_calls = [], cl_search_calls = []\<rparr>,
       lw_meter = meter_init default_budget_settings 0, lw_slept = [], lw_rejected = [], lw_models_used = [], lw_searched = 0,
       lw_search_rejected = [], lw_cache_reads = 0, lw_stored = [], lw_fetched = 0, lw_embedded = 0, lw_embedding_reads = 0,
       lw_vectors_stored = [], lw_embedding_off = None\<rparr>))"
  by (rule llm_calls_accounted) (simp add: accounted_def meter_init_def)

end
