(* ===== verification/Dates.thy ===== *)
theory Dates
  imports Numeric
begin

text \<open>
  \<open>datetime.date\<close> as the code uses it: a day is its proleptic Gregorian ordinal (1 is 1 January of
  year 1), here with the conversions of the standard library and the ISO format.
\<close>

definition is_leap :: "int \<Rightarrow> bool" where
  "is_leap y = (y mod 4 = 0 \<and> (y mod 100 \<noteq> 0 \<or> y mod 400 = 0))"

definition days_before_year :: "int \<Rightarrow> int" where
  "days_before_year year = (let y = year - 1 in y * 365 + y div 4 - y div 100 + y div 400)"

definition month_starts :: "int list" where
  "month_starts = [0, 31, 59, 90, 120, 151, 181, 212, 243, 273, 304, 334]"

definition days_before_month :: "int \<Rightarrow> int \<Rightarrow> int" where
  "days_before_month y m = month_starts ! nat (m - 1) + (if 2 < m \<and> is_leap y then 1 else 0)"

definition days_in_month :: "int \<Rightarrow> int \<Rightarrow> int" where
  "days_in_month y m =
     (if m = 2 then if is_leap y then 29 else 28 else if m \<in> {4, 6, 9, 11} then 30 else 31)"

definition valid_date :: "int \<Rightarrow> int \<Rightarrow> int \<Rightarrow> bool" where
  "valid_date y m d = (1 \<le> y \<and> y \<le> 9999 \<and> 1 \<le> m \<and> m \<le> 12 \<and> 1 \<le> d \<and> d \<le> days_in_month y m)"

definition ymd_ordinal :: "int \<Rightarrow> int \<Rightarrow> int \<Rightarrow> int" where
  "ymd_ordinal y m d = days_before_year y + days_before_month y m + d"

text \<open>Year and day of the year (from 0) of an ordinal, through cycles of 400, 100, 4 and 1 years.\<close>

definition ordinal_year :: "int \<Rightarrow> int \<times> int" where
  "ordinal_year ordinal =
     (let n = ordinal - 1;
          n400 = n div 146097; r400 = n mod 146097;
          n100 = r400 div 36524; r100 = r400 mod 36524;
          n4 = r100 div 1461; r4 = r100 mod 1461;
          n1 = r4 div 365; r1 = r4 mod 365;
          year = n400 * 400 + n100 * 100 + n4 * 4 + n1 + 1
      in if n1 = 4 \<or> n100 = 4 then (year - 1, 365) else (year, r1))"

text \<open>The month whose first day is the last one not after the day.\<close>

fun month_of :: "int \<Rightarrow> int \<Rightarrow> int list \<Rightarrow> int \<times> int" where
  "month_of y day [] = (1, day + 1)"
| "month_of y day (m # ms) = (if days_before_month y m \<le> day then (m, day - days_before_month y m + 1) else month_of y day ms)"

definition ordinal_ymd :: "int \<Rightarrow> int \<times> int \<times> int" where
  "ordinal_ymd ordinal =
     (case ordinal_year ordinal of (y, day) \<Rightarrow>
        case month_of y day [12, 11, 10, 9, 8, 7, 6, 5, 4, 3, 2, 1] of (m, d) \<Rightarrow> (y, m, d))"

definition year_of :: "int \<Rightarrow> int" where
  "year_of day = fst (ordinal_ymd day)"

definition isoformat :: "int \<Rightarrow> str" where
  "isoformat day = (case ordinal_ymd day of (y, m, d) \<Rightarrow>
     zpad 4 (nat y) @ [45] @ zpad 2 (nat m) @ [45] @ zpad 2 (nat d))"

text \<open>\<open>strftime("%Y-%m")\<close>; the year of a document has four digits.\<close>

definition year_month :: "int \<Rightarrow> str" where
  "year_month day = (case ordinal_ymd day of (y, m, d) \<Rightarrow> dec (nat y) @ [45] @ zpad 2 (nat m))"

lemma last_of_cycle: "1 \<le> x \<Longrightarrow> x \<le> n \<Longrightarrow> x mod n = 0 \<longleftrightarrow> x = (n::int)"
  by (cases "x = n") auto

lemma ordinal_year_of_ymd:
  assumes y: "1 \<le> y" and day: "0 \<le> day" "day < (if is_leap y then 366 else 365)"
  shows "ordinal_year (days_before_year y + day + 1) = (y, day)"
proof -
  define a where "a = (y - 1) div 400"
  define r where "r = (y - 1) mod 400"
  define b where "b = r div 100"
  define s where "s = r mod 100"
  define c where "c = s div 4"
  define e where "e = s mod 4"
  have "0 \<le> r" "r < 400" "0 \<le> s" "s < 100" "0 \<le> e" "e < 4" by (simp_all add: r_def s_def e_def)
  moreover have "y - 1 = 400 * a + r" "r = 100 * b + s" "s = 4 * c + e"
    by (simp_all add: a_def b_def c_def e_def s_def r_def)
  ultimately have ranges: "0 \<le> b" "b \<le> 3" "0 \<le> c" "c \<le> 24" "0 \<le> e" "e \<le> 3"
    and "y - 1 = 400 * a + r" "r = 100 * b + s" "s = 4 * c + e" by linarith+
  then have yy: "y - 1 = 400 * a + 100 * b + 4 * c + e" by simp
  have q: "(y - 1) div 4 = 100 * a + 25 * b + c" "(y - 1) div 100 = 4 * a + b"
    by (rule int_div_pos_eq[of _ _ _ e]; use yy ranges in simp) (rule int_div_pos_eq[of _ _ _ "4 * c + e"]; use yy ranges in simp)
  have n: "days_before_year y + day = 146097 * a + (36524 * b + 1461 * c + 365 * e + day)"
    unfolding days_before_year_def Let_def q a_def[symmetric] unfolding yy by (simp add: algebra_simps)
  have leap: "is_leap y \<longleftrightarrow> e = 3 \<and> (c \<noteq> 24 \<or> b = 3)"
  proof -
    have "y = 4 * (100 * a + 25 * b + c) + (e + 1)" and "y = 100 * (4 * a + b) + (4 * c + e + 1)"
      and "y = 400 * a + (100 * b + 4 * c + e + 1)"
      using yy by simp_all
    then have "y mod 4 = (e + 1) mod 4" and "y mod 100 = (4 * c + e + 1) mod 100"
      and "y mod 400 = (100 * b + 4 * c + e + 1) mod 400"
      by (metis mod_mult_self4)+
    moreover have "(e + 1) mod 4 = 0 \<longleftrightarrow> e = 3" using ranges last_of_cycle[of "e + 1" 4] by auto
    moreover have "(4 * c + e + 1) mod 100 = 0 \<longleftrightarrow> c = 24 \<and> e = 3"
    proof -
      have "4 * c + e + 1 = 100 \<longleftrightarrow> c = 24 \<and> e = 3" using ranges by (intro iffI conjI) linarith+
      then show ?thesis using ranges last_of_cycle[of "4 * c + e + 1" 100] by simp
    qed
    moreover have "(100 * b + 4 * c + e + 1) mod 400 = 0 \<longleftrightarrow> b = 3 \<and> c = 24 \<and> e = 3"
    proof -
      have "100 * b + 4 * c + e + 1 = 400 \<longleftrightarrow> b = 3 \<and> c = 24 \<and> e = 3"
        using ranges by (intro iffI conjI) linarith+
      then show ?thesis using ranges last_of_cycle[of "100 * b + 4 * c + e + 1" 400] by simp
    qed
    ultimately show ?thesis by (auto simp: is_leap_def)
  qed
  show ?thesis
  proof (cases "day = 365")
    case False
    then have d: "day \<le> 364" using day by (simp split: if_splits)
    let ?k = "1461 * c + 365 * e + day"
    have k: "0 \<le> ?k" "?k < 36524"
    proof -
      show "0 \<le> ?k" using ranges day by simp
      show "?k < 36524" using ranges d by linarith
    qed
    have "36524 * b + ?k < 146097" "0 \<le> 36524 * b + ?k" using k ranges by linarith+
    then have m400: "(146097 * a + (36524 * b + ?k)) div 146097 = a" "(146097 * a + (36524 * b + ?k)) mod 146097 = 36524 * b + ?k"
      by (auto intro: int_div_pos_eq int_mod_pos_eq)
    have m100: "(36524 * b + ?k) div 36524 = b" "(36524 * b + ?k) mod 36524 = ?k"
      using k by (auto intro: int_div_pos_eq int_mod_pos_eq)
    have "365 * e + day < 1461" "0 \<le> 365 * e + day" using ranges d day by linarith+
    then have m4: "?k div 1461 = c" "?k mod 1461 = 365 * e + day"
      by (auto intro: int_div_pos_eq int_mod_pos_eq)
    have m1: "(365 * e + day) div 365 = e" "(365 * e + day) mod 365 = day"
      using d day by (auto intro: int_div_pos_eq int_mod_pos_eq)
    have N: "days_before_year y + day + 1 - 1 = 146097 * a + (36524 * b + ?k)" using n by simp
    show ?thesis
      unfolding ordinal_year_def Let_def N m400 m100 m4 m1 using ranges yy by simp
  next
    case True
    then have l: "is_leap y" using day by (simp split: if_splits)
    then have e: "e = 3" and cb: "c \<noteq> 24 \<or> b = 3" using leap by blast+
    show ?thesis
    proof (cases "c = 24")
      case c: True
      then have b: "b = 3" using cb by simp
      have N: "days_before_year y + day + 1 - 1 = 146097 * a + 146096" using n True e c b by simp
      have m: "(146097 * a + 146096) div 146097 = a" "(146097 * a + 146096) mod 146097 = 146096"
        by (auto intro: int_div_pos_eq int_mod_pos_eq)
      show ?thesis unfolding ordinal_year_def Let_def N m using yy e c b True by simp
    next
      case c: False
      then have k: "1461 * c + 1460 < 36524" "0 \<le> 1461 * c + 1460" using ranges by linarith+
      then have k': "36524 * b + (1461 * c + 1460) < 146097" "0 \<le> 36524 * b + (1461 * c + 1460)"
        using ranges by linarith+
      have N: "days_before_year y + day + 1 - 1 = 146097 * a + (36524 * b + (1461 * c + 1460))" using n True e by simp
      have m: "(146097 * a + (36524 * b + (1461 * c + 1460))) div 146097 = a"
        "(146097 * a + (36524 * b + (1461 * c + 1460))) mod 146097 = 36524 * b + (1461 * c + 1460)"
        "(36524 * b + (1461 * c + 1460)) div 36524 = b" "(36524 * b + (1461 * c + 1460)) mod 36524 = 1461 * c + 1460"
        "(1461 * c + 1460) div 1461 = c" "(1461 * c + 1460) mod 1461 = 1460"
        using k k' by (auto intro: int_div_pos_eq int_mod_pos_eq)
      show ?thesis unfolding ordinal_year_def Let_def N m using yy e True ranges by simp
    qed
  qed
qed

lemma month_of_day:
  assumes "1 \<le> m" "m \<le> 12" "1 \<le> d" "d \<le> days_in_month y m"
  shows "month_of y (days_before_month y m + d - 1) [12, 11, 10, 9, 8, 7, 6, 5, 4, 3, 2, 1] = (m, d)"
proof -
  have "m = 1 \<or> m = 2 \<or> m = 3 \<or> m = 4 \<or> m = 5 \<or> m = 6 \<or> m = 7 \<or> m = 8 \<or> m = 9 \<or> m = 10 \<or> m = 11 \<or> m = 12"
    using assms by presburger
  then show ?thesis using assms
    by (elim disjE; cases "is_leap y")
      (simp_all add: days_before_month_def days_in_month_def month_starts_def)
qed

text \<open>Reading a date back from its ordinal.\<close>

lemma ordinal_roundtrip:
  assumes "valid_date y m d"
  shows "ordinal_ymd (ymd_ordinal y m d) = (y, m, d)"
proof -
  have v: "1 \<le> y" "1 \<le> m" "m \<le> 12" "1 \<le> d" "d \<le> days_in_month y m" using assms by (auto simp: valid_date_def)
  let ?day = "days_before_month y m + d - 1"
  have "m = 1 \<or> m = 2 \<or> m = 3 \<or> m = 4 \<or> m = 5 \<or> m = 6 \<or> m = 7 \<or> m = 8 \<or> m = 9 \<or> m = 10 \<or> m = 11 \<or> m = 12"
    using v by presburger
  then have "0 \<le> ?day \<and> ?day < (if is_leap y then 366 else 365)" using v
    by (elim disjE; cases "is_leap y")
      (simp_all add: days_before_month_def days_in_month_def month_starts_def)
  then have "ordinal_year (days_before_year y + ?day + 1) = (y, ?day)"
    using ordinal_year_of_ymd v(1) by blast
  moreover have "days_before_year y + ?day + 1 = ymd_ordinal y m d" by (simp add: ymd_ordinal_def)
  ultimately show ?thesis using month_of_day[OF v(2-5)] by (simp add: ordinal_ymd_def)
qed

end
