(* ===== verification/QueryNode.thy ===== *)
theory QueryNode
  imports LlmGateway Dedup Coverage Dates
begin

text \<open>
  The node \<open>generate_queries\<close> of \<open>agent/nodes/search.py\<close>: it opens a round, decides what to ask about
  (\<open>plan_targets\<close>), asks the model for queries, admits new ones only, tops up with templates, and
  gives a sub-question up when nothing new is left to ask. The model call is the argument \<open>predict\<close>:
  rendered inputs to an answer, with the world of the LLM gateway (timeline, meter, log) changed as
  it goes. Sub-questions are identified by their id.
\<close>

section \<open>What nodes work with\<close>

type_synonym inputs = "(str \<times> json) list"
type_synonym ('i, 'o) predictor = "'i \<Rightarrow> mem_sink \<Rightarrow> llm_world \<Rightarrow> (llm_exception + 'o) \<times> llm_world"

definition say_info :: "mem_sink \<Rightarrow> str \<Rightarrow> str \<Rightarrow> emit_args \<Rightarrow> llm_world \<Rightarrow> llm_world" where
  "say_info k t m a w = w\<lparr>lw_timeline := mem_info k t m a (lw_timeline w)\<rparr>"

definition say_warn :: "mem_sink \<Rightarrow> str \<Rightarrow> str \<Rightarrow> emit_args \<Rightarrow> llm_world \<Rightarrow> llm_world" where
  "say_warn k t m a w = w\<lparr>lw_timeline := mem_warn k t m a (lw_timeline w)\<rparr>"

definition labelled :: "str \<Rightarrow> (str \<times> json) list \<Rightarrow> emit_args" where
  "labelled label data = no_args\<lparr>em_label := Some label, em_data := data\<rparr>"

definition strs_json :: "str list \<Rightarrow> json" where
  "strs_json xs = JList (map JStr xs)"

definition numbers_json :: "(str, real) dict \<Rightarrow> json" where
  "numbers_json d = JObj (map (\<lambda>(k, v). (k, JNum v)) d)"

text \<open>Mutating the object \<open>state.subquestion(i)\<close> returns: the first of that id.\<close>

fun update_first :: "('a \<Rightarrow> bool) \<Rightarrow> ('a \<Rightarrow> 'a) \<Rightarrow> 'a list \<Rightarrow> 'a list" where
  "update_first P f [] = []"
| "update_first P f (x # xs) = (if P x then f x # xs else x # update_first P f xs)"

definition update_subquestion :: "str \<Rightarrow> (subquestion \<Rightarrow> subquestion) \<Rightarrow> research_state \<Rightarrow> research_state" where
  "update_subquestion i f st = st\<lparr>rs_plan := update_first (\<lambda>s. sq_id s = i) f (rs_plan st)\<rparr>"

section \<open>Targets of a round\<close>

fun purpose_value :: "query_purpose \<Rightarrow> str" where
  "purpose_value INITIAL = (lit ''initial'')"
| "purpose_value GAP = (lit ''gap'')"
| "purpose_value CONFLICT = (lit ''conflict'')"
| "purpose_value BROADENED = (lit ''broadened'')"

record target =
  tg_subq :: subquestion
  tg_quota :: nat
  tg_purpose :: query_purpose
  tg_facet_id :: "str option"
  tg_facet_name :: "str option"
  tg_contradiction_id :: "str option"
  tg_detail :: str

type_synonym target_key = "str \<times> str option \<times> str option"

definition target_key :: "target \<Rightarrow> target_key" where
  "target_key t = (sq_id (tg_subq t), tg_facet_id t, tg_contradiction_id t)"

definition describe :: "target \<Rightarrow> json" where
  "describe t = JObj
     [((lit ''subq_id''), JStr (sq_id (tg_subq t))), ((lit ''sub_question''), JStr (sq_text (tg_subq t))),
      ((lit ''facet_id''), opt_json (tg_facet_id t)), ((lit ''facet''), opt_json (tg_facet_name t)),
      ((lit ''purpose''), JStr (purpose_value (tg_purpose t))), ((lit ''detail''), JStr (tg_detail t)),
      ((lit ''max_queries''), JNum (real (tg_quota t)))]"

definition claims_at :: "research_state \<Rightarrow> str \<Rightarrow> str \<Rightarrow> claim list" where
  "claims_at st subq_id facet_id =
     filter (\<lambda>c. c_subq_id c = subq_id \<and> c_facet_id c = Some facet_id) (dvals (rs_claims st))"

text \<open>\<open>c.value or c.text\<close>: an empty value counts as none.\<close>

definition value_or_text :: "claim \<Rightarrow> str" where
  "value_or_text c = (case c_value c of None \<Rightarrow> c_text c | Some v \<Rightarrow> if v = [] then c_text c else v)"

definition as_of_or_undated :: "claim \<Rightarrow> str" where
  "as_of_or_undated c =
     (case c_as_of c of None \<Rightarrow> (lit ''undated'') | Some v \<Rightarrow> if v = [] then (lit ''undated'') else v)"

definition freshness_gap :: "research_state \<Rightarrow> str \<Rightarrow> str \<Rightarrow> str" where
  "freshness_gap st subq_id facet_id =
     (let authority_gaps = filter (\<lambda>c. starts_with (c_validation_reason c) (lit ''Legal authority:'')) (claims_at st subq_id facet_id);
          authority_hint = (if authority_gaps = [] then []
            else (lit ''. Find the operative regulation, article or detailed regulator guidance, including '')
              @ (lit ''scope and exceptions. Do not use law-firm commentary, press releases or overview '')
              @ (lit ''timelines as the final evidence of a legal obligation. Candidates needing primary '')
              @ (lit ''confirmation: '') @ join (lit ''; '') (map c_text (take 3 authority_gaps)));
          held = filter c_requires_fresh_confirmation (claims_at st subq_id facet_id)
      in if held = [] then authority_hint
         else authority_hint
           @ (lit ''. Fresh official confirmation needed as of '') @ isoformat (rs_as_of st) @ (lit '': '')
           @ join (lit ''; '') (map (\<lambda>c. given (c_entity c) @ (lit '' '') @ given (c_attribute c) @ (lit '': '')
               @ value_or_text c @ (lit '' ('') @ as_of_or_undated c @ (lit '')'')) (take 3 held))
           @ (lit ''. '') @ (lit ''Search for amendments, replacement thresholds and current consolidated guidance; '')
           @ (lit ''do not repeat the old source as proof of the current rule.''))"

definition blank_target :: "subquestion \<Rightarrow> nat \<Rightarrow> query_purpose \<Rightarrow> target" where
  "blank_target s quota purpose = \<lparr>tg_subq = s, tg_quota = quota, tg_purpose = purpose, tg_facet_id = None,
     tg_facet_name = None, tg_contradiction_id = None, tg_detail = []\<rparr>"

definition conflict_targets :: "research_state \<Rightarrow> target list" where
  "conflict_targets st = List.map_filter (\<lambda>x.
     if x_resolved x \<or> x_followup_attempted x then None
     else case subquestion_of st (x_subq_id x) of
            None \<Rightarrow> None
          | Some s \<Rightarrow> if \<not> sq_open s then None
              else Some ((blank_target s 1 CONFLICT)\<lparr>tg_contradiction_id := Some (x_id x), tg_detail := x_summary x\<rparr>))
     (rs_contradictions st)"

definition gap_targets :: "budget_settings \<Rightarrow> research_state \<Rightarrow> target list" where
  "gap_targets b st = concat (map (\<lambda>s. map (\<lambda>f.
     (blank_target s (bs_queries_per_gap_followup_round b) GAP)\<lparr>tg_facet_id := Some (f_id f),
        tg_facet_name := Some (f_name f), tg_detail := f_description f @ freshness_gap st (sq_id s) (f_id f)\<rparr>)
     (missing_facets s)) (open_subquestions st))"

text \<open>Cutting the targets of a follow-up round to the cap; \<open>used\<close> is what the earlier ones take.\<close>

fun trim_targets :: "nat \<Rightarrow> nat \<Rightarrow> target list \<Rightarrow> target list" where
  "trim_targets cap used [] = []"
| "trim_targets cap used (t # ts) =
     (if cap \<le> used then []
      else let quota = min (tg_quota t) (cap - used)
           in t\<lparr>tg_quota := quota\<rparr> # trim_targets cap (used + quota) ts)"

definition plan_targets :: "budget_settings \<Rightarrow> budget_meter \<Rightarrow> research_state \<Rightarrow> target list" where
  "plan_targets b m st =
     (let left = searches_left m; open_subqs = open_subquestions st
      in if open_subqs = [] \<or> left = 0 then []
         else if rs_iteration st = 1 then
           map (\<lambda>s. blank_target s (max 1 (min (bs_queries_per_subquestion_first_round b) (left div length open_subqs))) INITIAL)
             open_subqs
         else trim_targets (min (bs_max_queries_per_followup_round b) left) 0
                (conflict_targets st @ gap_targets b st))"

definition fallback_queries :: "target \<Rightarrow> research_state \<Rightarrow> str list" where
  "fallback_queries t st =
     (let year = (case ts_start (an_time_scope (rs_analysis st)) of None \<Rightarrow> [] | Some d \<Rightarrow> dec (nat (year_of d)));
          base = sq_text (tg_subq t);
          tr = (rs_language st = (lit ''tr''));
          facet = given (tg_facet_name t);
          options = (case tg_purpose t of
              INITIAL \<Rightarrow> [base, strip (base @ (lit '' '') @ year),
                          base @ (lit '' '') @ (if tr then (lit ''resmi kaynak'') else (lit ''official''))]
            | GAP \<Rightarrow> [strip (base @ (lit '' '') @ facet),
                      strip (facet @ (lit '' '') @ join (lit '' '') (take 2 (an_entities (rs_analysis st))))]
            | CONFLICT \<Rightarrow> [tg_detail t @ (lit '' '') @ (if tr then (lit ''resmi'') else (lit ''official source''))]
            | BROADENED \<Rightarrow> [base])
      in map (filter (\<lambda>c. c \<noteq> 63 \<and> c \<noteq> 33)) options)"

section \<open>Admission\<close>

record query_out =
  qo_subq_id :: str
  qo_facet_id :: "str option"
  qo_text :: str
  qo_rationale :: str

record queries_output =
  qs_rationale :: str
  qs_queries :: "query_out list"

text \<open>The variables the closure \<open>admit\<close> of \<open>generate_queries\<close> works on.\<close>

record admission =
  ad_dedup :: query_dedup
  ad_queries :: "query_record list"
  ad_admitted :: "(target_key, query_record list) dict"

definition taken :: "admission \<Rightarrow> target_key \<Rightarrow> query_record list" where
  "taken a key = dget_or (ad_admitted a) key []"

definition admitted_total :: "admission \<Rightarrow> nat" where
  "admitted_total a = sum_list (map length (dvals (ad_admitted a)))"

definition admit_query :: "nat \<Rightarrow> nat \<Rightarrow> target \<Rightarrow> str \<Rightarrow> str \<Rightarrow> admission \<Rightarrow> admission" where
  "admit_query iteration limit t text' reason a =
     (let key = target_key t
      in if tg_quota t \<le> length (taken a key) \<or> limit \<le> admitted_total a then a
         else let cleaned = take 200 (join (lit '' '') (split_ws text'))
              in if length cleaned < 3 then a
                 else (case admit (ad_dedup a) cleaned of
                         (False, qd) \<Rightarrow> a\<lparr>ad_dedup := qd\<rparr>
                       | (True, qd) \<Rightarrow>
                           (let record' = \<lparr>q_id = (lit ''q'') @ dec (length (ad_queries a) + 1), q_text = cleaned,
                                  q_subq_id = sq_id (tg_subq t), q_facet_id = tg_facet_id t,
                                  q_purpose = tg_purpose t, q_rationale = take 200 reason,
                                  q_iteration = iteration, q_status = PLANNED, q_provider = None,
                                  q_result_count = 0, q_cache_hit = False, q_error_code = None\<rparr>
                            in a\<lparr>ad_dedup := qd, ad_queries := ad_queries a @ [record'],
                                 ad_admitted := dput key (taken a key @ [record']) (ad_admitted a)\<rparr>)))"

text \<open>The target a query of the model is for: its key, or else the first one of its sub-question.\<close>

definition match_target :: "target list \<Rightarrow> query_out \<Rightarrow> target option" where
  "match_target targets q =
     (case dget (rev (map (\<lambda>t. (target_key t, t)) targets)) (qo_subq_id q, qo_facet_id q, None) of
        Some t \<Rightarrow> Some t
      | None \<Rightarrow> find (\<lambda>t. sq_id (tg_subq t) = qo_subq_id q) targets)"

definition admit_answer :: "nat \<Rightarrow> nat \<Rightarrow> target list \<Rightarrow> query_out list \<Rightarrow> admission \<Rightarrow> admission" where
  "admit_answer iteration limit targets qs a =
     fold (\<lambda>q a. case match_target targets q of
                   None \<Rightarrow> a
                 | Some t \<Rightarrow> admit_query iteration limit t (qo_text q) (qo_rationale q) a) qs a"

definition top_up :: "research_state \<Rightarrow> nat \<Rightarrow> nat \<Rightarrow> target list \<Rightarrow> admission \<Rightarrow> admission" where
  "top_up st iteration limit targets a =
     fold (\<lambda>t a. if length (taken a (target_key t)) < min 1 (tg_quota t)
                 then fold (\<lambda>text' a. admit_query iteration limit t text' (lit ''template'') a) (fallback_queries t st) a
                 else a) targets a"

section \<open>The node\<close>

text \<open>What a target's queries, or their absence, do to its sub-question and its contradiction.\<close>

definition node_error :: "error_code \<Rightarrow> mem_sink \<Rightarrow> str \<Rightarrow> str option \<Rightarrow> agent_error" where
  "node_error = gateway_error"

definition close_target :: "mem_sink \<Rightarrow> admission \<Rightarrow> target \<Rightarrow> research_state \<times> llm_world \<Rightarrow> research_state \<times> llm_world" where
  "close_target k a t s =
     (case s of (st, w) \<Rightarrow>
        let queries = taken a (target_key t); i = sq_id (tg_subq t)
        in if queries \<noteq> [] then
             (let st1 = update_subquestion i (\<lambda>q. q\<lparr>sq_status := SEARCHING,
                          sq_queries_tried := sq_queries_tried q @ map q_text queries\<rparr>) st
              in (case tg_contradiction_id t of
                    None \<Rightarrow> st1
                  | Some x \<Rightarrow> if x = [] then st1
                      else st1\<lparr>rs_contradictions := map (\<lambda>c. if x_id c = x then c\<lparr>x_followup_attempted := True\<rparr> else c)
                             (rs_contradictions st1)\<rparr>, w))
           else if 1 < rs_iteration st \<and> tg_purpose t = GAP
             \<and> list_all (\<lambda>f. taken a (i, Some (f_id f), None) = []) (sq_facets (tg_subq t)) then
             (update_subquestion i (\<lambda>q. q\<lparr>sq_status := EXHAUSTED, sq_exhausted_reason := Some REPEATED_QUERIES_REASON\<rparr>) st,
              say_error k (node_error DUPLICATE_QUERY k ((lit ''mark '') @ i @ (lit '' exhausted''))
                (Some (lit ''no new query for its missing facets''))) w)
           else (st, w))"

definition queries_inputs :: "str \<Rightarrow> research_state \<Rightarrow> target list \<Rightarrow> nat \<Rightarrow> inputs" where
  "queries_inputs today st targets limit =
     [((lit ''question''), JStr (rs_question st)), ((lit ''language''), JStr (rs_language st)), ((lit ''today''), JStr today),
      ((lit ''round''), JNum (real (rs_iteration st))), ((lit ''targets''), JList (map describe targets)),
      ((lit ''tried_queries''), strs_json (if rs_queries st = [] then [(lit ''(none)'')]
         else map q_text (drop (length (rs_queries st) - 60) (rs_queries st)))),
      ((lit ''limit''), JNum (real limit))]"

definition planned_json :: "query_record \<Rightarrow> json" where
  "planned_json q = JObj [((lit ''id''), JStr (q_id q)), ((lit ''text''), JStr (q_text q)), ((lit ''subq''), JStr (q_subq_id q)),
     ((lit ''facet''), opt_json (q_facet_id q)), ((lit ''purpose''), JStr (purpose_value (q_purpose q))),
     ((lit ''why''), JStr (q_rationale q))]"

text \<open>The round opened: counters, snapshot, pending results.\<close>

definition open_round :: "research_state \<Rightarrow> research_state" where
  "open_round st =
     (let st1 = st\<lparr>rs_iteration := rs_iteration st + 1\<rparr>
      in st1\<lparr>rs_round_snapshot := map (\<lambda>(i, clusters, origins). (i, [clusters, origins])) (progress_snapshot st1),
             rs_pending_hits := []\<rparr>)"

definition finish_queries ::
  "mem_sink \<Rightarrow> target list \<Rightarrow> str \<Rightarrow> admission \<Rightarrow> research_state \<Rightarrow> llm_world \<Rightarrow> research_state \<times> llm_world" where
  "finish_queries k targets rationale a st w =
     (let (st1, w1) = fold (close_target k a) targets (st\<lparr>rs_queries := ad_queries a\<rparr>, w);
          planned = filter (\<lambda>q. q_iteration q = rs_iteration st1) (rs_queries st1)
      in (st1, say_info k (lit ''queries_generated'')
            ((lit ''Generated '') @ dec (length planned) @ (lit '' queries for '') @ dec (length targets) @ (lit '' targets.''))
            (labelled (lit ''Query'') [((lit ''rationale''), JStr rationale), ((lit ''queries''), JList (map planned_json planned))]) w1))"

definition generate_queries ::
  "(inputs, queries_output) predictor \<Rightarrow> budget_settings \<Rightarrow> real \<Rightarrow> str \<Rightarrow> mem_sink \<Rightarrow> real \<Rightarrow> research_state \<Rightarrow> llm_world
     \<Rightarrow> (llm_exception + research_state) \<times> llm_world" where
  "generate_queries predict b threshold today k0 now st0 w0 =
     (let st = open_round st0;
          k = k0\<lparr>ms_iteration := Some (rs_iteration st)\<rparr>;
          w1 = w0\<lparr>lw_meter := (lw_meter w0)\<lparr>bm_iteration := rs_iteration st\<rparr>\<rparr>;
          w2 = say_info k (lit ''iteration_started'') ((lit ''Round '') @ dec (rs_iteration st) @ (lit '' started.''))
                 ((labelled (lit ''Research'') [((lit ''budget''), numbers_json (meter_snapshot now (lw_meter w1)))])
                    \<lparr>em_iteration := Some (rs_iteration st)\<rparr>) w1;
          targets = plan_targets b (lw_meter w2) st
      in if targets = [] then
           (Inr st, say_info k (lit ''queries_generated'') (lit ''No open targets for this round.'') (labelled (lit ''Query'') []) w2)
         else
           (let limit = sum_list (map tg_quota targets);
                a0 = \<lparr>ad_dedup = query_dedup_init threshold (map q_text (rs_queries st)),
                      ad_queries = rs_queries st, ad_admitted = []\<rparr>
            in case predict (queries_inputs today st targets limit) k w2 of
                 (Inr output, w3) \<Rightarrow>
                   (let a = top_up st (rs_iteration st) limit targets
                              (admit_answer (rs_iteration st) limit targets (qs_queries output) a0);
                        (st', w') = finish_queries k targets (qs_rationale output) a st w3
                    in (Inr st', w'))
               | (Inl (LLM_failure e), w3) \<Rightarrow>
                   (let a = top_up st (rs_iteration st) limit targets a0;
                        (st', w') = finish_queries k targets (lit ''Template queries (the model was unavailable).'') a st w3
                    in (Inr st', w'))
               | (Inl x, w3) \<Rightarrow> (Inl x, w3)))"

end
