(* ===== verification/NodeBase.thy ===== *)
theory NodeBase
  imports QueryNode GateRunner
begin

text \<open>
  What the nodes share: the exceptions that can leave a node, lookups that raise, the fence around web
  content (\<open>prompting/predict.py\<close>), and the JSON forms of enumerations and claims.
\<close>

section \<open>Exceptions of a node\<close>

datatype node_exception =
  Model_raised llm_exception
| Number_raised numeric_error
| Key_error str
| Index_error
| Value_error
| Search_keys_rejected agent_error
| Gate_raised gate_error
| Run_rejected agent_error
| Assertion_failed

fun lift :: "('e \<Rightarrow> 'f) \<Rightarrow> 'e + 'a \<Rightarrow> 'f + 'a" where
  "lift f (Inl e) = Inl (f e)"
| "lift f (Inr x) = Inr x"

lemma lift_Inr_iff [simp]: "lift f m = Inr x \<longleftrightarrow> m = Inr x"
  by (cases m) auto

definition dget_err :: "(str, 'v) dict \<Rightarrow> str \<Rightarrow> node_exception + 'v" where
  "dget_err d k = (case dget d k of None \<Rightarrow> Inl (Key_error k) | Some v \<Rightarrow> Inr v)"

text \<open>A loop over a state and a world that stops at the first exception.\<close>

fun rfold :: "('a \<Rightarrow> 's \<Rightarrow> 'w \<Rightarrow> ('e + 's) \<times> 'w) \<Rightarrow> 'a list \<Rightarrow> 's \<Rightarrow> 'w \<Rightarrow> ('e + 's) \<times> 'w" where
  "rfold f [] s w = (Inr s, w)"
| "rfold f (x # xs) s w =
     (case f x s w of (Inl e, w') \<Rightarrow> (Inl e, w') | (Inr s', w') \<Rightarrow> rfold f xs s' w')"

lemma rfold_invariant:
  assumes "rfold f xs s w = (Inr s', w')" and "P s"
    and "\<And>x s w s' w'. x \<in> set xs \<Longrightarrow> P s \<Longrightarrow> f x s w = (Inr s', w') \<Longrightarrow> P s'"
  shows "P s'"
  using assms
proof (induction xs arbitrary: s w)
  case (Cons x xs)
  obtain r w1 where f: "f x s w = (r, w1)" by (cases "f x s w")
  with Cons.prems(1) obtain s1 where r: "r = Inr s1" by (cases r) auto
  have "rfold f xs s1 w1 = (Inr s', w')" using Cons.prems(1) f r by simp
  moreover have "P s1" using Cons.prems(3)[OF list.set_intros(1) Cons.prems(2)] f r by simp
  ultimately show ?case using Cons.IH[of s1 w1] Cons.prems(3) by (meson list.set_intros(2))
qed simp

section \<open>Web content in prompts\<close>

text \<open>\<open>str.replace(old, new)\<close> for a non-empty \<open>old\<close>.\<close>

function str_replace :: "str \<Rightarrow> str \<Rightarrow> str \<Rightarrow> str" where
  "str_replace old new s =
     (case s of [] \<Rightarrow> []
      | c # cs \<Rightarrow> if old \<noteq> [] \<and> starts_with s old then new @ str_replace old new (drop (length old) s)
                 else c # str_replace old new cs)"
  by pat_completeness auto
termination
  by (relation "measure (\<lambda>(old, new, s). length s)") auto

declare str_replace.simps [simp del]

definition closing_tag :: str where
  "closing_tag = (lit ''</untrusted_source>'')"

definition untrusted :: "str \<Rightarrow> (str \<times> str) list \<Rightarrow> str" where
  "untrusted content attributes =
     (lit ''<untrusted_source '') @ join (lit '' '') (map (\<lambda>(key, v). key @ [61, 34] @ v @ [34]) attributes) @ (lit ''>'') @ [10]
     @ str_replace closing_tag (lit ''</ untrusted_source>'') content @ [10] @ closing_tag"

section \<open>JSON forms\<close>

fun claim_kind_value :: "claim_kind \<Rightarrow> str" where
  "claim_kind_value FACT = (lit ''fact'')"
| "claim_kind_value C_NUMBER = (lit ''number'')"
| "claim_kind_value C_DATE = (lit ''date'')"
| "claim_kind_value EVENT = (lit ''event'')"
| "claim_kind_value DEFINITION = (lit ''definition'')"
| "claim_kind_value OPINION = (lit ''opinion'')"
| "claim_kind_value FORECAST = (lit ''forecast'')"

fun validation_status_value :: "validation_status \<Rightarrow> str" where
  "validation_status_value LEGACY = (lit ''legacy'')"
| "validation_status_value V_SUPPORTED = (lit ''supported'')"
| "validation_status_value UNSUPPORTED = (lit ''unsupported'')"
| "validation_status_value UNAVAILABLE = (lit ''unavailable'')"

fun freshness_value :: "freshness \<Rightarrow> str" where
  "freshness_value NOT_TIME_SENSITIVE = (lit ''not_time_sensitive'')"
| "freshness_value CURRENT = (lit ''current'')"
| "freshness_value HISTORICAL = (lit ''historical'')"
| "freshness_value UNDATED = (lit ''undated'')"

text \<open>\<open>claim.model_dump(exclude={"id"})\<close>\<close>

definition claim_json :: "claim \<Rightarrow> (str \<times> json) list" where
  "claim_json c =
     [((lit ''subq_id''), JStr (c_subq_id c)), ((lit ''facet_id''), opt_json (c_facet_id c)), ((lit ''doc_id''), JStr (c_doc_id c)),
      ((lit ''origin_id''), JStr (c_origin_id c)), ((lit ''text''), JStr (c_text c)), ((lit ''quote''), JStr (c_quote c)),
      ((lit ''kind''), JStr (claim_kind_value (c_kind c))), ((lit ''entity''), opt_json (c_entity c)),
      ((lit ''attribute''), opt_json (c_attribute c)), ((lit ''value''), opt_json (c_value c)), ((lit ''unit''), opt_json (c_unit c)),
      ((lit ''as_of''), opt_json (c_as_of c)), ((lit ''conditions''), strs_json (c_conditions c)),
      ((lit ''effective_from''), opt_json (c_effective_from c)), ((lit ''effective_until''), opt_json (c_effective_until c)),
      ((lit ''time_sensitive''), JBool (c_time_sensitive c)),
      ((lit ''validation_status''), JStr (validation_status_value (c_validation_status c))),
      ((lit ''validation_reason''), JStr (c_validation_reason c)), ((lit ''freshness''), JStr (freshness_value (c_freshness c))),
      ((lit ''requires_fresh_confirmation''), JBool (c_requires_fresh_confirmation c)),
      ((lit ''quote_match_method''), opt_json (c_quote_match_method c)),
      ((lit ''quote_match_score''), (case c_quote_match_score c of None \<Rightarrow> JNull | Some x \<Rightarrow> JNum x)),
      ((lit ''attributed_to''), opt_json (c_attributed_to c)), ((lit ''iteration''), JNum (real (c_iteration c)))]"

text \<open>\<open>content or snippet\<close>, and a date or \<open>unknown\<close>.\<close>

definition body_of :: "document \<Rightarrow> str" where
  "body_of d = (if d_content d = [] then d_snippet d else d_content d)"

definition date_or_unknown :: "day option \<Rightarrow> str" where
  "date_or_unknown d = (case d of None \<Rightarrow> (lit ''unknown'') | Some x \<Rightarrow> isoformat x)"

definition update_document :: "str \<Rightarrow> (document \<Rightarrow> document) \<Rightarrow> research_state \<Rightarrow> research_state" where
  "update_document i f st = st\<lparr>rs_documents := dmap_at i f (rs_documents st)\<rparr>"


section \<open>Numbered tables\<close>

text \<open>
  Tables whose ids are a prefix and a running number, as the state has them (\<open>d1\<close>, \<open>c1\<close>, \<open>q1\<close>, \<open>x1\<close>): the
  next id is always new, and an insertion under it appends.
\<close>

definition numbered :: "str \<Rightarrow> ('v \<Rightarrow> str) \<Rightarrow> (str, 'v) dict \<Rightarrow> bool" where
  "numbered p f d \<longleftrightarrow> dkeys d = map (next_id p) [0..<length d] \<and> (\<forall>(i, v)\<in>set d. f v = i)"

lemma numbered_fresh: "numbered p f d \<Longrightarrow> next_id p (length d) \<notin> set (dkeys d)"
  by (auto simp: numbered_def)

lemma dput_fresh: "k \<notin> set (dkeys d) \<Longrightarrow> dput k v d = d @ [(k, v)]"
  by (induction d) auto

lemma numbered_dput:
  assumes "numbered p f d" and "f v = next_id p (length d)"
  shows "numbered p f (dput (next_id p (length d)) v d)" and "length (dput (next_id p (length d)) v d) = length d + 1"
    and "dput (next_id p (length d)) v d = d @ [(next_id p (length d), v)]"
proof -
  have "next_id p (length d) \<notin> set (dkeys d)" by (rule numbered_fresh[OF assms(1)])
  then show "dput (next_id p (length d)) v d = d @ [(next_id p (length d), v)]" by (rule dput_fresh)
  then show "numbered p f (dput (next_id p (length d)) v d)" "length (dput (next_id p (length d)) v d) = length d + 1"
    using assms by (auto simp: numbered_def)
qed

lemma numbered_distinct: "numbered p f d \<Longrightarrow> distinct (dkeys d)"
  by (auto simp: numbered_def distinct_map inj_on_def)

lemma numbered_dmap_at: "numbered p f d \<Longrightarrow> (\<And>v. f (g v) = f v) \<Longrightarrow> numbered p f (dmap_at i g d)"
proof -
  assume n: "numbered p f d" and g: "\<And>v. f (g v) = f v"
  have "length (dmap_at i g d) = length d" by (simp add: dmap_at_def)
  moreover have "\<forall>(j, v)\<in>set (dmap_at i g d). f v = j" using n g by (auto simp: numbered_def dmap_at_def split: if_splits)
  ultimately show ?thesis using n by (simp add: numbered_def)
qed

lemma numbered_dmap_vals: "numbered p f d \<Longrightarrow> (\<And>v. f (g v) = f v) \<Longrightarrow> numbered p f (dmap_vals g d)"
proof -
  assume n: "numbered p f d" and g: "\<And>v. f (g v) = f v"
  have "length (dmap_vals g d) = length d" by (simp add: dmap_vals_def)
  moreover have "\<forall>(j, v)\<in>set (dmap_vals g d). f v = j" using n g by (auto simp: numbered_def dmap_vals_def)
  ultimately show ?thesis using n by (simp add: numbered_def)
qed

end
