(* ===== verification/Masking.thy ===== *)
theory Masking
  imports Redaction NodeBase
begin

text \<open>
  \<open>pii/masking.py\<close>: identifiers in the question become stable, numbered placeholders. The Presidio
  analyzer is an argument: it answers with findings, or not at all (\<open>None\<close>).
\<close>

section \<open>Findings\<close>

record pii_span =
  ps_kind :: str
  ps_start :: nat
  ps_end :: nat

record masked_entity =
  me_kind :: str
  me_placeholder :: str
  me_occurrences :: nat

record mask_result =
  mr_text :: str
  mr_entities :: "masked_entity list"
  mr_degraded :: bool
  mr_engine :: str

definition pii_patterns :: "(str \<times> rx \<times> (str \<Rightarrow> bool) option) list" where
  "pii_patterns =
     [((lit ''IBAN''),
     (seqs [WordB, rlit (lit ''TR''), times 2 (Chr (\<lambda>x. (48 \<le> x \<and> x \<le> 57))),
      between 20 26 (Chr (\<lambda>x. (48 \<le> x \<and> x \<le> 57) \<or> (65 \<le> x \<and> x \<le> 90))),
      WordB]), None),
      ((lit ''IBAN''),
     (seqs [WordB, times 2 (Chr (\<lambda>x. (65 \<le> x \<and> x \<le> 90))),
      times 2 (Chr (\<lambda>x. (48 \<le> x \<and> x \<le> 57))),
      between 11 30 (Chr (\<lambda>x. (65 \<le> x \<and> x \<le> 90) \<or> (48 \<le> x \<and> x \<le> 57))),
      WordB]), None),
      ((lit ''CREDIT_CARD''),
     (seqs [WordB, between 12 18 (seqs [Chr is_digit, opt (Chr (\<lambda>x. x \<in> {32, 45}))]),
      Chr is_digit, WordB]), Some is_valid_card),
      ((lit ''TCKN''),
     (seqs [WordB, Chr (\<lambda>x. (49 \<le> x \<and> x \<le> 57)),
      times 10 (Chr (\<lambda>x. (48 \<le> x \<and> x \<le> 57))), WordB]), Some is_valid_tckn),
      ((lit ''EMAIL''),
     (seqs [WordB, plus (Chr (\<lambda>x. is_word x \<or> x \<in> {46, 43, 45})), ch 64,
      plus (Chr (\<lambda>x. is_word x \<or> x \<in> {45})), ch 46,
      plus (Chr (\<lambda>x. is_word x \<or> x \<in> {46, 45})), WordB]), None),
      ((lit ''PHONE''),
     (seqs [opt (alts [rlit (lit ''+90''), ch 48]), opt (Chr is_space), ch 53, times 2 (Chr is_digit),
      opt (Chr is_space), times 3 (Chr is_digit), opt (Chr is_space), times 2 (Chr is_digit),
      opt (Chr is_space), times 2 (Chr is_digit), WordB]), None),
      ((lit ''IP_ADDRESS''),
     (seqs [WordB, times 3 (seqs [between 1 3 (Chr is_digit), ch 46]), between 1 3 (Chr is_digit), WordB]), None)]"

definition regex_spans :: "str \<Rightarrow> pii_span list" where
  "regex_spans text = concat (map (\<lambda>(kind, pattern, validator).
     map (\<lambda>h. \<lparr>ps_kind = kind, ps_start = h_start h, ps_end = h_end h\<rparr>)
       (filter (\<lambda>h. case validator of None \<Rightarrow> True | Some valid \<Rightarrow> valid (h_text h)) (finditer pattern text))) pii_patterns)"

section \<open>Masking\<close>

text \<open>Earliest first, then longest; a span that begins inside the last chosen one is skipped.\<close>

definition sorted_spans :: "pii_span list \<Rightarrow> pii_span list" where
  "sorted_spans spans = sort_key ps_start (sort_key (\<lambda>s. - (int (ps_end s) - int (ps_start s))) spans)"

fun choose_spans :: "pii_span list \<Rightarrow> pii_span list \<Rightarrow> pii_span list" where
  "choose_spans [] chosen = chosen"
| "choose_spans (s # spans) chosen =
     (if chosen \<noteq> [] \<and> ps_start s < ps_end (last chosen) then choose_spans spans chosen
      else choose_spans spans (chosen @ [s]))"

definition span_text :: "str \<Rightarrow> pii_span \<Rightarrow> str" where
  "span_text text s = take (ps_end s - ps_start s) (drop (ps_start s) text)"

text \<open>What identifies a value: its kind and its characters without blanks and dashes.\<close>

definition span_key :: "str \<Rightarrow> pii_span \<Rightarrow> str \<times> str" where
  "span_key text s = (ps_kind s, filter (\<lambda>c. \<not> is_space c \<and> c \<noteq> 45) (span_text text s))"

definition placeholder_name :: "str \<Rightarrow> nat \<Rightarrow> str" where
  "placeholder_name kind n = (lit ''<'') @ kind @ (lit ''_'') @ dec n @ (lit ''>'')"

record masking =
  mk_counters :: "(str, nat) dict"
  mk_assigned :: "(str \<times> str, str) dict"
  mk_occurrences :: "(str, nat) dict"
  mk_pieces :: "str list"
  mk_cursor :: nat

definition assign_placeholder :: "str \<Rightarrow> pii_span \<Rightarrow> masking \<Rightarrow> masking" where
  "assign_placeholder text s m =
     (let n = dget_or (mk_counters m) (ps_kind s) 0 + 1
      in if dmem (span_key text s) (mk_assigned m) then m
         else m\<lparr>mk_counters := dput (ps_kind s) n (mk_counters m),
                mk_assigned := dput (span_key text s) (placeholder_name (ps_kind s) n) (mk_assigned m)\<rparr>)"

definition mask_span :: "str \<Rightarrow> pii_span \<Rightarrow> masking \<Rightarrow> masking" where
  "mask_span text s m0 =
     (let m = assign_placeholder text s m0;
          placeholder = dget_or (mk_assigned m) (span_key text s) []
      in m\<lparr>mk_occurrences := dput placeholder (dget_or (mk_occurrences m) placeholder 0 + 1) (mk_occurrences m),
           mk_pieces := mk_pieces m @ [take (ps_start s - mk_cursor m) (drop (mk_cursor m) text), placeholder],
           mk_cursor := ps_end s\<rparr>)"

definition no_masking :: masking where
  "no_masking = \<lparr>mk_counters = [], mk_assigned = [], mk_occurrences = [], mk_pieces = [], mk_cursor = 0\<rparr>"

definition mask_chosen :: "str \<Rightarrow> pii_span list \<Rightarrow> masking" where
  "mask_chosen text chosen = fold (mask_span text) chosen no_masking"

definition apply_spans :: "str \<Rightarrow> pii_span list \<Rightarrow> bool \<Rightarrow> str \<Rightarrow> mask_result" where
  "apply_spans text spans degraded engine =
     (let m = mask_chosen text (choose_spans (sorted_spans spans) [])
      in \<lparr>mr_text = concat (mk_pieces m @ [drop (mk_cursor m) text]),
          mr_entities = map (\<lambda>((kind, key), placeholder). \<lparr>me_kind = kind, me_placeholder = placeholder,
             me_occurrences = dget_or (mk_occurrences m) placeholder 0\<rparr>) (mk_assigned m),
          mr_degraded = degraded, mr_engine = engine\<rparr>)"

text \<open>\<open>MaskResult.summary\<close>: how many identifiers of each kind, in the order of the kinds.\<close>

definition mask_summary :: "mask_result \<Rightarrow> (str, nat) dict" where
  "mask_summary r =
     (let kinds = map me_kind (mr_entities r)
      in map (\<lambda>kind. (kind, length (filter (\<lambda>x. x = kind) kinds))) (sort (remdups kinds)))"

section \<open>The two engines\<close>

definition regex_mask :: "bool \<Rightarrow> str \<Rightarrow> mask_result" where
  "regex_mask degraded text = apply_spans text (regex_spans text) degraded (lit ''regex'')"

record presidio_finding =
  pf_entity_type :: str
  pf_start :: nat
  pf_end :: nat

definition presidio_kinds :: "(str, str \<times> (str \<Rightarrow> bool) option) dict" where
  "presidio_kinds =
     [((lit ''EMAIL_ADDRESS''), (lit ''EMAIL''), None), ((lit ''PHONE_NUMBER''), (lit ''PHONE''), None), ((lit ''TR_PHONE''), (lit ''PHONE''), None),
      ((lit ''CREDIT_CARD''), (lit ''CREDIT_CARD''), Some is_valid_card), ((lit ''IBAN_CODE''), (lit ''IBAN''), None),
      ((lit ''IP_ADDRESS''), (lit ''IP_ADDRESS''), None), ((lit ''TR_TCKN''), (lit ''TCKN''), Some is_valid_tckn), ((lit ''PERSON''), (lit ''PERSON''), None)]"

definition requested_entities :: "bool \<Rightarrow> str list" where
  "requested_entities names = filter (\<lambda>name. name \<noteq> (lit ''PERSON'') \<or> names) (dkeys presidio_kinds)"

definition finding_spans :: "str \<Rightarrow> presidio_finding \<Rightarrow> pii_span list" where
  "finding_spans text f =
     (case dget presidio_kinds (pf_entity_type f) of
        None \<Rightarrow> []
      | Some (kind, validator) \<Rightarrow>
          (let s = \<lparr>ps_kind = kind, ps_start = pf_start f, ps_end = pf_end f\<rparr>;
               bare = filter (\<lambda>c. c \<noteq> 32 \<and> c \<noteq> 45) (span_text text s)
           in if (case validator of None \<Rightarrow> True | Some valid \<Rightarrow> valid bare) then [s] else []))"

definition presidio_mask :: "(str list \<Rightarrow> str \<Rightarrow> presidio_finding list option) \<Rightarrow> bool \<Rightarrow> str \<Rightarrow> mask_result" where
  "presidio_mask analyze names text =
     (case analyze (requested_entities names) text of
        None \<Rightarrow> regex_mask True text
      | Some findings \<Rightarrow>
          apply_spans text (regex_spans text @ concat (map (finding_spans text) findings)) False (lit ''presidio''))"

end
