(* ===== verification/Scoring.thy ===== *)
theory Scoring
  imports Dates Router Urls
begin

text \<open>
  \<open>agent/scoring.py\<close>: authority by tier of the domain, recency, relevance, and their weighted sum. Sets
  of domains are lists, only membership is asked; reading \<open>domain_tiers.yaml\<close> is I/O.
\<close>

definition MAX_NUDGE :: real where
  "MAX_NUDGE = 1 / 10"

definition TIER_GAP :: real where
  "TIER_GAP = 5 / 100"

definition LEGAL_SUFFIXES :: "str list" where
  "LEGAL_SUFFIXES =
     [(lit ''inc''), (lit ''ltd''), (lit ''llc''), (lit ''gmbh''), (lit ''as''), (lit ''a.s''), (lit ''a.'' @ [351]), (lit ''corp''), (lit ''co''), (lit ''ai''), (lit ''io''),
      (lit ''com''), (lit ''tr''), (lit ''net''), (lit ''org'')]"

section \<open>Tiers\<close>

record domain_tiers =
  dt_tier_scores :: "(nat, real) dict"
  dt_tier1_domains :: "str list"
  dt_tier1_suffixes :: "str list"
  dt_tier2_domains :: "str list"
  dt_tier3_markers :: "str list"
  dt_self_primary :: bool
  dt_extra :: "(nat, str list) dict"

definition extended :: "(nat, str list) dict \<Rightarrow> domain_tiers \<Rightarrow> domain_tiers" where
  "extended additions t =
     t\<lparr>dt_extra := fold (\<lambda>(tier, domains) merged.
         dput tier (fromkeys (dget_or merged tier [] @ map str_lower domains)) merged) additions (dt_extra t)\<rparr>"

definition tier_score :: "domain_tiers \<Rightarrow> nat \<Rightarrow> real" where
  "tier_score t tier = dget_or (dt_tier_scores t) tier (dget_or (dt_tier_scores t) 3 (3 / 10))"

definition listed :: "str \<Rightarrow> str list \<Rightarrow> bool" where
  "listed host domains = list_ex (\<lambda>item. host = item \<or> ends_with host (46 # item)) domains"

definition tier_of :: "domain_tiers \<Rightarrow> str \<Rightarrow> nat" where
  "tier_of t domain =
     (let host = str_lower domain
      in if listed host (dt_tier3_markers t) then 3
         else if listed host (dt_tier1_domains t) \<or> listed host (dget_or (dt_extra t) 1 []) then 1
         else if list_ex (ends_with host) (dt_tier1_suffixes t) then 1
         else if listed host (dt_tier2_domains t) \<or> listed host (dget_or (dt_extra t) 2 []) then 2
         else 3)"

section \<open>A site of its own\<close>

definition drop_suffix :: "str \<Rightarrow> str \<Rightarrow> str" where
  "drop_suffix ending key =
     (if ends_with key ending \<and> length ending + 2 < length key then take (length key - length ending) key else key)"

definition entity_key :: "str \<Rightarrow> str" where
  "entity_key name =
     (let words = runs is_alnum (fold_text name);
          key = concat (rev (dropWhile (List.member LEGAL_SUFFIXES) (rev words)))
      in drop_suffix (lit ''io'') (drop_suffix (lit ''ai'') key))"

definition host_key :: "str \<Rightarrow> str" where
  "host_key domain =
     (let labels = filter (\<lambda>l. \<not> List.member LEGAL_SUFFIXES l) (split_char 46 (fold_text domain))
      in if labels = [] then [] else last labels)"

definition is_own_domain :: "str \<Rightarrow> str list \<Rightarrow> bool" where
  "is_own_domain domain entities =
     (let host = host_key domain
      in if length host < 3 then False
         else list_ex (\<lambda>entity. let key = entity_key entity in
                3 \<le> length key \<and> (key = host \<or> starts_with key host
                  \<and> (let rest = drop (length host) key in rest \<noteq> [] \<and> list_all is_digit rest))) entities)"

definition legal_rx :: rx where
  "legal_rx =
     (alts [seqs [WordB, irlit (lit ''law''), WordB], irlit (lit ''regulat''), irlit (lit ''mevzuat''),
      irlit (lit ''hukuk''), irlit (lit ''data protection'')])"

definition self_primary_entities :: "query_analysis \<Rightarrow> str list" where
  "self_primary_entities a =
     (if found legal_rx (an_domain a) \<and> an_answer_type a \<noteq> (lit ''profile'') then [] else an_entities a)"

section \<open>Scores\<close>

definition recency_score :: "day option \<Rightarrow> day \<Rightarrow> time_scope \<Rightarrow> real" where
  "recency_score published_at as_of scope =
     (case published_at of
        None \<Rightarrow> 4 / 10
      | Some p \<Rightarrow>
          if (case ts_end scope of None \<Rightarrow> False | Some e \<Rightarrow> e < p) then 5 / 10
          else if (case ts_start scope of None \<Rightarrow> False | Some s \<Rightarrow> p < s) then 2 / 10
          else let age = as_of - p
               in if age < 0 then 6 / 10 else if age \<le> 90 then 1 else if age \<le> 365 then 8 / 10
                  else if age \<le> 730 then 6 / 10 else 3 / 10)"

definition authority_of :: "domain_tiers \<Rightarrow> nat \<Rightarrow> real \<Rightarrow> real" where
  "authority_of t tier adjustment =
     (let nudge = max (- MAX_NUDGE) (min MAX_NUDGE adjustment);
          ceiling = (if tier = 1 then 1 else tier_score t (tier - 1) - TIER_GAP)
      in max 0 (min ceiling (tier_score t tier + nudge)))"

definition primary_of :: "domain_tiers \<Rightarrow> nat \<Rightarrow> str \<Rightarrow> str list \<Rightarrow> bool option \<Rightarrow> bool" where
  "primary_of t tier domain entities llm_primary =
     (tier = 1 \<or> (dt_self_primary t \<and> is_own_domain domain entities) \<or> (llm_primary = Some True \<and> tier \<le> 2))"

definition score_rationale :: "str \<Rightarrow> real \<Rightarrow> nat \<Rightarrow> bool \<Rightarrow> day option \<Rightarrow> real \<Rightarrow> str \<Rightarrow> str" where
  "score_rationale domain total' tier is_primary published_at relevance reason =
     (let dated = (case published_at of None \<Rightarrow> (lit ''undated'') | Some p \<Rightarrow> year_month p);
          parts = [(lit ''T'') @ dec tier, if is_primary then (lit ''primary'') else (lit ''secondary''), dated,
                   (lit ''relevance '') @ fmt_fixed 2 relevance];
          rationale = domain @ (lit '' '' @ [8594] @ lit '' '') @ fmt_fixed 2 total' @ (lit '' ('') @ join (lit '', '') parts @ (lit '')'')
      in if reason = [] then rationale else rationale @ (lit '' - '') @ reason)"

definition score_source ::
  "str \<Rightarrow> day option \<Rightarrow> day \<Rightarrow> time_scope \<Rightarrow> real \<Rightarrow> str list \<Rightarrow> domain_tiers \<Rightarrow> scoring_settings \<Rightarrow> real
     \<Rightarrow> bool option \<Rightarrow> bool \<Rightarrow> str \<Rightarrow> source_score" where
  "score_source domain published_at as_of scope relevance entities t s adjustment llm_primary llm_scored reason =
     (let tier = tier_of t domain;
          authority = authority_of t tier adjustment;
          is_primary = primary_of t tier domain entities llm_primary;
          recency = recency_score published_at as_of scope;
          rel = max 0 (min 1 relevance);
          w = sc_weights s;
          total' = sw_authority w * authority + sw_primary w * (if is_primary then 1 else 0)
            + sw_recency w * recency + sw_relevance w * rel
      in \<lparr>ss_authority = py_round authority 4, ss_primary = (if is_primary then 1 else 0),
          ss_recency = py_round recency 4, ss_relevance = py_round rel 4, ss_total = py_round total' 4,
          ss_tier = tier, ss_is_primary = is_primary,
          ss_rationale = score_rationale domain total' tier is_primary published_at rel reason,
          ss_llm_scored = llm_scored\<rparr>)"

section \<open>What a score can be\<close>

lemma round_even_mono: "x \<le> y \<Longrightarrow> round_even x \<le> round_even y"
proof -
  assume x: "x \<le> y"
  then have f: "\<lfloor>x\<rfloor> \<le> \<lfloor>y\<rfloor>" by (rule floor_mono)
  show ?thesis
  proof (cases "\<lfloor>x\<rfloor> = \<lfloor>y\<rfloor>")
    case True
    then show ?thesis using x by (auto simp: round_even_def Let_def)
  next
    case False
    then show ?thesis using f round_even_cases[of x] round_even_cases[of y] by linarith
  qed
qed

lemma py_round_mono: "x \<le> y \<Longrightarrow> py_round x n \<le> py_round y n"
  unfolding py_round_def by (intro divide_right_mono) (auto intro: round_even_mono mult_right_mono)

lemma tier_of_cases: "tier_of t domain \<in> {1, 2, 3}"
  by (simp add: tier_of_def Let_def)

lemma recency_bounds: "0 \<le> recency_score p a sc \<and> recency_score p a sc \<le> 1"
  by (simp add: recency_score_def Let_def split: option.split)

definition tiers_ok :: "domain_tiers \<Rightarrow> bool" where
  "tiers_ok t = (\<forall>tier\<in>{1, 2, 3}. 0 \<le> tier_score t tier \<and> tier_score t tier \<le> 1)"

lemma authority_bounds:
  assumes "tiers_ok t" and "tier \<in> {1, 2, 3}"
  shows "0 \<le> authority_of t tier a \<and> authority_of t tier a \<le> 1"
  using assms by (auto simp: authority_of_def tiers_ok_def Let_def min_def max_def TIER_GAP_def)

text \<open>A page cannot talk its way up: below the next tier by the gap, and within the nudge of its own.\<close>

lemma authority_in_band:
  assumes "tier \<in> {2, 3}" and "TIER_GAP \<le> tier_score t (tier - 1)"
  shows "authority_of t tier a \<le> tier_score t (tier - 1) - TIER_GAP"
    and "0 \<le> tier_score t tier \<Longrightarrow> authority_of t tier a \<le> tier_score t tier + MAX_NUDGE"
  using assms by (auto simp: authority_of_def Let_def MAX_NUDGE_def)

lemma py_round_nonneg: "0 \<le> x \<Longrightarrow> 0 \<le> py_round x n"
  using py_round_mono[of 0 x n] by (simp add: py_round_def[of 0] round_even_def)

lemma py_round_top: "x \<le> 1 + 1 / 10 ^ 6 \<Longrightarrow> py_round x 4 \<le> 1"
proof -
  assume "x \<le> 1 + 1 / 10 ^ 6"
  then have "py_round x 4 \<le> py_round (1 + 1 / 10 ^ 6) 4" by (rule py_round_mono)
  also have "py_round (1 + 1 / 10 ^ 6) 4 = 1" by (simp add: py_round_def round_even_def)
  finally show ?thesis .
qed

lemma weighted_bounds:
  assumes "scoring_weights_ok w" and "0 \<le> a \<and> a \<le> 1" "0 \<le> p \<and> p \<le> 1" "0 \<le> r \<and> r \<le> 1" "0 \<le> v \<and> v \<le> (1::real)"
  shows "0 \<le> sw_authority w * a + sw_primary w * p + sw_recency w * r + sw_relevance w * v"
    and "sw_authority w * a + sw_primary w * p + sw_recency w * r + sw_relevance w * v \<le> 1 + 1 / 10 ^ 6"
proof -
  have w: "0 \<le> sw_authority w" "0 \<le> sw_primary w" "0 \<le> sw_recency w" "0 \<le> sw_relevance w"
    using assms(1) by (auto simp: scoring_weights_ok_def probability_def)
  have "\<bar>sw_authority w + sw_primary w + sw_recency w + sw_relevance w - 1\<bar> \<le> 1 / 10 ^ 6"
    using assms(1) by (simp only: scoring_weights_ok_def)
  then have s: "sw_authority w + sw_primary w + sw_recency w + sw_relevance w \<le> 1 + 1 / 10 ^ 6" by linarith
  show "0 \<le> sw_authority w * a + sw_primary w * p + sw_recency w * r + sw_relevance w * v"
    using w assms(2-5) by simp
  have "sw_authority w * a \<le> sw_authority w" "sw_primary w * p \<le> sw_primary w"
    "sw_recency w * r \<le> sw_recency w" "sw_relevance w * v \<le> sw_relevance w"
    using w assms(2-5) by (simp_all add: mult_left_le)
  with s show "sw_authority w * a + sw_primary w * p + sw_recency w * r + sw_relevance w * v \<le> 1 + 1 / 10 ^ 6"
    by linarith
qed

text \<open>
  Every score of a source is between 0 and 1, whatever a model says about it. The tier comes from the
  domain alone; a source below tier 1 keeps its authority under that of the tier above by the gap, and
  within the nudge of its own tier; a tier 3 source is primary only for its owner's claims.
\<close>

theorem score_in_band:
  assumes "scoring_settings_ok s" and "tiers_ok t" and "\<forall>tier\<in>{1, 2}. TIER_GAP \<le> tier_score t tier"
    and sc_def: "sc = score_source domain published_at as_of scope relevance entities t s adjustment llm_primary llm_scored reason"
  shows "0 \<le> ss_total sc \<and> ss_total sc \<le> 1 \<and> 0 \<le> ss_authority sc \<and> ss_authority sc \<le> 1
    \<and> ss_tier sc = tier_of t domain
    \<and> (ss_tier sc \<noteq> 1 \<longrightarrow> ss_authority sc \<le> py_round (tier_score t (ss_tier sc - 1) - TIER_GAP) 4
          \<and> ss_authority sc \<le> py_round (tier_score t (ss_tier sc) + MAX_NUDGE) 4)
    \<and> (ss_tier sc = 3 \<longrightarrow> ss_is_primary sc \<longrightarrow> is_own_domain domain entities)"
proof -
  let ?tier = "tier_of t domain" and ?rel = "max 0 (min 1 relevance)"
  let ?a = "authority_of t ?tier adjustment" and ?r = "recency_score published_at as_of scope"
  let ?p = "primary_of t ?tier domain entities llm_primary"
  have w: "scoring_weights_ok (sc_weights s)" using assms(1) by (simp add: scoring_settings_ok_def)
  have a: "0 \<le> ?a \<and> ?a \<le> 1" using authority_bounds[OF assms(2) tier_of_cases] .
  note b = weighted_bounds[OF w a, of "if ?p then 1 else 0" ?r ?rel]
  have "0 \<le> ss_total sc \<and> ss_total sc \<le> 1"
    unfolding sc_def score_source_def Let_def source_score.simps
    by (intro conjI py_round_nonneg py_round_top b) (use recency_bounds in auto)
  moreover have "0 \<le> ss_authority sc \<and> ss_authority sc \<le> 1"
    using a py_round_0_1 by (simp add: sc_def score_source_def Let_def)
  moreover have "ss_authority sc \<le> py_round (tier_score t (?tier - 1) - TIER_GAP) 4
      \<and> ss_authority sc \<le> py_round (tier_score t ?tier + MAX_NUDGE) 4" if "?tier \<noteq> 1"
  proof -
    have tier: "?tier \<in> {2, 3}" using that tier_of_cases[of t domain] by auto
    then have "TIER_GAP \<le> tier_score t (?tier - 1)" "0 \<le> tier_score t ?tier"
      using assms(2,3) by (auto simp: tiers_ok_def)
    from authority_in_band[OF tier this(1), of adjustment] this(2) show ?thesis
      by (simp add: sc_def score_source_def Let_def py_round_mono)
  qed
  moreover have "ss_tier sc = ?tier" "ss_is_primary sc = ?p" by (simp_all add: sc_def score_source_def Let_def)
  ultimately show ?thesis by (auto simp: primary_of_def)
qed

definition demo_tiers :: domain_tiers where
  "demo_tiers = \<lparr>dt_tier_scores = [(1, 1), (2, 65 / 100), (3, 3 / 10)], dt_tier1_domains = [(lit ''kvkk.gov.tr'')],
     dt_tier1_suffixes = [(lit ''.gov.tr'')], dt_tier2_domains = [(lit ''reuters.com'')], dt_tier3_markers = [(lit ''medium.com'')],
     dt_self_primary = True, dt_extra = []\<rparr>"

lemma demo_tiers_ok: "tiers_ok demo_tiers \<and> (\<forall>tier\<in>{1, 2}. TIER_GAP \<le> tier_score demo_tiers tier)"
  by (simp add: tiers_ok_def tier_score_def demo_tiers_def TIER_GAP_def dget_or_def)

theorem score_in_band_witness:
  "ss_total (score_source (lit ''medium.com'') None 0 \<lparr>ts_start = None, ts_end = None, ts_description = []\<rparr> 1 []
     demo_tiers default_scoring_settings 1 (Some True) True []) \<le> 1"
proof -
  have "scoring_settings_ok default_scoring_settings"
    by (simp add: scoring_settings_ok_def scoring_weights_ok_def default_scoring_settings_def
      default_scoring_weights_def probability_def)
  from score_in_band[OF this conjunct1[OF demo_tiers_ok] conjunct2[OF demo_tiers_ok] refl] show ?thesis by blast
qed

end
