(* ===== verification/Skills.thy ===== *)
theory Skills
  imports Scoring LlmGateway
begin

text \<open>
  \<open>prompting/skills.py\<close>: which skills an analysis activates, what they add to the prompts, and what a
  skill folder must look like. The folder is an argument: the text of \<open>SKILL.md\<close> and, when they exist, the
  parsed reference files; \<open>yaml.safe_load\<close> is an argument as well.
\<close>

record skill =
  sk_name :: str
  sk_description :: str
  sk_body :: str
  sk_domains :: "(nat, str list) dict"
  sk_query_patterns :: "str list"
  sk_version :: str

definition MAX_SELECTED :: nat where
  "MAX_SELECTED = 2"

section \<open>Activation\<close>

definition skill_menu :: "(str, skill) dict \<Rightarrow> str" where
  "skill_menu skills =
     (if skills = [] then (lit ''(no skills available)'')
      else join [10] (map (\<lambda>s. (lit ''- '') @ sk_name s @ (lit '': '') @ sk_description s) (dvals skills)))"

text \<open>Known skills only, each once, at most two, in the order the model gave.\<close>

fun select_skills :: "(str, skill) dict \<Rightarrow> str list \<Rightarrow> skill list \<Rightarrow> skill list" where
  "select_skills skills [] chosen = chosen"
| "select_skills skills (name # names) chosen =
     (let chosen' = (case dget skills (strip name) of
            None \<Rightarrow> chosen
          | Some s \<Rightarrow> if List.member chosen s then chosen else chosen @ [s])
      in if length chosen' = MAX_SELECTED then chosen' else select_skills skills names chosen')"

definition guidance_block :: "skill \<Rightarrow> str" where
  "guidance_block s =
     (lit ''### Domain guidance: '') @ sk_name s @ [10] @ sk_body s
       @ (if sk_query_patterns s = [] then []
          else [10, 10] @ (lit ''Useful query patterns:'') @ [10] @ join [10] (map (\<lambda>p. (lit ''- '') @ p) (sk_query_patterns s)))"

definition guidance :: "skill list \<Rightarrow> str" where
  "guidance chosen = join [10, 10] (map guidance_block chosen)"

text \<open>The domains the chosen skills add, by tier.\<close>

definition added_domains :: "skill list \<Rightarrow> (nat, str list) dict" where
  "added_domains chosen =
     fold (\<lambda>s domains. fold (\<lambda>(tier, listed) domains. dput tier (dget_or domains tier [] @ listed) domains) (sk_domains s) domains)
       chosen []"

section \<open>Loading\<close>

datatype skill_error =
  No_frontmatter str
| Bad_skill_name str
| No_description str
| Ships_code str str
| Bad_tier str
| Not_a_number str

text \<open>A folder: its name, \<open>SKILL.md\<close>, the names inside it, and the reference files as YAML reads them.\<close>

record skill_folder =
  sf_name :: str
  sf_text :: str
  sf_entries :: "str list"
  sf_domains :: "(str \<times> str list) list option"
  sf_queries :: "str list option"

record skill_meta =
  sm_name :: str
  sm_description :: str
  sm_version :: str

definition newline_gap :: rx where
  "newline_gap = Star (Chr is_space)"

definition frontmatter_rx :: rx where
  "frontmatter_rx = seqs [Bos, rlit (lit ''---''), newline_gap, ch 10, Grp ''meta'' (LazyStar (Chr (\<lambda>x. True))),
     rlit (10 # (lit ''---'')), newline_gap, ch 10, Grp ''body'' (Star (Chr (\<lambda>x. True))), Eos]"

definition skill_name_rx :: rx where
  "skill_name_rx =
     (seqs [Bos, Chr (\<lambda>x. (97 \<le> x \<and> x \<le> 122) \<or> (48 \<le> x \<and> x \<le> 57)),
      between 1 63 (Chr (\<lambda>x. (97 \<le> x \<and> x \<le> 122) \<or> (48 \<le> x \<and> x \<le> 57) \<or> x \<in> {45})),
      Eos])"

definition integer_rx :: rx where
  "integer_rx =
     (seqs [Bos, opt (Chr (\<lambda>x. x \<in> {43, 45})), plus (Chr is_digit), Star (seqs [ch 95,
      plus (Chr is_digit)]), Eos])"

text \<open>\<open>int(key.removeprefix('tier_'))\<close>, which has to be 1 or 2.\<close>

definition tier_number :: "str \<Rightarrow> str \<Rightarrow> skill_error + nat" where
  "tier_number name key =
     (let t = strip (removeprefix key (lit ''tier_'')); n = int_of (filter is_digit t)
      in if \<not> found integer_rx t then Inl (Not_a_number key)
         else if starts_with t (lit ''-'') \<or> (n \<noteq> 1 \<and> n \<noteq> 2) then Inl (Bad_tier name) else Inr n)"

fun parse_domains :: "str \<Rightarrow> (str \<times> str list) list \<Rightarrow> (nat, str list) dict \<Rightarrow> skill_error + (nat, str list) dict" where
  "parse_domains name [] domains = Inr domains"
| "parse_domains name ((key, values) # raw) domains =
     rbind (tier_number name key) (\<lambda>tier. parse_domains name raw (dput tier (map str_lower values) domains))"

definition parse_skill :: "(str \<Rightarrow> skill_meta) \<Rightarrow> skill_folder \<Rightarrow> skill_error + skill" where
  "parse_skill yaml folder =
     (case rx_match frontmatter_rx ([], sf_text folder) of
        None \<Rightarrow> Inl (No_frontmatter (sf_name folder))
      | Some res \<Rightarrow>
          (let h = mk_hit ([], sf_text folder) res;
               meta = yaml (given (group h ''meta''));
               name = sm_name meta; description = strip (sm_description meta)
           in if \<not> found skill_name_rx name \<or> name \<noteq> sf_name folder then Inl (Bad_skill_name (sf_name folder))
              else if description = [] then Inl (No_description name)
              else case find (\<lambda>f. List.member (sf_entries folder) f) [(lit ''scripts''), (lit ''bin'')] of
                     Some f \<Rightarrow> Inl (Ships_code name f)
                   | None \<Rightarrow>
                       rbind (case sf_domains folder of None \<Rightarrow> Inr [] | Some raw \<Rightarrow> parse_domains name raw [])
                         (\<lambda>domains. Inr \<lparr>sk_name = name, sk_description = description, sk_body = strip (given (group h ''body'')),
                            sk_domains = domains, sk_query_patterns = (case sf_queries folder of None \<Rightarrow> [] | Some ps \<Rightarrow> ps),
                            sk_version = sm_version meta\<rparr>)))"

end
