(* ===== verification/Freshness.thy ===== *)
theory Freshness
  imports NodeBase Scoring
begin

text \<open>
  \<open>agent/freshness.py\<close> and \<open>parse_date\<close> of \<open>providers/search/base.py\<close>: the date of an observation, whether
  a claim is current, the parts of a page that matter to a claim. \<open>date.fromisoformat\<close> is written out;
  the RFC 2822 parser of \<open>email.utils\<close> is the argument \<open>rfc\<close>.
\<close>

section \<open>Dates in text\<close>

text \<open>Monday of the first ISO week of a year, and \<open>date.fromisocalendar\<close>.\<close>

definition week1_monday :: "int \<Rightarrow> int" where
  "week1_monday year =
     (let firstday = ymd_ordinal year 1 1; firstweekday = (firstday + 6) mod 7; monday = firstday - firstweekday
      in if 3 < firstweekday then monday + 7 else monday)"

definition isoweek_ordinal :: "int \<Rightarrow> int \<Rightarrow> int \<Rightarrow> int option" where
  "isoweek_ordinal year week weekday =
     (let first_weekday = ymd_ordinal year 1 1 mod 7;
          long_year = (first_weekday = 4 \<or> first_weekday = 3 \<and> is_leap year)
      in if 1 \<le> year \<and> year \<le> 9999 \<and> (1 \<le> week \<and> week < 53 \<or> week = 53 \<and> long_year) \<and> 1 \<le> weekday \<and> weekday \<le> 7
         then Some (week1_monday year + (week - 1) * 7 + weekday - 1) else None)"

definition date_of :: "str \<Rightarrow> str \<Rightarrow> str \<Rightarrow> day option" where
  "date_of y m d =
     (let year = int (int_of y); month = int (int_of m); day' = int (int_of d)
      in if valid_date year month day' then Some (ymd_ordinal year month day') else None)"

definition iso_rx :: rx where
  "iso_rx =
     (seqs [Grp ''1'' (times 4 (Chr is_digit)), alts [seqs [ch 45, Grp ''2'' (times 2 (Chr is_digit)),
      ch 45, Grp ''3'' (times 2 (Chr is_digit))], seqs [Grp ''4'' (times 2 (Chr is_digit)),
      Grp ''5'' (times 2 (Chr is_digit))], seqs [rlit (lit ''-W''), Grp ''6'' (times 2 (Chr is_digit)),
      opt (seqs [ch 45, Grp ''7'' (Chr is_digit)])], seqs [ch 87, Grp ''8'' (times 2 (Chr is_digit)),
      opt (Grp ''9'' (Chr is_digit))]]])"

definition fromisoformat :: "str \<Rightarrow> day option" where
  "fromisoformat s =
     (case fullmatch iso_rx s of
        None \<Rightarrow> None
      | Some h \<Rightarrow>
          let y = the (group h ''y'') in
          case (group h ''m'', group h ''d'', group h ''m2'', group h ''d2'') of
            (Some m, Some d, _) \<Rightarrow> date_of y m d
          | (_, _, Some m, Some d) \<Rightarrow> date_of y m d
          | _ \<Rightarrow>
              let week = (case group h ''w'' of Some w \<Rightarrow> w | None \<Rightarrow> given (group h ''w2''));
                  k = (case group h ''k'' of Some k \<Rightarrow> Some k | None \<Rightarrow> group h ''k2'')
              in isoweek_ordinal (int (int_of y)) (int (int_of week)) (case k of None \<Rightarrow> 1 | Some x \<Rightarrow> int (int_of x)))"

definition parse_date :: "(str \<Rightarrow> day option) \<Rightarrow> str option \<Rightarrow> day option" where
  "parse_date rfc value =
     (if given value = [] then None
      else let t = strip (given value)
           in case fromisoformat (take 10 t) of Some d \<Rightarrow> Some d | None \<Rightarrow> rfc t)"

text \<open>\<open>datetime.strptime\<close> with the four formats: the pattern it compiles, matched from the start to the end.\<close>

definition month_names :: "str list" where
  "month_names = [(lit ''january''), (lit ''february''), (lit ''march''), (lit ''april''), (lit ''may''), (lit ''june''), (lit ''july''), (lit ''august''),
     (lit ''september''), (lit ''october''), (lit ''november''), (lit ''december'')]"

definition name_rx :: "bool \<Rightarrow> rx" where
  "name_rx full = Grp ''B'' (alts (map irlit (if full then [(lit ''september''), (lit ''february''), (lit ''november''), (lit ''december''),
       (lit ''january''), (lit ''october''), (lit ''august''), (lit ''march''), (lit ''april''), (lit ''june''), (lit ''july''), (lit ''may'')]
     else map (take 3) month_names)))"

definition strptime_day_rx :: rx where
  "strptime_day_rx =
     (Grp ''1'' (alts [seqs [ch 51, Chr (\<lambda>x. (48 \<le> x \<and> x \<le> 49))],
      seqs [Chr (\<lambda>x. (49 \<le> x \<and> x \<le> 50)), Chr is_digit], seqs [ch 48,
      Chr (\<lambda>x. (49 \<le> x \<and> x \<le> 57))], Chr (\<lambda>x. (49 \<le> x \<and> x \<le> 57)),
      seqs [ch 32, Chr (\<lambda>x. (49 \<le> x \<and> x \<le> 57))]]))"

definition strptime_year_rx :: rx where
  "strptime_year_rx =
     (Grp ''1'' (seqs [Chr is_digit, Chr is_digit, Chr is_digit, Chr is_digit]))"

definition strptime_rx :: "bool \<Rightarrow> bool \<Rightarrow> rx" where
  "strptime_rx full month_first =
     (if month_first then seqs [name_rx full, plus rspace, strptime_day_rx, ch 44, plus rspace, strptime_year_rx]
      else seqs [strptime_day_rx, plus rspace, name_rx full, plus rspace, strptime_year_rx])"

definition month_number :: "str \<Rightarrow> nat" where
  "month_number name = length (takeWhile (\<lambda>m. take 3 m \<noteq> take 3 (str_lower name)) month_names) + 1"

definition strptime :: "bool \<Rightarrow> bool \<Rightarrow> str \<Rightarrow> day option" where
  "strptime full month_first s =
     (case rx_match (strptime_rx full month_first) ([], s) of
        None \<Rightarrow> None
      | Some res \<Rightarrow>
          if snd (fst res) \<noteq> [] then None
          else let h = mk_hit ([], s) res
               in date_of (the (group h ''Y'')) (dec (month_number (the (group h ''B'')))) (filter is_digit (the (group h ''d''))))"

definition numeric_date_rx :: rx where
  "numeric_date_rx =
     (seqs [Star (Chr is_space), Grp ''1'' (between 1 2 (Chr is_digit)), Chr (\<lambda>x. x \<in> {47,
      46}), Grp ''2'' (between 1 2 (Chr is_digit)), Chr (\<lambda>x. x \<in> {47, 46}),
      Grp ''3'' (seqs [rlit (lit ''20''), times 2 (Chr is_digit)]), Star (Chr is_space)])"

definition fiscal_year_rx :: rx where
  "fiscal_year_rx =
     (seqs [opt (seqs [irlit (lit ''FY''), Star (Chr is_space)]), Grp ''1'' (seqs [irlit (lit ''20''),
      times 2 (Chr is_digit)])])"

definition evidence_date :: "(str \<Rightarrow> day option) \<Rightarrow> str option \<Rightarrow> day option" where
  "evidence_date rfc value =
     (if given value = [] then None
      else case parse_date rfc value of
        Some d \<Rightarrow> Some d
      | None \<Rightarrow>
          (case fullmatch numeric_date_rx (given value) of
             Some h \<Rightarrow> date_of (the (group h ''3'')) (the (group h ''2'')) (the (group h ''1''))
           | None \<Rightarrow>
               let t = strip (given value)
               in case List.find (\<lambda>d. d \<noteq> None)
                         [strptime True True t, strptime True False t, strptime False True t, strptime False False t] of
                    Some d \<Rightarrow> d
                  | None \<Rightarrow> (case fullmatch fiscal_year_rx t of
                      None \<Rightarrow> None
                    | Some h \<Rightarrow> date_of (the (group h ''1'')) [49] [49])))"

section \<open>Is a claim current\<close>

definition mutable_terms_rx :: rx where
  "mutable_terms_rx =
     (alts [irlit (lit ''threshold''), irlit (lit ''price''), irlit (lit ''revenue''),
      irlit (lit ''market size''), irlit (lit ''valuation''), irlit (lit ''annual turnover''),
      irlit (lit ''balance sheet''), irlit (lit ''e'' @ [351] @ lit ''ik''),
      irlit (lit ''bilan'' @ [231] @ lit ''o''), irlit (lit ''ciro''),
      irlit (lit ''pazar b'' @ [252] @ lit ''y'' @ [252] @ lit ''kl'' @ [252, 287, 252]),
      irlit (lit ''fiyat''),
      irlit (lit ''kay'' @ [305] @ lit ''t y'' @ [252] @ lit ''k'' @ [252] @ lit ''ml'' @ [252] @ lit ''l'' @ [252,
      287, 252])])"

definition target_day :: "time_scope \<Rightarrow> day \<Rightarrow> day" where
  "target_day scope as_of = (case ts_end scope of None \<Rightarrow> as_of | Some e \<Rightarrow> min e as_of)"

definition start_day :: "time_scope \<Rightarrow> day \<Rightarrow> day" where
  "start_day scope target = (case ts_start scope of None \<Rightarrow> target - 365 | Some s \<Rightarrow> s)"

definition observed_day :: "(str \<Rightarrow> day option) \<Rightarrow> claim \<Rightarrow> document \<Rightarrow> day option" where
  "observed_day rfc c d = (case evidence_date rfc (c_as_of c) of Some x \<Rightarrow> Some x | None \<Rightarrow> d_published_at d)"

definition assess_claim_freshness :: "(str \<Rightarrow> day option) \<Rightarrow> document \<Rightarrow> research_state \<Rightarrow> claim \<Rightarrow> claim" where
  "assess_claim_freshness rfc d st c =
     (let sensitive = (c_time_sensitive c \<or> found mutable_terms_rx (given (c_attribute c) @ (lit '' '') @ c_text c));
          scope = an_time_scope (rs_analysis st);
          target = target_day scope (rs_as_of st);
          start = start_day scope target;
          freshness' = (case observed_day rfc c d of
              None \<Rightarrow> UNDATED
            | Some observed \<Rightarrow>
                if observed < start \<or> target < observed
                   \<or> (case evidence_date rfc (c_effective_until c) of None \<Rightarrow> False | Some expires \<Rightarrow> expires < target)
                then HISTORICAL else CURRENT)
      in if \<not> sensitive
         then c\<lparr>c_time_sensitive := False, c_freshness := NOT_TIME_SENSITIVE, c_requires_fresh_confirmation := False\<rparr>
         else c\<lparr>c_time_sensitive := True, c_freshness := freshness',
                c_requires_fresh_confirmation := (freshness' \<noteq> CURRENT)\<rparr>)"

section \<open>Parts of a page\<close>

text \<open>\<open>re.split(pattern, s)\<close> without groups.\<close>

fun split_hits :: "nat \<Rightarrow> hit list \<Rightarrow> str \<Rightarrow> str list" where
  "split_hits i [] s = [drop i s]"
| "split_hits i (h # hs) s = take (h_start h - i) (drop i s) # split_hits (h_end h) hs s"

definition rx_split :: "rx \<Rightarrow> str \<Rightarrow> str list" where
  "rx_split r s = split_hits 0 (finditer r s) s"

definition paragraph_rx :: rx where
  "paragraph_rx = seqs [ch 10, Star rspace, ch 10]"

definition reference_rx :: rx where
  "reference_rx =
     (seqs [WordB, alts [irlit (lit ''article''), irlit (lit ''madde'')], plus (Chr is_space),
      Grp ''1'' (seqs [plus (Chr is_digit), opt (seqs [ch 40, plus (Chr is_digit), ch 41])])])"

definition restriction_rx :: rx where
  "restriction_rx =
     (seqs [WordB, alts [irlit (lit ''only''), irlit (lit ''unless''), irlit (lit ''except''),
      irlit (lit ''provided that''), irlit (lit ''certain existing''), irlit (lit ''existing systems''),
      irlit (lit ''placed on the market before''), irlit (lit ''yaln'' @ [305] @ lit ''zca''),
      irlit (lit ''sadece''), irlit (lit ''hari'' @ [231]),
      irlit ([351] @ lit ''art'' @ [305] @ lit ''yla'')], WordB])"

definition references :: "str \<Rightarrow> str list" where
  "references s = map (\<lambda>h. given (group h ''1'')) (finditer reference_rx s)"

definition applicability_passages :: "document \<Rightarrow> claim \<Rightarrow> str list" where
  "applicability_passages d c =
     (let refs = references (given (c_entity c) @ (lit '' '') @ c_text c)
      in if refs = [] then []
         else take 5 (map (take 2400)
                (filter (\<lambda>paragraph. list_ex (List.member refs) (references paragraph) \<and> found restriction_rx paragraph)
                  (rx_split paragraph_rx (body_of d)))))"

text \<open>The loop that keeps the best paragraphs and their neighbours within the limit.\<close>

definition keep_neighbour :: "str list \<Rightarrow> nat \<Rightarrow> int \<Rightarrow> nat list \<times> nat \<Rightarrow> nat list \<times> nat" where
  "keep_neighbour paragraphs limit neighbour s =
     (case s of (selected, used) \<Rightarrow>
        if neighbour < 0 \<or> int (length paragraphs) \<le> neighbour \<or> List.member selected (nat neighbour) then s
        else let len = length (paragraphs ! nat neighbour) + 2
             in if used + len \<le> limit then (selected @ [nat neighbour], used + len) else s)"

definition keep_paragraphs :: "str list \<Rightarrow> nat \<Rightarrow> (nat \<times> nat) list \<Rightarrow> nat list \<times> nat" where
  "keep_paragraphs paragraphs limit ranked =
     fold (\<lambda>(score, index) s. if score = 0 then s
             else fold (keep_neighbour paragraphs limit) [int index, int index + 1, int index - 1] s) ranked ([], 0)"

text \<open>The indices ascend, so that the stable sort by score, reversed, is the descending order of the pairs.\<close>

definition document_evidence :: "document \<Rightarrow> str \<Rightarrow> nat \<Rightarrow> str" where
  "document_evidence d focus limit =
     (let content = body_of d
      in if length content \<le> limit then content
         else let paragraphs = rx_split paragraph_rx content;
                  wanted = token_set focus;
                  scores = map (\<lambda>(index, part). (card (wanted \<inter> token_set part), index)) (enumerate 0 paragraphs);
                  ranked = rev (sort_key fst scores);
                  selected = fst (keep_paragraphs paragraphs limit ranked);
                  joined = join [10, 10] (map (\<lambda>i. paragraphs ! i) (sort selected))
              in if joined = [] then take limit content else joined)"

definition EVIDENCE_LIMIT :: nat where
  "EVIDENCE_LIMIT = 24000"

section \<open>The date of a page\<close>

definition header_rx :: rx where
  "header_rx =
     (seqs [alts [seqs [irlit (lit ''published''), opt (irlit (lit '' on''))],
      irlit (lit ''last updated''), irlit (lit ''publication date''),
      seqs [irlit (lit ''yay'' @ [305] @ lit ''n''), opt (irlit (lit ''lanma'')), irlit (lit '' tarihi'')],
      irlit (lit ''g'' @ [252] @ lit ''ncelleme'')], Star (Chr is_space),
      opt (Chr (\<lambda>x. x \<in> {58, 124, 45})), Star (Chr is_space),
      Grp ''1'' (alts [seqs [irlit (lit ''20''), times 2 (Chr is_digit), ch 45, times 2 (Chr is_digit),
      ch 45, times 2 (Chr is_digit)], seqs [between 1 2 (Chr is_digit), Chr (\<lambda>x. x \<in> {47, 46}),
      between 1 2 (Chr is_digit), Chr (\<lambda>x. x \<in> {47, 46}), irlit (lit ''20''),
      times 2 (Chr is_digit)]])])"

definition heading_rx :: rx where
  "heading_rx =
     (seqs [NotBehind (\<lambda>x. x \<noteq> 10), between 1 2 (ch 35), ch 32,
      plus (Chr (\<lambda>x. x \<noteq> 10)), plus (ch 10), Star (Chr is_space),
      Grp ''1'' (alts [seqs [Chr (\<lambda>x. (65 \<le> x \<and> x \<le> 90)),
      plus (Chr (\<lambda>x. (97 \<le> x \<and> x \<le> 122))), ch 32, between 1 2 (Chr is_digit),
      rlit (lit '', 20''), times 2 (Chr is_digit)], seqs [between 1 2 (Chr is_digit), ch 32,
      Chr (\<lambda>x. (65 \<le> x \<and> x \<le> 90)),
      plus (Chr (\<lambda>x. (97 \<le> x \<and> x \<le> 122))), rlit (lit '' 20''),
      times 2 (Chr is_digit)]]), Star (Chr is_space), ch 10])"

definition url_date_rx :: rx where
  "url_date_rx =
     (seqs [ch 47, Grp ''1'' (seqs [rlit (lit ''20''), times 2 (Chr is_digit)]), ch 47,
      Grp ''2'' (times 2 (Chr is_digit)), ch 47, Grp ''3'' (times 2 (Chr is_digit)), alts [ch 47, Eos]])"

definition dated_header :: "(str \<Rightarrow> day option) \<Rightarrow> str \<Rightarrow> str \<Rightarrow> day option \<times> str option" where
  "dated_header rfc content url =
     (let dated = (\<lambda>r t f. case search r t of None \<Rightarrow> None | Some h \<Rightarrow> evidence_date rfc (Some (f h)))
      in case dated header_rx (take 1800 content) (\<lambda>h. given (group h ''1'')) of
           Some d \<Rightarrow> (Some d, Some (lit ''content_header''))
         | None \<Rightarrow>
      (case dated heading_rx (take 5000 content) (\<lambda>h. given (group h ''1'')) of
           Some d \<Rightarrow> (Some d, Some (lit ''article_header''))
         | None \<Rightarrow>
      (case dated url_date_rx url (\<lambda>h. given (group h ''1'') @ [45] @ given (group h ''2'') @ [45] @ given (group h ''3'')) of
           Some d \<Rightarrow> (Some d, Some (lit ''url_date''))
         | None \<Rightarrow> (None, None))))"

section \<open>Context for the verification of a sentence\<close>

text \<open>\<open>str.casefold\<close> on the range of the character tables, and \<open>str.find\<close>.\<close>

definition casefold :: "str \<Rightarrow> str" where
  "casefold s = concat (map (\<lambda>c. if c = 223 then [115, 115] else if c = 304 then [105, 775] else if c = 329 then [700, 110]
     else if c = 383 then [115] else if c = 181 then [956] else [lower1 c]) s)"

fun str_find :: "nat \<Rightarrow> str \<Rightarrow> str \<Rightarrow> nat option" where
  "str_find i [] p = (if p = [] then Some i else None)"
| "str_find i (c # s) p = (if starts_with (c # s) p then Some i else str_find (Suc i) s p)"

text \<open>An index into the folded page is used on the page itself, as the code does.\<close>

definition source_context :: "document \<Rightarrow> str \<Rightarrow> str" where
  "source_context d quote =
     (let content = (if d_content d = [] then d_snippet d else d_content d); radius = 1400;
          local_text = (case str_find 0 (casefold content) (casefold quote) of
             None \<Rightarrow> []
           | Some index \<Rightarrow> take ((index + length quote + radius) - (index - radius)) (drop (index - radius) content))
      in local_text @ [10, 10] @ (lit ''Other relevant source context:'') @ [10] @ document_evidence d quote 6000)"

end
