(* ===== verification/Validation.thy ===== *)
theory Validation
  imports Freshness
begin

text \<open>
  \<open>agent/injection.py\<close>, \<open>agent/legal_authority.py\<close> and \<open>agent/validation.py\<close>: what is never admitted as
  evidence, when a legal claim lacks its authority, and the verdict every extracted claim gets.
\<close>

section \<open>Injection\<close>

definition injection_rx :: rx where
  "injection_rx =
     (alts [seqs [alts [irlit (lit ''ignore''), irlit (lit ''disregard''), irlit (lit ''forget'')],
      plus (Chr is_space), opt (alts [seqs [irlit (lit ''all''), plus (Chr is_space)],
      seqs [irlit (lit ''any''), plus (Chr is_space)], seqs [irlit (lit ''the''), plus (Chr is_space)]]),
      alts [irlit (lit ''previous''), irlit (lit ''prior''), irlit (lit ''above''),
      irlit (lit ''earlier'')], plus (Chr is_space), alts [irlit (lit ''instructions''),
      seqs [irlit (lit ''prompt''), opt (ich 115)], irlit (lit ''rules'')]], seqs [WordB,
      alts [irlit (lit ''system''), irlit (lit ''developer'')], plus (Chr is_space),
      irlit (lit ''prompt''), WordB], seqs [WordB, irlit (lit ''you''), plus (Chr is_space),
      irlit (lit ''are''), plus (Chr is_space), irlit (lit ''now''), WordB], seqs [WordB,
      irlit (lit ''as''), plus (Chr is_space), ich 97, opt (ich 110), plus (Chr is_space),
      alts [irlit (lit ''ai''), seqs [irlit (lit ''language''), plus (Chr is_space),
      irlit (lit ''model'')]], WordB], seqs [WordB, alts [irlit ([246] @ lit ''nceki''),
      irlit (lit ''yukar'' @ [305] @ lit ''daki'')], plus (Chr is_space),
      opt (seqs [irlit (lit ''t'' @ [252] @ lit ''m''), plus (Chr is_space)]),
      alts [irlit (lit ''talimatlar'' @ [305]), irlit (lit ''komutlar'' @ [305])], plus (Chr is_space),
      alts [seqs [irlit (lit ''yok''), Star (Chr is_space), irlit (lit ''say'')], irlit (lit ''unut''),
      irlit (lit ''g'' @ [246] @ lit ''rmezden'')]], seqs [WordB, irlit (lit ''art'' @ [305] @ lit ''k''),
      plus (Chr is_space), irlit (lit ''sen''), WordB], seqs [ch 60, opt (ch 47), Star (Chr is_space),
      irlit (lit ''untrusted_source'')]])"

definition looks_like_injection :: "str \<Rightarrow> bool" where
  "looks_like_injection s = found injection_rx s"

section \<open>Legal authority\<close>

definition legal_domain_rx :: rx where
  "legal_domain_rx =
     (alts [seqs [WordB, irlit (lit ''law''), WordB], irlit (lit ''regulat''), irlit (lit ''mevzuat''),
      irlit (lit ''hukuk''), irlit (lit ''data protection''), irlit (lit ''compliance'')])"

definition rule_rx :: rx where
  "rule_rx =
     (alts [seqs [WordB, alts [irlit (lit ''must''), irlit (lit ''required''), irlit (lit ''shall''),
      seqs [irlit (lit ''obligation''), Star (Chr is_word)], seqs [irlit (lit ''deadline''),
      Star (Chr is_word)], seqs [irlit (lit ''prohibit''), Star (Chr is_word)],
      irlit (lit ''grace period''), seqs [irlit (lit ''threshold''), Star (Chr is_word)],
      seqs [irlit (lit ''exemption''), Star (Chr is_word)], seqs [irlit (lit ''penalt''),
      Star (Chr is_word)], irlit (lit ''notify''), irlit (lit ''notification''),
      seqs [irlit (lit ''enforce''), Star (Chr is_word)], seqs [irlit (lit ''appl''), Star (Chr is_word)],
      seqs [irlit (lit ''transition''), Star (Chr is_word)]], WordB], irlit (lit ''zorun''),
      irlit (lit ''y'' @ [252] @ lit ''k'' @ [252] @ lit ''ml'' @ [252]), irlit (lit ''bildiril''),
      irlit (lit ''bildirim''), irlit (lit ''ceza''), irlit (lit ''muaf''),
      irlit (lit ''e'' @ [351] @ lit ''ik''), irlit (lit ''kay'' @ [305] @ lit ''t''),
      irlit (lit ''y'' @ [252] @ lit ''r'' @ [252] @ lit ''rl'' @ [252]), irlit (lit ''uygulan''),
      irlit (lit ''gerekm''), irlit (lit ''izin'')])"

definition overview_rx :: rx where
  "overview_rx =
     (alts [seqs [ch 47, alts [irlit (lit ''news''), irlit (lit ''press''), irlit (lit ''press-releases''),
      irlit (lit ''policies''), irlit (lit ''faqs''), irlit (lit ''timeline'')], alts [ch 47, Eos]],
      seqs [WordB, alts [irlit (lit ''press release''), irlit (lit ''news release''),
      irlit (lit ''overview''), irlit (lit ''implementation timeline'')], WordB]])"

definition decision_rx :: rx where
  "decision_rx =
     (seqs [ch 47, Grp ''1'' (seqs [rlit (lit ''20''), times 2 (Chr is_digit)]),
      Chr (\<lambda>x. x \<in> {45, 47}), plus (Chr is_digit), opt (ch 47), Eos])"

definition penalty_rx :: rx where
  "penalty_rx =
     (alts [irlit (lit ''penalt''), seqs [irlit (lit ''fine''), WordB], irlit (lit ''ceza'')])"

definition amount_rx :: rx where
  "amount_rx =
     (alts [seqs [Chr is_digit, Star (Chr (\<lambda>x. is_digit x \<or> x \<in> {46, 44})),
      Star (Chr is_space), alts [irlit (lit ''TL''), irlit (lit ''T'' @ [252] @ lit ''rk liras'' @ [305]),
      irlit (lit ''USD''), irlit (lit ''EUR''), irlit (lit ''dollars''), irlit (lit ''euros'')]],
      seqs [Chr (\<lambda>x. x \<in> {36, 8364, 8378}), Star (Chr is_space), Chr is_digit]])"

text \<open>\<open>Inl Value_error\<close> when the address cannot be split.\<close>

definition legal_evidence_gap :: "claim \<Rightarrow> document \<Rightarrow> research_state \<Rightarrow> node_exception + str option" where
  "legal_evidence_gap c d st =
     (let a = rs_analysis st
      in if an_answer_type a = (lit ''profile'') \<or> \<not> found legal_domain_rx (an_domain a)
            \<or> \<not> (c_time_sensitive c \<or> found rule_rx (c_text c @ (lit '' '') @ given (c_attribute c)))
         then Inr None
         else if \<not> ss_is_primary (d_score d) then
           Inr (Some ((lit ''Legal authority: retrieve the primary rule or regulator guidance; '')
             @ (lit ''commentary alone is insufficient.'')))
         else case urlsplit (d_canonical_url d) of
           None \<Rightarrow> Inl Value_error
         | Some parts \<Rightarrow>
             if found overview_rx (u_path parts @ (lit '' '') @ d_title d) then
               Inr (Some ((lit ''Legal authority: retrieve the operative rule or detailed regulator guidance; '')
                 @ (lit ''an overview may omit exceptions.'')))
             else
               let decision = search decision_rx (u_path parts);
                   penalty_amount = (found penalty_rx (c_text c) \<and> found amount_rx (c_text c));
                   target_year = year_of (case ts_start (an_time_scope a) of None \<Rightarrow> rs_as_of st | Some s \<Rightarrow> s)
               in case decision of
                    None \<Rightarrow> Inr None
                  | Some h \<Rightarrow>
                      if penalty_amount \<and> int (int_of (given (group h ''1''))) < target_year then
                        Inr (Some ((lit ''Legal authority: an earlier enforcement decision does not establish the current '')
                          @ (lit ''penalty range; retrieve the applicable year'') @ [39] @ (lit ''s official penalty schedule.'')))
                      else Inr None)"

section \<open>Verdicts\<close>

record claim_validation =
  cv_claim_id :: str
  cv_supported :: bool
  cv_conditions_complete :: bool
  cv_time_sensitive :: bool
  cv_reason :: str

text \<open>What one verdict does to a claim.\<close>

definition unrepresented_scope :: "document \<Rightarrow> claim \<Rightarrow> bool" where
  "unrepresented_scope d c = (applicability_passages d c \<noteq> [] \<and> c_conditions c = [])"

definition judge_claim :: "document \<Rightarrow> claim_validation \<Rightarrow> claim \<Rightarrow> claim" where
  "judge_claim d item c =
     c\<lparr>c_validation_status :=
         (if cv_supported item \<and> cv_conditions_complete item \<and> \<not> unrepresented_scope d c then V_SUPPORTED else UNSUPPORTED),
       c_validation_reason :=
         (if unrepresented_scope d c
          then (lit ''The source restricts the same provision, but the claim has no applicability '')
               @ (lit ''conditions. Re-extract the scoped claim before using it.'')
          else cv_reason item),
       c_time_sensitive := c_time_sensitive c \<or> cv_time_sensitive item\<rparr>"

definition settle_claim ::
  "(str \<Rightarrow> day option) \<Rightarrow> document \<Rightarrow> research_state \<Rightarrow> claim_validation \<Rightarrow> claim \<Rightarrow> node_exception + claim" where
  "settle_claim rfc d st item c =
     (let c1 = assess_claim_freshness rfc d st (judge_claim d item c)
      in rbind (legal_evidence_gap c1 d st) (\<lambda>gap.
           Inr (case gap of
                  None \<Rightarrow> c1
                | Some reason \<Rightarrow> if reason = [] then c1
                    else c1\<lparr>c_validation_status := UNSUPPORTED, c_validation_reason := reason\<rparr>)))"

text \<open>The claims by their position, and the positions that still wait for a verdict (\<open>pending\<close>).\<close>

definition candidate_key :: "nat \<Rightarrow> str" where
  "candidate_key i = (lit ''candidate-'') @ dec i"

fun apply_verdicts ::
  "(str \<Rightarrow> day option) \<Rightarrow> document \<Rightarrow> research_state \<Rightarrow> claim_validation list \<Rightarrow> claim_validation list
     \<Rightarrow> claim list \<times> nat list \<Rightarrow> node_exception + claim list \<times> nat list" where
  "apply_verdicts rfc d st all [] s = Inr s"
| "apply_verdicts rfc d st all (item # items) (claims, pending) =
     (case find (\<lambda>i. candidate_key i = cv_claim_id item) pending of
        None \<Rightarrow> apply_verdicts rfc d st all items (claims, pending)
      | Some i \<Rightarrow>
          if length (filter (\<lambda>v. cv_claim_id v = cv_claim_id item) all) \<noteq> 1
          then apply_verdicts rfc d st all items (claims, pending)
          else rbind (settle_claim rfc d st item (claims ! i)) (\<lambda>c.
            apply_verdicts rfc d st all items (claims[i := c], remove1 i pending)))"

definition scope_json :: "time_scope \<Rightarrow> json" where
  "scope_json s = JObj [((lit ''start''), opt_json (map_option isoformat (ts_start s))),
     ((lit ''end''), opt_json (map_option isoformat (ts_end s))), ((lit ''description''), JStr (ts_description s))]"

definition validation_inputs :: "document \<Rightarrow> research_state \<Rightarrow> claim list \<Rightarrow> nat list \<Rightarrow> inputs" where
  "validation_inputs d st claims pending =
     [((lit ''question''), JStr (rs_question st)), ((lit ''time_scope''), scope_json (an_time_scope (rs_analysis st))),
      ((lit ''today''), JStr (isoformat (rs_as_of st))),
      ((lit ''document''), JStr (untrusted
         ((lit ''TITLE: '') @ d_title d @ [10] @ (lit ''PUBLISHED: '') @ date_or_unknown (d_published_at d) @ [10]
            @ document_evidence d (join (lit '' '') (map c_text claims)) EVIDENCE_LIMIT)
         [((lit ''id''), d_id d), ((lit ''url''), d_canonical_url d)])),
      ((lit ''claims''), JList (map (\<lambda>i. JObj (((lit ''claim_id''), JStr (candidate_key i)) # claim_json (claims ! i)
          @ [((lit ''source_applicability_passages''), strs_json (applicability_passages d (claims ! i)))])) pending))]"

text \<open>At most two requests; a failed one is repeated within the two.\<close>

fun ask_verdicts ::
  "(inputs, claim_validation list) predictor \<Rightarrow> (str \<Rightarrow> day option) \<Rightarrow> document \<Rightarrow> research_state \<Rightarrow> mem_sink \<Rightarrow> nat
     \<Rightarrow> claim list \<times> nat list \<Rightarrow> llm_world \<Rightarrow> (node_exception + claim list \<times> nat list) \<times> llm_world" where
  "ask_verdicts predict rfc d st k 0 s w = (Inr s, w)"
| "ask_verdicts predict rfc d st k (Suc n) (claims, pending) w =
     (if pending = [] then (Inr (claims, pending), w)
      else case predict (validation_inputs d st claims pending) k w of
        (Inl (LLM_failure e), w') \<Rightarrow> ask_verdicts predict rfc d st k n (claims, pending) w'
      | (Inl x, w') \<Rightarrow> (Inl (Model_raised x), w')
      | (Inr items, w') \<Rightarrow>
          (case apply_verdicts rfc d st items items (claims, pending) of
             Inl e \<Rightarrow> (Inl e, w')
           | Inr s \<Rightarrow> ask_verdicts predict rfc d st k n s w'))"

definition unavailable :: "claim \<Rightarrow> claim" where
  "unavailable c = c\<lparr>c_validation_status := UNAVAILABLE,
     c_validation_reason := (lit ''No complete source-entailment verdict after one retry.'')\<rparr>"

definition validate_claims ::
  "(inputs, claim_validation list) predictor \<Rightarrow> (str \<Rightarrow> day option) \<Rightarrow> document \<Rightarrow> research_state \<Rightarrow> mem_sink
     \<Rightarrow> claim list \<Rightarrow> llm_world \<Rightarrow> (node_exception + claim list) \<times> llm_world" where
  "validate_claims predict rfc d st k claims w =
     (case ask_verdicts predict rfc d st k 2 (claims, [0..<length claims]) w of
        (Inl e, w') \<Rightarrow> (Inl e, w')
      | (Inr (claims', pending), w') \<Rightarrow> (Inr (fold (\<lambda>i cs. cs[i := unavailable (cs ! i)]) pending claims'), w'))"

end
