(* ===== verification/CoverageNode.thy ===== *)
theory CoverageNode
  imports QueryNode
begin

text \<open>
  The node \<open>assess_coverage\<close> of \<open>agent/nodes/coverage.py\<close>: facet statuses by rule, gap notes and new
  facets from the model, the progress of each sub-question, then the decision of the router. One
  reading of the clock, \<open>now\<close>, serves the decision and its event.
\<close>

record facet_out =
  fo_name :: str
  fo_description :: str

record coverage_item =
  ci_subq_id :: str
  ci_missing :: "facet_out list"
  ci_note :: str

record coverage_output =
  co_rationale :: str
  co_items :: "coverage_item list"

fun facet_status_value :: "facet_status \<Rightarrow> str" where
  "facet_status_value F_OPEN = (lit ''open'')"
| "facet_status_value F_SUFFICIENT = (lit ''sufficient'')"
| "facet_status_value F_CONTESTED = (lit ''contested'')"

fun subquestion_status_value :: "subquestion_status \<Rightarrow> str" where
  "subquestion_status_value PENDING = (lit ''pending'')"
| "subquestion_status_value SEARCHING = (lit ''searching'')"
| "subquestion_status_value SUFFICIENT = (lit ''sufficient'')"
| "subquestion_status_value EXHAUSTED = (lit ''exhausted'')"

fun stop_reason_value :: "stop_reason \<Rightarrow> str" where
  "stop_reason_value R_SUFFICIENT = (lit ''sufficient'')"
| "stop_reason_value R_BUDGET = (lit ''budget'')"
| "stop_reason_value R_MAX_ITERATIONS = (lit ''max_iterations'')"
| "stop_reason_value R_NO_PROGRESS = (lit ''no_progress'')"
| "stop_reason_value R_NO_EVIDENCE = (lit ''no_evidence'')"
| "stop_reason_value R_CANCELLED = (lit ''cancelled'')"

definition status_payload :: "research_state \<Rightarrow> json" where
  "status_payload st = JList (map (\<lambda>s. JObj
     [((lit ''subq_id''), JStr (sq_id s)), ((lit ''question''), JStr (sq_text s)),
      ((lit ''facets''), JList (map (\<lambda>f. JObj
         [((lit ''id''), JStr (f_id f)), ((lit ''name''), JStr (f_name f)),
          ((lit ''covered''), JBool (f_status f = F_SUFFICIENT)),
          ((lit ''status''), JStr (facet_status_value (f_status f)))]) (sq_facets s))),
      ((lit ''findings''), JList (map (\<lambda>c. JObj
         [((lit ''id''), JStr (k_id c)), ((lit ''statement''), JStr (k_statement c)),
          ((lit ''sources''), JNum (real (support c))), ((lit ''facets''), strs_json (k_facet_ids c))])
         (take 25 (clusters_for st (sq_id s)))))]) (open_subquestions st))"

text \<open>Facets the model found missing: none beyond the limit, none that repeats one by name.\<close>

fun add_facets :: "nat \<Rightarrow> facet_out list \<Rightarrow> subquestion \<Rightarrow> subquestion" where
  "add_facets limit [] s = s"
| "add_facets limit (m # ms) s =
     (if limit \<le> length (sq_facets s) then s
      else if list_ex (\<lambda>f. 6 / 10 \<le> token_jaccard (fo_name m) (f_name f)) (sq_facets s) then add_facets limit ms s
      else add_facets limit ms (s\<lparr>sq_facets := sq_facets s @
             [\<lparr>f_id = sq_id s @ (lit ''f'') @ dec (length (sq_facets s) + 1), f_name = fo_name m,
               f_description = fo_description m, f_status = F_OPEN\<rparr>]\<rparr>))"

definition apply_item ::
  "nat \<Rightarrow> mem_sink \<Rightarrow> str \<Rightarrow> coverage_item \<Rightarrow> research_state \<times> llm_world \<Rightarrow> research_state \<times> llm_world" where
  "apply_item limit k rationale item s =
     (case s of (st, w) \<Rightarrow>
        case subquestion_of st (ci_subq_id item) of
          None \<Rightarrow> (st, w)
        | Some q \<Rightarrow>
            if \<not> sq_open q then (st, w)
            else (update_subquestion (sq_id q) (add_facets limit (ci_missing item)) st,
                  if ci_note item = [] then w
                  else say_info k (lit ''coverage_assessed'') (ci_note item)
                         (labelled (lit ''Research State'') [((lit ''subq_id''), JStr (sq_id q)), ((lit ''rationale''), JStr rationale)]) w))"

definition snapshot_of :: "research_state \<Rightarrow> (str, nat \<times> nat) dict" where
  "snapshot_of st = map (\<lambda>(i, v). (i, (v ! 0, v ! 1))) (rs_round_snapshot st)"

text \<open>The loop over the plan: progress, then the missing information of what stays open.\<close>

definition progress_plan :: "budget_settings \<Rightarrow> research_state \<Rightarrow> subquestion list" where
  "progress_plan b st = map (\<lambda>s. update_progress b (gain_since st (snapshot_of st) (sq_id s)) s) (rs_plan st)"

definition announce_missing :: "mem_sink \<Rightarrow> subquestion \<Rightarrow> llm_world \<Rightarrow> llm_world" where
  "announce_missing k s w =
     (let names = map f_name (missing_facets s)
      in if sq_open s \<and> names \<noteq> []
         then say_info k (lit ''coverage_assessed'') ((lit ''Missing information: '') @ join (lit '', '') names @ (lit ''.''))
                (labelled (lit ''Research State'') [((lit ''subq_id''), JStr (sq_id s))]) w
         else w)"

text \<open>The routing record: a stop without any finding is reported as such.\<close>

definition route_reason :: "research_state \<Rightarrow> route_decision \<Rightarrow> stop_reason option" where
  "route_reason st d = (if de_stop d \<and> rs_clusters st = [] then Some R_NO_EVIDENCE else de_reason d)"

definition stop_error :: "mem_sink \<Rightarrow> route_decision \<Rightarrow> stop_reason option \<Rightarrow> agent_error option" where
  "stop_error k d reason =
     (case reason of
        Some R_BUDGET \<Rightarrow> Some (gateway_error BUDGET_EXCEEDED k (lit ''stop and synthesise'') (Some (de_detail d)))
      | Some R_MAX_ITERATIONS \<Rightarrow> Some (gateway_error MAX_ITERATIONS_CODE k (lit ''stop and synthesise'') (Some (de_detail d)))
      | Some R_NO_EVIDENCE \<Rightarrow> Some (gateway_error NO_EVIDENCE_CODE k (lit ''report that no evidence was found'')
          (Some (lit ''no answer will be invented'')))
      | _ \<Rightarrow> None)"

definition apply_route :: "route_decision \<Rightarrow> research_state \<Rightarrow> research_state" where
  "apply_route d st =
     (let reason = route_reason st d;
          st1 = st\<lparr>rs_route := Some \<lparr>rt_stop = de_stop d, rt_reason = reason, rt_rule = de_rule d, rt_detail = de_detail d\<rparr>\<rparr>
      in if de_stop d then st1\<lparr>rs_stop_reason := reason, rs_stop_detail := de_detail d\<rparr> else st1)"

definition announce_route ::
  "mem_sink \<Rightarrow> real \<Rightarrow> route_decision \<Rightarrow> research_state \<Rightarrow> llm_world \<Rightarrow> llm_world" where
  "announce_route k now d st w =
     (let reason = route_reason st d;
          w1 = (if de_stop d then (case stop_error k d reason of None \<Rightarrow> w | Some e \<Rightarrow> say_error k e w) else w);
          reason_text = (case reason of None \<Rightarrow> [] | Some r \<Rightarrow> stop_reason_value r);
          verb = (if de_stop d then (lit ''Stop ('') @ reason_text @ (lit '')'') else (lit ''Continue''))
      in say_info k (lit ''decision'') (verb @ (lit '': '') @ de_detail d @ (lit ''.''))
           (labelled (lit ''Router'')
             [((lit ''stop''), JBool (de_stop d)), ((lit ''rule''), JStr (de_rule d)),
              ((lit ''reason''), opt_json (map_option stop_reason_value reason)),
              ((lit ''subquestions''), JObj (fold (\<lambda>s. dput (sq_id s) (JStr (subquestion_status_value (sq_status s)))) (rs_plan st) [])),
              ((lit ''budget''), numbers_json (meter_snapshot now (lw_meter w1)))]) w1)"

definition assess_coverage ::
  "(inputs, coverage_output) predictor \<Rightarrow> (real \<Rightarrow> str) \<Rightarrow> budget_settings \<Rightarrow> scoring_settings \<Rightarrow> nat \<Rightarrow> mem_sink \<Rightarrow> real
     \<Rightarrow> research_state \<Rightarrow> llm_world \<Rightarrow> (llm_exception + research_state) \<times> llm_world" where
  "assess_coverage predict repr b sc facet_limit k now st0 w0 =
     (let st1 = assess_facets sc st0;
          (r, w1) = (if open_subquestions st1 = [] then (Inr st1, w0)
             else case predict [((lit ''question''), JStr (rs_question st1)), ((lit ''status''), status_payload st1)] k w0 of
                    (Inr output, w) \<Rightarrow>
                      (let (st2, w') = fold (apply_item facet_limit k (co_rationale output)) (co_items output) (st1, w)
                       in (Inr (assess_facets sc st2), w'))
                  | (Inl (LLM_failure e), w) \<Rightarrow> (Inr (assess_facets sc st1), w)
                  | (Inl x, w) \<Rightarrow> (Inl x, w))
      in case r of
           Inl x \<Rightarrow> (Inl x, w1)
         | Inr st2 \<Rightarrow>
             (let st3 = st2\<lparr>rs_plan := progress_plan b st2\<rparr>;
                  w2 = fold (announce_missing k) (rs_plan st3) w1;
                  d = decide repr now st3 (lw_meter w2) b
              in (Inr (apply_route d st3), announce_route k now d st3 w2)))"

definition route_after_coverage :: "research_state \<Rightarrow> str" where
  "route_after_coverage st =
     (case rs_route st of
        None \<Rightarrow> (lit ''synthesize'')
      | Some r \<Rightarrow> if rt_stop r then (lit ''synthesize'') else (lit ''generate_queries''))"

end
