(* ===== verification/Intake.thy ===== *)
theory Intake
  imports Masking Skills Validation CoverageNode
begin

text \<open>
  \<open>agent/nodes/intake.py\<close>: the question is accepted, analysed and turned into a plan. The masker and the
  models are arguments; what the skills add to the prompts and the domain tiers is a function of the
  state (see the graph).
\<close>

definition MAX_QUESTION_CHARS :: nat where
  "MAX_QUESTION_CHARS = 2000"

definition year_rx :: rx where
  "year_rx =
     (seqs [WordB, Grp ''1'' (seqs [rlit (lit ''20''), times 2 (Chr is_digit)]), WordB])"

definition entity_rx :: rx where
  "entity_rx =
     (seqs [WordB, alts [seqs [Chr (\<lambda>x. (65 \<le> x \<and> x \<le> 90) \<or> x \<in> {199, 286,
      304, 214, 350, 220}), Star (Chr (\<lambda>x. is_word x \<or> x \<in> {231, 287, 305, 246, 351, 252,
      199, 286, 304, 214, 350, 220, 39, 8217, 46, 38, 45})),
      Chr (\<lambda>x. (65 \<le> x \<and> x \<le> 90) \<or> (97 \<le> x \<and> x \<le> 122) \<or> (48 \<le> x \<and> x \<le> 57) \<or> x \<in> {231,
      287, 305, 246, 351, 252})], atleast 2 (Chr (\<lambda>x. (65 \<le> x \<and> x \<le> 90)))], WordB])"

definition action_words_rx :: rx where
  "action_words_rx =
     (seqs [WordB, alts [irlit (lit ''plan''), irlit (lit ''aksiyon''), irlit ([246] @ lit ''neri''),
      irlit (lit ''recommend''), irlit (lit ''should''), irlit (lit ''nas'' @ [305] @ lit ''l''),
      irlit (lit ''how to''), irlit (lit ''ne yapmal''), seqs [irlit (lit ''step''), opt (ich 115)]],
      Star (Chr is_word)])"

section \<open>intake_guard\<close>

definition intake_error :: "str \<Rightarrow> error_code \<Rightarrow> str \<Rightarrow> mem_sink \<Rightarrow> agent_error" where
  "intake_error decision code outcome k = (gateway_error code k decision (Some outcome))\<lparr>ae_node := (lit ''intake_guard'')\<rparr>"

definition intake_guard ::
  "(str \<Rightarrow> mask_result) \<Rightarrow> day \<Rightarrow> mem_sink \<Rightarrow> research_state \<Rightarrow> llm_world \<Rightarrow> (node_exception + research_state) \<times> llm_world" where
  "intake_guard masker today k st w =
     (let question = join (lit '' '') (split_ws (rs_question st))
      in if question = []
         then (Inl (Run_rejected (intake_error (lit ''reject the run'') CONFIG_INVALID (lit ''empty question'') k)), w)
         else if MAX_QUESTION_CHARS < length question
         then (Inl (Run_rejected (intake_error (lit ''reject the run'') CONFIG_INVALID
                ((lit ''question longer than '') @ dec MAX_QUESTION_CHARS @ (lit '' characters'')) k)), w)
         else
           (let masked = masker question;
                w1 = (if mr_degraded masked
                      then say_error k (intake_error (lit ''mask with patterns only'') PII_ENGINE_DEGRADED
                             (lit ''known identifiers are still masked'') k) w
                      else w);
                language = detect_language (mr_text masked);
                summary = mask_summary masked;
                note = (if summary = [] then []
                        else (lit '', masked '') @ dec (sum_list (dvals summary)) @ (lit '' identifier(s)''))
            in (Inr (st\<lparr>rs_question := mr_text masked, rs_language := language, rs_as_of := today\<rparr>),
                say_info k (lit ''node_finished'') ((lit ''Question accepted ('') @ language @ (lit '')'') @ note @ (lit ''.''))
                  (labelled (lit ''Intake'') [((lit ''language''), JStr language),
                     ((lit ''pii_masked''), JObj (map (\<lambda>(kind, n). (kind, JNum (real n))) summary)),
                     ((lit ''as_of''), JStr (isoformat today))]) w1)))"

section \<open>analyze_query\<close>

text \<open>\<open>str.isupper\<close>: some cased character, and none that is not upper case.\<close>

definition is_upper1 :: "nat \<Rightarrow> bool" where
  "is_upper1 c = (lower1 c \<noteq> c)"

definition str_isupper :: "str \<Rightarrow> bool" where
  "str_isupper s = (list_ex is_upper1 s \<and> list_all (\<lambda>c. is_alpha c \<longrightarrow> is_upper1 c) s)"

definition intake_date :: "str option \<Rightarrow> day option" where
  "intake_date v = (if given v = [] then None else fromisoformat (take 10 (given v)))"

definition mentioned_years :: "str \<Rightarrow> nat list" where
  "mentioned_years question = sort (remdups (map (\<lambda>h. int_of (h_text h)) (finditer year_rx question)))"

definition years_scope :: "nat list \<Rightarrow> time_scope" where
  "years_scope years =
     (if years = [] then \<lparr>ts_start = None, ts_end = None, ts_description = []\<rparr>
      else \<lparr>ts_start = Some (ymd_ordinal (int (hd years)) 1 1), ts_end = Some (ymd_ordinal (int (last years)) 12 31),
            ts_description = (if 1 < length years then dec (hd years) @ (lit ''-'') @ dec (last years) else dec (hd years))\<rparr>)"

definition strip_dots :: "str \<Rightarrow> str" where
  "strip_dots s = rstrip_set {46} (dropWhile (\<lambda>c. c = 46) s)"

fun named_entities :: "bool \<Rightarrow> hit list \<Rightarrow> str list \<Rightarrow> str list" where
  "named_entities several [] entities = entities"
| "named_entities several (h # hs) entities =
     (let token = strip_dots (h_text h)
      in if h_start h = 0 \<and> \<not> str_isupper token \<and> several then named_entities several hs entities
         else named_entities several hs (add_new token entities))"

definition heuristic_analysis :: "str \<Rightarrow> str \<Rightarrow> query_analysis" where
  "heuristic_analysis question language =
     \<lparr>an_language = language, an_intent = question,
      an_entities = take 8 (named_entities (1 < length (split_ws question)) (finditer entity_rx question) []),
      an_time_scope = years_scope (mentioned_years question),
      an_answer_type = (if found action_words_rx question then (lit ''action_plan'') else (lit ''overview'')),
      an_domain = (lit ''general''), an_source_hints = [], an_skills = [],
      an_rationale = (lit ''Heuristic analysis (the model was unavailable).''), an_fallback = True\<rparr>"

record time_scope_out =
  to_start :: "str option"
  to_end :: "str option"
  to_description :: str

record analyze_output =
  ao_rationale :: str
  ao_language :: str
  ao_intent :: str
  ao_entities :: "str list"
  ao_time_scope :: time_scope_out
  ao_answer_type :: str
  ao_domain :: str
  ao_source_hints :: "str list"
  ao_skills :: "str list"

text \<open>A period that ends before it starts is turned round.\<close>

definition scope_of :: "time_scope_out \<Rightarrow> time_scope" where
  "scope_of out =
     (case (intake_date (to_start out), intake_date (to_end out)) of
        (Some a, Some b) \<Rightarrow> \<lparr>ts_start = Some (min a b), ts_end = Some (max a b), ts_description = to_description out\<rparr>
      | (a, b) \<Rightarrow> \<lparr>ts_start = a, ts_end = b, ts_description = to_description out\<rparr>)"

definition analysis_of :: "analyze_output \<Rightarrow> query_analysis" where
  "analysis_of out =
     \<lparr>an_language = ao_language out, an_intent = ao_intent out,
      an_entities = take 10 (filter (\<lambda>e. strip e \<noteq> []) (fromkeys (ao_entities out))),
      an_time_scope = scope_of (ao_time_scope out), an_answer_type = ao_answer_type out, an_domain = ao_domain out,
      an_source_hints = take 8 (ao_source_hints out), an_skills = ao_skills out, an_rationale = ao_rationale out,
      an_fallback = False\<rparr>"

definition analysis_json :: "query_analysis \<Rightarrow> (str \<times> json) list" where
  "analysis_json a =
     [((lit ''language''), JStr (an_language a)), ((lit ''intent''), JStr (an_intent a)), ((lit ''entities''), strs_json (an_entities a)),
      ((lit ''time_scope''), scope_json (an_time_scope a)), ((lit ''answer_type''), JStr (an_answer_type a)),
      ((lit ''domain''), JStr (an_domain a)), ((lit ''source_hints''), strs_json (an_source_hints a)),
      ((lit ''skills''), strs_json (an_skills a)), ((lit ''rationale''), JStr (an_rationale a))]"

text \<open>Text with Turkish letters is Turkish whatever the model says; the skills are those that exist.\<close>

definition settle_analysis :: "(str, skill) dict \<Rightarrow> query_analysis \<Rightarrow> research_state \<Rightarrow> research_state" where
  "settle_analysis skills a0 st =
     (let a1 = (if detect_language (rs_question st) = (lit ''tr'') then a0\<lparr>an_language := (lit ''tr'')\<rparr> else a0);
          chosen = select_skills skills (an_skills a1) [];
          names = map sk_name chosen
      in st\<lparr>rs_language := an_language a1, rs_analysis := a1\<lparr>an_skills := names\<rparr>, rs_skills := names,
            rs_skill_domains := added_domains chosen\<rparr>)"

definition say_analysis :: "mem_sink \<Rightarrow> research_state \<Rightarrow> llm_world \<Rightarrow> llm_world" where
  "say_analysis k st w =
     (let a = rs_analysis st;
          scope = (if ts_description (an_time_scope a) = [] then (lit ''no explicit time frame'') else ts_description (an_time_scope a));
          w1 = say_info k (lit ''decision'') ((lit ''Intent: '') @ an_intent a @ (lit '' Scope: '') @ scope @ (lit ''.''))
                 (labelled (lit ''Analyzer'') [((lit ''analysis''), JObj (analysis_json a @ [((lit ''fallback''), JBool (an_fallback a))])),
                    ((lit ''rationale''), JStr (an_rationale a)), ((lit ''fallback''), JBool (an_fallback a))]) w
      in if rs_skills st = [] then w1
         else say_info k (lit ''skills_activated'')
                ((lit ''Activated: '') @ join (lit '', '') (rs_skills st) @ (lit '' - '') @ [34] @ take 120 (an_rationale a) @ [34])
                (labelled (lit ''Skills'') [((lit ''skills''), strs_json (rs_skills st)),
                   ((lit ''added_domains''), JObj (map (\<lambda>(tier, listed). (dec tier, strs_json listed)) (rs_skill_domains st)))]) w1)"

definition analyze_query ::
  "(inputs, analyze_output) predictor \<Rightarrow> (str, skill) dict \<Rightarrow> day \<Rightarrow> mem_sink \<Rightarrow> research_state \<Rightarrow> llm_world
     \<Rightarrow> (node_exception + research_state) \<times> llm_world" where
  "analyze_query predict skills today k st w =
     (case predict [((lit ''question''), JStr (rs_question st)), ((lit ''today''), JStr (isoformat today)),
                    ((lit ''skills_menu''), JStr (skill_menu skills))] k w of
        (Inl (LLM_failure e), w1) \<Rightarrow>
          (let st1 = settle_analysis skills (heuristic_analysis (rs_question st) (rs_language st)) st
           in (Inr st1, say_analysis k st1 w1))
      | (Inl x, w1) \<Rightarrow> (Inl (Model_raised x), w1)
      | (Inr out, w1) \<Rightarrow>
          (let st1 = settle_analysis skills (analysis_of out) st in (Inr st1, say_analysis k st1 w1)))"

section \<open>plan\<close>

record subquestion_out =
  qo_text :: str
  qo_priority :: priority
  qo_facets :: "facet_out list"
  qo_expected_sources :: "str list"

record plan_output =
  po_rationale :: str
  po_subquestions :: "subquestion_out list"

definition new_facet :: "str \<Rightarrow> str \<Rightarrow> str \<Rightarrow> facet" where
  "new_facet i name description = \<lparr>f_id = i, f_name = name, f_description = description, f_status = F_OPEN\<rparr>"

definition new_subquestion :: "str \<Rightarrow> str \<Rightarrow> priority \<Rightarrow> facet list \<Rightarrow> str list \<Rightarrow> subquestion" where
  "new_subquestion i text priority facets sources =
     \<lparr>sq_id = i, sq_text = text, sq_priority = priority, sq_facets = facets, sq_expected_sources = sources,
      sq_status = PENDING, sq_queries_tried = [], sq_rounds_without_progress = 0, sq_exhausted_reason = None\<rparr>"

definition fallback_plan :: "research_state \<Rightarrow> subquestion list" where
  "fallback_plan st =
     [new_subquestion (lit ''s1'') (rs_question st) MUST
        (new_facet (lit ''s1f1'') (lit ''direct answer'') (lit ''A sourced answer to the question itself.'')
          # (if an_answer_type (rs_analysis st) = (lit ''action_plan'')
             then [new_facet (lit ''s1f2'') (lit ''obligations'') (lit ''The requirements the actions must satisfy.'')] else []))
        []]"

definition site_ending_rx :: rx where
  "site_ending_rx =
     (seqs [ch 46, alts [rlit (lit ''com''), rlit (lit ''org''), rlit (lit ''net''), rlit (lit ''ai'')],
      Eos])"

text \<open>The planner may write Wix where the analysis says Wix.com.\<close>

definition entity_alias :: "str \<Rightarrow> str" where
  "entity_alias entity = sub site_ending_rx (\<lambda>_. []) (fold_text entity)"

definition mentions :: "str \<Rightarrow> str \<Rightarrow> bool" where
  "mentions text name \<longleftrightarrow> name \<noteq> [] \<and> found (seqs [NotBehind is_word, rlit name, NotAhead rword]) text"

definition mentioned_entities :: "research_state \<Rightarrow> str \<Rightarrow> str set" where
  "mentioned_entities st text =
     set (filter (mentions (fold_text text)) (map entity_alias (an_entities (rs_analysis st))))"

fun normalise_facets :: "nat \<Rightarrow> str \<Rightarrow> facet_out list \<Rightarrow> facet list \<Rightarrow> facet list" where
  "normalise_facets limit subq_id [] facets = facets"
| "normalise_facets limit subq_id (f # fs) facets =
     (let name = join (lit '' '') (split_ws (fo_name f))
      in if name = [] \<or> list_ex (\<lambda>g. 8 / 10 \<le> token_jaccard name (f_name g)) facets
         then normalise_facets limit subq_id fs facets
         else let facets' = facets @ [new_facet (subq_id @ (lit ''f'') @ dec (length facets + 1)) name (strip (fo_description f))]
              in if limit \<le> length facets' then facets' else normalise_facets limit subq_id fs facets')"

definition plan_subquestion :: "nat \<Rightarrow> str \<Rightarrow> str \<Rightarrow> subquestion_out \<Rightarrow> subquestion" where
  "plan_subquestion max_facets subq_id text candidate =
     (let facets = normalise_facets max_facets subq_id (qo_facets candidate) []
      in new_subquestion subq_id text (qo_priority candidate)
           (if facets = [] then [new_facet (subq_id @ (lit ''f1'')) (lit ''direct answer'') text] else facets)
           (take 5 (qo_expected_sources candidate)))"

fun keep_subquestions :: "plan_settings \<Rightarrow> research_state \<Rightarrow> subquestion_out list \<Rightarrow> subquestion list \<Rightarrow> subquestion list" where
  "keep_subquestions s st [] kept = kept"
| "keep_subquestions s st (c # cs) kept =
     (let text = join (lit '' '') (split_ws (qo_text c))
      in if text = [] \<or> list_ex (\<lambda>q. 8 / 10 \<le> token_jaccard text (sq_text q)
                \<and> mentioned_entities st text = mentioned_entities st (sq_text q)) kept
         then keep_subquestions s st cs kept
         else let kept' = kept @ [plan_subquestion (ps_max_facets_per_subquestion s) (next_id (lit ''s'') (length kept)) text c]
              in if ps_max_subquestions s \<le> length kept' then kept' else keep_subquestions s st cs kept')"

fun ensure_must :: "subquestion list \<Rightarrow> subquestion list" where
  "ensure_must [] = []"
| "ensure_must (q # qs) =
     (if list_ex (\<lambda>x. sq_priority x = MUST) (q # qs) then q # qs else q\<lparr>sq_priority := MUST\<rparr> # qs)"

definition normalise_plan :: "plan_settings \<Rightarrow> plan_output \<Rightarrow> research_state \<Rightarrow> subquestion list" where
  "normalise_plan s out st =
     ensure_must (keep_subquestions s st
       (sort_key (\<lambda>q. if qo_priority q = MUST then 0 else 1 :: nat) (po_subquestions out)) [])"

fun priority_value :: "priority \<Rightarrow> str" where
  "priority_value MUST = (lit ''must'')"
| "priority_value NICE = (lit ''nice'')"

definition say_plan :: "mem_sink \<Rightarrow> str \<Rightarrow> bool \<Rightarrow> subquestion list \<Rightarrow> llm_world \<Rightarrow> llm_world" where
  "say_plan k rationale fallback subquestions w =
     say_info k (lit ''plan_created'') ((lit ''Created '') @ dec (length subquestions) @ (lit '' research tasks.''))
       (labelled (lit ''Planner'')
          [((lit ''rationale''), JStr rationale), ((lit ''fallback''), JBool fallback),
           ((lit ''must''), JNum (real (length (filter (\<lambda>q. sq_priority q = MUST) subquestions)))),
           ((lit ''subquestions''), JList (map (\<lambda>q. JObj [((lit ''id''), JStr (sq_id q)), ((lit ''text''), JStr (sq_text q)),
              ((lit ''priority''), JStr (priority_value (sq_priority q))), ((lit ''facets''), strs_json (map f_name (sq_facets q)))])
              subquestions))]) w"

definition plan_node ::
  "(inputs, plan_output) predictor \<Rightarrow> plan_settings \<Rightarrow> mem_sink \<Rightarrow> research_state \<Rightarrow> llm_world
     \<Rightarrow> (node_exception + research_state) \<times> llm_world" where
  "plan_node predict s k st w =
     (let finish = (\<lambda>subquestions rationale w.
            if subquestions = []
            then (Inr (st\<lparr>rs_plan := fallback_plan st\<rparr>),
                  say_plan k (lit ''Fallback plan: the question itself as a single sub-question.'') True (fallback_plan st) w)
            else (Inr (st\<lparr>rs_plan := subquestions\<rparr>), say_plan k rationale False subquestions w))
      in case predict [((lit ''question''), JStr (rs_question st)), ((lit ''analysis''), JObj (analysis_json (rs_analysis st))),
                       ((lit ''min_subquestions''), JNum (real (ps_min_subquestions s))),
                       ((lit ''max_subquestions''), JNum (real (ps_max_subquestions s))),
                       ((lit ''max_facets''), JNum (real (ps_max_facets_per_subquestion s)))] k w of
           (Inl (LLM_failure e), w1) \<Rightarrow> finish [] [] w1
         | (Inl x, w1) \<Rightarrow> (Inl (Model_raised x), w1)
         | (Inr out, w1) \<Rightarrow> finish (normalise_plan s out st) (po_rationale out) w1)"

end
