(* ===== verification/Contradictions.thy ===== *)
theory Contradictions
  imports Clustering
begin

text \<open>
  \<open>agent/contradictions.py\<close>: pairs of findings about the same entity and attribute, in the same period,
  whose values do not match. Reading a number may raise, as in \<open>Numeric\<close>.
\<close>

definition QUALIFIERS :: "str list" where
  "QUALIFIERS =
     [(lit ''projected''), (lit ''estimated''), (lit ''expected''), (lit ''forecast''), (lit ''forecasted''), (lit ''anticipated''), (lit ''current''),
      (lit ''total''), (lit ''overall''), (lit ''tahmini''), ([246] @ lit ''ng'' @ [246] @ lit ''r'' @ [252] @ lit ''len''), (lit ''beklenen''), (lit ''toplam'')]"

definition SYNONYMS :: "(str, str) dict" where
  "SYNONYMS =
     [((lit ''valuation''), (lit ''size'')), ((lit ''value''), (lit ''size'')), ((lit ''worth''), (lit ''size'')), ((lit ''b'' @ [252] @ lit ''y'' @ [252] @ lit ''kl'' @ [252, 287, 252]), (lit ''b'' @ [252] @ lit ''y'' @ [252] @ lit ''kl'' @ [252] @ lit ''k''))]"

definition year_rx :: rx where
  "year_rx =
     (seqs [WordB, alts [rlit (lit ''19''), rlit (lit ''20'')], times 2 (Chr is_digit), WordB])"

definition attribute_key :: "str option \<Rightarrow> str option" where
  "attribute_key attribute =
     (if given attribute = [] then None
      else let words = map (\<lambda>w. dget_or SYNONYMS w w)
                 (filter (\<lambda>w. \<not> List.member QUALIFIERS w) (split_ws (fold_text (given attribute))));
               key = join (lit '' '') words
           in if key = [] then None else Some key)"

definition periods_differ :: "str option \<Rightarrow> str option \<Rightarrow> bool" where
  "periods_differ left right =
     (if given left = [] \<or> given right = [] then False
      else let a = map h_text (finditer year_rx (given left)); b = map h_text (finditer year_rx (given right))
           in if a \<noteq> [] \<and> b \<noteq> [] then a \<noteq> b
              else if a \<noteq> [] \<or> b \<noteq> [] then False
              else split_ws (fold_text (given left)) \<noteq> split_ws (fold_text (given right)))"

definition same_entity :: "cluster \<Rightarrow> cluster \<Rightarrow> bool" where
  "same_entity left right =
     (if entities_equivalent (k_entity left) (k_entity right) then True
      else k_as_of left \<noteq> None \<and> k_as_of left = k_as_of right \<and> entity_contains (k_entity left) (k_entity right))"

definition same_attribute :: "str option \<Rightarrow> str option \<Rightarrow> bool" where
  "same_attribute left right =
     (case (attribute_key left, attribute_key right) of
        (Some a, Some b) \<Rightarrow>
          if a = b \<or> 6 / 10 \<le> token_jaccard a b then True
          else let ta = token_set a; tb = token_set b; shorter = min (card ta) (card tb)
               in 2 \<le> shorter \<and> 75 / 100 \<le> real (card (ta \<inter> tb)) / real shorter
      | _ \<Rightarrow> False)"

definition values_differ ::
  "cluster \<Rightarrow> cluster \<Rightarrow> contradiction_settings \<Rightarrow> str \<Rightarrow> numeric_error + bool" where
  "values_differ left right s language =
     (if given (k_value left) = [] \<or> given (k_value right) = [] then Inr False
      else rbind (extract_quantities (value_text (k_value left) (k_unit left)) language) (\<lambda>a.
           rbind (extract_quantities (value_text (k_value right) (k_unit right)) language) (\<lambda>b.
             Inr (if a \<noteq> [] \<and> b \<noteq> [] then
                    \<not> list_ex (\<lambda>x. list_ex (quantities_match (cs_numeric_relative_tolerance s)
                         (cs_numeric_relative_tolerance s * 10) (real (cs_date_granularity_days s)) x) b) a
                  else if a \<noteq> [] \<or> b \<noteq> [] then True
                  else token_jaccard (given (k_value left)) (given (k_value right)) < 5 / 10))))"

text \<open>\<open>combinations(ordered, 2)\<close>\<close>

fun pairs_of :: "'a list \<Rightarrow> ('a \<times> 'a) list" where
  "pairs_of [] = []"
| "pairs_of (x # xs) = map (Pair x) xs @ pairs_of xs"

definition is_candidate ::
  "str set list \<Rightarrow> contradiction_settings \<Rightarrow> str \<Rightarrow> cluster \<times> cluster \<Rightarrow> numeric_error + bool" where
  "is_candidate judged s language p =
     (case p of (left, right) \<Rightarrow>
        if {k_id left, k_id right} \<in> set judged then Inr False
        else if \<not> same_entity left right then Inr False
        else if periods_differ (k_as_of left) (k_as_of right) then Inr False
        else if \<not> same_attribute (k_attribute left) (k_attribute right) then Inr False
        else values_differ left right s language)"

fun rfilter :: "('a \<Rightarrow> 'e + bool) \<Rightarrow> 'a list \<Rightarrow> 'e + 'a list" where
  "rfilter P [] = Inr []"
| "rfilter P (x # xs) = rbind (P x) (\<lambda>b. rbind (rfilter P xs) (\<lambda>ys. Inr (if b then x # ys else ys)))"

definition contradiction_candidates ::
  "(str, cluster) dict \<Rightarrow> contradiction_settings \<Rightarrow> str \<Rightarrow> str set list \<Rightarrow> numeric_error + (str \<times> str) list" where
  "contradiction_candidates clusters s language judged =
     rbind (rfilter (is_candidate judged s language) (pairs_of (sort_key k_id (dvals clusters))))
       (\<lambda>ps. Inr (map (\<lambda>(left, right). (k_id left, k_id right)) ps))"

section \<open>Facts\<close>

lemma rfilter_set: "rfilter P xs = Inr ys \<Longrightarrow> set ys = {x \<in> set xs. P x = Inr True}"
  by (induction xs arbitrary: ys) (auto simp: rbind_Inr_iff split: if_splits)

lemma rfilter_subseq: "rfilter P xs = Inr ys \<Longrightarrow> subseq ys xs"
  by (induction xs arbitrary: ys) (auto simp: rbind_Inr_iff split: if_splits)

lemma pairs_of_mem: "(x, y) \<in> set (pairs_of xs) \<Longrightarrow> x \<in> set xs \<and> y \<in> set xs"
  by (induction xs) auto

lemma pairs_of_complete:
  "x \<in> set xs \<Longrightarrow> y \<in> set xs \<Longrightarrow> x \<noteq> y \<Longrightarrow> (x, y) \<in> set (pairs_of xs) \<or> (y, x) \<in> set (pairs_of xs)"
  by (induction xs) auto

lemma pairs_of_sorted: "(x, y) \<in> set (pairs_of xs) \<Longrightarrow> sorted (map f xs) \<Longrightarrow> f x \<le> (f y :: 'b::linorder)"
  by (induction xs) auto

lemma pairs_of_distinct: "distinct xs \<Longrightarrow> distinct (pairs_of xs) \<and> (\<forall>(x, y)\<in>set (pairs_of xs). x \<noteq> y)"
proof (induction xs)
  case (Cons z xs)
  then show ?case by (auto simp: distinct_map inj_on_def dest: pairs_of_mem)
qed simp

end
