(* ===== verification/ContradictionNode.thy ===== *)
theory ContradictionNode
  imports Contradictions NodeBase
begin

text \<open>
  The node \<open>detect_contradictions\<close> of \<open>agent/nodes/evidence.py\<close>: every candidate pair is shown to a
  judge once and recorded; without a judge it counts as a conflict. A side is preferred only when the
  ledger backs it.
\<close>

datatype side = Left_side | Right_side | No_side

record contradiction_judgement =
  cj_pair_id :: str
  cj_kind :: contradiction_kind
  cj_summary :: str
  cj_preferred :: side
  cj_rationale :: str

fun contradiction_kind_value :: "contradiction_kind \<Rightarrow> str" where
  "contradiction_kind_value TRUE_CONFLICT = (lit ''true_conflict'')"
| "contradiction_kind_value DIFFERENT_TIME = (lit ''different_time'')"
| "contradiction_kind_value DIFFERENT_SCOPE = (lit ''different_scope'')"
| "contradiction_kind_value ROUNDING = (lit ''rounding'')"
| "contradiction_kind_value CONSISTENT = (lit ''consistent'')"

definition judge_side :: "research_state \<Rightarrow> cluster \<Rightarrow> json" where
  "judge_side st k = JObj
     [((lit ''id''), JStr (k_id k)), ((lit ''statement''), JStr (k_statement k)), ((lit ''value''), opt_json (k_value k)),
      ((lit ''as_of''), opt_json (k_as_of k)), ((lit ''conditions''), strs_json (k_conditions k)),
      ((lit ''effective_from''), opt_json (k_effective_from k)), ((lit ''effective_until''), opt_json (k_effective_until k)),
      ((lit ''requires_fresh_confirmation''), JBool (k_requires_fresh_confirmation k)),
      ((lit ''support''), JNum (real (support k))), ((lit ''primary''), JBool (k_has_primary k)),
      ((lit ''best_source_score''), JNum (k_best_source_score k)),
      ((lit ''latest_source_date''), opt_json (map_option isoformat (latest_source_date st k)))]"

definition backs_preference :: "research_state \<Rightarrow> cluster \<Rightarrow> cluster \<Rightarrow> bool" where
  "backs_preference st chosen other =
     (if \<not> k_has_primary chosen then False
      else if k_best_source_score other \<le> k_best_source_score chosen then True
      else (case latest_source_date st chosen of
              None \<Rightarrow> False
            | Some mine \<Rightarrow> (case latest_source_date st other of None \<Rightarrow> True | Some theirs \<Rightarrow> theirs \<le> mine)))"

definition pair_json :: "research_state \<Rightarrow> nat \<times> str \<times> str \<Rightarrow> node_exception + json" where
  "pair_json st p = (case p of (index, left_id, right_id) \<Rightarrow>
     rbind (dget_err (rs_clusters st) left_id) (\<lambda>left.
     rbind (dget_err (rs_clusters st) right_id) (\<lambda>right.
       Inr (JObj [((lit ''pair_id''), JStr ((lit ''p'') @ dec index)), ((lit ''left''), judge_side st left),
                  ((lit ''right''), judge_side st right)]))))"

text \<open>The record of one pair, before it is appended.\<close>

definition judged_pair ::
  "research_state \<Rightarrow> contradiction_judgement option \<Rightarrow> cluster \<Rightarrow> cluster \<Rightarrow> str \<times> str \<Rightarrow> contradiction" where
  "judged_pair st verdict left right ids =
     (let kind = (case verdict of None \<Rightarrow> TRUE_CONFLICT | Some v \<Rightarrow> cj_kind v);
          summary = (case verdict of None \<Rightarrow> k_statement left @ (lit '' <> '') @ k_statement right | Some v \<Rightarrow> cj_summary v);
          chosen = (case verdict of None \<Rightarrow> None | Some v \<Rightarrow> (case cj_preferred v of
                      Left_side \<Rightarrow> Some (left, right) | Right_side \<Rightarrow> Some (right, left) | No_side \<Rightarrow> None));
          backed = (case chosen of None \<Rightarrow> None | Some (c, other) \<Rightarrow> if backs_preference st c other then Some (k_id c) else None)
      in \<lparr>x_id = next_id (lit ''x'') (length (rs_contradictions st)), x_cluster_ids = [fst ids, snd ids],
          x_subq_id = k_subq_id left, x_kind = kind, x_summary = summary,
          x_rationale = (case verdict of None \<Rightarrow> (lit ''no judge available'') | Some v \<Rightarrow> cj_rationale v),
          x_preferred_cluster_id = (if kind \<noteq> TRUE_CONFLICT \<and> kind \<noteq> DIFFERENT_TIME then None else backed),
          x_resolved = (kind \<noteq> TRUE_CONFLICT \<or> backed \<noteq> None),
          x_followup_attempted = False, x_iteration = rs_iteration st\<rparr>)"

definition contradiction_json :: "contradiction \<Rightarrow> (str \<times> json) list" where
  "contradiction_json x =
     [((lit ''id''), JStr (x_id x)), ((lit ''cluster_ids''), strs_json (x_cluster_ids x)), ((lit ''subq_id''), JStr (x_subq_id x)),
      ((lit ''kind''), JStr (contradiction_kind_value (x_kind x))), ((lit ''summary''), JStr (x_summary x)),
      ((lit ''rationale''), JStr (x_rationale x)), ((lit ''preferred_cluster_id''), opt_json (x_preferred_cluster_id x)),
      ((lit ''resolved''), JBool (x_resolved x)), ((lit ''followup_attempted''), JBool (x_followup_attempted x)),
      ((lit ''iteration''), JNum (real (x_iteration x)))]"

definition contest :: "str \<Rightarrow> (str, cluster) dict \<Rightarrow> (str, cluster) dict" where
  "contest i clusters = dmap_at i (\<lambda>k. k\<lparr>k_status := CONTESTED\<rparr>) clusters"

text \<open>The body of the second loop.\<close>

definition record_pair ::
  "mem_sink \<Rightarrow> (str, contradiction_judgement) dict \<Rightarrow> nat \<times> str \<times> str \<Rightarrow> research_state \<times> llm_world
     \<Rightarrow> node_exception + research_state \<times> llm_world" where
  "record_pair k verdicts p s =
     (case p of (index, left_id, right_id) \<Rightarrow> case s of (st, w) \<Rightarrow>
        rbind (dget_err (rs_clusters st) left_id) (\<lambda>left.
        rbind (dget_err (rs_clusters st) right_id) (\<lambda>right.
          let x = judged_pair st (dget verdicts ((lit ''p'') @ dec index)) left right (left_id, right_id);
              st1 = (if x_kind x = TRUE_CONFLICT
                     then st\<lparr>rs_clusters := contest right_id (contest left_id (rs_clusters st))\<rparr> else st)
          in Inr (st1\<lparr>rs_contradictions := rs_contradictions st @ [x]\<rparr>,
                  say_warn k (lit ''contradiction_found'')
                    (map (\<lambda>c. if c = 95 then 32 else c) (contradiction_kind_value (x_kind x)) @ (lit '': '') @ x_summary x)
                    (labelled (lit ''Contradiction'') (contradiction_json x)) w))))"

fun record_pairs ::
  "mem_sink \<Rightarrow> (str, contradiction_judgement) dict \<Rightarrow> (nat \<times> str \<times> str) list \<Rightarrow> research_state \<times> llm_world
     \<Rightarrow> node_exception + research_state \<times> llm_world" where
  "record_pairs k verdicts [] s = Inr s"
| "record_pairs k verdicts (p # ps) s = rbind (record_pair k verdicts p s) (record_pairs k verdicts ps)"

text \<open>
  The second loop cannot fail: \<open>pair_json\<close> has looked every cluster up, and no key goes away (\<open>record_pairs_total\<close>).
\<close>

definition ends_with_state ::
  "llm_world \<Rightarrow> node_exception + research_state \<times> llm_world \<Rightarrow> (node_exception + research_state) \<times> llm_world" where
  "ends_with_state w r = (case r of Inl e \<Rightarrow> (Inl e, w) | Inr (st, w') \<Rightarrow> (Inr st, w'))"

definition judged_sets :: "research_state \<Rightarrow> str set list" where
  "judged_sets st = map (\<lambda>x. set (x_cluster_ids x)) (rs_contradictions st)"

text \<open>The verdicts by pair; without a judge there are none, and every candidate counts as a conflict.\<close>

definition verdicts_of ::
  "llm_exception + contradiction_judgement list \<Rightarrow> node_exception + (str, contradiction_judgement) dict" where
  "verdicts_of r =
     (case r of
        Inr items \<Rightarrow> Inr (fold (\<lambda>i. dput (cj_pair_id i) i) items [])
      | Inl (LLM_failure _) \<Rightarrow> Inr []
      | Inl x \<Rightarrow> Inl (Model_raised x))"

definition judge_inputs :: "research_state \<Rightarrow> json list \<Rightarrow> inputs" where
  "judge_inputs st payload =
     [((lit ''question''), JStr (rs_question st)), ((lit ''language''), JStr (rs_language st)), ((lit ''pairs''), JList payload)]"

definition detect_contradictions ::
  "(inputs, contradiction_judgement list) predictor \<Rightarrow> contradiction_settings \<Rightarrow> mem_sink \<Rightarrow> research_state \<Rightarrow> llm_world
     \<Rightarrow> (node_exception + research_state) \<times> llm_world" where
  "detect_contradictions predict s k st w =
     (case contradiction_candidates (rs_clusters st) s (rs_language st) (judged_sets st) of
        Inl e \<Rightarrow> (Inl (Number_raised e), w)
      | Inr pairs \<Rightarrow>
          if pairs = [] then (Inr st, w)
          else (case rmap (pair_json st) (enumerate 1 pairs) of
                Inl e \<Rightarrow> (Inl e, w)
              | Inr payload \<Rightarrow>
                  (case predict (judge_inputs st payload) k w of
                     (r, w1) \<Rightarrow>
                       (case verdicts_of r of
                          Inl e \<Rightarrow> (Inl e, w1)
                        | Inr vs \<Rightarrow> ends_with_state w1 (record_pairs k vs (enumerate 1 pairs) (st, w1))))))"

end
