(* ===== verification/EvidenceNodes.thy ===== *)
theory EvidenceNodes
  imports ContradictionNode Validation Quotes
begin

text \<open>
  The nodes \<open>evaluate_sources\<close>, \<open>extract_claims\<close> and \<open>cluster_and_corroborate\<close> of \<open>agent/nodes/evidence.py\<close>.
  The tasks of one \<open>asyncio.gather\<close> finish in an order the scheduler decides: the argument \<open>schedule\<close>
  permutes them, each task runs in one piece. Embeddings are an argument.
\<close>

definition EVALUATION_BATCH :: nat where
  "EVALUATION_BATCH = 8"

definition EVALUATION_EXCERPT :: nat where
  "EVALUATION_EXCERPT = 2200"

definition EXTRACTION_CHARS :: nat where
  "EXTRACTION_CHARS = 24000"

definition selected_documents :: "research_state \<Rightarrow> document list" where
  "selected_documents st =
     sort_key d_id (filter (\<lambda>d. d_selected_round d = Some (rs_iteration st)) (dvals (rs_documents st)))"

fun facet_status_text :: "facet_status \<Rightarrow> str" where
  "facet_status_text F_OPEN = (lit ''open'')"
| "facet_status_text F_SUFFICIENT = (lit ''sufficient'')"
| "facet_status_text F_CONTESTED = (lit ''contested'')"

definition subquestion_brief :: "research_state \<Rightarrow> json" where
  "subquestion_brief st = JList (map (\<lambda>s. JObj
     [((lit ''id''), JStr (sq_id s)), ((lit ''question''), JStr (sq_text s)),
      ((lit ''facets''), JList (map (\<lambda>f. JObj [((lit ''id''), JStr (f_id f)), ((lit ''name''), JStr (f_name f)),
          ((lit ''status''), JStr (facet_status_text (f_status f)))]) (sq_facets s)))]) (filter sq_open (rs_plan st)))"

section \<open>evaluate_sources\<close>

record source_judgement =
  sj_doc_id :: str
  sj_relevance :: real
  sj_is_primary :: bool
  sj_authority_adjustment :: real
  sj_reason :: str

fun batches_of :: "nat \<Rightarrow> 'a list \<Rightarrow> 'a list list" where
  "batches_of n [] = []"
| "batches_of n (x # xs) = (if n = 0 then [] else take n (x # xs) # batches_of n (drop (n - 1) xs))"

definition evaluation_inputs :: "research_state \<Rightarrow> document list \<Rightarrow> inputs" where
  "evaluation_inputs st batch =
     [((lit ''question''), JStr (rs_question st)), ((lit ''subquestions''), subquestion_brief st),
      ((lit ''documents''), JStr (join [10, 10] (map (\<lambda>d. untrusted
         ((lit ''TITLE: '') @ d_title d @ [10] @ (lit ''DATE: '') @ date_or_unknown (d_published_at d) @ [10]
            @ document_evidence d (rs_question st) EVALUATION_EXCERPT)
         [((lit ''id''), d_id d), ((lit ''domain''), d_domain d)]) batch)))]"

definition judge_batch ::
  "(inputs, source_judgement list) predictor \<Rightarrow> research_state \<Rightarrow> mem_sink \<Rightarrow> document list
     \<Rightarrow> (str, source_judgement) dict \<Rightarrow> llm_world \<Rightarrow> (node_exception + (str, source_judgement) dict) \<times> llm_world" where
  "judge_batch predict st k batch judgements w =
     (case predict (evaluation_inputs st batch) k w of
        (Inl (LLM_failure e), w') \<Rightarrow> (Inr judgements, w')
      | (Inl x, w') \<Rightarrow> (Inl (Model_raised x), w')
      | (Inr items, w') \<Rightarrow>
          (Inr (fold (\<lambda>i js. if List.member (map d_id batch) (sj_doc_id i) then dput (sj_doc_id i) i js else js)
             items judgements), w'))"

definition rescore ::
  "domain_tiers \<Rightarrow> scoring_settings \<Rightarrow> research_state \<Rightarrow> (str, source_judgement) dict \<Rightarrow> document \<Rightarrow> source_score" where
  "rescore t sc st judgements d =
     (let subq_text = join (lit '' '') (map sq_text (List.map_filter (subquestion_of st) (d_subq_ids d)));
          rule_relevance = overlap_ratio subq_text (d_title d @ (lit '' '') @ d_snippet d @ (lit '' '') @ take 2000 (d_content d));
          item = dget judgements (d_id d)
      in score_source (d_domain d) (d_published_at d) (rs_as_of st) (an_time_scope (rs_analysis st))
           (case item of None \<Rightarrow> rule_relevance | Some i \<Rightarrow> sj_relevance i)
           (self_primary_entities (rs_analysis st)) t sc
           (case item of None \<Rightarrow> 0 | Some i \<Rightarrow> sj_authority_adjustment i)
           (map_option sj_is_primary item) (item \<noteq> None)
           (case item of None \<Rightarrow> (lit ''rule-based (model unavailable)'') | Some i \<Rightarrow> sj_reason i))"

definition score_json :: "source_score \<Rightarrow> json" where
  "score_json s = JObj
     [((lit ''authority''), JNum (ss_authority s)), ((lit ''primary''), JNum (ss_primary s)), ((lit ''recency''), JNum (ss_recency s)),
      ((lit ''relevance''), JNum (ss_relevance s)), ((lit ''total''), JNum (ss_total s)), ((lit ''tier''), JNum (real (ss_tier s))),
      ((lit ''is_primary''), JBool (ss_is_primary s)), ((lit ''rationale''), JStr (ss_rationale s)),
      ((lit ''llm_scored''), JBool (ss_llm_scored s))]"

definition score_document ::
  "domain_tiers \<Rightarrow> scoring_settings \<Rightarrow> (str, source_judgement) dict \<Rightarrow> mem_sink \<Rightarrow> document
     \<Rightarrow> research_state \<times> llm_world \<Rightarrow> research_state \<times> llm_world" where
  "score_document t sc judgements k d s =
     (case s of (st, w) \<Rightarrow>
        let score = rescore t sc st judgements d
        in (update_document (d_id d) (\<lambda>x. x\<lparr>d_score := score\<rparr>) st,
            say_info k (lit ''source_scored'') (ss_rationale score)
              (labelled (lit ''Evaluator'') [((lit ''doc_id''), JStr (d_id d)), ((lit ''url''), JStr (d_url d)), ((lit ''score''), score_json score)]) w))"

definition scored_message :: "document list \<Rightarrow> str" where
  "scored_message documents =
     (let primary = length (filter (\<lambda>d. ss_is_primary (d_score d)) documents);
          rule_only = length (filter (\<lambda>d. \<not> ss_llm_scored (d_score d)) documents)
      in (lit ''Scored '') @ dec (length documents) @ (lit '' sources: '') @ dec primary @ (lit '' primary'')
           @ (if rule_only \<noteq> 0 then (lit '', '') @ dec rule_only @ (lit '' by rules only'') else []) @ (lit ''.''))"

definition evaluate_sources ::
  "(inputs, source_judgement list) predictor \<Rightarrow> (document list list \<Rightarrow> document list list) \<Rightarrow> domain_tiers \<Rightarrow> scoring_settings
     \<Rightarrow> mem_sink \<Rightarrow> research_state \<Rightarrow> llm_world \<Rightarrow> (node_exception + research_state) \<times> llm_world" where
  "evaluate_sources predict schedule t sc k st w =
     (let documents = filter (\<lambda>d. \<not> ss_llm_scored (d_score d)) (selected_documents st)
      in if documents = [] then (Inr st, w)
         else case rfold (judge_batch predict st k) (schedule (batches_of EVALUATION_BATCH documents)) [] w of
                (Inl e, w1) \<Rightarrow> (Inl e, w1)
              | (Inr judgements, w1) \<Rightarrow>
                  (let (st2, w2) = fold (score_document t sc judgements k) documents (st, w1);
                       scored = map (\<lambda>d. d\<lparr>d_score := rescore t sc st judgements d\<rparr>) documents
                   in (Inr st2, say_info k (lit ''node_finished'') (scored_message scored) (labelled (lit ''Evaluator'') []) w2)))"

section \<open>extract_claims\<close>

record claim_out =
  cl_subq_id :: str
  cl_facet_id :: "str option"
  cl_text :: str
  cl_quote :: str
  cl_kind :: claim_kind
  cl_entity :: "str option"
  cl_attribute :: "str option"
  cl_value :: "str option"
  cl_unit :: "str option"
  cl_as_of :: "str option"
  cl_conditions :: "str list"
  cl_effective_from :: "str option"
  cl_effective_until :: "str option"
  cl_time_sensitive :: bool
  cl_attributed_to :: "str option"

text \<open>What the loop over the claims of one page collects.\<close>

record extraction =
  xn_accepted :: "claim list"
  xn_rejected :: nat
  xn_injected :: nat

definition known_subquestions :: "research_state \<Rightarrow> (str, subquestion) dict" where
  "known_subquestions st = fold (\<lambda>s. dput (sq_id s) s) (rs_plan st) []"

definition new_claim :: "research_state \<Rightarrow> document \<Rightarrow> claim_out \<Rightarrow> quote_check \<Rightarrow> subquestion \<Rightarrow> str \<Rightarrow> claim" where
  "new_claim st d item check subq subq_id =
     \<lparr>c_id = [], c_subq_id = subq_id,
      c_facet_id = (if list_ex (\<lambda>f. Some (f_id f) = cl_facet_id item) (sq_facets subq) then cl_facet_id item else None),
      c_doc_id = d_id d, c_origin_id = d_origin_id d, c_text = strip (cl_text item), c_quote = strip (cl_quote item),
      c_kind = cl_kind item, c_entity = cl_entity item, c_attribute = cl_attribute item, c_value = cl_value item,
      c_unit = cl_unit item, c_as_of = cl_as_of item, c_conditions = cl_conditions item,
      c_effective_from = cl_effective_from item, c_effective_until = cl_effective_until item,
      c_time_sensitive = cl_time_sensitive item, c_validation_status = LEGACY, c_validation_reason = [],
      c_freshness = NOT_TIME_SENSITIVE, c_requires_fresh_confirmation = False,
      c_quote_match_method = Some (qc_method check), c_quote_match_score = Some (qc_similarity check),
      c_attributed_to = cl_attributed_to item, c_iteration = rs_iteration st\<rparr>"

definition admit_claim ::
  "(int list \<Rightarrow> int list) \<Rightarrow> research_state \<Rightarrow> document \<Rightarrow> claim_out \<Rightarrow> extraction \<Rightarrow> node_exception + extraction" where
  "admit_claim order st d item x =
     (if looks_like_injection (cl_quote item) \<or> looks_like_injection (cl_text item)
      then Inr (x\<lparr>xn_injected := xn_injected x + 1\<rparr>)
      else let check = verify_quote order (cl_quote item) (body_of d)
           in if \<not> qc_ok check then Inr (x\<lparr>xn_rejected := xn_rejected x + 1\<rparr>)
              else rbind (if dmem (cl_subq_id item) (known_subquestions st) then Inr (cl_subq_id item)
                          else (case d_subq_ids d of [] \<Rightarrow> Inl Index_error | i # _ \<Rightarrow> Inr i)) (\<lambda>subq_id.
                   rbind (dget_err (known_subquestions st) subq_id) (\<lambda>subq.
                     Inr (x\<lparr>xn_accepted := xn_accepted x @ [new_claim st d item check subq subq_id]\<rparr>))))"

fun admit_claims ::
  "(int list \<Rightarrow> int list) \<Rightarrow> research_state \<Rightarrow> document \<Rightarrow> claim_out list \<Rightarrow> extraction \<Rightarrow> node_exception + extraction" where
  "admit_claims order st d [] x = Inr x"
| "admit_claims order st d (item # items) x = rbind (admit_claim order st d item x) (admit_claims order st d items)"

definition extraction_inputs :: "research_state \<Rightarrow> str \<Rightarrow> document \<Rightarrow> inputs" where
  "extraction_inputs st today d =
     [((lit ''question''), JStr (rs_question st)),
      ((lit ''subquestions''), JObj [((lit ''report_language''), JStr (rs_language st)), ((lit ''subquestions''), subquestion_brief st)]),
      ((lit ''document''), JStr (untrusted
         ((lit ''TITLE: '') @ d_title d @ [10] @ (lit ''PUBLISHED: '') @ date_or_unknown (d_published_at d) @ [10, 10]
            @ Text.truncate (body_of d) EXTRACTION_CHARS)
         [((lit ''id''), d_id d), ((lit ''url''), d_canonical_url d)])),
      ((lit ''today''), JStr today)]"

record extraction_stats =
  xs_claims :: nat
  xs_rejected :: nat
  xs_failed :: nat
  xs_injection :: nat

text \<open>What the tasks share: the claims found per page, the pages marked as read, the statistics.\<close>

record extraction_state =
  xt_found :: "(str, claim list) dict"
  xt_state :: research_state
  xt_stats :: extraction_stats

definition report_extraction :: "mem_sink \<Rightarrow> document \<Rightarrow> extraction \<Rightarrow> llm_world \<Rightarrow> llm_world" where
  "report_extraction k d x w =
     (let w1 = (if xn_injected x = 0 then w
                else say_warn k (lit ''claim_extracted'') (d_domain d @ (lit '': '') @ dec (xn_injected x)
                       @ (lit '' sentence(s) addressed to the model were not admitted '') @ (lit ''as evidence.''))
                       (labelled (lit ''Extractor'') [((lit ''doc_id''), JStr (d_id d)),
                          ((lit ''injection_suspected''), JNum (real (xn_injected x)))]) w)
      in if xn_rejected x = 0 then w1
         else say_error k (gateway_error EXTRACT_QUOTE_NOT_FOUND k ((lit ''discard '') @ dec (xn_rejected x) @ (lit '' claim(s)''))
                (Some (d_domain d @ (lit '': quote not found in the page text'')))) w1)"

definition extract_document ::
  "(inputs, claim_out list) predictor \<Rightarrow> (inputs, claim_validation list) predictor \<Rightarrow> (int list \<Rightarrow> int list)
     \<Rightarrow> (str \<Rightarrow> day option) \<Rightarrow> str \<Rightarrow> mem_sink \<Rightarrow> document \<Rightarrow> extraction_state \<Rightarrow> llm_world
     \<Rightarrow> (node_exception + extraction_state) \<times> llm_world" where
  "extract_document predict validate order rfc today k d s w =
     (let st = xt_state s; stats = xt_stats s
      in case predict (extraction_inputs st today d) k w of
           (Inl (LLM_failure e), w1) \<Rightarrow>
             (Inr (s\<lparr>xt_found := dput (d_id d) [] (xt_found s), xt_stats := stats\<lparr>xs_failed := xs_failed stats + 1\<rparr>\<rparr>), w1)
         | (Inl x, w1) \<Rightarrow> (Inl (Model_raised x), w1)
         | (Inr items, w1) \<Rightarrow>
             (case admit_claims order st d items \<lparr>xn_accepted = [], xn_rejected = 0, xn_injected = 0\<rparr> of
                Inl e \<Rightarrow> (Inl e, w1)
              | Inr x \<Rightarrow>
                  (case validate_claims validate rfc d st k (xn_accepted x) (report_extraction k d x w1) of
                     (Inl e, w2) \<Rightarrow> (Inl e, w2)
                   | (Inr claims, w2) \<Rightarrow>
                       (Inr (s\<lparr>xt_found := dput (d_id d) claims (xt_found s),
                               xt_state := update_document (d_id d) (\<lambda>y. y\<lparr>d_extracted := True\<rparr>) st,
                               xt_stats := stats\<lparr>xs_rejected := xs_rejected stats + xn_rejected x,
                                                 xs_injection := xs_injection stats + xn_injected x\<rparr>\<rparr>), w2))))"

definition store_claim :: "claim \<Rightarrow> research_state \<Rightarrow> research_state" where
  "store_claim c st =
     (let i = next_id (lit ''c'') (length (rs_claims st));
          st1 = st\<lparr>rs_claims := dput i (c\<lparr>c_id := i\<rparr>) (rs_claims st)\<rparr>;
          st2 = (if c_validation_status c \<noteq> V_SUPPORTED
                 then bump ((lit ''claims_validation_'') @ validation_status_value (c_validation_status c)) 1 st1 else st1)
      in if c_requires_fresh_confirmation c then bump (lit ''claims_need_fresh_confirmation'') 1 st2 else st2)"

definition readable :: "research_state \<Rightarrow> document list" where
  "readable st = filter (\<lambda>d. \<not> d_extracted d \<and> 15 / 100 \<le> ss_relevance (d_score d) \<and> body_of d \<noteq> []) (selected_documents st)"

definition stats_json :: "extraction_stats \<Rightarrow> (str \<times> json) list" where
  "stats_json s = [((lit ''claims''), JNum (real (xs_claims s))), ((lit ''rejected''), JNum (real (xs_rejected s))),
     ((lit ''failed''), JNum (real (xs_failed s))), ((lit ''injection''), JNum (real (xs_injection s)))]"

definition extract_claims ::
  "(inputs, claim_out list) predictor \<Rightarrow> (inputs, claim_validation list) predictor \<Rightarrow> (int list \<Rightarrow> int list)
     \<Rightarrow> (str \<Rightarrow> day option) \<Rightarrow> (document list \<Rightarrow> document list) \<Rightarrow> str \<Rightarrow> mem_sink \<Rightarrow> research_state \<Rightarrow> llm_world
     \<Rightarrow> (node_exception + research_state) \<times> llm_world" where
  "extract_claims predict validate order rfc schedule today k st w =
     (let documents = readable st
      in if documents = [] then (Inr st, w)
         else case rfold (extract_document predict validate order rfc today k) (schedule documents)
                     \<lparr>xt_found = [], xt_state = st,
                      xt_stats = \<lparr>xs_claims = 0, xs_rejected = 0, xs_failed = 0, xs_injection = 0\<rparr>\<rparr> w of
                (Inl e, w1) \<Rightarrow> (Inl e, w1)
              | (Inr s, w1) \<Rightarrow>
                  (let claims = concat (map (\<lambda>d. dget_or (xt_found s) (d_id d) []) documents);
                       stats = (xt_stats s)\<lparr>xs_claims := length claims\<rparr>;
                       st1 = fold store_claim claims (xt_state s);
                       st2 = bump (lit ''claims_rejected_injection'') (xs_injection stats)
                               (bump (lit ''extraction_failures'') (xs_failed stats)
                                 (bump (lit ''claims_rejected_quote'') (xs_rejected stats) st1))
                   in (Inr st2, say_info k (lit ''claim_extracted'')
                         ((lit ''Extracted '') @ dec (xs_claims stats) @ (lit '' claims from '') @ dec (length documents) @ (lit '' sources'')
                            @ (if xs_rejected stats = 0 then [] else (lit '' ('') @ dec (xs_rejected stats) @ (lit '' rejected: quote not found)''))
                            @ (lit ''.''))
                         (labelled (lit ''Extractor'') (stats_json stats)) w1)))"

section \<open>cluster_and_corroborate\<close>

definition unclustered :: "research_state \<Rightarrow> claim list" where
  "unclustered st =
     (let clustered = concat (map k_claim_ids (dvals (rs_clusters st)))
      in filter (\<lambda>c. \<not> List.member clustered (c_id c) \<and> c_validation_status c \<in> {V_SUPPORTED, LEGACY}) (dvals (rs_claims st)))"

definition announce_copies :: "mem_sink \<Rightarrow> (str, str) dict \<Rightarrow> research_state \<Rightarrow> llm_world \<Rightarrow> llm_world" where
  "announce_copies k moved st w =
     (if moved = [] then w
      else let copies = sort (map d_domain (filter (\<lambda>d. List.member (dvals moved) (d_origin_id d)) (dvals (rs_documents st))))
           in say_info k (lit ''node_finished'')
                (dec (length moved) @ (lit '' source(s) republish text already seen; counted once '')
                   @ (lit ''('') @ join (lit '', '') (fromkeys copies) @ (lit '').''))
                (labelled (lit ''Dedup'') [((lit ''merged_origins''), JObj (map (\<lambda>(a, b). (a, JStr b)) moved))]) w)"

definition first_claims :: "research_state \<Rightarrow> claim list" where
  "first_claims st = List.map_filter (\<lambda>c. case k_claim_ids c of [] \<Rightarrow> None | i # _ \<Rightarrow> dget (rs_claims st) i) (dvals (rs_clusters st))"

definition claim_vectors :: "(str, real list) dict \<Rightarrow> claim list \<Rightarrow> (str, real list) dict" where
  "claim_vectors by_text claims =
     fold (\<lambda>c vs. case dget by_text (c_text c) of None \<Rightarrow> vs | Some v \<Rightarrow> dput (c_id c) v vs) claims []"

definition say_clustered ::
  "mem_sink \<Rightarrow> nat \<Rightarrow> research_state \<Rightarrow> (str, cluster) dict \<Rightarrow> bool \<Rightarrow> str option \<Rightarrow> llm_world \<Rightarrow> llm_world" where
  "say_clustered k new st clusters embedded model w =
     say_info k (lit ''node_finished'')
       (dec new @ (lit '' new claims -> '') @ dec (length clusters - length (rs_clusters st)) @ (lit '' new findings; '')
          @ dec (length (filter (\<lambda>c. 2 \<le> support c) (dvals clusters))) @ (lit '' of '') @ dec (length clusters)
          @ (lit '' findings have 2+ independent sources.''))
       (labelled (lit ''Ledger'') [((lit ''similarity''), JStr (if embedded then (lit ''embedding'') else (lit ''lexical''))),
          ((lit ''model''), opt_json model)]) w"

definition cluster_and_corroborate ::
  "(str list \<Rightarrow> mem_sink \<Rightarrow> llm_world \<Rightarrow> (node_exception + (str, real list) dict option) \<times> llm_world)
     \<Rightarrow> (llm_world \<Rightarrow> str option) \<Rightarrow> dedup_settings
     \<Rightarrow> mem_sink \<Rightarrow> research_state \<Rightarrow> llm_world \<Rightarrow> (node_exception + research_state) \<times> llm_world" where
  "cluster_and_corroborate embedder model s k st w =
     (let new_ids = map c_id (unclustered st)
      in if new_ids = [] then (Inr st, w)
         else
           (let (moved, documents, claims) = merge_syndicated_origins (rs_documents st) (rs_claims st)
                  (ds_syndication_min_shared_quotes s) (ds_syndication_min_quote_words s);
                st1 = st\<lparr>rs_documents := documents, rs_claims := claims\<rparr>;
                w1 = announce_copies k moved st1 w;
                new = unclustered st1; involved = new @ first_claims st1;
                (answer, w2) = embedder (map c_text involved) k w1
            in case answer of
                 Inl e \<Rightarrow> (Inl e, w2)
               | Inr by_text \<Rightarrow>
                   (let vectors = map_option (\<lambda>bt. claim_vectors bt involved) by_text
                    in case cluster_claims (rs_clusters st1) new vectors documents s claims of
                         Inl e \<Rightarrow> (Inl (Number_raised e), w2)
                       | Inr clusters \<Rightarrow>
                           (Inr (st1\<lparr>rs_clusters := clusters\<rparr>),
                            say_clustered k (length new) st clusters (vectors \<noteq> None) (model w2) w2))))"

end
