(* ===== verification/ReportBuild.thy ===== *)
theory ReportBuild
  imports EvidenceNodes CoverageNode
begin

text \<open>
  The first half of \<open>agent/nodes/report.py\<close>: what the model is told of the ledger, how its answer
  becomes a report, the report without a model, and the gaps every report lists.
\<close>

definition MAX_LEDGER_FINDINGS :: nat where
  "MAX_LEDGER_FINDINGS = 80"

definition framing_rx :: rx where
  "framing_rx =
     (seqs [WordB, Grp ''1'' (alts [irlit (lit ''this report''), irlit (lit ''this section''),
      irlit (lit ''the findings below''), irlit (lit ''in summary''), irlit (lit ''overall''),
      irlit (lit ''bu rapor''), irlit (lit ''bu b'' @ [246] @ lit ''l'' @ [252] @ lit ''m''),
      irlit ([246] @ lit ''zetle''), irlit (lit ''genel olarak''),
      irlit (lit ''a'' @ [351] @ lit ''a'' @ [287, 305] @ lit ''da'')]), WordB])"

section \<open>The ledger and the gaps\<close>

fun cluster_status_value :: "cluster_status \<Rightarrow> str" where
  "cluster_status_value K_SUPPORTED = (lit ''supported'')"
| "cluster_status_value SINGLE_SOURCE = (lit ''single_source'')"
| "cluster_status_value CONTESTED = (lit ''contested'')"

definition citable_clusters :: "research_state \<Rightarrow> cluster list" where
  "citable_clusters st = filter (\<lambda>c. \<not> k_requires_fresh_confirmation c) (dvals (rs_clusters st))"

definition ledger_row :: "research_state \<Rightarrow> cluster \<Rightarrow> json" where
  "ledger_row st c = JObj
     [((lit ''id''), JStr (k_id c)), ((lit ''subquestion''), JStr (k_subq_id c)), ((lit ''statement''), JStr (k_statement c)),
      ((lit ''value''), opt_json (k_value c)), ((lit ''as_of''), opt_json (k_as_of c)), ((lit ''conditions''), strs_json (k_conditions c)),
      ((lit ''effective_from''), opt_json (k_effective_from c)), ((lit ''effective_until''), opt_json (k_effective_until c)),
      ((lit ''requires_fresh_confirmation''), JBool (k_requires_fresh_confirmation c)),
      ((lit ''status''), JStr (cluster_status_value (k_status c))), ((lit ''independent_sources''), JNum (real (support c))),
      ((lit ''has_primary_source''), JBool (k_has_primary c)), ((lit ''confidence''), JNum (k_confidence c)),
      ((lit ''source_domains''), strs_json (sort (remdups
          (map d_domain (List.map_filter (dget (rs_documents st)) (k_doc_ids c)))))),
      ((lit ''latest_source_date''), opt_json (map_option isoformat (latest_source_date st c)))]"

definition ledger :: "research_state \<Rightarrow> json" where
  "ledger st = JList (map (ledger_row st) (take MAX_LEDGER_FINDINGS
     (sort_key k_subq_id (sort_key (\<lambda>c. - k_confidence c) (sort_key k_id (citable_clusters st))))))"

definition gap_reason :: "str \<Rightarrow> bool \<Rightarrow> str" where
  "gap_reason language exhausted =
     (if language = (lit ''tr'')
      then (if exhausted then (lit ''aramalar yeni bilgi '' @ [252] @ lit ''retmeyi b'' @ [305] @ lit ''rakt'' @ [305])
            else (lit ''yeterli ba'' @ [287, 305] @ lit ''ms'' @ [305] @ lit ''z ya da birincil kaynak bulunamad'' @ [305]))
      else (if exhausted then (lit ''searches stopped producing new information'')
            else (lit ''not enough independent or primary sources were found'')))"

definition gap_of :: "research_state \<Rightarrow> subquestion \<Rightarrow> str \<times> str \<times> str" where
  "gap_of st s =
     (sq_id s, sq_text s,
      if sq_status s = EXHAUSTED
      then (let reason = localised_reason (sq_exhausted_reason s) (rs_language st)
            in if reason = [] then gap_reason (rs_language st) True else reason)
      else (let missing = join (lit '', '') (map f_name (missing_facets s))
            in gap_reason (rs_language st) False @ (if missing = [] then [] else (lit '' ('') @ missing @ (lit '')''))))"

definition report_gaps :: "research_state \<Rightarrow> (str \<times> str \<times> str) list" where
  "report_gaps st = map (gap_of st) (filter (\<lambda>s. sq_status s \<noteq> SUFFICIENT) (rs_plan st))"

section \<open>Sentences\<close>

record sentence_out =
  so_text :: str
  so_cluster_ids :: "str list"

record recommendation_out =
  ro_text :: str
  ro_finding_refs :: "str list"

record synthesis_output =
  sy_rationale :: str
  sy_title :: str
  sy_summary :: "sentence_out list"
  sy_key_findings :: "sentence_out list"
  sy_conflicting :: "sentence_out list"
  sy_recommendations :: "recommendation_out list"
  sy_conclusion :: "sentence_out list"

definition is_framing :: "str \<Rightarrow> bool" where
  "is_framing s \<longleftrightarrow> \<not> list_ex is_digit s \<and> found framing_rx s \<and> length (split_ws s) \<le> 30"

definition inline_refs_rx :: rx where
  "inline_refs_rx =
     (seqs [ch 91, Star (Chr is_space), ch 107, plus (Chr is_digit), Star (seqs [Star (Chr is_space),
      ch 44, Star (Chr is_space), ch 107, plus (Chr is_digit)]), Star (Chr is_space), ch 93])"

definition ref_rx :: rx where
  "ref_rx =
     (seqs [ch 107, plus (Chr is_digit)])"

definition loose_mark_rx :: rx where
  "loose_mark_rx =
     (seqs [plus (Chr (\<lambda>x. x \<in> {32, 9})), Grp ''1'' (Chr (\<lambda>x. x \<in> {46, 44, 59,
      58}))])"

definition inline_ledger_refs :: "str \<Rightarrow> str \<times> str list" where
  "inline_ledger_refs s =
     (join (lit '' '') (split_ws (sub loose_mark_rx (\<lambda>h. given (group h ''1'')) (sub inline_refs_rx (\<lambda>h. []) s))),
      concat (map (\<lambda>h. map h_text (finditer ref_rx (h_text h))) (finditer inline_refs_rx s)))"

definition fact_sentence :: "str \<Rightarrow> str list \<Rightarrow> sentence" where
  "fact_sentence s ids = \<lparr>s_text = s, s_kind = S_FACT, s_cluster_ids = ids, s_finding_refs = [], s_labels = []\<rparr>"

definition sentence_of :: "str list \<Rightarrow> sentence_out \<Rightarrow> sentence" where
  "sentence_of known item =
     (let (clean, inline) = inline_ledger_refs (so_text item);
          ids = filter (\<lambda>c. List.member known c \<or> starts_with c (lit ''k'')) (fromkeys (so_cluster_ids item @ inline))
      in if ids = [] \<and> is_framing clean then meta_sentence clean [] else fact_sentence clean ids)"

definition label_sentence :: "research_state \<Rightarrow> section_key \<Rightarrow> sentence \<Rightarrow> sentence" where
  "label_sentence st key s =
     (let clusters = List.map_filter (dget (rs_clusters st)) (s_cluster_ids s);
          uncertain = list_ex (\<lambda>c. k_status c = CONTESTED) clusters \<and> key \<noteq> CONFLICTING;
          single = list_all (\<lambda>c. k_status c = SINGLE_SOURCE) clusters
      in if clusters = [] then s
         else s\<lparr>s_labels := s_labels s @ (if uncertain then [LABEL_UNCERTAIN] else [])
                 @ (if single then [LABEL_SINGLE_SOURCE] else [])\<rparr>)"

definition titled :: "research_state \<Rightarrow> section_key \<Rightarrow> sentence list \<Rightarrow> report_section" where
  "titled st key sentences = \<lparr>sec_key = key, sec_title = section_title key (rs_language st), sec_sentences = sentences\<rparr>"

definition built_section :: "research_state \<Rightarrow> section_key \<Rightarrow> sentence_out list \<Rightarrow> report_section" where
  "built_section st key items =
     titled st key (map (\<lambda>item. label_sentence st key (sentence_of (dkeys (rs_clusters st)) item))
       (filter (\<lambda>item. strip (so_text item) \<noteq> []) items))"

definition recommendation_of :: "recommendation_out \<Rightarrow> sentence" where
  "recommendation_of r =
     \<lparr>s_text = fst (inline_ledger_refs (ro_text r)), s_kind = RECOMMENDATION, s_cluster_ids = [],
      s_finding_refs = fromkeys (ro_finding_refs r @ snd (inline_ledger_refs (ro_text r))), s_labels = []\<rparr>"

section \<open>Reports\<close>

definition withheld_claims :: "research_state \<Rightarrow> nat" where
  "withheld_claims st = length (filter (\<lambda>c. c_requires_fresh_confirmation c
     \<or> c_validation_status c \<in> {UNSUPPORTED, UNAVAILABLE}) (dvals (rs_claims st)))"

definition withheld_note :: "str \<Rightarrow> nat \<Rightarrow> str" where
  "withheld_note language n =
     (if language = (lit ''tr'')
      then dec n @ (lit '' aday iddia kullan'' @ [305] @ lit ''lmad'' @ [305] @ lit '': kaynak deste'' @ [287] @ lit ''i, ko'' @ [351] @ lit ''ullar'' @ [305] @ lit '' veya g'' @ [252] @ lit ''ncel '')
             @ (lit ''ge'' @ [231] @ lit ''erlili'' @ [287] @ lit ''i do'' @ [287] @ lit ''rulanamad'' @ [305] @ lit ''; ayr'' @ [305] @ lit ''nt'' @ [305] @ lit ''lar kan'' @ [305] @ lit ''t defterindedir.'')
      else dec n @ (lit '' candidate claim(s) withheld: source support, conditions or current '')
             @ (lit ''applicability could not be confirmed; see the evidence ledger.''))"

definition gap_section :: "research_state \<Rightarrow> report_section" where
  "gap_section st =
     titled st KNOWN_GAPS
       (map (\<lambda>(i, question, reason). meta_sentence (question @ (lit '' - '') @ reason) [GAP_LABEL_PREFIX @ i]) (report_gaps st)
        @ (if withheld_claims st = 0 then [] else [meta_sentence (withheld_note (rs_language st) (withheld_claims st)) []]))"

definition build_report :: "synthesis_output \<Rightarrow> research_state \<Rightarrow> report" where
  "build_report output st =
     (let actions = sy_recommendations output \<noteq> [] \<and> an_answer_type (rs_analysis st) = (lit ''action_plan'')
      in \<lparr>r_title = (if strip (sy_title output) = [] then rs_question st else strip (sy_title output)),
          r_language = rs_language st,
          r_sections =
            [built_section st SUMMARY (sy_summary output), built_section st KEY_FINDINGS (sy_key_findings output),
             built_section st CONFLICTING (sy_conflicting output)]
            @ (if actions then [titled st RECOMMENDATIONS
                 (map recommendation_of (filter (\<lambda>r. strip (ro_text r) \<noteq> []) (sy_recommendations output)))] else [])
            @ [built_section st CONCLUSION (sy_conclusion output), gap_section st, titled st SOURCES []],
          r_sources = [], r_fallback = False\<rparr>)"

definition ranked_clusters :: "research_state \<Rightarrow> cluster list" where
  "ranked_clusters st = sort_key (\<lambda>c. - k_confidence c) (sort_key k_id (citable_clusters st))"

definition ledger_fact :: "research_state \<Rightarrow> section_key \<Rightarrow> cluster \<Rightarrow> sentence" where
  "ledger_fact st key c = label_sentence st key (fact_sentence (k_statement c) [k_id c])"

definition fallback_framing :: "str \<Rightarrow> bool \<Rightarrow> str" where
  "fallback_framing language evidence =
     (if evidence
      then (if language = (lit ''tr'') then (lit ''Yukar'' @ [305] @ lit ''daki bulgular do'' @ [287] @ lit ''rudan kan'' @ [305] @ lit ''t defterinden listelenmi'' @ [351] @ lit ''tir.'')
            else (lit ''The findings above are listed directly from the evidence ledger.''))
      else (if language = (lit ''tr'') then (lit ''Yeterli kan'' @ [305] @ lit ''t bulunamad'' @ [305] @ lit ''; uydurma bir cevap yerine cevap verilmedi.'')
            else (lit ''Not enough evidence was found; no answer is given rather than an invented one.'')))"

definition no_finding_text :: "str \<Rightarrow> str" where
  "no_finding_text language =
     (if language = (lit ''tr'') then (lit ''Desteklenen bir bulgu bulunamad'' @ [305] @ lit ''.'') else (lit ''No supported finding was found.''))"

definition fallback_report :: "research_state \<Rightarrow> report" where
  "fallback_report st =
     (let clusters = ranked_clusters st;
          contested = filter (\<lambda>c. k_status c = CONTESTED) clusters;
          settled = filter (\<lambda>c. k_status c \<noteq> CONTESTED) clusters;
          summary = map (ledger_fact st SUMMARY) (take 2 settled)
      in \<lparr>r_title = rs_question st, r_language = rs_language st,
          r_sections =
            [titled st SUMMARY (if summary = [] then [meta_sentence (no_finding_text (rs_language st)) []] else summary),
             titled st KEY_FINDINGS (map (ledger_fact st KEY_FINDINGS) (take 30 settled)),
             titled st CONFLICTING (map (ledger_fact st CONFLICTING) contested),
             titled st CONCLUSION [meta_sentence (fallback_framing (rs_language st) (clusters \<noteq> [])) []],
             gap_section st, titled st SOURCES []],
          r_sources = [], r_fallback = True\<rparr>)"

end
