(* ===== verification/ReportNode.thy ===== *)
theory ReportNode
  imports ReportBuild
begin

text \<open>
  The second half of \<open>agent/nodes/report.py\<close>: \<open>synthesize\<close>, \<open>verify_citations\<close> and \<open>output_gate\<close>. A
  sentence is checked under its id \<open>section:index\<close>; the batches of one verification run in the order
  \<open>schedule\<close> gives, each in one piece.
\<close>

section \<open>synthesize\<close>

definition contradictions_json :: "research_state \<Rightarrow> json" where
  "contradictions_json st =
     (let rows = map (\<lambda>x. JObj [((lit ''clusters''), strs_json (x_cluster_ids x)), ((lit ''kind''), JStr (contradiction_kind_value (x_kind x))),
            ((lit ''summary''), JStr (x_summary x)), ((lit ''preferred''), opt_json (x_preferred_cluster_id x)),
            ((lit ''resolved''), JBool (x_resolved x))]) (filter (\<lambda>x. x_kind x \<noteq> CONSISTENT) (rs_contradictions st))
      in if rows = [] then JStr (lit ''(none)'') else JList rows)"

definition synthesis_inputs :: "str \<Rightarrow> research_state \<Rightarrow> str \<Rightarrow> inputs" where
  "synthesis_inputs today st feedback =
     [((lit ''question''), JStr (rs_question st)), ((lit ''language''), JStr (rs_language st)), ((lit ''today''), JStr today),
      ((lit ''ledger''), ledger st),
      ((lit ''gaps''), JList (map (\<lambda>(i, question, reason). JObj [((lit ''id''), JStr i), ((lit ''question''), JStr question)]) (report_gaps st))),
      ((lit ''contradictions''), contradictions_json st), ((lit ''answer_type''), JStr (an_answer_type (rs_analysis st))),
      ((lit ''feedback''), JStr (if feedback = [] then (lit ''(none)'') else feedback))]"

definition synthesise ::
  "(inputs, synthesis_output) predictor \<Rightarrow> str \<Rightarrow> mem_sink \<Rightarrow> str \<Rightarrow> research_state \<Rightarrow> llm_world
     \<Rightarrow> (node_exception + report) \<times> llm_world" where
  "synthesise predict today k feedback st w =
     (case predict (synthesis_inputs today st feedback) k w of
        (Inl (LLM_failure e), w1) \<Rightarrow>
          (Inr (fallback_report st),
           say_warn k (lit ''synthesis_done'') (lit ''The model was unavailable; the report lists the ledger directly.'')
             (labelled (lit ''Synthesizer'') []) w1)
      | (Inl x, w1) \<Rightarrow> (Inl (Model_raised x), w1)
      | (Inr output, w1) \<Rightarrow>
          (Inr (build_report output st),
           say_info k (lit ''decision'') (if sy_rationale output = [] then (lit ''Report drafted.'') else sy_rationale output)
             (labelled (lit ''Synthesizer'') []) w1))"

definition turkish_letters :: str where
  "turkish_letters = (lit ''The previous draft wrote Turkish without Turkish letters (for example '') @ [39] @ (lit ''Sirket'') @ [39]
     @ (lit '', '') @ [39] @ (lit ''yatirim'') @ [39] @ (lit ''). Rewrite the same report with correct Turkish spelling: '' @ [231] @ lit '', '' @ [287] @ lit '', '' @ [305] @ lit '', '' @ [304] @ lit '', '' @ [246] @ lit '', '' @ [351] @ lit '', '' @ [252] @ lit ''.'')"

definition prose :: "report \<Rightarrow> str" where
  "prose r = join (lit '' '') (map s_text (filter (\<lambda>s. s_kind s \<noteq> META) (concat (map sec_sentences (r_sections r)))))"

text \<open>The draft, written again once when it is Turkish without Turkish letters.\<close>

definition draft_report ::
  "(inputs, synthesis_output) predictor \<Rightarrow> str \<Rightarrow> mem_sink \<Rightarrow> research_state \<Rightarrow> llm_world
     \<Rightarrow> (node_exception + report) \<times> llm_world" where
  "draft_report predict today k st w =
     (if rs_clusters st = [] then (Inr (fallback_report st), w)
      else case synthesise predict today k [] st w of
             (Inl e, w1) \<Rightarrow> (Inl e, w1)
           | (Inr r, w1) \<Rightarrow>
               if rs_language st = (lit ''tr'') \<and> lacks_turkish_letters (prose r) 120
               then synthesise predict today k turkish_letters st
                      (say_warn k (lit ''decision'') (lit ''The draft is Turkish without Turkish letters; rewriting once.'')
                         (labelled (lit ''Synthesizer'') []) w1)
               else (Inr r, w1))"

definition section_counts :: "report \<Rightarrow> (str, nat) dict" where
  "section_counts r = fold (\<lambda>s. dput (key_value (sec_key s)) (length (sec_sentences s))) (r_sections r) []"

definition synthesize ::
  "(inputs, synthesis_output) predictor \<Rightarrow> str \<Rightarrow> mem_sink \<Rightarrow> research_state \<Rightarrow> llm_world
     \<Rightarrow> (node_exception + research_state) \<times> llm_world" where
  "synthesize predict today k st w =
     (case draft_report predict today k st w of
        (Inl e, w1) \<Rightarrow> (Inl e, w1)
      | (Inr r0, w1) \<Rightarrow>
          (case rebuild_sources st r0 of
             Inl e \<Rightarrow> (Inl (Gate_raised e), w1)
           | Inr r \<Rightarrow>
               (Inr (st\<lparr>rs_report := Some r\<rparr>),
                say_info k (lit ''synthesis_done'')
                  ((lit ''Drafted the report: '') @ dec (sum_list (dvals (section_counts r))) @ (lit '' sentences.''))
                  (labelled (lit ''Synthesizer'') [((lit ''sections''), JObj (map (\<lambda>(s, n). (s, JNum (real n))) (section_counts r))),
                     ((lit ''fallback''), JBool (r_fallback r))]) w1)))"

section \<open>Verification of the cited sentences\<close>

record verification_item =
  vi_sentence_id :: str
  vi_supported :: bool
  vi_reason :: str

definition sentence_id :: "section_key \<Rightarrow> nat \<Rightarrow> str" where
  "sentence_id key i = key_value key @ [58] @ dec i"

definition needs_check :: "sentence \<Rightarrow> bool" where
  "needs_check s \<longleftrightarrow> (s_kind s = S_FACT \<or> s_kind s = RECOMMENDATION) \<and> (s_cluster_ids s \<noteq> [] \<or> s_finding_refs s \<noteq> [])"

fun sentence_kind_value :: "sentence_kind \<Rightarrow> str" where
  "sentence_kind_value S_FACT = (lit ''fact'')"
| "sentence_kind_value RECOMMENDATION = (lit ''recommendation'')"
| "sentence_kind_value META = (lit ''meta'')"

definition cited_ids :: "sentence \<Rightarrow> str list" where
  "cited_ids s = (if s_cluster_ids s \<noteq> [] then s_cluster_ids s else s_finding_refs s)"

definition evidence_json :: "str \<Rightarrow> claim \<Rightarrow> document \<Rightarrow> json" where
  "evidence_json cid c d = JObj
     [((lit ''cluster_id''), JStr cid), ((lit ''claim''), JStr (c_text c)), ((lit ''quote''), JStr (c_quote c)),
      ((lit ''conditions''), strs_json (c_conditions c)), ((lit ''effective_from''), opt_json (c_effective_from c)),
      ((lit ''effective_until''), opt_json (c_effective_until c)), ((lit ''as_of''), opt_json (c_as_of c)),
      ((lit ''freshness''), JStr (freshness_value (c_freshness c))),
      ((lit ''requires_fresh_confirmation''), JBool (c_requires_fresh_confirmation c)),
      ((lit ''validation_status''), JStr (validation_status_value (c_validation_status c))),
      ((lit ''source_date''), opt_json (map_option isoformat (d_published_at d))),
      ((lit ''source_url''), JStr (d_canonical_url d)), ((lit ''source_context''), JStr (source_context d (c_quote c)))]"

definition evidence_of :: "research_state \<Rightarrow> str \<Rightarrow> json list" where
  "evidence_of st cid =
     (case dget (rs_clusters st) cid of
        None \<Rightarrow> []
      | Some k \<Rightarrow> List.map_filter (\<lambda>i. case dget (rs_claims st) i of
            None \<Rightarrow> None
          | Some c \<Rightarrow> map_option (evidence_json cid c) (dget (rs_documents st) (c_doc_id c))) (k_claim_ids k))"

definition sentence_item :: "research_state \<Rightarrow> section_key \<Rightarrow> nat \<Rightarrow> sentence \<Rightarrow> json" where
  "sentence_item st key i s = JObj
     [((lit ''sentence_id''), JStr (sentence_id key i)), ((lit ''sentence''), JStr (s_text s)),
      ((lit ''kind''), JStr (sentence_kind_value (s_kind s))), ((lit ''question''), JStr (rs_question st)),
      ((lit ''as_of''), JStr (isoformat (rs_as_of st))), ((lit ''evidence''), JList (concat (map (evidence_of st) (cited_ids s)))),
      ((lit ''cited_findings''), JList (map (\<lambda>k. JStr (k_statement k)) (List.map_filter (dget (rs_clusters st)) (cited_ids s))))]"

definition check_items :: "research_state \<Rightarrow> report \<Rightarrow> (str \<times> json) list" where
  "check_items st r =
     map (\<lambda>(key, i, s). (sentence_id key i, sentence_item st key i s)) (filter (\<lambda>(key, i, s). needs_check s) (addressed r))"

text \<open>What the batches share: the reasons against sentences, the ids checked and those left without a verdict.\<close>

record verification =
  vf_unsupported :: "(str, str) dict"
  vf_checked :: "str list"
  vf_unavailable :: "str list"

fun take_verdicts ::
  "verification_item list \<Rightarrow> verification_item list \<Rightarrow> verification \<times> (str, json) dict \<Rightarrow> verification \<times> (str, json) dict" where
  "take_verdicts all [] s = s"
| "take_verdicts all (v # vs) (f, pending) =
     (let sid = vi_sentence_id v
      in if \<not> dmem sid pending \<or> length (filter (\<lambda>x. vi_sentence_id x = sid) all) \<noteq> 1
         then take_verdicts all vs (f, pending)
         else take_verdicts all vs
           (f\<lparr>vf_checked := add_new sid (vf_checked f),
              vf_unsupported := (if vi_supported v then vf_unsupported f else dput sid (vi_reason v) (vf_unsupported f))\<rparr>,
            filter (\<lambda>(i, x). i \<noteq> sid) pending))"

definition verify_inputs :: "(str, json) dict \<Rightarrow> inputs" where
  "verify_inputs pending = [((lit ''sentences''), JList (dvals pending))]"

fun verify_attempts ::
  "(inputs, verification_item list) predictor \<Rightarrow> mem_sink \<Rightarrow> nat \<Rightarrow> verification \<times> (str, json) dict \<Rightarrow> llm_world
     \<Rightarrow> (node_exception + verification \<times> (str, json) dict) \<times> llm_world" where
  "verify_attempts predict k 0 s w = (Inr s, w)"
| "verify_attempts predict k (Suc n) (f, pending) w =
     (case predict (verify_inputs pending) k w of
        (Inl (LLM_failure e), w1) \<Rightarrow> verify_attempts predict k n (f, pending) w1
      | (Inl x, w1) \<Rightarrow> (Inl (Model_raised x), w1)
      | (Inr items, w1) \<Rightarrow>
          (let s = take_verdicts items items (f, pending)
           in if snd s = [] then (Inr s, w1) else verify_attempts predict k n s w1))"

definition no_verdict :: str where
  "no_verdict = (lit ''Citation verification unavailable after two attempts.'')"

definition check_batch ::
  "(inputs, verification_item list) predictor \<Rightarrow> mem_sink \<Rightarrow> (str \<times> json) list \<Rightarrow> verification \<Rightarrow> llm_world
     \<Rightarrow> (node_exception + verification) \<times> llm_world" where
  "check_batch predict k batch f w =
     (case verify_attempts predict k 2 (f, fold (\<lambda>(i, x). dput i x) batch []) w of
        (Inl e, w1) \<Rightarrow> (Inl e, w1)
      | (Inr (f1, pending), w1) \<Rightarrow>
          (Inr (fold (\<lambda>sid f. f\<lparr>vf_unavailable := add_new sid (vf_unavailable f),
                               vf_unsupported := dput sid no_verdict (vf_unsupported f)\<rparr>) (dkeys pending) f1), w1))"

definition verification_json :: "nat \<Rightarrow> verification \<Rightarrow> (str \<times> json) list" where
  "verification_json requested f =
     [((lit ''requested''), JNum (real requested)), ((lit ''checked''), JNum (real (length (vf_checked f)))),
      ((lit ''unsupported''), JNum (real (length (vf_unsupported f) - length (vf_unavailable f)))),
      ((lit ''unavailable''), JNum (real (length (vf_unavailable f))))]"

text \<open>\<open>_verify\<close>: the reasons against sentences, by id; the state notes how many were checked.\<close>

definition verify_report ::
  "(inputs, verification_item list) predictor \<Rightarrow> nat \<Rightarrow> ((str \<times> json) list list \<Rightarrow> (str \<times> json) list list) \<Rightarrow> mem_sink
     \<Rightarrow> report \<Rightarrow> research_state \<Rightarrow> llm_world \<Rightarrow> (node_exception + (str, str) dict \<times> research_state) \<times> llm_world" where
  "verify_report predict per_batch schedule k r st w =
     (let items = check_items st r; f0 = \<lparr>vf_unsupported = [], vf_checked = [], vf_unavailable = []\<rparr>
      in if items = [] then (Inr ([], st\<lparr>rs_verification := verification_json 0 f0\<rparr>), w)
         else case rfold (check_batch predict k) (schedule (batches_of per_batch items)) f0 w of
                (Inl e, w1) \<Rightarrow> (Inl e, w1)
              | (Inr f, w1) \<Rightarrow>
                  (Inr (vf_unsupported f, st\<lparr>rs_verification := verification_json (length items) f\<rparr>),
                   if vf_unavailable f = [] then w1
                   else say_warn k (lit ''decision'')
                     ((lit ''Citation verification unavailable for '') @ dec (length (vf_unavailable f))
                        @ (lit '' sentence(s); withholding them.''))
                     (labelled (lit ''Verifier'') [((lit ''unavailable''), strs_json (sort (vf_unavailable f)))]) w1))"

definition drop_unsupported :: "(str, str) dict \<Rightarrow> report \<Rightarrow> report" where
  "drop_unsupported unsupported r =
     r\<lparr>r_sections := map (\<lambda>s. s\<lparr>sec_sentences := map snd (filter (\<lambda>(i, x). \<not> dmem (sentence_id (sec_key s) i) unsupported)
          (enumerate 0 (sec_sentences s)))\<rparr>) (r_sections r)\<rparr>"

definition dropped_count :: "(str, str) dict \<Rightarrow> report \<Rightarrow> nat" where
  "dropped_count unsupported r = length (filter (\<lambda>(key, i, s). dmem (sentence_id key i) unsupported) (addressed r))"

text \<open>\<open>_text\<close>: the sentence an id addresses.\<close>

definition text_at :: "report \<Rightarrow> str \<Rightarrow> node_exception + str" where
  "text_at r sid =
     (case key_of (before_at 58 sid) of
        None \<Rightarrow> Inl Value_error
      | Some key \<Rightarrow> Inr (case sentence_at r key (int_of (after_at 58 sid)) of None \<Rightarrow> [] | Some s \<Rightarrow> s_text s))"

definition rewrite_feedback :: "report \<Rightarrow> (str, str) dict \<Rightarrow> node_exception + str" where
  "rewrite_feedback r unsupported =
     rbind (rmap (\<lambda>(sid, reason). rbind (text_at r sid) (\<lambda>t.
        Inr ((lit ''- Unsupported: '') @ [34] @ t @ [34] @ (lit '' - '') @ reason))) unsupported) (\<lambda>ls. Inr (join [10] ls))"

definition json_count :: "str \<Rightarrow> (str \<times> json) list \<Rightarrow> real" where
  "json_count key v = (case dget v key of Some (JNum x) \<Rightarrow> x | _ \<Rightarrow> 0)"

text \<open>The rewrite with feedback, at most one in a run, and the check of the rewritten report.\<close>

definition rewrite_once ::
  "(inputs, synthesis_output) predictor \<Rightarrow> (inputs, verification_item list) predictor \<Rightarrow> str \<Rightarrow> nat
     \<Rightarrow> ((str \<times> json) list list \<Rightarrow> (str \<times> json) list list) \<Rightarrow> mem_sink \<Rightarrow> report \<Rightarrow> (str, str) dict \<Rightarrow> research_state
     \<Rightarrow> llm_world \<Rightarrow> (node_exception + report \<times> (str, str) dict \<times> research_state) \<times> llm_world" where
  "rewrite_once predict verify today per_batch schedule k r unsupported st w =
     (if unsupported = [] \<or> rs_resynthesized st \<or> json_count (lit ''unavailable'') (rs_verification st) \<noteq> 0
      then (Inr (r, unsupported, st), w)
      else case rewrite_feedback r unsupported of
             Inl e \<Rightarrow> (Inl e, w)
           | Inr feedback \<Rightarrow>
               (let st1 = st\<lparr>rs_resynthesized := True\<rparr>;
                    w1 = say_warn k (lit ''decision'')
                      (dec (length unsupported) @ (lit '' sentence(s) not entailed by their citations; rewriting once with feedback.''))
                      (labelled (lit ''Verifier'') [((lit ''unsupported''), JObj (map (\<lambda>(i, t). (i, JStr t)) unsupported))]) w
                in case synthesise predict today k feedback st1 w1 of
                     (Inl e, w2) \<Rightarrow> (Inl e, w2)
                   | (Inr r2, w2) \<Rightarrow>
                       if r_fallback r2 then (Inr (r2, [], st1), w2)
                       else (case verify_report verify per_batch schedule k r2 st1 w2 of
                               (Inl e, w3) \<Rightarrow> (Inl e, w3)
                             | (Inr (unsupported2, st2), w3) \<Rightarrow> (Inr (r2, unsupported2, st2), w3))))"

definition unavailable_note :: "str \<Rightarrow> nat \<Rightarrow> str" where
  "unavailable_note language n =
     (if language = (lit ''tr'') then (lit ''At'' @ [305] @ lit ''f do'' @ [287] @ lit ''rulamas'' @ [305] @ lit '' tamamlanamad'' @ [305, 287, 305] @ lit '' i'' @ [231] @ lit ''in '') @ dec n @ (lit '' c'' @ [252] @ lit ''mle '' @ [231, 305] @ lit ''kar'' @ [305] @ lit ''ld'' @ [305] @ lit ''.'')
      else dec n @ (lit '' sentence(s) withheld because citation verification was unavailable.''))"

text \<open>The note goes to the known gaps, which are added at the end when the report has none.\<close>

definition note_gap :: "str \<Rightarrow> str \<Rightarrow> report \<Rightarrow> report" where
  "note_gap language note r =
     (let r1 = (case report_section_of r KNOWN_GAPS of
                  Some _ \<Rightarrow> r
                | None \<Rightarrow> r\<lparr>r_sections := r_sections r
                    @ [\<lparr>sec_key = KNOWN_GAPS, sec_title = section_title KNOWN_GAPS language, sec_sentences = []\<rparr>]\<rparr>)
      in edit_section KNOWN_GAPS (\<lambda>ts. ts @ [meta_sentence note []]) r1)"

definition verify_citations ::
  "(inputs, synthesis_output) predictor \<Rightarrow> (inputs, verification_item list) predictor \<Rightarrow> str \<Rightarrow> nat
     \<Rightarrow> ((str \<times> json) list list \<Rightarrow> (str \<times> json) list list) \<Rightarrow> mem_sink \<Rightarrow> research_state \<Rightarrow> llm_world
     \<Rightarrow> (node_exception + research_state) \<times> llm_world" where
  "verify_citations predict verify today per_batch schedule k st w =
     (case rs_report st of
        None \<Rightarrow> (Inr st, w)
      | Some r0 \<Rightarrow>
          if r_fallback r0 then (Inr st, w)
          else case verify_report verify per_batch schedule k r0 st w of
                 (Inl e, w1) \<Rightarrow> (Inl e, w1)
               | (Inr (unsupported0, st1), w1) \<Rightarrow>
                   (case rewrite_once predict verify today per_batch schedule k r0 unsupported0 st1 w1 of
                      (Inl e, w2) \<Rightarrow> (Inl e, w2)
                    | (Inr (r1, unsupported, st2), w2) \<Rightarrow>
                        (let dropped = dropped_count unsupported r1;
                             r2 = drop_unsupported unsupported r1;
                             r3 = (if json_count (lit ''unavailable'') (rs_verification st2) \<noteq> 0
                                   then note_gap (rs_language st2) (unavailable_note (rs_language st2) dropped) r2 else r2)
                         in case rebuild_sources st2 r3 of
                              Inl e \<Rightarrow> (Inl (Gate_raised e), w2)
                            | Inr r4 \<Rightarrow>
                                (Inr (bump (lit ''sentences_dropped_by_verifier'') dropped (st2\<lparr>rs_report := Some r4\<rparr>)),
                                 say_info k (lit ''node_finished'')
                                   ((lit ''Checked '') @ dec (nat \<lfloor>json_count (lit ''checked'') (rs_verification st2)\<rfloor>)
                                      @ (lit '' cited sentences; '') @ dec dropped @ (lit '' removed as unsupported.''))
                                   (labelled (lit ''Verifier'') [((lit ''dropped''), JNum (real dropped)),
                                      ((lit ''rewritten''), JBool (rs_resynthesized st2))]) w2))))"

section \<open>output_gate\<close>

definition checks_json :: "gate_outcome \<Rightarrow> json" where
  "checks_json out = JObj (map (\<lambda>rule. (rule_value rule, JStr (check_status out rule))) RULES)"

definition announce_gate :: "mem_sink \<Rightarrow> gate_outcome \<Rightarrow> llm_world \<Rightarrow> llm_world" where
  "announce_gate k out w =
     (let w1 = (if go_remediations out = [] then w
                else say_error k (gateway_error GATE_REMEDIATED k
                       (dec (length (go_remediations out)) @ (lit '' deterministic fix(es)''))
                       (Some (dec (go_removed out) @ (lit '' sentence(s) removed'')))) w);
          w2 = (if go_verdict out = FAIL
                then say_error k (gateway_error GATE_FAILED k (lit ''deliver the report with a warning banner'')
                       (Some (take 300 (join (lit ''; '') (map v_message (filter v_error (go_final out))))))) w1 else w1)
      in say_info k (lit ''gate_result'')
           ((lit ''Gate verdict: '') @ verdict_value (go_verdict out) @ (lit '' ('') @ dec (go_removed out) @ (lit '' removed).''))
           (labelled (lit ''Gate'') [((lit ''verdict''), JStr (verdict_value (go_verdict out))), ((lit ''checks''), checks_json out),
              ((lit ''removed_sentences''), JNum (real (go_removed out)))]) w2)"

definition output_gate ::
  "gate_config \<Rightarrow> int \<Rightarrow> mem_sink \<Rightarrow> research_state \<Rightarrow> llm_world \<Rightarrow> (node_exception + research_state) \<times> llm_world" where
  "output_gate cfg max_rounds k st w =
     (case rs_report st of
        None \<Rightarrow> (Inl Assertion_failed, w)
      | Some r \<Rightarrow>
          (case run_gate r st cfg max_rounds of
             Inl e \<Rightarrow> (Inl (Gate_raised e), w)
           | Inr out \<Rightarrow>
               (Inr (st\<lparr>rs_report := Some (go_report out), rs_gate_result := Some (outcome_json out)\<rparr>), announce_gate k out w)))"

end
