(* ===== verification/HeuristicNodes.thy ===== *)
theory HeuristicNodes
  imports Intake GateRunner ReportNode
begin

text \<open>
  \<open>agent/nodes/heuristics.py\<close>: the deterministic reviews after the plan and before the gate. They are
  recorded and announced; nothing else of the state changes.
\<close>

definition check_json :: "heuristic_check \<Rightarrow> json" where
  "check_json c = JObj
     [((lit ''id''), JStr (hc_id c)), ((lit ''stage''), JStr (hc_stage c)), ((lit ''name''), JStr (hc_name c)),
      ((lit ''status''), JStr (if hc_warn c then (lit ''warn'') else (lit ''pass''))), ((lit ''summary''), JStr (hc_summary c)),
      ((lit ''related_ids''), strs_json (hc_related_ids c))]"

text \<open>A check replaces the earlier one with its id.\<close>

definition record_check :: "mem_sink \<Rightarrow> heuristic_check \<Rightarrow> research_state \<times> llm_world \<Rightarrow> research_state \<times> llm_world" where
  "record_check k c s =
     (case s of (st, w) \<Rightarrow>
        (st\<lparr>rs_heuristic_checks := filter (\<lambda>old. hc_id old \<noteq> hc_id c) (rs_heuristic_checks st) @ [c]\<rparr>,
         say_info k (lit ''decision'') (hc_summary c) (labelled (lit ''Heuristics'') [((lit ''heuristic''), check_json c)]) w))"

definition review :: "str \<Rightarrow> str \<Rightarrow> str \<Rightarrow> str list \<Rightarrow> str \<Rightarrow> heuristic_check" where
  "review i stage name related summary =
     \<lparr>hc_id = i, hc_stage = stage, hc_name = name, hc_warn = (related \<noteq> []), hc_summary = summary, hc_related_ids = related\<rparr>"

section \<open>check_plan\<close>

definition omitted_entities :: "research_state \<Rightarrow> str list" where
  "omitted_entities st =
     (let plan_text = fold_text (join (lit '' '') (map sq_text (rs_plan st)))
      in if an_answer_type (rs_analysis st) \<noteq> (lit ''comparison'') then []
         else filter (\<lambda>e. entity_alias e \<noteq> [] \<and> \<not> mentions plan_text (entity_alias e)) (an_entities (rs_analysis st)))"

definition check_plan :: "mem_sink \<Rightarrow> research_state \<Rightarrow> llm_world \<Rightarrow> (node_exception + research_state) \<times> llm_world" where
  "check_plan k st w =
     (let missing = omitted_entities st;
          (st1, w1) = record_check k (review (lit ''H1'') (lit ''plan'') (lit ''Comparison entity coverage'') missing
            (if missing = [] then (lit ''No comparison entity omission detected in the plan.'')
             else (lit ''Plan omits comparison entities: '') @ join (lit '', '') missing @ (lit ''.''))) (st, w)
      in (Inr st1, w1))"

section \<open>review_evidence\<close>

definition held_claims :: "research_state \<Rightarrow> str list" where
  "held_claims st = map c_id (filter c_requires_fresh_confirmation (dvals (rs_claims st)))"

definition unsupported_claims :: "research_state \<Rightarrow> str list" where
  "unsupported_claims st =
     map c_id (filter (\<lambda>c. c_validation_status c \<in> {UNSUPPORTED, UNAVAILABLE}) (dvals (rs_claims st)))"

definition unscoped_claims :: "research_state \<Rightarrow> str list" where
  "unscoped_claims st =
     map c_id (filter (\<lambda>c. c_conditions c = [] \<and> (case dget (rs_documents st) (c_doc_id c) of
         None \<Rightarrow> False | Some d \<Rightarrow> applicability_passages d c \<noteq> [])) (dvals (rs_claims st)))"

definition claim_review :: "str \<Rightarrow> str \<Rightarrow> str list \<Rightarrow> str \<Rightarrow> heuristic_check" where
  "claim_review i name related summary =
     review i (lit ''evidence'') name related (dec (length related) @ (lit '' '') @ summary @ (lit ''; ineligible claims are withheld.''))"

definition cited_anywhere :: "research_state \<Rightarrow> str set" where
  "cited_anywhere st =
     (case rs_report st of None \<Rightarrow> {}
      | Some r \<Rightarrow> set (concat (map (\<lambda>(sec, s). s_cluster_ids s @ s_finding_refs s) (report_sentences r))))"

definition single_origin_findings :: "research_state \<Rightarrow> str list" where
  "single_origin_findings st =
     map k_id (filter (\<lambda>c. k_id c \<in> cited_anywhere st \<and> length (k_origin_ids c) < 2) (dvals (rs_clusters st)))"

definition violation_id :: "violation \<Rightarrow> str" where
  "violation_id v = rule_value (v_rule v) @ (lit '':'') @ (case v_section v of None \<Rightarrow> (lit ''None'') | Some key \<Rightarrow> key_value key)
     @ (lit '':'') @ (case v_index v of None \<Rightarrow> (lit ''None'') | Some i \<Rightarrow> dec i)"

definition integrity_violations :: "gate_config \<Rightarrow> research_state \<Rightarrow> gate_error + violation list" where
  "integrity_violations cfg st =
     (case rs_report st of
        None \<Rightarrow> Inr []
      | Some r \<Rightarrow> rbind (g4_numbers r st cfg) (\<lambda>numbers. Inr (g2_citations r st cfg @ g3_ledger r st cfg @ numbers)))"

definition integrity_review :: "research_state \<Rightarrow> violation list \<Rightarrow> heuristic_check" where
  "integrity_review st violations =
     \<lparr>hc_id = (lit ''H6''), hc_stage = (lit ''report''), hc_name = (lit ''Citation and numeric integrity''),
      hc_warn = (violations \<noteq> [] \<or> rs_report st = None),
      hc_summary = (if rs_report st = None then (lit ''No report available for integrity review.'')
                    else dec (length violations) @ (lit '' citation or numeric issues before gate remediation.'')),
      hc_related_ids = map violation_id violations\<rparr>"

definition evidence_reviews :: "research_state \<Rightarrow> heuristic_check list" where
  "evidence_reviews st =
     [claim_review (lit ''H2'') (lit ''Time applicability'') (held_claims st) (lit ''candidate claims lack current applicability confirmation''),
      claim_review (lit ''H3'') (lit ''Source support'') (unsupported_claims st) (lit ''candidate claims lack an affirmative source verdict''),
      claim_review (lit ''H4'') (lit ''Material conditions'') (unscoped_claims st) (lit ''candidate claims omit detected applicability conditions''),
      review (lit ''H5'') (lit ''evidence'') (lit ''Publisher independence'') (single_origin_findings st)
        (dec (length (single_origin_findings st)) @ (lit '' cited findings rely on a single independent origin. '')
           @ (lit ''Primary sources may still suffice.''))]"

definition review_evidence ::
  "gate_config \<Rightarrow> mem_sink \<Rightarrow> research_state \<Rightarrow> llm_world \<Rightarrow> (node_exception + research_state) \<times> llm_world" where
  "review_evidence cfg k st w =
     (let (st1, w1) = fold (record_check k) (evidence_reviews st) (st, w)
      in case integrity_violations cfg st of
           Inl e \<Rightarrow> (Inl (Gate_raised e), w1)
         | Inr violations \<Rightarrow>
             (let (st2, w2) = record_check k (integrity_review st violations) (st1, w1) in (Inr st2, w2)))"

end
