(* ===== verification/SearchGateway.thy ===== *)
theory SearchGateway
  imports NodeBase
begin

text \<open>
  \<open>providers/search/gateway.py\<close>: the one door every search goes through. Providers, cache, SHA-256 and
  Python's \<open>repr\<close> of a string are arguments (\<open>search_env\<close>): the n-th request to a provider, and the
  n-th read of the cache, may be answered in any way, so other runs that share the cache, and a cache
  that fails (reads and writes are best effort), are covered. What is written to it is kept in the
  world. The recorder is the one that works.
\<close>

record search_request =
  rq_query :: str
  rq_max_results :: nat
  rq_language :: "str option"
  rq_start_date :: "day option"
  rq_end_date :: "day option"

definition cache_parts :: "search_request \<Rightarrow> str \<Rightarrow> json list" where
  "cache_parts r provider =
     [JStr provider, JStr (join (lit '' '') (split_ws (str_lower (rq_query r)))), JNum (real (rq_max_results r)),
      opt_json (rq_language r), opt_json (map_option isoformat (rq_start_date r)),
      opt_json (map_option isoformat (rq_end_date r))]"

record search_error =
  xe_code :: error_code
  xe_message :: str
  xe_retryable :: bool

record search_outcome =
  so_query :: str
  so_hits :: "search_hit list"
  so_provider :: "str option"
  so_cache_hit :: bool
  so_error_code :: "error_code option"

definition so_failed :: "search_outcome \<Rightarrow> bool" where
  "so_failed o' = (so_error_code o' \<noteq> None \<and> so_error_code o' \<noteq> Some SEARCH_EMPTY)"

text \<open>A provider answers with its results and the time it took, or fails.\<close>

record search_env =
  en_search :: "nat \<Rightarrow> str \<Rightarrow> search_request \<Rightarrow> search_error + search_hit list \<times> nat"
  en_cached :: "nat \<Rightarrow> str \<Rightarrow> search_hit list option"
  en_digest :: "json list \<Rightarrow> str"
  en_span :: "nat \<Rightarrow> str"
  en_repr :: "str \<Rightarrow> str"

record search_gateway =
  sg_providers :: "str list"
  sg_order :: "str list"
  sg_settings :: search_settings
  sg_cache_enabled :: bool

definition sg_chain :: "search_gateway \<Rightarrow> str list" where
  "sg_chain g = filter (List.member (sg_providers g)) (sg_order g)"

section \<open>One provider\<close>

definition search_notice :: "mem_sink \<Rightarrow> error_code \<Rightarrow> str \<Rightarrow> str \<Rightarrow> str \<Rightarrow> agent_error" where
  "search_notice k code decision outcome name =
     (gateway_error code k decision (Some outcome))\<lparr>ae_provider := Some name\<rparr>"

definition search_delay :: "nat \<Rightarrow> real" where
  "search_delay attempt = min 8 (2 ^ (attempt - 1))"

definition retry_search_notice :: "mem_sink \<Rightarrow> str \<Rightarrow> search_error \<Rightarrow> nat \<Rightarrow> nat \<Rightarrow> agent_error" where
  "retry_search_notice k name e attempt attempt_limit =
     (search_notice k (xe_code e) ((lit ''retry in '') @ fmt_fixed 0 (search_delay attempt) @ (lit ''s''))
        ((lit ''attempt '') @ dec attempt @ (lit ''/'') @ dec attempt_limit) name)
       \<lparr>ae_attempt := Some attempt, ae_cause := Some (xe_message e)\<rparr>"

definition give_up_notice :: "mem_sink \<Rightarrow> str \<Rightarrow> search_error \<Rightarrow> nat \<Rightarrow> str option \<Rightarrow> agent_error" where
  "give_up_notice k name e attempt next =
     (let decision = (case next of None \<Rightarrow> (lit ''mark query FAILED'')
                      | Some n \<Rightarrow> if n = [] then (lit ''mark query FAILED'') else (lit ''fallback->'') @ n)
      in (search_notice k (xe_code e) (if xe_code e = SEARCH_AUTH then (lit ''key rejected; '') @ decision else decision)
            (name @ (lit '' gave up after '') @ dec attempt @ (lit '' attempt(s)'')) name)
           \<lparr>ae_attempt := Some attempt, ae_cause := Some (xe_message e)\<rparr>)"

text \<open>\<open>_call\<close>: the attempts at one provider, with a pause before each repetition.\<close>

function call_provider ::
  "search_env \<Rightarrow> search_gateway \<Rightarrow> mem_sink \<Rightarrow> str \<Rightarrow> search_request \<Rightarrow> str option \<Rightarrow> nat \<Rightarrow> llm_world
     \<Rightarrow> (search_error + search_hit list \<times> nat) \<times> llm_world" where
  "call_provider env g k name rq next attempt w =
     (let attempt_limit = hs_retries (sg_settings g) + 1;
          w1 = w\<lparr>lw_searched := lw_searched w + 1\<rparr>
      in case en_search env (lw_searched w) name rq of
           Inr result \<Rightarrow> (Inr result, w1)
         | Inl e \<Rightarrow>
             if xe_retryable e \<and> attempt < attempt_limit
             then call_provider env g k name rq next (attempt + 1)
                    ((say_error k (retry_search_notice k name e attempt attempt_limit) w1)
                       \<lparr>lw_slept := lw_slept w @ [search_delay attempt]\<rparr>)
             else (Inl e, say_error k (give_up_notice k name e attempt next) w1))"
  by pat_completeness auto
termination
  by (relation "measure (\<lambda>(env, g, k, name, rq, next, attempt, w). hs_retries (sg_settings g) + 1 - attempt)") auto

declare call_provider.simps [simp del]

section \<open>Records\<close>

definition announce :: "mem_sink \<Rightarrow> str \<Rightarrow> str \<Rightarrow> search_hit list \<Rightarrow> bool \<Rightarrow> llm_world \<Rightarrow> llm_world" where
  "announce k provider query hits cached w =
     say_info k (lit ''search_called'') ((lit ''Received '') @ dec (length hits) @ (lit '' results.''))
       (labelled (lit ''Search'')
          [((lit ''query''), JStr query), ((lit ''provider''), JStr provider), ((lit ''cache_hit''), JBool cached),
           ((lit ''results''), JNum (real (length hits))), ((lit ''source''), JStr (if cached then (lit ''cache'') else provider)),
           ((lit ''top''), strs_json (map sh_url (take 3 hits)))]) w"

definition record_search ::
  "search_env \<Rightarrow> mem_sink \<Rightarrow> str \<Rightarrow> search_request \<Rightarrow> str option \<Rightarrow> str \<Rightarrow> nat \<Rightarrow> nat \<Rightarrow> bool \<Rightarrow> error_code option
     \<Rightarrow> llm_world \<Rightarrow> llm_world" where
  "record_search env k provider rq subq status count latency cache_hit code w =
     w\<lparr>lw_log := record_search_call
        \<lparr>sr_run_id = ms_run_id k, sr_span_id = en_span env (length (cl_search_calls (lw_log w))), sr_node = ms_node k,
         sr_iteration = ms_iteration k, sr_provider = provider, sr_query = rq_query rq, sr_subquestion_id = subq,
         sr_status = status, sr_result_count = count, sr_latency_ms = latency, sr_cache_hit = cache_hit,
         sr_error_code = code\<rparr> (lw_log w)\<rparr>"

definition read_cache :: "search_env \<Rightarrow> search_gateway \<Rightarrow> str \<Rightarrow> llm_world \<Rightarrow> search_hit list option \<times> llm_world" where
  "read_cache env g key w =
     (if sg_cache_enabled g then (en_cached env (lw_cache_reads w) key, w\<lparr>lw_cache_reads := lw_cache_reads w + 1\<rparr>)
      else (None, w))"

definition hit_json :: "search_hit \<Rightarrow> json" where
  "hit_json h = JObj
     [((lit ''url''), JStr (sh_url h)), ((lit ''title''), JStr (sh_title h)), ((lit ''snippet''), JStr (sh_snippet h)),
      ((lit ''content''), opt_json (sh_content h)), ((lit ''published_at''), opt_json (map_option isoformat (sh_published_at h))),
      ((lit ''provider''), JStr (sh_provider h)), ((lit ''rank''), JNum (real (sh_rank h))),
      ((lit ''provider_score''), case sh_provider_score h of None \<Rightarrow> JNull | Some x \<Rightarrow> JNum x)]"

definition write_cache :: "search_gateway \<Rightarrow> str \<Rightarrow> str \<Rightarrow> str \<Rightarrow> search_hit list \<Rightarrow> llm_world \<Rightarrow> llm_world" where
  "write_cache g key name query hits w =
     (if sg_cache_enabled g
      then w\<lparr>lw_stored := lw_stored w @ [(key, name, query, JObj [((lit ''hits''), JList (map hit_json hits))],
             hs_cache_ttl_seconds (sg_settings g))]\<rparr> else w)"

section \<open>The chain\<close>

definition search_keys_rejected :: "mem_sink \<Rightarrow> llm_world \<Rightarrow> agent_error" where
  "search_keys_rejected k w =
     gateway_error SEARCH_AUTH k (lit ''stop the run'')
       (Some ((lit ''Every search key was rejected - '')
          @ join (lit '', '') (map (\<lambda>(name, reason). name @ (lit '' ('') @ reason @ (lit '')'')) (lw_search_rejected w))
          @ (lit ''. Check the keys in Settings.'')))"

definition no_search_key :: "mem_sink \<Rightarrow> agent_error" where
  "no_search_key k = gateway_error SEARCH_AUTH k (lit ''skip query'')
     (Some (lit ''no search provider has a key - add Tavily or Brave in Settings''))"

definition empty_notice :: "search_env \<Rightarrow> mem_sink \<Rightarrow> search_request \<Rightarrow> str \<Rightarrow> str option \<Rightarrow> agent_error" where
  "empty_notice env k rq name next =
     search_notice k SEARCH_EMPTY
       (case next of None \<Rightarrow> (lit ''record no results'') | Some n \<Rightarrow> if n = [] then (lit ''record no results'') else (lit ''try '') @ n)
       ((lit ''0 results for '') @ en_repr env (rq_query rq)) name"

definition nothing_found :: "search_request \<Rightarrow> error_code \<Rightarrow> search_outcome" where
  "nothing_found rq code =
     \<lparr>so_query = rq_query rq, so_hits = [], so_provider = None, so_cache_hit = False, so_error_code = Some code\<rparr>"

definition found_by :: "search_request \<Rightarrow> str \<Rightarrow> search_hit list \<Rightarrow> bool \<Rightarrow> search_outcome" where
  "found_by rq name hits cached =
     \<lparr>so_query = rq_query rq, so_hits = hits, so_provider = Some name, so_cache_hit = cached, so_error_code = None\<rparr>"

text \<open>What follows an attempt at a provider: fail over, answer, or note that nothing was found.\<close>

definition after_call ::
  "search_env \<Rightarrow> search_gateway \<Rightarrow> mem_sink \<Rightarrow> search_request \<Rightarrow> str option \<Rightarrow> str \<Rightarrow> str option
     \<Rightarrow> search_error + search_hit list \<times> nat \<Rightarrow> llm_world \<Rightarrow> (error_code + search_outcome) \<times> llm_world" where
  "after_call env g k rq subq name next answer w =
     (case answer of
        Inl e \<Rightarrow>
          (let w1 = (if xe_code e = SEARCH_AUTH
                     then w\<lparr>lw_search_rejected := dput name (xe_message e) (lw_search_rejected w)\<rparr> else w)
           in (Inl (xe_code e), record_search env k name rq subq (lit ''failed'') 0 0 False (Some (xe_code e)) w1))
      | Inr (hits, latency) \<Rightarrow>
          (let w1 = write_cache g (cache_key (en_digest env) (JStr (lit ''search'') # cache_parts rq name)) name (rq_query rq) hits
                      (record_search env k name rq subq (lit ''ok'') (length hits) latency False None w)
           in if hits \<noteq> [] then (Inr (found_by rq name hits False), announce k name (rq_query rq) hits False w1)
              else (Inl SEARCH_EMPTY, say_error k (empty_notice env k rq name next) w1)))"

fun search_loop ::
  "search_env \<Rightarrow> search_gateway \<Rightarrow> mem_sink \<Rightarrow> search_request \<Rightarrow> str option \<Rightarrow> error_code \<Rightarrow> str list \<Rightarrow> llm_world
     \<Rightarrow> (agent_error + search_outcome) \<times> llm_world" where
  "search_loop env g k rq subq last_code [] w =
     (if sg_chain g \<noteq> [] \<and> list_all (\<lambda>n. dmem n (lw_search_rejected w)) (sg_chain g)
      then (Inl (search_keys_rejected k w), w) else (Inr (nothing_found rq last_code), w))"
| "search_loop env g k rq subq last_code (name # order) w =
     (let next = (case order of [] \<Rightarrow> None | n # _ \<Rightarrow> Some n);
          (cached, w1) = read_cache env g (cache_key (en_digest env) (JStr (lit ''search'') # cache_parts rq name)) w;
          w2 = (case cached of None \<Rightarrow> w1
                | Some hits \<Rightarrow> record_search env k name rq subq (lit ''ok'') (length hits) 0 True None w1)
      in case cached of
           Some (h # hits) \<Rightarrow> (Inr (found_by rq name (h # hits) True), announce k name (rq_query rq) (h # hits) True w2)
         | _ \<Rightarrow>
             (let (answer, w3) = call_provider env g k name rq next 1 w2
              in case after_call env g k rq subq name next answer w3 of
                   (Inr outcome, w4) \<Rightarrow> (Inr outcome, w4)
                 | (Inl code, w4) \<Rightarrow> search_loop env g k rq subq code order w4))"

text \<open>The providers in order, the preferred one first.\<close>

definition search_order :: "str option \<Rightarrow> str list \<Rightarrow> str list" where
  "search_order preferred live =
     (case preferred of None \<Rightarrow> live
      | Some p \<Rightarrow> if List.member live p then p # remove1 p live else live)"

definition search_call ::
  "search_env \<Rightarrow> search_gateway \<Rightarrow> mem_sink \<Rightarrow> search_request \<Rightarrow> str option \<Rightarrow> str option \<Rightarrow> llm_world
     \<Rightarrow> (agent_error + search_outcome) \<times> llm_world" where
  "search_call env g k rq subq preferred w =
     (let w1 = w\<lparr>lw_meter := add_search 1 (lw_meter w)\<rparr>;
          live = filter (\<lambda>n. \<not> dmem n (lw_search_rejected w1)) (sg_chain g)
      in if sg_chain g \<noteq> [] \<and> live = [] then (Inl (search_keys_rejected k w1), w1)
         else if search_order preferred live = []
           then (Inr (nothing_found rq SEARCH_AUTH), say_error k (no_search_key k) w1)
         else search_loop env g k rq subq SEARCH_PROVIDER_ERROR (search_order preferred live) w1)"

end
