(* ===== verification/SearchNode.thy ===== *)
theory SearchNode
  imports SearchGateway Freshness Scoring
begin

text \<open>
  The nodes \<open>search\<close> and \<open>process_results\<close> of \<open>agent/nodes/search.py\<close>, and the page fetcher of
  \<open>providers/fetch.py\<close>. Tasks of one \<open>asyncio.gather\<close> run in the order \<open>schedule\<close> gives, each in one
  piece. A single HTTP request and the extraction of its text (\<open>_fetch_once\<close>) are an argument. Objects of
  the state are found by their id. An exception ends the node.
\<close>

definition MAX_DOCUMENT_CHARS :: nat where
  "MAX_DOCUMENT_CHARS = 60000"

section \<open>Fetching\<close>

record fetched_page =
  fp_ok :: bool
  fp_text :: str
  fp_title :: "str option"
  fp_published_at :: "day option"
  fp_error :: "str option"

text \<open>The n-th request, which may raise (the name of the exception), and the n-th read of the cache.\<close>

record fetch_env =
  fe_once :: "nat \<Rightarrow> str \<Rightarrow> str + fetched_page"
  fe_cached :: "nat \<Rightarrow> str \<Rightarrow> fetched_page option"
  fe_digest :: "json list \<Rightarrow> str"
  fe_cache :: bool

definition page_json :: "fetched_page \<Rightarrow> json" where
  "page_json p = JObj [((lit ''text''), JStr (fp_text p)), ((lit ''title''), opt_json (fp_title p)),
     ((lit ''published_at''), opt_json (map_option isoformat (fp_published_at p)))]"

fun fetch_attempts ::
  "fetch_env \<Rightarrow> nat \<Rightarrow> str \<Rightarrow> str \<Rightarrow> nat \<Rightarrow> str \<Rightarrow> llm_world \<Rightarrow> fetched_page \<times> llm_world" where
  "fetch_attempts env retries key url 0 last_error w =
     (\<lparr>fp_ok = False, fp_text = [], fp_title = None, fp_published_at = None, fp_error = Some last_error\<rparr>, w)"
| "fetch_attempts env retries key url (Suc left) last_error w =
     (let w1 = w\<lparr>lw_fetched := lw_fetched w + 1\<rparr>
      in case fe_once env (lw_fetched w) url of
           Inl x \<Rightarrow> fetch_attempts env retries key url left x
             (if 0 < left then w1\<lparr>lw_slept := lw_slept w1 @ [1 / 2 * real (retries + 1 - left)]\<rparr> else w1)
         | Inr page \<Rightarrow>
             (page, if fp_ok page \<and> fe_cache env
                    then w1\<lparr>lw_stored := lw_stored w1 @ [(key, (lit ''fetch''), url, page_json page, 86400)]\<rparr> else w1))"

definition fetch_page :: "fetch_env \<Rightarrow> fetch_settings \<Rightarrow> str \<Rightarrow> llm_world \<Rightarrow> fetched_page \<times> llm_world" where
  "fetch_page env s url w =
     (let key = cache_key (fe_digest env) [JStr (lit ''fetch''), JStr url];
          cached = (if fe_cache env then fe_cached env (lw_cache_reads w) key else None);
          w1 = (if fe_cache env then w\<lparr>lw_cache_reads := lw_cache_reads w + 1\<rparr> else w)
      in case cached of
           Some page \<Rightarrow> (page\<lparr>fp_ok := True, fp_error := None\<rparr>, w1)
         | None \<Rightarrow> fetch_attempts env (fs_retries s) key url (fs_retries s + 1) (lit ''unknown'') w1)"

section \<open>search\<close>

definition broaden_rx :: rx where
  "broaden_rx =
     (alts [ch 34, seqs [WordB, rlit (lit ''site:''), plus (Chr (\<lambda>x. \<not> is_space x))],
      seqs [WordB, Grp ''1'' (alts [rlit (lit ''19''), rlit (lit ''20'')]), times 2 (Chr is_digit),
      WordB]])"

definition broadened :: "str \<Rightarrow> str" where
  "broadened text = join (lit '' '') (split_ws (sub broaden_rx (\<lambda>_. (lit '' '')) text))"

definition update_query :: "str \<Rightarrow> (query_record \<Rightarrow> query_record) \<Rightarrow> research_state \<Rightarrow> research_state" where
  "update_query i f st = st\<lparr>rs_queries := update_first (\<lambda>q. q_id q = i) f (rs_queries st)\<rparr>"

definition planned_queries :: "research_state \<Rightarrow> query_record list" where
  "planned_queries st = filter (\<lambda>q. q_iteration q = rs_iteration st \<and> q_status q = PLANNED) (rs_queries st)"

definition search_request_of :: "search_gateway \<Rightarrow> query_record \<Rightarrow> search_request" where
  "search_request_of g q = \<lparr>rq_query = q_text q, rq_max_results = hs_results_per_query (sg_settings g),
     rq_language = Some (detect_language (q_text q)), rq_start_date = None, rq_end_date = None\<rparr>"

text \<open>Every third query of a round starts with Brave when both providers are there.\<close>

definition preferred_provider :: "search_gateway \<Rightarrow> nat \<Rightarrow> str option" where
  "preferred_provider g index =
     (if List.member (sg_chain g) (lit ''tavily'') \<and> List.member (sg_chain g) (lit ''brave'') \<and> index mod 3 = 2
      then Some (lit ''brave'') else None)"

definition settle_query :: "search_outcome \<Rightarrow> query_record \<Rightarrow> query_record" where
  "settle_query o' q = q\<lparr>q_provider := so_provider o', q_cache_hit := so_cache_hit o',
     q_result_count := length (so_hits o'), q_error_code := map_option code_value (so_error_code o'),
     q_status := (if so_hits o' \<noteq> [] then DONE else if so_failed o' then Q_FAILED else EMPTY)\<rparr>"

definition add_hits :: "query_record \<Rightarrow> search_hit list \<Rightarrow> research_state \<Rightarrow> research_state" where
  "add_hits q hits st = st\<lparr>rs_pending_hits := rs_pending_hits st
     @ map (\<lambda>h. \<lparr>ph_hit = h, ph_query_id = q_id q, ph_subq_id = q_subq_id q\<rparr>) hits\<rparr>"

text \<open>One query, without the retry; the result also says whether it came back empty.\<close>

definition run_once ::
  "search_env \<Rightarrow> search_gateway \<Rightarrow> mem_sink \<Rightarrow> nat \<Rightarrow> query_record \<Rightarrow> research_state \<Rightarrow> llm_world
     \<Rightarrow> (node_exception + research_state \<times> bool) \<times> llm_world" where
  "run_once env g k index q st w =
     (if searches_left (lw_meter w) = 0
      then (Inr (update_query (q_id q) (\<lambda>x. x\<lparr>q_status := SKIPPED_BUDGET\<rparr>) st, False), w)
      else case search_call env g k (search_request_of g q) (Some (q_subq_id q)) (preferred_provider g index) w of
             (Inl e, w') \<Rightarrow> (Inl (Search_keys_rejected e), w')
           | (Inr o', w') \<Rightarrow>
               (let st1 = update_query (q_id q) (settle_query o') st
                in (Inr (add_hits q (so_hits o') st1, so_hits o' = [] \<and> \<not> so_failed o'), w')))"

definition broadened_query :: "query_record \<Rightarrow> research_state \<Rightarrow> query_record" where
  "broadened_query q st = \<lparr>q_id = next_id (lit ''q'') (length (rs_queries st)), q_text = broadened (q_text q),
     q_subq_id = q_subq_id q, q_facet_id = q_facet_id q, q_purpose = BROADENED,
     q_rationale = (lit ''broadened from '') @ q_id q, q_iteration = rs_iteration st, q_status = PLANNED,
     q_provider = None, q_result_count = 0, q_cache_hit = False, q_error_code = None\<rparr>"

text \<open>
  \<open>run(index, query)\<close>: a query that found nothing is broadened and run again, under the same index. The
  recursion ends because the purpose of the second query is the one that is not broadened again.
\<close>

definition wants_retry :: "query_record \<Rightarrow> bool \<Rightarrow> llm_world \<Rightarrow> bool" where
  "wants_retry q was_empty w \<longleftrightarrow> was_empty \<and> q_purpose q \<noteq> BROADENED \<and> broadened (q_text q) \<noteq> []
     \<and> broadened (q_text q) \<noteq> q_text q \<and> 0 < searches_left (lw_meter w)"

function run_query ::
  "search_env \<Rightarrow> search_gateway \<Rightarrow> mem_sink \<Rightarrow> nat \<times> query_record \<Rightarrow> research_state \<Rightarrow> llm_world
     \<Rightarrow> (node_exception + research_state) \<times> llm_world" where
  "run_query env g k (index, q) st w =
     (case run_once env g k index q st w of
        (Inl e, w1) \<Rightarrow> (Inl e, w1)
      | (Inr (st1, was_empty), w1) \<Rightarrow>
          if wants_retry q was_empty w1
          then (let retry = broadened_query q st1
                in run_query env g k (index, retry) (st1\<lparr>rs_queries := rs_queries st1 @ [retry]\<rparr>) w1)
          else (Inr st1, w1))"
  by pat_completeness auto
termination
  by (relation "measure (\<lambda>(env, g, k, (index, q), st, w). if q_purpose q = BROADENED then 0 else 1)")
    (auto simp: wants_retry_def broadened_query_def)

declare run_query.simps [simp del]

definition count_status :: "query_status \<Rightarrow> query_record list \<Rightarrow> nat" where
  "count_status s qs = length (filter (\<lambda>q. q_status q = s) qs)"

definition say_searched :: "mem_sink \<Rightarrow> research_state \<Rightarrow> llm_world \<Rightarrow> llm_world" where
  "say_searched k st w =
     (let ran = filter (\<lambda>q. q_iteration q = rs_iteration st) (rs_queries st)
      in say_info k (lit ''search_called'')
           ((lit ''Ran '') @ dec (length ran) @ (lit '' queries: '') @ dec (count_status DONE ran) @ (lit '' with results, '')
              @ dec (count_status EMPTY ran) @ (lit '' empty, '') @ dec (count_status Q_FAILED ran) @ (lit '' failed; '')
              @ dec (length (rs_pending_hits st)) @ (lit '' results.''))
           (labelled (lit ''Search'') [((lit ''searches_left''), JNum (real (searches_left (lw_meter w)))),
              ((lit ''skipped_for_budget''), JNum (real (count_status SKIPPED_BUDGET ran)))]) w)"

definition search_node ::
  "search_env \<Rightarrow> search_gateway \<Rightarrow> ((nat \<times> query_record) list \<Rightarrow> (nat \<times> query_record) list) \<Rightarrow> mem_sink
     \<Rightarrow> research_state \<Rightarrow> llm_world \<Rightarrow> (node_exception + research_state) \<times> llm_world" where
  "search_node env g schedule k st w =
     (let planned = planned_queries st
      in if planned = [] then (Inr st, w)
         else case rfold (run_query env g k) (schedule (enumerate 0 planned)) st w of
                (Inl e, w1) \<Rightarrow> (Inl e, w1)
              | (Inr st1, w1) \<Rightarrow> (Inr st1, say_searched k st1 w1))"

end
