(* ===== verification/ProcessNode.thy ===== *)
theory ProcessNode
  imports SearchNode
begin

text \<open>
  The node \<open>process_results\<close> of \<open>agent/nodes/search.py\<close>: the results of a round become documents, the
  best of each open sub-question are selected, their pages fetched, and near-duplicates given one
  origin. Documents are found by their id, under which the state keeps them.
\<close>

section \<open>New documents\<close>

record intake =
  it_state :: research_state
  it_duplicates :: nat
  it_best :: "(str, search_hit \<times> str) dict"
  it_new :: "str list"

definition page_start :: "str option \<Rightarrow> str" where
  "page_start content = take MAX_DOCUMENT_CHARS (given content)"

definition document_of_hit :: "research_state \<Rightarrow> pending_hit \<Rightarrow> str \<Rightarrow> document" where
  "document_of_hit st p canonical =
     (let hit = ph_hit p
      in \<lparr>d_id = next_id (lit ''d'') (length (rs_documents st)), d_url = sh_url hit, d_canonical_url = canonical,
          d_domain = domain_of canonical, d_title = sh_title hit, d_snippet = sh_snippet hit,
          d_content = page_start (sh_content hit), d_content_hash = [], d_published_at = sh_published_at hit,
          d_date_provenance = (if sh_published_at hit = None then None else Some (lit ''search_provider'')),
          d_provider = Some (sh_provider hit), d_subq_ids = [ph_subq_id p], d_query_ids = [ph_query_id p],
          d_origin_id = [], d_minhash = [], d_fetched = (given (sh_content hit) \<noteq> []), d_fetch_error = None,
          d_extracted = False, d_selected_round = None, d_triage_score = 0, d_score = default_score,
          d_first_seen_iteration = rs_iteration st\<rparr>)"

text \<open>A page seen before gains the sub-question, the query and, if it has none yet, the text.\<close>

definition seen_again :: "pending_hit \<Rightarrow> document \<Rightarrow> document" where
  "seen_again p d =
     (let d1 = (if List.member (d_subq_ids d) (ph_subq_id p) then d else d\<lparr>d_subq_ids := d_subq_ids d @ [ph_subq_id p]\<rparr>);
          d2 = (if List.member (d_query_ids d1) (ph_query_id p) then d1
                else d1\<lparr>d_query_ids := d_query_ids d1 @ [ph_query_id p]\<rparr>)
      in if given (sh_content (ph_hit p)) \<noteq> [] \<and> d_content d2 = []
         then d2\<lparr>d_content := page_start (sh_content (ph_hit p)), d_fetched := True\<rparr> else d2)"

definition query_text_of :: "query_record list \<Rightarrow> str \<Rightarrow> str" where
  "query_text_of qs i = (case find (\<lambda>q. q_id q = i) (rev qs) of None \<Rightarrow> [] | Some q \<Rightarrow> q_text q)"

definition take_hit :: "query_record list \<Rightarrow> pending_hit \<Rightarrow> intake \<Rightarrow> node_exception + intake" where
  "take_hit qs p it =
     (case canonicalize_url (sh_url (ph_hit p)) of
        Inl e \<Rightarrow> Inl Value_error
      | Inr None \<Rightarrow> Inr it
      | Inr (Some canonical) \<Rightarrow>
          let st = it_state it
          in case find (\<lambda>(i, d). d_canonical_url d = canonical) (rs_documents st) of
               Some (i, d) \<Rightarrow> Inr (it\<lparr>it_state := update_document i (seen_again p) st, it_duplicates := it_duplicates it + 1\<rparr>)
             | None \<Rightarrow>
                 (let d = document_of_hit st p canonical
                  in Inr (it\<lparr>it_state := st\<lparr>rs_documents := dput (d_id d) d (rs_documents st)\<rparr>,
                             it_best := dput (d_id d) (ph_hit p, query_text_of qs (ph_query_id p)) (it_best it),
                             it_new := it_new it @ [d_id d]\<rparr>)))"

fun take_hits :: "query_record list \<Rightarrow> pending_hit list \<Rightarrow> intake \<Rightarrow> node_exception + intake" where
  "take_hits qs [] it = Inr it"
| "take_hits qs (p # ps) it = rbind (take_hit qs p it) (take_hits qs ps)"

section \<open>Triage\<close>

definition compact_text :: "str \<Rightarrow> str" where
  "compact_text s = filter (\<lambda>c. (97 \<le> c \<and> c \<le> 122) \<or> (48 \<le> c \<and> c \<le> 57)) (str_lower s)"

definition name_alias :: "str \<Rightarrow> str" where
  "name_alias name = (if ends_with name (lit ''ai'') \<and> 5 < length name then take (length name - 2) name else name)"

definition names_company :: "research_state \<Rightarrow> document \<Rightarrow> bool" where
  "names_company st d =
     (let compact = compact_text (d_title d @ (lit '' '') @ d_snippet d @ (lit '' '') @ take 1500 (d_content d));
          names = map compact_text (an_entities (rs_analysis st))
      in list_ex (\<lambda>name. 3 \<le> length name \<and> contains compact name) (names @ map name_alias names))"

definition triage :: "domain_tiers \<Rightarrow> research_state \<Rightarrow> search_hit \<Rightarrow> str \<Rightarrow> document \<Rightarrow> real" where
  "triage t st hit query_text d =
     (let subq_text = join (lit '' '') (map sq_text (List.map_filter (subquestion_of st) (d_subq_ids d)));
          shown = d_title d @ (lit '' '') @ d_snippet d;
          relevance = max (overlap_ratio subq_text shown) (overlap_ratio query_text shown);
          authority = tier_score t (tier_of t (d_domain d));
          rank_signal = (case sh_provider_score hit of Some x \<Rightarrow> x | None \<Rightarrow> 1 / (real (sh_rank hit) + 1));
          recency = recency_score (d_published_at d) (rs_as_of st) (an_time_scope (rs_analysis st));
          score = 4 / 10 * relevance + 3 / 10 * authority + 2 / 10 * rank_signal + 1 / 10 * recency
      in py_round
           (if is_own_domain (d_domain d) (self_primary_entities (rs_analysis st)) then max score (7 / 10 + 2 / 10 * relevance)
            else if an_answer_type (rs_analysis st) = (lit ''profile'')
              then (if names_company st d then min 1 (score + 3 / 10) else score * (25 / 100))
            else score) 4)"

definition date_document :: "(str \<Rightarrow> day option) \<Rightarrow> document \<Rightarrow> document" where
  "date_document rfc d =
     (if d_published_at d = None
      then (let (day, provenance) = dated_header rfc (body_of d) (d_url d)
            in d\<lparr>d_published_at := day, d_date_provenance := provenance\<rparr>)
      else d)"

definition triage_document ::
  "(str \<Rightarrow> day option) \<Rightarrow> domain_tiers \<Rightarrow> str \<times> search_hit \<times> str \<Rightarrow> research_state \<Rightarrow> research_state" where
  "triage_document rfc t best st =
     (case best of (i, hit, query_text) \<Rightarrow>
        update_document i (\<lambda>d. let d1 = date_document rfc d in d1\<lparr>d_triage_score := triage t st hit query_text d1\<rparr>) st)"

section \<open>Selection\<close>

definition round_limit :: "fetch_settings \<Rightarrow> research_state \<Rightarrow> nat" where
  "round_limit s st = (if rs_iteration st = 1 then fs_top_k_first_round s else fs_top_k_followup_round s)"

definition triage_candidates :: "str \<Rightarrow> research_state \<Rightarrow> document list" where
  "triage_candidates subq_id st =
     sort_key (\<lambda>d. - d_triage_score d) (sort_key d_id (filter (\<lambda>d. List.member (d_subq_ids d) subq_id \<and> \<not> d_extracted d
        \<and> d_selected_round d = None \<and> 15 / 100 \<le> d_triage_score d) (dvals (rs_documents st))))"

text \<open>A selected document is marked, so it is no candidate of a later sub-question.\<close>

definition select_for ::
  "nat \<Rightarrow> subquestion \<Rightarrow> research_state \<times> str list \<Rightarrow> research_state \<times> str list" where
  "select_for k s sel =
     (case sel of (st, selected) \<Rightarrow>
        if \<not> sq_open s then (st, selected)
        else fold (\<lambda>i (st, selected). if List.member selected i then (st, selected)
               else (update_document i (\<lambda>d. d\<lparr>d_selected_round := Some (rs_iteration st)\<rparr>) st, selected @ [i]))
             (map d_id (take k (triage_candidates (sq_id s) st))) (st, selected))"

section \<open>Pages and origins\<close>

record fetching =
  ft_state :: research_state
  ft_failures :: nat

definition page_read :: "bool \<Rightarrow> fetched_page \<Rightarrow> document \<Rightarrow> document" where
  "page_read metadata_only page d =
     (let d1 = (if metadata_only then d else d\<lparr>d_content := take MAX_DOCUMENT_CHARS (fp_text page), d_fetched := True\<rparr>);
          d2 = (if d_title d1 = [] then d1\<lparr>d_title := given (fp_title page)\<rparr> else d1)
      in if d_published_at d2 = None \<and> fp_published_at page \<noteq> None
         then d2\<lparr>d_published_at := fp_published_at page, d_date_provenance := Some (lit ''page_metadata'')\<rparr> else d2)"

definition fetch_failed :: "mem_sink \<Rightarrow> document \<Rightarrow> fetched_page \<Rightarrow> agent_error" where
  "fetch_failed k d page = gateway_error FETCH_FAILED k (lit ''continue with the snippet'')
     (Some (d_domain d @ (lit '': '') @ (case fp_error page of None \<Rightarrow> (lit ''None'') | Some e \<Rightarrow> e)))"

definition fetch_document ::
  "fetch_env \<Rightarrow> fetch_settings \<Rightarrow> mem_sink \<Rightarrow> str \<Rightarrow> fetching \<Rightarrow> llm_world \<Rightarrow> (node_exception + fetching) \<times> llm_world" where
  "fetch_document env s k i f w =
     (case dget (rs_documents (ft_state f)) i of
        None \<Rightarrow> (Inl (Key_error i), w)
      | Some d \<Rightarrow>
          (let (page, w1) = fetch_page env s (d_url d) w
           in if fp_ok page \<and> fp_text page \<noteq> []
              then (Inr (f\<lparr>ft_state := update_document i (page_read (d_fetched d) page) (ft_state f)\<rparr>), w1)
              else if \<not> d_fetched d
              then (Inr \<lparr>ft_state = update_document i (\<lambda>x. x\<lparr>d_fetch_error := fp_error page, d_content := d_snippet x\<rparr>) (ft_state f),
                         ft_failures = ft_failures f + 1\<rparr>, say_error k (fetch_failed k d page) w1)
              else (Inr f, w1)))"

fun index_exception :: "index_error \<Rightarrow> node_exception" where
  "index_exception MissingKey = Key_error []"
| "index_exception DuplicateKey = Value_error"

fun restore_index :: "'l near_ops \<Rightarrow> document list \<Rightarrow> 'l origin_index \<Rightarrow> node_exception + 'l origin_index" where
  "restore_index ops [] ix = Inr ix"
| "restore_index ops (d # ds) ix =
     (if d_origin_id d \<noteq> [] \<and> d_content_hash d \<noteq> []
      then rbind (lift index_exception (restore_doc ops (d_id d) (d_origin_id d) (d_minhash d) (d_content_hash d) ix))
             (restore_index ops ds)
      else restore_index ops ds ix)"

definition index_text :: "document \<Rightarrow> str" where
  "index_text d = (if d_content d \<noteq> [] then d_content d else if d_snippet d \<noteq> [] then d_snippet d else d_title d)"

definition assign_document ::
  "'l near_ops \<Rightarrow> str \<Rightarrow> research_state \<times> 'l origin_index \<Rightarrow> node_exception + research_state \<times> 'l origin_index" where
  "assign_document ops i s =
     (case s of (st, ix) \<Rightarrow>
        rbind (dget_err (rs_documents st) i) (\<lambda>d.
          rbind (lift index_exception (assign ops i (index_text d) ix)) (\<lambda>(origin, ix').
            Inr (update_document i (\<lambda>x. x\<lparr>d_origin_id := origin, d_content_hash := content_hash ops (index_text d),
                   d_minhash := dget_or (oi_signatures ix') i []\<rparr>) st, ix'))))"

fun assign_documents ::
  "'l near_ops \<Rightarrow> str list \<Rightarrow> research_state \<times> 'l origin_index \<Rightarrow> node_exception + research_state \<times> 'l origin_index" where
  "assign_documents ops [] s = Inr s"
| "assign_documents ops (i # is) s = rbind (assign_document ops i s) (assign_documents ops is)"

section \<open>The node\<close>

definition needs_fetch :: "document \<Rightarrow> bool" where
  "needs_fetch d = (\<not> d_fetched d \<or> d_published_at d = None)"

definition documents_at :: "research_state \<Rightarrow> str list \<Rightarrow> document list" where
  "documents_at st is = List.map_filter (dget (rs_documents st)) is"

definition processed_message :: "nat \<Rightarrow> nat \<Rightarrow> nat \<Rightarrow> nat \<Rightarrow> nat \<Rightarrow> nat \<Rightarrow> str" where
  "processed_message results new_docs duplicates selected failures syndicated =
     dec results @ (lit '' results -> '') @ dec new_docs @ (lit '' new pages ('') @ dec duplicates @ (lit '' duplicate URLs); '')
       @ (lit ''selected '') @ dec selected @ (lit '' for reading, '') @ dec failures @ (lit '' fetch failures, '')
       @ dec syndicated @ (lit '' share an origin with another page.'')"

definition selected_json :: "document \<Rightarrow> json" where
  "selected_json d = JObj [((lit ''id''), JStr (d_id d)), ((lit ''domain''), JStr (d_domain d)), ((lit ''triage''), JNum (d_triage_score d)),
     ((lit ''origin''), JStr (d_origin_id d))]"

definition intake_results :: "(str \<Rightarrow> day option) \<Rightarrow> domain_tiers \<Rightarrow> research_state \<Rightarrow> node_exception + intake" where
  "intake_results rfc t st =
     rbind (take_hits (rs_queries st) (rs_pending_hits st) \<lparr>it_state = st, it_duplicates = 0, it_best = [], it_new = []\<rparr>) (\<lambda>it.
       Inr (it\<lparr>it_state := fold (triage_document rfc t) (it_best it) ((it_state it)\<lparr>rs_pending_hits := []\<rparr>)\<rparr>))"

definition process_results ::
  "fetch_env \<Rightarrow> fetch_settings \<Rightarrow> (str \<Rightarrow> day option) \<Rightarrow> domain_tiers \<Rightarrow> 'l near_ops \<Rightarrow> 'l \<Rightarrow> nat
     \<Rightarrow> (str list \<Rightarrow> str list) \<Rightarrow> mem_sink \<Rightarrow> research_state \<Rightarrow> llm_world \<Rightarrow> (node_exception + research_state) \<times> llm_world" where
  "process_results env s rfc t ops lsh shingle_size schedule k st w =
     (case intake_results rfc t st of
        Inl e \<Rightarrow> (Inl e, w)
      | Inr it \<Rightarrow>
          (let limit = round_limit s st;
               (st1, selected) = fold (select_for limit) (rs_plan st) (it_state it, []);
               to_fetch = map d_id (filter needs_fetch (documents_at st1 selected))
           in case rfold (fetch_document env s k) (schedule to_fetch) \<lparr>ft_state = st1, ft_failures = 0\<rparr> w of
                (Inl e, w1) \<Rightarrow> (Inl e, w1)
              | (Inr f, w1) \<Rightarrow>
                  (case rbind (restore_index ops (dvals (rs_documents (ft_state f))) (origin_index_init shingle_size lsh))
                          (\<lambda>ix. assign_documents ops selected (ft_state f, ix)) of
                     Inl e \<Rightarrow> (Inl e, w1)
                   | Inr (st2, ix) \<Rightarrow>
                       (let chosen = documents_at st2 selected;
                            syndicated = length (filter (\<lambda>d. d_origin_id d \<noteq> (lit ''o-'') @ d_id d) chosen);
                            st3 = bump (lit ''duplicate_urls'') (it_duplicates it) (bump (lit ''fetch_failures'') (ft_failures f) st2)
                        in (Inr st3, say_info k (lit ''node_finished'')
                              (processed_message (length (rs_pending_hits st)) (length (it_new it)) (it_duplicates it)
                                 (length selected) (ft_failures f) syndicated)
                              (labelled (lit ''Sources'') [((lit ''selected''), JList (map selected_json chosen)),
                                 ((lit ''top_k''), JNum (real limit))]) w1)))))"

end
