(* ===== verification/Embedder.thy ===== *)
theory Embedder
  imports EvidenceNodes
begin

text \<open>
  \<open>providers/embeddings.py\<close>: vectors of claim texts from one model per run, through a cache. The n-th
  request to the provider, the n-th read of the cache and the time a call took are arguments
  (\<open>embed_env\<close>). Once a request failed, embeddings are off for the rest of the run.
\<close>

definition EMBED_BATCH :: nat where
  "EMBED_BATCH = 64"

record embed_env =
  eb_embed :: "nat \<Rightarrow> str \<Rightarrow> str \<Rightarrow> str list \<Rightarrow> provider_error + real list list \<times> nat"
  eb_cached :: "nat \<Rightarrow> str list \<Rightarrow> (str, real list) dict"
  eb_digest :: "json list \<Rightarrow> str"
  eb_latency :: "nat \<Rightarrow> nat"

record embedder =
  em_providers :: "str list"
  em_catalog :: model_catalog

text \<open>The first provider of the chain that is there and has an embedding model.\<close>

definition embedding_choice :: "embedder \<Rightarrow> (str \<times> str) option" where
  "embedding_choice e =
     (case List.map_filter (\<lambda>name. case model_for (em_catalog e) EMBEDDING name of
             None \<Rightarrow> None
           | Some model \<Rightarrow> if List.member (em_providers e) name \<and> model \<noteq> [] then Some (name, model) else None)
             (ct_chain (em_catalog e)) of
        [] \<Rightarrow> None | c # _ \<Rightarrow> Some c)"

definition embedder_model :: "embedder \<Rightarrow> llm_world \<Rightarrow> str option" where
  "embedder_model e w = (if lw_embedding_off w = None then map_option snd (embedding_choice e) else None)"

definition embedding_failed :: "mem_sink \<Rightarrow> str \<Rightarrow> provider_error \<Rightarrow> agent_error" where
  "embedding_failed k name e =
     (gateway_error EMBEDDING_UNAVAILABLE k (lit ''use lexical similarity for the rest of the run'')
        (Some (lit ''clustering continues without embeddings'')))
       \<lparr>ae_provider := Some name, ae_cause := Some (pe_message e)\<rparr>"

text \<open>
  The batches of what the cache does not have. A failed request ends the loop (\<open>Inl\<close>); an answer of the
  wrong length raises.
\<close>

fun embed_batches ::
  "embed_env \<Rightarrow> embedder \<Rightarrow> str \<Rightarrow> str \<Rightarrow> str list list \<Rightarrow> (str, real list) dict \<Rightarrow> llm_world
     \<Rightarrow> (node_exception + provider_error + (str, real list) dict) \<times> llm_world" where
  "embed_batches env e name model [] fresh w = (Inr (Inr fresh), w)"
| "embed_batches env e name model (batch # batches) fresh w =
     (let w1 = w\<lparr>lw_embedded := lw_embedded w + 1\<rparr>
      in case eb_embed env (lw_embedded w) name model batch of
           Inl x \<Rightarrow> (Inr (Inl x), w1)
         | Inr (vectors, tokens_in) \<Rightarrow>
             (let w2 = w1\<lparr>lw_meter := add_llm tokens_in 0 (model_cost (em_catalog e) model tokens_in 0) (lw_meter w1)\<rparr>
              in if length vectors \<noteq> length batch then (Inl Value_error, w2)
                 else embed_batches env e name model batches (fold (\<lambda>(t, v). dput t v) (zip batch vectors) fresh) w2))"

definition say_embedded :: "mem_sink \<Rightarrow> str \<Rightarrow> nat \<Rightarrow> nat \<Rightarrow> nat \<Rightarrow> nat \<Rightarrow> llm_world \<Rightarrow> llm_world" where
  "say_embedded k model missing unique cached latency w =
     w\<lparr>lw_timeline := mem_debug k (lit ''llm_called'')
        ((lit ''Embedded '') @ dec missing @ (lit '' texts with '') @ model @ (lit '' ('') @ dec (unique - missing) @ (lit '' from cache).''))
        (no_args\<lparr>em_latency_ms := Some latency,
                 em_data := [((lit ''model''), JStr model), ((lit ''fresh''), JNum (real missing)), ((lit ''cached''), JNum (real cached))]\<rparr>)
        (lw_timeline w)\<rparr>"

definition embed_texts ::
  "embed_env \<Rightarrow> embedder \<Rightarrow> str list \<Rightarrow> mem_sink \<Rightarrow> llm_world
     \<Rightarrow> (node_exception + (str, real list) dict option) \<times> llm_world" where
  "embed_texts env e texts k w =
     (case (embedding_choice e, lw_embedding_off w) of
        (Some (name, model), None) \<Rightarrow>
          (let unique = fromkeys texts;
               key = (\<lambda>text. cache_key (eb_digest env) [JStr (lit ''embedding''), JStr model, JStr text]);
               cached = eb_cached env (lw_embedding_reads w) (map key unique);
               w1 = w\<lparr>lw_embedding_reads := lw_embedding_reads w + 1\<rparr>;
               vectors = List.map_filter (\<lambda>text. map_option (Pair text) (dget cached (key text))) unique;
               missing = filter (\<lambda>text. \<not> dmem text vectors) unique
           in case embed_batches env e name model (batches_of EMBED_BATCH missing) [] w1 of
                (Inl x, w2) \<Rightarrow> (Inl x, w2)
              | (Inr (Inl x), w2) \<Rightarrow>
                  (Inr None, say_error k (embedding_failed k name x) (w2\<lparr>lw_embedding_off := Some (provider_error_str x)\<rparr>))
              | (Inr (Inr fresh), w2) \<Rightarrow>
                  (let w3 = (if fresh = [] then w2
                             else w2\<lparr>lw_vectors_stored := lw_vectors_stored w2
                                 @ [(model, fold (\<lambda>(text, v). dput (key text) v) fresh [])]\<rparr>)
                   in (Inr (Some (fold (\<lambda>(text, v). dput text v) fresh vectors)),
                       if missing = [] then w3
                       else say_embedded k model (length missing) (length unique) (length cached)
                              (eb_latency env (lw_embedding_reads w)) w3)))
      | _ \<Rightarrow> (Inr None, w))"

end
