(* ===== verification/Graph.thy ===== *)
theory Graph
  imports HeuristicNodes ProcessNode Embedder ContradictionNode
begin

text \<open>
  \<open>agent/graph.py\<close>: the sixteen nodes, their order, the loop of a round, and the wrapper around every
  node. LangGraph runs one node per step and stops with an error when the recursion limit of steps is
  used up, which is the fuel of \<open>run_graph\<close>. Every node is its model; what the nodes ask for is
  the record \<open>graph_env\<close>: settings, models, search and embedding providers, pages, the masker, the
  order in which the tasks of one node run. What the skills change in the dependencies (the guidance in
  the prompts, the domain tiers) is a function of the state, as the wrapper restores it before every node.
\<close>

datatype node =
  Intake_guard | Analyze_query | Plan_node | Check_plan | Generate_queries | Search_node | Process_results
| Evaluate_sources | Extract_claims | Cluster_and_corroborate | Detect_contradictions | Assess_coverage
| Synthesize | Verify_citations | Review_evidence | Output_gate

fun node_name :: "node \<Rightarrow> str" where
  "node_name Intake_guard = (lit ''intake_guard'')"
| "node_name Analyze_query = (lit ''analyze_query'')"
| "node_name Plan_node = (lit ''plan'')"
| "node_name Check_plan = (lit ''check_plan'')"
| "node_name Generate_queries = (lit ''generate_queries'')"
| "node_name Search_node = (lit ''search'')"
| "node_name Process_results = (lit ''process_results'')"
| "node_name Evaluate_sources = (lit ''evaluate_sources'')"
| "node_name Extract_claims = (lit ''extract_claims'')"
| "node_name Cluster_and_corroborate = (lit ''cluster_and_corroborate'')"
| "node_name Detect_contradictions = (lit ''detect_contradictions'')"
| "node_name Assess_coverage = (lit ''assess_coverage'')"
| "node_name Synthesize = (lit ''synthesize'')"
| "node_name Verify_citations = (lit ''verify_citations'')"
| "node_name Review_evidence = (lit ''review_evidence'')"
| "node_name Output_gate = (lit ''output_gate'')"

definition NODES :: "node list" where
  "NODES = [Intake_guard, Analyze_query, Plan_node, Check_plan, Generate_queries, Search_node, Process_results,
     Evaluate_sources, Extract_claims, Cluster_and_corroborate, Detect_contradictions, Assess_coverage,
     Synthesize, Verify_citations, Review_evidence, Output_gate]"

text \<open>The fixed edges: consecutive nodes up to \<open>assess_coverage\<close>, and the chain of the report.\<close>

fun pairwise :: "'a list \<Rightarrow> ('a \<times> 'a) list" where
  "pairwise (x # y # xs) = (x, y) # pairwise (y # xs)"
| "pairwise xs = []"

definition graph_edges :: "(node \<times> node) list" where
  "graph_edges = pairwise (takeWhile (\<lambda>n. n \<noteq> Assess_coverage) NODES @ [Assess_coverage])
     @ [(Synthesize, Verify_citations), (Verify_citations, Review_evidence), (Review_evidence, Output_gate)]"

text \<open>The node after a node; \<open>None\<close> is END.\<close>

definition next_node :: "node \<Rightarrow> research_state \<Rightarrow> node option" where
  "next_node n st =
     (if n = Assess_coverage then find (\<lambda>m. node_name m = route_after_coverage st) [Generate_queries, Synthesize]
      else dget graph_edges n)"

datatype graph_exception =
  Graph_cancelled
| Node_raised node_exception
| Progress_failed str
| Recursion_limit

text \<open>The models behind the predictor, each with the guidance of the active skills in its prompt.\<close>

record graph_models =
  gm_analyze :: "str \<Rightarrow> (inputs, analyze_output) predictor"
  gm_plan :: "str \<Rightarrow> (inputs, plan_output) predictor"
  gm_queries :: "str \<Rightarrow> (inputs, queries_output) predictor"
  gm_evaluate :: "str \<Rightarrow> (inputs, source_judgement list) predictor"
  gm_extract :: "str \<Rightarrow> (inputs, claim_out list) predictor"
  gm_validate :: "str \<Rightarrow> (inputs, claim_validation list) predictor"
  gm_judge :: "str \<Rightarrow> (inputs, contradiction_judgement list) predictor"
  gm_coverage :: "str \<Rightarrow> (inputs, coverage_output) predictor"
  gm_synthesize :: "str \<Rightarrow> (inputs, synthesis_output) predictor"
  gm_verify :: "str \<Rightarrow> (inputs, verification_item list) predictor"

text \<open>The order in which the tasks of one \<open>asyncio.gather\<close> run.\<close>

record schedules =
  sd_search :: "(nat \<times> query_record) list \<Rightarrow> (nat \<times> query_record) list"
  sd_fetch :: "str list \<Rightarrow> str list"
  sd_evaluate :: "document list list \<Rightarrow> document list list"
  sd_extract :: "document list \<Rightarrow> document list"
  sd_verify :: "(str \<times> json) list list \<Rightarrow> (str \<times> json) list list"

record 'l graph_env =
  ge_settings :: settings
  ge_models :: graph_models
  ge_schedules :: schedules
  ge_skills :: "(str, skill) dict"
  ge_tiers :: domain_tiers
  ge_gate :: gate_config
  ge_masker :: "str \<Rightarrow> mask_result"
  ge_search_env :: search_env
  ge_search :: search_gateway
  ge_fetch :: fetch_env
  ge_embed_env :: embed_env
  ge_embedder :: embedder
  ge_near :: "'l near_ops"
  ge_lsh :: 'l
  ge_rfc :: "str \<Rightarrow> day option"
  ge_order :: "int list \<Rightarrow> int list"
  ge_today :: day
  ge_repr :: "real \<Rightarrow> str"
  ge_events :: mem_sink
  ge_clock :: "nat \<Rightarrow> real"
  ge_span :: "nat \<Rightarrow> str"
  ge_cancelled :: "nat \<Rightarrow> bool"
  ge_progress :: "nat \<Rightarrow> str option"

definition active_guidance :: "'l graph_env \<Rightarrow> research_state \<Rightarrow> str" where
  "active_guidance e st = guidance (List.map_filter (dget (ge_skills e)) (rs_skills st))"

definition active_tiers :: "'l graph_env \<Rightarrow> research_state \<Rightarrow> domain_tiers" where
  "active_tiers e st = (if rs_skill_domains st = [] then ge_tiers e else extended (rs_skill_domains st) (ge_tiers e))"

text \<open>Nodes that ask a model only raise what the model raised.\<close>

fun model_raised :: "(llm_exception + 'a) \<times> 'w \<Rightarrow> (node_exception + 'a) \<times> 'w" where
  "model_raised (r, w) = (lift Model_raised r, w)"

definition node_fn ::
  "'l graph_env \<Rightarrow> node \<Rightarrow> mem_sink \<Rightarrow> real \<Rightarrow> research_state \<Rightarrow> llm_world \<Rightarrow> (node_exception + research_state) \<times> llm_world" where
  "node_fn e n k now st w =
     (let s = ge_settings e; m = ge_models e; sd = ge_schedules e; g = active_guidance e st; today = isoformat (ge_today e);
          batch = ks_citation_verification_batch_size (st_concurrency s)
      in case n of
        Intake_guard \<Rightarrow> intake_guard (ge_masker e) (ge_today e) k st w
      | Analyze_query \<Rightarrow> analyze_query (gm_analyze m g) (ge_skills e) (ge_today e) k st w
      | Plan_node \<Rightarrow> plan_node (gm_plan m g) (st_plan s) k st w
      | Check_plan \<Rightarrow> check_plan k st w
      | Generate_queries \<Rightarrow> model_raised (generate_queries (gm_queries m g) (st_budget s) (ds_query_similarity_threshold (st_dedup s))
          today k now st w)
      | Search_node \<Rightarrow> search_node (ge_search_env e) (ge_search e) (sd_search sd) k st w
      | Process_results \<Rightarrow> process_results (ge_fetch e) (st_fetch s) (ge_rfc e) (active_tiers e st) (ge_near e) (ge_lsh e)
          (ds_minhash_shingle_size (st_dedup s)) (sd_fetch sd) k st w
      | Evaluate_sources \<Rightarrow> evaluate_sources (gm_evaluate m g) (sd_evaluate sd) (active_tiers e st) (st_scoring s) k st w
      | Extract_claims \<Rightarrow> extract_claims (gm_extract m g) (gm_validate m g) (ge_order e) (ge_rfc e) (sd_extract sd) today k st w
      | Cluster_and_corroborate \<Rightarrow> cluster_and_corroborate (embed_texts (ge_embed_env e) (ge_embedder e))
          (embedder_model (ge_embedder e)) (st_dedup s) k st w
      | Detect_contradictions \<Rightarrow> detect_contradictions (gm_judge m g) (st_contradiction s) k st w
      | Assess_coverage \<Rightarrow> model_raised (assess_coverage (gm_coverage m g) (ge_repr e) (st_budget s) (st_scoring s)
          (ps_max_facets_per_subquestion (st_plan s)) k now st w)
      | Synthesize \<Rightarrow> synthesize (gm_synthesize m g) today k st w
      | Verify_citations \<Rightarrow> verify_citations (gm_synthesize m g) (gm_verify m g) today batch (sd_verify sd) k st w
      | Review_evidence \<Rightarrow> review_evidence (ge_gate e) k st w
      | Output_gate \<Rightarrow> output_gate (ge_gate e) (int (gs_max_remediation_rounds (st_gate s))) k st w)"

definition say_debug :: "mem_sink \<Rightarrow> str \<Rightarrow> str \<Rightarrow> emit_args \<Rightarrow> llm_world \<Rightarrow> llm_world" where
  "say_debug k t m a w = w\<lparr>lw_timeline := mem_debug k t m a (lw_timeline w)\<rparr>"

text \<open>
  \<open>_wrap\<close>: the cancellation check, the meter restored on the first node after a resume, the node under
  its own span, the snapshot of the meter, the progress report. \<open>i\<close> counts the steps of the process
  and indexes what the environment answers.
\<close>

definition run_node ::
  "'l graph_env \<Rightarrow> nat \<Rightarrow> node \<Rightarrow> research_state \<Rightarrow> llm_world \<Rightarrow> (graph_exception + research_state) \<times> llm_world" where
  "run_node e i n st w =
     (if ge_cancelled e i then (Inl Graph_cancelled, w)
      else
        let now = ge_clock e i;
            w1 = (if rs_budget st \<noteq> [] \<and> bm_llm_calls (lw_meter w) = 0 \<and> bm_searches (lw_meter w) = 0
                  then w\<lparr>lw_meter := meter_restore now (rs_budget st) (lw_meter w)\<rparr> else w);
            k = mem_child (ge_events e) (node_name n) (if rs_iteration st = 0 then None else Some (rs_iteration st))
                  None (ge_span e i);
            w2 = say_debug k (lit ''node_started'') (node_name n @ (lit '' started.'')) no_args w1
        in case node_fn e n k now st w2 of
             (Inl x, w3) \<Rightarrow> (Inl (Node_raised x), w3)
           | (Inr st', w3) \<Rightarrow>
               (let finished = ge_clock e (i + 1);
                    st2 = st'\<lparr>rs_budget := meter_snapshot finished (lw_meter w3)\<rparr>;
                    w4 = say_debug (if n = Generate_queries then k\<lparr>ms_iteration := Some (rs_iteration st')\<rparr> else k)
                           (lit ''node_finished'') (node_name n @ (lit '' finished.''))
                           (no_args\<lparr>em_latency_ms := Some (nat \<lfloor>(finished - now) * 1000\<rfloor>)\<rparr>) w3
                in case ge_progress e i of
                     Some failure \<Rightarrow> (Inl (Progress_failed failure), w4)
                   | None \<Rightarrow> (Inr st2, w4)))"

fun run_graph ::
  "'l graph_env \<Rightarrow> nat \<Rightarrow> nat \<Rightarrow> node \<Rightarrow> research_state \<Rightarrow> llm_world \<Rightarrow> (graph_exception + research_state) \<times> llm_world" where
  "run_graph e 0 i n st w = (Inl Recursion_limit, w)"
| "run_graph e (Suc fuel) i n st w =
     (case run_node e i n st w of
        (Inl x, w') \<Rightarrow> (Inl x, w')
      | (Inr st', w') \<Rightarrow>
          (case next_node n st' of
             None \<Rightarrow> (Inr st', w')
           | Some m \<Rightarrow> run_graph e fuel (i + 1) m st' w'))"

definition recursion_limit :: "budget_settings \<Rightarrow> nat" where
  "recursion_limit b = 4 + 8 * bs_max_iterations b + 4 + 5"

end
