(* ===== verification/ValidationProps.thy ===== *)
theory ValidationProps
  imports Validation
begin

text \<open>
  Properties of the validation of claims: every claim gets a verdict, an affirmative one only from a
  complete answer of the model that no rule contradicts, and the claim itself is left as it was extracted.
\<close>

text \<open>What validation may change of a claim.\<close>

definition claim_core :: "claim \<Rightarrow> claim" where
  "claim_core c = c\<lparr>c_time_sensitive := False, c_validation_status := LEGACY, c_validation_reason := [],
     c_freshness := NOT_TIME_SENSITIVE, c_requires_fresh_confirmation := False\<rparr>"

definition same_core :: "claim \<Rightarrow> claim \<Rightarrow> bool" where
  "same_core c0 c \<longleftrightarrow> claim_core c = claim_core c0"

lemma claim_core_update [simp]:
  "claim_core (c\<lparr>c_time_sensitive := ts\<rparr>) = claim_core c" "claim_core (c\<lparr>c_validation_status := v\<rparr>) = claim_core c"
  "claim_core (c\<lparr>c_validation_reason := r\<rparr>) = claim_core c" "claim_core (c\<lparr>c_freshness := f\<rparr>) = claim_core c"
  "claim_core (c\<lparr>c_requires_fresh_confirmation := q\<rparr>) = claim_core c"
  by (simp_all add: claim_core_def)

lemma claim_core_fields:
  "c_subq_id (claim_core c) = c_subq_id c" "c_facet_id (claim_core c) = c_facet_id c" "c_doc_id (claim_core c) = c_doc_id c"
  "c_origin_id (claim_core c) = c_origin_id c" "c_text (claim_core c) = c_text c" "c_quote (claim_core c) = c_quote c"
  "c_conditions (claim_core c) = c_conditions c" "c_entity (claim_core c) = c_entity c"
  "c_iteration (claim_core c) = c_iteration c"
  by (simp_all add: claim_core_def)

lemma same_coreD:
  assumes "same_core c0 c"
  shows "c_subq_id c = c_subq_id c0" "c_facet_id c = c_facet_id c0" "c_doc_id c = c_doc_id c0"
    "c_origin_id c = c_origin_id c0" "c_text c = c_text c0" "c_quote c = c_quote c0" "c_conditions c = c_conditions c0"
    "c_entity c = c_entity c0" "c_iteration c = c_iteration c0"
  using assms claim_core_fields[of c] claim_core_fields[of c0] by (simp_all add: same_core_def)

lemma same_core_refl [simp]: "same_core c c"
  by (simp add: same_core_def)

lemma same_core_unavailable: "same_core c0 c \<Longrightarrow> same_core c0 (unavailable c)"
  by (simp add: same_core_def unavailable_def)

lemma claim_core_freshness [simp]: "claim_core (assess_claim_freshness rfc d st c) = claim_core c"
  by (simp add: assess_claim_freshness_def Let_def)

lemma claim_core_judge [simp]: "claim_core (judge_claim d item c) = claim_core c"
  by (simp add: judge_claim_def)

lemma settle_claim_core:
  assumes "settle_claim rfc d st item c = Inr c'"
  shows "same_core c c'"
  using assms by (auto simp: settle_claim_def same_core_def rbind_Inr_iff Let_def split: option.splits if_splits)

lemma freshness_fields [simp]:
  "c_validation_status (assess_claim_freshness rfc d st c) = c_validation_status c"
  "c_validation_reason (assess_claim_freshness rfc d st c) = c_validation_reason c"
  by (simp_all add: assess_claim_freshness_def Let_def)

lemma passages_core: "c_entity c = c_entity c' \<Longrightarrow> c_text c = c_text c' \<Longrightarrow> applicability_passages d c = applicability_passages d c'"
  by (simp add: applicability_passages_def)

text \<open>An answer of the model that affirms the claim at position \<open>i\<close>, as the only verdict on it.\<close>

definition affirms :: "nat \<Rightarrow> claim_validation list \<Rightarrow> bool" where
  "affirms i items \<longleftrightarrow> (\<exists>item. filter (\<lambda>v. cv_claim_id v = candidate_key i) items = [item]
     \<and> cv_supported item \<and> cv_conditions_complete item)"

lemma settle_claim_verdict:
  assumes "settle_claim rfc d st item c = Inr c'"
  shows "c_validation_status c' \<in> {V_SUPPORTED, UNSUPPORTED}"
    and "c_validation_status c' = V_SUPPORTED \<Longrightarrow> cv_supported item \<and> cv_conditions_complete item
      \<and> \<not> unrepresented_scope d c' \<and> legal_evidence_gap c' d st \<in> {Inr None, Inr (Some [])}"
proof -
  let ?c1 = "assess_claim_freshness rfc d st (judge_claim d item c)"
  obtain gap where gap: "legal_evidence_gap ?c1 d st = Inr gap"
    and c': "c' = (case gap of None \<Rightarrow> ?c1 | Some reason \<Rightarrow> if reason = [] then ?c1
        else ?c1\<lparr>c_validation_status := UNSUPPORTED, c_validation_reason := reason\<rparr>)"
    using assms by (auto simp: settle_claim_def rbind_Inr_iff Let_def)
  have "c_validation_status (judge_claim d item c) \<in> {V_SUPPORTED, UNSUPPORTED}" by (simp add: judge_claim_def)
  then show "c_validation_status c' \<in> {V_SUPPORTED, UNSUPPORTED}" unfolding c' by (auto split: option.split)
  assume sup: "c_validation_status c' = V_SUPPORTED"
  have e: "c' = ?c1 \<and> (gap = None \<or> gap = Some [])"
  proof (cases gap)
    case None
    then show ?thesis unfolding c' by simp
  next
    case (Some r)
    have "r = []"
    proof (rule ccontr)
      assume "r \<noteq> []"
      then have "c_validation_status c' = UNSUPPORTED" unfolding c' Some by simp
      with sup show False by simp
    qed
    with Some show ?thesis unfolding c' by simp
  qed
  note e = conjunct1[OF e] conjunct2[OF e]
  have "c_validation_status (judge_claim d item c) = V_SUPPORTED" using sup by (simp add: e(1))
  then have "cv_supported item \<and> cv_conditions_complete item \<and> \<not> unrepresented_scope d c"
    by (simp add: judge_claim_def split: if_splits)
  moreover have "unrepresented_scope d c' = unrepresented_scope d c"
    using same_coreD[OF settle_claim_core[OF assms]] passages_core[of c' c d] by (simp add: unrepresented_scope_def)
  moreover have "legal_evidence_gap c' d st = Inr gap" using gap by (simp only: e(1))
  ultimately show "cv_supported item \<and> cv_conditions_complete item
      \<and> \<not> unrepresented_scope d c' \<and> legal_evidence_gap c' d st \<in> {Inr None, Inr (Some [])}"
    using e(2) by auto
qed

text \<open>What is known of a claim once a verdict on it was taken from an answer in \<open>As\<close>.\<close>

definition verdict_ok :: "document \<Rightarrow> research_state \<Rightarrow> claim_validation list set \<Rightarrow> nat \<Rightarrow> claim \<Rightarrow> bool" where
  "verdict_ok d st As i c \<longleftrightarrow> c_validation_status c \<in> {V_SUPPORTED, UNSUPPORTED}
     \<and> (c_validation_status c = V_SUPPORTED \<longrightarrow> (\<exists>items\<in>As. affirms i items) \<and> \<not> unrepresented_scope d c
          \<and> legal_evidence_gap c d st \<in> {Inr None, Inr (Some [])})"

definition validating ::
  "document \<Rightarrow> research_state \<Rightarrow> claim_validation list set \<Rightarrow> claim list \<Rightarrow> claim list \<times> nat list \<Rightarrow> bool" where
  "validating d st As cs0 s \<longleftrightarrow> length (fst s) = length cs0 \<and> distinct (snd s) \<and> set (snd s) \<subseteq> {..<length cs0}
     \<and> (\<forall>i<length cs0. same_core (cs0 ! i) (fst s ! i) \<and> (i \<notin> set (snd s) \<longrightarrow> verdict_ok d st As i (fst s ! i)))"

lemma candidate_key_inj [simp]: "candidate_key i = candidate_key j \<longleftrightarrow> i = j"
  by (simp add: candidate_key_def)

lemma apply_verdicts_ok:
  assumes "apply_verdicts rfc d st all items s = Inr s'" and "all \<in> As" and "validating d st As cs0 s"
    and "set items \<subseteq> set all"
  shows "validating d st As cs0 s'"
  using assms
proof (induction rfc d st all items s rule: apply_verdicts.induct)
  case (2 rfc d st all item items claims pending)
  show ?case
  proof (cases "find (\<lambda>i. candidate_key i = cv_claim_id item) pending")
    case None
    then show ?thesis using 2 by simp
  next
    case (Some i)
    then have i: "i \<in> set pending" "candidate_key i = cv_claim_id item" by (auto simp: find_Some_iff)
    show ?thesis
    proof (cases "length (filter (\<lambda>v. cv_claim_id v = cv_claim_id item) all) = 1")
      case False
      then show ?thesis using 2(1,4-7) Some by (simp add: 2)
    next
      case True
      have "item \<in> set (filter (\<lambda>v. cv_claim_id v = cv_claim_id item) all)" using 2(7) by simp
      moreover obtain y where "filter (\<lambda>v. cv_claim_id v = cv_claim_id item) all = [y]"
        using True by (auto simp: length_Suc_conv)
      ultimately have single: "filter (\<lambda>v. cv_claim_id v = cv_claim_id item) all = [item]" by simp
      obtain c where c: "settle_claim rfc d st item (claims ! i) = Inr c"
        and rest: "apply_verdicts rfc d st all items (claims[i := c], remove1 i pending) = Inr s'"
        using 2(4) Some True by (auto simp: rbind_Inr_iff)
      have "affirms i all" if "cv_supported item" "cv_conditions_complete item"
        using single i(2) that by (auto simp: affirms_def)
      then have "verdict_ok d st As i c"
        using settle_claim_verdict[OF c] 2(5) by (auto simp: verdict_ok_def)
      moreover have "same_core (cs0 ! i) c"
        using settle_claim_core[OF c] 2(6) i by (auto simp: validating_def same_core_def)
      ultimately have "validating d st As cs0 (claims[i := c], remove1 i pending)"
        using 2(6) i by (auto simp: validating_def nth_list_update set_remove1_eq)
      then show ?thesis using 2(3)[OF Some _ , of c] True rest 2(5,7) by simp
    qed
  qed
qed simp

lemma ask_verdicts_ok:
  assumes "ask_verdicts predict rfc d st k n s w = (Inr s', w')" and "validating d st As cs0 s"
    and "\<And>inputs w items w'. predict inputs k w = (Inr items, w') \<Longrightarrow> items \<in> As"
  shows "validating d st As cs0 s'"
  using assms
proof (induction predict rfc d st k n s w rule: ask_verdicts.induct)
  case (2 predict rfc d st k n claims pending w)
  show ?case
  proof (cases "pending = []")
    case True
    then show ?thesis using 2(3,4) by simp
  next
    case False
    obtain r w1 where r: "predict (validation_inputs d st claims pending) k w = (r, w1)" by fastforce
    show ?thesis
    proof (cases r)
      case (Inl x)
      then show ?thesis using 2(1,3-5) False r by (cases x) auto
    next
      case (Inr items)
      then obtain s1 where s1: "apply_verdicts rfc d st items items (claims, pending) = Inr s1"
        and rest: "ask_verdicts predict rfc d st k n s1 w1 = (Inr s', w')"
        using 2(3) False r by (auto split: sum.splits)
      have "validating d st As cs0 s1"
        using apply_verdicts_ok[OF s1 _ 2(4) subset_refl] 2(5)[of _ w items w1] r Inr by simp
      then show ?thesis using 2(2)[OF False r[symmetric] Inr s1] rest 2(5) by simp
    qed
  qed
qed simp

lemma nth_fold_update:
  "distinct is \<Longrightarrow> set is \<subseteq> {..<length cs} \<Longrightarrow>
     length (fold (\<lambda>i cs. cs[i := f (cs ! i)]) is cs) = length cs
     \<and> (\<forall>j<length cs. fold (\<lambda>i cs. cs[i := f (cs ! i)]) is cs ! j = (if j \<in> set is then f (cs ! j) else cs ! j))"
  by (induction "is" arbitrary: cs) (auto simp: nth_list_update)

lemma legal_gap_nonempty: "legal_evidence_gap c d st = Inr (Some r) \<Longrightarrow> r \<noteq> []"
  by (auto simp: legal_evidence_gap_def Let_def split: if_splits option.splits)

lemma validated:
  assumes "validate_claims predict rfc d st k claims w = (Inr claims', w')"
  shows "length claims' = length claims \<and> (\<forall>i<length claims. same_core (claims ! i) (claims' ! i)
    \<and> c_validation_status (claims' ! i) \<noteq> LEGACY
    \<and> (c_validation_status (claims' ! i) = V_SUPPORTED \<longrightarrow>
         (\<exists>inputs w1 items w2. predict inputs k w1 = (Inr items, w2) \<and> affirms i items)
         \<and> \<not> unrepresented_scope d (claims' ! i) \<and> legal_evidence_gap (claims' ! i) d st = Inr None))"
proof -
  let ?As = "{items. \<exists>inputs w w'. predict inputs k w = (Inr items, w')}"
  obtain cs pending where a: "ask_verdicts predict rfc d st k 2 (claims, [0..<length claims]) w = (Inr (cs, pending), w')"
    and claims': "claims' = fold (\<lambda>i cs. cs[i := unavailable (cs ! i)]) pending cs"
    using assms by (auto simp: validate_claims_def split: prod.splits sum.splits)
  have "validating d st ?As claims (claims, [0..<length claims])" by (simp add: validating_def atLeast0LessThan)
  then have v: "validating d st ?As claims (cs, pending)"
    by (rule ask_verdicts_ok[OF a]) blast
  have len: "length cs = length claims" and p: "distinct pending" "set pending \<subseteq> {..<length cs}"
    using v by (auto simp: validating_def)
  note u = nth_fold_update[OF p, of unavailable, folded claims']
  have main: "same_core (claims ! i) (claims' ! i) \<and> c_validation_status (claims' ! i) \<noteq> LEGACY
      \<and> (c_validation_status (claims' ! i) = V_SUPPORTED \<longrightarrow> (\<exists>items\<in>?As. affirms i items)
         \<and> \<not> unrepresented_scope d (claims' ! i) \<and> legal_evidence_gap (claims' ! i) d st = Inr None)"
    if i: "i < length claims" for i
  proof (cases "i \<in> set pending")
    case True
    then have "claims' ! i = unavailable (cs ! i)" using u i len by simp
    moreover have "same_core (claims ! i) (cs ! i)" using v i by (simp add: validating_def)
    ultimately show ?thesis using same_core_unavailable by (simp add: unavailable_def)
  next
    case False
    then have e: "claims' ! i = cs ! i" using u i len by simp
    have "verdict_ok d st ?As i (cs ! i)" "same_core (claims ! i) (cs ! i)"
      using v i False by (simp_all add: validating_def)
    then show ?thesis unfolding e verdict_ok_def using legal_gap_nonempty by fastforce
  qed
  have "length claims' = length claims" using u len by simp
  then show ?thesis using main by blast
qed

text \<open>
  C25. Validation gives every extracted claim a verdict and leaves the claim itself alone. It is affirmative
  only if one answer of the model has exactly one verdict on this claim, which says it is supported
  and its conditions complete, if the page restricts no provision the claim states without conditions,
  and if a legal claim rests on a primary source that may carry it. Without an answer the claim is unavailable.
\<close>

theorem claims_validated:
  assumes "validate_claims predict rfc d st k claims w = (Inr claims', w')" and "i < length claims"
  shows "length claims' = length claims \<and> same_core (claims ! i) (claims' ! i)
    \<and> c_validation_status (claims' ! i) \<in> {V_SUPPORTED, UNSUPPORTED, UNAVAILABLE}
    \<and> (c_validation_status (claims' ! i) = V_SUPPORTED \<longrightarrow>
         (\<exists>inputs w1 items w2. predict inputs k w1 = (Inr items, w2) \<and> affirms i items)
         \<and> \<not> unrepresented_scope d (claims' ! i) \<and> legal_evidence_gap (claims' ! i) d st = Inr None)"
proof -
  have "c_validation_status (claims' ! i) \<noteq> LEGACY" using validated[OF assms(1)] assms(2) by blast
  then have "c_validation_status (claims' ! i) \<in> {V_SUPPORTED, UNSUPPORTED, UNAVAILABLE}"
    by (cases "c_validation_status (claims' ! i)") simp_all
  then show ?thesis using validated[OF assms(1)] assms(2) by blast
qed

end
