(* ===== verification/EvidenceProps.thy ===== *)
theory EvidenceProps
  imports EvidenceNodes ValidationProps NodeBase
begin

text \<open>
  Properties of the evidence nodes: a claim enters the ledger only with a quote its page contains, for a
  known sub-question and after validation; ids are numbered and nothing recorded is lost.
\<close>

section \<open>Admission of claims\<close>

definition admitted_claim :: "(int list \<Rightarrow> int list) \<Rightarrow> research_state \<Rightarrow> document \<Rightarrow> claim \<Rightarrow> bool" where
  "admitted_claim order st d c \<longleftrightarrow>
     (\<exists>quote text'. c_quote c = strip quote \<and> c_text c = strip text' \<and> qc_ok (verify_quote order quote (body_of d))
        \<and> \<not> looks_like_injection quote \<and> \<not> looks_like_injection text')
     \<and> c_doc_id c = d_id d \<and> c_origin_id c = d_origin_id d \<and> c_iteration c = rs_iteration st
     \<and> (\<exists>s\<in>set (rs_plan st). sq_id s = c_subq_id c \<and> (\<forall>f. c_facet_id c = Some f \<longrightarrow> f \<in> f_id ` set (sq_facets s)))"

lemma known_subquestions_plan:
  assumes "dget (known_subquestions st) i = Some s"
  shows "s \<in> set (rs_plan st) \<and> sq_id s = i"
proof -
  have "s \<in> set ss \<and> sq_id s = i \<or> dget d i = Some s"
    if "dget (fold (\<lambda>s. dput (sq_id s) s) ss d) i = Some s" for ss d
    using that
  proof (induction ss arbitrary: d)
    case (Cons a ss)
    from Cons.IH[of "dput (sq_id a) a d"] Cons.prems show ?case by (auto split: if_splits)
  qed simp
  from this[of "rs_plan st" "[]"] show ?thesis using assms by (simp add: known_subquestions_def)
qed

lemma admit_claim_ok:
  assumes "admit_claim order st d item x = Inr x'"
  shows "\<exists>cs. xn_accepted x' = xn_accepted x @ cs \<and> list_all (admitted_claim order st d) cs"
proof -
  have "admitted_claim order st d (new_claim st d item (verify_quote order (cl_quote item) (body_of d)) s i)"
    if "dget (known_subquestions st) i = Some s" "qc_ok (verify_quote order (cl_quote item) (body_of d))"
      "\<not> looks_like_injection (cl_quote item)" "\<not> looks_like_injection (cl_text item)" for i s
    unfolding admitted_claim_def using that known_subquestions_plan[OF that(1)]
    by (auto simp: new_claim_def list_ex_iff intro!: bexI[of _ s])
  then show ?thesis
    using assms by (auto simp: admit_claim_def rbind_Inr_iff Let_def dget_err_def split: if_splits option.splits list.splits)
qed

lemma admit_claims_ok:
  "admit_claims order st d items x = Inr x' \<Longrightarrow>
     \<exists>cs. xn_accepted x' = xn_accepted x @ cs \<and> list_all (admitted_claim order st d) cs"
proof (induction order st d items x rule: admit_claims.induct)
  case (2 order st d item items x)
  then obtain x1 where "admit_claim order st d item x = Inr x1" "admit_claims order st d items x1 = Inr x'"
    by (auto simp: rbind_Inr_iff)
  then show ?case using admit_claim_ok[of order st d item x x1] 2 by fastforce
qed simp

section \<open>One page\<close>

definition grounded_claim ::
  "(inputs, claim_validation list) predictor \<Rightarrow> (int list \<Rightarrow> int list) \<Rightarrow> mem_sink \<Rightarrow> research_state \<Rightarrow> document \<Rightarrow> claim \<Rightarrow> bool" where
  "grounded_claim validate order k st d c \<longleftrightarrow> admitted_claim order st d c
     \<and> c_validation_status c \<noteq> LEGACY
     \<and> (c_validation_status c = V_SUPPORTED \<longrightarrow>
          (\<exists>inputs w1 items w2 i. validate inputs k w1 = (Inr items, w2) \<and> affirms i items)
          \<and> \<not> unrepresented_scope d c \<and> legal_evidence_gap c d st = Inr None)"

text \<open>What the claims depend on in the state does not change while pages are read.\<close>

definition same_frame :: "research_state \<Rightarrow> research_state \<Rightarrow> bool" where
  "same_frame st st' \<longleftrightarrow> rs_plan st' = rs_plan st \<and> rs_iteration st' = rs_iteration st \<and> rs_analysis st' = rs_analysis st
     \<and> rs_as_of st' = rs_as_of st"

lemma grounded_frame:
  assumes "same_frame st st'"
  shows "grounded_claim validate order k st' d c = grounded_claim validate order k st d c"
proof -
  have a: "rs_analysis st' = rs_analysis st" "rs_as_of st' = rs_as_of st" using assms by (simp_all add: same_frame_def)
  have "legal_evidence_gap c d st' = legal_evidence_gap c d st" unfolding legal_evidence_gap_def a ..
  then show ?thesis using assms by (simp add: grounded_claim_def admitted_claim_def same_frame_def)
qed

lemma admitted_core: "same_core c c' \<Longrightarrow> admitted_claim order st d c' = admitted_claim order st d c"
  using same_coreD[of c c'] by (simp add: admitted_claim_def)

lemma validated_grounded:
  assumes "validate_claims validate rfc d st k cs w = (Inr cs', w')" and "list_all (admitted_claim order st d) cs"
  shows "list_all (grounded_claim validate order k st d) cs'"
  unfolding list_all_length
proof (intro allI impI)
  fix i assume "i < length cs'"
  moreover note v = validated[OF assms(1)]
  ultimately have i: "i < length cs" by simp
  then have "admitted_claim order st d (cs ! i)" using assms(2) by (simp add: list_all_length)
  then show "grounded_claim validate order k st d (cs' ! i)"
    using v i admitted_core unfolding grounded_claim_def by blast
qed

text \<open>The invariant of the loop over the pages.\<close>

definition reading ::
  "(inputs, claim_validation list) predictor \<Rightarrow> (int list \<Rightarrow> int list) \<Rightarrow> mem_sink \<Rightarrow> research_state \<Rightarrow> document set
     \<Rightarrow> extraction_state \<Rightarrow> bool" where
  "reading validate order k st D s \<longleftrightarrow> same_frame st (xt_state s) \<and> rs_claims (xt_state s) = rs_claims st
     \<and> dkeys (rs_documents (xt_state s)) = dkeys (rs_documents st)
     \<and> (\<forall>i cs c. dget (xt_found s) i = Some cs \<longrightarrow> c \<in> set cs \<longrightarrow> (\<exists>d\<in>D. d_id d = i \<and> grounded_claim validate order k st d c))"

lemma extract_document_reading:
  assumes "extract_document predict validate order rfc today k d s w = (Inr s', w')"
    and "reading validate order k st D s" and "d \<in> D"
  shows "reading validate order k st D s'"
proof -
  obtain r w1 where r: "predict (extraction_inputs (xt_state s) today d) k w = (r, w1)" by fastforce
  have f: "same_frame st (xt_state s)" using assms(2) by (simp add: reading_def)
  show ?thesis
  proof (cases r)
    case (Inl x)
    then have s': "s' = s\<lparr>xt_found := dput (d_id d) [] (xt_found s), xt_stats := (xt_stats s)\<lparr>xs_failed := xs_failed (xt_stats s) + 1\<rparr>\<rparr>"
      using assms(1) r by (cases x) (simp_all add: extract_document_def Let_def)
    show ?thesis using assms(2) unfolding s' by (fastforce simp: reading_def split: if_splits)
  next
    case (Inr items)
    then obtain x claims w2 where x: "admit_claims order (xt_state s) d items \<lparr>xn_accepted = [], xn_rejected = 0, xn_injected = 0\<rparr> = Inr x"
      and v: "validate_claims validate rfc d (xt_state s) k (xn_accepted x) (report_extraction k d x w1) = (Inr claims, w2)"
      and s': "s' = s\<lparr>xt_found := dput (d_id d) claims (xt_found s),
             xt_state := update_document (d_id d) (\<lambda>y. y\<lparr>d_extracted := True\<rparr>) (xt_state s),
             xt_stats := (xt_stats s)\<lparr>xs_rejected := xs_rejected (xt_stats s) + xn_rejected x,
                               xs_injection := xs_injection (xt_stats s) + xn_injected x\<rparr>\<rparr>"
      using assms(1) r by (auto simp: extract_document_def Let_def split: sum.splits prod.splits)
    have "list_all (admitted_claim order (xt_state s) d) (xn_accepted x)" using admit_claims_ok[OF x] by auto
    then have "list_all (grounded_claim validate order k (xt_state s) d) claims" by (rule validated_grounded[OF v])
    then have "\<forall>c\<in>set claims. grounded_claim validate order k st d c"
      using grounded_frame[OF f] by (simp add: list_all_iff)
    then show ?thesis
      using assms(2,3) unfolding s' by (auto simp: reading_def same_frame_def update_document_def)
  qed
qed

section \<open>The ledger of claims\<close>

definition claims_numbered :: "research_state \<Rightarrow> bool" where
  "claims_numbered st = numbered (lit ''c'') c_id (rs_claims st)"

lemma bump_claims [simp]: "rs_claims (bump i n st) = rs_claims st" "rs_plan (bump i n st) = rs_plan st"
  "rs_documents (bump i n st) = rs_documents st"
  by (simp_all add: bump_def)

lemma store_claim_claims:
  assumes "claims_numbered st"
  shows "claims_numbered (store_claim c st)"
    and "rs_claims (store_claim c st) = rs_claims st @ [(next_id (lit ''c'') (length (rs_claims st)),
           c\<lparr>c_id := next_id (lit ''c'') (length (rs_claims st))\<rparr>)]"
proof -
  let ?i = "next_id (lit ''c'') (length (rs_claims st))"
  have e: "rs_claims (store_claim c st) = dput ?i (c\<lparr>c_id := ?i\<rparr>) (rs_claims st)"
    by (simp add: store_claim_def Let_def)
  have n: "numbered (lit ''c'') c_id (rs_claims st)" using assms by (simp only: claims_numbered_def)
  have i: "c_id (c\<lparr>c_id := ?i\<rparr>) = ?i" by simp
  show "claims_numbered (store_claim c st)"
    unfolding claims_numbered_def e by (rule numbered_dput(1)[OF n i])
  show "rs_claims (store_claim c st) = rs_claims st @ [(?i, c\<lparr>c_id := ?i\<rparr>)]"
    unfolding e by (rule numbered_dput(3)[OF n i])
qed

lemma store_claims_spec:
  "claims_numbered st \<Longrightarrow> claims_numbered (fold store_claim cs st)
     \<and> (\<exists>new. rs_claims (fold store_claim cs st) = rs_claims st @ new \<and> map snd new = map2 (\<lambda>c i. c\<lparr>c_id := i\<rparr>) cs (map fst new))"
proof (induction cs arbitrary: st)
  case (Cons c cs)
  let ?st = "store_claim c st"
  note s = store_claim_claims[OF Cons.prems, of c]
  let ?i = "next_id (lit ''c'') (length (rs_claims st))"
  obtain new where new: "rs_claims (fold store_claim cs ?st) = rs_claims ?st @ new"
    "map snd new = map2 (\<lambda>c i. c\<lparr>c_id := i\<rparr>) cs (map fst new)" "claims_numbered (fold store_claim cs ?st)"
    using Cons.IH[OF s(1)] by blast
  show ?case
    by (intro conjI exI[of _ "(?i, c\<lparr>c_id := ?i\<rparr>) # new"]) (use new s(2) in simp_all)
qed auto

lemma grounded_id: "grounded_claim validate order k st d (c\<lparr>c_id := i\<rparr>) = grounded_claim validate order k st d c"
proof -
  have "legal_evidence_gap (c\<lparr>c_id := i\<rparr>) d st = legal_evidence_gap c d st" by (simp add: legal_evidence_gap_def Let_def cong: if_cong option.case_cong)
  moreover have "unrepresented_scope d (c\<lparr>c_id := i\<rparr>) = unrepresented_scope d c"
    using passages_core[of "c\<lparr>c_id := i\<rparr>" c d] by (simp add: unrepresented_scope_def)
  ultimately show ?thesis by (simp add: grounded_claim_def admitted_claim_def)
qed

lemma extraction_grounded:
  assumes "extract_claims predict validate order rfc schedule today k st w = (Inr st', w')"
    and "set (schedule (readable st)) \<subseteq> set (readable st)" and "claims_numbered st"
  shows "claims_numbered st' \<and> (\<exists>new. rs_claims st' = rs_claims st @ new
      \<and> (\<forall>(i, c)\<in>set new. \<exists>d\<in>set (readable st). grounded_claim validate order k st d c))
    \<and> rs_plan st' = rs_plan st \<and> dkeys (rs_documents st') = dkeys (rs_documents st)"
proof (cases "readable st = []")
  case True
  then show ?thesis using assms by (simp add: extract_claims_def)
next
  case False
  let ?s0 = "\<lparr>xt_found = [], xt_state = st, xt_stats = \<lparr>xs_claims = 0, xs_rejected = 0, xs_failed = 0, xs_injection = 0\<rparr>\<rparr>"
  obtain s w1 where loop: "rfold (extract_document predict validate order rfc today k) (schedule (readable st)) ?s0 w = (Inr s, w1)"
    and st': "rs_claims st' = rs_claims (fold store_claim (concat (map (\<lambda>d. dget_or (xt_found s) (d_id d) []) (readable st))) (xt_state s))"
      "rs_plan st' = rs_plan (fold store_claim (concat (map (\<lambda>d. dget_or (xt_found s) (d_id d) []) (readable st))) (xt_state s))"
      "rs_documents st' = rs_documents (fold store_claim (concat (map (\<lambda>d. dget_or (xt_found s) (d_id d) []) (readable st))) (xt_state s))"
    using assms(1) False by (auto simp: extract_claims_def Let_def split: prod.splits sum.splits)
  let ?cs = "concat (map (\<lambda>d. dget_or (xt_found s) (d_id d) []) (readable st))"
  have r: "reading validate order k st (set (readable st)) s"
  proof (rule rfold_invariant[OF loop])
    show "reading validate order k st (set (readable st)) ?s0" by (simp add: reading_def same_frame_def)
  qed (use assms(2) extract_document_reading in blast)
  have g: "\<exists>d\<in>set (readable st). grounded_claim validate order k st d c" if "c \<in> set ?cs" for c
  proof -
    from that have "\<exists>d0\<in>set (readable st). c \<in> set (dget_or (xt_found s) (d_id d0) [])" by simp
    then obtain d0 :: document where "c \<in> set (dget_or (xt_found s) (d_id d0) [])" by blast
    then obtain cs where "dget (xt_found s) (d_id d0) = Some cs" "c \<in> set cs"
      by (cases "dget (xt_found s) (d_id d0)") (simp_all add: dget_or_def)
    then show ?thesis using r unfolding reading_def by blast
  qed
  have "claims_numbered (xt_state s)" using r assms(3) by (simp add: reading_def claims_numbered_def)
  from store_claims_spec[OF this, of ?cs] obtain new where
    new: "claims_numbered (fold store_claim ?cs (xt_state s))" "rs_claims (fold store_claim ?cs (xt_state s)) = rs_claims (xt_state s) @ new"
      "map snd new = map2 (\<lambda>c i. c\<lparr>c_id := i\<rparr>) ?cs (map fst new)" by blast
  have "\<exists>d\<in>set (readable st). grounded_claim validate order k st d c" if "(i, c) \<in> set new" for i c
  proof -
    have "c \<in> set (map2 (\<lambda>c i. c\<lparr>c_id := i\<rparr>) ?cs (map fst new))" using that new(3) by (metis image_eqI list.set_map snd_conv)
    then obtain c0 j where "c0 \<in> set ?cs" "c = c0\<lparr>c_id := j\<rparr>" by (auto dest: set_zip_leftD)
    then show ?thesis using g grounded_id by metis
  qed
  moreover have "rs_plan (fold store_claim cs x) = rs_plan x" "rs_documents (fold store_claim cs x) = rs_documents x" for cs x
    by (induction cs arbitrary: x) (simp_all add: store_claim_def Let_def)
  ultimately show ?thesis
    using r new(1,2) st' by (auto simp: reading_def claims_numbered_def same_frame_def)
qed

text \<open>
  C24. A claim enters the ledger only on evidence. Whatever the models answer and in whichever order the
  pages are read, every new claim has a quote that was found on the page it names and that does not
  address the model, belongs to a sub-question of the plan and to no facet but one of its own, carries
  the origin of its page, and has been through validation, with an affirmative status only on an
  answer that affirms it. Claims are numbered without gap, and none recorded before is changed.
\<close>

theorem claims_enter_on_evidence:
  assumes "extract_claims predict validate order rfc schedule today k st w = (Inr st', w')"
    and "set (schedule (readable st)) \<subseteq> set (readable st)" and "claims_numbered st"
  shows "claims_numbered st' \<and> (\<exists>new. rs_claims st' = rs_claims st @ new
      \<and> (\<forall>(i, c)\<in>set new. \<exists>d\<in>set (readable st). grounded_claim validate order k st d c))"
  using extraction_grounded[OF assms] by blast

end
