(* ===== verification/ContradictionProps.thy ===== *)
theory ContradictionProps
  imports ContradictionNode
begin

text \<open>
  Properties of the detection of contradictions: every disagreement the rules see is judged exactly
  once, what the judge decides is limited by the ledger, and nothing but the status of the two
  findings and the list of contradictions changes.
\<close>

section \<open>Candidates do not depend on the status of a finding\<close>

definition unstatus :: "cluster \<Rightarrow> cluster" where
  "unstatus k = k\<lparr>k_status := SINGLE_SOURCE\<rparr>"

lemma unstatus_simps [simp]:
  "k_id (unstatus k) = k_id k" "k_entity (unstatus k) = k_entity k" "k_as_of (unstatus k) = k_as_of k"
  "k_attribute (unstatus k) = k_attribute k" "k_value (unstatus k) = k_value k" "k_unit (unstatus k) = k_unit k"
  "unstatus (k\<lparr>k_status := s\<rparr>) = unstatus k" "unstatus (unstatus k) = unstatus k"
  by (simp_all add: unstatus_def)

lemma insort_key_map: "(\<And>x. g (f x) = g x) \<Longrightarrow> insort_key g (f x) (map f xs) = map f (insort_key g x xs)"
  by (induction xs) auto

lemma sort_key_map: "(\<And>x. g (f x) = g x) \<Longrightarrow> sort_key g (map f xs) = map f (sort_key g xs)"
  by (induction xs) (auto simp: insort_key_map)

lemma pairs_of_map: "pairs_of (map f xs) = map (map_prod f f) (pairs_of xs)"
  by (induction xs) auto

lemma rfilter_map: "rfilter P (map f xs) = rbind (rfilter (P \<circ> f) xs) (\<lambda>ys. Inr (map f ys))"
proof (induction xs)
  case (Cons x xs)
  then show ?case unfolding comp_def by (cases "P (f x)"; cases "rfilter (\<lambda>x. P (f x)) xs") auto
qed simp

lemma is_candidate_unstatus: "is_candidate J s l (map_prod unstatus unstatus p) = is_candidate J s l p"
  by (cases p) (simp add: is_candidate_def same_entity_def values_differ_def cong: if_cong)

lemma candidates_unstatus:
  "contradiction_candidates C s l J =
     rbind (rfilter (is_candidate J s l) (pairs_of (sort_key k_id (map unstatus (dvals C)))))
       (\<lambda>ps. Inr (map (\<lambda>(a, b). (k_id a, k_id b)) ps))"
proof -
  have "is_candidate J s l \<circ> map_prod unstatus unstatus = is_candidate J s l"
    using is_candidate_unstatus by auto
  then show ?thesis
    unfolding sort_key_map[of k_id unstatus, OF unstatus_simps(1)] pairs_of_map rfilter_map contradiction_candidates_def
    by (cases "rfilter (is_candidate J s l) (pairs_of (sort_key k_id (dvals C)))") (auto simp: case_prod_unfold)
qed

lemma candidates_cong:
  "map unstatus (dvals C) = map unstatus (dvals C') \<Longrightarrow>
     contradiction_candidates C s l J = contradiction_candidates C' s l J"
  by (simp add: candidates_unstatus)

lemma rfilter_Inr: "rfilter P xs = Inr ys \<Longrightarrow> x \<in> set xs \<Longrightarrow> \<exists>b. P x = Inr b"
  by (induction xs arbitrary: ys) (auto simp: rbind_Inr_iff)

lemma rfilter_none: "(\<And>x. x \<in> set xs \<Longrightarrow> P x = Inr False) \<Longrightarrow> rfilter P xs = Inr []"
  by (induction xs) auto

lemma candidates_judged:
  assumes "contradiction_candidates C s l J = Inr ps"
    and "set J \<subseteq> set J'" and "\<And>a b. (a, b) \<in> set ps \<Longrightarrow> {a, b} \<in> set J'"
  shows "contradiction_candidates C s l J' = Inr []"
proof -
  let ?xs = "pairs_of (sort_key k_id (dvals C))"
  obtain ys where ys: "rfilter (is_candidate J s l) ?xs = Inr ys" "ps = map (\<lambda>(a, b). (k_id a, k_id b)) ys"
    using assms(1) by (auto simp: contradiction_candidates_def rbind_Inr_iff)
  have "is_candidate J' s l p = Inr False" if p: "p \<in> set ?xs" for p
  proof -
    obtain a b where ab: "p = (a, b)" by (cases p)
    obtain t where t: "is_candidate J s l (a, b) = Inr t" using rfilter_Inr[OF ys(1) p] ab by auto
    show ?thesis
    proof (cases "{k_id a, k_id b} \<in> set J'")
      case True
      then show ?thesis by (simp add: ab is_candidate_def)
    next
      case False
      then have "(a, b) \<notin> set ys" using assms(3)[of "k_id a" "k_id b"] ys(2) by force
      then have "t = False" using rfilter_set[OF ys(1)] p t ab by auto
      moreover have "is_candidate J' s l (a, b) = is_candidate J s l (a, b)"
        using False assms(2) by (auto simp: is_candidate_def)
      ultimately show ?thesis using t ab by simp
    qed
  qed
  then show ?thesis by (simp add: contradiction_candidates_def rfilter_none)
qed

section \<open>The loop over the pairs\<close>

text \<open>What one pass leaves as it is: everything but statuses and the list of contradictions.\<close>

definition only_contested :: "research_state \<Rightarrow> research_state \<Rightarrow> bool" where
  "only_contested st st' \<longleftrightarrow>
     (\<exists>clusters xs. st' = st\<lparr>rs_clusters := clusters, rs_contradictions := xs\<rparr>
        \<and> dkeys clusters = dkeys (rs_clusters st) \<and> map unstatus (dvals clusters) = map unstatus (dvals (rs_clusters st)))"

lemma only_contestedI:
  "dkeys C = dkeys (rs_clusters st) \<Longrightarrow> map unstatus (dvals C) = map unstatus (dvals (rs_clusters st)) \<Longrightarrow>
     only_contested st (st\<lparr>rs_clusters := C, rs_contradictions := xs\<rparr>)"
  unfolding only_contested_def by blast

lemma only_contested_refl [simp]: "only_contested st st"
  using only_contestedI[OF refl refl, of st "rs_contradictions st"] by simp

lemma only_contested_trans: "only_contested a b \<Longrightarrow> only_contested b c \<Longrightarrow> only_contested a c"
  unfolding only_contested_def by (clarsimp, blast)

lemma contest_unstatus [simp]:
  "dkeys (contest i C) = dkeys C" "map (unstatus \<circ> snd) (contest i C) = map (unstatus \<circ> snd) C"
  by (induction C) (auto simp: contest_def dmap_at_def)

lemma only_contested_dget:
  assumes "only_contested st st'" and "dget (rs_clusters st') i = Some c'"
  shows "\<exists>c. dget (rs_clusters st) i = Some c \<and> unstatus c' = unstatus c"
proof -
  have zip: "dmap_vals f C = zip (dkeys C) (map f (dvals C))" for f and C :: "(str, cluster) dict"
    by (induction C) (auto simp: dmap_vals_def)
  have "map_option unstatus (dget C i) = map_option unstatus (dget D i)"
    if "dkeys C = dkeys D" "map unstatus (dvals C) = map unstatus (dvals D)" for C D :: "(str, cluster) dict"
    unfolding dget_dmap_vals[symmetric] zip that ..
  moreover have "dkeys (rs_clusters st') = dkeys (rs_clusters st)"
    "map unstatus (dvals (rs_clusters st')) = map unstatus (dvals (rs_clusters st))"
    using assms(1) by (auto simp: only_contested_def)
  ultimately have "map_option unstatus (dget (rs_clusters st') i) = map_option unstatus (dget (rs_clusters st) i)" .
  with assms(2) show ?thesis by (cases "dget (rs_clusters st) i") auto
qed

lemma only_contested_simps:
  assumes "only_contested st st'"
  shows "rs_documents st' = rs_documents st" "rs_iteration st' = rs_iteration st" "rs_language st' = rs_language st"
    "rs_question st' = rs_question st"
  using assms by (auto simp: only_contested_def)

text \<open>What is recorded about a pair, as a function of the ledger the node found.\<close>

definition pair_record ::
  "research_state \<Rightarrow> (str, contradiction_judgement) dict \<Rightarrow> nat \<Rightarrow> nat \<times> str \<times> str \<Rightarrow> contradiction" where
  "pair_record st vs n p = (case p of (index, a, b) \<Rightarrow>
     (judged_pair st (dget vs (lit ''p'' @ dec index)) (the (dget (rs_clusters st) a)) (the (dget (rs_clusters st) b)) (a, b))
       \<lparr>x_id := next_id (lit ''x'') n\<rparr>)"

lemma backs_preference_unstatus:
  assumes "rs_documents st' = rs_documents st" and "unstatus c' = unstatus c" and "unstatus d' = unstatus d"
  shows "backs_preference st' c' d' = backs_preference st c d"
proof -
  have "k_has_primary c' = k_has_primary c" "k_best_source_score c' = k_best_source_score c" "k_doc_ids c' = k_doc_ids c"
    "k_best_source_score d' = k_best_source_score d" and d: "k_doc_ids d' = k_doc_ids d"
    using assms(2,3) by (cases c; cases c'; cases d; cases d'; simp add: unstatus_def)+
  moreover from this have "latest_source_date st' c' = latest_source_date st c" "latest_source_date st' d' = latest_source_date st d"
    using assms(1) d by (simp_all add: latest_source_date_def source_dates_def)
  ultimately show ?thesis by (simp add: backs_preference_def cong: if_cong option.case_cong)
qed

lemma judged_pair_unstatus:
  assumes "only_contested st st'" and "unstatus l' = unstatus l" and "unstatus r' = unstatus r"
  shows "judged_pair st' v l' r' ids = (judged_pair st v l r ids)\<lparr>x_id := next_id (lit ''x'') (length (rs_contradictions st'))\<rparr>"
proof -
  have f: "k_id l' = k_id l" "k_id r' = k_id r" "k_statement l' = k_statement l" "k_statement r' = k_statement r"
    "k_subq_id l' = k_subq_id l"
    using assms(2,3) by (cases l; cases l'; cases r; cases r'; simp add: unstatus_def)+
  note d = only_contested_simps[OF assms(1)]
  note b = backs_preference_unstatus[OF d(1) assms(2,3)] backs_preference_unstatus[OF d(1) assms(3,2)]
  show ?thesis
  proof (cases v)
    case None
    then show ?thesis by (simp add: judged_pair_def f d)
  next
    case (Some w)
    then show ?thesis by (cases "cj_preferred w") (simp_all add: judged_pair_def Let_def f d b)
  qed
qed

definition contested_by :: "contradiction list \<Rightarrow> str \<Rightarrow> bool" where
  "contested_by xs i = (\<exists>x\<in>set xs. x_kind x = TRUE_CONFLICT \<and> i \<in> set (x_cluster_ids x))"

lemma record_pair_spec:
  assumes "only_contested st0 st" and "record_pair k vs p (st, w) = Inr (st', w')"
  shows "only_contested st0 st'
    \<and> rs_contradictions st' = rs_contradictions st @ [pair_record st0 vs (length (rs_contradictions st)) p]
    \<and> (\<forall>i. dget (rs_clusters st') i = map_option
         (\<lambda>c. if contested_by [pair_record st0 vs (length (rs_contradictions st)) p] i then c\<lparr>k_status := CONTESTED\<rparr> else c)
         (dget (rs_clusters st) i))"
proof -
  obtain n a b where p: "p = (n, a, b)" by (cases p)
  obtain l r where l: "dget (rs_clusters st) a = Some l" and r: "dget (rs_clusters st) b = Some r"
    using assms(2) by (auto simp: record_pair_def p rbind_Inr_iff dget_err_def split: option.splits)
  let ?x = "judged_pair st (dget vs (lit ''p'' @ dec n)) l r (a, b)"
  let ?C = "if x_kind ?x = TRUE_CONFLICT then contest b (contest a (rs_clusters st)) else rs_clusters st"
  have st': "st' = st\<lparr>rs_clusters := ?C, rs_contradictions := rs_contradictions st @ [?x]\<rparr>"
    using assms(2) l r by (auto simp: record_pair_def p dget_err_def Let_def)
  obtain l0 r0 where "dget (rs_clusters st0) a = Some l0" "unstatus l = unstatus l0"
    "dget (rs_clusters st0) b = Some r0" "unstatus r = unstatus r0"
    using only_contested_dget[OF assms(1)] l r by metis
  then have x: "?x = pair_record st0 vs (length (rs_contradictions st)) p"
    using judged_pair_unstatus[OF assms(1)] by (simp add: pair_record_def p)
  have "only_contested st (st\<lparr>rs_clusters := ?C, rs_contradictions := rs_contradictions st @ [?x]\<rparr>)"
    by (rule only_contestedI) simp_all
  then have "only_contested st0 st'" using only_contested_trans[OF assms(1)] st' by simp
  moreover have "x_cluster_ids ?x = [a, b]" by (simp add: judged_pair_def Let_def)
  then have "dget ?C i = map_option (\<lambda>c. if contested_by [?x] i then c\<lparr>k_status := CONTESTED\<rparr> else c) (dget (rs_clusters st) i)" for i
    by (cases "dget (rs_clusters st) i") (auto simp: contested_by_def contest_def)
  ultimately show ?thesis using st' x by simp
qed

lemma record_pairs_spec:
  assumes "only_contested st0 st" and "record_pairs k vs ps (st, w) = Inr (st', w')"
  shows "\<exists>xs. rs_contradictions st' = rs_contradictions st @ xs \<and> only_contested st0 st'
    \<and> map x_cluster_ids xs = map (\<lambda>(n, a, b). [a, b]) ps
    \<and> map x_id xs = map (next_id (lit ''x'')) [length (rs_contradictions st)..<length (rs_contradictions st) + length xs]
    \<and> (\<forall>x\<in>set xs. \<exists>n p. p \<in> set ps \<and> x = pair_record st0 vs n p)
    \<and> (\<forall>i. dget (rs_clusters st') i = map_option (\<lambda>c. if contested_by xs i then c\<lparr>k_status := CONTESTED\<rparr> else c)
         (dget (rs_clusters st) i))"
  using assms
proof (induction ps arbitrary: st w)
  case Nil
  then show ?case by (auto simp: contested_by_def option.map_ident)
next
  case (Cons p ps)
  obtain st1 w1 where 1: "record_pair k vs p (st, w) = Inr (st1, w1)" "record_pairs k vs ps (st1, w1) = Inr (st', w')"
    using Cons.prems(2) by (auto simp: rbind_Inr_iff)
  let ?x = "pair_record st0 vs (length (rs_contradictions st)) p"
  note s = record_pair_spec[OF Cons.prems(1) 1(1)]
  obtain xs where xs: "rs_contradictions st' = rs_contradictions st1 @ xs" "only_contested st0 st'"
    "map x_cluster_ids xs = map (\<lambda>(n, a, b). [a, b]) ps"
    "map x_id xs = map (next_id (lit ''x'')) [length (rs_contradictions st1)..<length (rs_contradictions st1) + length xs]"
    "\<forall>x\<in>set xs. \<exists>n p. p \<in> set ps \<and> x = pair_record st0 vs n p"
    "\<forall>i. dget (rs_clusters st') i = map_option (\<lambda>c. if contested_by xs i then c\<lparr>k_status := CONTESTED\<rparr> else c)
         (dget (rs_clusters st1) i)"
    using Cons.IH[OF _ 1(2)] s by blast
  have ids: "x_cluster_ids ?x = (case p of (n, a, b) \<Rightarrow> [a, b])"
    by (cases p) (simp add: pair_record_def judged_pair_def Let_def)
  have c: "contested_by (?x # xs) i \<longleftrightarrow> contested_by [?x] i \<or> contested_by xs i" for i
    by (simp add: contested_by_def)
  have st: "dget (rs_clusters st') i
      = map_option (\<lambda>c. if contested_by (?x # xs) i then c\<lparr>k_status := CONTESTED\<rparr> else c) (dget (rs_clusters st) i)" for i
    unfolding c using xs(6) s by (cases "dget (rs_clusters st) i") auto
  show ?case
  proof (intro exI[of _ "?x # xs"] conjI)
    show "map x_cluster_ids (?x # xs) = map (\<lambda>(n, a, b). [a, b]) (p # ps)" using ids xs(3) by simp
    show "\<forall>x\<in>set (?x # xs). \<exists>n q. q \<in> set (p # ps) \<and> x = pair_record st0 vs n q"
      using xs(5) by (metis list.set_intros set_ConsD)
    show "map x_id (?x # xs) = map (next_id (lit ''x''))
        [length (rs_contradictions st)..<length (rs_contradictions st) + length (?x # xs)]"
    proof -
      have "length (rs_contradictions st1) = Suc (length (rs_contradictions st))" using s by simp
      moreover have "x_id ?x = next_id (lit ''x'') (length (rs_contradictions st))"
        by (simp add: pair_record_def case_prod_unfold)
      ultimately show ?thesis
        using xs(4) upt_conv_Cons[of "length (rs_contradictions st)" "length (rs_contradictions st) + length (?x # xs)"]
        by (simp del: upt_Suc)
    qed
  qed (use st xs s in auto)
qed

lemma record_pairs_total:
  assumes "\<forall>(n, a, b)\<in>set ps. a \<in> set (dkeys (rs_clusters st)) \<and> b \<in> set (dkeys (rs_clusters st))"
  shows "\<exists>r. record_pairs k vs ps (st, w) = Inr r"
  using assms
proof (induction ps arbitrary: st w)
  case (Cons p ps)
  obtain n a b where p: "p = (n, a, b)" by (cases p)
  obtain l r where "dget (rs_clusters st) a = Some l" "dget (rs_clusters st) b = Some r"
    using Cons.prems p by (cases "dget (rs_clusters st) a"; cases "dget (rs_clusters st) b") (auto simp: map_of_eq_None_iff)
  then obtain st1 w1 where 1: "record_pair k vs p (st, w) = Inr (st1, w1)"
    by (auto simp: record_pair_def p dget_err_def Let_def)
  have "dkeys (rs_clusters st1) = dkeys (rs_clusters st)"
    using record_pair_spec[OF only_contested_refl 1] by (auto simp: only_contested_def)
  then show ?case using Cons.IH[of st1 w1] Cons.prems 1 by (auto simp: case_prod_unfold)
qed simp

section \<open>The node\<close>

definition keyed_ledger :: "(str, cluster) dict \<Rightarrow> bool" where
  "keyed_ledger clusters = (distinct (dkeys clusters) \<and> (\<forall>(i, k)\<in>set clusters. k_id k = i))"

lemma candidates_in_ledger:
  assumes "contradiction_candidates C s l J = Inr ps" and "(a, b) \<in> set ps" and "keyed_ledger C"
  shows "\<exists>left right. dget C a = Some left \<and> dget C b = Some right \<and> k_id left = a \<and> k_id right = b
    \<and> is_candidate J s l (left, right) = Inr True"
proof -
  obtain ys where ys: "rfilter (is_candidate J s l) (pairs_of (sort_key k_id (dvals C))) = Inr ys"
    "ps = map (\<lambda>(a, b). (k_id a, k_id b)) ys"
    using assms(1) by (auto simp: contradiction_candidates_def rbind_Inr_iff)
  obtain left right where lr: "(left, right) \<in> set ys" "a = k_id left" "b = k_id right" using assms(2) ys(2) by auto
  have "(left, right) \<in> set (pairs_of (sort_key k_id (dvals C)))" "is_candidate J s l (left, right) = Inr True"
    using rfilter_set[OF ys(1)] lr(1) by auto
  moreover have "dget C (k_id k) = Some k" if "k \<in> set (dvals C)" for k
    using that assms(3) by (auto simp: keyed_ledger_def)
  ultimately show ?thesis using lr by (auto dest: pairs_of_mem)
qed

lemma detect_pairs:
  assumes "detect_contradictions predict s k st w = (Inr st', w')"
  shows "\<exists>pairs vs w1 inputs. contradiction_candidates (rs_clusters st) s (rs_language st) (judged_sets st) = Inr pairs
    \<and> record_pairs k vs (enumerate 1 pairs) (st, w1) = Inr (st', w')
    \<and> (pairs = [] \<or> verdicts_of (fst (predict inputs k w)) = Inr vs)"
proof -
  obtain pairs where pairs: "contradiction_candidates (rs_clusters st) s (rs_language st) (judged_sets st) = Inr pairs"
    using assms by (auto simp: detect_contradictions_def split: sum.splits)
  show ?thesis
  proof (cases "pairs = []")
    case True
    then have "record_pairs k [] (enumerate 1 pairs) (st, w') = Inr (st', w')"
      using assms pairs by (simp add: detect_contradictions_def)
    then show ?thesis using pairs True by blast
  next
    case False
    then obtain payload where payload: "rmap (pair_json st) (enumerate 1 pairs) = Inr payload"
      using assms pairs by (auto simp: detect_contradictions_def split: sum.splits)
    obtain r w1 where r: "predict (judge_inputs st payload) k w = (r, w1)" by (cases "predict (judge_inputs st payload) k w")
    with assms pairs False payload obtain vs where "verdicts_of r = Inr vs"
      "ends_with_state w1 (record_pairs k vs (enumerate 1 pairs) (st, w1)) = (Inr st', w')"
      by (auto simp: detect_contradictions_def split: sum.splits)
    then show ?thesis using pairs r
      by (intro exI[of _ pairs] exI[of _ vs] exI[of _ w1] exI[of _ "judge_inputs st payload"])
        (auto simp: ends_with_state_def split: sum.splits)
  qed
qed

lemma map_enumerate_pairs: "map (\<lambda>(n, a, b). f a b) (enumerate n ps) = map (\<lambda>(a, b). f a b) ps"
  by (induction ps arbitrary: n) auto

lemma candidates_left:
  assumes "contradiction_candidates (rs_clusters st) s (rs_language st) (judged_sets st) = Inr pairs"
    and "rs_contradictions st' = rs_contradictions st @ new" and "map x_cluster_ids new = map (\<lambda>(a, b). [a, b]) pairs"
    and "only_contested st st'"
  shows "contradiction_candidates (rs_clusters st') s (rs_language st') (judged_sets st') = Inr []"
proof -
  have u: "map unstatus (dvals (rs_clusters st')) = map unstatus (dvals (rs_clusters st))"
    using assms(4) by (auto simp: only_contested_def)
  have "contradiction_candidates (rs_clusters st') s (rs_language st') (judged_sets st')
      = contradiction_candidates (rs_clusters st) s (rs_language st) (judged_sets st')"
    unfolding candidates_cong[OF u] only_contested_simps(3)[OF assms(4)] ..
  also have "\<dots> = Inr []"
  proof (rule candidates_judged[OF assms(1)])
    show "set (judged_sets st) \<subseteq> set (judged_sets st')" by (auto simp: judged_sets_def assms(2))
    fix a b assume "(a, b) \<in> set pairs"
    then have "[a, b] \<in> set (map x_cluster_ids new)" unfolding assms(3) by force
    then obtain x where x: "x \<in> set new" "x_cluster_ids x = [a, b]" by auto
    have "set (x_cluster_ids x) \<in> (\<lambda>x. set (x_cluster_ids x)) ` set new" using x(1) by (rule imageI)
    then have "set (x_cluster_ids x) \<in> set (judged_sets st')" by (simp add: judged_sets_def assms(2))
    then show "{a, b} \<in> set (judged_sets st')" by (simp only: x(2) list.set)
  qed
  finally show ?thesis .
qed

text \<open>
  C26. Every pair of findings that the rules suspect is recorded exactly once, behind the contradictions
  known before, in the order of the candidates and numbered on from them. Afterwards no candidate is
  left, so that a later round asks only about pairs that are new. Of the research state only the list of
  contradictions and the ledger change, and of the ledger only the status of the findings a new true
  conflict names, which become contested.
\<close>

theorem contradictions_judged_once:
  assumes "detect_contradictions predict s k st w = (Inr st', w')"
  shows "\<exists>pairs new. contradiction_candidates (rs_clusters st) s (rs_language st) (judged_sets st) = Inr pairs
    \<and> st' = st\<lparr>rs_clusters := rs_clusters st', rs_contradictions := rs_contradictions st @ new\<rparr>
    \<and> map x_cluster_ids new = map (\<lambda>(a, b). [a, b]) pairs
    \<and> map x_id new = map (next_id (lit ''x'')) [length (rs_contradictions st)..<length (rs_contradictions st')]
    \<and> dkeys (rs_clusters st') = dkeys (rs_clusters st)
    \<and> (\<forall>i. dget (rs_clusters st') i = map_option (\<lambda>c. if contested_by new i then c\<lparr>k_status := CONTESTED\<rparr> else c)
         (dget (rs_clusters st) i))
    \<and> contradiction_candidates (rs_clusters st') s (rs_language st') (judged_sets st') = Inr []"
proof -
  obtain pairs vs w1 where pairs: "contradiction_candidates (rs_clusters st) s (rs_language st) (judged_sets st) = Inr pairs"
    and loop: "record_pairs k vs (enumerate 1 pairs) (st, w1) = Inr (st', w')"
    using detect_pairs[OF assms] by blast
  obtain new where new: "rs_contradictions st' = rs_contradictions st @ new" "only_contested st st'"
    "map x_cluster_ids new = map (\<lambda>(n, a, b). [a, b]) (enumerate 1 pairs)"
    and num: "map x_id new = map (next_id (lit ''x'')) [length (rs_contradictions st)..<length (rs_contradictions st) + length new]"
    and status: "\<forall>i. dget (rs_clusters st') i = map_option
        (\<lambda>c. if contested_by new i then c\<lparr>k_status := CONTESTED\<rparr> else c) (dget (rs_clusters st) i)"
    using record_pairs_spec[OF only_contested_refl loop] by blast
  have ids: "map x_cluster_ids new = map (\<lambda>(a, b). [a, b]) pairs" using new(3) by (simp add: map_enumerate_pairs)
  have only: "st' = st\<lparr>rs_clusters := rs_clusters st', rs_contradictions := rs_contradictions st @ new\<rparr>"
    and keys: "dkeys (rs_clusters st') = dkeys (rs_clusters st)"
    using new(1,2) by (auto simp: only_contested_def)
  have "contradiction_candidates (rs_clusters st') s (rs_language st') (judged_sets st') = Inr []"
    by (rule candidates_left[OF pairs new(1) ids new(2)])
  moreover have "map x_id new = map (next_id (lit ''x'')) [length (rs_contradictions st)..<length (rs_contradictions st')]"
    using num new(1) by simp
  ultimately show ?thesis using pairs only ids keys status
    by (intro exI[of _ pairs] exI[of _ new] conjI)
qed

lemma pair_record_ok:
  assumes "dget (rs_clusters st) a = Some left" and "dget (rs_clusters st) b = Some right"
    and x_def: "x = pair_record st vs n (m, a, b)"
  shows "x_cluster_ids x = [a, b]" and "x_resolved x = (x_kind x \<noteq> TRUE_CONFLICT \<or> x_preferred_cluster_id x \<noteq> None)"
    and "x_preferred_cluster_id x = Some i \<Longrightarrow> x_kind x \<in> {TRUE_CONFLICT, DIFFERENT_TIME}
      \<and> (\<exists>chosen other. {chosen, other} = {left, right} \<and> k_id chosen = i \<and> backs_preference st chosen other)"
    and "vs = [] \<Longrightarrow> x_kind x = TRUE_CONFLICT \<and> x_preferred_cluster_id x = None"
proof -
  let ?v = "dget vs (lit ''p'' @ dec m)"
  have x: "x = (judged_pair st ?v left right (a, b))\<lparr>x_id := next_id (lit ''x'') n\<rparr>"
    unfolding x_def pair_record_def using assms(1,2) by simp
  show "x_cluster_ids x = [a, b]" and "x_resolved x = (x_kind x \<noteq> TRUE_CONFLICT \<or> x_preferred_cluster_id x \<noteq> None)"
    unfolding x by (auto simp: judged_pair_def Let_def)
  show "vs = [] \<Longrightarrow> x_kind x = TRUE_CONFLICT \<and> x_preferred_cluster_id x = None"
    unfolding x by (simp add: judged_pair_def)
  assume i: "x_preferred_cluster_id x = Some i"
  then obtain v where v: "?v = Some v" unfolding x by (cases ?v) (auto simp: judged_pair_def)
  show "x_kind x \<in> {TRUE_CONFLICT, DIFFERENT_TIME}
      \<and> (\<exists>chosen other. {chosen, other} = {left, right} \<and> k_id chosen = i \<and> backs_preference st chosen other)"
    using i unfolding x by (cases "cj_preferred v") (auto simp: judged_pair_def v v[simplified] Let_def split: if_splits)
qed

text \<open>When the ledger backs a side: a primary source that outranks the other side, or is not older than it.\<close>

definition backed_by_ledger :: "research_state \<Rightarrow> cluster \<Rightarrow> cluster \<Rightarrow> bool" where
  "backed_by_ledger st c c' \<longleftrightarrow> k_has_primary c
     \<and> (k_best_source_score c' \<le> k_best_source_score c
        \<or> (\<exists>mine. latest_source_date st c = Some mine \<and> (\<forall>theirs. latest_source_date st c' = Some theirs \<longrightarrow> theirs \<le> mine)))"

lemma backs_preference_iff: "backs_preference st c c' \<longleftrightarrow> backed_by_ledger st c c'"
  by (auto simp: backs_preference_def backed_by_ledger_def split: option.splits)

lemma pair_preference_backed:
  assumes "dget (rs_clusters st) a = Some left" and "dget (rs_clusters st) b = Some right"
    and "x = pair_record st vs n (m, a, b)" and i: "x_preferred_cluster_id x = Some i"
  shows "x_kind x \<in> {TRUE_CONFLICT, DIFFERENT_TIME}
    \<and> (\<exists>chosen other. {chosen, other} = {left, right} \<and> k_id chosen = i \<and> backed_by_ledger st chosen other)"
  using pair_record_ok(3)[OF assms] unfolding backs_preference_iff .

text \<open>
  C27. What a judge can do is limited by the ledger. A new contradiction names two findings the rules
  found in disagreement; a true conflict leaves both contested; it is resolved only when it is no
  conflict or a side is preferred, and a side is preferred only in a conflict or a change over time, when
  it has a primary source and scores at least as high as the other side, or its newest source is dated and
  not older than the newest dated one of the other side. With no judge every
  candidate counts as an unresolved conflict. Nothing else in the research state changes.
\<close>

theorem contradictions_settled:
  assumes "detect_contradictions predict s k st w = (Inr st', w')" and "keyed_ledger (rs_clusters st)"
    and "x \<in> set (drop (length (rs_contradictions st)) (rs_contradictions st'))"
  shows "\<exists>a b left right. x_cluster_ids x = [a, b] \<and> dget (rs_clusters st) a = Some left \<and> dget (rs_clusters st) b = Some right
    \<and> is_candidate (judged_sets st) s (rs_language st) (left, right) = Inr True
    \<and> (x_kind x = TRUE_CONFLICT \<longrightarrow> dget (rs_clusters st') a = Some (left\<lparr>k_status := CONTESTED\<rparr>)
          \<and> dget (rs_clusters st') b = Some (right\<lparr>k_status := CONTESTED\<rparr>))
    \<and> x_resolved x = (x_kind x \<noteq> TRUE_CONFLICT \<or> x_preferred_cluster_id x \<noteq> None)
    \<and> (\<forall>i. x_preferred_cluster_id x = Some i \<longrightarrow> x_kind x \<in> {TRUE_CONFLICT, DIFFERENT_TIME}
          \<and> (\<exists>chosen other. {chosen, other} = {left, right} \<and> k_id chosen = i \<and> k_has_primary chosen
               \<and> (k_best_source_score other \<le> k_best_source_score chosen
                  \<or> (\<exists>mine. latest_source_date st chosen = Some mine
                       \<and> (\<forall>theirs. latest_source_date st other = Some theirs \<longrightarrow> theirs \<le> mine)))))
    \<and> ((\<forall>inputs. \<exists>e. fst (predict inputs k w) = Inl (LLM_failure e)) \<longrightarrow>
          x_kind x = TRUE_CONFLICT \<and> \<not> x_resolved x)
    \<and> only_contested st st'"
proof -
  obtain pairs vs w1 inputs where pairs: "contradiction_candidates (rs_clusters st) s (rs_language st) (judged_sets st) = Inr pairs"
    and loop: "record_pairs k vs (enumerate 1 pairs) (st, w1) = Inr (st', w')"
    and vs: "pairs = [] \<or> verdicts_of (fst (predict inputs k w)) = Inr vs"
    using detect_pairs[OF assms(1)] by blast
  obtain new where new: "rs_contradictions st' = rs_contradictions st @ new" "only_contested st st'"
    "\<forall>x\<in>set new. \<exists>n p. p \<in> set (enumerate 1 pairs) \<and> x = pair_record st vs n p"
    and status: "\<forall>i. dget (rs_clusters st') i = map_option
        (\<lambda>c. if contested_by new i then c\<lparr>k_status := CONTESTED\<rparr> else c) (dget (rs_clusters st) i)"
    using record_pairs_spec[OF only_contested_refl loop] by blast
  have x: "x \<in> set new" using assms(3) new(1) by simp
  then obtain n m a b where p: "(m, a, b) \<in> set (enumerate 1 pairs)" and xp: "x = pair_record st vs n (m, a, b)"
    using new(3) by (metis prod_cases3)
  then have ab: "(a, b) \<in> set pairs" by (metis in_set_enumerate_eq nth_mem snd_conv set_zip_rightD enumerate_eq_zip)
  obtain left right where lr: "dget (rs_clusters st) a = Some left" "dget (rs_clusters st) b = Some right"
    "is_candidate (judged_sets st) s (rs_language st) (left, right) = Inr True"
    using candidates_in_ledger[OF pairs ab assms(2)] by blast
  note ok = pair_record_ok[OF lr(1,2) xp]
  have conflict: "dget (rs_clusters st') a = Some (left\<lparr>k_status := CONTESTED\<rparr>)
      \<and> dget (rs_clusters st') b = Some (right\<lparr>k_status := CONTESTED\<rparr>)" if "x_kind x = TRUE_CONFLICT"
  proof -
    have "contested_by new a" "contested_by new b" using that x ok(1) by (auto simp: contested_by_def)
    then show ?thesis using status lr by simp
  qed
  have none: "x_kind x = TRUE_CONFLICT \<and> \<not> x_resolved x" if nobody: "\<forall>inputs. \<exists>e. fst (predict inputs k w) = Inl (LLM_failure e)"
  proof -
    obtain e where "fst (predict inputs k w) = Inl (LLM_failure e)" using nobody by blast
    then have "vs = []" using vs ab by (auto simp: verdicts_of_def)
    then show ?thesis using ok(2,4) by simp
  qed
  have preferred: "\<forall>i. x_preferred_cluster_id x = Some i \<longrightarrow> x_kind x \<in> {TRUE_CONFLICT, DIFFERENT_TIME}
      \<and> (\<exists>chosen other. {chosen, other} = {left, right} \<and> k_id chosen = i \<and> backed_by_ledger st chosen other)"
    by (intro allI impI) (rule pair_preference_backed[OF lr(1,2) xp])
  have "x_kind x = TRUE_CONFLICT \<longrightarrow> dget (rs_clusters st') a = Some (left\<lparr>k_status := CONTESTED\<rparr>)
      \<and> dget (rs_clusters st') b = Some (right\<lparr>k_status := CONTESTED\<rparr>)"
    and "(\<forall>inputs. \<exists>e. fst (predict inputs k w) = Inl (LLM_failure e)) \<longrightarrow> x_kind x = TRUE_CONFLICT \<and> \<not> x_resolved x"
    using conflict none by blast+
  from ok(1) lr(1,2,3) this(1) ok(2) preferred[unfolded backed_by_ledger_def] this(2) new(2) show ?thesis
    by - (rule exI, rule exI, rule exI, rule exI, intro conjI)
qed

end
