(* ===== verification/ReportProps.thy ===== *)
theory ReportProps
  imports ReportNode GateProps NodeBase
begin

text \<open>
  Verification of the cited sentences. A sentence that carries citations stays in the report only when the
  verifier was asked about exactly this sentence and gave exactly one verdict on it, in its favour.
\<close>

section \<open>Ids of sentences\<close>

lemma key_value_plain: "58 \<notin> set (key_value key)"
  by (cases key) simp_all

lemma append_cut: "x @ [c] @ y = x' @ [c] @ y' \<Longrightarrow> c \<notin> set x \<Longrightarrow> c \<notin> set x' \<Longrightarrow> x = x' \<and> y = y'"
proof (induction x arbitrary: x')
  case Nil
  then show ?case by (cases x') auto
next
  case (Cons a x)
  then show ?case by (cases x') auto
qed

lemma sentence_id_iff [simp]: "sentence_id k i = sentence_id l j \<longleftrightarrow> k = l \<and> i = j"
proof
  assume "sentence_id k i = sentence_id l j"
  then have "key_value k = key_value l \<and> dec i = dec j"
    unfolding sentence_id_def by (rule append_cut) (rule key_value_plain)+
  then show "k = l \<and> i = j" by simp
qed simp

lemma in_addressed:
  "(key, i, t) \<in> set (addressed r) \<longleftrightarrow>
     (\<exists>s\<in>set (r_sections r). sec_key s = key \<and> i < length (sec_sentences s) \<and> sec_sentences s ! i = t)"
  by (auto simp: addressed_def in_set_enumerate_eq image_iff)

lemma distinct_addressed:
  assumes "distinct (keys_of r)"
  shows "distinct (map (\<lambda>(key, i, t). (key, i)) (addressed r))"
proof -
  have "distinct (map sec_key ss) \<Longrightarrow>
      distinct (concat (map (\<lambda>s. map (\<lambda>(i, t). (sec_key s, i)) (enumerate 0 (sec_sentences s))) ss))" for ss
  proof (induction ss)
    case (Cons s ss)
    have "distinct (map (\<lambda>(i, t). (sec_key s, i)) (enumerate 0 (sec_sentences s)))"
      by (auto simp: distinct_map inj_on_def in_set_enumerate_eq)
    with Cons show ?case by force
  qed simp
  moreover have "map (\<lambda>(key, i, t). (key, i)) (addressed r)
      = concat (map (\<lambda>s. map (\<lambda>(i, t). (sec_key s, i)) (enumerate 0 (sec_sentences s))) (r_sections r))"
    unfolding addressed_def map_concat map_map by (intro arg_cong[where f = concat] map_cong) auto
  ultimately show ?thesis using assms by (simp add: keys_of_def)
qed

lemma distinct_items:
  assumes "distinct (keys_of r)" shows "distinct (map fst (check_items st r))"
proof -
  have "map fst (check_items st r)
      = map (\<lambda>(key, i). sentence_id key i) (map (\<lambda>(key, i, t). (key, i)) (filter (\<lambda>(key, i, s). needs_check s) (addressed r)))"
    by (simp add: check_items_def comp_def split_beta)
  moreover have "distinct (map (\<lambda>(key, i, t). (key, i)) (filter P (addressed r)))" for P
    using distinct_addressed[OF assms] by (rule distinct_map_filter)
  ultimately show ?thesis by (simp add: distinct_map inj_on_def split_beta)
qed

section \<open>Verdicts\<close>

text \<open>The verifier was asked about the item \<open>x\<close> under the id \<open>sid\<close> and its only verdict on it is favourable.\<close>

definition confirmed :: "(inputs, verification_item list) predictor \<Rightarrow> mem_sink \<Rightarrow> str \<Rightarrow> json \<Rightarrow> bool" where
  "confirmed verify k sid x \<longleftrightarrow> (\<exists>pending w items w' v. (sid, x) \<in> set pending
     \<and> verify (verify_inputs pending) k w = (Inr items, w')
     \<and> filter (\<lambda>v. vi_sentence_id v = sid) items = [v] \<and> vi_supported v)"

abbreviation rejected_ids :: "verification \<Rightarrow> str set" where
  "rejected_ids f \<equiv> set (dkeys (vf_unsupported f))"

text \<open>Every item of a batch is rejected or confirmed.\<close>

definition judged :: "(inputs, verification_item list) predictor \<Rightarrow> mem_sink \<Rightarrow> (str \<times> json) list \<Rightarrow> verification \<Rightarrow> bool" where
  "judged verify k batch f \<longleftrightarrow> (\<forall>(sid, x)\<in>set batch. sid \<in> rejected_ids f \<or> confirmed verify k sid x)"

lemma judged_mono: "judged verify k batch f \<Longrightarrow> rejected_ids f \<subseteq> rejected_ids f' \<Longrightarrow> judged verify k batch f'"
  unfolding judged_def by fast

lemma single_filter: "length (filter P xs) = 1 \<Longrightarrow> v \<in> set xs \<Longrightarrow> P v \<Longrightarrow> filter P xs = [v]"
proof -
  assume l: "length (filter P xs) = 1" and v: "v \<in> set xs" "P v"
  obtain u where u: "filter P xs = [u]" using l by (auto simp: length_Suc_conv)
  have "v \<in> set (filter P xs)" using v by simp
  then show ?thesis using u by simp
qed

lemma take_verdicts_spec:
  assumes "set vs \<subseteq> set all" and "take_verdicts all vs (f, pending) = (f', pending')"
  shows "rejected_ids f \<subseteq> rejected_ids f' \<and> set pending' \<subseteq> set pending
     \<and> (\<forall>sid x. (sid, x) \<in> set pending \<longrightarrow> (sid, x) \<notin> set pending' \<longrightarrow> sid \<notin> rejected_ids f' \<longrightarrow>
           (\<exists>v. filter (\<lambda>v. vi_sentence_id v = sid) all = [v] \<and> vi_supported v))"
  using assms
proof (induction vs arbitrary: f pending)
  case (Cons v vs)
  let ?sid = "vi_sentence_id v"
  show ?case
  proof (cases "\<not> dmem ?sid pending \<or> length (filter (\<lambda>x. vi_sentence_id x = ?sid) all) \<noteq> 1")
    case True
    then have "take_verdicts all vs (f, pending) = (f', pending')" using Cons.prems(2) by (simp add: Let_def)
    then show ?thesis using Cons.IH Cons.prems(1) by simp
  next
    case False
    let ?f = "f\<lparr>vf_checked := add_new ?sid (vf_checked f),
        vf_unsupported := (if vi_supported v then vf_unsupported f else dput ?sid (vi_reason v) (vf_unsupported f))\<rparr>"
    let ?p = "filter (\<lambda>(i, x). i \<noteq> ?sid) pending"
    have "take_verdicts all vs (?f, ?p) = (f', pending')" using Cons.prems(2) False by (simp add: Let_def)
    then have ih: "rejected_ids ?f \<subseteq> rejected_ids f'" "set pending' \<subseteq> set ?p"
      "\<And>sid x. (sid, x) \<in> set ?p \<Longrightarrow> (sid, x) \<notin> set pending' \<Longrightarrow> sid \<notin> rejected_ids f' \<Longrightarrow>
         \<exists>v. filter (\<lambda>v. vi_sentence_id v = sid) all = [v] \<and> vi_supported v"
      using Cons.IH[of ?f ?p] Cons.prems(1) by auto
    have one: "filter (\<lambda>x. vi_sentence_id x = ?sid) all = [v]"
      using False Cons.prems(1) by (intro single_filter) auto
    have sup: "vi_supported v" if "?sid \<notin> rejected_ids f'"
      using ih(1) that by (cases "vi_supported v") auto
    have "\<exists>v. filter (\<lambda>v. vi_sentence_id v = sid) all = [v] \<and> vi_supported v"
      if "(sid, x) \<in> set pending" "(sid, x) \<notin> set pending'" "sid \<notin> rejected_ids f'" for sid x
    proof (cases "sid = ?sid")
      case True
      then show ?thesis using one sup that(3) by blast
    next
      case False
      then have "(sid, x) \<in> set ?p" using that(1) by simp
      from ih(3)[OF this that(2,3)] show ?thesis .
    qed
    moreover have "rejected_ids f \<subseteq> rejected_ids ?f" by auto
    then have "rejected_ids f \<subseteq> rejected_ids f'" using ih(1) by (rule subset_trans)
    moreover have "set pending' \<subseteq> set pending" using ih(2) by auto
    ultimately show ?thesis by blast
  qed
qed simp

lemma verify_attempts_spec:
  assumes "verify_attempts verify k n (f, pending) w = (Inr (f', pending'), w')"
  shows "rejected_ids f \<subseteq> rejected_ids f' \<and> (\<forall>(sid, x)\<in>set pending.
           (sid, x) \<in> set pending' \<or> sid \<in> rejected_ids f' \<or> confirmed verify k sid x)"
  using assms
proof (induction n arbitrary: f pending w)
  case (Suc n)
  obtain r w1 where v: "verify (verify_inputs pending) k w = (r, w1)" by fastforce
  show ?case
  proof (cases r)
    case (Inl e)
    then have "verify_attempts verify k n (f, pending) w1 = (Inr (f', pending'), w')"
      using Suc.prems v by (cases e) auto
    then show ?thesis by (rule Suc.IH)
  next
    case (Inr items)
    obtain f1 p1 where t: "take_verdicts items items (f, pending) = (f1, p1)" by fastforce
    have s: "rejected_ids f \<subseteq> rejected_ids f1" "set p1 \<subseteq> set pending"
      "\<And>sid x. (sid, x) \<in> set pending \<Longrightarrow> (sid, x) \<notin> set p1 \<Longrightarrow> sid \<notin> rejected_ids f1 \<Longrightarrow>
         \<exists>v. filter (\<lambda>v. vi_sentence_id v = sid) items = [v] \<and> vi_supported v"
      using take_verdicts_spec[OF subset_refl t] by blast+
    have c: "confirmed verify k sid x" if "(sid, x) \<in> set pending" "(sid, x) \<notin> set p1" "sid \<notin> rejected_ids f1" for sid x
      using s(3)[OF that] that(1) v Inr unfolding confirmed_def by blast
    show ?thesis
    proof (cases "p1 = []")
      case True
      then have "f' = f1" "pending' = []" using Suc.prems v Inr t by (simp_all add: Let_def)
      then show ?thesis using s(1) c[unfolded True] by (auto simp del: list.set_map set_map)
    next
      case False
      then have "verify_attempts verify k n (f1, p1) w1 = (Inr (f', pending'), w')"
        using Suc.prems v Inr t by (simp add: Let_def)
      from Suc.IH[OF this] have ih: "rejected_ids f1 \<subseteq> rejected_ids f'"
        "\<And>sid x. (sid, x) \<in> set p1 \<Longrightarrow> (sid, x) \<in> set pending' \<or> sid \<in> rejected_ids f' \<or> confirmed verify k sid x"
        by blast+
      have "(sid, x) \<in> set pending' \<or> sid \<in> rejected_ids f' \<or> confirmed verify k sid x" if "(sid, x) \<in> set pending" for sid x
        using ih(2)[of sid x] c[OF that] ih(1) by (cases "(sid, x) \<in> set p1") blast+
      then show ?thesis using s(1) ih(1) by blast
    qed
  qed
qed auto

lemma dput_all:
  "distinct (map fst d @ map fst batch) \<Longrightarrow> fold (\<lambda>(i, x). dput i x) batch d = d @ batch"
proof (induction batch arbitrary: d)
  case (Cons b batch)
  obtain i x where b: "b = (i, x)" by (cases b)
  have "i \<notin> set (dkeys d)" using Cons.prems b by simp
  then have "dput i x d = d @ [(i, x)]" by (rule dput_fresh)
  then show ?case using Cons.IH[of "d @ [(i, x)]"] Cons.prems b by simp
qed simp

lemma check_batch_spec:
  assumes "check_batch verify k batch f w = (Inr f', w')" and "distinct (map fst batch)"
  shows "rejected_ids f \<subseteq> rejected_ids f'" and "judged verify k batch f'"
proof -
  have p: "fold (\<lambda>(i, x). dput i x) batch [] = batch" using dput_all[of "[]" batch] assms(2) by simp
  obtain f1 pending where a: "verify_attempts verify k 2 (f, batch) w = (Inr (f1, pending), w')"
    and f': "f' = fold (\<lambda>sid f. f\<lparr>vf_unavailable := add_new sid (vf_unavailable f),
                               vf_unsupported := dput sid no_verdict (vf_unsupported f)\<rparr>) (dkeys pending) f1"
    using assms(1) p by (auto simp: check_batch_def split: prod.splits sum.splits)
  have "rejected_ids (fold (\<lambda>sid f. f\<lparr>vf_unavailable := add_new sid (vf_unavailable f),
      vf_unsupported := dput sid no_verdict (vf_unsupported f)\<rparr>) sids g) = rejected_ids g \<union> set sids" for sids g
    by (induction sids arbitrary: g) auto
  then have u: "rejected_ids f' = rejected_ids f1 \<union> set (dkeys pending)" using f' by simp
  have v: "rejected_ids f \<subseteq> rejected_ids f1" "\<And>sid x. (sid, x) \<in> set batch \<Longrightarrow>
      (sid, x) \<in> set pending \<or> sid \<in> rejected_ids f1 \<or> confirmed verify k sid x"
    using verify_attempts_spec[OF a] by blast+
  show "rejected_ids f \<subseteq> rejected_ids f'" using v(1) u by blast
  have "sid \<in> rejected_ids f' \<or> confirmed verify k sid x" if "(sid, x) \<in> set batch" for sid x
  proof -
    have "sid \<in> set (dkeys pending)" if "(sid, x) \<in> set pending" using that by force
    then show ?thesis using v(2)[OF that] u by blast
  qed
  then show "judged verify k batch f'" unfolding judged_def by blast
qed

lemma check_batches_spec:
  assumes "rfold (check_batch verify k) batches f w = (Inr f', w')" and "\<And>b. b \<in> set batches \<Longrightarrow> distinct (map fst b)"
  shows "rejected_ids f \<subseteq> rejected_ids f' \<and> (\<forall>b\<in>set batches. judged verify k b f')"
  using assms
proof (induction batches arbitrary: f w)
  case (Cons b batches)
  obtain f1 w1 where c: "check_batch verify k b f w = (Inr f1, w1)" "rfold (check_batch verify k) batches f1 w1 = (Inr f', w')"
    using Cons.prems(1) by (auto split: prod.splits sum.splits)
  have r: "rejected_ids f1 \<subseteq> rejected_ids f'" "\<forall>b\<in>set batches. judged verify k b f'"
    using Cons.IH[OF c(2)] Cons.prems(2) by simp_all
  have "distinct (map fst b)" by (rule Cons.prems(2)) simp
  from check_batch_spec[OF c(1) this] have "rejected_ids f \<subseteq> rejected_ids f1" "judged verify k b f1" .
  with r judged_mono[of verify k b f1 f'] show ?case by auto
qed simp

lemma concat_batches: "0 < n \<Longrightarrow> concat (batches_of n xs) = xs"
proof (induction n xs rule: batches_of.induct)
  case (2 n x xs)
  obtain m where m: "n = Suc m" using 2(2) by (cases n) auto
  show ?case using 2(1)[OF _ 2(2)] 2(2) by (simp add: m)
qed simp

lemma verify_report_spec:
  assumes "verify_report verify n schedule k r st w = (Inr (unsupported, st'), w')" and "0 < n" and "distinct (keys_of r)"
    and "set (schedule (batches_of n (check_items st r))) = set (batches_of n (check_items st r))"
  shows "st' = st\<lparr>rs_verification := rs_verification st'\<rparr>"
    and "\<And>sid x. (sid, x) \<in> set (check_items st r) \<Longrightarrow> sid \<in> set (dkeys unsupported) \<or> confirmed verify k sid x"
proof -
  show "st' = st\<lparr>rs_verification := rs_verification st'\<rparr>"
    using assms(1) by (auto simp: verify_report_def Let_def split: if_splits prod.splits sum.splits)
  let ?items = "check_items st r"
  fix sid x assume x: "(sid, x) \<in> set ?items"
  then have "?items \<noteq> []" by auto
  then obtain f f0 w1 where r: "rfold (check_batch verify k) (schedule (batches_of n ?items)) f0 w = (Inr f, w1)"
    and u: "unsupported = vf_unsupported f"
    using assms(1) by (auto simp: verify_report_def Let_def split: prod.splits sum.splits)
  have d: "distinct (map fst b)" if "b \<in> set (batches_of n ?items)" for b
  proof -
    have "distinct (map fst (concat (batches_of n ?items)))"
      unfolding concat_batches[OF assms(2)] by (rule distinct_items[OF assms(3)])
    then show ?thesis using split_list[OF that] by auto
  qed
  have j: "\<forall>b\<in>set (schedule (batches_of n ?items)). judged verify k b f"
    using check_batches_spec[OF r] d assms(4) by blast
  have "(sid, x) \<in> set (concat (batches_of n ?items))" unfolding concat_batches[OF assms(2)] by (rule x)
  then obtain b where "b \<in> set (batches_of n ?items)" "(sid, x) \<in> set b" by auto
  with j show "sid \<in> set (dkeys unsupported) \<or> confirmed verify k sid x" unfolding assms(4) u judged_def by blast
qed

section \<open>The draft and the rewrite\<close>

lemma distinct_built: "distinct (keys_of (build_report out st))"
  by (auto simp: keys_of_def build_report_def Let_def built_section_def titled_def gap_section_def)

lemma distinct_fallback: "distinct (keys_of (fallback_report st))"
  by (simp add: keys_of_def fallback_report_def Let_def titled_def gap_section_def)

lemma synthesise_cases:
  assumes "synthesise predict today k feedback st w = (Inr r, w')"
  shows "r = fallback_report st \<or> (\<exists>out. r = build_report out st)"
proof -
  obtain a w1 where p: "predict (synthesis_inputs today st feedback) k w = (a, w1)" by fastforce
  show ?thesis
  proof (cases a)
    case (Inl e)
    then show ?thesis using assms p by (cases e) (auto simp: synthesise_def)
  next
    case (Inr out)
    then show ?thesis using assms p by (auto simp: synthesise_def)
  qed
qed

lemma synthesise_distinct:
  "synthesise predict today k feedback st w = (Inr r, w') \<Longrightarrow> distinct (keys_of r)"
  using synthesise_cases distinct_built distinct_fallback by metis

text \<open>The state of a verification differs in its bookkeeping only; what is asked about a sentence does not.\<close>

definition same_ledger :: "research_state \<Rightarrow> research_state \<Rightarrow> bool" where
  "same_ledger st st' \<longleftrightarrow> (\<exists>v b. st' = st\<lparr>rs_verification := v, rs_resynthesized := b\<rparr>)"

lemma same_ledger_item: "same_ledger st st' \<Longrightarrow> sentence_item st' key i s = sentence_item st key i s"
proof -
  have e: "evidence_of (st\<lparr>rs_verification := v, rs_resynthesized := b\<rparr>) = evidence_of st" for v b
    by (rule ext) (simp add: evidence_of_def cong: option.case_cong)
  assume "same_ledger st st'"
  then show ?thesis by (auto simp: same_ledger_def sentence_item_def e)
qed

lemma same_ledger_trans: "same_ledger a b \<Longrightarrow> same_ledger b c \<Longrightarrow> same_ledger a c"
  unfolding same_ledger_def by (elim exE) (rule exI, rule exI, simp)

lemma same_ledger_flag: "same_ledger st (st\<lparr>rs_resynthesized := b\<rparr>)"
  unfolding same_ledger_def by (rule exI[where x = "rs_verification st"], rule exI[where x = b]) (cases st, simp)

lemma same_ledger_checked: "same_ledger st (st\<lparr>rs_verification := v\<rparr>)"
  unfolding same_ledger_def by (rule exI[where x = v], rule exI[where x = "rs_resynthesized st"]) (cases st, simp)

lemma same_ledger_refl: "same_ledger st st"
  unfolding same_ledger_def by (rule exI[where x = "rs_verification st"], rule exI[where x = "rs_resynthesized st"]) (cases st, simp)

text \<open>Every sentence of the report with citations is rejected or confirmed.\<close>

definition audited :: "(inputs, verification_item list) predictor \<Rightarrow> mem_sink \<Rightarrow> research_state \<Rightarrow> report
     \<Rightarrow> (str, str) dict \<Rightarrow> bool" where
  "audited verify k st r unsupported \<longleftrightarrow> (\<forall>(key, i, s)\<in>set (addressed r). needs_check s \<longrightarrow>
     sentence_id key i \<in> set (dkeys unsupported) \<or> confirmed verify k (sentence_id key i) (sentence_item st key i s))"

lemma verify_report_audited:
  assumes "verify_report verify n schedule k r st w = (Inr (unsupported, st'), w')" and "0 < n" and "distinct (keys_of r)"
    and "\<And>bs. set (schedule bs) = set bs"
  shows "same_ledger st st'" and "audited verify k st r unsupported"
proof -
  note v = verify_report_spec[OF assms(1-3,4)]
  show "same_ledger st st'" by (subst v(1)) (rule same_ledger_checked)
  have "sentence_id key i \<in> set (dkeys unsupported) \<or> confirmed verify k (sentence_id key i) (sentence_item st key i s)"
    if "(key, i, s) \<in> set (addressed r)" "needs_check s" for key i s
  proof (rule v(2))
    show "(sentence_id key i, sentence_item st key i s) \<in> set (check_items st r)"
      using that by (force simp: check_items_def)
  qed
  then show "audited verify k st r unsupported" unfolding audited_def by blast
qed

lemma rewrite_once_audited:
  assumes "rewrite_once predict verify today n schedule k r unsupported st w = (Inr (r', unsupported', st'), w')"
    and "audited verify k st r unsupported" and "0 < n" and "\<And>bs. set (schedule bs) = set bs"
  shows "same_ledger st st'" and "r_fallback r' \<or> audited verify k st r' unsupported'"
proof -
  let ?st = "st\<lparr>rs_resynthesized := True\<rparr>"
  have "same_ledger st st' \<and> (r_fallback r' \<or> audited verify k st r' unsupported')"
  proof (cases "unsupported = [] \<or> rs_resynthesized st \<or> json_count (lit ''unavailable'') (rs_verification st) \<noteq> 0")
    case True
    then have "r' = r" "unsupported' = unsupported" "st' = st" using assms(1) by (simp_all add: rewrite_once_def)
    then show ?thesis using assms(2) by (simp add: same_ledger_refl)
  next
    case False
    obtain feedback where fb: "rewrite_feedback r unsupported = Inr feedback"
      using assms(1) False by (cases "rewrite_feedback r unsupported") (simp_all add: rewrite_once_def)
    obtain w1 r2 w2 where s: "synthesise predict today k feedback ?st w1 = (Inr r2, w2)"
      and r: "(if r_fallback r2 then (Inr (r2, [], ?st), w2)
               else (case verify_report verify n schedule k r2 ?st w2 of
                 (Inl e, w3) \<Rightarrow> (Inl e, w3)
               | (Inr (unsupported2, st2), w3) \<Rightarrow> (Inr (r2, unsupported2, st2), w3))) = (Inr (r', unsupported', st'), w')"
      using assms(1) False fb unfolding rewrite_once_def Let_def
      by (simp split: prod.splits sum.splits)
    have l: "same_ledger st ?st" by (rule same_ledger_flag)
    show ?thesis
    proof (cases "r_fallback r2")
      case True
      then show ?thesis using r l by auto
    next
      case f: False
      obtain w3 where v: "verify_report verify n schedule k r2 ?st w2 = (Inr (unsupported', st'), w3)" and e: "r' = r2"
        using r f by (auto split: prod.splits sum.splits)
      note a = verify_report_audited[OF v assms(3) synthesise_distinct[OF s] assms(4)]
      have "audited verify k st r' unsupported'"
        using a(2) same_ledger_item[OF l] unfolding audited_def e by simp
      then show ?thesis using same_ledger_trans[OF l a(1)] by blast
    qed
  qed
  then show "same_ledger st st'" "r_fallback r' \<or> audited verify k st r' unsupported'" by blast+
qed

section \<open>What stays in the report\<close>

lemma kept_sentence:
  assumes "sec \<in> set (r_sections (drop_unsupported unsupported r))" and "s \<in> set (sec_sentences sec)"
  shows "\<exists>i. (sec_key sec, i, s) \<in> set (addressed r) \<and> sentence_id (sec_key sec) i \<notin> set (dkeys unsupported)"
proof -
  obtain sec0 where s0: "sec0 \<in> set (r_sections r)"
    and e: "sec = sec0\<lparr>sec_sentences := map snd (filter (\<lambda>(i, x). \<not> dmem (sentence_id (sec_key sec0) i) unsupported)
          (enumerate 0 (sec_sentences sec0)))\<rparr>"
    using assms(1) by (auto simp: drop_unsupported_def)
  obtain i where "(i, s) \<in> set (enumerate 0 (sec_sentences sec0))" "\<not> dmem (sentence_id (sec_key sec0) i) unsupported"
    using assms(2) e by auto
  then show ?thesis using s0 e by (auto simp: in_addressed in_set_enumerate_eq)
qed

lemma edited_sentence:
  "sec \<in> set (edit_first key (\<lambda>s. s\<lparr>sec_sentences := f (sec_sentences s)\<rparr>) ss) \<Longrightarrow> s \<in> set (sec_sentences sec) \<Longrightarrow>
     (\<exists>sec0\<in>set ss. sec_key sec0 = sec_key sec \<and> (s \<in> set (sec_sentences sec0) \<or> s \<in> set (f (sec_sentences sec0))))"
  by (induction ss) (auto split: if_splits)

lemma noted_sentence:
  assumes "sec \<in> set (r_sections (note_gap language note r))" and "s \<in> set (sec_sentences sec)" and "needs_check s"
  shows "\<exists>sec0\<in>set (r_sections r). sec_key sec0 = sec_key sec \<and> s \<in> set (sec_sentences sec0)"
proof -
  have "s \<noteq> meta_sentence note []" using assms(3) by (auto simp: needs_check_def meta_sentence_def)
  then show ?thesis
    using assms(1,2) by (fastforce simp: note_gap_def edit_section_def Let_def dest!: edited_sentence split: option.splits)
qed

lemma rebuilt_same:
  "rebuild_sources st r = Inr r' \<Longrightarrow> r_sections r' = r_sections r \<and> r_fallback r' = r_fallback r"
  by (auto simp: rebuild_sources_def rbind_Inr_iff)

lemma note_gap_fallback [simp]: "r_fallback (note_gap language note r) = r_fallback r"
  by (simp add: note_gap_def edit_section_def Let_def split: option.splits)

lemma drop_unsupported_fallback [simp]: "r_fallback (drop_unsupported unsupported r) = r_fallback r"
  by (simp add: drop_unsupported_def)

text \<open>
  C28. After the verification of a draft, a report that is not the fallback keeps a sentence with citations
  only when the verifier was asked about exactly this sentence with the evidence of the ledger behind it, and
  gave exactly one verdict on it, in its favour; this holds after the rewrite as well.
\<close>

theorem cited_sentences_verified:
  assumes "verify_citations predict verify today n schedule k st w = (Inr st', w')"
    and "rs_report st = Some r0" and "\<not> r_fallback r0" and "distinct (keys_of r0)"
    and "0 < n" and "\<And>bs. set (schedule bs) = set bs"
    and "rs_report st' = Some r" and "\<not> r_fallback r"
    and "sec \<in> set (r_sections r)" and "s \<in> set (sec_sentences sec)" and "needs_check s"
  shows "\<exists>i. confirmed verify k (sentence_id (sec_key sec) i) (sentence_item st (sec_key sec) i s)"
proof -
  obtain u0 st1 w1 where v: "verify_report verify n schedule k r0 st w = (Inr (u0, st1), w1)"
    using assms(1-3) by (auto simp: verify_citations_def split: prod.splits sum.splits)
  obtain r1 u st2 w2 where rw: "rewrite_once predict verify today n schedule k r0 u0 st1 w1 = (Inr (r1, u, st2), w2)"
    using assms(1-3) v by (auto simp: verify_citations_def split: prod.splits sum.splits)
  let ?r3 = "if json_count (lit ''unavailable'') (rs_verification st2) \<noteq> 0
    then note_gap (rs_language st2) (unavailable_note (rs_language st2) (dropped_count u r1)) (drop_unsupported u r1)
    else drop_unsupported u r1"
  obtain r4 where r4: "rebuild_sources st2 ?r3 = Inr r4" "st' = bump (lit ''sentences_dropped_by_verifier'') (dropped_count u r1) (st2\<lparr>rs_report := Some r4\<rparr>)"
    using assms(1-3) v rw unfolding verify_citations_def by (simp add: Let_def split: sum.splits)
  have r: "r = r4" using assms(7) r4(2) by (simp add: bump_def)
  have sec: "sec \<in> set (r_sections ?r3)" and fb: "\<not> r_fallback r1"
    using rebuilt_same[OF r4(1)] assms(8,9) r by (auto split: if_splits)
  obtain sec0 where s0: "sec0 \<in> set (r_sections (drop_unsupported u r1))" "sec_key sec0 = sec_key sec" "s \<in> set (sec_sentences sec0)"
    using sec assms(10) noted_sentence[OF _ assms(10,11)] by (auto split: if_splits)
  obtain i where i: "(sec_key sec, i, s) \<in> set (addressed r1)" "sentence_id (sec_key sec) i \<notin> set (dkeys u)"
    using kept_sentence[OF s0(1,3)] s0(2) by auto
  note a = verify_report_audited[OF v assms(5,4,6)]
  have "audited verify k st1 r0 u0" using a(2) same_ledger_item[OF a(1)] by (simp add: audited_def)
  from rewrite_once_audited(2)[OF rw this assms(5,6)] fb have "audited verify k st1 r1 u" by blast
  then have "confirmed verify k (sentence_id (sec_key sec) i) (sentence_item st1 (sec_key sec) i s)"
    using i assms(11) unfolding audited_def by blast
  then show ?thesis using same_ledger_item[OF a(1)] by auto
qed

section \<open>What a draft already satisfies\<close>

lemma labelled_contested:
  "contested_ids st (label_sentence st key t) \<noteq> [] \<Longrightarrow> key \<noteq> CONFLICTING \<Longrightarrow> LABEL_UNCERTAIN \<in> set (s_labels (label_sentence st key t))"
proof -
  assume c: "contested_ids st (label_sentence st key t) \<noteq> []" and key: "key \<noteq> CONFLICTING"
  have ids: "s_cluster_ids (label_sentence st key t) = s_cluster_ids t" by (simp add: label_sentence_def Let_def)
  obtain i x where "i \<in> set (s_cluster_ids t)" "dget (rs_clusters st) i = Some x" "k_status x = CONTESTED"
    using c by (auto simp: contested_ids_def ids filter_empty_conv split: option.splits)
  then have x: "x \<in> set (List.map_filter (dget (rs_clusters st)) (s_cluster_ids t))" "k_status x = CONTESTED"
    by (auto simp: in_set_map_filter)
  then show ?thesis using key by (auto simp: label_sentence_def Let_def list_ex_iff)
qed

lemma labelled_single:
  "only_single st (label_sentence st key t) \<Longrightarrow> LABEL_SINGLE_SOURCE \<in> set (s_labels (label_sentence st key t))"
proof -
  assume o: "only_single st (label_sentence st key t)"
  have "s_cluster_ids (label_sentence st key t) = s_cluster_ids t" by (simp add: label_sentence_def Let_def)
  then show ?thesis using o by (auto simp: only_single_def known_clusters_def label_sentence_def Let_def)
qed

text \<open>A section all of whose sentences carry the labels of the ledger.\<close>

definition well_labelled :: "research_state \<Rightarrow> report_section \<Rightarrow> bool" where
  "well_labelled st sec \<longleftrightarrow> (\<forall>t\<in>set (sec_sentences sec).
     (contested_ids st t \<noteq> [] \<longrightarrow> sec_key sec \<noteq> CONFLICTING \<longrightarrow> LABEL_UNCERTAIN \<in> set (s_labels t))
     \<and> (only_single st t \<longrightarrow> LABEL_SINGLE_SOURCE \<in> set (s_labels t)))"

lemma uncited_labelled: "(\<And>t. t \<in> set ts \<Longrightarrow> s_cluster_ids t = []) \<Longrightarrow> well_labelled st (titled st key ts)"
  by (simp add: well_labelled_def titled_def contested_ids_def only_single_def known_clusters_def)

lemma all_labelled: "well_labelled st (titled st key (map (\<lambda>x. label_sentence st key (f x)) xs))"
  using labelled_contested labelled_single by (fastforce simp: well_labelled_def titled_def)

lemma gap_section_labelled: "well_labelled st (gap_section st)"
  unfolding gap_section_def by (rule uncited_labelled) (auto simp: meta_sentence_def split: if_splits)

lemma draft_labelled:
  "\<forall>sec\<in>set (r_sections (build_report out st)). well_labelled st sec"
  "\<forall>sec\<in>set (r_sections (fallback_report st)). well_labelled st sec"
proof -
  have b: "well_labelled st (built_section st key items)" for key items
    unfolding built_section_def by (rule all_labelled)
  have m: "well_labelled st (titled st key (map recommendation_of xs))" for key xs
    by (rule uncited_labelled) (auto simp: recommendation_of_def)
  have e: "well_labelled st (titled st key [])" for key by (simp add: well_labelled_def titled_def)
  have t: "well_labelled st (titled st key [meta_sentence t []])" for key t
    by (rule uncited_labelled) (simp add: meta_sentence_def)
  have f: "well_labelled st (titled st key (map (ledger_fact st key) xs))" for key xs
    unfolding ledger_fact_def by (rule all_labelled)
  show "\<forall>sec\<in>set (r_sections (build_report out st)). well_labelled st sec"
    by (simp add: build_report_def Let_def b m e gap_section_labelled)
  show "\<forall>sec\<in>set (r_sections (fallback_report st)). well_labelled st sec"
    by (simp add: fallback_report_def Let_def f e t gap_section_labelled)
qed

lemma labelled_rules:
  assumes "\<forall>sec\<in>set (r_sections r). well_labelled st sec"
  shows "g5_contested r st cfg = []" and "g6_single_source r st cfg = []"
  using assms by (auto simp: g5_contested_def g6_single_source_def filter_empty_conv in_addressed well_labelled_def)

lemma gap_listed:
  assumes "report_section_of r KNOWN_GAPS = Some (gap_section st)"
  shows "g7_known_gaps r st cfg = []"
proof -
  have "sq_id s \<in> set (listed_gaps r)" if "s \<in> set (rs_plan st)" "sq_status s = EXHAUSTED" for s
  proof -
    have "\<exists>q a. (sq_id s, q, a) \<in> set (report_gaps st)" using that by (force simp: report_gaps_def gap_of_def)
    then have "GAP_LABEL_PREFIX @ sq_id s \<in> set (concat (map s_labels (sec_sentences (gap_section st))))"
      by (force simp: gap_section_def titled_def meta_sentence_def)
    moreover have "removeprefix (GAP_LABEL_PREFIX @ sq_id s) GAP_LABEL_PREFIX = sq_id s" by (simp add: removeprefix_def)
    ultimately show ?thesis using assms by (force simp: listed_gaps_def)
  qed
  then show ?thesis by (auto simp: g7_known_gaps_def filter_empty_conv)
qed

lemma draft_gaps:
  "report_section_of (build_report out st) KNOWN_GAPS = Some (gap_section st)"
  "report_section_of (fallback_report st) KNOWN_GAPS = Some (gap_section st)"
  by (simp_all add: report_section_of_def build_report_def fallback_report_def Let_def built_section_def titled_def gap_section_def)

text \<open>The sections every draft has.\<close>

definition drafted_names :: "str list" where
  "drafted_names = map key_value [SUMMARY, KEY_FINDINGS, CONFLICTING, CONCLUSION, KNOWN_GAPS, SOURCES]"

lemma draft_names:
  "set drafted_names \<subseteq> set (map (\<lambda>s. key_value (sec_key s)) (r_sections (build_report out st)))"
  "set drafted_names \<subseteq> set (map (\<lambda>s. key_value (sec_key s)) (r_sections (fallback_report st)))"
  by (simp_all add: drafted_names_def build_report_def fallback_report_def Let_def built_section_def titled_def gap_section_def)

lemma drafted:
  assumes "draft_report predict today k st w = (Inr r, w')"
  shows "r = fallback_report st \<or> (\<exists>out. r = build_report out st)"
proof (cases "rs_clusters st = []")
  case False
  obtain a w1 where s: "synthesise predict today k [] st w = (a, w1)" by fastforce
  then obtain r1 where a: "a = Inr r1" using assms False by (cases a) (auto simp: draft_report_def)
  show ?thesis
    using assms False s a synthesise_cases by (auto simp: draft_report_def split: if_splits)
qed (use assms in \<open>simp add: draft_report_def\<close>)

text \<open>
  C29. Whatever the model answers, a draft has distinct sections with all the standard ones, states every contested
  or single-source finding with its label and lists every sub-question left open: the rules G5, G6 and G7 of the
  gate find nothing, and G1 misses no section the configuration asks for among the standard ones.
\<close>

theorem drafts_follow_ledger:
  assumes "synthesize predict today k st w = (Inr st', w')"
  shows "\<exists>r. rs_report st' = Some r \<and> st' = st\<lparr>rs_report := Some r\<rparr> \<and> distinct (keys_of r)
    \<and> g5_contested r st' cfg = [] \<and> g6_single_source r st' cfg = [] \<and> g7_known_gaps r st' cfg = []
    \<and> (set (gc_required_sections cfg) \<subseteq> set drafted_names \<longrightarrow> set (g1_sections r st' cfg) \<subseteq> {no_findings})"
proof -
  obtain r0 w1 r where d: "draft_report predict today k st w = (Inr r0, w1)" "rebuild_sources st r0 = Inr r"
    and st': "st' = st\<lparr>rs_report := Some r\<rparr>"
    using assms by (auto simp: synthesize_def split: prod.splits sum.splits)
  have sec: "r_sections r = r_sections r0" using rebuilt_same[OF d(2)] by simp
  have c: "r0 = fallback_report st \<or> (\<exists>out. r0 = build_report out st)" by (rule drafted[OF d(1)])
  have "distinct (keys_of r0)" using c distinct_built distinct_fallback by blast
  then have k: "distinct (keys_of r)" by (simp add: keys_of_def sec)
  have l: "\<forall>sec\<in>set (r_sections r). well_labelled st sec" unfolding sec using c draft_labelled by blast
  have g: "report_section_of r KNOWN_GAPS = Some (gap_section st)"
    using c draft_gaps unfolding report_section_of_def sec by blast
  have n: "set drafted_names \<subseteq> set (map (\<lambda>s. key_value (sec_key s)) (r_sections r))"
    unfolding sec using c draft_names by blast
  have "set (required_names cfg st) \<subseteq> set drafted_names" if "set (gc_required_sections cfg) \<subseteq> set drafted_names"
    using that by (auto simp: required_names_def drafted_names_def)
  then have "set (g1_sections r st cfg) \<subseteq> {no_findings}" if "set (gc_required_sections cfg) \<subseteq> set drafted_names"
    using that n by (fastforce simp: g1_sections_def split: option.splits if_splits)
  moreover have "g5_contested r st' cfg = g5_contested r st cfg" "g6_single_source r st' cfg = g6_single_source r st cfg"
      "g7_known_gaps r st' cfg = g7_known_gaps r st cfg" "g1_sections r st' cfg = g1_sections r st cfg"
    unfolding st' by (simp_all add: g5_contested_def g6_single_source_def g7_known_gaps_def g1_sections_def contested_ids_def
        only_single_def known_clusters_def required_names_def plan_exhausted_def cong: option.case_cong)
  ultimately show ?thesis using k labelled_rules[OF l] gap_listed[OF g] st' by auto
qed

end
