(* ===== verification/SearchProps.thy ===== *)
theory SearchProps
  imports SearchGateway Demo
begin

text \<open>
  Properties of the search gateway: one logical search counts once and asks providers a bounded number
  of times, only live ones of the chain; it finds something or says why not; it raises only when every
  key was rejected. All of it is read off one description of a pass through the world, \<open>searching\<close>.
\<close>

text \<open>
  From \<open>w\<close> to \<open>w'\<close> at most \<open>n\<close> requests were sent, all recorded searches went to providers in \<open>ps\<close>,
  only keys of these can be newly rejected, and meter and timeline are kept.
\<close>

definition searching :: "nat \<Rightarrow> str list \<Rightarrow> llm_world \<Rightarrow> llm_world \<Rightarrow> bool" where
  "searching n ps w w' \<longleftrightarrow> lw_meter w' = lw_meter w \<and> lw_searched w \<le> lw_searched w' \<and> lw_searched w' \<le> lw_searched w + n
     \<and> prefix (lw_timeline w) (lw_timeline w') \<and> cl_llm_calls (lw_log w') = cl_llm_calls (lw_log w)
     \<and> (\<exists>new. cl_search_calls (lw_log w') = cl_search_calls (lw_log w) @ new \<and> sr_provider ` set new \<subseteq> set ps)
     \<and> set (dkeys (lw_search_rejected w)) \<subseteq> set (dkeys (lw_search_rejected w'))
     \<and> set (dkeys (lw_search_rejected w')) \<subseteq> set (dkeys (lw_search_rejected w)) \<union> set ps"

lemma searching_refl: "searching n ps w w"
  by (simp add: searching_def)

lemma searching_trans:
  assumes "searching m ps w w1" and "searching n ps w1 w2"
  shows "searching (m + n) ps w w2"
proof -
  obtain a b where "cl_search_calls (lw_log w1) = cl_search_calls (lw_log w) @ a" "sr_provider ` set a \<subseteq> set ps"
    "cl_search_calls (lw_log w2) = cl_search_calls (lw_log w1) @ b" "sr_provider ` set b \<subseteq> set ps"
    using assms unfolding searching_def by auto
  then have "\<exists>new. cl_search_calls (lw_log w2) = cl_search_calls (lw_log w) @ new \<and> sr_provider ` set new \<subseteq> set ps"
    by (intro exI[of _ "a @ b"]) auto
  moreover have "set (dkeys (lw_search_rejected w2)) \<subseteq> set (dkeys (lw_search_rejected w)) \<union> set ps"
  proof -
    have "set (dkeys (lw_search_rejected w2)) \<subseteq> set (dkeys (lw_search_rejected w1)) \<union> set ps"
      "set (dkeys (lw_search_rejected w1)) \<subseteq> set (dkeys (lw_search_rejected w)) \<union> set ps"
      using assms unfolding searching_def by simp_all
    then show ?thesis by blast
  qed
  moreover have "set (dkeys (lw_search_rejected w)) \<subseteq> set (dkeys (lw_search_rejected w2))"
    by (rule subset_trans[of _ "set (dkeys (lw_search_rejected w1))"]) (use assms in \<open>simp_all add: searching_def\<close>)
  moreover have "prefix (lw_timeline w) (lw_timeline w2)"
    by (rule prefix_order.trans[of _ "lw_timeline w1"]) (use assms in \<open>simp_all add: searching_def\<close>)
  ultimately show ?thesis using assms unfolding searching_def by simp
qed

lemma searching_mono:
  assumes "searching m ps w w'" and "m \<le> n" and "set ps \<subseteq> set qs"
  shows "searching n qs w w'"
proof -
  obtain new where "cl_search_calls (lw_log w') = cl_search_calls (lw_log w) @ new" "sr_provider ` set new \<subseteq> set ps"
    using assms(1) unfolding searching_def by auto
  then have "\<exists>new. cl_search_calls (lw_log w') = cl_search_calls (lw_log w) @ new \<and> sr_provider ` set new \<subseteq> set qs"
    using assms(3) by (intro exI[of _ new]) simp
  moreover have "set (dkeys (lw_search_rejected w')) \<subseteq> set (dkeys (lw_search_rejected w)) \<union> set qs"
    using assms(1,3) unfolding searching_def by blast
  ultimately show ?thesis using assms(1,2) unfolding searching_def by simp
qed

lemma mem_error_prefix: "prefix evs (mem_error k e a evs)"
  by (simp add: mem_error_def mem_emit_def Let_def prefix_def)

lemma mem_info_prefix: "prefix evs (mem_info k t m a evs)"
  by (simp add: mem_info_def mem_emit_def Let_def prefix_def)

lemma searching_say_error: "searching 0 ps w (say_error k e w)"
  by (simp add: searching_def say_error_def mem_error_prefix)

lemma searching_announce: "searching 0 ps w (announce k p q hits c w)"
  by (simp add: searching_def announce_def say_info_def mem_info_prefix)

lemma searching_record: "p \<in> set ps \<Longrightarrow> searching 0 ps w (record_search env k p rq subq st c l h code w)"
  by (simp add: searching_def record_search_def record_search_call_def)

lemma searching_cache:
  "searching 0 ps w (snd (read_cache env g key w))" "searching 0 ps w (write_cache g key p q hits w)"
  by (simp_all add: searching_def read_cache_def write_cache_def)

lemma searching_reject:
  "p \<in> set ps \<Longrightarrow> searching 0 ps w (w\<lparr>lw_search_rejected := dput p r (lw_search_rejected w)\<rparr>)"
  by (auto simp: searching_def)

lemma searching_ask: "searching 1 ps w (w\<lparr>lw_searched := lw_searched w + 1\<rparr>)"
  by (simp add: searching_def)

lemma searching_slept: "searching n ps w (w'\<lparr>lw_slept := x\<rparr>) = searching n ps w w'"
  by (simp add: searching_def)

text \<open>The attempts at one provider.\<close>

lemma call_provider_searching:
  "attempt \<le> hs_retries (sg_settings g) + 1 \<Longrightarrow>
     searching (hs_retries (sg_settings g) + 2 - attempt) ps w (snd (call_provider env g k name rq next attempt w))"
proof (induction env g k name rq "next" attempt w rule: call_provider.induct)
  case (1 env g k name rq "next" attempt w)
  let ?w1 = "w\<lparr>lw_searched := lw_searched w + 1\<rparr>" and ?n = "hs_retries (sg_settings g) + 2 - attempt"
  have one: "1 \<le> ?n" using 1(2) by simp
  show ?case
  proof (cases "en_search env (lw_searched w) name rq")
    case (Inr result)
    then show ?thesis
      using searching_mono[OF searching_ask one subset_refl] by (subst call_provider.simps) simp
  next
    case (Inl e)
    show ?thesis
    proof (cases "xe_retryable e \<and> attempt < hs_retries (sg_settings g) + 1")
      case True
      let ?w2 = "(say_error k (retry_search_notice k name e attempt (hs_retries (sg_settings g) + 1)) ?w1)
        \<lparr>lw_slept := lw_slept w @ [search_delay attempt]\<rparr>"
      have a: "searching (1 + 0) ps w ?w2"
        unfolding searching_slept by (rule searching_trans[OF searching_ask searching_say_error])
      have b: "searching (hs_retries (sg_settings g) + 2 - (attempt + 1)) ps ?w2
          (snd (call_provider env g k name rq next (attempt + 1) ?w2))"
        using 1(1)[OF refl refl Inl True] True by simp
      have c: "searching ?n ps w (snd (call_provider env g k name rq next (attempt + 1) ?w2))"
        by (rule searching_mono[OF searching_trans[OF a b]]) (use True in \<open>auto simp: Suc_diff_le\<close>)
      show ?thesis by (subst call_provider.simps) (use True Inl c in \<open>simp add: Let_def\<close>)
    next
      case False
      have c: "searching ?n ps w (say_error k (give_up_notice k name e attempt next) ?w1)"
        by (rule searching_mono[OF searching_trans[OF searching_ask[of ps] searching_say_error]]) (use one in simp_all)
      show ?thesis by (subst call_provider.simps) (use False Inl c in auto)
    qed
  qed
qed

lemma call_provider_first:
  "searching (hs_retries (sg_settings g) + 1) ps w (snd (call_provider env g k name rq next 1 w))"
  using call_provider_searching[of 1 g ps w env k name rq "next"] by simp

text \<open>An outcome of the loop over the providers \<open>ps\<close>.\<close>

definition outcome_ok :: "search_request \<Rightarrow> str list \<Rightarrow> search_outcome \<Rightarrow> bool" where
  "outcome_ok rq ps o' \<longleftrightarrow> so_query o' = rq_query rq
     \<and> (if so_hits o' \<noteq> [] then so_error_code o' = None \<and> (\<exists>p\<in>set ps. so_provider o' = Some p)
        else so_error_code o' \<noteq> None \<and> so_provider o' = None)"

lemma outcome_mono: "outcome_ok rq ps o' \<Longrightarrow> set ps \<subseteq> set qs \<Longrightarrow> outcome_ok rq qs o'"
  by (auto simp: outcome_ok_def split: if_splits)

lemma after_call_searching:
  assumes "name \<in> set ps"
  shows "searching 0 ps w (snd (after_call env g k rq subq name next answer w))"
    and "fst (after_call env g k rq subq name next answer w) = Inr o' \<Longrightarrow> outcome_ok rq ps o'"
proof -
  show "searching 0 ps w (snd (after_call env g k rq subq name next answer w))"
  proof (cases answer)
    case (Inl e)
    have "searching (0 + 0) ps w (record_search env k name rq subq st c l h code
        (w\<lparr>lw_search_rejected := dput name (xe_message e) (lw_search_rejected w)\<rparr>))" for st c l h code
      by (rule searching_trans[OF searching_reject searching_record]) (rule assms)+
    then show ?thesis using searching_record[OF assms] Inl by (auto simp: after_call_def Let_def)
  next
    case (Inr r)
    obtain hits l where r: "r = (hits, l)" by fastforce
    let ?w1 = "record_search env k name rq subq (lit ''ok'') (length hits) l False None w"
    let ?w2 = "write_cache g (cache_key (en_digest env) (JStr (lit ''search'') # cache_parts rq name)) name (rq_query rq) hits ?w1"
    have a: "searching (0 + 0) ps w ?w2"
      by (rule searching_trans[OF searching_record[OF assms] searching_cache(2)])
    have "searching (0 + 0) ps w (say_error k x ?w2)" "searching (0 + 0) ps w (announce k name q hits c ?w2)" for x q c
      using searching_trans[OF a searching_say_error] searching_trans[OF a searching_announce] by simp_all
    then show ?thesis using Inr r by (cases "hits = []") (simp_all add: after_call_def Let_def)
  qed
  show "fst (after_call env g k rq subq name next answer w) = Inr o' \<Longrightarrow> outcome_ok rq ps o'"
    using assms by (auto simp: after_call_def Let_def outcome_ok_def found_by_def split: sum.splits prod.splits if_splits)
qed

lemma search_loop_searching:
  "searching (length order * (hs_retries (sg_settings g) + 1)) order w (snd (search_loop env g k rq subq code order w))
   \<and> (\<forall>o'. fst (search_loop env g k rq subq code order w) = Inr o' \<longrightarrow> outcome_ok rq order o')
   \<and> (\<forall>e. fst (search_loop env g k rq subq code order w) = Inl e \<longrightarrow> ae_code e = SEARCH_AUTH \<and> sg_chain g \<noteq> []
        \<and> (\<forall>p\<in>set (sg_chain g). dmem p (lw_search_rejected (snd (search_loop env g k rq subq code order w)))))"
  (is "?P order code w")
proof (induction order arbitrary: code w)
  case Nil
  show ?case
    by (auto simp: searching_refl nothing_found_def outcome_ok_def search_keys_rejected_def gateway_error_def list_all_iff)
next
  case (Cons name order)
  let ?ps = "name # order" and ?r = "hs_retries (sg_settings g) + 1"
  let ?next = "case order of [] \<Rightarrow> None | n # _ \<Rightarrow> Some n"
  let ?key = "cache_key (en_digest env) (JStr (lit ''search'') # cache_parts rq name)"
  have mem: "name \<in> set ?ps" by simp
  obtain cached w1 where c: "read_cache env g ?key w = (cached, w1)" by fastforce
  let ?w2 = "case cached of None \<Rightarrow> w1
    | Some hits \<Rightarrow> record_search env k name rq subq (lit ''ok'') (length hits) 0 True None w1"
  have w1: "searching 0 ?ps w w1" using searching_cache(1)[of ?ps w env g ?key] c by simp
  have "searching (0 + 0) ?ps w ?w2"
    using w1 searching_trans[OF w1 searching_record[OF mem]] by (cases cached) simp_all
  then have w2: "searching 0 ?ps w ?w2" by simp
  show ?case
  proof (cases "\<exists>h hits. cached = Some (h # hits)")
    case True
    then obtain h hits where h: "cached = Some (h # hits)" by blast
    let ?w' = "announce k name (rq_query rq) (h # hits) True ?w2"
    have "searching (0 + 0) ?ps w ?w'" by (rule searching_trans[OF w2 searching_announce])
    then have "searching (length ?ps * ?r) ?ps w ?w'" by (rule searching_mono) simp_all
    then show ?thesis using c h by (simp add: outcome_ok_def found_by_def)
  next
    case False
    obtain answer w3 where call: "call_provider env g k name rq ?next 1 ?w2 = (answer, w3)" by fastforce
    obtain r w4 where after: "after_call env g k rq subq name ?next answer w3 = (r, w4)" by fastforce
    have e: "search_loop env g k rq subq code ?ps w
        = (case r of Inr o' \<Rightarrow> (Inr o', w4) | Inl code \<Rightarrow> search_loop env g k rq subq code order w4)"
      using False c call after by (auto simp: Let_def split: option.splits list.splits sum.splits)
    have "searching ?r ?ps ?w2 w3" using call_provider_first[of g ?ps ?w2 env k name rq ?next] call by simp
    moreover have "searching 0 ?ps w3 w4" using after_call_searching(1)[OF mem, of w3 env g k rq subq ?next answer] after by simp
    ultimately have w4: "searching ?r ?ps w w4" using searching_trans[OF searching_trans[OF w2]] by fastforce
    show ?thesis
    proof (cases r)
      case (Inr o')
      have "outcome_ok rq ?ps o'" using after_call_searching(2)[OF mem, of env g k rq subq ?next answer w3 o'] after Inr by simp
      moreover have "searching (length ?ps * ?r) ?ps w w4" by (rule searching_mono[OF w4]) simp_all
      ultimately show ?thesis unfolding e using Inr by simp
    next
      case (Inl code')
      note IH = Cons.IH[of w4 code']
      let ?rest = "search_loop env g k rq subq code' order w4"
      have "searching (length order * ?r) ?ps w4 (snd ?rest)"
        by (rule searching_mono[OF conjunct1[OF IH]]) auto
      note this = searching_trans[OF w4 this]
      then have "searching (length ?ps * ?r) ?ps w (snd ?rest)" by (simp add: algebra_simps)
      then show ?thesis unfolding e using Inl IH outcome_mono[of rq order _ ?ps] by auto
    qed
  qed
qed

lemma search_order_set:
  "set (search_order preferred live) = set live" "length (search_order preferred live) = length live"
proof -
  have "set (p # remove1 p xs) = set xs \<and> length (p # remove1 p xs) = length xs" if "p \<in> set xs" for p and xs :: "str list"
    using that by (induction xs) auto
  then show "set (search_order preferred live) = set live" "length (search_order preferred live) = length live"
    by (auto simp: search_order_def split: option.split)
qed

text \<open>
  C32. One logical search counts once against the budget, whatever happens, sends at most
  (retries + 1) requests per provider of the chain, and only to providers whose key was not rejected
  before; all recorded searches are of these. It returns results of one of them, or none with an
  error code; it raises only with \<open>SEARCH_AUTH\<close> and only when the keys of all providers were rejected.
\<close>

theorem search_call_ends:
  assumes "search_call env g k rq subq preferred w = (r, w')"
  defines "live \<equiv> filter (\<lambda>n. \<not> dmem n (lw_search_rejected w)) (sg_chain g)"
  shows "searching (length (sg_chain g) * (hs_retries (sg_settings g) + 1)) live
      (w\<lparr>lw_meter := add_search 1 (lw_meter w)\<rparr>) w'
    \<and> (\<forall>o'. r = Inr o' \<longrightarrow> outcome_ok rq live o')
    \<and> (\<forall>e. r = Inl e \<longrightarrow> ae_code e = SEARCH_AUTH \<and> sg_chain g \<noteq> [] \<and> (\<forall>p\<in>set (sg_chain g). dmem p (lw_search_rejected w')))"
proof -
  let ?w1 = "w\<lparr>lw_meter := add_search 1 (lw_meter w)\<rparr>" and ?r = "hs_retries (sg_settings g) + 1"
  let ?order = "search_order preferred live" and ?n = "length (sg_chain g) * (hs_retries (sg_settings g) + 1)"
  note l = search_loop_searching[of "?order" g ?w1 env k rq subq SEARCH_PROVIDER_ERROR]
  have n: "length ?order * ?r \<le> ?n" unfolding search_order_set live_def by (rule mult_le_mono1) (rule length_filter_le)
  have live: "filter (\<lambda>n. \<not> dmem n (lw_search_rejected ?w1)) (sg_chain g) = live" by (simp add: live_def)
  consider (rejected) "sg_chain g \<noteq> []" "live = []" | (no_key) "sg_chain g = []" | (asked) "live \<noteq> []" by (cases "live = []") auto
  then show ?thesis
  proof cases
    case rejected
    then have "r = Inl (search_keys_rejected k ?w1)" "w' = ?w1" using assms(1) live by (auto simp: search_call_def Let_def)
    moreover have "\<forall>p\<in>set (sg_chain g). dmem p (lw_search_rejected ?w1)"
      using rejected(2) by (auto simp: live_def filter_empty_conv)
    ultimately show ?thesis using rejected(1) by (simp add: searching_refl search_keys_rejected_def gateway_error_def)
  next
    case no_key
    then have "live = []" "?order = []" by (simp_all add: live_def search_order_def split: option.split)
    then have "r = Inr (nothing_found rq SEARCH_AUTH)" "w' = say_error k (no_search_key k) ?w1"
      using assms(1) live no_key by (auto simp: search_call_def Let_def)
    then show ?thesis using searching_mono[OF searching_say_error, of ?n live live]
      by (simp add: outcome_ok_def nothing_found_def)
  next
    case asked
    then have "?order \<noteq> []" by (metis search_order_set(2) length_0_conv)
    then have e: "search_loop env g k rq subq SEARCH_PROVIDER_ERROR ?order ?w1 = (r, w')"
      using assms(1) live asked by (simp add: search_call_def Let_def)
    have "searching ?n live ?w1 w'"
    proof (rule searching_mono[OF _ n])
      show "searching (length ?order * ?r) ?order ?w1 w'" using conjunct1[OF l] e by simp
    qed (simp only: search_order_set(1) subset_refl)
    moreover have "outcome_ok rq live o'" if "r = Inr o'" for o'
      using l e that outcome_mono[of rq ?order o' live] by (simp add: search_order_set)
    ultimately show ?thesis using l e by simp
  qed
qed

text \<open>
  A search the cache can answer gives the stored results, sends no request and records a cache
  hit, and counts against the budget exactly as the search that went to the provider.
\<close>

lemma cached_search_counts_alike:
  assumes "sg_cache_enabled g" and "search_order preferred (filter (\<lambda>n. \<not> dmem n (lw_search_rejected w)) (sg_chain g)) = p # ps"
    and "en_cached env (lw_cache_reads w) (cache_key (en_digest env) (JStr (lit ''search'') # cache_parts rq p)) = Some (h # hits)"
    and "search_call env g k rq subq preferred w = (r, w')"
  shows "r = Inr (found_by rq p (h # hits) True) \<and> lw_searched w' = lw_searched w
    \<and> lw_meter w' = add_search 1 (lw_meter w)"
proof -
  have "filter (\<lambda>n. \<not> dmem n (lw_search_rejected w)) (sg_chain g) \<noteq> []"
    using assms(2) search_order_set(2)[of preferred] by (metis length_0_conv list.distinct(1))
  then show ?thesis
    using assms by (auto simp: search_call_def read_cache_def announce_def say_info_def record_search_def)
qed

section \<open>One search of one provider\<close>

definition demo_hit :: search_hit where
  "demo_hit = \<lparr>sh_url = [117], sh_title = [], sh_snippet = [], sh_content = None, sh_published_at = None,
     sh_provider = [112], sh_rank = 0, sh_provider_score = None\<rparr>"

definition demo_search_env :: search_env where
  "demo_search_env = \<lparr>en_search = \<lambda>n p rq. Inr ([demo_hit], 5), en_cached = \<lambda>n key. None, en_digest = \<lambda>parts. [],
     en_span = \<lambda>n. [], en_repr = id\<rparr>"

definition demo_search_gateway :: search_gateway where
  "demo_search_gateway = \<lparr>sg_providers = [[112]], sg_order = [[112], [113]], sg_settings = default_search_settings,
     sg_cache_enabled = True\<rparr>"

definition demo_request :: search_request where
  "demo_request = \<lparr>rq_query = [120], rq_max_results = 3, rq_language = None, rq_start_date = None, rq_end_date = None\<rparr>"

lemma demo_search:
  "\<exists>w'. search_call demo_search_env demo_search_gateway k rq subq None demo_world
     = (Inr (found_by rq [112] [demo_hit] False), w')"
  by (simp add: search_call_def search_order_def demo_search_gateway_def sg_chain_def demo_world_def read_cache_def
    call_provider.simps demo_search_env_def after_call_def)

theorem search_call_ends_witness:
  "\<exists>w'. search_call demo_search_env demo_search_gateway demo_sink demo_request None None demo_world
     = (Inr (found_by demo_request [112] [demo_hit] False), w')
     \<and> bm_searches (lw_meter w') = 1 \<and> lw_searched w' \<le> 3"
proof -
  obtain w' where w: "search_call demo_search_env demo_search_gateway demo_sink demo_request None None demo_world
      = (Inr (found_by demo_request [112] [demo_hit] False), w')" using demo_search by blast
  have "hs_retries (sg_settings demo_search_gateway) = 2" "length (sg_chain demo_search_gateway) = 1"
    by (simp_all add: demo_search_gateway_def default_search_settings_def sg_chain_def)
  then have "bm_searches (lw_meter w') = 1 \<and> lw_searched w' \<le> 3"
    using search_call_ends[OF w] by (simp add: searching_def demo_world_def add_search_def meter_init_def)
  then show ?thesis using w by blast
qed

end
