(* ===== verification/SearchNodeProps.thy ===== *)
theory SearchNodeProps
  imports SearchNode SearchProps NodeBase
begin

text \<open>
  Properties of the node \<open>search\<close>: every planned query of the round is settled, the search budget is
  never exceeded, and the queries added are broadened ones, at most one for each that was planned.
\<close>

section \<open>Queries by id\<close>

definition queries_numbered :: "research_state \<Rightarrow> bool" where
  "queries_numbered st \<longleftrightarrow> map q_id (rs_queries st) = map (next_id (lit ''q'')) [0..<length (rs_queries st)]"

text \<open>The queries of the round still planned, by id.\<close>

definition open_queries :: "research_state \<Rightarrow> str set" where
  "open_queries st = q_id ` set (planned_queries st)"

lemma queries_distinct: "queries_numbered st \<Longrightarrow> distinct (map q_id (rs_queries st))"
  by (auto simp: queries_numbered_def distinct_map inj_on_def)

lemma update_first_map:
  "distinct (map f xs) \<Longrightarrow> update_first (\<lambda>x. f x = i) g xs = map (\<lambda>x. if f x = i then g x else x) xs"
proof (induction xs)
  case (Cons x xs)
  have "f y \<noteq> f x" if "y \<in> set xs" for y
    using Cons.prems image_eqI[OF refl that, of f] by (simp, metis)
  then have "map (\<lambda>y. if f y = f x then g y else y) xs = xs" by (intro map_idI) simp
  then show ?case using Cons by auto
qed simp

lemma update_query_spec:
  assumes "queries_numbered st" and "\<And>q. q_id (f q) = q_id q" and "\<And>q. q_iteration (f q) = q_iteration q"
    and "\<And>q. q_status (f q) \<noteq> PLANNED"
  shows "queries_numbered (update_query i f st)" and "open_queries (update_query i f st) = open_queries st - {i}"
    and "length (rs_queries (update_query i f st)) = length (rs_queries st)"
proof -
  have e: "rs_queries (update_query i f st) = map (\<lambda>q. if q_id q = i then f q else q) (rs_queries st)"
    by (simp add: update_query_def update_first_map[OF queries_distinct[OF assms(1)]])
  have "map q_id (rs_queries (update_query i f st)) = map q_id (rs_queries st)"
    unfolding e by (simp add: assms(2))
  moreover show l: "length (rs_queries (update_query i f st)) = length (rs_queries st)" unfolding e by simp
  ultimately show "queries_numbered (update_query i f st)" using assms(1) unfolding queries_numbered_def l by (simp only:)
  have "rs_iteration (update_query i f st) = rs_iteration st" by (simp add: update_query_def)
  moreover have "filter (\<lambda>q. q_iteration q = n \<and> q_status q = PLANNED) (map (\<lambda>q. if q_id q = i then f q else q) qs)
      = filter (\<lambda>q. (q_iteration q = n \<and> q_status q = PLANNED) \<and> q_id q \<noteq> i) qs" for n qs
    by (induction qs) (simp_all add: assms(4))
  ultimately show "open_queries (update_query i f st) = open_queries st - {i}"
    unfolding open_queries_def planned_queries_def e by auto
qed

lemma append_query_spec:
  assumes "queries_numbered st" and "q_id q = next_id (lit ''q'') (length (rs_queries st))"
  shows "queries_numbered (st\<lparr>rs_queries := rs_queries st @ [q]\<rparr>)"
    and "open_queries (st\<lparr>rs_queries := rs_queries st @ [q]\<rparr>) \<subseteq> open_queries st \<union> {q_id q}"
  using assms by (auto simp: queries_numbered_def open_queries_def planned_queries_def)

text \<open>What the node leaves alone, and how the meter moves.\<close>

definition searched_only :: "research_state \<Rightarrow> research_state \<Rightarrow> bool" where
  "searched_only st st' \<longleftrightarrow>
     st'\<lparr>rs_queries := rs_queries st, rs_pending_hits := rs_pending_hits st\<rparr> = st"

lemma searched_only_refl [simp]: "searched_only st st"
  by (simp add: searched_only_def)

lemma searched_only_iff:
  "searched_only st st' \<longleftrightarrow> (\<exists>qs hs. st' = st\<lparr>rs_queries := qs, rs_pending_hits := hs\<rparr>)"
proof
  assume "searched_only st st'"
  then have "st' = st\<lparr>rs_queries := rs_queries st', rs_pending_hits := rs_pending_hits st'\<rparr>"
    by (cases st; cases st') (simp add: searched_only_def)
  then show "\<exists>qs hs. st' = st\<lparr>rs_queries := qs, rs_pending_hits := hs\<rparr>" by blast
qed (auto simp: searched_only_def)

lemma searched_only_trans: "searched_only st st1 \<Longrightarrow> searched_only st1 st2 \<Longrightarrow> searched_only st st2"
  unfolding searched_only_iff by fastforce

lemma searched_only_steps [simp]:
  "searched_only st (update_query i f st)" "searched_only st (st\<lparr>rs_queries := qs\<rparr>)" "searched_only st (add_hits q hs st)"
  by (simp_all add: searched_only_def update_query_def add_hits_def)

lemma searched_only_iteration: "searched_only st st' \<Longrightarrow> rs_iteration st' = rs_iteration st"
  by (auto simp: searched_only_iff)

definition within_searches :: "budget_meter \<Rightarrow> budget_meter \<Rightarrow> bool" where
  "within_searches m m' \<longleftrightarrow> bm_settings m' = bm_settings m \<and> bm_searches m \<le> bm_searches m'
     \<and> bm_searches m' \<le> max (bm_searches m) (bs_max_searches (bm_settings m))"

lemma within_searches_refl [simp]: "within_searches m m"
  by (simp add: within_searches_def)

lemma within_searches_trans: "within_searches m m1 \<Longrightarrow> within_searches m1 m2 \<Longrightarrow> within_searches m m2"
  by (auto simp: within_searches_def)

lemma within_searches_one: "0 < searches_left m \<Longrightarrow> within_searches m (add_search 1 m)"
  by (simp add: within_searches_def searches_left_def add_search_def)

section \<open>One query\<close>

definition only_keys_rejected :: "node_exception \<Rightarrow> bool" where
  "only_keys_rejected x \<longleftrightarrow> (\<exists>e. x = Search_keys_rejected e \<and> ae_code e = SEARCH_AUTH)"

lemma settle_query_simps [simp]:
  "q_id (settle_query o' q) = q_id q" "q_iteration (settle_query o' q) = q_iteration q" "q_status (settle_query o' q) \<noteq> PLANNED"
  by (simp_all add: settle_query_def)

lemma add_hits_queries [simp]:
  "rs_queries (add_hits q hs st) = rs_queries st" "queries_numbered (add_hits q hs st) = queries_numbered st"
  "open_queries (add_hits q hs st) = open_queries st"
  by (simp_all add: add_hits_def queries_numbered_def open_queries_def planned_queries_def)

lemma run_once_spec:
  assumes "run_once env g k index q st w = (r, w')" and "queries_numbered st"
  shows "within_searches (lw_meter w) (lw_meter w')"
    and "\<And>x. r = Inl x \<Longrightarrow> only_keys_rejected x"
    and "\<And>st' e. r = Inr (st', e) \<Longrightarrow> queries_numbered st' \<and> open_queries st' = open_queries st - {q_id q}
      \<and> length (rs_queries st') = length (rs_queries st) \<and> searched_only st st'"
proof -
  have "within_searches (lw_meter w) (lw_meter w') \<and> (\<forall>x. r = Inl x \<longrightarrow> only_keys_rejected x)
    \<and> (\<forall>st' e. r = Inr (st', e) \<longrightarrow> queries_numbered st' \<and> open_queries st' = open_queries st - {q_id q}
      \<and> length (rs_queries st') = length (rs_queries st) \<and> searched_only st st')"
  proof (cases "searches_left (lw_meter w) = 0")
    case True
    then have "r = Inr (update_query (q_id q) (\<lambda>x. x\<lparr>q_status := SKIPPED_BUDGET\<rparr>) st, False)" "w' = w"
      using assms(1) by (auto simp: run_once_def)
    then show ?thesis using update_query_spec[OF assms(2), of "\<lambda>x. x\<lparr>q_status := SKIPPED_BUDGET\<rparr>" "q_id q"] by simp
  next
    case False
    obtain s w1 where s: "search_call env g k (search_request_of g q) (Some (q_subq_id q)) (preferred_provider g index) w = (s, w1)"
      by fastforce
    note c = search_call_ends[OF s]
    have m: "within_searches (lw_meter w) (lw_meter w1)"
      using conjunct1[OF c] within_searches_one[of "lw_meter w"] False by (simp add: searching_def)
    show ?thesis
    proof (cases s)
      case (Inl e)
      then have "r = Inl (Search_keys_rejected e)" "w' = w1" using assms(1) s False by (auto simp: run_once_def)
      moreover have "ae_code e = SEARCH_AUTH" using c Inl by blast
      ultimately show ?thesis using m by (simp add: only_keys_rejected_def)
    next
      case (Inr o')
      note u = update_query_spec[OF assms(2), of "settle_query o'" "q_id q"]
      have "searched_only st (add_hits q (so_hits o') (update_query (q_id q) (settle_query o') st))"
        by (rule searched_only_trans[OF searched_only_steps(1) searched_only_steps(3)])
      moreover have "r = Inr (add_hits q (so_hits o') (update_query (q_id q) (settle_query o') st), so_hits o' = [] \<and> \<not> so_failed o')"
        "w' = w1" using assms(1) s False Inr by (auto simp: run_once_def Let_def)
      ultimately show ?thesis using m u by simp
    qed
  qed
  then show "within_searches (lw_meter w) (lw_meter w')" "\<And>x. r = Inl x \<Longrightarrow> only_keys_rejected x"
    "\<And>st' e. r = Inr (st', e) \<Longrightarrow> queries_numbered st' \<and> open_queries st' = open_queries st - {q_id q}
      \<and> length (rs_queries st') = length (rs_queries st) \<and> searched_only st st'" by blast+
qed

text \<open>
  The queries the round added: \<open>x\<close> is the broadened form of the planned query \<open>p\<close>, and the added ones belong
  to different planned ones.
\<close>

definition broadened_from :: "query_record \<Rightarrow> query_record \<Rightarrow> bool" where
  "broadened_from p x \<longleftrightarrow> q_purpose p \<noteq> BROADENED \<and> q_purpose x = BROADENED \<and> q_text x = broadened (q_text p)
     \<and> q_text x \<noteq> q_text p \<and> q_subq_id x = q_subq_id p \<and> q_facet_id x = q_facet_id p
     \<and> q_rationale x = (lit ''broadened from '') @ q_id p"

definition same_asked :: "query_record \<Rightarrow> query_record \<Rightarrow> bool" where
  "same_asked p x \<longleftrightarrow> q_id x = q_id p \<and> q_text x = q_text p \<and> q_subq_id x = q_subq_id p \<and> q_facet_id x = q_facet_id p
     \<and> q_purpose x = q_purpose p \<and> q_rationale x = q_rationale p \<and> q_iteration x = q_iteration p"

lemma same_asked_simps [simp]:
  "same_asked q q" "same_asked q (settle_query o' q)" "same_asked q (q\<lparr>q_status := s\<rparr>)"
  by (simp_all add: same_asked_def settle_query_def)

lemma same_asked_trans: "same_asked a b \<Longrightarrow> same_asked b c \<Longrightarrow> same_asked a c"
  by (simp add: same_asked_def)

lemma broadened_from_asked: "broadened_from p x \<Longrightarrow> same_asked x y \<Longrightarrow> broadened_from p y"
  by (auto simp: broadened_from_def same_asked_def)

lemma update_first_all2: "(\<And>x. R x x) \<Longrightarrow> (\<And>x. R x (f x)) \<Longrightarrow> list_all2 R xs (update_first P f xs)"
  by (induction xs) (auto simp: list.rel_refl)

text \<open>What the queries of the state look like beside those the round began with.\<close>

definition asked_since :: "query_record list \<Rightarrow> query_record list \<Rightarrow> query_record list \<Rightarrow> bool" where
  "asked_since qs0 ps qs \<longleftrightarrow> (\<exists>old new. qs = old @ new \<and> list_all2 same_asked qs0 old \<and> list_all2 broadened_from ps new)"

lemma asked_since_update:
  assumes "asked_since qs0 ps qs" and "list_all2 same_asked qs qs'"
  shows "asked_since qs0 ps qs'"
proof -
  obtain old new where q: "qs = old @ new" "list_all2 same_asked qs0 old" "list_all2 broadened_from ps new"
    using assms(1) by (auto simp: asked_since_def)
  obtain old' new' where q': "qs' = old' @ new'" "list_all2 same_asked old old'" "list_all2 same_asked new new'"
    using assms(2) unfolding q(1) by (auto simp: list_all2_append1)
  have "list_all2 same_asked qs0 old'" by (rule list_all2_trans[OF same_asked_trans q(2) q'(2)])
  moreover have "list_all2 broadened_from ps new'" by (rule list_all2_trans[OF broadened_from_asked q(3) q'(3)])
  ultimately show ?thesis using q'(1) unfolding asked_since_def by blast
qed

lemma asked_since_append:
  "asked_since qs0 ps qs \<Longrightarrow> broadened_from p x \<Longrightarrow> asked_since qs0 (ps @ [p]) (qs @ [x])"
  unfolding asked_since_def by (metis append.assoc list_all2_appendI list_all2_Cons list_all2_Nil)

lemma run_once_asked:
  assumes "run_once env g k index q st w = (Inr (st', e), w')"
  shows "list_all2 same_asked (rs_queries st) (rs_queries st')"
  using assms
  by (auto simp: run_once_def Let_def update_query_def intro!: update_first_all2 split: if_splits prod.splits sum.splits)

text \<open>One step of the loop: what the tasks so far (\<open>Q\<close>) have done, \<open>ps\<close> being those that were broadened.\<close>

definition round_run ::
  "research_state \<Rightarrow> llm_world \<Rightarrow> query_record set \<Rightarrow> query_record list \<Rightarrow> research_state \<Rightarrow> llm_world \<Rightarrow> bool" where
  "round_run st0 w0 Q ps st w \<longleftrightarrow> queries_numbered st \<and> open_queries st \<subseteq> open_queries st0 - q_id ` Q
     \<and> set ps \<subseteq> Q \<and> distinct ps \<and> asked_since (rs_queries st0) ps (rs_queries st) \<and> searched_only st0 st
     \<and> within_searches (lw_meter w0) (lw_meter w)"

lemma round_run_start: "queries_numbered st \<Longrightarrow> round_run st w {} [] st w"
  by (simp add: round_run_def asked_since_def list.rel_refl)

text \<open>A run of one query, a retry not yet counted.\<close>

lemma run_once_round:
  assumes "run_once env g k index q st w = (r, w')" and "round_run st0 w0 Q ps st w"
  shows "(\<forall>x. r = Inl x \<longrightarrow> only_keys_rejected x) \<and> within_searches (lw_meter w0) (lw_meter w')"
    and "\<And>st' e. r = Inr (st', e) \<Longrightarrow> round_run st0 w0 Q ps st' w' \<and> open_queries st' = open_queries st - {q_id q}"
proof -
  have n: "queries_numbered st" using assms(2) by (simp add: round_run_def)
  note s = run_once_spec[OF assms(1) n]
  show w: "(\<forall>x. r = Inl x \<longrightarrow> only_keys_rejected x) \<and> within_searches (lw_meter w0) (lw_meter w')"
    using s(1,2) assms(2) within_searches_trans by (auto simp: round_run_def)
  fix st' e assume r: "r = Inr (st', e)"
  have "list_all2 same_asked (rs_queries st) (rs_queries st')" using run_once_asked assms(1) r by blast
  then have "asked_since (rs_queries st0) ps (rs_queries st')"
    using asked_since_update assms(2) unfolding round_run_def by blast
  then show "round_run st0 w0 Q ps st' w' \<and> open_queries st' = open_queries st - {q_id q}"
    using s(3)[OF r] w assms(2) searched_only_trans unfolding round_run_def by blast
qed

lemma retry_round:
  assumes "run_once env g k index x (st1\<lparr>rs_queries := rs_queries st1 @ [x]\<rparr>) w1 = (r, w')"
    and "round_run st0 w0 Q ps st1 w1" and "broadened_from q x" and "q \<in> Q" "q \<notin> set ps"
    and "queries_numbered (st1\<lparr>rs_queries := rs_queries st1 @ [x]\<rparr>)"
    and "open_queries (st1\<lparr>rs_queries := rs_queries st1 @ [x]\<rparr>) \<subseteq> open_queries st1 \<union> {q_id x}"
  shows "(\<forall>e. r = Inl e \<longrightarrow> only_keys_rejected e) \<and> within_searches (lw_meter w0) (lw_meter w')"
    and "\<And>st' e. r = Inr (st', e) \<Longrightarrow> round_run st0 w0 Q (ps @ [q]) st' w'"
proof -
  let ?st = "st1\<lparr>rs_queries := rs_queries st1 @ [x]\<rparr>"
  note s = run_once_spec[OF assms(1,6)]
  show w: "(\<forall>e. r = Inl e \<longrightarrow> only_keys_rejected e) \<and> within_searches (lw_meter w0) (lw_meter w')"
    using s(1,2) assms(2) within_searches_trans by (auto simp: round_run_def)
  fix st' e assume r: "r = Inr (st', e)"
  have "asked_since (rs_queries st0) (ps @ [q]) (rs_queries ?st)"
    using asked_since_append assms(2,3) unfolding round_run_def by simp
  moreover have "list_all2 same_asked (rs_queries ?st) (rs_queries st')" using run_once_asked assms(1) r by blast
  ultimately have "asked_since (rs_queries st0) (ps @ [q]) (rs_queries st')" by (rule asked_since_update)
  moreover have "searched_only st0 st'"
    using searched_only_trans[of st0 st1 st'] searched_only_trans[of st1 ?st st'] searched_only_steps(2)[of st1] s(3)[OF r] assms(2)
    unfolding round_run_def by blast
  moreover have "open_queries st' \<subseteq> open_queries st1" using s(3)[OF r] assms(7) by auto
  ultimately show "round_run st0 w0 Q (ps @ [q]) st' w'"
    using s(3)[OF r] w assms(2,4,5) unfolding round_run_def by auto
qed

text \<open>The second run: it is not broadened again.\<close>

lemma run_broadened:
  assumes "q_purpose q = BROADENED"
  shows "run_query env g k (index, q) st w = (case run_once env g k index q st w of
      (Inl e, w1) \<Rightarrow> (Inl e, w1) | (Inr (st1, _), w1) \<Rightarrow> (Inr st1, w1))"
  by (simp add: run_query.simps wants_retry_def assms split: prod.splits sum.splits)

lemma run_query_spec:
  assumes "run_query env g k (index, q) st w = (r, w')" and "round_run st0 w0 Q ps st w" and "q \<notin> Q"
  shows "(\<forall>x. r = Inl x \<longrightarrow> only_keys_rejected x \<and> within_searches (lw_meter w0) (lw_meter w'))
    \<and> (\<forall>st'. r = Inr st' \<longrightarrow> (\<exists>ps'. round_run st0 w0 (insert q Q) ps' st' w'))"
proof -
  obtain r1 w1 where r1: "run_once env g k index q st w = (r1, w1)" by fastforce
  note s = run_once_round[OF r1 assms(2)]
  have more: "round_run st0 w0 (insert q Q) ps st1 w1" if "round_run st0 w0 Q ps st1 w1" "q_id q \<notin> open_queries st1" for st1 w1
    using that by (auto simp: round_run_def)
  show ?thesis
  proof (cases r1)
    case (Inl x)
    then show ?thesis using assms(1) r1 s(1) by (auto simp: run_query.simps)
  next
    case (Inr p)
    obtain st1 was_empty where p: "p = (st1, was_empty)" by fastforce
    note s1 = s(2)[OF Inr[unfolded p]]
    have rr: "round_run st0 w0 (insert q Q) ps st1 w1" using more s1 by simp
    show ?thesis
    proof (cases "wants_retry q was_empty w1")
      case False
      then show ?thesis using assms(1) r1 Inr p rr by (auto simp: run_query.simps)
    next
      case True
      let ?retry = "broadened_query q st1"
      let ?st = "st1\<lparr>rs_queries := rs_queries st1 @ [?retry]\<rparr>"
      have b: "broadened_from q ?retry" "q_purpose ?retry = BROADENED" "q_id ?retry = next_id (lit ''q'') (length (rs_queries st1))"
        using True by (simp_all add: broadened_from_def broadened_query_def wants_retry_def)
      have n1: "queries_numbered st1" using rr by (simp add: round_run_def)
      note a = append_query_spec[OF n1 b(3)]
      obtain r2 w2 where r2: "run_once env g k index ?retry ?st w1 = (r2, w2)" by fastforce
      have e: "run_query env g k (index, q) st w = (case (r2, w2) of (Inl e, v) \<Rightarrow> (Inl e, v) | (Inr (st2, _), v) \<Rightarrow> (Inr st2, v))"
        using r1 Inr p True r2 by (simp add: run_query.simps[of env g k index q] run_broadened[OF b(2)] Let_def)
      have "q \<notin> set ps" using assms(2,3) by (auto simp: round_run_def)
      note t = retry_round[OF r2 rr b(1) insertI1 this a]
      show ?thesis using e assms(1) t by (auto split: sum.splits prod.splits)
    qed
  qed
qed

lemma run_queries_spec:
  "rfold (run_query env g k) qs st w = (r, w') \<Longrightarrow> round_run st0 w0 Q ps st w \<Longrightarrow>
     distinct (map snd qs) \<Longrightarrow> snd ` set qs \<inter> Q = {} \<Longrightarrow>
     (\<forall>x. r = Inl x \<longrightarrow> only_keys_rejected x \<and> within_searches (lw_meter w0) (lw_meter w'))
     \<and> (\<forall>st'. r = Inr st' \<longrightarrow> (\<exists>ps'. round_run st0 w0 (Q \<union> snd ` set qs) ps' st' w'))"
proof (induction qs arbitrary: st w Q ps)
  case (Cons iq qs)
  obtain index q where iq: "iq = (index, q)" by fastforce
  obtain r1 w1 where r1: "run_query env g k (index, q) st w = (r1, w1)" by fastforce
  have "q \<notin> Q" using Cons.prems(4) iq by auto
  note s = run_query_spec[OF r1 Cons.prems(2) this]
  show ?case
  proof (cases r1)
    case (Inl x)
    then show ?thesis using Cons.prems(1) r1 iq s by auto
  next
    case (Inr st1)
    then have f: "rfold (run_query env g k) qs st1 w1 = (r, w')" using Cons.prems(1) r1 iq by simp
    obtain ps1 where p: "round_run st0 w0 (insert q Q) ps1 st1 w1" using s Inr by blast
    have "snd ` set qs \<inter> insert q Q = {}" using Cons.prems(3,4) iq by auto
    from Cons.IH[OF f p _ this] show ?thesis using Cons.prems(3) iq by simp
  qed
qed auto

section \<open>The round\<close>

lemma within_say [simp]: "lw_meter (say_searched k st w) = lw_meter w"
  by (simp add: say_searched_def say_info_def Let_def)

lemma search_node_round:
  assumes "search_node env g schedule k st w = (r, w')" and "queries_numbered st"
    and "set (schedule (enumerate 0 (planned_queries st))) = set (enumerate 0 (planned_queries st))"
    and "length (schedule (enumerate 0 (planned_queries st))) = length (planned_queries st)"
  shows "(\<forall>x. r = Inl x \<longrightarrow> only_keys_rejected x \<and> within_searches (lw_meter w) (lw_meter w'))
    \<and> (\<forall>st'. r = Inr st' \<longrightarrow> (\<exists>ps. round_run st w (set (planned_queries st)) ps st' w'))"
proof (cases "planned_queries st = []")
  case True
  then have "r = Inr st" "w' = w" using assms(1) by (auto simp: search_node_def)
  then show ?thesis using True round_run_start[OF assms(2)] by auto
next
  case False
  let ?qs = "schedule (enumerate 0 (planned_queries st))"
  obtain r1 w1 where f: "rfold (run_query env g k) ?qs st w = (r1, w1)" by fastforce
  have "snd ` set ?qs = set (map snd (enumerate 0 (planned_queries st)))" unfolding assms(3) by (simp only: set_map)
  then have q: "snd ` set ?qs = set (planned_queries st)" by (simp only: map_snd_enumerate)
  have "distinct (planned_queries st)"
    using queries_distinct[OF assms(2)] by (auto simp: planned_queries_def distinct_map)
  then have "card (set (map snd ?qs)) = length (map snd ?qs)" using q assms(4) by (simp add: distinct_card)
  then have d: "distinct (map snd ?qs)" by (rule card_distinct)
  note s = run_queries_spec[OF f round_run_start[OF assms(2)] d]
  show ?thesis
  proof (cases r1)
    case (Inl x)
    then show ?thesis using assms(1) f False s by (auto simp: search_node_def)
  next
    case (Inr st1)
    then have e: "r = Inr st1" "w' = say_searched k st1 w1" using assms(1) f False by (auto simp: search_node_def)
    obtain ps where "round_run st w (set (planned_queries st)) ps st1 w1" using s Inr q by auto
    then show ?thesis using e by (auto simp: round_run_def)
  qed
qed

lemma round_run_settled:
  assumes "round_run st w (set (planned_queries st)) ps st' w'"
  shows "planned_queries st' = []"
proof -
  have "open_queries st' = {}" using assms by (auto simp: round_run_def open_queries_def)
  then show ?thesis by (simp add: open_queries_def)
qed

text \<open>
  C30. Whatever the providers answer and in whichever order the searches of a round run, the budget of
  searches is never exceeded: the meter ends at the limit at most, or where it already was. If the node
  returns, no query of the round is left planned, the queries of before are asked as they were planned,
  and behind them stand broadened ones, each for another planned query that was not itself broadened, so
  that none is broadened twice. Ids stay numbered, and nothing but queries and pending results changed.
  The node raises only when all search keys were rejected.
\<close>

theorem search_settles_round:
  assumes "search_node env g schedule k st w = (r, w')" and "queries_numbered st"
    and "set (schedule (enumerate 0 (planned_queries st))) = set (enumerate 0 (planned_queries st))"
    and "length (schedule (enumerate 0 (planned_queries st))) = length (planned_queries st)"
  shows "within_searches (lw_meter w) (lw_meter w')
    \<and> (case r of Inl x \<Rightarrow> only_keys_rejected x
       | Inr st' \<Rightarrow> planned_queries st' = [] \<and> queries_numbered st' \<and> searched_only st st'
           \<and> (\<exists>old new ps. rs_queries st' = old @ new \<and> list_all2 same_asked (rs_queries st) old
                \<and> list_all2 broadened_from ps new \<and> distinct ps \<and> set ps \<subseteq> set (planned_queries st)))"
proof (cases r)
  case (Inl x)
  then show ?thesis using search_node_round[OF assms] by simp
next
  case (Inr st')
  then obtain ps where "round_run st w (set (planned_queries st)) ps st' w'" using search_node_round[OF assms] by blast
  note settled = round_run_settled[OF this]
  obtain old new where "rs_queries st' = old @ new" "list_all2 same_asked (rs_queries st) old"
      "list_all2 broadened_from ps new" "distinct ps" "set ps \<subseteq> set (planned_queries st)"
      "queries_numbered st'" "searched_only st st'" "within_searches (lw_meter w) (lw_meter w')"
    using \<open>round_run st w _ ps st' w'\<close> by (auto simp: round_run_def asked_since_def)
  then show ?thesis using Inr settled by fastforce
qed

section \<open>One planned query\<close>

definition demo_query :: query_record where
  "demo_query = \<lparr>q_id = [113, 49], q_text = [120], q_subq_id = [115], q_facet_id = None, q_purpose = INITIAL,
     q_rationale = [], q_iteration = 0, q_status = PLANNED, q_provider = None, q_result_count = 0, q_cache_hit = False,
     q_error_code = None\<rparr>"

definition query_state :: research_state where
  "query_state = demo_state\<lparr>rs_queries := [demo_query]\<rparr>"

lemma demo_round:
  "\<exists>st' w'. search_node demo_search_env demo_search_gateway id demo_sink query_state demo_world = (Inr st', w')"
proof -
  have p: "planned_queries query_state = [demo_query]"
    by (simp add: planned_queries_def query_state_def demo_query_def demo_state_def)
  have pref: "preferred_provider demo_search_gateway 0 = None" by (simp add: preferred_provider_def)
  have left: "searches_left (lw_meter demo_world) \<noteq> 0"
    by (simp add: searches_left_def demo_world_def meter_init_def default_budget_settings_def)
  obtain w' where "search_call demo_search_env demo_search_gateway demo_sink (search_request_of demo_search_gateway demo_query)
      (Some (q_subq_id demo_query)) None demo_world = (Inr (found_by (search_request_of demo_search_gateway demo_query) [112] [demo_hit] False), w')"
    using demo_search by blast
  then have "\<exists>st'. run_query demo_search_env demo_search_gateway demo_sink (0, demo_query) query_state demo_world = (Inr st', w')"
    using left by (simp add: run_query.simps wants_retry_def run_once_def pref found_by_def Let_def)
  then show ?thesis by (auto simp: search_node_def p)
qed

theorem search_settles_round_witness:
  "\<exists>st' w'. search_node demo_search_env demo_search_gateway id demo_sink query_state demo_world = (Inr st', w')
     \<and> planned_queries st' = [] \<and> within_searches (lw_meter demo_world) (lw_meter w')"
proof -
  obtain st' w' where e: "search_node demo_search_env demo_search_gateway id demo_sink query_state demo_world = (Inr st', w')"
    using demo_round by blast
  have "queries_numbered query_state"
    by (simp add: queries_numbered_def query_state_def demo_query_def next_id_def)
  then show ?thesis using search_settles_round[OF e] e by simp
qed

end
