(* ===== verification/ProcessProps.thy ===== *)
theory ProcessProps
  imports ProcessNode NodeBase Demo
begin

text \<open>
  Properties of the node \<open>process_results\<close>: the library of documents stays numbered with one document
  per canonical URL, pages are only enriched, at most \<open>k\<close> documents per open sub-question are
  selected, and each selected one carries the hash of the text it will be read with.
\<close>

section \<open>The library\<close>

definition library_ok :: "research_state \<Rightarrow> bool" where
  "library_ok st \<longleftrightarrow> numbered (lit ''d'') d_id (rs_documents st)
     \<and> distinct (map d_canonical_url (dvals (rs_documents st)))"

text \<open>What never changes of a document once it is in the library.\<close>

definition page_core :: "document \<Rightarrow> document" where
  "page_core d = d\<lparr>d_subq_ids := [], d_query_ids := [], d_title := [], d_content := [], d_content_hash := [],
     d_published_at := None, d_date_provenance := None, d_origin_id := [], d_minhash := [], d_fetched := False,
     d_fetch_error := None, d_selected_round := None, d_triage_score := 0\<rparr>"

definition page_kept :: "document \<Rightarrow> document \<Rightarrow> bool" where
  "page_kept d d' \<longleftrightarrow> page_core d' = page_core d \<and> prefix (d_subq_ids d) (d_subq_ids d')"

definition page_enriched :: "document \<Rightarrow> document \<Rightarrow> bool" where
  "page_enriched d d' \<longleftrightarrow> page_kept d d' \<and> d_selected_round d' = d_selected_round d"

lemma page_core_fields:
  "d_id (page_core d) = d_id d" "d_canonical_url (page_core d) = d_canonical_url d" "d_extracted (page_core d) = d_extracted d"
  by (simp_all add: page_core_def)

lemma page_keptD:
  assumes "page_kept d d'"
  shows "d_id d' = d_id d" "d_canonical_url d' = d_canonical_url d" "d_extracted d' = d_extracted d"
  using assms page_core_fields[of d] page_core_fields[of d'] by (simp_all add: page_kept_def)

lemma page_kept_refl [simp]: "page_kept d d" "page_enriched d d"
  by (simp_all add: page_kept_def page_enriched_def)

lemma page_kept_trans: "page_kept d d1 \<Longrightarrow> page_kept d1 d2 \<Longrightarrow> page_kept d d2"
  by (auto simp: page_kept_def intro: prefix_order.trans)

lemma page_enriched_trans: "page_enriched d d1 \<Longrightarrow> page_enriched d1 d2 \<Longrightarrow> page_enriched d d2"
  by (auto simp: page_enriched_def intro: page_kept_trans)

text \<open>A library after steps that only enrich its pages and add unselected ones.\<close>

definition library_grows :: "research_state \<Rightarrow> research_state \<Rightarrow> bool" where
  "library_grows st st' \<longleftrightarrow>
     (\<exists>new docs. rs_documents st' = docs @ new \<and> list_all2 (\<lambda>x y. fst y = fst x \<and> page_enriched (snd x) (snd y)) (rs_documents st) docs
        \<and> (\<forall>(i, d)\<in>set new. d_selected_round d = None))"

lemma library_grows_refl [simp]: "library_grows st st"
  unfolding library_grows_def by (intro exI[of _ "[]"] exI[of _ "rs_documents st"]) (simp add: list_all2_refl)

lemma library_grows_docs: "rs_documents st1 = rs_documents st2 \<Longrightarrow> library_grows st st1 = library_grows st st2"
  by (simp add: library_grows_def)

lemma enriched_list_trans:
  "list_all2 (\<lambda>x y. fst y = fst x \<and> page_enriched (snd x) (snd y)) xs ys \<Longrightarrow>
   list_all2 (\<lambda>x y. fst y = fst x \<and> page_enriched (snd x) (snd y)) ys zs \<Longrightarrow>
   list_all2 (\<lambda>x y. fst y = fst x \<and> page_enriched (snd x) (snd y)) xs zs"
  by (rule list_all2_trans[of _ "\<lambda>x y. fst y = fst x \<and> page_enriched (snd x) (snd y)"]) (auto intro: page_enriched_trans)

lemma list_all2_source: "list_all2 P xs ys \<Longrightarrow> y \<in> set ys \<Longrightarrow> \<exists>x\<in>set xs. P x y"
  by (induction rule: list_all2_induct) auto

lemma library_grows_trans:
  assumes "library_grows st st1" and "library_grows st1 st2"
  shows "library_grows st st2"
proof -
  let ?P = "\<lambda>x y. fst y = fst x \<and> page_enriched (snd x) (snd y)"
  obtain n1 d1 where 1: "rs_documents st1 = d1 @ n1" "list_all2 ?P (rs_documents st) d1" "\<forall>(i, d)\<in>set n1. d_selected_round d = None"
    using assms(1) unfolding library_grows_def by blast
  obtain n2 d2 where 2: "rs_documents st2 = d2 @ n2" "list_all2 ?P (d1 @ n1) d2" "\<forall>(i, d)\<in>set n2. d_selected_round d = None"
    using assms(2) unfolding library_grows_def 1(1) by blast
  obtain e1 e2 where e: "d2 = e1 @ e2" "list_all2 ?P d1 e1" "list_all2 ?P n1 e2"
    using 2(2) by (auto simp: list_all2_append1)
  have "\<forall>(i, d)\<in>set e2. d_selected_round d = None"
  proof (intro ballI, clarify)
    fix i d assume "(i, d) \<in> set e2"
    then obtain x where "x \<in> set n1" "?P x (i, d)" using list_all2_source[OF e(3)] by blast
    then show "d_selected_round d = None" using 1(3) by (cases x) (auto simp: page_enriched_def)
  qed
  then show ?thesis
    unfolding library_grows_def using 2 e enriched_list_trans[OF 1(2) e(2)]
    by (intro exI[of _ "e2 @ n2"] exI[of _ e1]) auto
qed

lemma library_grows_update:
  assumes "\<And>d. page_enriched d (f d)"
  shows "library_grows st (update_document i f st)" and "library_ok st \<Longrightarrow> library_ok (update_document i f st)"
proof -
  have e: "rs_documents (update_document i f st) = map (\<lambda>x. (fst x, if fst x = i then f (snd x) else snd x)) (rs_documents st)"
    by (auto simp: update_document_def dmap_at_def)
  show "library_grows st (update_document i f st)"
    unfolding library_grows_def e using assms
    by (intro exI[of _ "[]"] exI[of _ "map (\<lambda>x. (fst x, if fst x = i then f (snd x) else snd x)) (rs_documents st)"])
      (auto simp: list_all2_conv_all_nth)
  assume ok: "library_ok st"
  have "map d_canonical_url (dvals (rs_documents (update_document i f st))) = map d_canonical_url (dvals (rs_documents st))"
    unfolding e using assms page_keptD(2) by (auto simp: page_enriched_def)
  moreover have "numbered (lit ''d'') d_id (rs_documents (update_document i f st))"
    using numbered_dmap_at[of "lit ''d''" d_id "rs_documents st" f i] ok assms page_keptD(1)
    by (simp add: update_document_def library_ok_def page_enriched_def)
  ultimately show "library_ok (update_document i f st)" using ok by (simp add: library_ok_def)
qed

text \<open>What the node leaves alone.\<close>

definition processed_only :: "research_state \<Rightarrow> research_state \<Rightarrow> bool" where
  "processed_only st st' \<longleftrightarrow>
     (\<exists>docs hits counters. st' = st\<lparr>rs_documents := docs, rs_pending_hits := hits, rs_counters := counters\<rparr>)"

lemma processed_only_trans: "processed_only st st1 \<Longrightarrow> processed_only st1 st2 \<Longrightarrow> processed_only st st2"
  unfolding processed_only_def by fastforce

lemma processed_only_steps [simp]:
  "processed_only st st" "processed_only st (update_document i f st)" "processed_only st (st\<lparr>rs_documents := docs\<rparr>)"
  "processed_only st (st\<lparr>rs_pending_hits := hits\<rparr>)" "processed_only st (bump c n st)"
proof -
  show "processed_only st st" unfolding processed_only_def
    by (intro exI[of _ "rs_documents st"] exI[of _ "rs_pending_hits st"] exI[of _ "rs_counters st"]) simp
  show "processed_only st (update_document i f st)" unfolding processed_only_def update_document_def
    by (intro exI[of _ "dmap_at i f (rs_documents st)"] exI[of _ "rs_pending_hits st"] exI[of _ "rs_counters st"]) simp
  show "processed_only st (st\<lparr>rs_documents := docs\<rparr>)" unfolding processed_only_def
    by (intro exI[of _ docs] exI[of _ "rs_pending_hits st"] exI[of _ "rs_counters st"]) simp
  show "processed_only st (st\<lparr>rs_pending_hits := hits\<rparr>)" unfolding processed_only_def
    by (intro exI[of _ "rs_documents st"] exI[of _ hits] exI[of _ "rs_counters st"]) simp
  show "processed_only st (bump c n st)" unfolding processed_only_def bump_def
    by (intro exI[of _ "rs_documents st"] exI[of _ "rs_pending_hits st"] exI) simp
qed

lemma processed_only_fields:
  assumes "processed_only st st'"
  shows "rs_plan st' = rs_plan st" "rs_iteration st' = rs_iteration st" "rs_queries st' = rs_queries st"
    "rs_claims st' = rs_claims st" "rs_clusters st' = rs_clusters st" "rs_contradictions st' = rs_contradictions st"
  using assms by (auto simp: processed_only_def)

section \<open>The stages\<close>

definition well_processed :: "research_state \<Rightarrow> research_state \<Rightarrow> bool" where
  "well_processed st st' \<longleftrightarrow> library_ok st' \<and> library_grows st st' \<and> processed_only st st'"

lemma well_processed_trans: "well_processed st st1 \<Longrightarrow> well_processed st1 st2 \<Longrightarrow> well_processed st st2"
  unfolding well_processed_def using library_grows_trans processed_only_trans by blast

lemma well_processed_refl [simp]: "library_ok st \<Longrightarrow> well_processed st st"
  by (simp add: well_processed_def)

lemma well_processed_update:
  "library_ok st \<Longrightarrow> (\<And>d. page_enriched d (f d)) \<Longrightarrow> well_processed st (update_document i f st)"
  unfolding well_processed_def using library_grows_update[of f] by simp

lemma page_enriched_simps [simp]:
  "page_enriched d (d\<lparr>d_triage_score := x\<rparr>)" "page_enriched d (d\<lparr>d_content := c, d_fetched := b\<rparr>)"
  "page_enriched d (d\<lparr>d_title := c\<rparr>)" "page_enriched d (d\<lparr>d_published_at := y, d_date_provenance := p\<rparr>)"
  "page_enriched d (d\<lparr>d_fetch_error := e, d_content := c\<rparr>)"
  "page_enriched d (d\<lparr>d_origin_id := c, d_content_hash := h, d_minhash := m\<rparr>)"
  "page_enriched d (d\<lparr>d_subq_ids := d_subq_ids d @ ids\<rparr>)" "page_enriched d (d\<lparr>d_query_ids := ids\<rparr>)"
  by (simp_all add: page_enriched_def page_kept_def page_core_def)

lemma seen_again_enriched: "page_enriched d (seen_again p d)"
proof -
  define d1 where "d1 = (if List.member (d_subq_ids d) (ph_subq_id p) then d else d\<lparr>d_subq_ids := d_subq_ids d @ [ph_subq_id p]\<rparr>)"
  define d2 where "d2 = (if List.member (d_query_ids d1) (ph_query_id p) then d1 else d1\<lparr>d_query_ids := d_query_ids d1 @ [ph_query_id p]\<rparr>)"
  have "page_enriched d d1" by (simp add: d1_def)
  moreover have "page_enriched d1 d2" by (simp add: d2_def)
  moreover have "page_enriched d2 (seen_again p d)" unfolding seen_again_def Let_def d1_def[symmetric] d2_def[symmetric] by simp
  ultimately show ?thesis using page_enriched_trans by blast
qed

lemma take_hit_processed:
  assumes "take_hit qs p it = Inr it'" and ok: "library_ok (it_state it)"
  shows "well_processed (it_state it) (it_state it')"
proof -
  let ?st = "it_state it"
  consider (none) "it' = it" | (seen) i where "it_state it' = update_document i (seen_again p) ?st"
    | (fresh) c where "find (\<lambda>(i, d). d_canonical_url d = c) (rs_documents ?st) = None"
        "it_state it' = ?st\<lparr>rs_documents := dput (d_id (document_of_hit ?st p c)) (document_of_hit ?st p c) (rs_documents ?st)\<rparr>"
  proof (cases "canonicalize_url (sh_url (ph_hit p))")
    case (Inl e)
    then show ?thesis using assms(1) by (simp add: take_hit_def)
  next
    case (Inr c)
    show ?thesis
    proof (cases c)
      case None
      then show ?thesis using assms(1) Inr that(1) by (simp add: take_hit_def)
    next
      case (Some canonical)
      show ?thesis
      proof (cases "find (\<lambda>(i, d). d_canonical_url d = canonical) (rs_documents ?st)")
        case None
        then show ?thesis using assms(1) Inr Some that(3)[OF None] by (auto simp: take_hit_def Let_def)
      next
        case (Some x)
        then show ?thesis using assms(1) Inr \<open>c = Some canonical\<close> that(2)[of "fst x"] by (cases x) (auto simp: take_hit_def Let_def)
      qed
    qed
  qed
  then show ?thesis
  proof cases
    case none
    then show ?thesis using ok by simp
  next
    case seen
    then show ?thesis using well_processed_update[OF ok seen_again_enriched] by simp
  next
    case fresh
    let ?d = "document_of_hit ?st p c" and ?i = "next_id (lit ''d'') (length (rs_documents ?st))"
    have d: "d_id ?d = ?i" "d_canonical_url ?d = c" "d_selected_round ?d = None" by (simp_all add: document_of_hit_def Let_def)
    have n: "numbered (lit ''d'') d_id (rs_documents ?st)" using ok by (simp only: library_ok_def)
    note dp = numbered_dput[OF n d(1)]
    have docs: "rs_documents (it_state it') = rs_documents ?st @ [(?i, ?d)]" using fresh(2) dp(3) d(1) by simp
    have "c \<notin> d_canonical_url ` set (dvals (rs_documents ?st))" using fresh(1) unfolding find_None_iff by fastforce
    then have "library_ok (it_state it')" using ok dp(1,3) docs d by (auto simp: library_ok_def)
    moreover have "library_grows ?st (it_state it')"
      unfolding library_grows_def docs using d(3)
      by (intro exI[of _ "[(?i, ?d)]"] exI[of _ "rs_documents ?st"]) (simp add: list_all2_refl)
    ultimately show ?thesis using fresh(2) by (simp add: well_processed_def)
  qed
qed

lemma take_hits_processed:
  "take_hits qs ps it = Inr it' \<Longrightarrow> library_ok (it_state it) \<Longrightarrow> well_processed (it_state it) (it_state it')"
proof (induction qs ps it rule: take_hits.induct)
  case (2 qs p ps it)
  obtain it1 where "take_hit qs p it = Inr it1" "take_hits qs ps it1 = Inr it'" using 2(2) by (auto simp: rbind_Inr_iff)
  then show ?case using take_hit_processed[of qs p it it1] 2(1)[of it1] 2(3) well_processed_trans
    unfolding well_processed_def by blast
qed simp

lemma date_enriched: "page_enriched d (date_document rfc d)"
  by (simp add: date_document_def split: prod.split)

lemma triage_processed: "library_ok st \<Longrightarrow> well_processed st (fold (triage_document rfc t) best st)"
proof (induction best arbitrary: st)
  case (Cons b best)
  obtain i hit q where b: "b = (i, hit, q)" using prod_cases3 by blast
  have "page_enriched d (let d1 = date_document rfc d in d1\<lparr>d_triage_score := triage t st hit q d1\<rparr>)" for d
    unfolding Let_def by (rule page_enriched_trans[OF date_enriched[of d rfc]]) simp
  then have "well_processed st (triage_document rfc t b st)"
    unfolding b triage_document_def prod.case by (rule well_processed_update[OF Cons.prems])
  moreover from this have "library_ok (triage_document rfc t b st)" by (simp add: well_processed_def)
  then have "well_processed (triage_document rfc t b st) (fold (triage_document rfc t) (b # best) st)"
    using Cons.IH[of "triage_document rfc t b st"] by simp
  ultimately show ?case by (rule well_processed_trans)
qed simp

lemma intake_processed:
  assumes "intake_results rfc t st = Inr it" and "library_ok st"
  shows "well_processed st (it_state it) \<and> rs_pending_hits (it_state it) = []"
proof -
  obtain it1 where t: "take_hits (rs_queries st) (rs_pending_hits st) \<lparr>it_state = st, it_duplicates = 0, it_best = [], it_new = []\<rparr> = Inr it1"
    and it: "it_state it = fold (triage_document rfc t) (it_best it1) ((it_state it1)\<lparr>rs_pending_hits := []\<rparr>)"
    using assms(1) by (auto simp: intake_results_def rbind_Inr_iff)
  let ?st = "(it_state it1)\<lparr>rs_pending_hits := []\<rparr>"
  have w1: "well_processed st (it_state it1)" using take_hits_processed[OF t] assms(2) by simp
  have w2: "well_processed (it_state it1) ?st"
    using w1 library_grows_docs[of "it_state it1" ?st "it_state it1"] unfolding well_processed_def library_ok_def by simp
  have w3: "well_processed ?st (it_state it)" unfolding it by (rule triage_processed) (use w2 in \<open>simp add: well_processed_def\<close>)
  have "rs_pending_hits (fold (triage_document rfc t) best x) = rs_pending_hits x" for best x
    by (induction best arbitrary: x) (auto simp: triage_document_def update_document_def split: prod.split)
  then show ?thesis using well_processed_trans[OF well_processed_trans[OF w1 w2] w3] it by simp
qed

section \<open>Fetching and origins\<close>

lemma page_read_enriched: "page_enriched d (page_read m page d)"
proof -
  define d1 where "d1 = (if m then d else d\<lparr>d_content := take MAX_DOCUMENT_CHARS (fp_text page), d_fetched := True\<rparr>)"
  define d2 where "d2 = (if d_title d1 = [] then d1\<lparr>d_title := given (fp_title page)\<rparr> else d1)"
  have "page_enriched d d1" by (simp add: d1_def)
  moreover have "page_enriched d1 d2" by (simp add: d2_def)
  moreover have "page_enriched d2 (page_read m page d)" unfolding page_read_def Let_def d1_def[symmetric] d2_def[symmetric] by simp
  ultimately show ?thesis using page_enriched_trans by blast
qed

lemma fetch_processed:
  assumes "fetch_document env s k i f w = (Inr f', w')" and "library_ok (ft_state f)"
  shows "well_processed (ft_state f) (ft_state f') \<and> rs_pending_hits (ft_state f') = rs_pending_hits (ft_state f)"
  using assms well_processed_update[OF assms(2) page_read_enriched, of i]
    well_processed_update[OF assms(2), of "\<lambda>x. x\<lparr>d_fetch_error := e, d_content := d_snippet x\<rparr>" i for e]
  by (auto simp: fetch_document_def Let_def update_document_def split: option.splits prod.splits if_splits)

lemma fetches_processed:
  assumes "rfold (fetch_document env s k) is f w = (Inr f', w')" and "library_ok (ft_state f)"
  shows "well_processed (ft_state f) (ft_state f') \<and> rs_pending_hits (ft_state f') = rs_pending_hits (ft_state f)"
proof (rule rfold_invariant[OF assms(1)])
  show "well_processed (ft_state f) (ft_state f) \<and> rs_pending_hits (ft_state f) = rs_pending_hits (ft_state f)"
    using assms(2) by simp
next
  fix i f1 w1 f2 w2
  assume "well_processed (ft_state f) (ft_state f1) \<and> rs_pending_hits (ft_state f1) = rs_pending_hits (ft_state f)"
    and "fetch_document env s k i f1 w1 = (Inr f2, w2)"
  then show "well_processed (ft_state f) (ft_state f2) \<and> rs_pending_hits (ft_state f2) = rs_pending_hits (ft_state f)"
    using fetch_processed[of env s k i f1 w1 f2 w2] well_processed_trans unfolding well_processed_def by metis
qed

text \<open>The documents whose hash is that of their text.\<close>

definition hashed :: "'l near_ops \<Rightarrow> research_state \<Rightarrow> str \<Rightarrow> bool" where
  "hashed ops st i \<longleftrightarrow> (\<exists>d. dget (rs_documents st) i = Some d \<and> d_content_hash d = content_hash ops (index_text d))"

lemma assign_processed:
  assumes "assign_document ops i (st, ix) = Inr (st', ix')" and "library_ok st"
  shows "well_processed st st' \<and> rs_pending_hits st' = rs_pending_hits st \<and> hashed ops st' i
    \<and> (\<forall>j. hashed ops st j \<longrightarrow> hashed ops st' j)"
proof -
  obtain d origin where d: "dget (rs_documents st) i = Some d"
    and st': "st' = update_document i (\<lambda>x. x\<lparr>d_origin_id := origin, d_content_hash := content_hash ops (index_text d),
                   d_minhash := dget_or (oi_signatures ix') i []\<rparr>) st"
    using assms(1) by (auto simp: assign_document_def rbind_Inr_iff dget_err_def split: option.splits)
  have "index_text (d\<lparr>d_origin_id := o', d_content_hash := h, d_minhash := m\<rparr>) = index_text d" for o' h m
    by (simp add: index_text_def)
  then show ?thesis
    using well_processed_update[OF assms(2), of "\<lambda>x. x\<lparr>d_origin_id := origin, d_content_hash := content_hash ops (index_text d),
                   d_minhash := dget_or (oi_signatures ix') i []\<rparr>" i] d
    unfolding st' by (auto simp: hashed_def update_document_def)
qed

lemma assigns_processed:
  "assign_documents ops is s = Inr s' \<Longrightarrow> library_ok (fst s) \<Longrightarrow>
     well_processed (fst s) (fst s') \<and> rs_pending_hits (fst s') = rs_pending_hits (fst s)
     \<and> (\<forall>j. j \<in> set is \<or> hashed ops (fst s) j \<longrightarrow> hashed ops (fst s') j)"
proof (induction "is" arbitrary: s)
  case (Cons i "is" s)
  obtain st ix where s: "s = (st, ix)" by fastforce
  obtain st1 ix1 where a: "assign_document ops i (st, ix) = Inr (st1, ix1)" and b: "assign_documents ops is (st1, ix1) = Inr s'"
    using Cons.prems(1) s by (auto simp: rbind_Inr_iff)
  have p: "well_processed st st1 \<and> rs_pending_hits st1 = rs_pending_hits st \<and> hashed ops st1 i
    \<and> (\<forall>j. hashed ops st j \<longrightarrow> hashed ops st1 j)" using assign_processed[OF a] Cons.prems(2) s by simp
  have "library_ok st1" using p by (simp add: well_processed_def)
  then have q: "well_processed st1 (fst s') \<and> rs_pending_hits (fst s') = rs_pending_hits st1
    \<and> (\<forall>j. j \<in> set is \<or> hashed ops st1 j \<longrightarrow> hashed ops (fst s') j)" using Cons.IH[OF b] by simp
  have "well_processed st (fst s')" using well_processed_trans[of st st1 "fst s'"] p q by simp
  then show ?case using p q s by auto
qed auto

section \<open>Selection\<close>

definition mark_docs :: "str list \<Rightarrow> research_state \<Rightarrow> research_state" where
  "mark_docs sel st = st\<lparr>rs_documents := map (\<lambda>x. (fst x,
     if fst x \<in> set sel then (snd x)\<lparr>d_selected_round := Some (rs_iteration st)\<rparr> else snd x)) (rs_documents st)\<rparr>"

lemma mark_docs_simps [simp]:
  "mark_docs [] st = st" "rs_iteration (mark_docs sel st) = rs_iteration st" "rs_plan (mark_docs sel st) = rs_plan st"
  "rs_pending_hits (mark_docs sel st) = rs_pending_hits st" "processed_only st (mark_docs sel st)"
  by (simp_all add: mark_docs_def)

lemma update_mark:
  "update_document i (\<lambda>d. d\<lparr>d_selected_round := Some (rs_iteration st)\<rparr>) (mark_docs sel st) = mark_docs (sel @ [i]) st"
  by (auto simp: update_document_def mark_docs_def dmap_at_def)

lemma dget_mark:
  "dget (rs_documents (mark_docs sel st)) i
     = map_option (\<lambda>d. if i \<in> set sel then d\<lparr>d_selected_round := Some (rs_iteration st)\<rparr> else d) (dget (rs_documents st) i)"
proof -
  have "dget (map (\<lambda>x. (fst x, if fst x \<in> set sel then f (snd x) else snd x)) ds) i
      = map_option (\<lambda>d. if i \<in> set sel then f d else d) (dget ds i)" for f and ds :: "(str, document) dict"
    by (induction ds) auto
  then show ?thesis by (simp add: mark_docs_def)
qed

lemma mark_docs_ok: "library_ok st \<Longrightarrow> library_ok (mark_docs sel st)"
proof -
  assume ok: "library_ok st"
  have "map d_canonical_url (dvals (rs_documents (mark_docs sel st))) = map d_canonical_url (dvals (rs_documents st))"
    by (auto simp: mark_docs_def)
  moreover have "dkeys (rs_documents (mark_docs sel st)) = dkeys (rs_documents st)" "length (rs_documents (mark_docs sel st)) = length (rs_documents st)"
    by (auto simp: mark_docs_def)
  moreover have "\<forall>(i, d)\<in>set (rs_documents (mark_docs sel st)). d_id d = i"
    using ok by (auto simp: mark_docs_def library_ok_def numbered_def)
  ultimately show ?thesis using ok by (simp add: library_ok_def numbered_def)
qed

lemma mark_kept: "dget (rs_documents st) i = Some d \<Longrightarrow> \<exists>d'. dget (rs_documents (mark_docs sel st)) i = Some d' \<and> page_kept d d'"
  by (simp add: dget_mark page_kept_def page_core_def)

lemma dget_member: "distinct (dkeys d) \<Longrightarrow> (i, v) \<in> set d \<Longrightarrow> dget d i = Some v"
  by (induction d) (auto simp: rev_image_eqI)

lemma library_distinct: "library_ok st \<Longrightarrow> distinct (dkeys (rs_documents st))"
  unfolding library_ok_def by (blast dest: numbered_distinct)

lemma select_ids:
  "\<exists>T. fold (\<lambda>i (st, selected). if List.member selected i then (st, selected)
        else (update_document i (\<lambda>d. d\<lparr>d_selected_round := Some (rs_iteration st)\<rparr>) st, selected @ [i])) ids (mark_docs sel st, sel)
      = (mark_docs (sel @ T) st, sel @ T) \<and> set T \<subseteq> set ids \<and> length T \<le> length ids \<and> (distinct sel \<longrightarrow> distinct (sel @ T))"
  (is "\<exists>T. fold ?F ids _ = _ \<and> _")
proof (induction ids arbitrary: sel)
  case (Cons i ids)
  show ?case
  proof (cases "i \<in> set sel")
    case True
    obtain T where "fold ?F ids (mark_docs sel st, sel) = (mark_docs (sel @ T) st, sel @ T)" "set T \<subseteq> set ids" "length T \<le> length ids"
      "distinct sel \<longrightarrow> distinct (sel @ T)" using Cons.IH[of sel] by blast
    then show ?thesis using True by (intro exI[of _ T]) auto
  next
    case False
    obtain T where "fold ?F ids (mark_docs (sel @ [i]) st, sel @ [i]) = (mark_docs ((sel @ [i]) @ T) st, (sel @ [i]) @ T)" "set T \<subseteq> set ids"
      "length T \<le> length ids" "distinct (sel @ [i]) \<longrightarrow> distinct ((sel @ [i]) @ T)" using Cons.IH[of "sel @ [i]"] by blast
    then show ?thesis using False update_mark[of i st sel] by (intro exI[of _ "i # T"]) auto
  qed
qed (auto intro: exI[of _ "[]"])

text \<open>What makes a document eligible for selection.\<close>

definition eligible :: "research_state \<Rightarrow> str \<Rightarrow> bool" where
  "eligible st i \<longleftrightarrow> (\<exists>d. dget (rs_documents st) i = Some d \<and> \<not> d_extracted d \<and> d_selected_round d = None
     \<and> 15 / 100 \<le> d_triage_score d \<and> (\<exists>s\<in>set (rs_plan st). sq_open s \<and> sq_id s \<in> set (d_subq_ids d)))"

lemma candidate_eligible:
  assumes "d \<in> set (triage_candidates (sq_id s) (mark_docs sel st))" and "library_ok st" and "s \<in> set (rs_plan st)" "sq_open s"
  shows "eligible st (d_id d)"
proof -
  have d: "d \<in> set (dvals (rs_documents (mark_docs sel st)))" "sq_id s \<in> set (d_subq_ids d)" "\<not> d_extracted d"
    "d_selected_round d = None" "15 / 100 \<le> d_triage_score d"
    using assms(1) by (auto simp: triage_candidates_def)
  have "d \<in> (\<lambda>x. if fst x \<in> set sel then (snd x)\<lparr>d_selected_round := Some (rs_iteration st)\<rparr> else snd x) ` set (rs_documents st)"
    using d(1) by (simp add: mark_docs_def image_image)
  then obtain x where x: "x \<in> set (rs_documents st)"
    and dx: "d = (if fst x \<in> set sel then (snd x)\<lparr>d_selected_round := Some (rs_iteration st)\<rparr> else snd x)"
    by (elim imageE)
  have e: "d = snd x" using d(4) dx by (cases "fst x \<in> set sel") auto
  have "distinct (dkeys (rs_documents st))" "d_id (snd x) = fst x"
    using library_distinct[OF assms(2)] assms(2) x by (auto simp: library_ok_def numbered_def)
  then have "dget (rs_documents st) (d_id d) = Some d" using x e dget_member[of "rs_documents st" "fst x" "snd x"] by simp
  then show ?thesis using d assms(3,4) by (auto simp: eligible_def)
qed

lemma select_for_spec:
  assumes "library_ok st" and "s \<in> set (rs_plan st)"
  shows "\<exists>T. select_for k s (mark_docs sel st, sel) = (mark_docs (sel @ T) st, sel @ T) \<and> (\<forall>i\<in>set T. eligible st i)
    \<and> length T \<le> (if sq_open s then k else 0) \<and> (distinct sel \<longrightarrow> distinct (sel @ T))"
proof (cases "sq_open s")
  case True
  let ?ids = "map d_id (take k (triage_candidates (sq_id s) (mark_docs sel st)))"
  obtain T where T: "select_for k s (mark_docs sel st, sel) = (mark_docs (sel @ T) st, sel @ T)" "set T \<subseteq> set ?ids"
    "length T \<le> length ?ids" "distinct sel \<longrightarrow> distinct (sel @ T)"
    using select_ids[of ?ids sel st] True by (auto simp: select_for_def)
  have "\<forall>i\<in>set T. eligible st i"
    using T(2) candidate_eligible[OF _ assms True] by (auto dest: in_set_takeD)
  moreover have "length T \<le> k" using T(3) by simp
  ultimately show ?thesis using T True by (intro exI[of _ T]) simp
next
  case False
  then show ?thesis by (intro exI[of _ "[]"]) (simp add: select_for_def)
qed

lemma selection_spec:
  assumes "library_ok st" and "set ss \<subseteq> set (rs_plan st)" and "distinct sel"
  shows "\<exists>T. fold (select_for k) ss (mark_docs sel st, sel) = (mark_docs (sel @ T) st, sel @ T) \<and> (\<forall>i\<in>set T. eligible st i)
    \<and> length T \<le> k * length (filter sq_open ss) \<and> distinct (sel @ T)"
  using assms(2,3)
proof (induction ss arbitrary: sel)
  case (Cons s ss)
  obtain T where T: "select_for k s (mark_docs sel st, sel) = (mark_docs (sel @ T) st, sel @ T)" "\<forall>i\<in>set T. eligible st i"
    "length T \<le> (if sq_open s then k else 0)" "distinct (sel @ T)"
    using select_for_spec[OF assms(1), of s k sel] Cons.prems by auto
  obtain U where U: "fold (select_for k) ss (mark_docs (sel @ T) st, sel @ T) = (mark_docs ((sel @ T) @ U) st, (sel @ T) @ U)"
    "\<forall>i\<in>set U. eligible st i" "length U \<le> k * length (filter sq_open ss)" "distinct ((sel @ T) @ U)"
    using Cons.IH[of "sel @ T"] Cons.prems T(4) by auto
  have "length (T @ U) \<le> k * length (filter sq_open (s # ss))" using T(3) U(3) by (auto split: if_splits)
  then show ?case using T U by (intro exI[of _ "T @ U"]) auto
qed (auto intro: exI[of _ "[]"])

section \<open>The node\<close>

lemma grown_dget:
  "list_all2 (\<lambda>x y. fst y = fst x \<and> page_enriched (snd x) (snd y)) ds docs \<Longrightarrow>
     (case dget ds i of Some d \<Rightarrow> \<exists>d'. dget (docs @ new) i = Some d' \<and> page_enriched d d'
      | None \<Rightarrow> dget (docs @ new) i = dget new i)"
  by (induction rule: list_all2_induct) (auto split: option.splits)

lemma growsD:
  assumes "library_grows st st'"
  shows "dget (rs_documents st) i = Some d \<Longrightarrow> \<exists>d'. dget (rs_documents st') i = Some d' \<and> page_enriched d d'"
    and "dget (rs_documents st) i = None \<Longrightarrow> dget (rs_documents st') i = Some d' \<Longrightarrow> d_selected_round d' = None"
proof -
  obtain new docs where n: "rs_documents st' = docs @ new"
    "list_all2 (\<lambda>x y. fst y = fst x \<and> page_enriched (snd x) (snd y)) (rs_documents st) docs"
    "\<forall>(i, d)\<in>set new. d_selected_round d = None" using assms unfolding library_grows_def by blast
  note g = grown_dget[OF n(2), where i = i and new = new]
  show "\<exists>d'. dget (rs_documents st') i = Some d' \<and> page_enriched d d'" if "dget (rs_documents st) i = Some d"
    using g that n(1) by simp
  have "(i, d') \<in> set new" if "dget new i = Some d'" using that by (induction new) (auto split: if_splits)
  then show "d_selected_round d' = None" if "dget (rs_documents st) i = None" "dget (rs_documents st') i = Some d'"
    using g that n(1,3) by auto
qed

text \<open>The selection of a round: what holds of the ids \<open>sel\<close> between the state before and after.\<close>

definition round_selected :: "'l near_ops \<Rightarrow> nat \<Rightarrow> research_state \<Rightarrow> research_state \<Rightarrow> str list \<Rightarrow> bool" where
  "round_selected ops limit st st' sel \<longleftrightarrow> distinct sel \<and> length sel \<le> limit * length (filter sq_open (rs_plan st))
     \<and> (\<forall>i\<in>set sel. \<exists>d. dget (rs_documents st') i = Some d \<and> d_selected_round d = Some (rs_iteration st)
          \<and> \<not> d_extracted d \<and> d_content_hash d = content_hash ops (index_text d))
     \<and> (\<forall>i d'. dget (rs_documents st') i = Some d' \<longrightarrow> i \<notin> set sel \<longrightarrow>
          d_selected_round d' = (case dget (rs_documents st) i of None \<Rightarrow> None | Some d \<Rightarrow> d_selected_round d))"

lemma processed_stages:
  assumes "process_results env s rfc t ops lsh n schedule k st w = (Inr st', w')" and "library_ok st"
  shows "\<exists>st1 sel. well_processed st st1 \<and> (\<forall>i\<in>set sel. eligible st1 i) \<and> distinct sel
    \<and> length sel \<le> round_limit s st * length (filter sq_open (rs_plan st))
    \<and> well_processed (mark_docs sel st1) st' \<and> rs_pending_hits st' = [] \<and> (\<forall>i\<in>set sel. hashed ops st' i)"
proof -
  obtain it where it: "intake_results rfc t st = Inr it" using assms(1) by (auto simp: process_results_def split: sum.splits)
  note i = intake_processed[OF it assms(2)]
  have plan: "rs_plan (it_state it) = rs_plan st" using i by (simp add: well_processed_def processed_only_fields)
  have ok: "library_ok (it_state it)" using i by (simp add: well_processed_def)
  obtain sel where sel: "fold (select_for (round_limit s st)) (rs_plan st) (it_state it, []) = (mark_docs sel (it_state it), sel)"
    "\<forall>i\<in>set sel. eligible (it_state it) i" "length sel \<le> round_limit s st * length (filter sq_open (rs_plan st))" "distinct sel"
    using selection_spec[OF ok, of "rs_plan st" "[]" "round_limit s st"] plan by auto
  let ?fetch = "schedule (map d_id (filter needs_fetch (documents_at (mark_docs sel (it_state it)) sel)))"
  obtain f w1 where f: "rfold (fetch_document env s k) ?fetch \<lparr>ft_state = mark_docs sel (it_state it), ft_failures = 0\<rparr> w = (Inr f, w1)"
    using assms(1) it sel(1) by (auto simp: process_results_def Let_def split: sum.splits prod.splits)
  obtain ix st2 ix2 where a: "assign_documents ops sel (ft_state f, ix) = Inr (st2, ix2)"
    and st': "st' = bump (lit ''duplicate_urls'') (it_duplicates it) (bump (lit ''fetch_failures'') (ft_failures f) st2)"
    using assms(1) it sel(1) f by (auto simp: process_results_def Let_def rbind_Inr_iff split: sum.splits prod.splits)
  have p1: "well_processed (mark_docs sel (it_state it)) (ft_state f) \<and> rs_pending_hits (ft_state f) = []"
    using fetches_processed[OF f] mark_docs_ok[OF ok] i by simp
  have p2: "well_processed (ft_state f) st2 \<and> rs_pending_hits st2 = [] \<and> (\<forall>i\<in>set sel. hashed ops st2 i)"
    using assigns_processed[OF a] p1 by (simp add: well_processed_def)
  have d: "rs_documents st' = rs_documents st2" "rs_pending_hits st' = rs_pending_hits st2" unfolding st' by (simp_all add: bump_def)
  have "processed_only st2 st'" unfolding st' by (rule processed_only_trans[OF processed_only_steps(5) processed_only_steps(5)])
  then have "well_processed (ft_state f) st'"
    using p2 d library_grows_docs[of st' st2 "ft_state f"] processed_only_trans unfolding well_processed_def library_ok_def by auto
  moreover have "\<forall>i\<in>set sel. hashed ops st' i" using p2 d by (simp add: hashed_def)
  ultimately have "well_processed (mark_docs sel (it_state it)) st'" "\<forall>i\<in>set sel. hashed ops st' i" "rs_pending_hits st' = []"
    using p1 p2 d well_processed_trans by auto
  then show ?thesis using i sel by (intro exI[of _ "it_state it"] exI[of _ sel]) simp
qed

text \<open>Pages through the stages of a round: taken in (\<open>st1\<close>), marked as selected, fetched and hashed (\<open>st2\<close>).\<close>

lemma stages_keep:
  assumes "library_grows st st1" and "library_grows (mark_docs sel st1) st2" and d: "dget (rs_documents st) i = Some d"
  shows "\<exists>d'. dget (rs_documents st2) i = Some d' \<and> page_kept d d'"
proof -
  obtain d1 where d1: "dget (rs_documents st1) i = Some d1" "page_enriched d d1" using growsD(1)[OF assms(1) d] by blast
  obtain d2 where d2: "dget (rs_documents (mark_docs sel st1)) i = Some d2" "page_kept d1 d2" using mark_kept[OF d1(1)] by blast
  obtain d3 where "dget (rs_documents st2) i = Some d3" "page_enriched d2 d3" using growsD(1)[OF assms(2) d2(1)] by blast
  then show ?thesis using d1(2) d2(2) page_kept_trans unfolding page_enriched_def by blast
qed

lemma stages_select:
  assumes "library_grows (mark_docs sel st1) st2" and "\<forall>i\<in>set sel. eligible st1 i" and i: "i \<in> set sel" and "hashed ops st2 i"
  shows "\<exists>d. dget (rs_documents st2) i = Some d \<and> d_selected_round d = Some (rs_iteration st1)
    \<and> \<not> d_extracted d \<and> d_content_hash d = content_hash ops (index_text d)"
proof -
  obtain d1 where d1: "dget (rs_documents st1) i = Some d1" "\<not> d_extracted d1" using assms(2) i by (auto simp: eligible_def)
  let ?d2 = "d1\<lparr>d_selected_round := Some (rs_iteration st1)\<rparr>"
  have d2: "dget (rs_documents (mark_docs sel st1)) i = Some ?d2" using d1 i by (simp add: dget_mark)
  obtain d3 where d3: "dget (rs_documents st2) i = Some d3" "page_enriched ?d2 d3" using growsD(1)[OF assms(1) d2] by blast
  have "\<not> d_extracted d3" using d3(2) d1(2) page_keptD(3) by (fastforce simp: page_enriched_def)
  then show ?thesis using d3 assms(4) by (auto simp: hashed_def page_enriched_def)
qed

lemma stages_leave:
  assumes "library_grows st st1" and "library_grows (mark_docs sel st1) st2"
    and i: "i \<notin> set sel" and d': "dget (rs_documents st2) i = Some d'"
  shows "d_selected_round d' = (case dget (rs_documents st) i of None \<Rightarrow> None | Some d \<Rightarrow> d_selected_round d)"
proof (cases "dget (rs_documents st1) i")
  case None
  then have "dget (rs_documents st) i = None" using growsD(1)[OF assms(1), of i] by (cases "dget (rs_documents st) i") simp_all
  moreover have "d_selected_round d' = None" using growsD(2)[OF assms(2) _ d'] None by (simp add: dget_mark)
  ultimately show ?thesis by simp
next
  case (Some d1)
  then have "dget (rs_documents (mark_docs sel st1)) i = Some d1" using i by (simp add: dget_mark)
  then have "d_selected_round d' = d_selected_round d1" using growsD(1)[OF assms(2)] d' by (fastforce simp: page_enriched_def)
  moreover have "d_selected_round d1 = (case dget (rs_documents st) i of None \<Rightarrow> None | Some d \<Rightarrow> d_selected_round d)"
    using growsD(1)[OF assms(1), of i] growsD(2)[OF assms(1) _ Some] Some by (cases "dget (rs_documents st) i") (auto simp: page_enriched_def)
  ultimately show ?thesis by simp
qed

text \<open>
  C31. Processing the results of a round keeps the library: ids stay numbered without gap, no two
  documents have the same canonical URL, and of a document in it only its text, dates, scores and
  membership change, not its identity. At most \<open>top_k\<close> documents per open sub-question are selected;
  these and no others are marked with the round, have not been read, and carry the hash of the text
  they will be read with. All pending results are consumed and no other part of the state changes.
\<close>

theorem results_processed:
  assumes "process_results env s rfc t ops lsh n schedule k st w = (Inr st', w')" and "library_ok st"
  shows "library_ok st' \<and> processed_only st st' \<and> rs_pending_hits st' = []
    \<and> (\<forall>i d. dget (rs_documents st) i = Some d \<longrightarrow> (\<exists>d'. dget (rs_documents st') i = Some d' \<and> page_kept d d'))
    \<and> (\<exists>sel. round_selected ops (round_limit s st) st st' sel)"
proof -
  obtain st1 sel where it: "well_processed st st1" "\<forall>i\<in>set sel. eligible st1 i" "distinct sel"
    "length sel \<le> round_limit s st * length (filter sq_open (rs_plan st))"
    "well_processed (mark_docs sel st1) st'" "rs_pending_hits st' = []" "\<forall>i\<in>set sel. hashed ops st' i"
    using processed_stages[OF assms] by blast
  let ?m = "mark_docs sel st1"
  note g = it(5)
  have iter: "rs_iteration st1 = rs_iteration st" using it(1) by (simp add: well_processed_def processed_only_fields)
  have only: "processed_only st st'"
    using processed_only_trans[OF processed_only_trans[OF _ mark_docs_simps(5)]] it(1) g unfolding well_processed_def by blast
  have grows: "library_grows st st1" "library_grows ?m st'" using it(1) g by (simp_all add: well_processed_def)
  have "round_selected ops (round_limit s st) st st' sel"
    unfolding round_selected_def
    using it(3,4) stages_select[OF grows(2) it(2), of _ ops] it(7) stages_leave[OF grows] iter by auto
  then show ?thesis using g only it(6) stages_keep[OF grows] unfolding well_processed_def by blast
qed

section \<open>One page to read\<close>

definition found_page :: document where
  "found_page = demo_doc\<lparr>d_id := [100, 49], d_extracted := False, d_published_at := Some 1, d_subq_ids := [[115]],
     d_triage_score := 1 / 2\<rparr>"

definition found_state :: research_state where
  "found_state = demo_state\<lparr>rs_plan := [b_subquestion], rs_documents := [([100, 49], found_page)], rs_iteration := 1\<rparr>"

definition plain_ops :: "unit near_ops" where
  "plain_ops = \<lparr>no_sha = id, no_signature = \<lambda>s. [7], no_insert = \<lambda>k s l. Some (), no_query = \<lambda>s l. []\<rparr>"

definition no_fetch :: fetch_env where
  "no_fetch = \<lparr>fe_once = \<lambda>n url. Inl [], fe_cached = \<lambda>n key. None, fe_digest = \<lambda>parts. [], fe_cache = False\<rparr>"

lemma demo_processing:
  "\<exists>st' w'. process_results no_fetch default_fetch_settings (\<lambda>_. None) demo_tiers plain_ops () 5 id demo_sink found_state demo_world
     = (Inr st', w') \<and> map (d_selected_round \<circ> snd) (rs_documents st') = [Some 1]"
proof -
  have i: "intake_results (\<lambda>_. None) demo_tiers found_state
      = Inr \<lparr>it_state = found_state, it_duplicates = 0, it_best = [], it_new = []\<rparr>"
    by (simp add: intake_results_def found_state_def demo_state_def)
  have c: "triage_candidates [115] found_state = [found_page]"
    by (simp add: triage_candidates_def found_state_def found_page_def demo_doc_def)
  let ?st = "mark_docs [[100, 49]] found_state"
  have sel: "fold (select_for (round_limit default_fetch_settings found_state)) (rs_plan found_state) (found_state, []) = (?st, [[100, 49]])"
    using c by (simp add: found_state_def select_for_def b_subquestion_def sq_open_def found_page_def round_limit_def
      default_fetch_settings_def mark_docs_def update_document_def dmap_at_def)
  have d: "dget (rs_documents ?st) [100, 49] = Some (found_page\<lparr>d_selected_round := Some 1\<rparr>)"
    by (simp add: dget_mark found_state_def)
  have f: "filter needs_fetch (documents_at ?st [[100, 49]]) = []"
    by (simp add: documents_at_def d map_filter_def needs_fetch_def found_page_def demo_doc_def)
  have r: "restore_index plain_ops (dvals (rs_documents ?st)) (origin_index_init 5 ()) = Inr (origin_index_init 5 ())"
    by (simp add: mark_docs_def found_state_def found_page_def demo_doc_def)
  obtain st2 ix2 where a: "assign_documents plain_ops [[100, 49]] (?st, origin_index_init 5 ()) = Inr (st2, ix2)"
      "map (d_selected_round \<circ> snd) (rs_documents st2) = [Some 1]"
    by (simp add: assign_document_def dget_err_def d assign_def origin_index_init_def assign_new_def plain_ops_def update_document_def
      Let_def mark_docs_def found_state_def dmap_at_def)
  show ?thesis
    unfolding process_results_def i sum.case Let_def intake.simps sel prod.case f
    by (simp add: r a[simplified] bump_def)
qed

theorem results_processed_witness:
  "\<exists>st' w' sel. process_results no_fetch default_fetch_settings (\<lambda>_. None) demo_tiers plain_ops () 5 id demo_sink found_state demo_world
     = (Inr st', w') \<and> library_ok st' \<and> round_selected plain_ops 5 found_state st' sel \<and> sel = [[100, 49]]"
proof -
  obtain st' w' where e: "process_results no_fetch default_fetch_settings (\<lambda>_. None) demo_tiers plain_ops () 5 id demo_sink found_state demo_world
     = (Inr st', w')" and m: "map (d_selected_round \<circ> snd) (rs_documents st') = [Some 1]"
    using demo_processing by (elim exE conjE) (rule that)
  have ok: "library_ok found_state" by (simp add: library_ok_def numbered_def found_state_def next_id_def found_page_def)
  have l: "round_limit default_fetch_settings found_state = 5" by (simp add: round_limit_def found_state_def default_fetch_settings_def)
  obtain sel where sel: "round_selected plain_ops 5 found_state st' sel" "library_ok st'"
    using results_processed[OF e ok] unfolding l by blast
  obtain i d where docs: "rs_documents st' = [(i, d)]" "d_selected_round d = Some 1" using m by auto
  then have i: "i = [100, 49]" using sel(2) by (simp add: library_ok_def numbered_def next_id_def)
  have "i \<in> set sel"
  proof (rule ccontr)
    assume "i \<notin> set sel"
    then have "d_selected_round d = None"
      using sel(1) docs(1) i by (simp add: round_selected_def found_state_def found_page_def demo_doc_def)
    then show False using docs(2) by simp
  qed
  moreover have "set sel \<subseteq> {i}" using sel(1) docs(1) by (force simp: round_selected_def split: if_splits)
  ultimately have "set sel = {i}" "distinct sel" using sel(1) by (auto simp: round_selected_def)
  then have "sel = [[100, 49]]" using i by (cases sel; cases "tl sel") auto
  then show ?thesis using sel by (intro exI conjI) (rule e sel refl | simp)+
qed

end
