(* ===== verification/StateRefs.thy ===== *)
theory StateRefs
  imports HeuristicNodes EvidenceProps ContradictionProps ReportProps SearchNodeProps ProcessProps ClusterProps DedupProps
begin

text \<open>
  The typing of the research state: every id that one table of the state mentions is an id of the table
  it refers to, and every table is numbered. The state in the source is a bag of dictionaries tied together by
  strings; this is what the nodes rely on when they look one up in another. Each node keeps it; most
  nodes do not even touch what it depends on, which is the view \<open>refs_view\<close>.
\<close>

section \<open>The invariant\<close>

definition plan_ids :: "research_state \<Rightarrow> str list" where
  "plan_ids st = map sq_id (rs_plan st)"

definition refs_ok :: "research_state \<Rightarrow> bool" where
  "refs_ok st \<longleftrightarrow> distinct (plan_ids st) \<and> queries_numbered st \<and> library_ok st \<and> claims_numbered st
     \<and> well_clustered (rs_clusters st)
     \<and> (\<forall>q\<in>set (rs_queries st). q_subq_id q \<in> set (plan_ids st))
     \<and> (\<forall>p\<in>set (rs_pending_hits st). ph_subq_id p \<in> set (plan_ids st))
     \<and> (\<forall>d\<in>set (dvals (rs_documents st)). d_subq_ids d \<noteq> [] \<and> set (d_subq_ids d) \<subseteq> set (plan_ids st))
     \<and> (\<forall>c\<in>set (dvals (rs_claims st)). c_subq_id c \<in> set (plan_ids st) \<and> c_doc_id c \<in> set (dkeys (rs_documents st)))
     \<and> set (all_ids (rs_clusters st)) \<subseteq> set (dkeys (rs_claims st))
     \<and> (\<forall>x\<in>set (rs_contradictions st). set (x_cluster_ids x) \<subseteq> set (dkeys (rs_clusters st)))"

text \<open>Before the plan is made nothing refers to it.\<close>

definition nothing_gathered :: "research_state \<Rightarrow> bool" where
  "nothing_gathered st \<longleftrightarrow> rs_queries st = [] \<and> rs_pending_hits st = [] \<and> rs_documents st = [] \<and> rs_claims st = []
     \<and> rs_clusters st = [] \<and> rs_contradictions st = []"

lemma nothing_refers: "nothing_gathered st \<Longrightarrow> refs_ok st \<longleftrightarrow> distinct (plan_ids st)"
  by (simp add: nothing_gathered_def refs_ok_def queries_numbered_def library_ok_def claims_numbered_def numbered_def
      well_clustered_def all_ids_def)

text \<open>What the invariant and the rounds depend on.\<close>

definition query_refs :: "research_state \<Rightarrow> (str \<times> str) list" where
  "query_refs st = map (\<lambda>q. (q_id q, q_subq_id q)) (rs_queries st)"

definition doc_refs :: "(str, document) dict \<Rightarrow> (str \<times> str \<times> str \<times> str list) list" where
  "doc_refs docs = map (\<lambda>(i, d). (i, d_id d, d_canonical_url d, d_subq_ids d)) docs"

definition claim_refs :: "(str, claim) dict \<Rightarrow> (str \<times> str \<times> str \<times> str) list" where
  "claim_refs claims = map (\<lambda>(i, c). (i, c_id c, c_subq_id c, c_doc_id c)) claims"

definition cluster_refs :: "(str, cluster) dict \<Rightarrow> (str \<times> str \<times> str list) list" where
  "cluster_refs clusters = map (\<lambda>(i, k). (i, k_id k, k_claim_ids k)) clusters"

definition same_refs :: "research_state \<Rightarrow> research_state \<Rightarrow> bool" where
  "same_refs st st' \<longleftrightarrow> plan_ids st' = plan_ids st \<and> query_refs st' = query_refs st
     \<and> map ph_subq_id (rs_pending_hits st') = map ph_subq_id (rs_pending_hits st)
     \<and> doc_refs (rs_documents st') = doc_refs (rs_documents st) \<and> claim_refs (rs_claims st') = claim_refs (rs_claims st)
     \<and> cluster_refs (rs_clusters st') = cluster_refs (rs_clusters st)
     \<and> map x_cluster_ids (rs_contradictions st') = map x_cluster_ids (rs_contradictions st)
     \<and> rs_iteration st' = rs_iteration st"

lemma same_refs_refl [simp]: "same_refs st st"
  by (simp add: same_refs_def)

lemma same_refs_trans: "same_refs a b \<Longrightarrow> same_refs b c \<Longrightarrow> same_refs a c"
  by (simp add: same_refs_def)

lemma same_refs_sym: "same_refs a b \<Longrightarrow> same_refs b a"
  by (simp add: same_refs_def)

lemma refs_by_view:
  "refs_ok st \<longleftrightarrow> distinct (plan_ids st)
     \<and> map fst (query_refs st) = map (next_id (lit ''q'')) [0..<length (query_refs st)]
     \<and> map fst (doc_refs (rs_documents st)) = map (next_id (lit ''d'')) [0..<length (doc_refs (rs_documents st))]
     \<and> (\<forall>(i, j, u, s)\<in>set (doc_refs (rs_documents st)). j = i) \<and> distinct (map (\<lambda>(i, j, u, s). u) (doc_refs (rs_documents st)))
     \<and> map fst (claim_refs (rs_claims st)) = map (next_id (lit ''c'')) [0..<length (claim_refs (rs_claims st))]
     \<and> (\<forall>(i, j, s, d)\<in>set (claim_refs (rs_claims st)). j = i)
     \<and> distinct (map fst (cluster_refs (rs_clusters st))) \<and> (\<forall>(i, j, cs)\<in>set (cluster_refs (rs_clusters st)). j = i)
     \<and> distinct (concat (map (\<lambda>(i, j, cs). cs) (cluster_refs (rs_clusters st))))
     \<and> (\<forall>(i, s)\<in>set (query_refs st). s \<in> set (plan_ids st))
     \<and> (\<forall>s\<in>set (map ph_subq_id (rs_pending_hits st)). s \<in> set (plan_ids st))
     \<and> (\<forall>(i, j, u, s)\<in>set (doc_refs (rs_documents st)). s \<noteq> [] \<and> set s \<subseteq> set (plan_ids st))
     \<and> (\<forall>(i, j, s, d)\<in>set (claim_refs (rs_claims st)). s \<in> set (plan_ids st) \<and> d \<in> set (map fst (doc_refs (rs_documents st))))
     \<and> set (concat (map (\<lambda>(i, j, cs). cs) (cluster_refs (rs_clusters st)))) \<subseteq> set (map fst (claim_refs (rs_claims st)))
     \<and> (\<forall>x\<in>set (map x_cluster_ids (rs_contradictions st)). set x \<subseteq> set (map fst (cluster_refs (rs_clusters st))))"
proof -
  have keys: "map fst (doc_refs D) = dkeys D" "map fst (claim_refs C) = dkeys C" "map fst (cluster_refs K) = dkeys K"
    "map fst (query_refs st) = map q_id (rs_queries st)" "length (doc_refs D) = length D" "length (claim_refs C) = length C"
    "length (query_refs st) = length (rs_queries st)" for D C K
    by (auto simp: doc_refs_def claim_refs_def cluster_refs_def query_refs_def)
  have vals: "map (\<lambda>(i, j, u, s). u) (doc_refs D) = map d_canonical_url (dvals D)"
    "concat (map (\<lambda>(i, j, cs). cs) (cluster_refs K)) = all_ids K" for D K
    by (auto simp: doc_refs_def cluster_refs_def all_ids_def comp_def case_prod_beta)
  show ?thesis
    unfolding keys vals refs_ok_def queries_numbered_def library_ok_def claims_numbered_def numbered_def well_clustered_def
    by (simp add: doc_refs_def claim_refs_def cluster_refs_def query_refs_def case_prod_beta ball_conj_distrib conj_ac)
qed

lemma same_refs_ok: "same_refs st st' \<Longrightarrow> refs_ok st' = refs_ok st"
  unfolding refs_by_view same_refs_def by (elim conjE) (simp only:)

lemma same_refs_round: "same_refs st st' \<Longrightarrow> rs_iteration st' = rs_iteration st"
  by (simp add: same_refs_def)

lemma nothing_by_view:
  "nothing_gathered st \<longleftrightarrow> query_refs st = [] \<and> map ph_subq_id (rs_pending_hits st) = [] \<and> doc_refs (rs_documents st) = []
     \<and> claim_refs (rs_claims st) = [] \<and> cluster_refs (rs_clusters st) = [] \<and> map x_cluster_ids (rs_contradictions st) = []"
  by (simp add: nothing_gathered_def query_refs_def doc_refs_def claim_refs_def cluster_refs_def)

lemma same_refs_nothing: "same_refs st st' \<Longrightarrow> nothing_gathered st' = nothing_gathered st"
  unfolding nothing_by_view same_refs_def by (elim conjE) (simp only:)

text \<open>Steps that keep the view.\<close>

lemma doc_refs_update: "(\<And>d. (d_id (f d), d_canonical_url (f d), d_subq_ids (f d)) = (d_id d, d_canonical_url d, d_subq_ids d))
     \<Longrightarrow> same_refs st (update_document i f st)"
  by (auto simp: same_refs_def plan_ids_def query_refs_def update_document_def doc_refs_def dmap_at_def)

lemma update_first_ids: "(\<And>s. sq_id (f s) = sq_id s) \<Longrightarrow> map sq_id (update_first P f ss) = map sq_id ss"
  by (induction ss) auto

lemma same_refs_update_subquestion: "(\<And>s. sq_id (f s) = sq_id s) \<Longrightarrow> same_refs st (update_subquestion i f st)"
  by (simp add: same_refs_def plan_ids_def query_refs_def update_subquestion_def update_first_ids)

lemma same_refs_bump [simp]: "same_refs st (bump i n st)"
  by (simp add: same_refs_def plan_ids_def query_refs_def bump_def)

lemma same_refs_ledger: "same_ledger st st' \<Longrightarrow> same_refs st st'"
  by (auto simp: same_ledger_def same_refs_def plan_ids_def query_refs_def)

lemma fold_same_refs:
  "(\<And>x st w. same_refs st (fst (f x (st, w)))) \<Longrightarrow> same_refs st (fst (fold f xs (st, w)))"
proof (induction xs arbitrary: st w)
  case (Cons x xs)
  obtain st1 w1 where f: "f x (st, w) = (st1, w1)" by fastforce
  then have "same_refs st st1" using Cons.prems[of st x w] by simp
  then show ?case using Cons.IH[of st1 w1, OF Cons.prems] same_refs_trans f by auto
qed simp


section \<open>Nodes that keep the view\<close>

lemma intake_refs:
  assumes "intake_guard masker today k st w = (Inr st', w')"
  shows "same_refs st st'"
  using assms by (auto simp: intake_guard_def Let_def same_refs_def plan_ids_def query_refs_def split: if_splits)

lemma analyze_refs:
  assumes "analyze_query predict skills today k st w = (Inr st', w')"
  shows "same_refs st st'"
  using assms
  by (auto simp: analyze_query_def settle_analysis_def Let_def same_refs_def plan_ids_def query_refs_def
      split: prod.splits sum.splits llm_exception.splits)

lemma record_check_refs: "same_refs st (fst (record_check k c (st, w)))"
  by (simp add: record_check_def same_refs_def plan_ids_def query_refs_def)

lemma recorded_refs: "record_check k c (st, w) = (st', w') \<Longrightarrow> same_refs st st'"
  using record_check_refs[of st k c w] by simp

lemma check_plan_refs:
  assumes "check_plan k st w = (Inr st', w')"
  shows "same_refs st st'"
  using assms recorded_refs by (auto simp: check_plan_def Let_def split: prod.splits)

lemma review_evidence_refs:
  assumes "review_evidence cfg k st w = (Inr st', w')"
  shows "same_refs st st'"
proof -
  obtain st1 w1 where f: "fold (record_check k) (evidence_reviews st) (st, w) = (st1, w1)" by fastforce
  have "same_refs st st1" using fold_same_refs[of "record_check k", OF record_check_refs, of st "evidence_reviews st" w] f by simp
  moreover have "same_refs st1 st'"
    using assms f recorded_refs by (auto simp: review_evidence_def Let_def split: sum.splits prod.splits)
  ultimately show ?thesis by (rule same_refs_trans)
qed

lemma evaluate_refs:
  assumes "evaluate_sources predict schedule t sc k st w = (Inr st', w')"
  shows "same_refs st st'"
proof -
  have step: "same_refs st (fst (score_document t sc js k d (st, w)))" for js d st w
    by (simp add: score_document_def Let_def doc_refs_update)
  have "same_refs st (fst (fold (score_document t sc js k) ds (st, w)))" for js ds w
    by (rule fold_same_refs) (rule step)
  then show ?thesis using assms
    by (fastforce simp: evaluate_sources_def Let_def split: if_splits prod.splits sum.splits dest!: arg_cong[where f = fst])
qed

lemma output_gate_refs:
  assumes "output_gate cfg n k st w = (Inr st', w')"
  shows "same_refs st st'"
  using assms by (auto simp: output_gate_def same_refs_def plan_ids_def query_refs_def split: option.splits sum.splits)

lemma synthesize_refs:
  assumes "synthesize predict today k st w = (Inr st', w')"
  shows "same_refs st st'"
  using assms
  by (auto simp: synthesize_def Let_def same_refs_def plan_ids_def query_refs_def split: prod.splits sum.splits if_splits)


lemma verify_report_refs: "verify_report verify n schedule k r st w = (Inr (u, st'), w') \<Longrightarrow> same_refs st st'"
  by (auto simp: verify_report_def Let_def same_refs_def plan_ids_def query_refs_def split: if_splits prod.splits sum.splits)

lemma rewrite_once_refs:
  assumes "rewrite_once predict verify today n schedule k r u st w = (Inr (r', u', st'), w')"
  shows "same_refs st st'"
proof -
  have f: "same_refs st (st\<lparr>rs_resynthesized := True\<rparr>)" by (simp add: same_refs_def plan_ids_def query_refs_def)
  show ?thesis using assms f same_refs_trans[OF f verify_report_refs]
    by (auto simp: rewrite_once_def Let_def split: if_splits sum.splits prod.splits)
qed

lemma verify_citations_refs:
  assumes "verify_citations predict verify today n schedule k st w = (Inr st', w')"
  shows "same_refs st st'"
proof -
  have r: "same_refs st1 (bump c m (st1\<lparr>rs_report := r\<rparr>))" for st1 c m r
    by (simp add: same_refs_def plan_ids_def query_refs_def bump_def)
  show ?thesis
  proof (cases "rs_report st = None \<or> (\<exists>r0. rs_report st = Some r0 \<and> r_fallback r0)")
    case True
    then show ?thesis using assms by (auto simp: verify_citations_def)
  next
    case False
    then obtain r0 where r0: "rs_report st = Some r0" "\<not> r_fallback r0" by auto
    obtain u st1 w1 where v: "verify_report verify n schedule k r0 st w = (Inr (u, st1), w1)"
      using assms r0 by (auto simp: verify_citations_def split: sum.splits prod.splits)
    obtain r1 u1 st2 w2 where o: "rewrite_once predict verify today n schedule k r0 u st1 w1 = (Inr (r1, u1, st2), w2)"
      using assms r0 v by (auto simp: verify_citations_def split: sum.splits prod.splits)
    have "same_refs st2 st'"
      using assms r0 v o r by (auto simp: verify_citations_def Let_def split: sum.splits)
    then show ?thesis using verify_report_refs[OF v] rewrite_once_refs[OF o] same_refs_trans by blast
  qed
qed

lemma add_facets_id [simp]: "sq_id (add_facets l ms s) = sq_id s"
  by (induction l ms s rule: add_facets.induct) simp_all

lemma apply_item_refs: "same_refs st (fst (apply_item l k r item (st, w)))"
  by (simp add: apply_item_def same_refs_update_subquestion split: option.split)

lemma assess_facets_refs [simp]: "same_refs st (assess_facets s st)"
  by (simp add: same_refs_def plan_ids_def query_refs_def assess_facets_def comp_def)

lemma progress_plan_refs: "same_refs st (st\<lparr>rs_plan := progress_plan b st\<rparr>)"
  by (simp add: same_refs_def plan_ids_def query_refs_def progress_plan_def update_progress_def comp_def Let_def)

lemma apply_route_refs: "same_refs st (apply_route d st)"
  by (simp add: same_refs_def plan_ids_def query_refs_def apply_route_def Let_def)


lemma assess_coverage_stages:
  assumes "assess_coverage predict repr b sc l k now st w = (Inr st', w')"
  shows "\<exists>st3 m. same_refs st st3 \<and> st' = apply_route (decide repr now st3 m b) st3"
proof -
  define r where "r = (if open_subquestions (assess_facets sc st) = [] then (Inr (assess_facets sc st), w)
     else case predict [(lit ''question'', JStr (rs_question (assess_facets sc st))), (lit ''status'', status_payload (assess_facets sc st))] k w of
            (Inr output, w) \<Rightarrow>
              (let (st2, w') = fold (apply_item l k (co_rationale output)) (co_items output) (assess_facets sc st, w)
               in (Inr (assess_facets sc st2), w'))
          | (Inl (LLM_failure e), w) \<Rightarrow> (Inr (assess_facets sc (assess_facets sc st)), w)
          | (Inl x, w) \<Rightarrow> (Inl x, w))"
  have eq: "assess_coverage predict repr b sc l k now st w = (case r of (Inl x, w1) \<Rightarrow> (Inl x, w1)
      | (Inr st2, w1) \<Rightarrow> (let st3 = st2\<lparr>rs_plan := progress_plan b st2\<rparr>; w2 = fold (announce_missing k) (rs_plan st3) w1;
                d = decide repr now st3 (lw_meter w2) b in (Inr (apply_route d st3), announce_route k now d st3 w2)))"
    unfolding assess_coverage_def r_def Let_def by (simp add: case_prod_beta split: sum.splits)
  obtain st2 w1 where r: "r = (Inr st2, w1)" using assms unfolding eq by (auto split: prod.splits sum.splits)
  have items: "same_refs st (assess_facets sc (fst (fold (apply_item l k x) items (assess_facets sc st, v))))" for x items v
    using same_refs_trans[OF same_refs_trans[OF assess_facets_refs fold_same_refs[OF apply_item_refs]] assess_facets_refs] .
  have "same_refs st st2"
    using r items same_refs_trans[OF assess_facets_refs assess_facets_refs]
    by (auto simp: r_def Let_def case_prod_beta split: if_splits sum.splits llm_exception.splits prod.splits)
  then have "same_refs st (st2\<lparr>rs_plan := progress_plan b st2\<rparr>)" using progress_plan_refs same_refs_trans by blast
  then show ?thesis using assms unfolding eq r by (intro exI conjI) (auto simp: Let_def)
qed

lemma assess_coverage_refs: "assess_coverage predict repr b sc l k now st w = (Inr st', w') \<Longrightarrow> same_refs st st'"
proof -
  assume a: "assess_coverage predict repr b sc l k now st w = (Inr st', w')"
  obtain st3 m where "same_refs st st3" "st' = apply_route (decide repr now st3 m b) st3"
    using assess_coverage_stages[OF a] by blast
  then show ?thesis using apply_route_refs same_refs_trans by blast
qed

section \<open>Contradictions\<close>

lemma contested_refs:
  assumes "only_contested st st'"
  shows "cluster_refs (rs_clusters st') = cluster_refs (rs_clusters st)"
proof -
  have zip: "cluster_refs C = zip (dkeys C) (map (\<lambda>k. (k_id k, k_claim_ids k)) (map unstatus (dvals C)))" for C
    by (induction C) (auto simp: cluster_refs_def unstatus_def)
  show ?thesis using assms unfolding zip only_contested_def by (auto simp del: map_map)
qed

lemma detect_refs:
  assumes "detect_contradictions predict s k st w = (Inr st', w')" and "refs_ok st"
  shows "refs_ok st' \<and> rs_iteration st' = rs_iteration st"
proof -
  obtain pairs vs w1 where pairs: "contradiction_candidates (rs_clusters st) s (rs_language st) (judged_sets st) = Inr pairs"
    and loop: "record_pairs k vs (enumerate 1 pairs) (st, w1) = Inr (st', w')"
    using detect_pairs[OF assms(1)] by (elim exE conjE) (rule that)
  obtain xs where xs: "rs_contradictions st' = rs_contradictions st @ xs" "only_contested st st'"
    "map x_cluster_ids xs = map (\<lambda>(n, a, b). [a, b]) (enumerate 1 pairs)"
    using record_pairs_spec[OF only_contested_refl loop] by (elim exE conjE) (rule that)
  obtain C X where st': "st' = st\<lparr>rs_clusters := C, rs_contradictions := X\<rparr>" and keys: "dkeys C = dkeys (rs_clusters st)"
    using xs(2) unfolding only_contested_def by blast
  have "keyed_ledger (rs_clusters st)" using assms(2) by (simp add: refs_ok_def well_clustered_def keyed_ledger_def)
  note led = candidates_in_ledger[OF pairs _ this]
  have ids: "set ids \<subseteq> set (dkeys (rs_clusters st))" if i: "ids \<in> set (map x_cluster_ids xs)" for ids
  proof -
    obtain a b where ab: "(a, b) \<in> set pairs" "ids = [a, b]"
      using i unfolding xs(3) map_enumerate_pairs by auto
    have "dget (rs_clusters st) a \<noteq> None" "dget (rs_clusters st) b \<noteq> None" using led[OF ab(1)] by auto
    then show ?thesis unfolding ab(2) by (auto simp: map_of_eq_None_iff)
  qed
  let ?st = "st'\<lparr>rs_contradictions := rs_contradictions st\<rparr>"
  have "same_refs st ?st"
    using contested_refs[OF xs(2)] st' by (simp add: same_refs_def plan_ids_def query_refs_def)
  then have ok: "refs_ok ?st" using assms(2) same_refs_ok by blast
  have x: "\<forall>x\<in>set (rs_contradictions st @ xs). set (x_cluster_ids x) \<subseteq> set (dkeys C)"
    using assms(2) ids keys by (auto simp: refs_ok_def)
  have "refs_ok st'" using ok x xs(1) unfolding st' by (simp add: refs_ok_def plan_ids_def queries_numbered_def library_ok_def claims_numbered_def)
  then show ?thesis by (simp add: st')
qed


section \<open>Queries\<close>

definition admitted_refs :: "str set \<Rightarrow> admission \<Rightarrow> bool" where
  "admitted_refs P a \<longleftrightarrow> map q_id (ad_queries a) = map (next_id (lit ''q'')) [0..<length (ad_queries a)]
     \<and> (\<forall>q\<in>set (ad_queries a). q_subq_id q \<in> P)"

lemma admit_query_refs:
  assumes "admitted_refs P a" and "sq_id (tg_subq t) \<in> P"
  shows "admitted_refs P (admit_query n l t x y a)"
  using assms by (auto simp: admit_query_def Let_def admitted_refs_def next_id_def split: prod.split bool.split)

lemma fold_keeps: "(\<And>x a. x \<in> set xs \<Longrightarrow> Q a \<Longrightarrow> Q (f x a)) \<Longrightarrow> Q a \<Longrightarrow> Q (fold f xs a)"
  by (induction xs arbitrary: a) auto

definition targets_in :: "str set \<Rightarrow> target list \<Rightarrow> bool" where
  "targets_in P ts \<longleftrightarrow> (\<forall>t\<in>set ts. sq_id (tg_subq t) \<in> P)"

lemma match_target_in: "match_target ts q = Some t \<Longrightarrow> t \<in> set ts"
proof -
  have "t \<in> set ts" if "dget (rev (map (\<lambda>t. (target_key t, t)) ts)) key = Some t" for key
    using map_of_SomeD[OF that] by auto
  then show "match_target ts q = Some t \<Longrightarrow> t \<in> set ts"
    by (auto simp: match_target_def find_Some_iff split: option.splits)
qed

lemma admit_answer_refs: "admitted_refs P a \<Longrightarrow> targets_in P ts \<Longrightarrow> admitted_refs P (admit_answer n l ts qs a)"
  unfolding admit_answer_def
  by (rule fold_keeps) (auto simp: targets_in_def intro!: admit_query_refs dest: match_target_in split: option.split)

lemma top_up_refs: "admitted_refs P a \<Longrightarrow> targets_in P ts \<Longrightarrow> admitted_refs P (top_up st n l ts a)"
  unfolding top_up_def
  by (rule fold_keeps) (auto simp: targets_in_def intro!: fold_keeps[where Q = "admitted_refs P"] admit_query_refs)

lemma trim_targets_in: "targets_in P ts \<Longrightarrow> targets_in P (trim_targets cap used ts)"
  by (induction cap used ts rule: trim_targets.induct) (auto simp: targets_in_def Let_def)

lemma in_map_filter: "x \<in> set (List.map_filter f xs) \<Longrightarrow> \<exists>y\<in>set xs. f y = Some x"
  by (auto simp: map_filter_def)

lemma subquestion_of_in: "subquestion_of st i = Some s \<Longrightarrow> sq_id s \<in> set (plan_ids st)"
  by (auto simp: subquestion_of_def find_Some_iff plan_ids_def)

lemma plan_targets_in: "targets_in (set (plan_ids st)) (plan_targets b m st)"
proof -
  have "targets_in (set (plan_ids st)) (conflict_targets st)"
    by (auto simp: targets_in_def conflict_targets_def blank_target_def dest!: in_map_filter subquestion_of_in
        split: if_splits option.splits)
  moreover have "targets_in (set (plan_ids st)) (gap_targets b st)"
    by (auto simp: targets_in_def gap_targets_def plan_ids_def blank_target_def open_subquestions_def)
  ultimately have "targets_in (set (plan_ids st)) (conflict_targets st @ gap_targets b st)" by (auto simp: targets_in_def)
  moreover have "targets_in (set (plan_ids st)) (map (\<lambda>s. blank_target s n INITIAL) (open_subquestions st))" for n
    by (auto simp: targets_in_def blank_target_def plan_ids_def open_subquestions_def)
  moreover have "targets_in P []" for P by (simp add: targets_in_def)
  ultimately show ?thesis by (simp add: plan_targets_def Let_def trim_targets_in)
qed

lemma close_target_refs: "same_refs st (fst (close_target k a t (st, w)))"
proof -
  let ?f = "\<lambda>q. q\<lparr>sq_status := SEARCHING, sq_queries_tried := sq_queries_tried q @ map q_text (taken a (target_key t))\<rparr>"
  have "same_refs st (update_subquestion i ?f st)" for i by (rule same_refs_update_subquestion) simp
  moreover have "same_refs st1 (st1\<lparr>rs_contradictions := map (\<lambda>c. if x_id c = x then c\<lparr>x_followup_attempted := True\<rparr> else c)
      (rs_contradictions st1)\<rparr>)" for st1 x by (simp add: same_refs_def plan_ids_def query_refs_def comp_def if_distrib cong: if_cong)
  ultimately show ?thesis using same_refs_trans
    by (fastforce simp: close_target_def Let_def intro: same_refs_update_subquestion split: option.split)
qed

lemma finish_queries_refs:
  assumes "finish_queries k ts r a st w = (st', w')" and "refs_ok st" and "admitted_refs (set (plan_ids st)) a"
  shows "refs_ok st' \<and> rs_iteration st' = rs_iteration st"
proof -
  let ?st = "st\<lparr>rs_queries := ad_queries a\<rparr>"
  have "refs_ok ?st" using assms(2,3)
    by (simp add: refs_ok_def admitted_refs_def plan_ids_def queries_numbered_def library_ok_def claims_numbered_def)
  moreover have "same_refs ?st st'"
    using assms(1) fold_same_refs[of "close_target k a", OF close_target_refs, of ?st ts w]
    by (auto simp: finish_queries_def Let_def split: prod.splits)
  ultimately show ?thesis using same_refs_ok same_refs_round by auto
qed

lemma generate_refs:
  assumes "generate_queries predict b th today k now st w = (Inr st', w')" and "refs_ok st"
  shows "refs_ok st' \<and> rs_iteration st' = rs_iteration st + 1"
proof -
  let ?st = "open_round st" and ?P = "set (plan_ids st)"
  let ?a0 = "\<lparr>ad_dedup = query_dedup_init th (map q_text (rs_queries st)), ad_queries = rs_queries st, ad_admitted = []\<rparr>"
  have o: "plan_ids ?st = plan_ids st" "rs_queries ?st = rs_queries st" "rs_iteration ?st = rs_iteration st + 1"
    by (simp_all add: open_round_def plan_ids_def Let_def)
  have ok: "refs_ok ?st" using assms(2)
    by (simp add: refs_ok_def open_round_def plan_ids_def Let_def queries_numbered_def library_ok_def claims_numbered_def)
  have a0: "admitted_refs ?P ?a0"
    using assms(2) by (simp add: admitted_refs_def refs_ok_def queries_numbered_def)
  have t: "targets_in ?P (plan_targets b m ?st)" for m using plan_targets_in[of ?st] by (simp only: o)
  have f: "refs_ok st2" "rs_iteration st2 = rs_iteration ?st"
    if "finish_queries k' ts r a ?st w1 = (st2, w2)" "admitted_refs ?P a" for k' ts r a w1 st2 w2
    using finish_queries_refs[OF that(1) ok] that(2) by (simp_all add: o(1))
  show ?thesis unfolding o(3)[symmetric]
    using assms(1)
    by (auto simp: generate_queries_def Let_def o(2) ok split: if_splits prod.splits sum.splits llm_exception.splits)
      ((erule f(1) f(2), intro top_up_refs admit_answer_refs a0 t)+)
qed


section \<open>Searches\<close>

definition searching_for :: "str set \<Rightarrow> research_state \<Rightarrow> bool" where
  "searching_for P st \<longleftrightarrow> (\<forall>q\<in>set (rs_queries st). q_subq_id q \<in> P) \<and> (\<forall>p\<in>set (rs_pending_hits st). ph_subq_id p \<in> P)"

lemma in_update_first: "x \<in> set (update_first P f xs) \<Longrightarrow> x \<in> set xs \<or> (\<exists>y\<in>set xs. x = f y)"
  by (induction xs) (auto split: if_splits)

lemma searching_steps:
  assumes "searching_for P st"
  shows "(\<And>q. q_subq_id (f q) = q_subq_id q) \<Longrightarrow> searching_for P (update_query i f st)"
    and "q_subq_id q \<in> P \<Longrightarrow> searching_for P (add_hits q hs st)"
    and "q_subq_id q \<in> P \<Longrightarrow> searching_for P (st\<lparr>rs_queries := rs_queries st @ [q]\<rparr>)"
  using assms by (auto simp: searching_for_def update_query_def add_hits_def dest!: in_update_first)

lemma run_once_refs:
  assumes "run_once env g k index q st w = (Inr (st', e), w')" and "searching_for P st" and "q_subq_id q \<in> P"
  shows "searching_for P st'"
proof -
  have "q_subq_id (settle_query o' x) = q_subq_id x" for o' x by (simp add: settle_query_def)
  then show ?thesis using assms
    by (auto simp: run_once_def Let_def intro!: searching_steps split: if_splits prod.splits sum.splits)
qed

lemma run_query_refs:
  "run_query env g k iq st w = (Inr st', w') \<Longrightarrow> searching_for P st \<Longrightarrow> q_subq_id (snd iq) \<in> P \<Longrightarrow> searching_for P st'"
proof (induction env g k iq st w rule: run_query.induct)
  case (1 env g k index q st w)
  have q: "q_subq_id q \<in> P" "q_subq_id (broadened_query q st1) \<in> P" for st1
    using "1.prems"(3) by (simp_all add: broadened_query_def)
  obtain st1 e w1 where o: "run_once env g k index q st w = (Inr (st1, e), w1)"
    using "1.prems"(1) by (auto simp: run_query.simps split: prod.splits sum.splits)
  note s1 = run_once_refs[OF o "1.prems"(2) q(1)]
  show ?case
  proof (cases "wants_retry q e w1")
    case True
    then show ?thesis
      using "1.IH"[OF o[symmetric] refl refl True refl] "1.prems"(1) o searching_steps(3)[OF s1 q(2)] q(2)
      by (simp add: run_query.simps[of env g k index q] Let_def)
  next
    case False
    then show ?thesis using "1.prems"(1) o s1 by (simp add: run_query.simps)
  qed
qed

lemma search_refs:
  assumes "search_node env g schedule k st w = (Inr st', w')" and "refs_ok st"
    and "set (schedule (enumerate 0 (planned_queries st))) = set (enumerate 0 (planned_queries st))"
    and "length (schedule (enumerate 0 (planned_queries st))) = length (planned_queries st)"
  shows "refs_ok st' \<and> rs_iteration st' = rs_iteration st"
proof (cases "planned_queries st = []")
  case True
  then show ?thesis using assms by (simp add: search_node_def)
next
  case False
  let ?qs = "schedule (enumerate 0 (planned_queries st))" and ?P = "set (plan_ids st)"
  obtain w1 where f: "rfold (run_query env g k) ?qs st w = (Inr st', w1)"
    using assms(1) False by (auto simp: search_node_def split: prod.splits sum.splits)
  have "queries_numbered st" using assms(2) by (simp add: refs_ok_def)
  then have r: "queries_numbered st'" "searched_only st st'"
    using search_node_round[OF assms(1) _ assms(3,4)] by (auto simp: round_run_def)
  have "searching_for ?P st'"
  proof (rule rfold_invariant[OF f])
    show "searching_for ?P st" using assms(2) by (simp add: searching_for_def refs_ok_def)
  next
    fix iq st1 w1 st2 w2 assume iq: "iq \<in> set ?qs" "searching_for ?P st1" "run_query env g k iq st1 w1 = (Inr st2, w2)"
    have "snd iq \<in> set (map snd (enumerate 0 (planned_queries st)))" using iq(1) assms(3) by (auto simp del: map_snd_enumerate)
    then have "snd iq \<in> set (rs_queries st)" by (simp add: planned_queries_def)
    then show "searching_for ?P st2" using run_query_refs[OF iq(3,2)] assms(2) by (simp add: refs_ok_def)
  qed
  then show ?thesis
  proof -
    assume s: "searching_for ?P st'"
    obtain qs hs where "st' = st\<lparr>rs_queries := qs, rs_pending_hits := hs\<rparr>" using r(2) unfolding searched_only_iff by blast
    then show ?thesis
      using assms(2) r(1) s by (simp add: refs_ok_def searching_for_def plan_ids_def library_ok_def claims_numbered_def)
  qed
qed

section \<open>Pages\<close>

definition filed :: "str set \<Rightarrow> (str, document) dict \<Rightarrow> bool" where
  "filed P docs \<longleftrightarrow> (\<forall>(i, d)\<in>set docs. d_subq_ids d \<noteq> [] \<and> set (d_subq_ids d) \<subseteq> P)"

lemma filed_vals: "filed P docs \<longleftrightarrow> (\<forall>d\<in>set (dvals docs). d_subq_ids d \<noteq> [] \<and> set (d_subq_ids d) \<subseteq> P)"
  by (simp add: filed_def case_prod_beta)

lemma filed_refs: "filed P docs \<longleftrightarrow> (\<forall>(i, j, u, s)\<in>set (doc_refs docs). s \<noteq> [] \<and> set s \<subseteq> P)"
  by (simp add: filed_def doc_refs_def case_prod_beta)

lemma filed_update:
  assumes "filed P (rs_documents st)" and "\<And>d. d_subq_ids (f d) = d_subq_ids d"
  shows "filed P (rs_documents (update_document i f st))"
  using assms by (auto simp: filed_def update_document_def dmap_at_def split: if_splits) blast+

lemma in_dput: "v \<in> set (dvals (dput k x d)) \<Longrightarrow> v = x \<or> v \<in> set (dvals d)"
  by (induction d) (auto split: if_splits)

lemma take_hit_filed:
  assumes "take_hit qs p it = Inr it'" and "filed P (rs_documents (it_state it))" and "ph_subq_id p \<in> P"
  shows "filed P (rs_documents (it_state it'))"
proof -
  have s: "set (d_subq_ids (seen_again p d)) = insert (ph_subq_id p) (set (d_subq_ids d))" for d
    by (auto simp: seen_again_def Let_def)
  then have "d_subq_ids (seen_again p d) \<noteq> []" for d by (metis insert_not_empty list.set(1))
  then have "filed P (rs_documents (update_document i (seen_again p) (it_state it)))" for i
    using assms(2,3) s by (auto simp: filed_def update_document_def dmap_at_def split: if_splits) blast+
  moreover have "filed P (dput i (document_of_hit (it_state it) p c) (rs_documents (it_state it)))" for i c
    unfolding filed_vals
  proof
    fix d assume "d \<in> set (dvals (dput i (document_of_hit (it_state it) p c) (rs_documents (it_state it))))"
    from in_dput[OF this] show "d_subq_ids d \<noteq> [] \<and> set (d_subq_ids d) \<subseteq> P"
      using assms(2,3) unfolding filed_vals by (auto simp: document_of_hit_def Let_def)
  qed
  ultimately show ?thesis
    using assms(1,2) by (auto simp: take_hit_def Let_def split: sum.splits option.splits prod.splits)
qed

lemma take_hits_filed:
  "take_hits qs ps it = Inr it' \<Longrightarrow> filed P (rs_documents (it_state it)) \<Longrightarrow> \<forall>p\<in>set ps. ph_subq_id p \<in> P
     \<Longrightarrow> filed P (rs_documents (it_state it'))"
proof (induction qs ps it rule: take_hits.induct)
  case (2 qs p ps it)
  obtain it1 where "take_hit qs p it = Inr it1" "take_hits qs ps it1 = Inr it'" using 2(2) by (auto simp: rbind_Inr_iff)
  then show ?case using take_hit_filed[of qs p it it1 P] 2(1)[of it1] 2(3,4) by simp
qed simp


lemma date_document_subqs [simp]: "d_subq_ids (date_document rfc d) = d_subq_ids d"
  by (simp add: date_document_def split: prod.split)

lemma page_read_subqs [simp]: "d_subq_ids (page_read m page d) = d_subq_ids d"
  by (simp add: page_read_def Let_def)

lemma triage_filed: "filed P (rs_documents st) \<Longrightarrow> filed P (rs_documents (fold (triage_document rfc t) best st))"
  by (rule fold_keeps[where Q = "\<lambda>st. filed P (rs_documents st)"])
    (auto simp: triage_document_def Let_def intro!: filed_update split: prod.split)

lemma intake_filed:
  assumes "intake_results rfc t st = Inr it" and "filed P (rs_documents st)" and "\<forall>p\<in>set (rs_pending_hits st). ph_subq_id p \<in> P"
  shows "filed P (rs_documents (it_state it))"
proof -
  obtain it1 where t: "take_hits (rs_queries st) (rs_pending_hits st) \<lparr>it_state = st, it_duplicates = 0, it_best = [], it_new = []\<rparr> = Inr it1"
    and it: "it_state it = fold (triage_document rfc t) (it_best it1) ((it_state it1)\<lparr>rs_pending_hits := []\<rparr>)"
    using assms(1) by (auto simp: intake_results_def rbind_Inr_iff)
  have "filed P (rs_documents (it_state it1))" using take_hits_filed[OF t] assms(2,3) by simp
  then show ?thesis unfolding it by (intro triage_filed) simp
qed

lemma select_filed: "filed P (rs_documents (fst sel)) \<Longrightarrow> filed P (rs_documents (fst (fold (select_for k) ss sel)))"
proof (rule fold_keeps[where Q = "\<lambda>sel. filed P (rs_documents (fst sel))"])
  fix s and sel :: "research_state \<times> str list" assume f: "filed P (rs_documents (fst sel))"
  let ?F = "\<lambda>i (st, selected). if List.member selected i then (st, selected)
     else (update_document i (\<lambda>d. d\<lparr>d_selected_round := Some (rs_iteration st)\<rparr>) st, selected @ [i])"
  have "filed P (rs_documents (fst (fold ?F is sel)))" for "is"
    by (rule fold_keeps[where Q = "\<lambda>sel. filed P (rs_documents (fst sel))"])
      (auto intro: f filed_update split: prod.split)
  then show "filed P (rs_documents (fst (select_for k s sel)))"
    using f by (cases sel) (simp add: select_for_def)
qed

lemma assign_filed:
  "assign_documents ops is s = Inr s' \<Longrightarrow> filed P (rs_documents (fst s)) \<Longrightarrow> filed P (rs_documents (fst s'))"
proof (induction "is" arbitrary: s)
  case (Cons i "is" s)
  obtain s1 where a: "assign_document ops i s = Inr s1" "assign_documents ops is s1 = Inr s'"
    using Cons.prems(1) by (auto simp: rbind_Inr_iff)
  have "filed P (rs_documents (fst s1))"
    using a(1) Cons.prems(2) by (cases s) (auto simp: assign_document_def rbind_Inr_iff intro!: filed_update)
  then show ?case using Cons.IH[OF a(2)] by blast
qed simp

lemma results_filed:
  assumes "process_results env s rfc t ops lsh n schedule k st w = (Inr st', w')"
    and "filed P (rs_documents st)" and "\<forall>p\<in>set (rs_pending_hits st). ph_subq_id p \<in> P"
  shows "filed P (rs_documents st')"
proof -
  obtain it where it: "intake_results rfc t st = Inr it" using assms(1) by (auto simp: process_results_def split: sum.splits)
  obtain st1 sel where sel: "fold (select_for (round_limit s st)) (rs_plan st) (it_state it, []) = (st1, sel)" by fastforce
  obtain f w1 where f: "rfold (fetch_document env s k) (schedule (map d_id (filter needs_fetch (documents_at st1 sel))))
      \<lparr>ft_state = st1, ft_failures = 0\<rparr> w = (Inr f, w1)"
    using assms(1) it sel by (auto simp: process_results_def Let_def split: sum.splits prod.splits)
  obtain ix st2 ix2 where a: "assign_documents ops sel (ft_state f, ix) = Inr (st2, ix2)" and st': "rs_documents st' = rs_documents st2"
    using assms(1) it sel f by (auto simp: process_results_def Let_def rbind_Inr_iff split: sum.splits prod.splits)
  have "filed P (rs_documents st1)"
    using select_filed[of P "(it_state it, [])" "round_limit s st" "rs_plan st"] intake_filed[OF it assms(2,3)] sel by simp
  then have "filed P (rs_documents (ft_state f))"
  proof (intro rfold_invariant[OF f, where P = "\<lambda>f. filed P (rs_documents (ft_state f))"])
    fix i f1 w1 f2 w2
    assume "filed P (rs_documents (ft_state f1))" and "fetch_document env s k i f1 w1 = (Inr f2, w2)"
    then show "filed P (rs_documents (ft_state f2))"
      by (auto simp: fetch_document_def Let_def intro!: filed_update split: option.splits prod.splits if_splits)
  qed simp
  then show ?thesis using assign_filed[OF a] st' by simp
qed

lemma key_dget: "i \<in> set (dkeys d) \<longleftrightarrow> (\<exists>v. dget d i = Some v)"
  by (cases "dget d i") (force simp: map_of_eq_None_iff dest: map_of_SomeD)+

lemma process_refs:
  assumes "process_results env s rfc t ops lsh n schedule k st w = (Inr st', w')" and "refs_ok st"
  shows "refs_ok st' \<and> rs_iteration st' = rs_iteration st"
proof -
  have lib: "library_ok st" and f: "filed (set (plan_ids st)) (rs_documents st)"
    and h: "\<forall>p\<in>set (rs_pending_hits st). ph_subq_id p \<in> set (plan_ids st)"
    using assms(2) by (simp_all add: refs_ok_def filed_vals)
  obtain st1 sel where a: "well_processed st st1" and b: "well_processed (mark_docs sel st1) st'" and none: "rs_pending_hits st' = []"
    using processed_stages[OF assms(1) lib] by (elim exE conjE) (rule that)
  have p: "processed_only st st'" and ok: "library_ok st'"
    using a b processed_only_trans[of st st1 "mark_docs sel st1"] processed_only_trans[of st "mark_docs sel st1" st']
    by (simp_all add: well_processed_def)
  have keys: "set (dkeys (rs_documents st)) \<subseteq> set (dkeys (rs_documents st'))"
  proof
    fix i assume "i \<in> set (dkeys (rs_documents st))"
    then obtain d where "dget (rs_documents st) i = Some d" unfolding key_dget by blast
    then obtain d1 where "dget (rs_documents st1) i = Some d1" using a growsD(1) unfolding well_processed_def by blast
    then obtain d2 where "dget (rs_documents (mark_docs sel st1)) i = Some d2" using mark_kept by blast
    then show "i \<in> set (dkeys (rs_documents st'))" using b growsD(1) unfolding well_processed_def key_dget by blast
  qed
  note pf = processed_only_fields[OF p]
  have "filed (set (plan_ids st)) (rs_documents st')" by (rule results_filed[OF assms(1) f h])
  then show ?thesis
    using assms(2) ok keys pf none
    by (simp add: refs_ok_def plan_ids_def filed_vals queries_numbered_def claims_numbered_def) blast
qed

section \<open>Claims\<close>

lemma store_claims_refs: "same_refs st (fold store_claim cs st \<lparr>rs_claims := rs_claims st\<rparr>)"
proof (induction cs arbitrary: st)
  case (Cons c cs)
  have a: "same_refs st (store_claim c st\<lparr>rs_claims := rs_claims st\<rparr>)"
    by (simp add: store_claim_def Let_def bump_def same_refs_def plan_ids_def query_refs_def)
  have "same_refs (store_claim c st\<lparr>rs_claims := cl\<rparr>) (fold store_claim cs (store_claim c st)\<lparr>rs_claims := cl\<rparr>)" for cl
    using Cons.IH[of "store_claim c st"] by (simp add: same_refs_def plan_ids_def query_refs_def)
  note b = this[of "rs_claims st"]
  show ?case using same_refs_trans[OF a b] by simp
qed (simp add: same_refs_def plan_ids_def query_refs_def)

lemma extract_document_refs:
  assumes "extract_document predict validate order rfc today k d s w = (Inr s', w')"
  shows "same_refs (xt_state s) (xt_state s')"
  using assms
  by (auto simp: extract_document_def Let_def intro!: doc_refs_update split: sum.splits prod.splits llm_exception.splits)

lemma extract_frame:
  assumes "extract_claims predict validate order rfc schedule today k st w = (Inr st', w')"
  shows "same_refs st (st'\<lparr>rs_claims := rs_claims st\<rparr>)"
proof (cases "readable st = []")
  case True
  then show ?thesis using assms by (simp add: extract_claims_def)
next
  case False
  let ?s0 = "\<lparr>xt_found = [], xt_state = st, xt_stats = \<lparr>xs_claims = 0, xs_rejected = 0, xs_failed = 0, xs_injection = 0\<rparr>\<rparr>"
  have b: "same_refs a (b\<lparr>rs_claims := cl\<rparr>) \<Longrightarrow> same_refs a (bump c n b\<lparr>rs_claims := cl\<rparr>)" for a b c n cl
    by (simp add: same_refs_def plan_ids_def query_refs_def bump_def)
  obtain s w1 where loop: "rfold (extract_document predict validate order rfc today k) (schedule (readable st)) ?s0 w = (Inr s, w1)"
    using assms False by (auto simp: extract_claims_def Let_def split: prod.splits sum.splits)
  have s: "same_refs st (xt_state s)"
  proof (rule rfold_invariant[OF loop, where P = "\<lambda>s. same_refs st (xt_state s)"])
    fix d s1 w1 s2 w2 assume "same_refs st (xt_state s1)" "extract_document predict validate order rfc today k d s1 w1 = (Inr s2, w2)"
    then show "same_refs st (xt_state s2)" using extract_document_refs same_refs_trans by blast
  qed simp
  have "rs_claims (xt_state s) = rs_claims st"
  proof (rule rfold_invariant[OF loop, where P = "\<lambda>s. rs_claims (xt_state s) = rs_claims st"])
    fix d s1 w1 s2 w2 assume "rs_claims (xt_state s1) = rs_claims st" "extract_document predict validate order rfc today k d s1 w1 = (Inr s2, w2)"
    then show "rs_claims (xt_state s2) = rs_claims st"
      by (auto simp: extract_document_def Let_def update_document_def split: sum.splits prod.splits llm_exception.splits)
  qed simp
  then have "same_refs st (fold store_claim cs (xt_state s)\<lparr>rs_claims := rs_claims st\<rparr>)" for cs
    using same_refs_trans[OF s] store_claims_refs[of "xt_state s"] by simp
  then show ?thesis using assms loop False by (auto simp: extract_claims_def Let_def intro!: b)
qed

lemma refs_ok_claims:
  assumes "refs_ok (st\<lparr>rs_claims := cl\<rparr>)" and "claims_numbered st"
    and "\<forall>c\<in>set (dvals (rs_claims st)). c_subq_id c \<in> set (plan_ids st) \<and> c_doc_id c \<in> set (dkeys (rs_documents st))"
    and "set (dkeys cl) \<subseteq> set (dkeys (rs_claims st))"
  shows "refs_ok st"
proof -
  have "set (all_ids (rs_clusters st)) \<subseteq> set (dkeys cl)" using assms(1) by (simp add: refs_ok_def)
  then have "set (all_ids (rs_clusters st)) \<subseteq> set (dkeys (rs_claims st))" using assms(4) by (rule order.trans)
  then show ?thesis using assms(1,2,3) unfolding refs_ok_def queries_numbered_def library_ok_def plan_ids_def
    by (elim conjE) (intro conjI; simp)
qed

lemma extract_refs:
  assumes "extract_claims predict validate order rfc schedule today k st w = (Inr st', w')" and "refs_ok st"
    and "set (schedule (readable st)) \<subseteq> set (readable st)"
  shows "refs_ok st' \<and> rs_iteration st' = rs_iteration st"
proof -
  note f = extract_frame[OF assms(1)]
  have n: "claims_numbered st" using assms(2) by (simp add: refs_ok_def)
  obtain new where new: "claims_numbered st'" "rs_claims st' = rs_claims st @ new" "rs_plan st' = rs_plan st"
    "\<forall>(i, c)\<in>set new. \<exists>d\<in>set (readable st). grounded_claim validate order k st d c"
    "dkeys (rs_documents st') = dkeys (rs_documents st)"
    using extraction_grounded[OF assms(1,3) n] by blast
  have ok: "refs_ok (st'\<lparr>rs_claims := rs_claims st\<rparr>)" using assms(2) same_refs_ok[OF f] by simp
  have c: "c_subq_id c \<in> set (plan_ids st') \<and> c_doc_id c \<in> set (dkeys (rs_documents st'))" if ic: "(i, c) \<in> set new" for i c
  proof -
    obtain d where d: "d \<in> set (readable st)" "grounded_claim validate order k st d c"
      using bspec[OF new(4) ic] unfolding prod.case by blast
    have "\<forall>(i, d)\<in>set (rs_documents st). d_id d = i" using assms(2) by (simp add: refs_ok_def library_ok_def numbered_def)
    moreover have "d \<in> set (dvals (rs_documents st))" using d(1) by (auto simp: readable_def selected_documents_def)
    ultimately have "d_id d \<in> set (dkeys (rs_documents st))" by force
    moreover have "c_doc_id c = d_id d" and "\<exists>s\<in>set (rs_plan st). sq_id s = c_subq_id c"
      using d(2) by (auto simp: grounded_claim_def admitted_claim_def)
    then have "c_subq_id c \<in> set (plan_ids st)" by (auto simp: plan_ids_def) (metis image_eqI)
    ultimately show ?thesis unfolding new(5) using new(3) \<open>c_doc_id c = d_id d\<close> by (simp add: plan_ids_def)
  qed
  have old: "\<forall>c\<in>set (dvals (rs_claims st)). c_subq_id c \<in> set (plan_ids st') \<and> c_doc_id c \<in> set (dkeys (rs_documents st'))"
    using ok by (simp add: refs_ok_def plan_ids_def)
  have "refs_ok st'"
  proof (rule refs_ok_claims[OF ok new(1)])
    show "\<forall>c\<in>set (dvals (rs_claims st')). c_subq_id c \<in> set (plan_ids st') \<and> c_doc_id c \<in> set (dkeys (rs_documents st'))"
      unfolding new(2) using old c by auto
  qed (simp add: new(2))
  then show ?thesis using same_refs_round[OF f] by simp
qed


section \<open>Clusters and the plan\<close>

lemma clusters_keep_ledger:
  assumes "cluster_claims existing new_claims vectors documents s all_claims = Inr clusters'"
    and "well_clustered existing" and "distinct (map c_id new_claims)"
    and "c_id ` set new_claims \<inter> set (all_ids existing) = {}"
  shows "well_clustered clusters' \<and> set (dkeys existing) \<subseteq> set (dkeys clusters')
    \<and> set (all_ids clusters') = set (all_ids existing) \<union> c_id ` set new_claims"
proof -
  from assms(1) obtain cl reps where
    p: "place_all vectors s new_claims (existing, representatives existing (add_claims new_claims all_claims)) = Inr (cl, reps)"
    and res: "clusters' = dmap_vals (refresh (add_claims new_claims all_claims) documents) cl"
    by (rule cluster_claims_Inr)
  have ex: "distinct (dkeys existing)" "\<forall>(cid, k)\<in>set existing. k_id k = cid" "distinct (all_ids existing)"
    using assms(2) by (simp_all add: well_clustered_def)
  note k = place_all_kept[OF p ex(1,2)]
  have ids: "all_ids clusters' = all_ids cl" by (simp add: res all_ids_def comp_def)
  have "\<forall>(cid, k)\<in>set clusters'. k_id k = cid" using k by (auto simp: res dmap_vals_def)
  moreover have "distinct (dkeys clusters')" using k by (simp add: res)
  moreover have "distinct (all_ids clusters')" using k ex(3) assms(3,4) unfolding ids by blast
  moreover have "prefix (dkeys existing) (dkeys clusters')" using k kept_dkeys[of existing cl] by (simp add: res)
  then have "set (dkeys existing) \<subseteq> set (dkeys clusters')" by (rule set_mono_prefix)
  ultimately show ?thesis using k unfolding ids well_clustered_def by blast
qed

lemma clustered_refs:
  assumes "cluster_and_corroborate embedder model s k st w = (Inr st', w')" and "refs_ok st"
  shows "refs_ok st' \<and> rs_iteration st' = rs_iteration st"
proof (cases "unclustered st = []")
  case True
  then show ?thesis using assms by (simp add: cluster_and_corroborate_def)
next
  case False
  obtain moved docs claims where m: "merge_syndicated_origins (rs_documents st) (rs_claims st)
      (ds_syndication_min_shared_quotes s) (ds_syndication_min_quote_words s) = (moved, docs, claims)" using prod_cases3 by blast
  let ?st = "st\<lparr>rs_documents := docs, rs_claims := claims\<rparr>"
  have same: "same_refs st ?st"
    unfolding merged_dicts(2,3)[OF m] by (simp add: same_refs_def plan_ids_def query_refs_def doc_refs_def claim_refs_def dmap_vals_def case_prod_beta)
  then have ok: "refs_ok ?st" using assms(2) same_refs_ok by blast
  obtain vectors clusters where c: "cluster_claims (rs_clusters st) (unclustered ?st) vectors docs s claims = Inr clusters"
    and st': "st' = ?st\<lparr>rs_clusters := clusters\<rparr>"
    using assms(1) m False by (auto simp: cluster_and_corroborate_def Let_def split: prod.splits sum.splits)
  have wc: "well_clustered (rs_clusters st)" using assms(2) by (simp add: refs_ok_def)
  have num: "numbered (lit ''c'') c_id claims" using ok by (simp add: refs_ok_def claims_numbered_def)
  then have "\<forall>x\<in>set claims. c_id (snd x) = fst x" by (auto simp: numbered_def)
  then have keys: "map c_id (dvals claims) = dkeys claims" by simp
  then have cids: "distinct (map c_id (dvals claims))" using numbered_distinct[OF num] by (simp only:)
  have u: "unclustered ?st = filter (\<lambda>c. c_id c \<notin> set (all_ids (rs_clusters st)) \<and> c_validation_status c \<in> {V_SUPPORTED, LEGACY}) (dvals claims)"
    by (simp add: unclustered_def all_ids_def)
  have "distinct (map c_id (unclustered ?st))" unfolding u by (rule distinct_map_filter[OF cids])
  moreover have "c_id ` set (unclustered ?st) \<inter> set (all_ids (rs_clusters st)) = {}" unfolding u by auto
  ultimately have k: "well_clustered clusters" "set (dkeys (rs_clusters st)) \<subseteq> set (dkeys clusters)"
    "set (all_ids clusters) = set (all_ids (rs_clusters st)) \<union> c_id ` set (unclustered ?st)"
    using clusters_keep_ledger[OF c wc] by blast+
  have "c_id ` set (unclustered ?st) \<subseteq> set (dkeys claims)"
    unfolding u keys[symmetric] by auto
  then have ids: "set (all_ids clusters) \<subseteq> set (dkeys claims)" using k(3) ok by (simp add: refs_ok_def)
  have "\<forall>x\<in>set (rs_contradictions st). set (x_cluster_ids x) \<subseteq> set (dkeys (rs_clusters st))" using assms(2) by (simp add: refs_ok_def)
  then have "\<forall>x\<in>set (rs_contradictions st). set (x_cluster_ids x) \<subseteq> set (dkeys clusters)" using k(2) by blast
  then have "refs_ok st'" using ok k(1) ids unfolding st' refs_ok_def plan_ids_def queries_numbered_def library_ok_def claims_numbered_def
    by (elim conjE) (intro conjI; simp)
  then show ?thesis by (simp add: st')
qed

definition plan_numbered :: "subquestion list \<Rightarrow> bool" where
  "plan_numbered ss \<longleftrightarrow> map sq_id ss = map (next_id (lit ''s'')) [0..<length ss]"

lemma keep_subquestions_numbered: "plan_numbered ss \<Longrightarrow> plan_numbered (keep_subquestions s st cs ss)"
  by (induction s st cs ss rule: keep_subquestions.induct)
    (auto simp: Let_def plan_numbered_def plan_subquestion_def new_subquestion_def)

lemma normalise_plan_numbered: "plan_numbered (normalise_plan s out st)"
proof -
  have "map sq_id (ensure_must qs) = map sq_id qs" for qs by (cases qs) auto
  moreover from this have "length (ensure_must qs) = length qs" for qs by (metis length_map)
  moreover have "plan_numbered []" by (simp add: plan_numbered_def)
  ultimately show ?thesis using keep_subquestions_numbered unfolding normalise_plan_def plan_numbered_def by metis
qed

lemma plan_refs:
  assumes "plan_node predict s k st w = (Inr st', w')"
  shows "(nothing_gathered st \<longrightarrow> refs_ok st') \<and> rs_iteration st' = rs_iteration st"
proof -
  have d: "distinct (map sq_id ss)" if "plan_numbered ss" for ss
    using that unfolding plan_numbered_def by (simp add: distinct_map inj_on_def)
  have st': "\<exists>ss. st' = st\<lparr>rs_plan := ss\<rparr> \<and> distinct (map sq_id ss)"
    using assms d[OF normalise_plan_numbered]
    by (auto simp: plan_node_def Let_def fallback_plan_def split: if_splits prod.splits sum.splits llm_exception.splits)
  then obtain ss where ss: "st' = st\<lparr>rs_plan := ss\<rparr>" "distinct (map sq_id ss)" by blast
  have "nothing_gathered st' = nothing_gathered st" by (simp add: ss nothing_gathered_def)
  then show ?thesis using nothing_refers[of st'] ss by (simp add: plan_ids_def)
qed

end
