(* ===== verification/GraphProps.thy ===== *)
theory GraphProps
  imports Graph StateRefs RouterProps Demo "HOL-Library.Multiset"
begin

text \<open>
  The graph as a whole. Every state a run passes through is well typed: no id of one of its tables points
  nowhere. And the graph ends: the router stops at the configured number of rounds, so the recursion
  limit LangGraph is given is never what ends a run. Both hold for every model, provider, page, clock and
  cancellation; all that is assumed of the environment is that a gather runs each of its tasks once.
\<close>

section \<open>The deciding node\<close>

lemma decide_continues: "\<not> de_stop (decide repr now st m b) \<Longrightarrow> rs_iteration st < bs_max_iterations b"
  by (auto simp: decide_def split: if_splits option.splits)

lemma apply_route_simps [simp]:
  "rs_iteration (apply_route d st) = rs_iteration st"
  "route_after_coverage (apply_route d st) = (if de_stop d then lit ''synthesize'' else lit ''generate_queries'')"
  by (simp_all add: apply_route_def route_after_coverage_def Let_def)

section \<open>Typed states\<close>

definition fair :: "schedules \<Rightarrow> bool" where
  "fair sd \<longleftrightarrow> (\<forall>xs. mset (sd_search sd xs) = mset xs) \<and> (\<forall>xs. mset (sd_fetch sd xs) = mset xs)
     \<and> (\<forall>xs. mset (sd_evaluate sd xs) = mset xs) \<and> (\<forall>xs. mset (sd_extract sd xs) = mset xs)
     \<and> (\<forall>xs. mset (sd_verify sd xs) = mset xs)"

lemma fair_extract: "fair sd \<Longrightarrow> set (sd_extract sd ds) \<subseteq> set ds"
  unfolding fair_def by (metis order.refl set_mset_mset)

lemma fair_search:
  assumes "fair sd"
  shows "set (sd_search sd (enumerate 0 qs)) = set (enumerate 0 qs)" "length (sd_search sd (enumerate 0 qs)) = length qs"
proof -
  have m: "mset (sd_search sd (enumerate 0 qs)) = mset (enumerate 0 qs)" using assms unfolding fair_def by blast
  show "set (sd_search sd (enumerate 0 qs)) = set (enumerate 0 qs)" by (rule mset_eq_setD[OF m])
  show "length (sd_search sd (enumerate 0 qs)) = length qs" using mset_eq_length[OF m] by simp
qed

text \<open>A state that reaches a node: before the plan is made, nothing is gathered.\<close>

definition typed :: "node \<Rightarrow> research_state \<Rightarrow> bool" where
  "typed n st = (if n \<in> {Intake_guard, Analyze_query, Plan_node} then nothing_gathered st else refs_ok st)"

definition typed_after :: "node \<Rightarrow> research_state \<Rightarrow> bool" where
  "typed_after n st = (if n \<in> {Intake_guard, Analyze_query} then nothing_gathered st else refs_ok st)"

lemma model_raised_Inr [simp]: "model_raised p = (Inr st, w) \<longleftrightarrow> p = (Inr st, w)"
  by (cases p) auto

lemma keeps_typed: "same_refs st st' \<Longrightarrow> refs_ok st \<Longrightarrow> refs_ok st' \<and> rs_iteration st' = rs_iteration st"
  using same_refs_ok same_refs_round by blast

lemma node_fn_typed:
  assumes "node_fn e n k now st w = (Inr st', w')" and "fair (ge_schedules e)" and "typed n st"
  shows "typed_after n st' \<and> rs_iteration st' = (if n = Generate_queries then rs_iteration st + 1 else rs_iteration st)"
proof (cases n)
  case Intake_guard
  then have "same_refs st st'" using assms(1) intake_refs by (auto simp: node_fn_def Let_def)
  then show ?thesis using assms(3) Intake_guard same_refs_nothing same_refs_round by (simp add: typed_def typed_after_def)
next
  case Analyze_query
  then have "same_refs st st'" using assms(1) analyze_refs by (auto simp: node_fn_def Let_def)
  then show ?thesis using assms(3) Analyze_query same_refs_nothing same_refs_round by (simp add: typed_def typed_after_def)
next
  case Plan_node
  then show ?thesis using assms(1,3) plan_refs by (auto simp: node_fn_def Let_def typed_def typed_after_def)
next
  case Check_plan
  then show ?thesis using assms(1,3) keeps_typed[OF check_plan_refs] by (auto simp: node_fn_def Let_def typed_def typed_after_def)
next
  case Generate_queries
  then show ?thesis using assms(1,3) generate_refs by (auto simp: node_fn_def Let_def typed_def typed_after_def)
next
  case Search_node
  then show ?thesis using assms(1,3) search_refs[where schedule = "sd_search (ge_schedules e)", OF _ _ fair_search[OF assms(2)]]
    by (auto simp: node_fn_def Let_def typed_def typed_after_def)
next
  case Process_results
  then show ?thesis using assms(1,3) by (auto simp: node_fn_def Let_def typed_def typed_after_def dest: process_refs)
next
  case Evaluate_sources
  then show ?thesis using assms(1,3) keeps_typed[OF evaluate_refs] by (auto simp: node_fn_def Let_def typed_def typed_after_def)
next
  case Extract_claims
  then show ?thesis using assms(1,3) extract_refs[where schedule = "sd_extract (ge_schedules e)", OF _ _ fair_extract[OF assms(2)]]
    by (auto simp: node_fn_def Let_def typed_def typed_after_def)
next
  case Cluster_and_corroborate
  then show ?thesis using assms(1,3) clustered_refs by (auto simp: node_fn_def Let_def typed_def typed_after_def)
next
  case Detect_contradictions
  then show ?thesis using assms(1,3) detect_refs by (auto simp: node_fn_def Let_def typed_def typed_after_def)
next
  case Assess_coverage
  then show ?thesis using assms(1,3) keeps_typed[OF assess_coverage_refs] by (auto simp: node_fn_def Let_def typed_def typed_after_def)
next
  case Synthesize
  then show ?thesis using assms(1,3) keeps_typed[OF synthesize_refs] by (auto simp: node_fn_def Let_def typed_def typed_after_def)
next
  case Verify_citations
  then show ?thesis using assms(1,3) keeps_typed[OF verify_citations_refs] by (auto simp: node_fn_def Let_def typed_def typed_after_def)
next
  case Review_evidence
  then show ?thesis using assms(1,3) keeps_typed[OF review_evidence_refs] by (auto simp: node_fn_def Let_def typed_def typed_after_def)
next
  case Output_gate
  then show ?thesis using assms(1,3) keeps_typed[OF output_gate_refs] by (auto simp: node_fn_def Let_def typed_def typed_after_def)
qed

lemma edges_eval [simp]:
  "dget graph_edges Intake_guard = Some Analyze_query" "dget graph_edges Analyze_query = Some Plan_node"
  "dget graph_edges Plan_node = Some Check_plan" "dget graph_edges Check_plan = Some Generate_queries"
  "dget graph_edges Generate_queries = Some Search_node" "dget graph_edges Search_node = Some Process_results"
  "dget graph_edges Process_results = Some Evaluate_sources" "dget graph_edges Evaluate_sources = Some Extract_claims"
  "dget graph_edges Extract_claims = Some Cluster_and_corroborate"
  "dget graph_edges Cluster_and_corroborate = Some Detect_contradictions"
  "dget graph_edges Detect_contradictions = Some Assess_coverage"
  "dget graph_edges Synthesize = Some Verify_citations" "dget graph_edges Verify_citations = Some Review_evidence"
  "dget graph_edges Review_evidence = Some Output_gate" "dget graph_edges Output_gate = None"
  by (simp_all add: graph_edges_def NODES_def)


lemma run_node_Inr:
  assumes "run_node e i n st w = (Inr st', w')"
  shows "\<exists>k now w1 st1 w2 b. node_fn e n k now st w1 = (Inr st1, w2) \<and> st' = st1\<lparr>rs_budget := b\<rparr>"
  using assms by (fastforce simp: run_node_def Let_def split: if_splits prod.splits sum.splits option.splits)

lemma run_node_typed:
  assumes "run_node e i n st w = (Inr st', w')" and "fair (ge_schedules e)" and "typed n st"
  shows "typed_after n st' \<and> rs_iteration st' = (if n = Generate_queries then rs_iteration st + 1 else rs_iteration st)"
proof -
  obtain k now w1 st1 w2 b where f: "node_fn e n k now st w1 = (Inr st1, w2)" and st': "st' = st1\<lparr>rs_budget := b\<rparr>"
    using run_node_Inr[OF assms(1)] by (elim exE conjE) (rule that)
  have "same_refs st1 st'" by (simp add: st' same_refs_def plan_ids_def query_refs_def)
  then show ?thesis using node_fn_typed[OF f assms(2,3)] same_refs_nothing same_refs_ok same_refs_round
    by (simp add: typed_after_def)
qed

lemma next_typed: "typed_after n st \<Longrightarrow> next_node n st = Some m \<Longrightarrow> typed m st"
  by (cases n) (auto simp: typed_def typed_after_def next_node_def split: if_splits)

text \<open>The steps of a run: counter, node, state and world before it, and those before the next node.\<close>

inductive visits :: "'l graph_env \<Rightarrow> nat \<times> node \<times> research_state \<times> llm_world \<Rightarrow> nat \<times> node \<times> research_state \<times> llm_world \<Rightarrow> bool"
  for e where
  start: "visits e p p"
| step: "visits e p (i, n, st, w) \<Longrightarrow> run_node e i n st w = (Inr st', w') \<Longrightarrow> next_node n st' = Some m
    \<Longrightarrow> visits e p (i + 1, m, st', w')"

text \<open>
  C10. The research state stays well typed for the whole run. Started with nothing gathered, at every node a
  run visits each id that one table mentions names an entry of the table it refers to: queries, pending
  results, pages and claims belong to sub-questions of the plan, claims to pages of the library, clusters
  are a partition of recorded claims, contradictions are between clusters, and every table is numbered
  without gap.
\<close>

theorem visited_states_typed:
  assumes "visits e (i, n, st, w) (j, m, st', w')" and "fair (ge_schedules e)" and "typed n st"
  shows "typed m st'"
proof -
  have "typed (fst (snd q)) (fst (snd (snd q)))" if "visits e p q" "typed (fst (snd p)) (fst (snd (snd p)))" for p q
    using that
  proof (induction rule: visits.induct)
    case (step p i n st w st' w' m)
    then show ?case using run_node_typed[OF step.hyps(2) assms(2)] next_typed[OF _ step.hyps(3)] by simp
  qed simp
  from this[OF assms(1)] show ?thesis using assms(3) by simp
qed

section \<open>Steps that are left\<close>

text \<open>Position of a node in its part, as the number of steps that are left with \<open>left\<close> rounds to open.\<close>

fun steps_left :: "nat \<Rightarrow> node \<Rightarrow> nat" where
  "steps_left left Intake_guard = 8 + 8 * left"
| "steps_left left Analyze_query = 7 + 8 * left"
| "steps_left left Plan_node = 6 + 8 * left"
| "steps_left left Check_plan = 5 + 8 * left"
| "steps_left left Generate_queries = 4 + 8 * left"
| "steps_left left Search_node = 11 + 8 * left"
| "steps_left left Process_results = 10 + 8 * left"
| "steps_left left Evaluate_sources = 9 + 8 * left"
| "steps_left left Extract_claims = 8 + 8 * left"
| "steps_left left Cluster_and_corroborate = 7 + 8 * left"
| "steps_left left Detect_contradictions = 6 + 8 * left"
| "steps_left left Assess_coverage = 5 + 8 * left"
| "steps_left left Synthesize = 4"
| "steps_left left Verify_citations = 3"
| "steps_left left Review_evidence = 2"
| "steps_left left Output_gate = 1"

text \<open>Before a round is opened there is one left; after, it is counted.\<close>

definition before_round :: "node \<Rightarrow> bool" where
  "before_round n = (n \<in> {Intake_guard, Analyze_query, Plan_node, Check_plan, Generate_queries})"

definition round_ok :: "budget_settings \<Rightarrow> node \<Rightarrow> research_state \<Rightarrow> bool" where
  "round_ok b n st = (if before_round n then rs_iteration st < bs_max_iterations b
     else 1 \<le> rs_iteration st \<and> rs_iteration st \<le> bs_max_iterations b)"


section \<open>The run ends\<close>

text \<open>One step: the next node is in order and one step less is left.\<close>

lemma run_node_step:
  assumes "run_node e i n st w = (Inr st', w')" and "fair (ge_schedules e)" and "typed n st"
    and "round_ok (st_budget (ge_settings e)) n st" and "next_node n st' = Some m"
  shows "round_ok (st_budget (ge_settings e)) m st'
    \<and> steps_left (bs_max_iterations (st_budget (ge_settings e)) - rs_iteration st') m
        < steps_left (bs_max_iterations (st_budget (ge_settings e)) - rs_iteration st) n"
proof -
  let ?b = "st_budget (ge_settings e)"
  obtain k now w1 st1 w2 b where f: "node_fn e n k now st w1 = (Inr st1, w2)" and st': "st' = st1\<lparr>rs_budget := b\<rparr>"
    using run_node_Inr[OF assms(1)] by (elim exE conjE) (rule that)
  have it: "rs_iteration st' = (if n = Generate_queries then rs_iteration st + 1 else rs_iteration st)"
    using run_node_typed[OF assms(1-3)] by blast
  show ?thesis
  proof (cases "n = Assess_coverage")
    case True
    then have a: "assess_coverage (gm_coverage (ge_models e) (active_guidance e st)) (ge_repr e) ?b (st_scoring (ge_settings e))
        (ps_max_facets_per_subquestion (st_plan (ge_settings e))) k now st w1 = (Inr st1, w2)"
      using f by (simp add: node_fn_def Let_def)
    obtain st3 mt where s3: "same_refs st st3" and d: "st1 = apply_route (decide (ge_repr e) now st3 mt ?b) st3"
      using assess_coverage_stages[OF a] by blast
    have "route_after_coverage st' = (if de_stop (decide (ge_repr e) now st3 mt ?b) then lit ''synthesize'' else lit ''generate_queries'')"
      using st' d apply_route_simps(2)[of _ st3] by (simp add: route_after_coverage_def)
    moreover have "de_stop (decide (ge_repr e) now st3 mt ?b) \<or> rs_iteration st < bs_max_iterations ?b"
      using decide_continues[of "ge_repr e" now st3 mt ?b] same_refs_round[OF s3] by auto
    ultimately show ?thesis using assms(4,5) it True
      by (auto simp: next_node_def round_ok_def before_round_def split: if_splits)
  next
    case False
    then show ?thesis using assms(4,5) it
      by (cases n) (auto simp: next_node_def round_ok_def before_round_def)
  qed
qed

lemma run_graph_ends:
  assumes "fair (ge_schedules e)" and "typed n st" and "round_ok (st_budget (ge_settings e)) n st"
    and "steps_left (bs_max_iterations (st_budget (ge_settings e)) - rs_iteration st) n \<le> fuel"
  shows "case fst (run_graph e fuel i n st w) of
      Inl x \<Rightarrow> x \<noteq> Recursion_limit
    | Inr st' \<Rightarrow> refs_ok st' \<and> 1 \<le> rs_iteration st' \<and> rs_iteration st' \<le> bs_max_iterations (st_budget (ge_settings e))"
  using assms(2,3,4)
proof (induction fuel arbitrary: i n st w)
  case 0
  then show ?case by (cases n) simp_all
next
  case (Suc fuel)
  show ?case
  proof (cases "run_node e i n st w")
    case (Pair r w')
    show ?thesis
    proof (cases r)
      case (Inl x)
      then have "x \<noteq> Recursion_limit"
        using Pair by (auto simp: run_node_def Let_def split: if_splits prod.splits sum.splits option.splits)
      then show ?thesis using Pair Inl by simp
    next
      case (Inr st')
      then have step: "run_node e i n st w = (Inr st', w')" using Pair by simp
      note t = run_node_typed[OF step assms(1) Suc.prems(1)]
      show ?thesis
      proof (cases "next_node n st'")
        case None
        have "n = Output_gate" using None
          by (cases n) (auto simp: next_node_def route_after_coverage_def split: option.splits if_splits)
        then show ?thesis using None step t Suc.prems(2) by (simp add: round_ok_def before_round_def typed_after_def)
      next
        case (Some m)
        have "round_ok (st_budget (ge_settings e)) m st'"
          and "steps_left (bs_max_iterations (st_budget (ge_settings e)) - rs_iteration st') m \<le> fuel"
          using run_node_step[OF step assms(1) Suc.prems(1,2) Some] Suc.prems(3) by auto
        then show ?thesis using Suc.IH[of m st' "i + 1" w'] next_typed[OF conjunct1[OF t] Some] step Some by simp
      qed
    qed
  qed
qed

text \<open>
  C9. A research run comes to an end by its own rules. Started with a fresh state, it performs at least
  one and at most \<open>max_iterations\<close> rounds and then writes its report, whatever the models, the providers,
  the pages and the clock do; the state it ends with is well typed. It never runs into LangGraph's recursion
  limit, which is five steps above the longest run.
\<close>

theorem research_run_ends:
  assumes "fair (ge_schedules e)" and "1 \<le> bs_max_iterations (st_budget (ge_settings e))"
    and "nothing_gathered st" and "rs_iteration st = 0"
  shows "case fst (run_graph e (recursion_limit (st_budget (ge_settings e))) 0 Intake_guard st w) of
      Inl x \<Rightarrow> x \<noteq> Recursion_limit
    | Inr st' \<Rightarrow> refs_ok st' \<and> 1 \<le> rs_iteration st' \<and> rs_iteration st' \<le> bs_max_iterations (st_budget (ge_settings e))"
  by (rule run_graph_ends)
    (use assms in \<open>simp_all add: round_ok_def before_round_def recursion_limit_def typed_def\<close>)

end
