(* ===== verification/LookupProps.thy ===== *)
theory LookupProps
  imports GraphProps
begin

text \<open>
  What the typing of the state is good for: no node fails because an id it looks up is missing. The nodes use
  plain subscripts (\<open>state.documents[doc_id]\<close>, \<open>known[subq_id]\<close>, \<open>doc.subq_ids[0]\<close>), whose failure is
  \<open>Key_error\<close> or \<open>Index_error\<close> of the model. \<open>Key_error []\<close> stands for a failure inside the near-duplicate
  index, which is not the state's.
\<close>

definition dangling :: "node_exception \<Rightarrow> bool" where
  "dangling x \<longleftrightarrow> x = Index_error \<or> (\<exists>i. i \<noteq> [] \<and> x = Key_error i)"

lemma dangling_simps [simp]:
  "\<not> dangling (Model_raised x)" "\<not> dangling (Number_raised n)" "\<not> dangling Value_error" "\<not> dangling (Search_keys_rejected a)"
  "\<not> dangling (Gate_raised g)" "\<not> dangling (Run_rejected a)" "\<not> dangling Assertion_failed" "\<not> dangling (index_exception ie)"
  by (simp_all add: dangling_def) (cases ie; auto)

lemma rfold_raises:
  assumes "rfold f xs s w = (Inl e, w')" and "P s"
    and "\<And>x s w s' w'. x \<in> set xs \<Longrightarrow> P s \<Longrightarrow> f x s w = (Inr s', w') \<Longrightarrow> P s'"
    and "\<And>x s w e w'. x \<in> set xs \<Longrightarrow> P s \<Longrightarrow> f x s w = (Inl e, w') \<Longrightarrow> Q e"
  shows "Q e"
  using assms
proof (induction xs arbitrary: s w)
  case (Cons x xs)
  obtain r w1 where f: "f x s w = (r, w1)" by fastforce
  show ?case
  proof (cases r)
    case (Inl e1)
    then have "f x s w = (Inl e, w')" using Cons.prems(1) f by simp
    then show ?thesis by (rule Cons.prems(4)[OF list.set_intros(1) Cons.prems(2)])
  next
    case (Inr s1)
    then have a: "f x s w = (Inr s1, w1)" and "rfold f xs s1 w1 = (Inl e, w')" using Cons.prems(1) f by simp_all
    moreover have "P s1" by (rule Cons.prems(3)[OF list.set_intros(1) Cons.prems(2) a])
    ultimately show ?thesis using Cons.IH[of s1 w1] Cons.prems(3,4) by (meson list.set_intros(2))
  qed
qed simp

section \<open>Pages\<close>

lemma fetch_document_finds:
  assumes "i \<in> set (dkeys (rs_documents (ft_state f)))"
  shows "\<exists>f' w'. fetch_document env s k i f w = (Inr f', w')"
    and "fetch_document env s k i f w = (Inr f', w') \<Longrightarrow> dkeys (rs_documents (ft_state f')) = dkeys (rs_documents (ft_state f))"
proof -
  obtain d where "dget (rs_documents (ft_state f)) i = Some d" using assms unfolding key_dget by blast
  then show "\<exists>f' w'. fetch_document env s k i f w = (Inr f', w')"
    by (cases "fetch_page env s (d_url d) w") (simp add: fetch_document_def)
  show "fetch_document env s k i f w = (Inr f', w') \<Longrightarrow> dkeys (rs_documents (ft_state f')) = dkeys (rs_documents (ft_state f))"
    by (auto simp: fetch_document_def update_document_def Let_def split: option.splits prod.splits if_splits)
qed

lemma restore_index_raises: "restore_index ops ds ix = Inl e \<Longrightarrow> \<not> dangling e"
proof (induction ds arbitrary: ix)
  case (Cons d ds)
  show ?case
  proof (cases "d_origin_id d \<noteq> [] \<and> d_content_hash d \<noteq> []")
    case True
    then show ?thesis using Cons by (cases "restore_doc ops (d_id d) (d_origin_id d) (d_minhash d) (d_content_hash d) ix") auto
  next
    case False
    then show ?thesis using Cons by auto
  qed
qed simp

lemma assign_documents_raises:
  "assign_documents ops is s = Inl e \<Longrightarrow> set is \<subseteq> set (dkeys (rs_documents (fst s))) \<Longrightarrow> \<not> dangling e"
proof (induction "is" arbitrary: s)
  case (Cons i "is" s)
  obtain st ix where s: "s = (st, ix)" by fastforce
  have "i \<in> set (dkeys (rs_documents st))" using Cons.prems(2) s by simp
  then obtain d where d: "dget (rs_documents st) i = Some d" unfolding key_dget by blast
  show ?case
  proof (cases "assign ops i (index_text d) ix")
    case (Inl x)
    then show ?thesis using Cons.prems(1) s d by (auto simp: assign_document_def dget_err_def)
  next
    case (Inr p)
    then obtain s1 where a: "assign_document ops i s = Inr s1" and k: "dkeys (rs_documents (fst s1)) = dkeys (rs_documents st)"
      using s d by (cases p) (auto simp: assign_document_def dget_err_def update_document_def)
    show ?thesis using Cons.IH[of s1] Cons.prems a k s by simp
  qed
qed simp

lemma take_hits_raises: "take_hits qs ps it = Inl e \<Longrightarrow> e = Value_error"
proof (induction qs ps it rule: take_hits.induct)
  case (2 qs p ps it)
  then show ?case
    by (cases "take_hit qs p it") (auto simp: take_hit_def Let_def split: sum.splits option.splits)
qed simp

lemma process_finds:
  assumes "process_results env s rfc t ops lsh n schedule k st w = (Inl e, w')" and "library_ok st"
    and "\<And>xs. set (schedule xs) \<subseteq> set xs"
  shows "\<not> dangling e"
proof (cases "intake_results rfc t st")
  case (Inl x)
  then have "e = x" using assms(1) by (simp add: process_results_def)
  then have "e = Value_error" using Inl take_hits_raises[of _ _ _ x] by (auto simp: intake_results_def rbind_Inl_iff)
  then show ?thesis by simp
next
  case (Inr it)
  note i = intake_processed[OF Inr assms(2)]
  have plan: "rs_plan (it_state it) = rs_plan st" using i by (simp add: well_processed_def processed_only_fields)
  have ok: "library_ok (it_state it)" using i by (simp add: well_processed_def)
  obtain sel where sel: "fold (select_for (round_limit s st)) (rs_plan st) (it_state it, []) = (mark_docs sel (it_state it), sel)"
    "\<forall>i\<in>set sel. eligible (it_state it) i"
    using selection_spec[OF ok, of "rs_plan st" "[]" "round_limit s st"] plan by auto
  let ?st = "mark_docs sel (it_state it)"
  have known: "set sel \<subseteq> set (dkeys (rs_documents ?st))"
  proof
    fix i assume "i \<in> set sel"
    then obtain d where "dget (rs_documents (it_state it)) i = Some d" using sel(2) by (auto simp: eligible_def)
    then show "i \<in> set (dkeys (rs_documents ?st))" using mark_kept unfolding key_dget by blast
  qed
  let ?fetch = "schedule (map d_id (filter needs_fetch (documents_at ?st sel)))"
  have fetch: "set ?fetch \<subseteq> set (dkeys (rs_documents ?st))"
  proof
    fix i assume "i \<in> set ?fetch"
    then have "i \<in> set (map d_id (filter needs_fetch (documents_at ?st sel)))" using assms(3) by blast
    then obtain j d where d: "dget (rs_documents ?st) j = Some d" "i = d_id d"
      by (auto simp: documents_at_def dest!: in_map_filter)
    have "(j, d) \<in> set (rs_documents ?st)" using d(1) by (rule map_of_SomeD)
    moreover from this have "d_id d = j" using mark_docs_ok[OF ok, of sel] by (auto simp: library_ok_def numbered_def)
    ultimately show "i \<in> set (dkeys (rs_documents ?st))" using d(2) by force
  qed
  let ?f0 = "\<lparr>ft_state = ?st, ft_failures = 0\<rparr>"
  obtain r w1 where loop: "rfold (fetch_document env s k) ?fetch ?f0 w = (r, w1)" by fastforce
  let ?P = "\<lambda>f. dkeys (rs_documents (ft_state f)) = dkeys (rs_documents ?st)"
  show ?thesis
  proof (cases r)
    case (Inl x)
    have "\<not> dangling x"
    proof (rule rfold_raises[OF loop[unfolded Inl], where P = ?P])
      fix i f v e v' assume "i \<in> set ?fetch" "?P f" "fetch_document env s k i f v = (Inl e, v')"
      then show "\<not> dangling e" using fetch fetch_document_finds(1)[of i f env s k v] by auto
    next
      fix i f v f' v' assume "i \<in> set ?fetch" "?P f" "fetch_document env s k i f v = (Inr f', v')"
      then show "?P f'" using fetch fetch_document_finds(2)[of i f env s k v f' v'] by auto
    qed simp
    moreover have "e = x" using assms(1) Inr sel(1) loop Inl by (simp add: process_results_def Let_def)
    ultimately show ?thesis by simp
  next
    case (Inr f)
    have keys: "?P f"
    proof (rule rfold_invariant[OF loop[unfolded Inr], where P = ?P])
      fix i f v f' v' assume "i \<in> set ?fetch" "?P f" "fetch_document env s k i f v = (Inr f', v')"
      then show "?P f'" using fetch fetch_document_finds(2)[of i f env s k v f' v'] by auto
    qed simp
    let ?r = "restore_index ops (dvals (rs_documents (ft_state f))) (origin_index_init n lsh)"
    have "?r = Inl e \<or> (\<exists>ix. assign_documents ops sel (ft_state f, ix) = Inl e)"
      using assms(1) \<open>intake_results rfc t st = Inr it\<close> sel(1) loop Inr
      by (auto simp: process_results_def Let_def rbind_Inl_iff split: sum.splits prod.splits)
    moreover have "set sel \<subseteq> set (dkeys (rs_documents (fst (ft_state f, ix))))" for ix :: "'a origin_index"
      unfolding fst_conv keys by (rule known)
    ultimately show ?thesis using restore_index_raises[of ops] assign_documents_raises[of ops sel] by blast
  qed
qed


section \<open>Claims\<close>

lemma known_subquestions_has:
  assumes "i \<in> set (plan_ids st)"
  shows "\<exists>s. dget (known_subquestions st) i = Some s"
proof -
  have "set (dkeys (fold (\<lambda>s. dput (sq_id s) s) ss d)) = sq_id ` set ss \<union> set (dkeys d)" for ss :: "subquestion list" and d
    by (induction ss arbitrary: d) auto
  then have "i \<in> set (dkeys (known_subquestions st))"
    using assms unfolding known_subquestions_def plan_ids_def by simp
  then show ?thesis unfolding key_dget .
qed

lemma admit_claims_total:
  assumes "refs_ok st" and "d_subq_ids d \<noteq> []" and "set (d_subq_ids d) \<subseteq> set (plan_ids st)"
  shows "\<exists>x'. admit_claims order st d items x = Inr x'"
proof (induction items arbitrary: x)
  case (Cons item items)
  have "hd (d_subq_ids d) \<in> set (plan_ids st)" using assms(2,3) by (meson hd_in_set subsetD)
  then obtain s where s: "dget (known_subquestions st) (hd (d_subq_ids d)) = Some s" using known_subquestions_has by blast
  obtain i js where d: "d_subq_ids d = i # js" using assms(2) by (cases "d_subq_ids d") auto
  have "\<exists>x1. admit_claim order st d item x = Inr x1"
    using s d by (cases "dget (known_subquestions st) (cl_subq_id item)")
      (auto simp: admit_claim_def Let_def dget_err_def dmem_def map_of_eq_None_iff key_dget simp flip: dmem_def)
  then show ?case using Cons.IH by auto
qed simp

lemma legal_evidence_gap_raises: "legal_evidence_gap c d st = Inl e \<Longrightarrow> e = Value_error"
  by (auto simp: legal_evidence_gap_def Let_def split: if_splits option.splits)

lemma apply_verdicts_raises: "apply_verdicts rfc d st all items s = Inl e \<Longrightarrow> e = Value_error"
proof (induction rfc d st all items s rule: apply_verdicts.induct)
  case (2 rfc d st all item items claims waiting)
  then show ?case using legal_evidence_gap_raises
    by (auto simp: rbind_Inl_iff settle_claim_def Let_def split: option.splits if_splits)
qed simp

lemma ask_verdicts_raises: "ask_verdicts predict rfc d st k n s w = (Inl e, w') \<Longrightarrow> \<not> dangling e"
proof (induction n arbitrary: s w)
  case (Suc n)
  obtain claims waiting where s: "s = (claims, waiting)" by fastforce
  show ?case using Suc apply_verdicts_raises unfolding s
    by (fastforce split: if_splits prod.splits sum.splits llm_exception.splits)
qed simp

lemma extract_document_finds:
  assumes "extract_document predict validate order rfc today k d s w = (Inl e, w')" and "refs_ok (xt_state s)"
    and "d_subq_ids d \<noteq> []" and "set (d_subq_ids d) \<subseteq> set (plan_ids (xt_state s))"
  shows "\<not> dangling e"
proof -
  obtain r w1 where r: "predict (extraction_inputs (xt_state s) today d) k w = (r, w1)" by fastforce
  show ?thesis
  proof (cases r)
    case (Inl x)
    then show ?thesis using assms(1) r by (cases x) (auto simp: extract_document_def Let_def)
  next
    case (Inr items)
    obtain x where x: "admit_claims order (xt_state s) d items \<lparr>xn_accepted = [], xn_rejected = 0, xn_injected = 0\<rparr> = Inr x"
      using admit_claims_total[OF assms(2-4)] by blast
    obtain v w2 where v: "validate_claims validate rfc d (xt_state s) k (xn_accepted x) (report_extraction k d x w1) = (v, w2)" by fastforce
    show ?thesis using assms(1) r Inr x v ask_verdicts_raises
      by (auto simp: extract_document_def Let_def validate_claims_def split: sum.splits prod.splits)
  qed
qed


lemma extract_finds:
  assumes "extract_claims predict validate order rfc schedule today k st w = (Inl e, w')" and "refs_ok st"
    and "set (schedule (readable st)) \<subseteq> set (readable st)"
  shows "\<not> dangling e"
proof -
  let ?s0 = "\<lparr>xt_found = [], xt_state = st, xt_stats = \<lparr>xs_claims = 0, xs_rejected = 0, xs_failed = 0, xs_injection = 0\<rparr>\<rparr>"
  obtain w1 where loop: "rfold (extract_document predict validate order rfc today k) (schedule (readable st)) ?s0 w = (Inl e, w1)"
    using assms(1) by (auto simp: extract_claims_def Let_def split: if_splits prod.splits sum.splits)
  show ?thesis
  proof (rule rfold_raises[OF loop, where P = "\<lambda>s. same_refs st (xt_state s)"])
    fix d s v s' v' assume "same_refs st (xt_state s)" "extract_document predict validate order rfc today k d s v = (Inr s', v')"
    then show "same_refs st (xt_state s')" using extract_document_refs same_refs_trans by blast
  next
    fix d s v e v' assume d: "d \<in> set (schedule (readable st))" and s: "same_refs st (xt_state s)"
      and x: "extract_document predict validate order rfc today k d s v = (Inl e, v')"
    have "d \<in> set (dvals (rs_documents st))" using d assms(3) by (auto simp: readable_def selected_documents_def)
    then have "d_subq_ids d \<noteq> [] \<and> set (d_subq_ids d) \<subseteq> set (plan_ids (xt_state s))"
      using assms(2) s unfolding refs_ok_def same_refs_def by auto
    moreover have "refs_ok (xt_state s)" using same_refs_ok[OF s] assms(2) by simp
    ultimately show "\<not> dangling e" using extract_document_finds[OF x] by blast
  qed simp
qed

section \<open>Pairs of clusters\<close>

lemma rmap_Inl: "rmap f xs = Inl e \<Longrightarrow> \<exists>x\<in>set xs. f x = Inl e"
  by (induction xs) (auto simp: rbind_Inl_iff)

lemma detect_finds:
  assumes "detect_contradictions predict s k st w = (Inl e, w')" and "refs_ok st"
  shows "\<not> dangling e"
proof (cases "contradiction_candidates (rs_clusters st) s (rs_language st) (judged_sets st)")
  case (Inl x)
  then show ?thesis using assms(1) by (auto simp: detect_contradictions_def)
next
  case (Inr pairs)
  have "keyed_ledger (rs_clusters st)" using assms(2) by (simp add: refs_ok_def well_clustered_def keyed_ledger_def)
  note led = candidates_in_ledger[OF Inr _ this]
  have known: "\<exists>l r. dget (rs_clusters st) a = Some l \<and> dget (rs_clusters st) b = Some r" if "(n, a, b) \<in> set (enumerate 1 pairs)" for n a b
  proof -
    have "(a, b) \<in> set (map snd (enumerate 1 pairs))" using imageI[OF that, of snd] by (simp only: set_map snd_conv)
    then have "(a, b) \<in> set pairs" by simp
    then show ?thesis using led by blast
  qed
  have "rmap (pair_json st) (enumerate 1 pairs) \<noteq> Inl x" for x
  proof
    assume "rmap (pair_json st) (enumerate 1 pairs) = Inl x"
    from rmap_Inl[OF this] obtain p where p: "p \<in> set (enumerate 1 pairs)" "pair_json st p = Inl x" by (elim bexE) (rule that)
    obtain n a b where n: "p = (n, a, b)" by (rule prod_cases3)
    obtain l r where "dget (rs_clusters st) a = Some l" "dget (rs_clusters st) b = Some r" using known[OF p(1)[unfolded n]] by (elim exE conjE) (rule that)
    then show False using p(2) n by (simp add: pair_json_def dget_err_def)
  qed
  then obtain js where js: "rmap (pair_json st) (enumerate 1 pairs) = Inr js" by (cases "rmap (pair_json st) (enumerate 1 pairs)") auto
  have total: "\<exists>r. record_pairs k vs (enumerate 1 pairs) (st, v) = Inr r" for vs v
  proof (rule record_pairs_total, rule ballI)
    fix p assume p: "p \<in> set (enumerate 1 pairs)"
    obtain n a b where n: "p = (n, a, b)" by (rule prod_cases3)
    show "case p of (n, a, b) \<Rightarrow> a \<in> set (dkeys (rs_clusters st)) \<and> b \<in> set (dkeys (rs_clusters st))"
      using known[OF p[unfolded n]] unfolding key_dget n by simp
  qed
  obtain r w1 where p: "predict (judge_inputs st js) k w = (r, w1)" by fastforce
  have ne: "pairs \<noteq> []" using assms(1) Inr by (auto simp: detect_contradictions_def)
  show ?thesis
  proof (cases "verdicts_of r")
    case (Inl x)
    then have "e = x" using assms(1) \<open>_ = Inr pairs\<close> js p ne by (simp add: detect_contradictions_def)
    then show ?thesis using Inl by (cases r) (auto simp: verdicts_of_def split: llm_exception.splits)
  next
    case (Inr vs)
    obtain s2 w2 where "record_pairs k vs (enumerate 1 pairs) (st, w1) = Inr (s2, w2)" using total[of vs w1] by (elim exE) (metis prod.exhaust)
    then show ?thesis using assms(1) \<open>_ = Inr pairs\<close> js p ne Inr by (simp add: detect_contradictions_def ends_with_state_def)
  qed
qed

section \<open>The other nodes\<close>

lemma evaluate_finds: "evaluate_sources predict schedule t sc k st w = (Inl e, w') \<Longrightarrow> \<not> dangling e"
proof -
  have b: "\<not> dangling x" if "judge_batch predict st k b js v = (Inl x, v')" for b js v x v'
    using that by (auto simp: judge_batch_def split: prod.splits sum.splits llm_exception.splits)
  assume a: "evaluate_sources predict schedule t sc k st w = (Inl e, w')"
  obtain bs w1 where "rfold (judge_batch predict st k) bs [] w = (Inl e, w1)"
    using a by (auto simp: evaluate_sources_def Let_def split: if_splits prod.splits sum.splits)
  then show ?thesis by (rule rfold_raises[where P = "\<lambda>_. True"]) (use b in auto)
qed

lemma embed_batches_raises: "embed_batches env em name model bs fresh w = (Inl e, w') \<Longrightarrow> e = Value_error"
  by (induction env em name model bs fresh w rule: embed_batches.induct)
    (auto simp: Let_def split: sum.splits prod.splits if_splits)

lemma embed_texts_raises: "embed_texts env em ts k w = (Inl e, w') \<Longrightarrow> e = Value_error"
  by (auto simp: embed_texts_def Let_def split: option.splits prod.splits sum.splits dest!: embed_batches_raises)

lemma cluster_finds:
  "cluster_and_corroborate (embed_texts env em) model s k st w = (Inl e, w') \<Longrightarrow> \<not> dangling e"
  by (auto simp: cluster_and_corroborate_def Let_def split: if_splits prod.splits sum.splits dest!: embed_texts_raises)

lemma synthesise_raises: "synthesise predict today k f st w = (Inl e, w') \<Longrightarrow> \<not> dangling e"
  by (auto simp: synthesise_def split: prod.splits sum.splits llm_exception.splits)

lemma synthesize_finds: "synthesize predict today k st w = (Inl e, w') \<Longrightarrow> \<not> dangling e"
  by (auto simp: synthesize_def draft_report_def Let_def split: prod.splits sum.splits if_splits dest: synthesise_raises)

lemma verify_attempts_raises: "verify_attempts predict k n s w = (Inl e, w') \<Longrightarrow> \<not> dangling e"
  by (induction predict k n s w rule: verify_attempts.induct)
    (auto simp: Let_def split: prod.splits sum.splits llm_exception.splits if_splits)

lemma verify_report_raises: "verify_report verify n schedule k r st w = (Inl e, w') \<Longrightarrow> \<not> dangling e"
proof -
  assume a: "verify_report verify n schedule k r st w = (Inl e, w')"
  obtain bs f0 w1 where "rfold (check_batch verify k) bs f0 w = (Inl e, w1)"
    using a by (auto simp: verify_report_def Let_def split: if_splits prod.splits sum.splits)
  then show ?thesis
    by (rule rfold_raises[where P = "\<lambda>_. True"])
      (auto simp: check_batch_def split: prod.splits sum.splits dest: verify_attempts_raises)
qed

lemma rewrite_once_raises: "rewrite_once predict verify today n schedule k r u st w = (Inl e, w') \<Longrightarrow> \<not> dangling e"
proof -
  have t: "rewrite_feedback r u = Inl x \<Longrightarrow> x = Value_error" for x
    by (auto simp: rewrite_feedback_def rbind_Inl_iff text_at_def split: option.splits dest!: rmap_Inl)
  assume "rewrite_once predict verify today n schedule k r u st w = (Inl e, w')"
  then show ?thesis using t synthesise_raises verify_report_raises
    by (auto simp: rewrite_once_def Let_def split: if_splits sum.splits prod.splits)
qed

lemma verify_citations_finds: "verify_citations predict verify today n schedule k st w = (Inl e, w') \<Longrightarrow> \<not> dangling e"
  using verify_report_raises rewrite_once_raises
  by (auto simp: verify_citations_def Let_def split: option.splits if_splits sum.splits prod.splits)


lemma model_raised_Inl [simp]: "model_raised p = (Inl x, w) \<longleftrightarrow> (\<exists>y. p = (Inl y, w) \<and> x = Model_raised y)"
  by (cases p; cases "fst p") auto

lemma node_fn_finds:
  assumes "node_fn e n k now st w = (Inl x, w')" and "fair (ge_schedules e)" and "typed n st"
  shows "\<not> dangling x"
proof (cases n)
  case Intake_guard
  then show ?thesis using assms(1) by (auto simp: node_fn_def Let_def intake_guard_def split: if_splits)
next
  case Analyze_query
  then show ?thesis using assms(1)
    by (auto simp: node_fn_def Let_def analyze_query_def split: prod.splits sum.splits llm_exception.splits)
next
  case Plan_node
  then show ?thesis using assms(1)
    by (auto simp: node_fn_def Let_def plan_node_def split: prod.splits sum.splits llm_exception.splits if_splits)
next
  case Check_plan
  then show ?thesis using assms(1) by (auto simp: node_fn_def Let_def check_plan_def split: prod.splits)
next
  case Generate_queries
  then show ?thesis using assms(1) by (auto simp: node_fn_def Let_def)
next
  case Search_node
  have "search_node (ge_search_env e) (ge_search e) (sd_search (ge_schedules e)) k st w = (Inl x, w')"
    using assms(1) Search_node by (simp add: node_fn_def Let_def)
  moreover have "queries_numbered st" using assms(3) Search_node by (simp add: typed_def refs_ok_def)
  ultimately have "only_keys_rejected x" using search_node_round fair_search[OF assms(2)] by blast
  then show ?thesis by (auto simp: only_keys_rejected_def)
next
  case Process_results
  have "set (sd_fetch (ge_schedules e) xs) \<subseteq> set xs" for xs using assms(2) unfolding fair_def by (metis order.refl set_mset_mset)
  note sub = this
  show ?thesis
  proof (rule process_finds[OF _ _ sub])
    show "process_results (ge_fetch e) (st_fetch (ge_settings e)) (ge_rfc e) (active_tiers e st) (ge_near e) (ge_lsh e)
       (ds_minhash_shingle_size (st_dedup (ge_settings e))) (sd_fetch (ge_schedules e)) k st w = (Inl x, w')"
      using assms(1) Process_results by (simp add: node_fn_def Let_def)
    show "library_ok st" using assms(3) Process_results by (simp add: typed_def refs_ok_def)
  qed
next
  case Evaluate_sources
  then show ?thesis using assms(1) evaluate_finds by (simp add: node_fn_def Let_def)
next
  case Extract_claims
  then show ?thesis using assms(1,3) extract_finds[where schedule = "sd_extract (ge_schedules e)", OF _ _ fair_extract[OF assms(2)]]
    by (simp add: node_fn_def Let_def typed_def)
next
  case Cluster_and_corroborate
  then show ?thesis using assms(1) cluster_finds by (simp add: node_fn_def Let_def)
next
  case Detect_contradictions
  then show ?thesis using assms(1,3) detect_finds by (simp add: node_fn_def Let_def typed_def)
next
  case Assess_coverage
  then show ?thesis using assms(1) by (auto simp: node_fn_def Let_def)
next
  case Synthesize
  then show ?thesis using assms(1) synthesize_finds by (simp add: node_fn_def Let_def)
next
  case Verify_citations
  then show ?thesis using assms(1) verify_citations_finds by (simp add: node_fn_def Let_def)
next
  case Review_evidence
  then show ?thesis using assms(1) by (auto simp: node_fn_def Let_def review_evidence_def split: prod.splits sum.splits)
next
  case Output_gate
  then show ?thesis using assms(1) by (auto simp: node_fn_def Let_def output_gate_def split: option.splits sum.splits)
qed

text \<open>
  C11. Well-typed runs do not go wrong on a lookup. Whatever the models, providers and pages answer, no node of a
  run started with nothing gathered stops because a document, sub-question, cluster or claim it looks up
  by id is missing, nor because a document belongs to no sub-question.
\<close>

theorem no_lookup_fails:
  assumes "fair (ge_schedules e)" and "nothing_gathered st"
    and "run_graph e fuel 0 Intake_guard st w = (Inl (Node_raised x), w')"
  shows "\<not> dangling x"
proof -
  have "\<not> dangling x" if "run_graph e fuel i n st w = (Inl (Node_raised x), w')" "typed n st" for fuel i n st w
    using that
  proof (induction fuel arbitrary: i n st w)
    case (Suc fuel)
    obtain r w1 where r: "run_node e i n st w = (r, w1)" by fastforce
    show ?case
    proof (cases r)
      case (Inl y)
      then obtain k now w2 w3 where "node_fn e n k now st w2 = (Inl x, w3)"
        using Suc.prems(1) r
        by (auto simp: run_node_def Let_def split: if_splits prod.splits sum.splits option.splits)
      then show ?thesis by (rule node_fn_finds[OF _ assms(1) Suc.prems(2)])
    next
      case (Inr st1)
      then have s: "run_node e i n st w = (Inr st1, w1)" using r by simp
      obtain m where m: "next_node n st1 = Some m" using Suc.prems(1) s by (auto split: option.splits)
      have "typed m st1" using run_node_typed[OF s assms(1) Suc.prems(2)] next_typed[OF _ m] by blast
      then show ?thesis using Suc.IH[of "i + 1" m st1 w1] Suc.prems(1) s m by simp
    qed
  qed simp
  then show ?thesis using assms(2,3) by (auto simp: typed_def)
qed

end
