(* ===== verification/GraphDemo.thy ===== *)
theory GraphDemo
  imports LookupProps ProcessProps GateDemo
begin

text \<open>
  A run at which the properties of the graph are instantiated: no model answers, nothing is found, every
  task runs in the order of its list.
\<close>

definition silent :: "str \<Rightarrow> ('i, 'o) predictor" where
  "silent g = (\<lambda>i k w. (Inl (LLM_failure (gateway_error LLM_TIMEOUT k [] None)), w))"

definition silent_models :: graph_models where
  "silent_models = \<lparr>gm_analyze = silent, gm_plan = silent, gm_queries = silent, gm_evaluate = silent, gm_extract = silent,
     gm_validate = silent, gm_judge = silent, gm_coverage = silent, gm_synthesize = silent, gm_verify = silent\<rparr>"

definition in_order :: schedules where
  "in_order = \<lparr>sd_search = id, sd_fetch = id, sd_evaluate = id, sd_extract = id, sd_verify = id\<rparr>"

definition demo_env :: "unit graph_env" where
  "demo_env = \<lparr>ge_settings = default_settings, ge_models = silent_models, ge_schedules = in_order, ge_skills = [],
     ge_tiers = demo_tiers, ge_gate = demo_config,
     ge_masker = (\<lambda>s. \<lparr>mr_text = s, mr_entities = [], mr_degraded = False, mr_engine = []\<rparr>),
     ge_search_env = demo_search_env, ge_search = demo_search_gateway, ge_fetch = no_fetch,
     ge_embed_env = \<lparr>eb_embed = (\<lambda>n p m ts. Inr ([], 0)), eb_cached = (\<lambda>n ks. []), eb_digest = (\<lambda>js. []), eb_latency = (\<lambda>n. 0)\<rparr>,
     ge_embedder = \<lparr>em_providers = [], em_catalog = \<lparr>ct_chain = [], ct_tiers = [], ct_prices = [], ct_choices = []\<rparr>\<rparr>,
     ge_near = plain_ops, ge_lsh = (), ge_rfc = (\<lambda>s. None), ge_order = id, ge_today = 0, ge_repr = (\<lambda>x. []),
     ge_events = demo_sink, ge_clock = real, ge_span = dec, ge_cancelled = (\<lambda>n. False), ge_progress = (\<lambda>n. None)\<rparr>"

definition fresh_state :: research_state where
  "fresh_state = demo_state\<lparr>rs_question := [33], rs_documents := [], rs_clusters := []\<rparr>"

lemma fresh_facts:
  "nothing_gathered fresh_state" "rs_iteration fresh_state = 0" "rs_question fresh_state = [33]" "rs_budget fresh_state = []"
  by (simp_all add: fresh_state_def demo_state_def nothing_gathered_def)

lemma demo_env_facts:
  "fair (ge_schedules demo_env)" "st_budget (ge_settings demo_env) = default_budget_settings"
  by (simp_all add: demo_env_def in_order_def fair_def default_settings_def)

theorem research_run_ends_witness:
  "fst (run_graph demo_env 45 0 Intake_guard fresh_state demo_world) \<noteq> Inl Recursion_limit"
proof -
  have b: "1 \<le> bs_max_iterations (st_budget (ge_settings demo_env))" "recursion_limit (st_budget (ge_settings demo_env)) = 45"
    by (simp_all add: demo_env_facts default_budget_settings_def recursion_limit_def)
  show ?thesis
    using research_run_ends[OF demo_env_facts(1) b(1) fresh_facts(1,2), of demo_world] b(2)
    by (cases "fst (run_graph demo_env 45 0 Intake_guard fresh_state demo_world)") auto
qed

lemma run_node_Inl:
  assumes "run_node e i n st w = (Inl x, w')" and "\<not> ge_cancelled e i" and "ge_progress e i = None"
  shows "\<exists>k now w1 y w2. node_fn e n k now st w1 = (Inl y, w2)"
  using assms by (fastforce simp: run_node_def Let_def split: if_splits prod.splits sum.splits)

lemma demo_intake: "\<exists>st' w'. run_node demo_env 0 Intake_guard fresh_state demo_world = (Inr st', w')"
proof -
  have q: "join [32] (split_ws [33]) = [33]" by (simp add: split_ws_def runs.simps is_space_def)
  have i: "fst (intake_guard (\<lambda>s. \<lparr>mr_text = s, mr_entities = [], mr_degraded = False, mr_engine = []\<rparr>) d k fresh_state w) \<noteq> Inl y"
    for d k w y by (simp add: intake_guard_def Let_def fresh_facts q MAX_QUESTION_CHARS_def)
  obtain r w' where r: "run_node demo_env 0 Intake_guard fresh_state demo_world = (r, w')" by fastforce
  show ?thesis
  proof (cases r)
    case (Inl x)
    have "\<exists>k now w1 y w2. node_fn demo_env Intake_guard k now fresh_state w1 = (Inl y, w2)"
      by (rule run_node_Inl[OF r[unfolded Inl]]) (simp_all add: demo_env_def)
    then obtain k now w1 y w2 where "node_fn demo_env Intake_guard k now fresh_state w1 = (Inl y, w2)" by (elim exE) (rule that)
    then have "fst (node_fn demo_env Intake_guard k now fresh_state w1) = Inl y" by simp
    then show ?thesis using i by (simp add: node_fn_def Let_def demo_env_def)
  next
    case (Inr st')
    then show ?thesis using r by blast
  qed
qed

theorem visited_states_typed_witness:
  "\<exists>st' w'. visits demo_env (0, Intake_guard, fresh_state, demo_world) (1, Analyze_query, st', w') \<and> typed Analyze_query st'"
proof -
  obtain st' w' where r: "run_node demo_env 0 Intake_guard fresh_state demo_world = (Inr st', w')"
    using demo_intake by blast
  have "next_node Intake_guard st' = Some Analyze_query" by (simp add: next_node_def)
  then have v: "visits demo_env (0, Intake_guard, fresh_state, demo_world) (0 + 1, Analyze_query, st', w')"
    by (rule visits.step[OF visits.start r])
  have "typed Intake_guard fresh_state" by (simp add: typed_def fresh_facts)
  then show ?thesis using visited_states_typed[OF v demo_env_facts(1)] v by auto
qed


text \<open>An empty question is rejected by the first node.\<close>

theorem no_lookup_fails_witness:
  "\<exists>x w'. run_graph demo_env 45 0 Intake_guard (fresh_state\<lparr>rs_question := []\<rparr>) demo_world = (Inl (Node_raised x), w') \<and> \<not> dangling x"
proof -
  let ?st = "fresh_state\<lparr>rs_question := []\<rparr>"
  have i: "fst (node_fn demo_env Intake_guard k now ?st w) \<noteq> Inr st'" for k now w st'
    by (simp add: node_fn_def Let_def intake_guard_def split_ws_def runs.simps)
  obtain r w' where r: "run_node demo_env 0 Intake_guard ?st demo_world = (r, w')" by fastforce
  have "\<exists>x. r = Inl (Node_raised x)"
  proof (cases r)
    case (Inl y)
    then show ?thesis using r by (auto simp: run_node_def Let_def demo_env_def split: if_splits prod.splits sum.splits)
  next
    case (Inr st')
    then obtain k now w1 st1 w2 where "node_fn demo_env Intake_guard k now ?st w1 = (Inr st1, w2)"
      using run_node_Inr[OF r[unfolded Inr]] by (elim exE conjE) (rule that)
    then have "fst (node_fn demo_env Intake_guard k now ?st w1) = Inr st1" by simp
    then show ?thesis using i by blast
  qed
  then obtain x where "r = Inl (Node_raised x)" by blast
  then have f: "run_graph demo_env (Suc 44) 0 Intake_guard ?st demo_world = (Inl (Node_raised x), w')"
    using r by (simp only: run_graph.simps prod.case sum.case)
  have g: "nothing_gathered ?st" using fresh_facts(1) by (simp add: nothing_gathered_def)
  show ?thesis using no_lookup_fails[OF demo_env_facts(1) g f] f by (metis eval_nat_numeral(3) numeral_eq_Suc)
qed

end
