(* ===== verification/EvidenceDemo.thy ===== *)
theory EvidenceDemo
  imports EvidenceProps Demo
begin

text \<open>One page with one sentence, one claim the model takes from it, and a validator that affirms it.\<close>

section \<open>Validation\<close>

definition demo_claim_scoped :: claim where
  "demo_claim_scoped = \<lparr>c_id = [], c_subq_id = [115], c_facet_id = None, c_doc_id = [100], c_origin_id = [111],
     c_text = [97], c_quote = [97], c_kind = FACT, c_entity = None, c_attribute = None, c_value = None, c_unit = None,
     c_as_of = None, c_conditions = [[98]], c_effective_from = None, c_effective_until = None, c_time_sensitive = False,
     c_validation_status = LEGACY, c_validation_reason = [], c_freshness = NOT_TIME_SENSITIVE,
     c_requires_fresh_confirmation = False, c_quote_match_method = None, c_quote_match_score = None,
     c_attributed_to = None, c_iteration = 0\<rparr>"

definition profile_state :: research_state where
  "profile_state = demo_state\<lparr>rs_analysis := (rs_analysis demo_state)\<lparr>an_answer_type := lit ''profile''\<rparr>\<rparr>"

definition affirmative :: claim_validation where
  "affirmative = \<lparr>cv_claim_id = candidate_key 0, cv_supported = True, cv_conditions_complete = True,
     cv_time_sensitive = False, cv_reason = []\<rparr>"

definition affirming :: "(inputs, claim_validation list) predictor" where
  "affirming = (\<lambda>i k w. (Inr [affirmative], w))"

lemma profile_gap: "legal_evidence_gap c d profile_state = Inr None"
  by (simp add: legal_evidence_gap_def profile_state_def)

lemma affirmed:
  assumes "\<And>c. legal_evidence_gap c d st = Inr None" and "c_conditions c \<noteq> []"
  shows "\<exists>c'. (\<forall>w. validate_claims affirming rfc d st k [c] w = (Inr [c'], w)) \<and> c_validation_status c' = V_SUPPORTED"
proof -
  let ?c = "assess_claim_freshness rfc d st (judge_claim d affirmative c)"
  have "c_validation_status ?c = V_SUPPORTED"
    using assms(2) by (simp add: judge_claim_def unrepresented_scope_def affirmative_def)
  moreover have "settle_claim rfc d st affirmative c = Inr ?c"
    by (simp add: settle_claim_def assms(1))
  then have "apply_verdicts rfc d st [affirmative] [affirmative] ([c], [0]) = Inr ([?c], [])"
    by (simp add: affirmative_def)
  then have "validate_claims affirming rfc d st k [c] w = (Inr [?c], w)" for w
    by (simp add: validate_claims_def affirming_def numeral_2_eq_2)
  ultimately show ?thesis by blast
qed

theorem claims_validated_witness:
  "\<exists>c. validate_claims affirming (\<lambda>_. None) demo_doc profile_state demo_sink [demo_claim_scoped] demo_world = (Inr [c], demo_world)
     \<and> c_validation_status c = V_SUPPORTED \<and> same_core demo_claim_scoped c"
proof -
  obtain c where v: "validate_claims affirming (\<lambda>_. None) demo_doc profile_state demo_sink [demo_claim_scoped] demo_world = (Inr [c], demo_world)"
    and "c_validation_status c = V_SUPPORTED"
    using affirmed[OF profile_gap, of demo_claim_scoped "\<lambda>_. None" demo_doc demo_sink] by (auto simp: demo_claim_scoped_def)
  then show ?thesis using claims_validated[OF v, of 0] by simp
qed

section \<open>Extraction\<close>

definition b_text :: str where
  "b_text = [98, 98, 98, 98, 98, 98, 98, 98, 98, 98, 98, 98, 98, 98, 98, 98, 98, 98, 98, 98]"

definition b_page :: document where
  "b_page = demo_doc\<lparr>d_content := b_text, d_extracted := False, d_selected_round := Some 0,
     d_score := default_score\<lparr>ss_relevance := 1\<rparr>\<rparr>"

definition b_state :: research_state where
  "b_state = profile_state\<lparr>rs_plan := [b_subquestion], rs_documents := [(d_id b_page, b_page)]\<rparr>"

definition b_item :: claim_out where
  "b_item = \<lparr>cl_subq_id = [115], cl_facet_id = None, cl_text = [98], cl_quote = b_text, cl_kind = FACT, cl_entity = None,
     cl_attribute = None, cl_value = None, cl_unit = None, cl_as_of = None, cl_conditions = [[98]],
     cl_effective_from = None, cl_effective_until = None, cl_time_sensitive = False, cl_attributed_to = None\<rparr>"

definition extracting :: "(inputs, claim_out list) predictor" where
  "extracting = (\<lambda>i k w. (Inr [b_item], w))"

lemma b_no_injection: "\<not> looks_like_injection [98]" "\<not> looks_like_injection b_text"
  by (simp_all add: looks_like_injection_def injection_rx_def b_text_def rx_eval is_word_def is_space_def)

lemma b_quote: "qc_ok (verify_quote id b_text b_text)"
proof -
  have w: "words b_text = [b_text]"
    by (simp add: b_text_def words_def punct_def fold_text_eq_map lower1_def tr_fold_def is_word_def
      is_alnum_def is_alpha_def is_digit_def)
  have long: "\<not> length (strip b_text) < MIN_QUOTE_CHARS"
    by (simp add: b_text_def strip_def is_space_def MIN_QUOTE_CHARS_def)
  have "contains b_text b_text" by (simp add: b_text_def)
  then show ?thesis unfolding verify_quote_def Let_def if_not_P[OF long] w by simp
qed

lemma b_readable: "readable b_state = [b_page]"
  by (simp add: readable_def selected_documents_def b_state_def profile_state_def demo_state_def b_page_def demo_doc_def
    default_score_def body_of_def b_text_def)

lemma b_extraction:
  "\<exists>st w' c. extract_claims extracting affirming id (\<lambda>_. None) id [] k b_state w = (Inr st, w')
     \<and> map snd (rs_claims st) = [c] \<and> c_validation_status c = V_SUPPORTED"
proof -
  let ?c0 = "new_claim b_state b_page b_item (verify_quote id b_text b_text) b_subquestion [115]"
  let ?x = "\<lparr>xn_accepted = [?c0], xn_rejected = 0, xn_injected = 0\<rparr>"
  have known: "known_subquestions b_state = [([115], b_subquestion)]"
    by (simp add: known_subquestions_def b_state_def b_subquestion_def)
  have body: "body_of b_page = b_text" by (simp add: body_of_def b_page_def b_text_def)
  have "admit_claim id b_state b_page b_item \<lparr>xn_accepted = [], xn_rejected = 0, xn_injected = 0\<rparr> = Inr ?x"
    using b_no_injection b_quote by (simp add: admit_claim_def b_item_def known dget_err_def body)
  then have admitted: "admit_claims id b_state b_page [b_item] \<lparr>xn_accepted = [], xn_rejected = 0, xn_injected = 0\<rparr> = Inr ?x"
    by simp
  have gap: "legal_evidence_gap c d b_state = Inr None" for c d
    by (simp add: legal_evidence_gap_def b_state_def profile_state_def)
  obtain c where v: "\<And>w. validate_claims affirming (\<lambda>_. None) b_page b_state k [?c0] w = (Inr [c], w)"
    and c: "c_validation_status c = V_SUPPORTED"
    using affirmed[OF gap, of ?c0 "\<lambda>_. None" b_page k] by (auto simp: new_claim_def b_item_def)
  let ?s0 = "\<lparr>xt_found = [], xt_state = b_state, xt_stats = \<lparr>xs_claims = 0, xs_rejected = 0, xs_failed = 0, xs_injection = 0\<rparr>\<rparr>"
  define s where "s = ?s0\<lparr>xt_found := [(d_id b_page, [c])],
    xt_state := update_document (d_id b_page) (\<lambda>y. y\<lparr>d_extracted := True\<rparr>) b_state\<rparr>"
  obtain w1 where "extract_document extracting affirming id (\<lambda>_. None) [] k b_page ?s0 w = (Inr s, w1)"
    using admitted by (simp add: extract_document_def extracting_def v s_def)
  then have r: "rfold (extract_document extracting affirming id (\<lambda>_. None) [] k) (id [b_page]) ?s0 w = (Inr s, w1)"
    by simp
  have "map snd (rs_claims (store_claim c (xt_state s))) = [c\<lparr>c_id := next_id (lit ''c'') 0\<rparr>]"
    by (simp add: store_claim_def Let_def s_def b_state_def profile_state_def demo_state_def update_document_def)
  then show ?thesis
    unfolding extract_claims_def b_readable Let_def
    by (simp only: r prod.case sum.case list.distinct(2) if_False) (simp add: s_def dget_or_def c)
qed

theorem claims_enter_on_evidence_witness:
  "\<exists>st w' c. extract_claims extracting affirming id (\<lambda>_. None) id [] demo_sink b_state demo_world = (Inr st, w')
     \<and> map snd (rs_claims st) = [c] \<and> c_validation_status c = V_SUPPORTED
     \<and> grounded_claim affirming id demo_sink b_state b_page c"
proof -
  obtain st w' c where e: "extract_claims extracting affirming id (\<lambda>_. None) id [] demo_sink b_state demo_world = (Inr st, w')"
    and c: "map snd (rs_claims st) = [c]" "c_validation_status c = V_SUPPORTED"
    using b_extraction[of demo_sink demo_world] by (elim exE conjE) (rule that)
  have "rs_claims b_state = []" by (simp add: b_state_def profile_state_def demo_state_def)
  then have g: "grounded_claim affirming id demo_sink b_state b_page c"
    using claims_enter_on_evidence[OF e] c(1) b_readable by (auto simp: claims_numbered_def numbered_def)
  show ?thesis by (intro exI conjI) (rule e c g)+
qed

end
