(* ===== verification/ContradictionDemo.thy ===== *)
theory ContradictionDemo
  imports ContradictionProps Demo NumericProps
begin

text \<open>Two findings about one attribute of one entity with different percentages, and no judge to ask.\<close>

definition demo_finding :: "str \<Rightarrow> str \<Rightarrow> cluster" where
  "demo_finding i v =
     demo_cluster\<lparr>k_id := i, k_entity := Some [98], k_attribute := Some [102], k_value := Some v\<rparr>"

definition demo_dispute :: "(str, cluster) dict" where
  "demo_dispute = [([97], demo_finding [97] [55, 37]), ([98], demo_finding [98] [57, 37])]"

lemma demo_entity: "normalise_entity (Some [98]) = Some [98]"
  by (simp add: normalise_entity_def given_def drop_articles_def articles_rx_def sub_def rx_eval strip_def strip_once_def
      drop_suffixes_def suffixes_rx_def rstrip_punct_def rstrip_set_def fold_text_def str_lower_def tr_fold_def
      lower1_def is_space_def is_word_def)

lemma demo_attribute: "attribute_key (Some [102]) = Some [102]"
  by (simp add: attribute_key_def given_def split_ws_def runs.simps fold_text_def str_lower_def tr_fold_def lower1_def
      is_space_def QUALIFIERS_def SYNONYMS_def dget_or_def)

lemma demo_nine: "\<exists>q. extract_quantities [57, 37] language = Inr [q] \<and> qt_kind q = PERCENT \<and> qt_values q = [9]
    \<and> qt_iso q = None \<and> qt_granularity q = None"
  by (simp add: extract_eval mark_def blank_quantity_def scale_of_def decimals_of_def int_of_def demo_percent_def upt_rec)

lemma demo_values: "value_text (Some [55, 37]) None = [55, 37]" "value_text (Some [57, 37]) None = [57, 37]"
  by code_simp+

lemma demo_differ:
  "values_differ (demo_finding i [55, 37]) (demo_finding j [57, 37]) default_contradiction_settings language = Inr True"
proof -
  obtain q where "extract_quantities [57, 37] language = Inr [q]" "qt_kind q = PERCENT" "qt_values q = [9]"
    using demo_nine by metis
  then show ?thesis
    using demo_percent_found[of language, simplified] unfolding values_differ_def demo_finding_def
    by (simp only: cluster.simps demo_cluster_def demo_values rbind_simps)
      (simp add: given_def quantities_match_def any_pair_def demo_percent_def default_contradiction_settings_def dated_def)
qed

lemma demo_candidates:
  "contradiction_candidates demo_dispute default_contradiction_settings language [] = Inr [([97], [98])]"
proof -
  have "same_entity (demo_finding i v) (demo_finding j u)" for i j u v
    by (simp add: same_entity_def demo_finding_def entities_equivalent_def demo_entity)
  moreover have "same_attribute (k_attribute (demo_finding i v)) (k_attribute (demo_finding j u))" for i j u v
    by (simp add: same_attribute_def demo_finding_def demo_attribute)
  moreover have "\<not> periods_differ (k_as_of (demo_finding i v)) (k_as_of (demo_finding j u))" for i j u v
    by (simp add: periods_differ_def demo_finding_def demo_cluster_def given_def)
  ultimately have "is_candidate [] default_contradiction_settings language
      (demo_finding i [55, 37], demo_finding j [57, 37]) = Inr True" for i j
    by (simp add: is_candidate_def demo_differ)
  moreover have "sort_key k_id (dvals demo_dispute) = [demo_finding [97] [55, 37], demo_finding [98] [57, 37]]"
    by (simp add: demo_dispute_def demo_finding_def)
  moreover have "k_id (demo_finding i v) = i" for i v by (simp add: demo_finding_def)
  ultimately show ?thesis by (simp add: contradiction_candidates_def)
qed

section \<open>The node without a judge\<close>

definition dispute_state :: research_state where
  "dispute_state = demo_state\<lparr>rs_clusters := demo_dispute\<rparr>"

definition no_judge :: "(inputs, contradiction_judgement list) predictor" where
  "no_judge = (\<lambda>i k w. (Inl (LLM_failure (gateway_error LLM_TIMEOUT k [] None)), w))"

lemma demo_detection:
  "\<exists>st w'. detect_contradictions no_judge default_contradiction_settings k dispute_state w = (Inr st, w')"
proof -
  let ?ps = "enumerate 1 [([97 :: nat], [98 :: nat])]"
  have look: "dget (rs_clusters dispute_state) [97] = Some (demo_finding [97] [55, 37])"
    "dget (rs_clusters dispute_state) [98] = Some (demo_finding [98] [57, 37])"
    by (simp_all add: dispute_state_def demo_dispute_def)
  obtain r where r: "record_pairs k [] ?ps (dispute_state, w) = Inr r"
    using record_pairs_total[of ?ps dispute_state k "[]" w] by (auto simp: dispute_state_def demo_dispute_def)
  moreover have "judged_sets dispute_state = []"
    by (simp add: judged_sets_def dispute_state_def demo_state_def)
  moreover have "rs_clusters dispute_state = demo_dispute" by (simp add: dispute_state_def)
  ultimately show ?thesis
    using look by (cases r) (simp add: detect_contradictions_def demo_candidates pair_json_def dget_err_def no_judge_def
      verdicts_of_def ends_with_state_def)
qed

theorem contradictions_judged_once_witness:
  "\<exists>st w'. detect_contradictions no_judge default_contradiction_settings demo_sink dispute_state demo_world = (Inr st, w')
     \<and> map x_cluster_ids (rs_contradictions st) = [[[97], [98]]]"
proof -
  obtain st w' where d: "detect_contradictions no_judge default_contradiction_settings demo_sink dispute_state demo_world = (Inr st, w')"
    using demo_detection by blast
  have f: "judged_sets dispute_state = []" "rs_clusters dispute_state = demo_dispute" "rs_contradictions dispute_state = []"
    by (simp_all add: judged_sets_def dispute_state_def demo_state_def)
  obtain new where new: "st = dispute_state\<lparr>rs_clusters := rs_clusters st, rs_contradictions := new\<rparr>"
    "map x_cluster_ids new = [[[97], [98]]]"
    using contradictions_judged_once[OF d] f by (auto simp: demo_candidates)
  from arg_cong[OF new(1), of rs_contradictions] have "rs_contradictions st = new" by simp
  then show ?thesis using d new(2) by (intro exI[of _ st] exI[of _ w'] conjI) simp_all
qed

theorem contradictions_settled_witness:
  "\<exists>st w' x. detect_contradictions no_judge default_contradiction_settings demo_sink dispute_state demo_world = (Inr st, w')
     \<and> rs_contradictions st = [x] \<and> x_kind x = TRUE_CONFLICT \<and> \<not> x_resolved x"
proof -
  obtain st w' where d: "detect_contradictions no_judge default_contradiction_settings demo_sink dispute_state demo_world = (Inr st, w')"
    using demo_detection by blast
  obtain pairs vs w1 where "contradiction_candidates demo_dispute default_contradiction_settings (rs_language dispute_state) [] = Inr pairs"
    and "record_pairs demo_sink vs (enumerate 1 pairs) (dispute_state, w1) = Inr (st, w')"
    using detect_pairs[OF d] by (auto simp: judged_sets_def dispute_state_def demo_state_def)
  then obtain x where x: "rs_contradictions st = [x]"
    using record_pairs_spec[OF only_contested_refl, of demo_sink vs "enumerate 1 pairs" dispute_state w1 st w']
    by (auto simp: demo_candidates dispute_state_def demo_state_def)
  have "keyed_ledger (rs_clusters dispute_state)"
    by (simp add: keyed_ledger_def dispute_state_def demo_dispute_def demo_finding_def)
  from contradictions_settled[OF d this, of x] x d show ?thesis
    by (auto simp: dispute_state_def demo_state_def no_judge_def)
qed

end
