(* ===== verification/ReportDemo.thy ===== *)
theory ReportDemo
  imports ReportProps GateDemo Demo
begin

text \<open>Two concrete reports: one drafted without a model, one whose cited sentence the verifier supports.\<close>

definition no_model :: "(inputs, synthesis_output) predictor" where
  "no_model = (\<lambda>i k w. (Inl (LLM_failure (gateway_error LLM_TIMEOUT k [] None)), w))"

lemma cited_mark:
  assumes "rs_documents st = rs_documents demo_state"
  shows "\<exists>es. rebuild_entries st [lit ''d''] [] = Inr es"
  by (simp add: assms demo_state_def demo_doc_def source_url_def canonical_mark)

lemma demo_draft: "\<exists>st' w'. synthesize no_model [] demo_sink demo_state demo_world = (Inr st', w')"
proof -
  have d: "draft_report no_model [] demo_sink demo_state demo_world
      = (Inr (fallback_report demo_state), snd (synthesise no_model [] demo_sink [] demo_state demo_world))"
    by (simp add: draft_report_def synthesise_def no_model_def demo_state_def)
  have "cited_doc_ids (fallback_report demo_state) demo_state = [lit ''d'']"
    by (simp add: cited_doc_ids_def addressed_def fallback_report_def Let_def titled_def gap_section_def ranked_clusters_def
        citable_clusters_def ledger_fact_def label_sentence_def fact_sentence_def meta_sentence_def report_gaps_def
        withheld_claims_def demo_state_def demo_cluster_def demo_doc_def cluster_docs_def dmem_def add_new_def map_filter_def)
  then obtain r where "rebuild_sources demo_state (fallback_report demo_state) = Inr r"
    using cited_mark[of demo_state] by (auto simp: rebuild_sources_def)
  then show ?thesis by (simp add: synthesize_def d)
qed

theorem drafts_follow_ledger_witness:
  "\<exists>st' w' r. synthesize no_model [] demo_sink demo_state demo_world = (Inr st', w') \<and> rs_report st' = Some r
     \<and> distinct (keys_of r) \<and> g7_known_gaps r st' demo_config = []"
proof -
  obtain st' w' where s: "synthesize no_model [] demo_sink demo_state demo_world = (Inr st', w')"
    using demo_draft by blast
  from drafts_follow_ledger[OF s, of demo_config] s show ?thesis by blast
qed

definition first_finding :: str where
  "first_finding = sentence_id KEY_FINDINGS 0"

definition demo_verifier :: "(inputs, verification_item list) predictor" where
  "demo_verifier = (\<lambda>i k w. (Inr [\<lparr>vi_sentence_id = first_finding, vi_supported = True, vi_reason = []\<rparr>], w))"

lemma demo_attempt:
  "verify_attempts demo_verifier k (Suc n) (f, [(first_finding, x)]) w
     = (Inr (f\<lparr>vf_checked := add_new first_finding (vf_checked f)\<rparr>, []), w)"
  by (simp add: demo_verifier_def)

definition report_state :: research_state where
  "report_state = demo_state\<lparr>rs_report := Some demo_report\<rparr>"

lemma nothing_dropped:
  assumes "rs_report st = Some r0" and "\<not> r_fallback r0" and "verify_report verify n schedule k r0 st w = (Inr ([], st1), w1)"
    and "json_count (lit ''unavailable'') (rs_verification st1) = 0" and "drop_unsupported [] r0 = r0"
    and "rebuild_sources st1 r0 = Inr r"
  shows "\<exists>st' w'. verify_citations predict verify today n schedule k st w = (Inr st', w') \<and> rs_report st' = Some r"
  using assms by (simp add: verify_citations_def rewrite_once_def Let_def bump_def)

lemma demo_verified:
  "\<exists>st' w' r. verify_citations no_model demo_verifier [] 5 id demo_sink report_state demo_world = (Inr st', w')
     \<and> rs_report st' = Some r \<and> r_sections r = r_sections demo_report \<and> \<not> r_fallback r"
proof -
  obtain x where i: "check_items report_state demo_report = [(first_finding, x)]"
    by (simp add: check_items_def addressed_def demo_report_def demo_sentence_def needs_check_def first_finding_def)
  have b: "batches_of 5 [(first_finding, x)] = [[(first_finding, x)]]" by simp
  let ?start = "\<lparr>vf_unsupported = [], vf_checked = [], vf_unavailable = []\<rparr>"
  let ?f = "?start\<lparr>vf_checked := add_new first_finding []\<rparr>"
  have a: "check_batch demo_verifier demo_sink [(first_finding, x)] ?start demo_world = (Inr ?f, demo_world)"
    by (simp add: check_batch_def numeral_2_eq_2 demo_attempt del: verify_attempts.simps)
  have "verify_report demo_verifier 5 id demo_sink demo_report report_state demo_world
      = (Inr ([], report_state\<lparr>rs_verification := verification_json 1 ?f\<rparr>), demo_world)"
    unfolding verify_report_def i by (simp add: b a del: batches_of.simps)
  then obtain f where f: "verify_report demo_verifier 5 id demo_sink demo_report report_state demo_world
      = (Inr ([], report_state\<lparr>rs_verification := verification_json 1 f\<rparr>), demo_world)" "vf_unavailable f = []"
    by fastforce
  let ?st = "report_state\<lparr>rs_verification := verification_json 1 f\<rparr>"
  have u: "json_count (lit ''unavailable'') (rs_verification ?st) = 0"
    using f(2) by (simp add: json_count_def verification_json_def)
  have d: "drop_unsupported [] demo_report = demo_report"
    by (simp add: drop_unsupported_def demo_report_def dmem_def)
  have "cited_doc_ids demo_report ?st = [lit ''d'']"
    by (simp add: cited_doc_ids_def addressed_def demo_report_def demo_sentence_def report_state_def demo_state_def
        demo_cluster_def demo_doc_def cluster_docs_def dmem_def add_new_def)
  then obtain r where r: "rebuild_sources ?st demo_report = Inr r"
    using cited_mark[of ?st] by (auto simp: rebuild_sources_def report_state_def)
  have s: "rs_report report_state = Some demo_report" "\<not> r_fallback demo_report"
    by (simp_all add: report_state_def demo_report_def)
  show ?thesis
    using nothing_dropped[OF s f(1) u d r] rebuilt_same[OF r] s(2) by metis
qed

theorem cited_sentences_verified_witness:
  "\<exists>st' w' i. verify_citations no_model demo_verifier [] 5 id demo_sink report_state demo_world = (Inr st', w')
     \<and> confirmed demo_verifier demo_sink (sentence_id KEY_FINDINGS i)
         (sentence_item report_state KEY_FINDINGS i (demo_sentence [lit ''c'']))"
proof -
  obtain st' w' r where r: "verify_citations no_model demo_verifier [] 5 id demo_sink report_state demo_world = (Inr st', w')"
    "rs_report st' = Some r" "r_sections r = r_sections demo_report" "\<not> r_fallback r"
    using demo_verified by blast
  let ?sec = "\<lparr>sec_key = KEY_FINDINGS, sec_title = lit ''Key Findings'',
       sec_sentences = [demo_sentence [lit ''c''], demo_sentence []]\<rparr>"
  have "\<exists>i. confirmed demo_verifier demo_sink (sentence_id (sec_key ?sec) i)
         (sentence_item report_state (sec_key ?sec) i (demo_sentence [lit ''c'']))"
  proof (rule cited_sentences_verified[OF r(1) _ _ _ _ _ r(2,4)])
    show "rs_report report_state = Some demo_report" by (simp add: report_state_def)
    show "\<not> r_fallback demo_report" "distinct (keys_of demo_report)" by (simp_all add: demo_report_def keys_of_def)
    show "?sec \<in> set (r_sections r)" using r(3) by (simp add: demo_report_def)
    show "demo_sentence [lit ''c''] \<in> set (sec_sentences ?sec)" by simp
    show "needs_check (demo_sentence [lit ''c''])" by (simp add: needs_check_def demo_sentence_def)
  qed simp_all
  then show ?thesis using r(1) by auto
qed

end
