(* ===== verification/MaskProps.thy ===== *)
theory MaskProps
  imports Masking
begin

text \<open>
  Properties of the masking of the question: the chosen spans are disjoint and in order, every identifier
  found begins inside one of them, and the text is the original with one name per value in their place.
\<close>

section \<open>The choice of spans\<close>

definition in_text :: "str \<Rightarrow> pii_span \<Rightarrow> bool" where
  "in_text text s \<longleftrightarrow> ps_start s < ps_end s \<and> ps_end s \<le> length text"

definition apart :: "pii_span list \<Rightarrow> bool" where
  "apart cs \<longleftrightarrow> sorted_wrt (\<lambda>a b. ps_end a \<le> ps_start b) cs"

definition begins_in :: "pii_span \<Rightarrow> pii_span \<Rightarrow> bool" where
  "begins_in c s \<longleftrightarrow> ps_start c \<le> ps_start s \<and> ps_start s < ps_end c"

lemma apart_append:
  assumes "apart cs" and "list_all (in_text text) cs" and "cs \<noteq> [] \<Longrightarrow> ps_end (last cs) \<le> ps_start s"
  shows "apart (cs @ [s])"
proof -
  have "ps_end c \<le> ps_start s" if "c \<in> set cs" for c
  proof -
    from that have "cs \<noteq> []" by auto
    then obtain bs b where cs: "cs = bs @ [b]" by (metis append_butlast_last_id)
    have "ps_end c \<le> ps_end b"
      using assms(1,2) that unfolding cs by (fastforce simp: apart_def sorted_wrt_append list_all_iff in_text_def)
    then show ?thesis using assms(3) cs by simp
  qed
  then show ?thesis using assms(1) by (auto simp: apart_def sorted_wrt_append)
qed

lemma choose_spans_spec:
  assumes "sorted (map ps_start spans)" and "list_all (in_text text) (spans @ chosen)" and "apart chosen"
    and "\<forall>c\<in>set chosen. \<forall>s\<in>set spans. ps_start c \<le> ps_start s"
  shows "apart (choose_spans spans chosen) \<and> set (choose_spans spans chosen) \<subseteq> set spans \<union> set chosen
    \<and> set chosen \<subseteq> set (choose_spans spans chosen)
    \<and> (\<forall>s\<in>set spans. \<exists>c\<in>set (choose_spans spans chosen). begins_in c s)"
  using assms
proof (induction spans chosen rule: choose_spans.induct)
  case (2 s spans chosen)
  note prems = "2.prems"
  have t: "in_text text s" using prems(2) by simp
  show ?case
  proof (cases "chosen \<noteq> [] \<and> ps_start s < ps_end (last chosen)")
    case True
    then have "begins_in (last chosen) s" using prems(4) by (auto simp: begins_in_def)
    moreover have ih: "apart (choose_spans spans chosen) \<and> set (choose_spans spans chosen) \<subseteq> set spans \<union> set chosen
      \<and> set chosen \<subseteq> set (choose_spans spans chosen)
      \<and> (\<forall>s\<in>set spans. \<exists>c\<in>set (choose_spans spans chosen). begins_in c s)"
      using "2.IH"(1)[OF True] prems by simp
    moreover have "last chosen \<in> set (choose_spans spans chosen)" using ih True by auto
    ultimately show ?thesis using True by auto
  next
    case False
    have "apart (chosen @ [s])" by (rule apart_append[of chosen "text"]) (use prems(2,3) False in auto)
    moreover have "\<forall>c\<in>set (chosen @ [s]). \<forall>x\<in>set spans. ps_start c \<le> ps_start x" using prems(1,4) by auto
    ultimately have ih: "apart (choose_spans spans (chosen @ [s])) \<and> set (choose_spans spans (chosen @ [s])) \<subseteq> set spans \<union> set (chosen @ [s])
      \<and> set (chosen @ [s]) \<subseteq> set (choose_spans spans (chosen @ [s]))
      \<and> (\<forall>x\<in>set spans. \<exists>c\<in>set (choose_spans spans (chosen @ [s])). begins_in c x)"
      using "2.IH"(2)[OF False] prems(1,2) by auto
    moreover have "begins_in s s" using t by (simp add: begins_in_def in_text_def)
    ultimately show ?thesis using False by auto
  qed
qed simp

lemma sorted_spans_spec: "set (sorted_spans spans) = set spans" "sorted (map ps_start (sorted_spans spans))"
  by (simp_all add: sorted_spans_def)

lemma chosen_spec:
  assumes "list_all (in_text text) spans"
  shows "apart (choose_spans (sorted_spans spans) []) \<and> set (choose_spans (sorted_spans spans) []) \<subseteq> set spans
    \<and> (\<forall>s\<in>set spans. \<exists>c\<in>set (choose_spans (sorted_spans spans) []). begins_in c s)"
  using choose_spans_spec[of "sorted_spans spans" "text" "[]"] assms
  by (simp add: sorted_spans_spec apart_def list_all_iff)

section \<open>Names\<close>

lemma dec_digits: "c \<in> set (dec n) \<Longrightarrow> c \<noteq> 95"
proof (induction n rule: less_induct)
  case (less n)
  note ih = less.IH[of "n div 10"]
  show ?case using less.prems ih unfolding dec.simps[of n] by (auto split: if_splits)
qed

lemma placeholder_inj: "placeholder_name k m = placeholder_name l n \<longleftrightarrow> k = l \<and> m = n"
proof -
  have "takeWhile (\<lambda>c. c \<noteq> 95) (rev (k @ [95] @ dec m)) = rev (dec m)" for k m
    by (simp add: takeWhile_append takeWhile_eq_all_conv[THEN iffD2] dec_digits)
  then have "dec m = dec n" if "k @ [95] @ dec m = l @ [95] @ dec n" using that by (metis rev_rev_ident)
  then show ?thesis by (auto simp: placeholder_name_def)
qed

text \<open>The names given so far: numbered within their kind, no two the same.\<close>

definition named :: "masking \<Rightarrow> bool" where
  "named m \<longleftrightarrow> distinct (dkeys (mk_assigned m)) \<and> inj_on (dget (mk_assigned m)) (set (dkeys (mk_assigned m)))
     \<and> (\<forall>key p. dget (mk_assigned m) key = Some p \<longrightarrow>
          (\<exists>n. p = placeholder_name (fst key) n \<and> 1 \<le> n \<and> n \<le> dget_or (mk_counters m) (fst key) 0))
     \<and> (\<forall>kind. dget_or (mk_counters m) kind 0 = card {key \<in> set (dkeys (mk_assigned m)). fst key = kind})"

definition name_of :: "masking \<Rightarrow> str \<times> str \<Rightarrow> str" where
  "name_of m key = dget_or (mk_assigned m) key []"

lemma assign_named:
  assumes "named m"
  shows "named (assign_placeholder t s m)"
    and "set (dkeys (mk_assigned (assign_placeholder t s m))) = insert (span_key t s) (set (dkeys (mk_assigned m)))"
    and "key \<in> set (dkeys (mk_assigned m)) \<Longrightarrow> name_of (assign_placeholder t s m) key = name_of m key"
proof -
  let ?k = "span_key t s" and ?n = "dget_or (mk_counters m) (ps_kind s) 0 + 1"
  let ?m = "assign_placeholder t s m"
  have fst_key: "fst ?k = ps_kind s" by (simp add: span_key_def)
  have "named ?m \<and> set (dkeys (mk_assigned ?m)) = insert ?k (set (dkeys (mk_assigned m)))
    \<and> (key \<in> set (dkeys (mk_assigned m)) \<longrightarrow> name_of ?m key = name_of m key)"
  proof (cases "dmem ?k (mk_assigned m)")
    case True
    then have "?k \<in> set (dkeys (mk_assigned m))" by (force simp: dmem_def)
    then show ?thesis using assms True by (simp add: assign_placeholder_def insert_absorb)
  next
    case False
    then have new: "?k \<notin> set (dkeys (mk_assigned m))" by (simp add: dmem_def)
    have d: "mk_assigned ?m = dput ?k (placeholder_name (ps_kind s) ?n) (mk_assigned m)"
      using False by (simp add: assign_placeholder_def)
    have a: "mk_assigned ?m = mk_assigned m @ [(?k, placeholder_name (ps_kind s) ?n)]"
      and c: "mk_counters ?m = dput (ps_kind s) ?n (mk_counters m)"
      using False dput_fresh[OF new] by (simp_all add: assign_placeholder_def)
    have g: "dget (mk_assigned ?m) x = (if x = ?k then Some (placeholder_name (ps_kind s) ?n) else dget (mk_assigned m) x)" for x
      by (simp add: d)
    have num: "\<exists>n. p = placeholder_name (fst x) n \<and> 1 \<le> n \<and> n \<le> dget_or (mk_counters m) (fst x) 0" if "dget (mk_assigned m) x = Some p" for x p
      using assms that unfolding named_def by blast
    have fresh: "dget (mk_assigned m) x \<noteq> Some (placeholder_name (ps_kind s) ?n)" for x
      using num[of x] by (auto simp: placeholder_inj)
    have inj: "inj_on (dget (mk_assigned m)) (set (dkeys (mk_assigned m)))" using assms by (simp add: named_def)
    have "inj_on (dget (mk_assigned ?m)) (set (dkeys (mk_assigned ?m)))"
    proof (rule inj_onI)
      fix x y assume x: "x \<in> set (dkeys (mk_assigned ?m))" "y \<in> set (dkeys (mk_assigned ?m))"
        and e: "dget (mk_assigned ?m) x = dget (mk_assigned ?m) y"
      have m: "x = ?k \<or> x \<in> set (dkeys (mk_assigned m))" "y = ?k \<or> y \<in> set (dkeys (mk_assigned m))" using x unfolding a by auto
      show "x = y"
      proof (cases "x = ?k \<or> y = ?k")
        case True
        then show ?thesis using e fresh[of x] fresh[of y] unfolding g by (auto split: if_splits)
      next
        case False
        then have "dget (mk_assigned m) x = dget (mk_assigned m) y" using e unfolding g by simp
        then show ?thesis using inj_onD[OF inj] m False by blast
      qed
    qed
    moreover have "distinct (dkeys (mk_assigned ?m))" using assms new by (simp add: named_def a)
    moreover have "dget_or (mk_counters ?m) kind 0 = card {key \<in> set (dkeys (mk_assigned ?m)). fst key = kind}" for kind
    proof -
      let ?K = "{key \<in> set (dkeys (mk_assigned m)). fst key = kind}"
      have "dget_or (mk_counters m) kind 0 = card ?K" using assms by (simp add: named_def)
      moreover have "{key \<in> set (dkeys (mk_assigned ?m)). fst key = kind} = (if fst ?k = kind then insert ?k ?K else ?K)"
        unfolding a by auto
      moreover have "?k \<notin> ?K" "finite ?K" using new by auto
      ultimately show ?thesis unfolding c fst_key by (auto simp: dget_or_def)
    qed
    moreover have "\<exists>n. p = placeholder_name (fst x) n \<and> 1 \<le> n \<and> n \<le> dget_or (mk_counters ?m) (fst x) 0"
      if "dget (mk_assigned ?m) x = Some p" for x p
    proof (cases "x = ?k")
      case True
      then show ?thesis using that fst_key unfolding g c by (auto simp: dget_or_def)
    next
      case x: False
      then have "dget (mk_assigned m) x = Some p" using that by (simp add: g)
      then obtain n where "p = placeholder_name (fst x) n" "1 \<le> n" "n \<le> dget_or (mk_counters m) (fst x) 0"
        using num by blast
      moreover have "dget_or (mk_counters m) (fst x) 0 \<le> dget_or (mk_counters ?m) (fst x) 0" unfolding c by (auto simp: dget_or_def)
      ultimately show ?thesis using order.trans by blast
    qed
    ultimately have "named ?m" unfolding named_def by blast
    moreover have "name_of ?m x = name_of m x" if "x \<in> set (dkeys (mk_assigned m))" for x
    proof -
      have "x \<noteq> ?k" using that new by blast
      then show ?thesis by (simp add: name_of_def dget_or_def g)
    qed
    ultimately show ?thesis by (auto simp: a)
  qed
  then show "named ?m" "set (dkeys (mk_assigned ?m)) = insert ?k (set (dkeys (mk_assigned m)))"
    "key \<in> set (dkeys (mk_assigned m)) \<Longrightarrow> name_of ?m key = name_of m key" by blast+
qed


section \<open>The masked text\<close>

fun replaced :: "str \<Rightarrow> (pii_span \<Rightarrow> str) \<Rightarrow> nat \<Rightarrow> pii_span list \<Rightarrow> str" where
  "replaced text name cursor [] = drop cursor text"
| "replaced text name cursor (c # cs) =
     take (ps_start c - cursor) (drop cursor text) @ name c @ replaced text name (ps_end c) cs"

lemma replaced_cong: "(\<And>c. c \<in> set cs \<Longrightarrow> f c = g c) \<Longrightarrow> replaced text f n cs = replaced text g n cs"
  by (induction cs arbitrary: n) auto

lemma mask_fold:
  assumes "named m"
  shows "named (fold (mask_span text) cs m)
    \<and> set (dkeys (mk_assigned (fold (mask_span text) cs m))) = span_key text ` set cs \<union> set (dkeys (mk_assigned m))
    \<and> (\<forall>key\<in>set (dkeys (mk_assigned m)). name_of (fold (mask_span text) cs m) key = name_of m key)
    \<and> concat (mk_pieces (fold (mask_span text) cs m) @ [drop (mk_cursor (fold (mask_span text) cs m)) text])
      = concat (mk_pieces m) @ replaced text (\<lambda>c. name_of (fold (mask_span text) cs m) (span_key text c)) (mk_cursor m) cs"
  using assms
proof (induction cs arbitrary: m)
  case (Cons c cs)
  let ?a = "assign_placeholder text c m" and ?m = "mask_span text c m"
  note n = assign_named[OF Cons.prems, where s = c and t = "text"]
  have m: "mk_assigned ?m = mk_assigned ?a" "mk_counters ?m = mk_counters ?a" "mk_cursor ?m = ps_end c"
    "mk_pieces ?m = mk_pieces m @ [take (ps_start c - mk_cursor m) (drop (mk_cursor m) text), name_of ?a (span_key text c)]"
    by (simp_all add: mask_span_def assign_placeholder_def name_of_def Let_def)
  have nm: "named ?m" unfolding named_def m by (rule n(1)[unfolded named_def])
  have nm2: "\<And>key. name_of ?m key = name_of ?a key" by (simp add: name_of_def m)
  note ih = Cons.IH[OF nm]
  have key: "span_key text c \<in> set (dkeys (mk_assigned ?m))" unfolding m(1) n(2) by simp
  have k: "name_of (fold (mask_span text) cs ?m) (span_key text c) = name_of ?a (span_key text c)"
    using ih key nm2 by metis
  have old: "name_of (fold (mask_span text) cs ?m) key = name_of m key" if "key \<in> set (dkeys (mk_assigned m))" for key
  proof -
    have "key \<in> set (dkeys (mk_assigned ?m))" unfolding m(1) n(2) using that by simp
    then show ?thesis using ih n(3)[OF that] nm2 by metis
  qed
  show ?case using ih n(2) k old by (auto simp: m)
qed simp

lemma no_masking_named: "named no_masking"
  by (simp add: named_def no_masking_def dget_or_def)

text \<open>What takes the place of a span: its kind and a number, given to the kind and value of the span.\<close>

abbreviation shown_as :: "str \<Rightarrow> (str \<times> str \<Rightarrow> nat) \<Rightarrow> pii_span \<Rightarrow> str" where
  "shown_as text num c \<equiv> placeholder_name (ps_kind c) (num (span_key text c))"

lemma named_numbers:
  assumes "named m"
  shows "\<exists>num. \<forall>key\<in>set (dkeys (mk_assigned m)). dget (mk_assigned m) key = Some (placeholder_name (fst key) (num key))
    \<and> num key \<in> {1..card {k \<in> set (dkeys (mk_assigned m)). fst k = fst key}}"
proof (rule bchoice, rule ballI)
  fix key assume "key \<in> set (dkeys (mk_assigned m))"
  then obtain p where p: "dget (mk_assigned m) key = Some p"
    by (metis map_of_eq_None_iff list.set_map not_Some_eq)
  then obtain n where "p = placeholder_name (fst key) n" "1 \<le> n" "n \<le> dget_or (mk_counters m) (fst key) 0"
    using assms unfolding named_def by blast
  moreover have "dget_or (mk_counters m) (fst key) 0 = card {k \<in> set (dkeys (mk_assigned m)). fst k = fst key}"
    using assms unfolding named_def by blast
  ultimately show "\<exists>n. dget (mk_assigned m) key = Some (placeholder_name (fst key) n)
      \<and> n \<in> {1..card {k \<in> set (dkeys (mk_assigned m)). fst k = fst key}}"
    using p by auto
qed

lemma assoc_image: "distinct (map fst xs) \<Longrightarrow> (\<lambda>key. (key, the (map_of xs key))) ` set (map fst xs) = set xs"
proof -
  assume "distinct (map fst xs)"
  then have "(fst x, the (map_of xs (fst x))) = x" if "x \<in> set xs" for x
    using that by (metis map_of_is_SomeI option.sel prod.collapse)
  then show ?thesis by (simp add: image_image)
qed

lemma apply_spans_spec:
  assumes "list_all (in_text text) spans"
  shows "\<exists>cs num. mr_text (apply_spans text spans d e) = replaced text (shown_as text num) 0 cs
    \<and> apart cs \<and> set cs \<subseteq> set spans \<and> (\<forall>s\<in>set spans. \<exists>c\<in>set cs. begins_in c s)
    \<and> inj_on (\<lambda>key. (fst key, num key)) (span_key text ` set cs)
    \<and> (\<forall>c\<in>set cs. num (span_key text c) \<in> {1..card {key \<in> span_key text ` set cs. fst key = ps_kind c}})
    \<and> length (mr_entities (apply_spans text spans d e)) = card (span_key text ` set cs)
    \<and> set (map (\<lambda>x. (me_kind x, me_placeholder x)) (mr_entities (apply_spans text spans d e)))
      = (\<lambda>c. (ps_kind c, shown_as text num c)) ` set cs"
proof -
  let ?cs = "choose_spans (sorted_spans spans) []"
  let ?m = "fold (mask_span text) ?cs no_masking"
  note f = mask_fold[OF no_masking_named, of "text" ?cs]
  have e: "mk_assigned no_masking = []" "mk_pieces no_masking = []" "mk_cursor no_masking = 0" by (simp_all add: no_masking_def)
  have keys: "set (dkeys (mk_assigned ?m)) = span_key text ` set ?cs" using f by (simp add: e)
  have n: "named ?m" using f by blast
  obtain num where num: "\<forall>key\<in>span_key text ` set ?cs. dget (mk_assigned ?m) key = Some (placeholder_name (fst key) (num key))
    \<and> num key \<in> {1..card {k \<in> span_key text ` set ?cs. fst k = fst key}}"
    using named_numbers[OF n] unfolding keys by blast
  have kind: "fst (span_key text c) = ps_kind c" for c by (simp add: span_key_def)
  have name: "name_of ?m (span_key text c) = shown_as text num c" if "c \<in> set ?cs" for c
    using num that by (simp add: name_of_def dget_or_def kind)
  have t: "mr_text (apply_spans text spans d e) = replaced text (shown_as text num) 0 ?cs"
  proof -
    have "mr_text (apply_spans text spans d e) = replaced text (\<lambda>c. name_of ?m (span_key text c)) 0 ?cs"
      using f by (simp add: apply_spans_def mask_chosen_def e Let_def)
    also have "\<dots> = replaced text (shown_as text num) 0 ?cs" by (rule replaced_cong) (rule name)
    finally show ?thesis .
  qed
  have inj: "inj_on (dget (mk_assigned ?m)) (span_key text ` set ?cs)" using n keys by (simp add: named_def)
  have inj2: "inj_on (\<lambda>key. (fst key, num key)) (span_key text ` set ?cs)"
    by (rule inj_onI, rule inj_onD[OF inj]) (use num in auto)
  have d: "distinct (dkeys (mk_assigned ?m))" using n by (simp add: named_def)
  have ents: "mr_entities (apply_spans text spans d e) = map (\<lambda>((kind, key), placeholder). \<lparr>me_kind = kind, me_placeholder = placeholder,
             me_occurrences = dget_or (mk_occurrences ?m) placeholder 0\<rparr>) (mk_assigned ?m)"
    by (simp add: apply_spans_def mask_chosen_def Let_def)
  have c: "length (mr_entities (apply_spans text spans d e)) = card (span_key text ` set ?cs)"
    using distinct_card[OF d] unfolding keys ents by simp
  have "set (map (\<lambda>x. (me_kind x, me_placeholder x)) (mr_entities (apply_spans text spans d e)))
      = (\<lambda>(key, p). (fst key, p)) ` set (mk_assigned ?m)"
    unfolding ents by (auto simp: image_iff) force+
  also have "set (mk_assigned ?m) = (\<lambda>key. (key, the (dget (mk_assigned ?m) key))) ` set (dkeys (mk_assigned ?m))"
    using assoc_image[OF d] by simp
  finally have s: "set (map (\<lambda>x. (me_kind x, me_placeholder x)) (mr_entities (apply_spans text spans d e)))
      = (\<lambda>c. (ps_kind c, shown_as text num c)) ` set ?cs"
    unfolding keys image_image using num by (auto simp: image_iff kind)
  note chosen = chosen_spec[OF assms]
  have r: "\<forall>c\<in>set ?cs. num (span_key text c) \<in> {1..card {key \<in> span_key text ` set ?cs. fst key = ps_kind c}}"
    using num by (auto simp: kind)
  show ?thesis
    by (rule exI[of _ ?cs], rule exI[of _ num]) (intro conjI t inj2 c s r chosen[THEN conjunct1]
      chosen[THEN conjunct2, THEN conjunct1] chosen[THEN conjunct2, THEN conjunct2])
qed

section \<open>Every identifier is masked\<close>

lemma pattern_consumes: "p \<in> set pii_patterns \<Longrightarrow> consumes (fst (snd p))"
  by (auto simp: pii_patterns_def rx_eval)

lemma regex_spans_in_text: "list_all (in_text text) (regex_spans text)"
proof -
  have "in_text text \<lparr>ps_kind = kind, ps_start = h_start h, ps_end = h_end h\<rparr>"
    if "(kind, pattern, v) \<in> set pii_patterns" "h \<in> set (finditer pattern text)" for kind pattern v h
    using finditer_ok[OF that(2)] finditer_consumes[OF _ that(2)] pattern_consumes[OF that(1)]
    by (simp add: in_text_def hit_ok_def)
  then show ?thesis by (auto simp: list_all_iff regex_spans_def)
qed

definition reports_places :: "(str list \<Rightarrow> str \<Rightarrow> presidio_finding list option) \<Rightarrow> bool" where
  "reports_places analyze \<longleftrightarrow> (\<forall>names text fs f. analyze names text = Some fs \<longrightarrow> f \<in> set fs \<longrightarrow>
     pf_start f < pf_end f \<and> pf_end f \<le> length text)"

text \<open>The spans masking goes by, and the kinds a placeholder can name.\<close>

definition spans_reported :: "(str list \<Rightarrow> str \<Rightarrow> presidio_finding list option) \<Rightarrow> bool \<Rightarrow> str \<Rightarrow> pii_span list" where
  "spans_reported analyze names text = regex_spans text @ (case analyze (requested_entities names) text of
     None \<Rightarrow> [] | Some fs \<Rightarrow> concat (map (finding_spans text) fs))"

definition mask_kinds :: "str list" where
  "mask_kinds = map fst pii_patterns @ map (\<lambda>(_, kind, _). kind) presidio_kinds"

lemma spans_reported_kinds: "s \<in> set (spans_reported analyze names text) \<Longrightarrow> ps_kind s \<in> set mask_kinds"
proof -
  have "ps_kind s \<in> set mask_kinds" if "s \<in> set (regex_spans text)"
    using that by (force simp: regex_spans_def mask_kinds_def)
  moreover have "ps_kind s \<in> set mask_kinds" if "s \<in> set (finding_spans text f)" for f
  proof (cases "dget presidio_kinds (pf_entity_type f)")
    case (Some kv)
    obtain kind v where kv: "kv = (kind, v)" by fastforce
    have "(pf_entity_type f, kind, v) \<in> set presidio_kinds" using map_of_SomeD[OF Some] kv by simp
    then have "kind \<in> set mask_kinds" by (force simp: mask_kinds_def)
    moreover have "ps_kind s = kind" using that Some kv by (auto simp: finding_spans_def Let_def split: if_splits)
    ultimately show ?thesis by simp
  qed (use that in \<open>simp add: finding_spans_def\<close>)
  moreover assume "s \<in> set (spans_reported analyze names text)"
  ultimately show ?thesis by (auto simp: spans_reported_def split: option.splits)
qed

lemma spans_reported_in_text:
  "reports_places analyze \<Longrightarrow> list_all (in_text text) (spans_reported analyze names text)"
proof -
  assume a: "reports_places analyze"
  have "list_all (in_text text) (concat (map (finding_spans text) fs))" if "analyze (requested_entities names) text = Some fs" for fs
    using a that by (fastforce simp: list_all_iff finding_spans_def reports_places_def in_text_def Let_def split: option.splits if_splits)
  then show ?thesis using regex_spans_in_text[of "text"] by (simp add: spans_reported_def split: option.split)
qed

lemma presidio_mask_spans:
  "\<exists>d e. presidio_mask analyze names text = apply_spans text (spans_reported analyze names text) d e"
  by (auto simp: presidio_mask_def regex_mask_def spans_reported_def split: option.split)

text \<open>
  C38. Masking hides the identifiers it knows and nothing else. Whatever the analyzer answers, or whether it
  answers at all, the masked question is the original with disjoint spans replaced, each by a placeholder
  made of one of the fixed kinds and a number, so of nothing that stood there. Only spans that a pattern with its
  checksum or the analyzer reports are replaced, and each of those begins inside a replaced one. The numbers of a kind run from one to the number of its
  values, two spans of a kind get the same one exactly when their values agree up to blanks and dashes,
  and the record lists each value once, with its kind and placeholder.
\<close>

theorem identifiers_masked:
  assumes "reports_places analyze"
  shows "\<exists>cs num. mr_text (presidio_mask analyze names text)
        = replaced text (\<lambda>c. placeholder_name (ps_kind c) (num (span_key text c))) 0 cs
    \<and> apart cs \<and> list_all (in_text text) cs \<and> (\<forall>c\<in>set cs. ps_kind c \<in> set mask_kinds)
    \<and> set cs \<subseteq> set (spans_reported analyze names text)
    \<and> (\<forall>s\<in>set (spans_reported analyze names text). \<exists>c\<in>set cs. begins_in c s)
    \<and> (\<forall>c\<in>set cs. \<forall>c'\<in>set cs. ps_kind c = ps_kind c' \<longrightarrow>
        (num (span_key text c) = num (span_key text c') \<longleftrightarrow> span_key text c = span_key text c'))
    \<and> (\<forall>c\<in>set cs. num (span_key text c) \<in> {1..card {key \<in> span_key text ` set cs. fst key = ps_kind c}})
    \<and> length (mr_entities (presidio_mask analyze names text)) = card (span_key text ` set cs)
    \<and> set (map (\<lambda>x. (me_kind x, me_placeholder x)) (mr_entities (presidio_mask analyze names text)))
      = (\<lambda>c. (ps_kind c, placeholder_name (ps_kind c) (num (span_key text c)))) ` set cs"
proof -
  let ?spans = "spans_reported analyze names text"
  obtain d e where m: "presidio_mask analyze names text = apply_spans text ?spans d e"
    using presidio_mask_spans by blast
  note t = spans_reported_in_text[OF assms, of "text" names]
  obtain cs num where c: "mr_text (apply_spans text ?spans d e) = replaced text (shown_as text num) 0 cs"
    "apart cs" "set cs \<subseteq> set ?spans" "\<forall>s\<in>set ?spans. \<exists>c\<in>set cs. begins_in c s"
    "inj_on (\<lambda>key. (fst key, num key)) (span_key text ` set cs)"
    "\<forall>c\<in>set cs. num (span_key text c) \<in> {1..card {key \<in> span_key text ` set cs. fst key = ps_kind c}}"
    "length (mr_entities (apply_spans text ?spans d e)) = card (span_key text ` set cs)"
    "set (map (\<lambda>x. (me_kind x, me_placeholder x)) (mr_entities (apply_spans text ?spans d e)))
      = (\<lambda>c. (ps_kind c, shown_as text num c)) ` set cs"
    using apply_spans_spec[OF t, of d e] by (elim exE conjE) (rule that)
  have k: "list_all (in_text text) cs" "\<forall>c\<in>set cs. ps_kind c \<in> set mask_kinds"
    using c(3) t spans_reported_kinds by (auto simp: list_all_iff)
  have n: "\<forall>c\<in>set cs. \<forall>c'\<in>set cs. ps_kind c = ps_kind c' \<longrightarrow>
      (num (span_key text c) = num (span_key text c') \<longleftrightarrow> span_key text c = span_key text c')"
  proof (intro ballI impI iffI)
    fix c1 c2 assume a: "c1 \<in> set cs" "c2 \<in> set cs" "ps_kind c1 = ps_kind c2" "num (span_key text c1) = num (span_key text c2)"
    then have "(fst (span_key text c1), num (span_key text c1)) = (fst (span_key text c2), num (span_key text c2))"
      by (simp add: span_key_def)
    from inj_onD[OF c(5) this] a show "span_key text c1 = span_key text c2" by blast
  qed simp
  show ?thesis unfolding m by (intro exI[of _ cs] exI[of _ num] conjI c k n)
qed

text \<open>An address, alone: no other pattern occurs in it.\<close>

lemma address_other:
  "\<not> found (fst (snd (pii_patterns ! 0))) [49, 46, 50, 46, 51, 46, 52]"
  "\<not> found (fst (snd (pii_patterns ! 1))) [49, 46, 50, 46, 51, 46, 52]"
  "\<not> found (fst (snd (pii_patterns ! 2))) [49, 46, 50, 46, 51, 46, 52]"
  "\<not> found (fst (snd (pii_patterns ! 3))) [49, 46, 50, 46, 51, 46, 52]"
  "\<not> found (fst (snd (pii_patterns ! 4))) [49, 46, 50, 46, 51, 46, 52]"
  "\<not> found (fst (snd (pii_patterns ! 5))) [49, 46, 50, 46, 51, 46, 52]"
  by (simp_all add: pii_patterns_def rx_eval)

lemmas address_none = address_other[THEN finditer_Nil_iff[THEN iffD2]]

lemma address_hit:
  "finditer (fst (snd (pii_patterns ! 6))) [49, 46, 50, 46, 51, 46, 52]
     = [\<lparr>h_start = 0, h_end = 7, h_text = [49, 46, 50, 46, 51, 46, 52], h_caps = []\<rparr>]"
  by (simp add: pii_patterns_def rx_eval)

lemma pattern_list:
  "pii_patterns = [pii_patterns ! 0, pii_patterns ! 1, pii_patterns ! 2, pii_patterns ! 3, pii_patterns ! 4,
     pii_patterns ! 5, pii_patterns ! 6]"
  "fst (pii_patterns ! 6) = lit ''IP_ADDRESS''" "snd (snd (pii_patterns ! 6)) = None"
  by (simp_all add: pii_patterns_def)

lemma address_spans:
  "regex_spans [49, 46, 50, 46, 51, 46, 52] = [\<lparr>ps_kind = lit ''IP_ADDRESS'', ps_start = 0, ps_end = 7\<rparr>]"
  unfolding regex_spans_def
  by (subst pattern_list(1))
    (simp only: list.map concat.simps case_prod_beta pattern_list(2,3) address_hit address_none
      filter.simps option.case hit.simps if_True append_Nil append_Nil2)

theorem identifiers_masked_witness:
  "mr_text (presidio_mask (\<lambda>names t. None) False (lit ''1.2.3.4'')) = lit ''<IP_ADDRESS_1>''"
proof -
  let ?t = "lit ''1.2.3.4''" and ?s = "\<lparr>ps_kind = lit ''IP_ADDRESS'', ps_start = 0, ps_end = 7\<rparr>"
  have r: "set (spans_reported (\<lambda>names t. None) False ?t) = {?s}"
    using address_spans by (simp add: spans_reported_def)
  obtain cs num where c: "mr_text (presidio_mask (\<lambda>names t. None) False ?t) = replaced ?t (shown_as ?t num) 0 cs"
    "apart cs" "set cs \<subseteq> {?s}" "\<exists>c\<in>set cs. begins_in c ?s"
    "\<forall>c\<in>set cs. num (span_key ?t c) \<in> {1..card {key \<in> span_key ?t ` set cs. fst key = ps_kind c}}"
    using identifiers_masked[of "\<lambda>names t. None" False ?t] unfolding r by (auto simp: reports_places_def)
  have cs: "cs = [?s]"
  proof (cases cs)
    case (Cons a as)
    then show ?thesis using c(2,3) by (cases as) (auto simp: apart_def)
  qed (use c(4) in auto)
  have one: "{key \<in> span_key ?t ` set cs. fst key = ps_kind ?s} = {span_key ?t ?s}" unfolding cs by (auto simp: span_key_def)
  have "?s \<in> set cs" unfolding cs by (rule list.set_intros(1))
  from bspec[OF c(5) this] have "num (span_key ?t ?s) \<in> {1..card {span_key ?t ?s}}" unfolding one .
  moreover have "n = 1" if "n \<in> {1..card {x}}" for n :: nat and x :: "str \<times> str" using that by simp
  ultimately have "num (span_key ?t ?s) = 1" by blast
  then have "shown_as ?t num ?s = placeholder_name (lit ''IP_ADDRESS'') 1" by (simp only: pii_span.simps)
  then show ?thesis unfolding c(1) cs replaced.simps by (simp add: placeholder_name_def dec.simps)
qed

text \<open>
  Of two spans that overlap only the one that begins first is replaced; the rest of the other stays as it was.
\<close>

lemma overlap_tail_kept:
  "mr_text (apply_spans text [\<lparr>ps_kind = k, ps_start = 0, ps_end = 2\<rparr>, \<lparr>ps_kind = k', ps_start = 1, ps_end = 4\<rparr>] d e)
     = placeholder_name k 1 @ drop 2 text"
  by (simp add: apply_spans_def sorted_spans_def mask_chosen_def mask_span_def assign_placeholder_def no_masking_def
      span_key_def dget_or_def dmem_def Let_def)

end
