(* ===== verification/PlanProps.thy ===== *)
theory PlanProps
  imports StateRefs Demo
begin

text \<open>What the plan of a run looks like, whatever the planner answers.\<close>

definition facets_numbered :: "str \<Rightarrow> facet list \<Rightarrow> bool" where
  "facets_numbered i fs \<longleftrightarrow> map f_id fs = map (\<lambda>n. i @ (lit ''f'') @ dec (n + 1)) [0..<length fs]"

definition planned :: "nat \<Rightarrow> subquestion \<Rightarrow> bool" where
  "planned limit q \<longleftrightarrow> sq_status q = PENDING \<and> sq_queries_tried q = [] \<and> sq_rounds_without_progress q = 0
     \<and> sq_facets q \<noteq> [] \<and> length (sq_facets q) \<le> limit \<and> facets_numbered (sq_id q) (sq_facets q)
     \<and> (\<forall>f\<in>set (sq_facets q). f_status f = F_OPEN)"

lemma normalise_facets_spec:
  assumes "facets_numbered i gs" and "length gs \<le> limit" and "\<forall>f\<in>set gs. f_status f = F_OPEN" and "gs = [] \<or> length gs < limit" and "0 < limit"
  shows "facets_numbered i (normalise_facets limit i fs gs) \<and> length (normalise_facets limit i fs gs) \<le> limit
    \<and> (\<forall>f\<in>set (normalise_facets limit i fs gs). f_status f = F_OPEN)"
  using assms
proof (induction limit i fs gs rule: normalise_facets.induct)
  case (2 limit i f fs gs)
  let ?name = "join (lit '' '') (split_ws (fo_name f))"
  let ?gs = "gs @ [new_facet (i @ (lit ''f'') @ dec (length gs + 1)) ?name (strip (fo_description f))]"
  show ?case
  proof (cases "?name = [] \<or> list_ex (\<lambda>g. 8 / 10 \<le> token_jaccard ?name (f_name g)) gs")
    case True
    then show ?thesis using "2.IH"(1)[OF refl True] "2.prems" by simp
  next
    case False
    have "facets_numbered i ?gs" "length ?gs \<le> limit" "\<forall>f\<in>set ?gs. f_status f = F_OPEN"
      using "2.prems" by (auto simp: facets_numbered_def new_facet_def)
    then show ?thesis using "2.IH"(2)[OF refl False refl] False "2.prems"(5) by (cases "limit \<le> length ?gs") (simp_all add: Let_def)
  qed
qed simp

lemma plan_subquestion_planned:
  assumes "1 \<le> limit"
  shows "planned limit (plan_subquestion limit i t c)"
proof -
  have "facets_numbered i []" by (simp add: facets_numbered_def)
  note s = normalise_facets_spec[OF this, of limit "qo_facets c"]
  show ?thesis using s assms
    by (auto simp: planned_def plan_subquestion_def new_subquestion_def Let_def facets_numbered_def new_facet_def)
qed

lemma keep_subquestions_spec:
  assumes "1 \<le> ps_max_facets_per_subquestion s" and "1 \<le> ps_max_subquestions s"
    and "length ss < ps_max_subquestions s" and "\<forall>q\<in>set ss. planned (ps_max_facets_per_subquestion s) q"
  shows "length (keep_subquestions s st cs ss) \<le> ps_max_subquestions s
    \<and> (\<forall>q\<in>set (keep_subquestions s st cs ss). planned (ps_max_facets_per_subquestion s) q)"
  using assms
  by (induction s st cs ss rule: keep_subquestions.induct) (auto simp: Let_def plan_subquestion_planned)

lemma ensure_must_spec:
  "length (ensure_must qs) = length qs" "qs \<noteq> [] \<Longrightarrow> \<exists>q\<in>set (ensure_must qs). sq_priority q = MUST"
  "\<forall>q\<in>set qs. planned l q \<Longrightarrow> \<forall>q\<in>set (ensure_must qs). planned l q"
  by (cases qs; auto simp: list_ex_iff planned_def)+

lemma planned_more: "planned l q \<Longrightarrow> l \<le> m \<Longrightarrow> planned m q"
  by (simp add: planned_def)

text \<open>
  C13. Whatever the planner answers, the run gets a plan it can work on: at least one and at most
  \<open>max_subquestions\<close> sub-questions, numbered \<open>s1\<close>, \<open>s2\<close>, one of them required; each has at least one
  open facet and nothing tried yet, its facets are numbered under it, and they are at most
  \<open>max_facets_per_subquestion\<close>, except that the plan made without a usable answer may have two when
  the limit is one. That plan is the question itself.
\<close>

theorem plan_within_bounds:
  assumes "plan_node predict s k st w = (Inr st', w')" and "plan_settings_ok s"
  shows "plan_numbered (rs_plan st') \<and> 1 \<le> length (rs_plan st') \<and> length (rs_plan st') \<le> ps_max_subquestions s
    \<and> (\<exists>q\<in>set (rs_plan st'). sq_priority q = MUST)
    \<and> ((\<forall>q\<in>set (rs_plan st'). planned (ps_max_facets_per_subquestion s) q)
        \<or> rs_plan st' = fallback_plan st \<and> (\<forall>q\<in>set (rs_plan st'). planned 2 q))
    \<and> st' = st\<lparr>rs_plan := rs_plan st'\<rparr>"
proof -
  have fb: "plan_numbered (fallback_plan st)" "length (fallback_plan st) = 1" "\<exists>q\<in>set (fallback_plan st). sq_priority q = MUST"
    "\<forall>q\<in>set (fallback_plan st). planned 2 q"
    by (simp_all add: fallback_plan_def plan_numbered_def new_subquestion_def new_facet_def planned_def facets_numbered_def next_id_def)
  have np: "normalise_plan s out st \<noteq> [] \<longrightarrow> length (normalise_plan s out st) \<le> ps_max_subquestions s
      \<and> (\<exists>q\<in>set (normalise_plan s out st). sq_priority q = MUST)
      \<and> (\<forall>q\<in>set (normalise_plan s out st). planned (ps_max_facets_per_subquestion s) q)" for out
  proof
    assume ne: "normalise_plan s out st \<noteq> []"
    let ?ks = "keep_subquestions s st (sort_key (\<lambda>q. if qo_priority q = MUST then 0 else 1 :: nat) (po_subquestions out)) []"
    have k: "length ?ks \<le> ps_max_subquestions s \<and> (\<forall>q\<in>set ?ks. planned (ps_max_facets_per_subquestion s) q)"
      by (rule keep_subquestions_spec) (use assms(2) in \<open>auto simp: plan_settings_ok_def\<close>)
    have "?ks \<noteq> []" using ne unfolding normalise_plan_def by auto
    then show "length (normalise_plan s out st) \<le> ps_max_subquestions s
      \<and> (\<exists>q\<in>set (normalise_plan s out st). sq_priority q = MUST)
      \<and> (\<forall>q\<in>set (normalise_plan s out st). planned (ps_max_facets_per_subquestion s) q)"
      unfolding normalise_plan_def ensure_must_spec(1)
      using k ensure_must_spec(2)[of ?ks] ensure_must_spec(3)[of ?ks] by blast
  qed
  have "\<exists>ss. st' = st\<lparr>rs_plan := ss\<rparr> \<and> (ss = fallback_plan st \<or> (\<exists>out. ss = normalise_plan s out st \<and> ss \<noteq> []))"
    using assms(1) by (auto simp: plan_node_def Let_def split: if_splits prod.splits sum.splits llm_exception.splits)
  then obtain ss where ss: "st' = st\<lparr>rs_plan := ss\<rparr>" "ss = fallback_plan st \<or> (\<exists>out. ss = normalise_plan s out st \<and> ss \<noteq> [])" by blast
  show ?thesis
  proof (cases "ss = fallback_plan st")
    case True
    then show ?thesis using ss(1) fb assms(2) by (simp add: plan_settings_ok_def)
  next
    case False
    then obtain out where o: "ss = normalise_plan s out st" "ss \<noteq> []" using ss(2) by blast
    have "1 \<le> length ss" using o(2) by (cases ss) auto
    then show ?thesis using ss(1) np[of out] o normalise_plan_numbered by auto
  qed
qed

theorem plan_within_bounds_witness:
  "\<exists>st' w'. plan_node (\<lambda>i k w. (Inl (LLM_failure (gateway_error LLM_TIMEOUT k [] None)), w)) default_plan_settings demo_sink
     demo_state demo_world = (Inr st', w') \<and> length (rs_plan st') = 1 \<and> plan_numbered (rs_plan st')"
proof -
  let ?p = "\<lambda>(i :: inputs) k (w :: llm_world). (Inl (LLM_failure (gateway_error LLM_TIMEOUT k [] None)) :: llm_exception + plan_output, w)"
  obtain w' where e: "plan_node ?p default_plan_settings demo_sink demo_state demo_world
      = (Inr (demo_state\<lparr>rs_plan := fallback_plan demo_state\<rparr>), w')"
    by (simp add: plan_node_def Let_def)
  have "plan_settings_ok default_plan_settings" by (simp add: plan_settings_ok_def default_plan_settings_def)
  note plan_within_bounds[OF e this]
  then show ?thesis using e by (simp add: fallback_plan_def)
qed

end
