(* ===== verification/Spec2Isabelle.thy ===== *)
theory Spec2Isabelle
  imports NumericProps GateDemo ClusterDemo RouterProps ConfigProps QuotesProps
    ExecutorProps SinkProps LlmProps GraphDemo EvidenceDemo ContradictionDemo
    SearchNodeProps ProcessProps ReportDemo MaskProps PlanProps
begin

text \<open>
  A verification development for the research agent, the Python package
  \<open>src/agent/src/research_agent\<close>. Paths below are relative to it.

  The program. A service accepts a research question, stores a run in a database, and replicas of the
  agent work it off. A replica claims a run under a lease, drives a graph of sixteen nodes over one
  research state (plan, queries, search, evidence, clusters of claims, coverage, report), and writes a
  timeline, counters and artifacts through the run repository, always under its lease. Language models
  and search engines are reached through gateways that retry, fall back and account for every call. A
  router ends the rounds; an output gate removes from the report what the ledger does not support.

  The model, one group of theories per part; in every theory the definitions carry the source's names.

  Prelude: dictionaries as association lists with insertion order (\<open>dget\<close>, \<open>dput\<close>), strings as lists of
  code points (\<open>str\<close>, \<open>lit\<close>), results \<open>error + 'a\<close> with \<open>rbind\<close>, JSON values.

  Contracts (\<open>contracts.py\<close>, \<open>errors.py\<close> and the YAML tables they load): run states, transitions, error
  codes. Runs, RunProps, RunOps (\<open>db/repository.py\<close>, \<open>db/models.py\<close>): the tables, every writing operation of
  the repository as a function of the database, the interleaving of writers as a step relation, and
  what holds for all of them: leases fence, terminal statuses are final, the timeline has no gap, a
  claim is exclusive. \<open>requeue\<close> reads in one statement and writes in others, so RunOps adds the calls under
  way to the steps (\<open>life_step\<close>): attempts are bounded but for writes on an outdated count. Events
  (\<open>observability/events.py\<close>), Redaction and RedactionProps (\<open>observability/redaction.py\<close>): what \<open>emit\<close>
  stores hides every match of the rules; the closing rows of \<open>finish\<close> are stored without it, as in the
  code. Executor, ExecutorProps
  (\<open>agent_server/executor.py\<close>, \<open>agent/runner.py\<close>): slots, dispatch, and one attempt from the accepted
  dispatch to the terminal write; the locale \<open>fenced_write\<close> is what an attempt relies on in its
  writes, interpreted on the repository's operations (\<open>worker\<close>).

  Text, Rx (\<open>agent/text.py\<close> and the regular expressions of the package: a backtracking matcher in
  continuation style, with character positions), Numeric, NumericProps (\<open>gate/numeric.py\<close>): quantities
  read from text and their comparison. Quotes, QuotesProps (\<open>agent/quotes.py\<close>): a quote is on the page,
  exactly or closely; \<open>difflib.SequenceMatcher\<close> is written out. Urls (\<open>agent/dedup/urls.py\<close>). Dates:
  ordinals and ISO form of dates.

  State (\<open>agent/state.py\<close>): the models of the research state as records. UnionFind (the locale
  \<open>grouping\<close>, interpreted on the link-to-the-smaller forest both callers use), Clustering, ClusterLemmas,
  ClusterPlacing, ClusterProps (\<open>agent/clustering.py\<close>): independent origins, support, confidence, the
  placing of claims. Dedup, DedupProps (\<open>agent/dedup\<close>): query deduplication, MinHash origins,
  syndicated copies. Coverage, CoverageProps (\<open>agent/coverage.py\<close>): when a facet is sufficient and how a
  sub-question ends. Router, RouterProps (\<open>agent/budget.py\<close>, \<open>agent/termination.py\<close>): the meter and the
  decision to go on. GateRules, GateRunner, GateProps (\<open>gate/rules.py\<close>, \<open>gate/runner.py\<close>): the twelve
  rules, the remediation and the verdict. Settings, Config, ConfigProps (\<open>config\<close>): the schema with its
  defaults and bounds, and the layers a setting is resolved from.

  Scoring, Freshness, Validation, Contradictions (\<open>agent/scoring.py\<close>, \<open>agent/freshness.py\<close>,
  \<open>agent/injection.py\<close>, \<open>agent/legal_authority.py\<close>, \<open>agent/validation.py\<close>, \<open>agent/contradictions.py\<close>):
  the score of a source, dates and passages that limit a claim, the verdict on a claim, and which findings
  may contradict each other. Masking, MaskProps (\<open>pii/masking.py\<close>): identifiers of the question become
  placeholders. Skills (\<open>prompting/skills.py\<close>): parsing, selection and guidance of skills.

  Sink, SinkProps (\<open>agent/runtime.py\<close>): timeline, call log and caches in memory beside their database
  versions. LlmGateway, LlmProps (\<open>providers/llm\<close>): one model call through the chain of providers.
  SearchGateway, SearchProps (\<open>providers/search\<close>): one logical search, cached, with its fallbacks.
  Embedder (\<open>providers/embeddings.py\<close>): vectors from one model per run, or none.

  The sixteen nodes, in the order of the graph. Intake, PlanProps (\<open>agent/nodes/intake.py\<close>): the question is
  accepted and masked, analysed, and planned. HeuristicNodes (\<open>agent/nodes/heuristics.py\<close>): the visible
  reviews. QueryNode, SearchNode, SearchNodeProps, ProcessNode, ProcessProps (\<open>agent/nodes/search.py\<close>): queries,
  searches, and the library of documents. EvidenceNodes, EvidenceProps, ValidationProps, ContradictionNode,
  ContradictionProps (\<open>agent/nodes/evidence.py\<close>): scores, claims, clusters, contradictions. CoverageNode
  (\<open>agent/nodes/coverage.py\<close>): progress and the decision. ReportBuild, ReportNode, ReportProps
  (\<open>agent/nodes/report.py\<close>): the draft, the verification of its citations, the gate. NodeBase holds what
  the nodes share. Every node is a function of the state and of one world of effects (timeline, meter,
  call log, caches), and returns a state or an exception.

  Graph, StateRefs, GraphProps, LookupProps (\<open>agent/graph.py\<close>): the wrapper around every node and the
  run of the graph. StateRefs states what makes a research state well typed (\<open>refs_ok\<close>: every id one table
  mentions names an entry of the table it refers to) and what each node does to it; GraphProps composes this
  over the run and shows that the run ends; LookupProps shows what the typing is good for. The theories
  named Demo hold concrete states on which the properties are applied.

  Loops. \<open>finditer\<close>, \<open>sub\<close> and \<open>strip_all\<close> have the characters left as fuel, and lemmas that every loop
  of theirs ends within it; \<open>find_root\<close> has the number of links (\<open>find_root_unfold\<close> says it is enough);
  a fresh cluster id is found within one more try than there are clusters. The retry loop of the LLM
  gateway (\<open>provider_loop\<close>), the matched blocks of a quote (\<open>matched\<close>) and the retry of an empty search
  (\<open>run_query\<close>) are functions with a measure.
  \<open>run_graph\<close> has LangGraph's recursion limit as fuel, and \<open>research_run_ends\<close> says a run never uses it up.

  What is a parameter. Third-party code and services: SHA-256, MinHash and the LSH index, embeddings,
  the answers of models and their parsing, HTTP, encryption, YAML and pydantic validation. The clock,
  fresh ids and the iteration order of Python sets are arguments. Simplifications, none of which a
  theorem relies on silently: floats are reals; code points stay below U+0180 where case matters;
  Unicode normalisation is the identity; IPv6 literals in URLs are refused; a coroutine runs
  without interleaving inside one operation, while writers of different processes interleave in the
  step relation of RunProps.

  Concurrency inside a node. The tasks of one \<open>asyncio.gather\<close> run each in one piece, in an order the
  environment chooses (\<open>schedules\<close>); the properties of the run hold for every order that is a permutation
  (\<open>fair\<close>). In the code no await lies between the check of the search budget and its charge.

  Not modelled: the HTTP clients of the providers and one HTTP fetch of a page, FastAPI routes and the command
  line, logging and tracing back ends, engine set-up and the LangGraph checkpointer, the assembly of a run from
  these, rendering to Markdown, prompt texts and the scripted demonstration. They are I/O or formatting around
  the modelled parts, or third-party code.
\<close>

end
